(* ===== verification/Prelude.thy ===== *)
theory Prelude
  imports Main "HOL-Library.Char_ord" "HOL-Library.List_Lexorder"
begin

text \<open>
  Shared vocabulary of the development: errors as values, the result type of the
  fallible code, JavaScript values, and the lemma collections the component theories
  extend.

  A JavaScript string is modelled as an Isabelle \<^typ>\<open>string\<close>: a list of code
  units below 256. Code units from 256 up do not occur in the model.

  A JavaScript number is an integral double below \<open>10^21\<close> in magnitude (\<open>NInt\<close>,
  with -0 identified with 0), any other finite double (\<open>NDec\<close>, carried as the text that
  \<open>String(v)\<close> prints), NaN or an infinity.
\<close>

named_theorems result_simps \<open>rewriting of the result combinators\<close>
named_theorems js_simps \<open>evaluation of the JavaScript value operations\<close>

section \<open>Errors as values\<close>

text \<open>
  One constructor per error class the code distinguishes. The string is the fixed part
  of the source's message, up to its first interpolated value. \<open>ProtocolError\<close> and its codes belong to
  the SDK.
\<close>

datatype protocol_code = InvalidParams | InternalError | OtherCode int

datatype js_error =
    ValidationError string
  | RangeError string
  | TypeError string
  | GenericError string
  | RpcError int string
  | RpcDeadlineError int
  | SubmissionOutcomeUnknownError string
  | RateLimitError string
  | OperationAbortedError
  | HttpRequestError nat string
  | NetworkError string
  | ProtocolError protocol_code string

text \<open>\<open>error.message\<close>\<close>

primrec error_message :: "js_error \<Rightarrow> string" where
  "error_message (ValidationError m) = m"
| "error_message (RangeError m) = m"
| "error_message (TypeError m) = m"
| "error_message (GenericError m) = m"
| "error_message (RpcError c m) = m"
| "error_message (RpcDeadlineError n) = ''RPC request timed out after ''"
| "error_message (SubmissionOutcomeUnknownError t) = ''Transaction submission ''"
| "error_message (RateLimitError m) = m"
| "error_message OperationAbortedError = ''Operation aborted''"
| "error_message (HttpRequestError code m) = m"
| "error_message (NetworkError m) = m"
| "error_message (ProtocolError c m) = m"

type_synonym 'a result = "js_error + 'a"

definition bindR :: "'a result \<Rightarrow> ('a \<Rightarrow> 'b result) \<Rightarrow> 'b result" where
  "bindR m f = (case m of Inl e \<Rightarrow> Inl e | Inr a \<Rightarrow> f a)"

fun mapR :: "('a \<Rightarrow> 'b result) \<Rightarrow> 'a list \<Rightarrow> 'b list result" where
  "mapR f [] = Inr []"
| "mapR f (x # xs) = bindR (f x) (\<lambda>y. bindR (mapR f xs) (\<lambda>ys. Inr (y # ys)))"

lemma bindR_Inl [simp, result_simps]: "bindR (Inl e) f = Inl e"
  by (simp add: bindR_def)

lemma bindR_Inr [simp, result_simps]: "bindR (Inr a) f = f a"
  by (simp add: bindR_def)

lemma bindR_eq_Inr [result_simps]: "bindR m f = Inr b \<longleftrightarrow> (\<exists>a. m = Inr a \<and> f a = Inr b)"
  by (cases m) auto

lemma bindR_eq_Inl [result_simps]:
  "bindR m f = Inl e \<longleftrightarrow> m = Inl e \<or> (\<exists>a. m = Inr a \<and> f a = Inl e)"
  by (cases m) auto

lemma if_eq_Inr [result_simps]:
  "(if c then Inl e else m) = Inr b \<longleftrightarrow> \<not> c \<and> m = Inr b"
  "(if c then m else Inl e) = Inr b \<longleftrightarrow> c \<and> m = Inr b"
  by auto

lemma bindR_cong [fundef_cong]:
  "m = m' \<Longrightarrow> (\<And>a. m' = Inr a \<Longrightarrow> f a = f' a) \<Longrightarrow> bindR m f = bindR m' f'"
  by (cases m') auto

lemma mapR_Inr_iff: "mapR f xs = Inr ys \<longleftrightarrow> list_all2 (\<lambda>x y. f x = Inr y) xs ys"
  by (induction xs arbitrary: ys) (auto simp: result_simps list_all2_Cons1)

lemma mapR_Inr_length: "mapR f xs = Inr ys \<Longrightarrow> length ys = length xs"
  by (simp add: mapR_Inr_iff list_all2_lengthD)

lemma mapR_Inr_in: "mapR f xs = Inr ys \<Longrightarrow> y \<in> set ys \<Longrightarrow> \<exists>x \<in> set xs. f x = Inr y"
  by (induction xs arbitrary: ys) (auto simp: result_simps)

lemma mapR_cong [fundef_cong]:
  "xs = ys \<Longrightarrow> (\<And>x. x \<in> set ys \<Longrightarrow> f x = g x) \<Longrightarrow> mapR f xs = mapR g ys"
proof (induction ys arbitrary: xs)
  case Nil
  then show ?case by simp
next
  case (Cons y ys)
  then have "mapR f ys = mapR g ys" by simp
  with Cons.prems show ?case by simp
qed

section \<open>JavaScript values\<close>

datatype jsnum = NInt int | NDec string | NaN | NInf bool

text \<open>
  An object is the list of its own enumerable properties in \<open>Object.keys\<close> order.
  \<open>JObj\<close> has the prototype \<open>Object.prototype\<close> or none, \<open>JInst\<close> any other prototype;
  \<open>JBytes\<close> is a \<open>Uint8Array\<close>; \<open>JToJson kvs v\<close> is an object with own properties \<open>kvs\<close>
  whose prototype has a \<open>toJson\<close> method that returns \<open>v\<close>.
\<close>

datatype jsval =
    JUndef
  | JNull
  | JBool bool
  | JNum jsnum
  | JBig int
  | JStr string
  | JArr "jsval list"
  | JObj "(string \<times> jsval) list"
  | JInst "(string \<times> jsval) list"
  | JBytes "nat list"
  | JToJson "(string \<times> jsval) list" jsval
  | JRegExp
  | JFun
  | JSym

type_synonym jsobj = "(string \<times> jsval) list"

definition maxSafeInteger :: int where
  "maxSafeInteger = 9007199254740991"

fun isSafeInteger :: "jsnum \<Rightarrow> bool" where
  "isSafeInteger (NInt i) = (\<bar>i\<bar> \<le> maxSafeInteger)"
| "isSafeInteger _ = False"

fun isFinite :: "jsnum \<Rightarrow> bool" where
  "isFinite (NInt _) = True"
| "isFinite (NDec _) = True"
| "isFinite _ = False"

text \<open>\<open>value === undefined || value === null\<close>.\<close>

fun nullish :: "jsval \<Rightarrow> bool" where
  "nullish JUndef = True"
| "nullish JNull = True"
| "nullish _ = False"

text \<open>\<open>!value\<close> is \<open>\<not> truthy value\<close>.\<close>

fun truthy :: "jsval \<Rightarrow> bool" where
  "truthy JUndef = False"
| "truthy JNull = False"
| "truthy (JBool b) = b"
| "truthy (JNum n) = (n \<noteq> NInt 0 \<and> n \<noteq> NaN)"
| "truthy (JBig n) = (n \<noteq> 0)"
| "truthy (JStr s) = (s \<noteq> [])"
| "truthy _ = True"

text \<open>Own property read \<open>o[k]\<close>: an absent key reads as \<open>undefined\<close>.\<close>

definition oget :: "jsobj \<Rightarrow> string \<Rightarrow> jsval" where
  "oget kvs k = (case map_of kvs k of None \<Rightarrow> JUndef | Some v \<Rightarrow> v)"

lemma oget_Nil [simp, js_simps]: "oget [] k = JUndef"
  by (simp add: oget_def)

lemma oget_Cons [simp, js_simps]: "oget ((k', v) # kvs) k = (if k = k' then v else oget kvs k)"
  by (simp add: oget_def)

lemma oget_notin: "k \<notin> fst ` set kvs \<Longrightarrow> oget kvs k = JUndef"
  by (auto simp: oget_def map_of_eq_None_iff split: option.splits dest: map_of_SomeD intro: rev_image_eqI)

section \<open>Bounds by clamping\<close>

text \<open>\<open>Math.min(Math.max(value, lo), hi)\<close>, the clamp every page bound uses.\<close>

definition clamp :: "int \<Rightarrow> int \<Rightarrow> int \<Rightarrow> int" where
  "clamp lo hi v = min (max v lo) hi"

lemma clamp_bounds: "lo \<le> hi \<Longrightarrow> lo \<le> clamp lo hi v \<and> clamp lo hi v \<le> hi"
  by (auto simp: clamp_def)

lemma clamp_id: "lo \<le> v \<Longrightarrow> v \<le> hi \<Longrightarrow> clamp lo hi v = v"
  by (auto simp: clamp_def)

end
