(* ===== verification/Strings.thy ===== *)
theory Strings
  imports Prelude
begin

text \<open>
  String operations of JavaScript that the code uses (\<open>trim\<close>, \<open>toLowerCase\<close>,
  \<open>startsWith\<close>, \<open>split\<close>, \<open>join\<close>, \<open>padStart\<close>, \<open>padEnd\<close>), the character classes of its
  regular expressions, and integers written in a base between 2 and 16, with the round
  trips between numbers and text.
\<close>

section \<open>Characters\<close>

definition cc :: "char \<Rightarrow> nat" where
  "cc c = of_char c"

lemma cc_inj [simp]: "cc c = cc d \<longleftrightarrow> c = d"
  by (simp add: cc_def)

lemma cc_char_of [simp]: "n < 256 \<Longrightarrow> cc (char_of n) = n"
  by (simp add: cc_def)

lemma cc_less: "cc c < 256"
  by (simp add: cc_def)

definition is_digit :: "char \<Rightarrow> bool" where
  "is_digit c \<longleftrightarrow> 48 \<le> cc c \<and> cc c \<le> 57"

definition is_lower_hex :: "char \<Rightarrow> bool" where
  "is_lower_hex c \<longleftrightarrow> is_digit c \<or> (97 \<le> cc c \<and> cc c \<le> 102)"

definition is_hex :: "char \<Rightarrow> bool" where
  "is_hex c \<longleftrightarrow> is_lower_hex c \<or> (65 \<le> cc c \<and> cc c \<le> 70)"

definition is_alpha :: "char \<Rightarrow> bool" where
  "is_alpha c \<longleftrightarrow> (65 \<le> cc c \<and> cc c \<le> 90) \<or> (97 \<le> cc c \<and> cc c \<le> 122)"

definition is_alnum :: "char \<Rightarrow> bool" where
  "is_alnum c \<longleftrightarrow> is_alpha c \<or> is_digit c"

definition base58_char :: "char \<Rightarrow> bool" where
  "base58_char c \<longleftrightarrow> is_alnum c \<and> c \<notin> set ''0OIl''"

text \<open>White space of \<open>trim\<close> and \<open>\s\<close>: TAB, LF, VT, FF, CR, space and no-break space.\<close>

definition is_ws :: "char \<Rightarrow> bool" where
  "is_ws c \<longleftrightarrow> (9 \<le> cc c \<and> cc c \<le> 13) \<or> cc c = 32 \<or> cc c = 160"

definition lower_char :: "char \<Rightarrow> char" where
  "lower_char c = (if (65 \<le> cc c \<and> cc c \<le> 90) \<or> (192 \<le> cc c \<and> cc c \<le> 222 \<and> cc c \<noteq> 215)
     then char_of (cc c + 32) else c)"

definition upper_char :: "char \<Rightarrow> char" where
  "upper_char c = (if (97 \<le> cc c \<and> cc c \<le> 122) \<or> (224 \<le> cc c \<and> cc c \<le> 254 \<and> cc c \<noteq> 247)
     then char_of (cc c - 32) else c)"

definition to_lower :: "string \<Rightarrow> string" where
  "to_lower s = map lower_char s"

definition to_upper :: "string \<Rightarrow> string" where
  "to_upper s = map upper_char s"

lemma lower_hex_hex [simp]: "is_lower_hex c \<Longrightarrow> is_hex c"
  by (simp add: is_hex_def)

lemma digit_lower_hex [simp]: "is_digit c \<Longrightarrow> is_lower_hex c"
  by (simp add: is_lower_hex_def)

lemma lower_char_hex: "is_hex c \<Longrightarrow> is_lower_hex (lower_char c)"
  by (auto simp: is_hex_def is_lower_hex_def is_digit_def lower_char_def)

lemma lower_char_lower_hex [simp]: "is_lower_hex c \<Longrightarrow> lower_char c = c"
  by (auto simp: is_lower_hex_def is_digit_def lower_char_def)

lemma lower_char_idem [simp]: "lower_char (lower_char c) = lower_char c"
  by (auto simp: lower_char_def)

lemma lower_char_other: "lower_char c = d \<Longrightarrow> cc d < 97 \<Longrightarrow> c = d"
  using cc_char_of [of "cc c + 32"] by (auto simp: lower_char_def split: if_splits)

lemma length_to_lower [simp]: "length (to_lower s) = length s"
  by (simp add: to_lower_def)

lemma to_lower_idem [simp]: "to_lower (to_lower s) = to_lower s"
  by (simp add: to_lower_def)

lemma to_lower_append [simp]: "to_lower (s @ t) = to_lower s @ to_lower t"
  by (simp add: to_lower_def)

lemma to_lower_hex: "list_all is_hex s \<Longrightarrow> list_all is_lower_hex (to_lower s)"
  by (induction s) (auto simp: to_lower_def lower_char_hex)

lemma to_lower_id: "list_all is_lower_hex s \<Longrightarrow> to_lower s = s"
  by (induction s) (auto simp: to_lower_def)

section \<open>Trimming, splitting, joining, padding\<close>

definition trim :: "string \<Rightarrow> string" where
  "trim s = rev (dropWhile is_ws (rev (dropWhile is_ws s)))"

lemma set_trim: "set (trim s) \<subseteq> set s"
  unfolding trim_def by (metis set_dropWhileD set_rev subset_iff)

lemma trim_id: "\<not> list_ex is_ws s \<Longrightarrow> trim s = s"
proof -
  assume a: "\<not> list_ex is_ws s"
  have drop_id: "\<not> list_ex is_ws t \<Longrightarrow> dropWhile is_ws t = t" for t
    by (cases t) auto
  from a have "\<not> list_ex is_ws (rev s)" by (simp add: list_ex_iff)
  then show ?thesis using a by (simp add: trim_def drop_id)
qed

definition starts_with :: "string \<Rightarrow> string \<Rightarrow> bool" where
  "starts_with s p \<longleftrightarrow> take (length p) s = p"

lemma starts_with_append [simp]: "starts_with (p @ s) p"
  by (simp add: starts_with_def)

lemma starts_withD: "starts_with s p \<Longrightarrow> s = p @ drop (length p) s"
  by (metis append_take_drop_id starts_with_def)

fun split_on :: "char \<Rightarrow> string \<Rightarrow> string list" where
  "split_on d [] = [[]]"
| "split_on d (c # cs) =
     (if c = d then [] # split_on d cs
      else (case split_on d cs of [] \<Rightarrow> [[c]] | w # ws \<Rightarrow> (c # w) # ws))"

lemma split_on_nonempty [simp]: "split_on d s \<noteq> []"
  by (induction s) (auto split: list.splits)

lemma split_on_none: "d \<notin> set s \<Longrightarrow> split_on d s = [s]"
  by (induction s) auto

lemma split_on_append: "d \<notin> set s \<Longrightarrow> split_on d (s @ d # t) = s # split_on d t"
  by (induction s) auto

fun join_with :: "string \<Rightarrow> string list \<Rightarrow> string" where
  "join_with sep [] = []"
| "join_with sep [w] = w"
| "join_with sep (w # ws) = w @ sep @ join_with sep ws"

lemma split_join: "\<forall>w \<in> set ws. d \<notin> set w \<Longrightarrow> ws \<noteq> [] \<Longrightarrow> split_on d (join_with [d] ws) = ws"
  by (induction "[d]" ws rule: join_with.induct) (auto simp: split_on_none split_on_append)

text \<open>
  \<open>template.split(pat).join(rep)\<close>: every non-overlapping occurrence of \<open>pat\<close> (never empty
  in the code) replaced from the left.
\<close>

function replace_all :: "string \<Rightarrow> string \<Rightarrow> string \<Rightarrow> string" where
  "replace_all pat rep [] = []"
| "replace_all pat rep (c # cs) =
     (if pat \<noteq> [] \<and> starts_with (c # cs) pat
      then rep @ replace_all pat rep (drop (length pat) (c # cs))
      else c # replace_all pat rep cs)"
  by pat_completeness auto
termination
  by (relation "measure (\<lambda>(pat, rep, s). length s)") auto

fun includes_str :: "string \<Rightarrow> string \<Rightarrow> bool" where
  "includes_str [] pat = (pat = [])"
| "includes_str (c # cs) pat = (starts_with (c # cs) pat \<or> includes_str cs pat)"

definition pad_start :: "nat \<Rightarrow> char \<Rightarrow> string \<Rightarrow> string" where
  "pad_start n c s = replicate (n - length s) c @ s"

definition pad_end :: "nat \<Rightarrow> char \<Rightarrow> string \<Rightarrow> string" where
  "pad_end n c s = s @ replicate (n - length s) c"

lemma length_pad_start [simp]: "length (pad_start n c s) = max n (length s)"
  by (simp add: pad_start_def)

lemma length_pad_end [simp]: "length (pad_end n c s) = max n (length s)"
  by (simp add: pad_end_def)

section \<open>Numbers as text\<close>

definition digit_char :: "nat \<Rightarrow> char" where
  "digit_char d = char_of (if d < 10 then 48 + d else 87 + d)"

definition digit_val :: "char \<Rightarrow> nat" where
  "digit_val c = (if cc c \<le> 57 then cc c - 48 else if cc c \<le> 70 then cc c - 55 else cc c - 87)"

fun nat_str :: "nat \<Rightarrow> nat \<Rightarrow> string" where
  "nat_str b n = (if b < 2 \<or> n < b then [digit_char n]
     else nat_str b (n div b) @ [digit_char (n mod b)])"

declare nat_str.simps [simp del]

definition str_nat :: "nat \<Rightarrow> string \<Rightarrow> nat" where
  "str_nat b s = foldl (\<lambda>a c. a * b + digit_val c) 0 s"

abbreviation dec_str :: "nat \<Rightarrow> string" where "dec_str \<equiv> nat_str 10"
abbreviation hex_str :: "nat \<Rightarrow> string" where "hex_str \<equiv> nat_str 16"
abbreviation str_dec :: "string \<Rightarrow> nat" where "str_dec \<equiv> str_nat 10"
abbreviation str_hex :: "string \<Rightarrow> nat" where "str_hex \<equiv> str_nat 16"

definition int_str :: "int \<Rightarrow> string" where
  "int_str i = (if i < 0 then CHR ''-'' # dec_str (nat (- i)) else dec_str (nat i))"

lemma digit_val_char [simp]: "d < 16 \<Longrightarrow> digit_val (digit_char d) = d"
  by (simp add: digit_val_def digit_char_def)

lemma digit_char_digit: "d < 10 \<Longrightarrow> is_digit (digit_char d)"
  by (simp add: is_digit_def digit_char_def)

lemma digit_char_hex: "d < 16 \<Longrightarrow> is_lower_hex (digit_char d)"
  by (simp add: is_lower_hex_def is_digit_def digit_char_def)

lemma digit_char_val: "is_lower_hex c \<Longrightarrow> digit_char (digit_val c) = c"
  by (auto simp: is_lower_hex_def is_digit_def digit_char_def digit_val_def cc_def)

lemma digit_val_less: "is_digit c \<Longrightarrow> digit_val c < 10"
  by (auto simp: is_digit_def digit_val_def)

lemma hex_val_less: "is_hex c \<Longrightarrow> digit_val c < 16"
  by (auto simp: is_hex_def is_lower_hex_def is_digit_def digit_val_def)

lemma digit_val_lower: "is_hex c \<Longrightarrow> digit_val (lower_char c) = digit_val c"
  by (auto simp: is_hex_def is_lower_hex_def is_digit_def digit_val_def lower_char_def)

lemma cc_zero [simp]: "cc (CHR ''0'') = 48"
  by (simp add: cc_def)

lemma digit_val_eq_0: "is_lower_hex c \<Longrightarrow> digit_val c = 0 \<longleftrightarrow> c = CHR ''0''"
  unfolding cc_inj [symmetric, of c]
  by (auto simp: is_lower_hex_def is_digit_def digit_val_def cc_zero)

lemma str_nat_Nil [simp]: "str_nat b [] = 0"
  by (simp add: str_nat_def)

lemma str_nat_snoc [simp]: "str_nat b (s @ [c]) = str_nat b s * b + digit_val c"
  by (simp add: str_nat_def)

lemma str_nat_append: "str_nat b (s @ t) = str_nat b s * b ^ length t + str_nat b t"
proof (induction t rule: rev_induct)
  case (snoc c t)
  then show ?case
    by (simp add: append_assoc [symmetric] algebra_simps del: append_assoc)
qed simp

lemma str_nat_Cons: "str_nat b (c # s) = digit_val c * b ^ length s + str_nat b s"
  using str_nat_append [of b "[c]" s] by (simp add: str_nat_def)

lemma nat_str_less: "n < b \<Longrightarrow> nat_str b n = [digit_char n]"
  by (simp add: nat_str.simps)

lemma nat_str_ge: "2 \<le> b \<Longrightarrow> b \<le> n \<Longrightarrow> nat_str b n = nat_str b (n div b) @ [digit_char (n mod b)]"
  by (subst nat_str.simps) simp

lemma nat_str_induct [consumes 1, case_names small large]:
  assumes "2 \<le> b"
    and "\<And>n. n < b \<Longrightarrow> P n"
    and "\<And>n. b \<le> n \<Longrightarrow> P (n div b) \<Longrightarrow> P n"
  shows "P (n::nat)"
proof (induction n rule: less_induct)
  case (less n)
  show ?case
  proof (cases "n < b")
    case False
    with assms(1) have "n div b < n" by simp
    with False less assms(3) show ?thesis by (meson not_less)
  qed (rule assms(2))
qed

lemma str_nat_nat_str:
  assumes "2 \<le> b" "b \<le> 16"
  shows "str_nat b (nat_str b n) = n"
  using assms(1)
proof (induction n rule: nat_str_induct)
  case (small n)
  with assms show ?case by (simp add: nat_str_less str_nat_def)
next
  case (large n)
  with assms have "n mod b < 16" by (auto intro: less_le_trans [OF mod_less_divisor])
  with large assms show ?case by (simp add: nat_str_ge)
qed

lemma str_dec_dec_str [simp]: "str_dec (dec_str n) = n"
  by (simp add: str_nat_nat_str)

lemma str_hex_hex_str [simp]: "str_hex (hex_str n) = n"
  by (simp add: str_nat_nat_str)

lemma dec_str_inj [simp]: "dec_str m = dec_str n \<longleftrightarrow> m = n"
  by (metis str_dec_dec_str)

lemma nat_str_nonempty [simp]: "nat_str b n \<noteq> []"
  by (subst nat_str.simps) simp

lemma nat_str_digits:
  assumes "2 \<le> b" "\<And>d. d < b \<Longrightarrow> p (digit_char d)"
  shows "list_all p (nat_str b n)"
  using assms(1)
proof (induction n rule: nat_str_induct)
  case (small n)
  then show ?case by (simp add: nat_str_less assms(2))
next
  case (large n)
  with assms show ?case by (simp add: nat_str_ge)
qed

lemma dec_str_digits: "list_all is_digit (dec_str n)"
  by (rule nat_str_digits) (auto simp: digit_char_digit)

lemma hex_str_hex: "list_all is_lower_hex (hex_str n)"
  by (rule nat_str_digits) (auto simp: digit_char_hex)

lemma length_nat_str_le:
  assumes "2 \<le> b" "n < b ^ k" "0 < k"
  shows "length (nat_str b n) \<le> k"
  using assms(1-3)
proof (induction n arbitrary: k rule: nat_str_induct)
  case (small n)
  then show ?case by (simp add: nat_str_less)
next
  case (large n)
  have "k \<noteq> 1" using large.hyps large.prems by auto
  with large.prems have "1 < k" by simp
  then obtain j where j: "k = Suc j" "0 < j" by (cases k) auto
  with large.prems have "n div b < b ^ j"
    by (simp add: less_mult_imp_div_less mult.commute)
  with large.IH j have "length (nat_str b (n div b)) \<le> j" by simp
  with assms(1) large.hyps j show ?case by (simp add: nat_str_ge)
qed

text \<open>Numerals without a superfluous leading zero are their own canonical text.\<close>

definition canonical_digits :: "string \<Rightarrow> bool" where
  "canonical_digits s \<longleftrightarrow> s \<noteq> [] \<and> (hd s = CHR ''0'' \<longrightarrow> s = ''0'')"

lemma str_nat_less: "2 \<le> b \<Longrightarrow> list_all (\<lambda>c. digit_val c < b) s \<Longrightarrow> str_nat b s < b ^ length s"
proof (induction s rule: rev_induct)
  case (snoc c s)
  then have s: "Suc (str_nat b s) \<le> b ^ length s" and c: "digit_val c < b" by auto
  from c have "str_nat b (s @ [c]) < Suc (str_nat b s) * b" by simp
  also from s have "\<dots> \<le> b ^ length s * b" by (rule mult_le_mono1)
  finally show ?case by (simp add: mult.commute)
qed simp

lemma nat_str_str_nat:
  assumes "2 \<le> b" "b \<le> 16"
    and "list_all is_lower_hex s" "list_all (\<lambda>c. digit_val c < b) s" "canonical_digits s"
  shows "nat_str b (str_nat b s) = s"
  using assms(3-5)
proof (induction s rule: rev_induct)
  case Nil
  then show ?case by (simp add: canonical_digits_def)
next
  case (snoc c s)
  show ?case
  proof (cases "s = []")
    case True
    with snoc.prems assms show ?thesis by (simp add: nat_str_less str_nat_def digit_char_val)
  next
    case False
    with snoc.prems have can: "canonical_digits s" and hd0: "hd s \<noteq> CHR ''0''"
      by (auto simp: canonical_digits_def)
    with False snoc.prems have "digit_val (hd s) \<noteq> 0"
      by (cases s) (auto simp: digit_val_eq_0)
    with False assms(1) have "0 < str_nat b s" by (cases s) (auto simp: str_nat_Cons)
    with assms(1) have "b \<le> str_nat b s * b + digit_val c" by (cases "str_nat b s") auto
    moreover from snoc.prems have "digit_val c < b" by simp
    ultimately show ?thesis
      using snoc can assms(1) by (simp add: nat_str_ge digit_char_val)
  qed
qed

lemma dec_str_canonical: "canonical_digits (dec_str n)"
proof -
  have "2 \<le> (10::nat)" by simp
  then have "hd (dec_str n) = CHR ''0'' \<longrightarrow> dec_str n = ''0''"
  proof (induction n rule: nat_str_induct)
    case (small n)
    then show ?case by (auto simp: nat_str_less digit_char_def cc_def)
  next
    case (large n)
    have eq: "dec_str n = dec_str (n div 10) @ [digit_char (n mod 10)]"
      by (rule nat_str_ge) (use large.hyps in auto)
    have "dec_str (n div 10) \<noteq> ''0''"
    proof
      assume "dec_str (n div 10) = ''0''"
      then have "str_dec (dec_str (n div 10)) = 0" by (simp add: str_nat_def digit_val_def cc_def)
      with large.hyps show False by simp
    qed
    with large.IH show ?case unfolding eq by (simp add: hd_append)
  qed
  then show ?thesis by (simp add: canonical_digits_def)
qed

lemma dec_str_str_dec:
  "list_all is_digit s \<Longrightarrow> canonical_digits s \<Longrightarrow> dec_str (str_dec s) = s"
  by (rule nat_str_str_nat) (auto simp: list_all_iff digit_val_less)

text \<open>Prefixing zeros never changes a value.\<close>

lemma str_nat_zeros [simp]: "str_nat b (replicate k (CHR ''0'') @ s) = str_nat b s"
  by (induction k) (auto simp: str_nat_Cons digit_val_def cc_def)

lemma str_nat_zeros_right: "str_nat b (s @ replicate k (CHR ''0'')) = str_nat b s * b ^ k"
  using str_nat_zeros [of b k "[]"] by (simp add: str_nat_append)

lemma str_hex_lower: "list_all is_hex s \<Longrightarrow> str_hex (to_lower s) = str_hex s"
  by (induction s rule: rev_induct) (auto simp: to_lower_def digit_val_lower)

end
