(* ===== verification/KnownAccounts.thy ===== *)
theory KnownAccounts
  imports Strings
begin

text \<open>
  src/metadata/known-accounts.ts: script hashes in their normal form and the two native tokens with
  the data a tool shows for them. The address functions of neon-js are parameters: \<open>isAddress\<close> and
  \<open>hashOf\<close> (\<open>getScriptHashFromAddress\<close>), and \<open>addressOf\<close> (\<open>getAddressFromScriptHash\<close>); the last two
  may throw, which is \<open>None\<close>. A reference that is not a string is \<open>None\<close> as well: the functions take
  it for an empty one.
\<close>

section \<open>Script hashes\<close>

definition lower_hash :: "string \<Rightarrow> bool" where
  "lower_hash s \<longleftrightarrow> length s = 40 \<and> list_all is_lower_hex s"

definition normalizeScriptHash :: "string option \<Rightarrow> string option" where
  "normalizeScriptHash v =
     (case v of
        None \<Rightarrow> None
      | Some s \<Rightarrow>
          let normalized = to_lower (trim s) in
          if starts_with normalized ''0x'' \<and> lower_hash (drop 2 normalized) then Some normalized
          else if lower_hash normalized then Some (''0x'' @ normalized)
          else None)"

definition tryGetScriptHashFromAddress ::
    "(string \<Rightarrow> bool) \<Rightarrow> (string \<Rightarrow> string option) \<Rightarrow> string option \<Rightarrow> string option" where
  "tryGetScriptHashFromAddress isAddress hashOf address =
     (case address of
        None \<Rightarrow> None
      | Some a \<Rightarrow> if a = [] \<or> \<not> isAddress a then None else normalizeScriptHash (hashOf a))"

definition tryGetAddressFromScriptHash :: "(string \<Rightarrow> string option) \<Rightarrow> string option \<Rightarrow> string option" where
  "tryGetAddressFromScriptHash addressOf scriptHash =
     (case normalizeScriptHash scriptHash of None \<Rightarrow> None | Some h \<Rightarrow> addressOf (drop 2 h))"

section \<open>Known accounts\<close>

datatype account_kind = Native_token | Contract_kind | Account_kind

record known_account =
  k_id :: string
  k_name :: string
  k_kind :: account_kind
  k_symbol :: "string option"
  k_logoText :: string
  k_background :: string
  k_foreground :: "string option"
  k_scriptHashes :: "(string \<times> string) list"

record account_metadata =
  m_id :: string
  m_name :: string
  m_kind :: account_kind
  m_symbol :: "string option"
  m_scriptHash :: string
  m_address :: "string option"
  m_logo :: string

definition NEO_TOKEN_SCRIPT_HASH :: string where
  "NEO_TOKEN_SCRIPT_HASH = ''0xef4073a0f2b305a38ec4050e4d3d28bc40ea63f5''"

definition GAS_TOKEN_SCRIPT_HASH :: string where
  "GAS_TOKEN_SCRIPT_HASH = ''0xd2a4cff31913016155e38e474a2c06d08be276cf''"

text \<open>\<open>encodeURIComponent\<close>; a code unit from 128 up becomes the two bytes of its UTF-8 form.\<close>

definition uri_unreserved :: "char \<Rightarrow> bool" where
  "uri_unreserved c \<longleftrightarrow> is_alnum c \<or> c \<in> set ''-_.!~*'' \<or> c \<in> {CHR 0x27, CHR ''('', CHR '')''}"

definition percent_byte :: "nat \<Rightarrow> string" where
  "percent_byte n = CHR ''%'' # to_upper (pad_start 2 (CHR ''0'') (hex_str n))"

definition encodeURIComponent :: "string \<Rightarrow> string" where
  "encodeURIComponent s =
     concat (map (\<lambda>c. if uri_unreserved c then [c]
                     else if cc c < 128 then percent_byte (cc c)
                     else percent_byte (192 + cc c div 64) @ percent_byte (128 + cc c mod 64)) s)"

definition quoted :: "string \<Rightarrow> string" where
  "quoted s = [CHR 0x22] @ s @ [CHR 0x22]"

definition buildMonogramLogo :: "string \<Rightarrow> string \<Rightarrow> string option \<Rightarrow> string" where
  "buildMonogramLogo monogram background foreground =
     (let safeText = to_upper (take 3 (trim monogram)); colour = (case foreground of None \<Rightarrow> ''#ffffff'' | Some f \<Rightarrow> f) in
      ''data:image/svg+xml;utf8,'' @ encodeURIComponent
        (''<svg xmlns='' @ quoted ''http://www.w3.org/2000/svg'' @ '' viewBox='' @ quoted ''0 0 64 64''
         @ '' role='' @ quoted ''img'' @ '' aria-label='' @ quoted (safeText @ '' logo'')
         @ ''><rect width='' @ quoted ''64'' @ '' height='' @ quoted ''64'' @ '' rx='' @ quoted ''16''
         @ '' fill='' @ quoted background @ ''/><text x='' @ quoted ''32'' @ '' y='' @ quoted ''38''
         @ '' font-family='' @ quoted ''Arial, Helvetica, sans-serif'' @ '' font-size='' @ quoted ''24''
         @ '' font-weight='' @ quoted ''700'' @ '' text-anchor='' @ quoted ''middle''
         @ '' fill='' @ quoted colour @ ''>'' @ safeText @ ''</text></svg>''))"

definition BUILTIN_KNOWN_ACCOUNTS :: "known_account list" where
  "BUILTIN_KNOWN_ACCOUNTS =
     [\<lparr>k_id = ''neo-token'', k_name = ''NeoToken'', k_kind = Native_token, k_symbol = Some ''NEO'',
       k_logoText = ''NEO'', k_background = ''#58BF00'', k_foreground = None,
       k_scriptHashes = [(''mainnet'', NEO_TOKEN_SCRIPT_HASH), (''testnet'', NEO_TOKEN_SCRIPT_HASH)]\<rparr>,
      \<lparr>k_id = ''gas-token'', k_name = ''GasToken'', k_kind = Native_token, k_symbol = Some ''GAS'',
       k_logoText = ''GAS'', k_background = ''#3B82F6'', k_foreground = None,
       k_scriptHashes = [(''mainnet'', GAS_TOKEN_SCRIPT_HASH), (''testnet'', GAS_TOKEN_SCRIPT_HASH)]\<rparr>]"

definition account_data :: "(string \<Rightarrow> string option) \<Rightarrow> known_account \<Rightarrow> string \<Rightarrow> account_metadata" where
  "account_data addressOf entry networkScriptHash =
     \<lparr>m_id = k_id entry, m_name = k_name entry, m_kind = k_kind entry, m_symbol = k_symbol entry,
      m_scriptHash = networkScriptHash, m_address = tryGetAddressFromScriptHash addressOf (Some networkScriptHash),
      m_logo = buildMonogramLogo (k_logoText entry) (k_background entry) (k_foreground entry)\<rparr>"

fun known_entry :: "(string \<Rightarrow> string option) \<Rightarrow> string \<Rightarrow> string \<Rightarrow> known_account list \<Rightarrow> account_metadata option" where
  "known_entry addressOf network h [] = None"
| "known_entry addressOf network h (entry # entries) =
     (case normalizeScriptHash (map_of (k_scriptHashes entry) network) of
        None \<Rightarrow> known_entry addressOf network h entries
      | Some networkScriptHash \<Rightarrow>
          if networkScriptHash \<noteq> h then known_entry addressOf network h entries
          else Some (account_data addressOf entry networkScriptHash))"

definition resolveKnownAccount ::
    "(string \<Rightarrow> bool) \<Rightarrow> (string \<Rightarrow> string option) \<Rightarrow> (string \<Rightarrow> string option) \<Rightarrow> string option \<Rightarrow> string \<Rightarrow> account_metadata option" where
  "resolveKnownAccount isAddress hashOf addressOf reference network =
     (case (case normalizeScriptHash reference of Some h \<Rightarrow> Some h
                                                | None \<Rightarrow> tryGetScriptHashFromAddress isAddress hashOf reference) of
        None \<Rightarrow> None
      | Some h \<Rightarrow> known_entry addressOf network h BUILTIN_KNOWN_ACCOUNTS)"

section \<open>Normal forms\<close>

definition script_hash_form :: "string \<Rightarrow> bool" where
  "script_hash_form h \<longleftrightarrow> (\<exists>t. h = ''0x'' @ t \<and> lower_hash t)"

lemma normalizeScriptHash_form: "normalizeScriptHash v = Some h \<Longrightarrow> script_hash_form h"
proof -
  assume h: "normalizeScriptHash v = Some h"
  then obtain s where "h = to_lower (trim s) \<and> starts_with h ''0x'' \<and> lower_hash (drop 2 h) \<or> h = ''0x'' @ to_lower (trim s) \<and> lower_hash (to_lower (trim s))"
    by (auto simp: normalizeScriptHash_def Let_def split: option.splits if_splits)
  then have "h = ''0x'' @ drop 2 h \<and> lower_hash (drop 2 h)" using starts_withD [of h "''0x''"] by (auto simp: numeral_2_eq_2)
  then show ?thesis unfolding script_hash_form_def by blast
qed

lemma normalize_None: "normalizeScriptHash None = None"
  by (simp add: normalizeScriptHash_def)

lemma lower_hex_not_ws: "is_lower_hex c \<Longrightarrow> \<not> is_ws c"
  by (auto simp: is_lower_hex_def is_digit_def is_ws_def)

lemma normalizeScriptHash_stable:
  assumes "script_hash_form h" shows "normalizeScriptHash (Some h) = Some h"
proof -
  obtain t where t: "h = ''0x'' @ t" "lower_hash t" using assms by (auto simp: script_hash_form_def)
  then have "\<not> list_ex is_ws h" using lower_hex_not_ws
    by (auto simp: lower_hash_def list_ex_iff list_all_iff is_ws_def cc_def)
  moreover have "to_lower h = h" using t to_lower_id by (simp add: lower_hash_def to_lower_def lower_char_def cc_def)
  ultimately show ?thesis using t by (simp add: normalizeScriptHash_def trim_id starts_with_def)
qed

lemma normalizeScriptHash_idem:
  "normalizeScriptHash v = Some h \<Longrightarrow> normalizeScriptHash (Some h) = Some h"
  by (simp add: normalizeScriptHash_form normalizeScriptHash_stable)

lemma lower_hash_prefix: "lower_hash t \<Longrightarrow> \<not> starts_with t ''0x''"
proof
  assume "lower_hash t" and "starts_with t ''0x''"
  then have "t = ''0x'' @ drop 2 t" and "list_all is_lower_hex t"
    using starts_withD [of t "''0x''"] by (simp_all add: lower_hash_def numeral_2_eq_2)
  then have "is_lower_hex (CHR ''x'')" by (metis append_Cons list.pred_inject(2))
  then show False by (simp add: is_lower_hex_def is_digit_def cc_def)
qed

text \<open>A bare hash and its prefixed form name the same account.\<close>

lemma normalize_prefix_free: "lower_hash t \<Longrightarrow> normalizeScriptHash (Some t) = normalizeScriptHash (Some (''0x'' @ t))"
proof -
  assume t: "lower_hash t"
  then have "\<not> list_ex is_ws t" "to_lower t = t"
    using lower_hex_not_ws by (auto simp: lower_hash_def list_ex_iff list_all_iff to_lower_id)
  with t show ?thesis
    by (simp add: normalizeScriptHash_stable script_hash_form_def)
       (simp add: normalizeScriptHash_def trim_id lower_hash_prefix)
qed

lemma address_hash_form: "tryGetScriptHashFromAddress isAddress hashOf a = Some h \<Longrightarrow> script_hash_form h"
  by (auto simp: tryGetScriptHashFromAddress_def split: option.splits if_splits dest: normalizeScriptHash_form)

text \<open>
  An account that is found is one of the two tokens, under the normal form of the reference; its
  script hash leads back to it.
\<close>

lemma known_entry_hash: "known_entry addressOf network h es = Some md \<Longrightarrow> m_scriptHash md = h
    \<and> (\<exists>e \<in> set es. md = account_data addressOf e h)"
  by (induction es) (auto simp: account_data_def split: option.splits if_splits)

lemma resolveKnownAccount_hash:
  assumes "resolveKnownAccount isAddress hashOf addressOf reference network = Some md"
  shows "m_scriptHash md \<in> {NEO_TOKEN_SCRIPT_HASH, GAS_TOKEN_SCRIPT_HASH}"
    and "resolveKnownAccount isAddress hashOf addressOf (Some (m_scriptHash md)) network = Some md"
proof -
  obtain h where h: "script_hash_form h" "known_entry addressOf network h BUILTIN_KNOWN_ACCOUNTS = Some md"
    using assms by (auto simp: resolveKnownAccount_def dest: normalizeScriptHash_form address_hash_form split: option.splits)
  then have m: "m_scriptHash md = h" using known_entry_hash by blast
  with h show "resolveKnownAccount isAddress hashOf addressOf (Some (m_scriptHash md)) network = Some md"
    by (simp add: resolveKnownAccount_def normalizeScriptHash_stable)
  have forms: "script_hash_form NEO_TOKEN_SCRIPT_HASH" "script_hash_form GAS_TOKEN_SCRIPT_HASH"
    by (auto simp: script_hash_form_def NEO_TOKEN_SCRIPT_HASH_def GAS_TOKEN_SCRIPT_HASH_def lower_hash_def
        is_lower_hex_def is_digit_def cc_def)
  show "m_scriptHash md \<in> {NEO_TOKEN_SCRIPT_HASH, GAS_TOKEN_SCRIPT_HASH}"
    using h(2) m forms normalize_None by (auto simp: BUILTIN_KNOWN_ACCOUNTS_def normalizeScriptHash_stable split: if_splits option.splits)
qed

end
