(* ===== verification/Json.thy ===== *)
theory Json
  imports Strings "HOL-Library.Multiset"
begin

text \<open>
  JSON text: the part of \<open>JSON.stringify\<close> the code uses, \<open>canonicalJson\<close> of
  src/services/write-operation-service.ts (the text that fingerprints a write intent), and
  the effect of writing a value as JSON and reading it back.

  The main results: \<open>canonicalJson\<close> ignores the order of object keys, and it identifies
  JSON values only up to that order (\<open>canonicalJson_iff\<close>).
\<close>

section \<open>Scalars\<close>

definition short_escapes :: "(char \<times> char) list" where
  "short_escapes = [(CHR 0x22, CHR 0x22), (CHR 0x5C, CHR 0x5C), (CHR 0x08, CHR ''b''),
     (CHR 0x09, CHR ''t''), (CHR 0x0A, CHR ''n''), (CHR 0x0C, CHR ''f''), (CHR 0x0D, CHR ''r'')]"

definition json_escape :: "char \<Rightarrow> string" where
  "json_escape c =
     (case map_of short_escapes c of
        Some e \<Rightarrow> [CHR 0x5C, e]
      | None \<Rightarrow>
          if cc c < 32 then CHR 0x5C # ''u00'' @ [digit_char (cc c div 16), digit_char (cc c mod 16)]
          else [c])"

definition json_string :: "string \<Rightarrow> string" where
  "json_string s = CHR 0x22 # concat (map json_escape s) @ [CHR 0x22]"

text \<open>\<open>String(v)\<close> of a number, and its JSON text.\<close>

fun num_text :: "jsnum \<Rightarrow> string" where
  "num_text (NInt i) = int_str i"
| "num_text (NDec t) = t"
| "num_text NaN = ''NaN''"
| "num_text (NInf neg) = (if neg then ''-Infinity'' else ''Infinity'')"

fun json_num :: "jsnum \<Rightarrow> string" where
  "json_num NaN = ''null''"
| "json_num (NInf neg) = ''null''"
| "json_num n = num_text n"

section \<open>The canonical text of a value\<close>

text \<open>
  \<open>undefined\<close> and functions have no JSON text (\<open>None\<close>): \<open>join\<close> prints them as nothing in
  an array, the template literal as \<open>undefined\<close> in an object. A bigint makes
  \<open>JSON.stringify\<close> throw. The keys of a byte array are its indices.
\<close>

fun bytes_obj :: "nat \<Rightarrow> nat list \<Rightarrow> (string \<times> nat) list" where
  "bytes_obj i [] = []"
| "bytes_obj i (b # bs) = (dec_str i, b) # bytes_obj (Suc i) bs"

definition wrap :: "char \<Rightarrow> char \<Rightarrow> string list \<Rightarrow> string" where
  "wrap l r ws = l # join_with '','' ws @ [r]"

definition member_text :: "string \<Rightarrow> string \<Rightarrow> string" where
  "member_text k t = json_string k @ CHR '':'' # t"

definition undef_text :: "string option \<Rightarrow> string" where
  "undef_text t = (case t of None \<Rightarrow> ''undefined'' | Some s \<Rightarrow> s)"

definition hole_text :: "string option \<Rightarrow> string" where
  "hole_text t = (case t of None \<Rightarrow> [] | Some s \<Rightarrow> s)"

lemma size_in_sorted [termination_simp]:
  "(k, v) \<in> set kvs \<Longrightarrow> size v < Suc (size_list (size_prod (\<lambda>x. 0) size) kvs)"
  by (induction kvs) auto

fun canonicalJson :: "jsval \<Rightarrow> string option result" where
  "canonicalJson JUndef = Inr None"
| "canonicalJson JFun = Inr None"
| "canonicalJson JSym = Inr None"
| "canonicalJson JNull = Inr (Some ''null'')"
| "canonicalJson (JBool b) = Inr (Some (if b then ''true'' else ''false''))"
| "canonicalJson (JNum n) = Inr (Some (json_num n))"
| "canonicalJson (JBig i) = Inl (TypeError ''Do not know how to serialize a BigInt'')"
| "canonicalJson (JStr s) = Inr (Some (json_string s))"
| "canonicalJson (JArr vs) =
     bindR (mapR canonicalJson vs)
       (\<lambda>ts. Inr (Some (wrap (CHR ''['') (CHR '']'') (map hole_text ts))))"
| "canonicalJson (JObj kvs) =
     bindR (mapR (\<lambda>(k, v). bindR (canonicalJson v) (\<lambda>t. Inr (member_text k (undef_text t))))
             (sort_key fst kvs))
       (\<lambda>ms. Inr (Some (wrap (CHR ''{'') (CHR ''}'') ms)))"
| "canonicalJson (JInst kvs) =
     bindR (mapR (\<lambda>(k, v). bindR (canonicalJson v) (\<lambda>t. Inr (member_text k (undef_text t))))
             (sort_key fst kvs))
       (\<lambda>ms. Inr (Some (wrap (CHR ''{'') (CHR ''}'') ms)))"
| "canonicalJson (JToJson kvs r) =
     bindR (mapR (\<lambda>(k, v). bindR (canonicalJson v) (\<lambda>t. Inr (member_text k (undef_text t))))
             (sort_key fst kvs))
       (\<lambda>ms. Inr (Some (wrap (CHR ''{'') (CHR ''}'') ms)))"
| "canonicalJson (JBytes bs) =
     Inr (Some (wrap (CHR ''{'') (CHR ''}'')
       (map (\<lambda>(k, b). member_text k (dec_str b)) (sort_key fst (bytes_obj 0 bs)))))"
| "canonicalJson JRegExp = Inr (Some ''{}'')"

section \<open>JSON values and their normal form\<close>

definition num_char :: "char \<Rightarrow> bool" where
  "num_char c \<longleftrightarrow> is_digit c \<or> c \<in> set ''-+.e''"

text \<open>
  A number with a JSON text of its own: an integral double printed without exponent, or the
  text of another finite double, which has a point or an exponent in it.
\<close>

fun num_clean :: "jsnum \<Rightarrow> bool" where
  "num_clean (NInt i) = (\<bar>i\<bar> < 10 ^ 21)"
| "num_clean (NDec t) = (t \<noteq> [] \<and> list_all num_char t \<and> (is_digit (hd t) \<or> hd t = CHR ''-'')
     \<and> list_ex (\<lambda>c. c \<in> set ''.e'') t)"
| "num_clean _ = False"

text \<open>The values \<open>JSON.parse\<close> returns.\<close>

fun json_clean :: "jsval \<Rightarrow> bool" where
  "json_clean JNull = True"
| "json_clean (JBool b) = True"
| "json_clean (JNum n) = num_clean n"
| "json_clean (JStr s) = True"
| "json_clean (JArr vs) = list_all json_clean vs"
| "json_clean (JObj kvs) = (distinct (map fst kvs) \<and> list_all (\<lambda>(k, v). json_clean v) kvs)"
| "json_clean _ = False"

fun jprint :: "jsval \<Rightarrow> string" where
  "jprint JNull = ''null''"
| "jprint (JBool b) = (if b then ''true'' else ''false'')"
| "jprint (JNum n) = json_num n"
| "jprint (JStr s) = json_string s"
| "jprint (JArr vs) = wrap (CHR ''['') (CHR '']'') (map jprint vs)"
| "jprint (JObj kvs) = wrap (CHR ''{'') (CHR ''}'') (map (\<lambda>(k, v). member_text k (jprint v)) kvs)"
| "jprint _ = []"

text \<open>The normal form sorts the keys of every object.\<close>

fun jsort :: "jsval \<Rightarrow> jsval" where
  "jsort (JArr vs) = JArr (map jsort vs)"
| "jsort (JObj kvs) = JObj (map (\<lambda>(k, v). (k, jsort v)) (sort_key fst kvs))"
| "jsort v = v"

lemma mapR_Inr: "(\<And>x. x \<in> set xs \<Longrightarrow> f x = Inr (g x)) \<Longrightarrow> mapR f xs = Inr (map g xs)"
  by (induction xs) auto

lemma canonicalJson_clean: "json_clean v \<Longrightarrow> canonicalJson v = Inr (Some (jprint (jsort v)))"
proof (induction v rule: canonicalJson.induct)
  case (9 vs)
  then have "mapR canonicalJson vs = Inr (map (\<lambda>v. Some (jprint (jsort v))) vs)"
    by (intro mapR_Inr) (auto simp: list_all_iff)
  then show ?case by (simp add: comp_def hole_text_def)
next
  case (10 kvs)
  let ?g = "\<lambda>(k, v). member_text k (jprint (jsort v))"
  have "mapR (\<lambda>(k, v). bindR (canonicalJson v) (\<lambda>t. Inr (member_text k (undef_text t))))
      (sort_key fst kvs) = Inr (map ?g (sort_key fst kvs))"
    using 10 by (intro mapR_Inr) (fastforce simp: list_all_iff undef_text_def)
  then show ?case by (simp add: comp_def case_prod_unfold)
qed auto

lemma json_clean_jsort: "json_clean v \<Longrightarrow> json_clean (jsort v)"
proof (induction v rule: jsort.induct)
  case (2 kvs)
  have "distinct (map fst (sort_key fst kvs))"
    using 2 by (metis distinct_map distinct_sort inj_on_cong json_clean.simps(6) set_sort)
  then show ?case using 2 by (auto simp: list_all_iff comp_def case_prod_unfold)
qed (auto simp: list_all_iff)

lemma canonicalJson_permuted:
  "json_clean (JObj kvs) \<Longrightarrow> mset kvs = mset kvs' \<Longrightarrow> canonicalJson (JObj kvs') = canonicalJson (JObj kvs)"
  using sort_key_eq_sort_key [of kvs kvs' fst] by (simp add: distinct_map)

section \<open>The text of a JSON value determines it\<close>

text \<open>
  What can follow a value inside a text: nothing, a comma or a closing bracket. A value's
  text followed by such a rest can be read back in one way only.
\<close>

definition ends :: "string \<Rightarrow> bool" where
  "ends t \<longleftrightarrow> t = [] \<or> hd t \<in> set '',]}''"

lemma ends_simps [simp]: "ends []" "ends (CHR '','' # t)" "ends (CHR '']'' # t)" "ends (CHR ''}'' # t)"
  by (auto simp: ends_def)

lemma token_unique:
  assumes "u @ s = u' @ t" "ends s" "ends t"
    and "list_all (\<lambda>c. c \<notin> set '',]}'') u" "list_all (\<lambda>c. c \<notin> set '',]}'') u'"
  shows "u = u' \<and> s = t"
proof -
  have tw: "takeWhile (\<lambda>c. c \<notin> set '',]}'') (a @ b) = a"
    if "list_all (\<lambda>c. c \<notin> set '',]}'') a" "ends b" for a b
    using that by (cases b) (auto simp: ends_def list_all_iff takeWhile_append2 takeWhile_tail)
  from tw [OF assms(4,2)] tw [OF assms(5,3)] assms(1) have "u = u'" by simp
  with assms(1) show ?thesis by simp
qed

lemma digit_char_inj: "a < 16 \<Longrightarrow> b < 16 \<Longrightarrow> digit_char a = digit_char b \<longleftrightarrow> a = b"
  by (metis digit_val_char)

lemma short_escape_inj:
  "map_of short_escapes c = Some e \<Longrightarrow> map_of short_escapes d = Some e \<Longrightarrow> c = d"
  by (auto simp: short_escapes_def split: if_splits)

lemma short_escape_not_u: "map_of short_escapes c \<noteq> Some (CHR ''u'')"
  by (auto simp: short_escapes_def split: if_splits)

lemma json_escape_quote: "json_escape c @ x \<noteq> CHR 0x22 # y"
  by (auto simp: json_escape_def short_escapes_def split: option.splits if_splits)

lemma json_escape_plain: "map_of short_escapes c = None \<Longrightarrow> c \<noteq> CHR 0x5C"
  by (auto simp: short_escapes_def)

lemma control_code_inj:
  assumes "cc c < 32" "cc d < 32" "digit_char (cc c div 16) = digit_char (cc d div 16)"
    "digit_char (cc c mod 16) = digit_char (cc d mod 16)"
  shows "c = d"
proof -
  from assms have "cc c div 16 = cc d div 16" "cc c mod 16 = cc d mod 16"
    by (simp_all add: digit_char_inj)
  then show ?thesis by (metis cc_inj div_mult_mod_eq)
qed

lemma json_escape_unique: "json_escape c @ x = json_escape d @ y \<Longrightarrow> c = d \<and> x = y"
  using short_escape_inj [of c _ d] short_escape_not_u [of c] short_escape_not_u [of d]
    json_escape_plain [of c] json_escape_plain [of d] control_code_inj [of c d]
  by (auto simp: json_escape_def split: option.splits if_splits)

lemma json_escapes_unique:
  "concat (map json_escape s) @ CHR 0x22 # u = concat (map json_escape t) @ CHR 0x22 # v \<Longrightarrow>
   s = t \<and> u = v"
proof (induction s arbitrary: t)
  case Nil
  then show ?case using json_escape_quote [symmetric] by (cases t) auto
next
  case (Cons c s)
  show ?case
  proof (cases t)
    case Nil
    with Cons.prems show ?thesis using json_escape_quote by auto
  next
    case (Cons d t')
    with Cons.prems have "json_escape c @ (concat (map json_escape s) @ CHR 0x22 # u) =
        json_escape d @ (concat (map json_escape t') @ CHR 0x22 # v)" by simp
    then have "c = d" "concat (map json_escape s) @ CHR 0x22 # u = concat (map json_escape t') @ CHR 0x22 # v"
      by (blast dest: json_escape_unique)+
    with Cons.IH Cons show ?thesis by blast
  qed
qed

lemma json_string_unique: "json_string s @ u = json_string t @ v \<Longrightarrow> s = t \<and> u = v"
  using json_escapes_unique [of s u t v] by (simp add: json_string_def)

subsection \<open>Numbers\<close>

lemma int_str_chars: "list_all (\<lambda>c. is_digit c \<or> c = CHR ''-'') (int_str i)"
  using dec_str_digits by (auto simp: int_str_def list_all_iff)

lemma int_str_hd: "int_str i \<noteq> [] \<and> (is_digit (hd (int_str i)) \<or> hd (int_str i) = CHR ''-'')"
  using dec_str_digits [of "nat i"] by (cases "dec_str (nat i)") (auto simp: int_str_def)

lemma minus_not_digit: "\<not> is_digit (CHR ''-'')"
  by (simp add: is_digit_def cc_def)

lemma int_str_inj: "int_str i = int_str j \<longleftrightarrow> i = j"
proof
  assume eq: "int_str i = int_str j"
  have no_minus: "dec_str n \<noteq> CHR ''-'' # u" for n u
    using dec_str_digits [of n] minus_not_digit by auto
  from eq no_minus no_minus [symmetric] show "i = j"
    by (auto simp: int_str_def split: if_splits)
qed simp

lemma num_clean_text:
  "num_clean n \<Longrightarrow> json_num n = num_text n \<and> list_all num_char (num_text n) \<and> num_text n \<noteq> []
     \<and> (is_digit (hd (num_text n)) \<or> hd (num_text n) = CHR ''-'')"
  using int_str_chars int_str_hd by (cases n) (auto simp: list_all_iff num_char_def)

lemma num_text_inj: "num_clean m \<Longrightarrow> num_clean n \<Longrightarrow> num_text m = num_text n \<Longrightarrow> m = n"
proof -
  have no_point: "\<not> list_ex (\<lambda>c. c \<in> set ''.e'') (int_str i)" for i
    using int_str_chars [of i] by (auto simp: list_all_iff list_ex_iff is_digit_def cc_def)
  show "num_clean m \<Longrightarrow> num_clean n \<Longrightarrow> num_text m = num_text n \<Longrightarrow> m = n"
    using no_point by (cases m; cases n) (auto simp: int_str_inj)
qed

lemma num_char_not_end: "num_char c \<Longrightarrow> c \<notin> set '',]}''"
  by (auto simp: num_char_def is_digit_def cc_def)

lemma json_num_unique:
  assumes "num_clean m" "num_clean n" "json_num m @ s = json_num n @ t" "ends s" "ends t"
  shows "m = n \<and> s = t"
proof -
  have "list_all (\<lambda>c. c \<notin> set '',]}'') (num_text k)" if "num_clean k" for k
    using num_clean_text [OF that] num_char_not_end by (auto simp: list_all_iff)
  with assms have "num_text m = num_text n \<and> s = t"
    by (intro token_unique) (auto simp: num_clean_text)
  with assms show ?thesis by (blast intro: num_text_inj)
qed

subsection \<open>Arrays and objects\<close>

lemma join_with_Cons: "join_with sep (w # ws) = w @ (if ws = [] then [] else sep @ join_with sep ws)"
  by (cases ws) auto

text \<open>
  A bracketed, comma-separated sequence can be read back if each element can, and no
  element starts with the closing bracket.
\<close>

lemma join_unique:
  assumes "join_with '','' (map f xs) @ r # s = join_with '','' (map f ys) @ r # t"
    and "r \<in> set '']}''"
    and "\<And>x y u v. x \<in> set xs \<Longrightarrow> y \<in> set ys \<Longrightarrow> f x @ u = f y @ v \<Longrightarrow> ends u \<Longrightarrow> ends v \<Longrightarrow> x = y \<and> u = v"
    and "\<And>x u v. x \<in> set xs \<union> set ys \<Longrightarrow> f x @ u \<noteq> r # v"
  shows "xs = ys \<and> s = t"
  using assms
proof (induction xs arbitrary: ys)
  case Nil
  show ?case
  proof (cases ys)
    case (Cons y ys')
    with Nil.prems(1) have "f y @ ((if ys' = [] then [] else '','' @ join_with '','' (map f ys')) @ r # t) = r # s"
      by (simp add: join_with_Cons)
    with Nil.prems(4) Cons show ?thesis by (metis UnCI list.set_intros(1))
  qed (use Nil in simp)
next
  case (Cons x xs)
  show ?case
  proof (cases ys)
    case Nil
    with Cons.prems(1) have "f x @ ((if xs = [] then [] else '','' @ join_with '','' (map f xs)) @ r # s) = r # t"
      by (simp add: join_with_Cons)
    with Cons.prems(4) show ?thesis by (metis UnCI list.set_intros(1))
  next
    case (Cons y ys')
    let ?u = "(if xs = [] then [] else '','' @ join_with '','' (map f xs)) @ r # s"
    let ?v = "(if ys' = [] then [] else '','' @ join_with '','' (map f ys')) @ r # t"
    have "f x @ ?u = f y @ ?v" using Cons.prems(1) Cons by (simp add: join_with_Cons)
    moreover have "ends ?u" "ends ?v" using Cons.prems(2) by (auto simp: ends_def)
    ultimately have xy: "x = y" and uv: "?u = ?v" using Cons.prems(3) Cons by (meson list.set_intros(1))+
    from uv Cons.prems(2) have ne: "xs = [] \<longleftrightarrow> ys' = []" by (auto split: if_splits)
    have "xs = ys' \<and> s = t"
    proof (cases "xs = []")
      case False
      with uv ne have "join_with '','' (map f xs) @ r # s = join_with '','' (map f ys') @ r # t" by simp
      from Cons.IH [OF this Cons.prems(2)] show ?thesis
        using Cons.prems(3,4) Cons by (metis Un_iff list.set_intros(2))
    qed (use uv ne in auto)
    with xy Cons show ?thesis by simp
  qed
qed

definition head_kind :: "char \<Rightarrow> nat" where
  "head_kind c = (if c = CHR ''n'' then 0 else if c = CHR ''t'' \<or> c = CHR ''f'' then 1
     else if is_digit c \<or> c = CHR ''-'' then 2 else if c = CHR 0x22 then 3
     else if c = CHR ''['' then 4 else if c = CHR ''{'' then 5 else 6)"

fun val_kind :: "jsval \<Rightarrow> nat" where
  "val_kind JNull = 0"
| "val_kind (JBool b) = 1"
| "val_kind (JNum n) = 2"
| "val_kind (JStr s) = 3"
| "val_kind (JArr vs) = 4"
| "val_kind (JObj kvs) = 5"
| "val_kind _ = 6"

lemma jprint_head: "json_clean v \<Longrightarrow> jprint v \<noteq> [] \<and> head_kind (hd (jprint v)) = val_kind v"
proof (cases v)
  case (JNum n)
  assume "json_clean v"
  with JNum num_clean_text [of n] show ?thesis
    by (auto simp: head_kind_def is_digit_def cc_def)
qed (auto simp: head_kind_def wrap_def json_string_def is_digit_def cc_def)

lemma jprint_same_kind:
  "json_clean v \<Longrightarrow> json_clean w \<Longrightarrow> jprint v @ s = jprint w @ t \<Longrightarrow> val_kind v = val_kind w"
  by (metis jprint_head hd_append2)

lemma jprint_no_close: "json_clean v \<Longrightarrow> r \<in> set '']}'' \<Longrightarrow> jprint v @ u \<noteq> r # w"
proof
  assume v: "json_clean v" and r: "r \<in> set '']}''" and eq: "jprint v @ u = r # w"
  from v eq have "head_kind r = val_kind v" by (metis jprint_head hd_append2 list.sel(1))
  moreover from v have "val_kind v < 6" by (cases v) auto
  ultimately show False using r by (auto simp: head_kind_def is_digit_def cc_def)
qed

lemma jprint_unique:
  "json_clean v \<Longrightarrow> json_clean w \<Longrightarrow> jprint v @ s = jprint w @ t \<Longrightarrow> ends s \<Longrightarrow> ends t \<Longrightarrow> v = w \<and> s = t"
proof (induction v arbitrary: w s t rule: json_clean.induct)
  case 1
  then show ?case using jprint_same_kind [of JNull w s t] by (cases w) auto
next
  case (2 b)
  then show ?case using jprint_same_kind [of "JBool b" w s t]
    by (cases w) (auto split: if_splits)
next
  case (3 n)
  then show ?case using jprint_same_kind [of "JNum n" w s t]
    by (cases w) (auto dest: json_num_unique)
next
  case (4 x)
  then show ?case using jprint_same_kind [of "JStr x" w s t]
    by (cases w) (auto dest: json_string_unique)
next
  case (5 vs)
  then obtain ws where w: "w = JArr ws"
    using jprint_same_kind [of "JArr vs" w s t] by (cases w) auto
  have "vs = ws \<and> s = t"
  proof (rule join_unique [where f = jprint and r = "CHR '']''"])
    show "join_with '','' (map jprint vs) @ CHR '']'' # s = join_with '','' (map jprint ws) @ CHR '']'' # t"
      using 5 w by (simp add: wrap_def)
    show "x = y \<and> u = u'" if "x \<in> set vs" "y \<in> set ws" "jprint x @ u = jprint y @ u'" "ends u" "ends u'"
      for x y u u'
      using that 5 w by (auto simp: list_all_iff)
    show "jprint x @ u \<noteq> CHR '']'' # u'" if "x \<in> set vs \<union> set ws" for x u u'
      using that 5 w by (intro jprint_no_close) (auto simp: list_all_iff)
  qed simp
  with w show ?case by simp
next
  case (6 kvs)
  then obtain lws where w: "w = JObj lws"
    using jprint_same_kind [of "JObj kvs" w s t] by (cases w) auto
  let ?m = "\<lambda>(k, v). member_text k (jprint v)"
  have "kvs = lws \<and> s = t"
  proof (rule join_unique [where f = ?m and r = "CHR ''}''"])
    show "join_with '','' (map ?m kvs) @ CHR ''}'' # s = join_with '','' (map ?m lws) @ CHR ''}'' # t"
      using 6 w by (simp add: wrap_def)
    show "x = y \<and> u = u'" if "x \<in> set kvs" "y \<in> set lws" "?m x @ u = ?m y @ u'" "ends u" "ends u'"
      for x y u u'
    proof -
      obtain k v k' v' where x: "x = (k, v)" and y: "y = (k', v')" by (cases x; cases y)
      from that x y have "json_string k @ (CHR '':'' # jprint v @ u) = json_string k' @ (CHR '':'' # jprint v' @ u')"
        by (simp add: member_text_def)
      then have "k = k'" and v: "jprint v @ u = jprint v' @ u'" by (auto dest: json_string_unique)
      moreover have "json_clean v" "json_clean v'" using that 6(2,3) w x y by (auto simp: list_all_iff)
      ultimately show ?thesis using "6.IH" [of x k v v' u u'] that x y by simp
    qed
    show "?m x @ u \<noteq> CHR ''}'' # u'" if "x \<in> set kvs \<union> set lws" for x u u'
      by (cases x) (simp add: member_text_def json_string_def)
  qed simp
  with w show ?case by simp
qed auto

lemma jprint_inj: "json_clean v \<Longrightarrow> json_clean w \<Longrightarrow> jprint v = jprint w \<Longrightarrow> v = w"
  using jprint_unique [of v w "[]" "[]"] by simp

lemma canonicalJson_iff:
  "json_clean v \<Longrightarrow> json_clean w \<Longrightarrow> canonicalJson v = canonicalJson w \<longleftrightarrow> jsort v = jsort w"
  using jprint_inj [OF json_clean_jsort json_clean_jsort, of v w] by (auto simp: canonicalJson_clean)

section \<open>Written as JSON and read back\<close>

text \<open>
  \<open>JSON.parse (JSON.stringify v)\<close>: properties without a JSON text disappear, such array
  elements become \<open>null\<close>, as do numbers that are not finite.
\<close>

definition present :: "(string \<times> jsval option) list \<Rightarrow> jsobj" where
  "present kvs = map (\<lambda>(k, v). (k, the v)) (filter (\<lambda>(k, v). v \<noteq> None) kvs)"

fun jsonRoundTrip :: "jsval \<Rightarrow> jsval option result" where
  "jsonRoundTrip JUndef = Inr None"
| "jsonRoundTrip JFun = Inr None"
| "jsonRoundTrip JSym = Inr None"
| "jsonRoundTrip JNull = Inr (Some JNull)"
| "jsonRoundTrip (JBool b) = Inr (Some (JBool b))"
| "jsonRoundTrip (JNum n) = Inr (Some (if isFinite n then JNum n else JNull))"
| "jsonRoundTrip (JBig i) = Inl (TypeError ''Do not know how to serialize a BigInt'')"
| "jsonRoundTrip (JStr s) = Inr (Some (JStr s))"
| "jsonRoundTrip (JArr vs) =
     bindR (mapR jsonRoundTrip vs)
       (\<lambda>ts. Inr (Some (JArr (map (\<lambda>t. case t of None \<Rightarrow> JNull | Some v \<Rightarrow> v) ts))))"
| "jsonRoundTrip (JObj kvs) =
     bindR (mapR (\<lambda>(k, v). bindR (jsonRoundTrip v) (\<lambda>t. Inr (k, t))) kvs)
       (\<lambda>ts. Inr (Some (JObj (present ts))))"
| "jsonRoundTrip (JInst kvs) =
     bindR (mapR (\<lambda>(k, v). bindR (jsonRoundTrip v) (\<lambda>t. Inr (k, t))) kvs)
       (\<lambda>ts. Inr (Some (JObj (present ts))))"
| "jsonRoundTrip (JToJson kvs r) =
     bindR (mapR (\<lambda>(k, v). bindR (jsonRoundTrip v) (\<lambda>t. Inr (k, t))) kvs)
       (\<lambda>ts. Inr (Some (JObj (present ts))))"
| "jsonRoundTrip (JBytes bs) =
     Inr (Some (JObj (map (\<lambda>(k, b). (k, JNum (NInt (int b)))) (bytes_obj 0 bs))))"
| "jsonRoundTrip JRegExp = Inr (Some (JObj []))"

lemma num_clean_finite: "num_clean n \<Longrightarrow> isFinite n"
  by (cases n) auto

lemma jsonRoundTrip_clean: "json_clean v \<Longrightarrow> jsonRoundTrip v = Inr (Some v)"
proof (induction v rule: jsonRoundTrip.induct)
  case (9 vs)
  then have "mapR jsonRoundTrip vs = Inr (map Some vs)"
    by (intro mapR_Inr) (auto simp: list_all_iff)
  then show ?case by (simp add: comp_def)
next
  case (10 kvs)
  have "mapR (\<lambda>(k, v). bindR (jsonRoundTrip v) (\<lambda>t. Inr (k, t))) kvs = Inr (map (\<lambda>(k, v). (k, Some v)) kvs)"
    using 10 by (intro mapR_Inr) (fastforce simp: list_all_iff)
  moreover have "present (map (\<lambda>(k, v). (k, Some v)) kvs) = kvs"
    by (induction kvs) (auto simp: present_def)
  ultimately show ?case by simp
qed (auto simp: num_clean_finite)

end
