(* ===== verification/Validation.thy ===== *)
theory Validation
  imports Strings
begin

text \<open>
  src/utils/validation.ts: the validators of tool arguments. They take any JavaScript value
  and return the normalised text or a validation error. \<open>isAddress\<close> and \<open>scriptHashOf\<close>
  (\<open>None\<close> where it throws) stand for \<open>wallet.isAddress\<close> and \<open>wallet.getScriptHashFromAddress\<close>
  of neon-js. \<open>validateAmount\<close>, whose result is the printed form of a rounded double, is not
  modelled.
\<close>

section \<open>Hashes and addresses\<close>

abbreviation invalid :: "string \<Rightarrow> 'a result" where
  "invalid m \<equiv> Inl (ValidationError m)"

definition strip_0x :: "string \<Rightarrow> string" where
  "strip_0x s = (if starts_with s ''0x'' then drop 2 s else s)"

definition alnum34 :: "string \<Rightarrow> bool" where
  "alnum34 s \<longleftrightarrow> length s = 34 \<and> list_all is_alnum s"

definition validateAddress :: "(string \<Rightarrow> bool) \<Rightarrow> (string \<Rightarrow> string option) \<Rightarrow> jsval \<Rightarrow> string result" where
  "validateAddress isAddress scriptHashOf v =
     (case v of
        JStr s \<Rightarrow>
          if s = [] then invalid ''Address must be a non-empty string''
          else if \<not> alnum34 s then invalid ''Invalid Neo N3 address format: ''
          else if isAddress s \<and> (case scriptHashOf s of Some h \<Rightarrow> length h = 40 | None \<Rightarrow> False)
          then Inr s else invalid ''Invalid Neo N3 address: ''
      | _ \<Rightarrow> invalid ''Address must be a non-empty string'')"

definition validateHash :: "jsval \<Rightarrow> string result" where
  "validateHash v =
     (case v of
        JStr s \<Rightarrow>
          if s = [] then invalid ''Hash must be a non-empty string''
          else if length (strip_0x s) \<noteq> 64 then invalid ''Invalid hash length: ''
          else if \<not> list_all is_hex (strip_0x s) then invalid ''Invalid hash format (not hexadecimal): ''
          else Inr (''0x'' @ strip_0x s)
      | _ \<Rightarrow> invalid ''Hash must be a non-empty string'')"

definition validateScriptHash :: "jsval \<Rightarrow> string result" where
  "validateScriptHash v =
     (case v of
        JStr s \<Rightarrow>
          if s = [] then invalid ''Script hash must be a non-empty string''
          else if length (strip_0x s) \<noteq> 40 then invalid ''Invalid script hash length: ''
          else if \<not> list_all is_hex (strip_0x s) then invalid ''Invalid script hash format (not hexadecimal): ''
          else Inr (''0x'' @ strip_0x s)
      | _ \<Rightarrow> invalid ''Script hash must be a non-empty string'')"

definition with_0x :: "string \<Rightarrow> string" where
  "with_0x s = (if starts_with s ''0x'' \<or> starts_with s ''0X'' then s else ''0x'' @ s)"

definition hex_0x :: "nat \<Rightarrow> string \<Rightarrow> bool" where
  "hex_0x n s \<longleftrightarrow> starts_with s ''0x'' \<and> length s = n + 2 \<and> list_all is_hex (drop 2 s)"

definition validateEvmAddress :: "jsval \<Rightarrow> string result" where
  "validateEvmAddress v =
     (case v of
        JStr s \<Rightarrow>
          if s = [] then invalid ''EVM address must be a non-empty string''
          else if \<not> hex_0x 40 (with_0x s) then invalid ''Invalid Neo X address format: ''
          else Inr (to_lower (with_0x s))
      | _ \<Rightarrow> invalid ''EVM address must be a non-empty string'')"

definition validateEvmHash :: "jsval \<Rightarrow> string result" where
  "validateEvmHash v =
     (case v of
        JStr s \<Rightarrow>
          if s = [] then invalid ''EVM hash must be a non-empty string''
          else if \<not> hex_0x 64 (with_0x s) then invalid ''Invalid Neo X hash format: ''
          else Inr (to_lower (with_0x s))
      | _ \<Rightarrow> invalid ''EVM hash must be a non-empty string'')"

definition all_digits :: "string \<Rightarrow> bool" where
  "all_digits s \<longleftrightarrow> s \<noteq> [] \<and> list_all is_digit s"

definition validateEvmBlockRef :: "jsval \<Rightarrow> string result" where
  "validateEvmBlockRef v =
     (case v of
        JNum n \<Rightarrow>
          (case n of
             NInt i \<Rightarrow> if \<not> isSafeInteger n \<or> i < 0
                        then invalid ''Block number must be a non-negative safe integer'' else Inr (int_str i)
           | _ \<Rightarrow> invalid ''Block number must be a non-negative safe integer'')
      | JStr s \<Rightarrow>
          if s = [] then invalid ''Block reference must be a non-empty string or number''
          else if all_digits (trim s) then Inr (trim s)
          else validateEvmHash (JStr (trim s))
      | _ \<Rightarrow> invalid ''Block reference must be a non-empty string or number'')"

section \<open>Amounts and integers\<close>

text \<open>\<open>/^\d+(?:\.\d+)?$/\<close>\<close>

definition decimal_text :: "string \<Rightarrow> bool" where
  "decimal_text s \<longleftrightarrow>
     (case split_on CHR ''.'' s of
        [w] \<Rightarrow> all_digits w
      | [w, f] \<Rightarrow> all_digits w \<and> all_digits f
      | _ \<Rightarrow> False)"

definition validateTokenAmount :: "jsval \<Rightarrow> string result" where
  "validateTokenAmount v =
     (case v of
        JStr s \<Rightarrow>
          if s \<noteq> trim s \<or> length s = 0
          then invalid ''Token amount must be provided as a non-empty decimal string''
          else if 1024 < length s \<or> \<not> decimal_text s
          then invalid ''Token amount must be a positive decimal string without exponent notation''
          else if \<not> list_ex (\<lambda>c. is_digit c \<and> c \<noteq> CHR ''0'') s
          then invalid ''Token amount must be greater than zero''
          else Inr s
      | _ \<Rightarrow> invalid ''Token amount must be provided as a non-empty decimal string'')"

definition evm_amount_value :: "jsval \<Rightarrow> int result" where
  "evm_amount_value v =
     (case v of
        JBig i \<Rightarrow> Inr i
      | JNum n \<Rightarrow>
          (case n of
             NInt i \<Rightarrow> if isSafeInteger n then Inr i
                        else invalid ''Wei amount number must be a safe integer; pass a decimal string for large values''
           | _ \<Rightarrow> invalid ''Wei amount number must be a safe integer; pass a decimal string for large values'')
      | JStr s \<Rightarrow> if all_digits (trim s) then Inr (int (str_dec (trim s))) else invalid ''Invalid wei amount: ''
      | _ \<Rightarrow> invalid ''Wei amount must be a decimal string, safe integer, or bigint'')"

definition validateEvmAmount :: "bool \<Rightarrow> jsval \<Rightarrow> string result" where
  "validateEvmAmount allowZero v =
     bindR (evm_amount_value v) (\<lambda>value.
     if value < 0 then invalid ''Wei amount must not be negative''
     else if value = 0 \<and> \<not> allowZero then invalid ''Wei amount must be greater than zero''
     else Inr (int_str value))"

text \<open>
  A decimal text above \<open>MAX_SAFE_INTEGER\<close> parses to a double that is not a safe integer.
\<close>

definition validateInteger :: "jsval \<Rightarrow> int result" where
  "validateInteger v =
     (case v of
        JStr s \<Rightarrow>
          if \<not> all_digits s then invalid ''Invalid integer format: ''
          else if maxSafeInteger < int (str_dec s) then invalid ''Value must be a safe integer''
          else Inr (int (str_dec s))
      | JNum n \<Rightarrow>
          (case n of
             NInt i \<Rightarrow> if \<not> isSafeInteger n then invalid ''Value must be a safe integer''
                        else if i < 0 then invalid ''Value must be a positive integer'' else Inr i
           | _ \<Rightarrow> invalid ''Value must be a safe integer'')
      | _ \<Rightarrow> invalid ''Value must be a number or numeric string'')"

section \<open>Passwords, networks, booleans and names\<close>

definition validatePassword :: "jsval \<Rightarrow> string result" where
  "validatePassword v =
     (case v of
        JStr s \<Rightarrow>
          if s = [] then invalid ''Password must be a non-empty string''
          else if length s < 8 then invalid ''Password must be at least ''
          else if list_all is_ws s then invalid ''Password must contain at least one non-whitespace character''
          else if 100 < length s then invalid ''Password must be less than ''
          else Inr s
      | _ \<Rightarrow> invalid ''Password must be a non-empty string'')"

definition validateNetwork :: "jsval \<Rightarrow> string result" where
  "validateNetwork v =
     (if \<not> truthy v then Inr ''mainnet''
      else case v of
        JStr s \<Rightarrow> if trim (to_lower s) \<in> {''mainnet'', ''testnet''} then Inr (trim (to_lower s))
                  else invalid ''Invalid network: ''
      | _ \<Rightarrow> invalid ''Network must be a string'')"

definition validateBoolean :: "jsval \<Rightarrow> bool result" where
  "validateBoolean v =
     (case v of
        JBool b \<Rightarrow> Inr b
      | JStr s \<Rightarrow>
          if s \<noteq> trim s then invalid ''Invalid boolean value: ''
          else if to_lower s \<in> {''true'', ''1''} then Inr True
          else if to_lower s \<in> {''false'', ''0''} then Inr False
          else invalid ''Invalid boolean value: ''
      | JNum n \<Rightarrow> if n = NInt 1 then Inr True else if n = NInt 0 then Inr False
                  else invalid ''Invalid boolean value: ''
      | _ \<Rightarrow> invalid ''Boolean value must be a boolean, string, or number.'')"

definition validateContractName :: "jsval \<Rightarrow> string list \<Rightarrow> string result" where
  "validateContractName v available =
     (case v of
        JStr s \<Rightarrow>
          if s = [] then invalid ''Contract name must be a non-empty string''
          else (case find (\<lambda>c. to_lower c = to_lower (trim s)) available of
                  Some c \<Rightarrow> if c = [] then invalid ''Invalid contract name: '' else Inr c
                | None \<Rightarrow> if available \<noteq> [] then invalid ''Invalid contract name: '' else Inr (trim s))
      | _ \<Rightarrow> invalid ''Contract name must be a non-empty string'')"

definition validateContractOperation :: "jsval \<Rightarrow> string list \<Rightarrow> string result" where
  "validateContractOperation v available =
     (case v of
        JStr s \<Rightarrow>
          if s = [] then invalid ''Operation name must be a non-empty string''
          else if available \<noteq> [] \<and> trim s \<notin> set available then invalid ''Invalid operation: ''
          else Inr (trim s)
      | _ \<Rightarrow> invalid ''Operation name must be a non-empty string'')"

section \<open>Sanitizing\<close>

definition control_char :: "char \<Rightarrow> bool" where
  "control_char c \<longleftrightarrow> cc c \<le> 31 \<or> (127 \<le> cc c \<and> cc c \<le> 159)"

text \<open>
  \<open>/<script\b[^<]*(?:(?!<\/script>)<[^<]*)*<\/script>/gi\<close>: from \<open><script\<close> and a word boundary to the
  first \<open></script>\<close> after it. \<open>after_close\<close> is what follows that closing tag.
\<close>

definition open_script :: "string \<Rightarrow> bool" where
  "open_script s \<longleftrightarrow> starts_with (to_lower s) ''<script'' \<and>
     (case drop 7 s of [] \<Rightarrow> True | c # _ \<Rightarrow> \<not> (is_alnum c \<or> c = CHR ''_''))"

fun after_close :: "string \<Rightarrow> string option" where
  "after_close [] = None"
| "after_close (c # cs) = (if starts_with (to_lower (c # cs)) ''</script>'' then Some (drop 8 cs) else after_close cs)"

lemma after_close_length: "after_close s = Some t \<Longrightarrow> length t < length s"
  by (induction s) (auto split: if_splits)

function strip_scripts :: "string \<Rightarrow> string" where
  "strip_scripts [] = []"
| "strip_scripts (c # cs) =
     (if open_script (c # cs)
      then (case after_close (drop 6 cs) of Some t \<Rightarrow> strip_scripts t | None \<Rightarrow> c # strip_scripts cs)
      else c # strip_scripts cs)"
  by pat_completeness auto
termination
  by (relation "measure length") (auto dest: after_close_length)

text \<open>\<open>/<[^>]*>/g\<close>: from a \<open><\<close> to the first \<open>>\<close> after it.\<close>

fun after_gt :: "string \<Rightarrow> string option" where
  "after_gt [] = None"
| "after_gt (c # cs) = (if c = CHR ''>'' then Some cs else after_gt cs)"

lemma after_gt_length: "after_gt s = Some t \<Longrightarrow> length t < length s"
  by (induction s) (auto split: if_splits)

function strip_tags :: "string \<Rightarrow> string" where
  "strip_tags [] = []"
| "strip_tags (c # cs) =
     (if c = CHR ''<''
      then (case after_gt cs of Some t \<Rightarrow> strip_tags t | None \<Rightarrow> c # strip_tags cs)
      else c # strip_tags cs)"
  by pat_completeness auto
termination
  by (relation "measure length") (auto dest: after_gt_length)

definition sanitizeString :: "jsval \<Rightarrow> string result" where
  "sanitizeString v =
     (case v of
        JStr s \<Rightarrow> Inr (trim (strip_tags (strip_scripts (filter (\<lambda>c. \<not> control_char c) s))))
      | _ \<Rightarrow> invalid ''Input must be a string'')"


section \<open>Normal forms\<close>

lemma hex_0x_with: "hex_0x n s \<Longrightarrow> with_0x s = s"
  by (simp add: hex_0x_def with_0x_def)

lemma starts_with_lower: "starts_with s p \<Longrightarrow> starts_with (to_lower s) (to_lower p)"
  by (simp add: starts_with_def to_lower_def take_map)

lemma hex_0x_lower:
  assumes "hex_0x n s"
  shows "hex_0x n (to_lower s) \<and> to_lower (to_lower s) = to_lower s"
proof -
  have "list_all is_hex (to_lower (drop 2 s))"
    using to_lower_hex [of "drop 2 s"] assms by (auto simp: hex_0x_def list_all_iff)
  moreover have "starts_with (to_lower s) ''0x''"
    using starts_with_lower [of s "''0x''"] assms by (simp add: hex_0x_def to_lower_def lower_char_def cc_def)
  ultimately show ?thesis using assms by (simp add: hex_0x_def to_lower_def drop_map)
qed

lemma hex_0x_nonempty: "hex_0x n s \<Longrightarrow> s \<noteq> []"
  by (auto simp: hex_0x_def)

text \<open>
  A validated Neo X address is \<open>0x\<close> and 40 lower-case hex digits, and validating it
  again changes nothing; it is the given text up to the prefix and the case of the digits.
\<close>

lemma evm_address_normal_form:
  assumes "validateEvmAddress v = Inr a"
  shows "hex_0x 40 a \<and> to_lower a = a \<and> validateEvmAddress (JStr a) = Inr a
    \<and> (\<exists>s. v = JStr s \<and> a = to_lower (with_0x s))"
proof -
  from assms obtain s where s: "v = JStr s" "a = to_lower (with_0x s)" "hex_0x 40 (with_0x s)"
    by (auto simp: validateEvmAddress_def split: jsval.splits if_splits)
  then have a: "hex_0x 40 a" "to_lower a = a" using hex_0x_lower by auto
  then have "validateEvmAddress (JStr a) = Inr a"
    using hex_0x_with hex_0x_nonempty by (simp add: validateEvmAddress_def)
  with a s show ?thesis by blast
qed

lemma evm_address_normal_form_witness:
  "hex_0x 40 (''0x'' @ replicate 39 CHR ''a'' @ ''1'')
   \<and> validateEvmAddress (JStr (replicate 39 CHR ''A'' @ ''1'')) = Inr (''0x'' @ replicate 39 CHR ''a'' @ ''1'')"
proof -
  have "validateEvmAddress (JStr (replicate 39 CHR ''A'' @ ''1'')) = Inr (''0x'' @ replicate 39 CHR ''a'' @ ''1'')"
    by code_simp
  with evm_address_normal_form [OF this] show ?thesis by blast
qed

lemma trim_digits: "all_digits s \<Longrightarrow> trim s = s"
  by (rule trim_id) (auto simp: all_digits_def list_all_iff list_ex_iff is_digit_def is_ws_def)

lemma dec_str_all_digits [simp]: "all_digits (dec_str n)"
  by (simp add: all_digits_def dec_str_digits)

text \<open>
  A validated wei amount is the canonical decimal text of the value given as a number, a
  bigint or a digit string; it is positive unless zero is allowed, and validating the text
  again changes nothing.
\<close>

lemma evm_amount_canonical:
  assumes "validateEvmAmount allowZero v = Inr t"
  shows "\<exists>n. t = dec_str n \<and> evm_amount_value v = Inr (int n) \<and> (allowZero \<or> 0 < n)
    \<and> validateEvmAmount allowZero (JStr t) = Inr t"
proof -
  from assms obtain i where i: "evm_amount_value v = Inr i" "0 \<le> i" "i \<noteq> 0 \<or> allowZero" "t = int_str i"
    by (auto simp: validateEvmAmount_def result_simps split: if_splits)
  then have t: "t = dec_str (nat i)" by (simp add: int_str_def)
  have "evm_amount_value (JStr t) = Inr i" using i(2) by (simp add: evm_amount_value_def t trim_digits)
  with i t show ?thesis by (intro exI [of _ "nat i"]) (auto simp: validateEvmAmount_def)
qed

lemma evm_amount_canonical_witness:
  "validateEvmAmount False (JStr '' 0070 '') = Inr ''70'' \<and> (\<exists>n. ''70'' = dec_str n)"
proof -
  have "validateEvmAmount False (JStr '' 0070 '') = Inr ''70''" by code_simp
  with evm_amount_canonical [OF this] show ?thesis by blast
qed

section \<open>What sanitizing removes\<close>

text \<open>No \<open><\<close> is followed by a \<open>>\<close>.\<close>

fun tag_free :: "string \<Rightarrow> bool" where
  "tag_free [] = True"
| "tag_free (c # cs) = ((c = CHR ''<'' \<longrightarrow> CHR ''>'' \<notin> set cs) \<and> tag_free cs)"

lemma after_gt_None: "after_gt s = None \<longleftrightarrow> CHR ''>'' \<notin> set s"
  by (induction s) auto

lemma after_gt_suffix: "after_gt s = Some t \<Longrightarrow> set t \<subseteq> set s"
  by (induction s) (auto split: if_splits)

lemma after_close_suffix: "after_close s = Some t \<Longrightarrow> set t \<subseteq> set s"
  by (induction s) (auto split: if_splits dest: in_set_dropD)

lemma set_strip_tags: "set (strip_tags s) \<subseteq> set s"
proof (induction s rule: strip_tags.induct)
  case (2 c cs)
  then show ?case by (auto split: option.splits) (blast dest: after_gt_suffix)
qed simp

lemma set_strip_scripts: "set (strip_scripts s) \<subseteq> set s"
proof (induction s rule: strip_scripts.induct)
  case (2 c cs)
  have "set t \<subseteq> set cs" if "after_close (drop 6 cs) = Some t" for t
    using after_close_suffix [OF that] set_drop_subset [of 6 cs] by blast
  with 2 show ?case by (auto split: option.splits) blast+
qed simp

lemma strip_tags_free: "tag_free (strip_tags s)"
proof (induction s rule: strip_tags.induct)
  case (2 c cs)
  then show ?case using set_strip_tags [of cs]
    by (auto split: option.splits simp: after_gt_None)
qed simp

lemma tag_free_append: "tag_free (a @ b) \<Longrightarrow> tag_free a \<and> tag_free b"
  by (induction a) auto

lemma trim_parts: "\<exists>a b. s = a @ trim s @ b"
proof -
  let ?t = "dropWhile is_ws s"
  have "s = takeWhile is_ws s @ ?t" by simp
  moreover have "?t = trim s @ rev (takeWhile is_ws (rev ?t))"
    unfolding trim_def by (metis rev_append rev_rev_ident takeWhile_dropWhile_id)
  ultimately show ?thesis by metis
qed

lemma tag_free_trim: "tag_free s \<Longrightarrow> tag_free (trim s)"
  using trim_parts [of s] by (metis tag_free_append)

lemma strip_tags_tag_free: "tag_free s \<Longrightarrow> strip_tags s = s"
  by (induction s rule: strip_tags.induct) (auto split: option.splits simp: after_gt_None [symmetric])

lemma after_close_gt: "after_close s = Some t \<Longrightarrow> CHR ''>'' \<in> set s"
proof (induction s)
  case (Cons c cs)
  show ?case
  proof (cases "starts_with (to_lower (c # cs)) ''</script>''")
    case True
    then have "to_lower (c # cs) = ''</script>'' @ drop (length ''</script>'') (to_lower (c # cs))" by (rule starts_withD)
    then have "CHR ''>'' \<in> set (to_lower (c # cs))" by (metis Un_iff list.set_intros set_append)
    then obtain d where d: "d \<in> set (c # cs)" "lower_char d = CHR ''>''"
      unfolding to_lower_def by (metis imageE set_map)
    moreover have "d = CHR ''>''" using d(2) by (rule lower_char_other) (simp add: cc_def)
    ultimately show ?thesis by simp
  next
    case False
    with Cons show ?thesis by simp
  qed
qed simp

lemma open_script_lt: "open_script (c # cs) \<Longrightarrow> c = CHR ''<''"
  using lower_char_other [of c "CHR ''<''"] by (simp add: open_script_def starts_with_def to_lower_def cc_def)

lemma strip_scripts_tag_free: "tag_free s \<Longrightarrow> strip_scripts s = s"
proof (induction s rule: strip_scripts.induct)
  case (2 c cs)
  have "after_close (drop 6 cs) = None" if "open_script (c # cs)"
  proof (rule ccontr)
    assume "after_close (drop 6 cs) \<noteq> None"
    then have "CHR ''>'' \<in> set cs" using after_close_gt in_set_dropD by fastforce
    with 2(4) open_script_lt [OF that] show False by simp
  qed
  with 2 show ?case by auto
qed simp

lemma trim_idem: "trim (trim s) = trim s"
proof -
  have dd: "dropWhile P (dropWhile P xs) = dropWhile P xs" for P :: "char \<Rightarrow> bool" and xs
    by (induction xs) auto
  let ?t = "dropWhile is_ws s"
  have "dropWhile is_ws (trim s) = trim s"
  proof (cases "trim s")
    case (Cons c cs)
    have "?t = trim s @ rev (takeWhile is_ws (rev ?t))"
      unfolding trim_def by (metis rev_append rev_rev_ident takeWhile_dropWhile_id)
    with Cons have "?t = c # cs @ rev (takeWhile is_ws (rev ?t))" by simp
    then have "\<not> is_ws c" by (metis dropWhile_eq_Cons_conv)
    with Cons show ?thesis by simp
  qed simp
  then show ?thesis unfolding trim_def [of "trim s"] by (simp add: trim_def dd)
qed

lemma sanitize_shape: "sanitizeString v = Inr t \<Longrightarrow> tag_free t \<and> list_all (\<lambda>c. \<not> control_char c) t"
proof -
  assume "sanitizeString v = Inr t"
  then obtain s where t: "t = trim (strip_tags (strip_scripts (filter (\<lambda>c. \<not> control_char c) s)))"
    by (auto simp: sanitizeString_def split: jsval.splits)
  have "set t \<subseteq> set (filter (\<lambda>c. \<not> control_char c) s)"
    unfolding t by (rule subset_trans [OF set_trim subset_trans [OF set_strip_tags set_strip_scripts]])
  then show ?thesis unfolding t using tag_free_trim [OF strip_tags_free] by (auto simp: list_all_iff)
qed

lemma sanitize_free: "sanitizeString v = Inr t \<Longrightarrow> tag_free t"
  using sanitize_shape by blast

text \<open>
  A sanitized text has no control character, no \<open><\<close> with a \<open>>\<close> after it (so no tag),
  only characters of the input, and sanitizing it again changes nothing.
\<close>

lemma sanitize_clean:
  assumes "sanitizeString v = Inr t"
  shows "tag_free t \<and> list_all (\<lambda>c. \<not> control_char c) t \<and> sanitizeString (JStr t) = Inr t
    \<and> (\<exists>s. v = JStr s \<and> set t \<subseteq> set s)"
proof -
  from assms obtain s where v: "v = JStr s"
    and t: "t = trim (strip_tags (strip_scripts (filter (\<lambda>c. \<not> control_char c) s)))" (is "t = trim (strip_tags ?u)")
    by (auto simp: sanitizeString_def split: jsval.splits)
  have sub: "set t \<subseteq> set (filter (\<lambda>c. \<not> control_char c) s)"
    unfolding t by (rule subset_trans [OF set_trim subset_trans [OF set_strip_tags set_strip_scripts]])
  have free: "tag_free t" unfolding t by (rule tag_free_trim [OF strip_tags_free])
  have ctrl: "filter (\<lambda>c. \<not> control_char c) t = t" using sub by (auto simp: filter_id_conv)
  have "trim t = t" by (simp add: t trim_idem)
  with free ctrl have "sanitizeString (JStr t) = Inr t"
    by (simp add: sanitizeString_def strip_scripts_tag_free strip_tags_tag_free)
  with free sub v show ?thesis by (auto simp: list_all_iff)
qed

lemma sanitize_clean_witness:
  "sanitizeString (JStr ''a<b>c<script x>y</script>d<e'') = Inr ''acd<e'' \<and> tag_free ''acd<e''"
proof -
  have "sanitizeString (JStr ''a<b>c<script x>y</script>d<e'') = Inr ''acd<e''" by code_simp
  with sanitize_clean [OF this] show ?thesis by blast
qed

end
