(* ===== verification/Allowlist.thy ===== *)
theory Allowlist
  imports Json Validation
begin

text \<open>
  What the catalog guards of src/indexer share: narrowing an argument to a plain object, the
  whitelist of parameter keys, the substitution of one validated segment into a fixed path
  template, and the query parameters emitted from a list of declared ones. The interface
  \<open>segment_guard\<close> states what the path guards need of their segment validators; the N3 REST
  and Blockscout guards interpret it.
\<close>

section \<open>Argument objects\<close>

text \<open>The own enumerable properties of a value of type \<open>object\<close>; \<open>None\<close> for other values.\<close>

fun own_props :: "jsval \<Rightarrow> jsobj option" where
  "own_props (JObj kvs) = Some kvs"
| "own_props (JInst kvs) = Some kvs"
| "own_props (JToJson kvs v) = Some kvs"
| "own_props (JBytes bs) = Some (map (\<lambda>(k, b). (k, JNum (NInt (int b)))) (bytes_obj 0 bs))"
| "own_props JRegExp = Some []"
| "own_props _ = None"

definition asPlainObject :: "string \<Rightarrow> jsval \<Rightarrow> jsobj result" where
  "asPlainObject msg v =
     (if nullish v then Inr []
      else case own_props v of Some kvs \<Rightarrow> Inr kvs | None \<Rightarrow> invalid msg)"

definition reject_unknown :: "string list \<Rightarrow> string list \<Rightarrow> jsobj \<Rightarrow> unit result" where
  "reject_unknown declared ignored source =
     (if list_all (\<lambda>(k, v). k \<in> set declared \<or> k \<in> set ignored) source then Inr ()
      else invalid (''Unknown parameter '' @ [CHR 0x22]))"

lemma reject_unknown_Inr:
  "reject_unknown declared ignored source = Inr u \<longleftrightarrow> fst ` set source \<subseteq> set declared \<union> set ignored"
  by (auto simp: reject_unknown_def list_all_iff split: if_splits)

section \<open>Path templates\<close>

lemma hex_alnum: "is_hex c \<Longrightarrow> is_alnum c"
  by (auto simp: is_hex_def is_lower_hex_def is_digit_def is_alnum_def is_alpha_def)

lemma digit_alnum: "is_digit c \<Longrightarrow> is_alnum c"
  by (simp add: is_alnum_def)

lemma all_digits_alnum: "all_digits s \<Longrightarrow> s \<noteq> [] \<and> list_all is_alnum s"
  by (auto simp: all_digits_def list_all_iff digit_alnum)

lemma hex_0x_alnum:
  assumes "starts_with s ''0x''" "list_all is_hex (drop 2 s)"
  shows "s \<noteq> [] \<and> list_all is_alnum s"
proof -
  have "s = ''0x'' @ drop 2 s" using starts_withD [OF assms(1)] by (simp add: numeral_2_eq_2)
  moreover have "list_all is_alnum ''0x''" by (simp add: is_alnum_def is_alpha_def is_digit_def cc_def)
  moreover have "list_all is_alnum (drop 2 s)" using assms(2) by (simp add: list_all_iff hex_alnum)
  ultimately have "list_all is_alnum s" by (metis list_all_append)
  then show ?thesis using assms(1) by (auto simp: starts_with_def)
qed

text \<open>Characters of a resolved path: no dot, percent sign, query or fragment marker.\<close>

definition path_char :: "char \<Rightarrow> bool" where
  "path_char c \<longleftrightarrow> is_alnum c \<or> c \<in> set ''/-_''"


definition placeholder :: "string \<Rightarrow> string" where
  "placeholder key = CHR ''{'' # key @ ''}''"

definition no_braces :: "string \<Rightarrow> bool" where
  "no_braces s \<longleftrightarrow> CHR ''{'' \<notin> set s \<and> CHR ''}'' \<notin> set s"

definition resolve_path ::
    "('t \<Rightarrow> jsval \<Rightarrow> string result) \<Rightarrow> (string \<Rightarrow> bool) \<Rightarrow> string \<Rightarrow> string \<Rightarrow> (string \<times> 't) option \<Rightarrow> jsobj \<Rightarrow> string result" where
  "resolve_path validateSegment safe unresolved template param source =
     (case param of
        None \<Rightarrow> if no_braces template then Inr template else invalid unresolved
      | Some (key, type) \<Rightarrow>
          if nullish (oget source key) then invalid (''Missing required path parameter '' @ [CHR 0x22])
          else bindR (validateSegment type (oget source key)) (\<lambda>segment.
            if \<not> safe segment then invalid (''Path parameter '' @ [CHR 0x22])
            else if \<not> includes_str template (placeholder key) then invalid (''Endpoint template '' @ [CHR 0x22])
            else let path = replace_all (placeholder key) segment template in
                 if no_braces path then Inr path else invalid unresolved))"

text \<open>
  A template whose only braces are those of one placeholder: text before, the placeholder,
  text after.
\<close>

definition template_split :: "string \<Rightarrow> string \<Rightarrow> string \<Rightarrow> string \<Rightarrow> bool" where
  "template_split template key before after \<longleftrightarrow>
     template = before @ placeholder key @ after \<and> no_braces before \<and> no_braces after \<and> no_braces key"

lemma replace_all_none: "CHR ''{'' \<notin> set s \<Longrightarrow> replace_all (placeholder key) seg s = s"
  by (induction s) (auto simp: placeholder_def starts_with_def)

lemma replace_all_prefix: "CHR ''{'' \<notin> set s \<Longrightarrow> replace_all (placeholder key) seg (s @ t) = s @ replace_all (placeholder key) seg t"
  by (induction s) (auto simp: placeholder_def starts_with_def)

lemma replace_all_here:
  "replace_all (placeholder key) seg (placeholder key @ t) = seg @ replace_all (placeholder key) seg t"
proof -
  have "placeholder key @ t = CHR ''{'' # (key @ ''}'' @ t)" by (simp add: placeholder_def)
  moreover have "starts_with (CHR ''{'' # (key @ ''}'' @ t)) (placeholder key)"
    "drop (length (placeholder key)) (CHR ''{'' # (key @ ''}'' @ t)) = t"
    by (simp_all add: placeholder_def starts_with_def)
  ultimately show ?thesis
    by (simp only: replace_all.simps) (simp add: placeholder_def)
qed

lemma replace_template:
  "template_split template key before after \<Longrightarrow>
   replace_all (placeholder key) seg template = before @ seg @ after"
  by (simp add: template_split_def no_braces_def replace_all_prefix replace_all_here replace_all_none)

lemma includes_here: "includes_str (s @ pat @ t) pat"
proof (induction s)
  case Nil
  have "take (length pat) (pat @ t) = pat" by simp
  then show ?case by (cases "pat @ t") (simp_all add: starts_with_def)
qed simp

section \<open>Query parameters\<close>

record 'q query_spec =
  q_type :: 'q
  q_values :: "string list option"
  q_required :: bool

definition collect_query ::
    "(string \<Rightarrow> 'q query_spec \<Rightarrow> jsval \<Rightarrow> jsval result) \<Rightarrow> (string \<times> 'q query_spec) list \<Rightarrow> jsobj \<Rightarrow> jsobj result" where
  "collect_query validateValue specs source =
     bindR (mapR (\<lambda>(key, spec).
        if nullish (oget source key)
        then if q_required spec then invalid (''Missing required query parameter '' @ [CHR 0x22]) else Inr []
        else bindR (validateValue key spec (oget source key)) (\<lambda>v. Inr [(key, v)])) specs)
     (\<lambda>parts. Inr (concat parts))"

lemma collect_query_in:
  assumes "collect_query validateValue specs source = Inr params" "(k, v) \<in> set params"
  shows "\<exists>spec. (k, spec) \<in> set specs \<and> \<not> nullish (oget source k) \<and> validateValue k spec (oget source k) = Inr v"
proof -
  let ?f = "\<lambda>(key, spec). if nullish (oget source key)
        then if q_required spec then invalid (''Missing required query parameter '' @ [CHR 0x22]) else Inr []
        else bindR (validateValue key spec (oget source key)) (\<lambda>v. Inr [(key, v)])"
  from assms obtain parts part where m: "mapR ?f specs = Inr parts" and p: "part \<in> set parts" "(k, v) \<in> set part"
    by (auto simp: collect_query_def result_simps)
  from mapR_Inr_in [OF m p(1)] obtain x where x: "x \<in> set specs" "?f x = Inr part" by blast
  obtain key spec where "x = (key, spec)" by (cases x)
  with x p(2) show ?thesis by (auto simp: result_simps split: if_splits)
qed

section \<open>Endpoints\<close>

record ('p, 'q) endpoint =
  e_pathTemplate :: string
  e_pathParam :: "(string \<times> 'p) option"
  e_queryParams :: "(string \<times> 'q query_spec) list option"
  e_category :: string
  e_summary :: string

definition declared_keys :: "('p, 'q) endpoint \<Rightarrow> string list" where
  "declared_keys d = (case e_pathParam d of Some (k, t) \<Rightarrow> [k] | None \<Rightarrow> [])
     @ (case e_queryParams d of Some qs \<Rightarrow> map fst qs | None \<Rightarrow> [])"

definition build_request ::
    "(('p, 'q) endpoint \<Rightarrow> jsobj \<Rightarrow> string result) \<Rightarrow> (('p, 'q) endpoint \<Rightarrow> jsobj \<Rightarrow> jsobj result) \<Rightarrow> string \<Rightarrow>
     ('p, 'q) endpoint \<Rightarrow> jsval \<Rightarrow> (string \<times> jsobj) result" where
  "build_request buildPath buildQueryParams notObject d input =
     bindR (asPlainObject notObject input) (\<lambda>source.
     bindR (reject_unknown (declared_keys d) [''network'', ''endpoint'', ''params''] source) (\<lambda>_.
     bindR (buildPath d source) (\<lambda>path.
     bindR (buildQueryParams d source) (\<lambda>params. Inr (path, params)))))"

text \<open>The template of an endpoint has exactly the placeholder of its path parameter.\<close>

fun brace_split :: "string \<Rightarrow> string \<times> string" where
  "brace_split [] = ([], [])"
| "brace_split (c # cs) = (if c = CHR ''{'' then ([], c # cs) else (case brace_split cs of (a, b) \<Rightarrow> (c # a, b)))"

definition template_ok :: "('p, 'q) endpoint \<Rightarrow> bool" where
  "template_ok d \<longleftrightarrow> list_all (\<lambda>c. path_char c \<or> c \<in> set ''{}'') (e_pathTemplate d) \<and>
     (case e_pathParam d of
        None \<Rightarrow> no_braces (e_pathTemplate d)
      | Some (key, t) \<Rightarrow>
          (case brace_split (e_pathTemplate d) of (before, rest) \<Rightarrow>
             starts_with rest (placeholder key) \<and> no_braces before \<and> list_all is_alnum key
             \<and> no_braces (drop (length (placeholder key)) rest)))"

lemma brace_split_append: "brace_split s = (a, b) \<Longrightarrow> s = a @ b"
  by (induction s arbitrary: a b) (auto split: if_splits prod.splits)

lemma alnum_no_braces: "list_all is_alnum s \<Longrightarrow> no_braces s"
  by (auto simp: list_all_iff no_braces_def is_alnum_def is_alpha_def is_digit_def cc_def)

lemma keys_plain: "template_ok d \<Longrightarrow> e_pathParam d = Some (key, t) \<Longrightarrow> CHR ''/'' \<notin> set key"
  by (auto simp: template_ok_def list_all_iff is_alnum_def is_alpha_def is_digit_def cc_def split: prod.splits)

lemma template_ok_split:
  assumes "template_ok d" "e_pathParam d = Some (key, t)"
  shows "\<exists>before after. template_split (e_pathTemplate d) key before after"
proof -
  obtain before rest where s: "brace_split (e_pathTemplate d) = (before, rest)" by (cases "brace_split (e_pathTemplate d)")
  with assms have ok: "starts_with rest (placeholder key)" "no_braces before" "no_braces key"
    "no_braces (drop (length (placeholder key)) rest)" by (auto simp: template_ok_def alnum_no_braces)
  have "e_pathTemplate d = before @ placeholder key @ drop (length (placeholder key)) rest"
    using brace_split_append [OF s] starts_withD [OF ok(1)] by metis
  with ok show ?thesis unfolding template_split_def by blast
qed

section \<open>The segment interface\<close>

text \<open>
  What the path guards rely on: every segment the validators let through passes the safe
  shape, and a safe segment consists of letters and digits.
\<close>

locale segment_guard =
  fixes validateSegment :: "'t \<Rightarrow> jsval \<Rightarrow> string result"
    and safe :: "string \<Rightarrow> bool"
  assumes validated_safe: "validateSegment t v = Inr s \<Longrightarrow> safe s"
    and safe_alnum: "safe s \<Longrightarrow> s \<noteq> [] \<and> list_all is_alnum s"
begin

lemma segment_no_braces: "safe s \<Longrightarrow> no_braces s"
  using safe_alnum [of s] alnum_no_braces by blast

text \<open>A resolved path is the template with one alphanumeric segment in place of its placeholder.\<close>

lemma resolve_path_shape:
  assumes "resolve_path validateSegment safe unresolved (e_pathTemplate d) (e_pathParam d) source = Inr path" "template_ok d"
  shows "case e_pathParam d of
      None \<Rightarrow> path = e_pathTemplate d
    | Some (key, t) \<Rightarrow> \<exists>before seg after. e_pathTemplate d = before @ placeholder key @ after \<and> path = before @ seg @ after
        \<and> validateSegment t (oget source key) = Inr seg \<and> seg \<noteq> [] \<and> list_all is_alnum seg"
proof (cases "e_pathParam d")
  case None
  with assms(1) show ?thesis by (auto simp: resolve_path_def split: if_splits)
next
  case (Some kt)
  obtain key t where kt: "kt = (key, t)" by (cases kt)
  from template_ok_split [OF assms(2)] Some kt obtain before after
    where ts: "template_split (e_pathTemplate d) key before after" by blast
  from assms(1) Some kt obtain seg where seg: "validateSegment t (oget source key) = Inr seg" "safe seg"
    and "path = replace_all (placeholder key) seg (e_pathTemplate d)"
    by (auto simp: resolve_path_def result_simps Let_def split: if_splits)
  with ts replace_template [OF ts, of seg] safe_alnum [OF seg(2)] Some kt show ?thesis
    by (auto simp: template_split_def)
qed

text \<open>
  A resolved path has the characters of a plain path and as many separators as its template:
  no traversal and no other host, query or fragment.
\<close>

lemma resolve_path_plain:
  assumes res: "resolve_path validateSegment safe unresolved (e_pathTemplate d) (e_pathParam d) source = Inr path"
    and ok: "template_ok d"
  shows "list_all path_char path \<and> count_list path CHR ''/'' = count_list (e_pathTemplate d) CHR ''/''"
proof (cases "e_pathParam d")
  case None
  with resolve_path_shape [OF res ok] have "path = e_pathTemplate d" by simp
  moreover from None ok have "no_braces (e_pathTemplate d)" by (simp add: template_ok_def)
  ultimately show ?thesis using ok by (auto simp: template_ok_def no_braces_def list_all_iff)
next
  case (Some kt)
  obtain key t where kt: "kt = (key, t)" by (cases kt)
  from template_ok_split [OF ok] Some kt obtain before after
    where ts: "template_split (e_pathTemplate d) key before after" by blast
  from res Some kt obtain seg where "validateSegment t (oget source key) = Inr seg" "safe seg"
    and p: "path = replace_all (placeholder key) seg (e_pathTemplate d)"
    by (auto simp: resolve_path_def result_simps Let_def split: if_splits)
  then have seg: "list_all is_alnum seg" using safe_alnum by blast
  have path: "path = before @ seg @ after" using replace_template [OF ts] p by simp
  have key: "CHR ''/'' \<notin> set key" using keys_plain [OF ok] Some kt by simp
  have sl: "count_list xs CHR ''/'' = 0" if "CHR ''/'' \<notin> set xs" for xs using that by (simp add: count_list_0_iff)
  have "CHR ''/'' \<notin> set seg" using seg by (auto simp: list_all_iff is_alnum_def is_alpha_def is_digit_def cc_def)
  then have "count_list path CHR ''/'' = count_list (e_pathTemplate d) CHR ''/''"
    using ts key sl by (simp add: path template_split_def placeholder_def)
  moreover have "list_all path_char path"
    using ts ok seg by (auto simp: path template_split_def template_ok_def no_braces_def list_all_iff path_char_def)
  ultimately show ?thesis by blast
qed

text \<open>On a well-formed endpoint the path is built exactly when the segment validates.\<close>

lemma resolve_path_complete:
  assumes "template_ok d" "e_pathParam d = Some (key, t)" "\<not> nullish (oget source key)"
    and "validateSegment t (oget source key) = Inr seg"
  shows "\<exists>path. resolve_path validateSegment safe unresolved (e_pathTemplate d) (e_pathParam d) source = Inr path"
proof -
  from template_ok_split [OF assms(1,2)] obtain before after
    where ts: "template_split (e_pathTemplate d) key before after" by blast
  have "safe seg" using assms(4) by (rule validated_safe)
  moreover from ts have "includes_str (e_pathTemplate d) (placeholder key)"
    by (simp add: template_split_def includes_here)
  moreover have "no_braces (replace_all (placeholder key) seg (e_pathTemplate d))"
    using segment_no_braces [OF \<open>safe seg\<close>] ts replace_template [OF ts, of seg]
    by (auto simp: template_split_def no_braces_def)
  ultimately show ?thesis using assms by (simp add: resolve_path_def Let_def)
qed

end

end
