(* ===== verification/Amounts.thy ===== *)
theory Amounts
  imports Allowlist
begin

text \<open>
  src/utils/transaction-preparation.ts and the amount arithmetic of
  src/utils/transaction-proposal.ts: GAS as text and as datos, token amounts scaled to integers,
  and the fee checks before a transaction is signed.

  The main results: printing and reading GAS amounts are inverse (\<open>gas_round_trip\<close>), scaling is
  exact (\<open>scale_amount_exact\<close>), and a prepared transaction is affordable and under the cap
  (\<open>prepared_fees_covered\<close>).
\<close>

section \<open>GAS amounts\<close>

definition GAS_FACTOR :: int where "GAS_FACTOR = 100000000"
definition DEFAULT_MAX_TRANSACTION_FEE_DATOS :: int where "DEFAULT_MAX_TRANSACTION_FEE_DATOS = 20 * GAS_FACTOR"

text \<open>\<open>replace(/0+$/, '')\<close>\<close>

definition strip_zeros :: "string \<Rightarrow> string" where
  "strip_zeros s = rev (dropWhile (\<lambda>c. c = CHR ''0'') (rev s))"

definition formatDatosAsGas :: "int \<Rightarrow> string" where
  "formatDatosAsGas v =
     (let digits = pad_start 9 (CHR ''0'') (int_str v);
          whole = take (length digits - 8) digits;
          fraction = strip_zeros (drop (length digits - 8) digits) in
      if fraction \<noteq> [] then whole @ CHR ''.'' # fraction else whole)"

text \<open>\<open>/^(0|[1-9]\d*)(?:\.(\d{1,8}))?$/\<close>: the two groups, the second empty when it did not match.\<close>

definition gas_groups :: "string \<Rightarrow> (string \<times> string) option" where
  "gas_groups s =
     (case split_on CHR ''.'' s of
        [w] \<Rightarrow> if all_digits w \<and> canonical_digits w then Some (w, []) else None
      | [w, f] \<Rightarrow> if all_digits w \<and> canonical_digits w \<and> all_digits f \<and> length f \<le> 8 then Some (w, f) else None
      | _ \<Rightarrow> None)"

definition parseGasAmountToDatos :: "string \<Rightarrow> int result" where
  "parseGasAmountToDatos s =
     (case gas_groups s of
        None \<Rightarrow> Inl (RangeError ''GAS amount must be a positive decimal with at most 8 decimal places'')
      | Some (w, f) \<Rightarrow>
          let datos = int (str_dec w) * GAS_FACTOR + int (str_dec (pad_end 8 (CHR ''0'') f)) in
          if datos \<le> 0 then Inl (RangeError ''GAS amount must be greater than zero'') else Inr datos)"

lemma strip_zeros_pad: "\<exists>k. s = strip_zeros s @ replicate k (CHR ''0'')"
proof -
  let ?z = "takeWhile (\<lambda>c. c = CHR ''0'') (rev s)"
  have "replicate (length ?z) (CHR ''0'') = ?z" by (rule replicate_length_same) (auto dest: set_takeWhileD)
  then have "rev ?z = replicate (length ?z) (CHR ''0'')" by (metis rev_replicate)
  moreover have "s = strip_zeros s @ rev ?z"
    unfolding strip_zeros_def rev_append [symmetric] takeWhile_dropWhile_id by simp
  ultimately show ?thesis by metis
qed

lemma pad_strip_zeros: "length s = n \<Longrightarrow> pad_end n (CHR ''0'') (strip_zeros s) = s \<and> length (strip_zeros s) \<le> n \<and> set (strip_zeros s) \<subseteq> set s"
proof -
  assume l: "length s = n"
  obtain k where k: "s = strip_zeros s @ replicate k (CHR ''0'')" using strip_zeros_pad by blast
  then have "k = n - length (strip_zeros s)" using l by (metis add_diff_cancel_left' length_append length_replicate)
  with k have "pad_end n (CHR ''0'') (strip_zeros s) = s" by (simp add: pad_end_def)
  moreover have "length (strip_zeros s) \<le> n" using k l by (metis le_add1 length_append)
  moreover have "set (strip_zeros s) \<subseteq> set s" using k by (metis Un_upper1 set_append)
  ultimately show ?thesis by blast
qed

text \<open>A text of digits, cut eight places from the right.\<close>

lemma padded_digits:
  assumes "0 < n"
  shows "list_all is_digit (pad_start 9 (CHR ''0'') (dec_str n))" "str_dec (pad_start 9 (CHR ''0'') (dec_str n)) = n"
    "canonical_digits (take (length (pad_start 9 (CHR ''0'') (dec_str n)) - 8) (pad_start 9 (CHR ''0'') (dec_str n)))"
proof -
  let ?d = "pad_start 9 (CHR ''0'') (dec_str n)"
  have zero: "is_digit (CHR ''0'')" by (simp add: is_digit_def)
  show "list_all is_digit ?d" using dec_str_digits [of n] zero by (auto simp: pad_start_def list_all_iff)
  show "str_dec ?d = n" by (simp add: pad_start_def)
  show "canonical_digits (take (length ?d - 8) ?d)"
  proof (cases "length (dec_str n) \<le> 9")
    case True
    then have "length ?d = 9" by simp
    then obtain c cs where "?d = c # cs" by (cases ?d) auto
    with \<open>length ?d = 9\<close> show ?thesis by (simp add: canonical_digits_def)
  next
    case False
    then have d: "?d = dec_str n" by (simp add: pad_start_def)
    have "hd (dec_str n) \<noteq> CHR ''0''" using dec_str_canonical [of n] False by (auto simp: canonical_digits_def)
    moreover have "take (length (dec_str n) - 8) (dec_str n) \<noteq> []" using False by simp
    ultimately show ?thesis using False unfolding d canonical_digits_def by simp
  qed
qed

lemma all_digits_no_point: "all_digits s \<Longrightarrow> CHR ''.'' \<notin> set s"
  by (auto simp: all_digits_def list_all_iff is_digit_def cc_def)

lemma gas_groups_text:
  assumes "all_digits w" "canonical_digits w" "list_all is_digit f" "length f \<le> 8"
  shows "gas_groups (if f \<noteq> [] then w @ CHR ''.'' # f else w) = Some (w, f)"
proof (cases "f = []")
  case True
  with assms show ?thesis by (simp add: gas_groups_def split_on_none all_digits_no_point)
next
  case False
  then have "all_digits f" using assms(3) by (simp add: all_digits_def)
  with False assms show ?thesis by (simp add: gas_groups_def split_on_append split_on_none all_digits_no_point)
qed

text \<open>The text of a number of datos is the text of its whole part and the padded text of its remainder.\<close>

lemma padded_digits_back:
  assumes "list_all is_digit f" "length f = k" "0 < k"
  shows "pad_start k (CHR ''0'') (dec_str (str_dec f)) = f"
proof -
  let ?g = "dropWhile (\<lambda>c. c = CHR ''0'') f" and ?j = "length (takeWhile (\<lambda>c. c = CHR ''0'') f)"
  have "takeWhile (\<lambda>c. c = CHR ''0'') f = replicate ?j (CHR ''0'')" by (rule replicate_length_same [symmetric]) (auto dest: set_takeWhileD)
  then have f: "f = replicate ?j (CHR ''0'') @ ?g" using takeWhile_dropWhile_id [of "\<lambda>c. c = CHR ''0''" f] by simp
  have value_f: "str_dec f = str_dec ?g" by (rule trans [OF arg_cong [OF f, of "str_nat 10"] str_nat_zeros])
  have len: "k = ?j + length ?g" using assms(2) arg_cong [OF f, of length] by (simp only: length_append length_replicate)
  show ?thesis
  proof (cases "?g = []")
    case True
    have "dec_str 0 = ''0''" by code_simp
    moreover have "replicate (k - 1) (CHR ''0'') @ ''0'' = replicate k (CHR ''0'')" using assms(3) by (cases k) (simp_all add: replicate_append_same)
    ultimately have "pad_start k (CHR ''0'') (dec_str (str_dec f)) = replicate k (CHR ''0'')"
      unfolding value_f True by (simp add: pad_start_def)
    moreover have "f = replicate k (CHR ''0'')" using f len unfolding True by simp
    ultimately show ?thesis by (simp only:)
  next
    case False
    then have "hd ?g \<noteq> CHR ''0''" using hd_dropWhile [of "\<lambda>c. c = CHR ''0''" f] by simp
    then have "canonical_digits ?g" using False by (simp add: canonical_digits_def)
    moreover have "list_all is_digit ?g" using assms(1) by (auto simp: list_all_iff dest: set_dropWhileD)
    ultimately have g: "dec_str (str_dec f) = ?g" unfolding value_f by (rule dec_str_str_dec [rotated])
    have j: "k - length ?g = ?j" using len by simp
    show ?thesis unfolding pad_start_def g j by (rule f [symmetric])
  qed
qed

lemma datos_parts:
  assumes "0 < n"
  shows "take (length (pad_start 9 (CHR ''0'') (dec_str n)) - 8) (pad_start 9 (CHR ''0'') (dec_str n)) = dec_str (n div 10 ^ 8)"
    "drop (length (pad_start 9 (CHR ''0'') (dec_str n)) - 8) (pad_start 9 (CHR ''0'') (dec_str n)) = pad_start 8 (CHR ''0'') (dec_str (n mod 10 ^ 8))"
proof -
  let ?d = "pad_start 9 (CHR ''0'') (dec_str n)"
  let ?w = "take (length ?d - 8) ?d" and ?f = "drop (length ?d - 8) ?d"
  note digits = padded_digits [OF assms]
  have len: "length ?f = 8" by simp
  have parts: "list_all is_digit ?w" "list_all is_digit ?f" using digits(1) by (metis append_take_drop_id list_all_append)+
  have n: "n = str_dec ?w * 10 ^ 8 + str_dec ?f"
    using digits(2) str_nat_append [of 10 ?w ?f] len by (metis append_take_drop_id)
  have "str_dec ?f < 10 ^ length ?f"
    by (rule str_nat_less) (use parts(2) in \<open>auto simp: list_all_iff digit_val_less\<close>)
  then have f: "str_dec ?f < 10 ^ 8" by (simp only: len)
  have "n div 10 ^ 8 = str_dec ?w" "n mod 10 ^ 8 = str_dec ?f"
    by (subst n, use f in simp)+
  then show "?w = dec_str (n div 10 ^ 8)" "?f = pad_start 8 (CHR ''0'') (dec_str (n mod 10 ^ 8))"
    using dec_str_str_dec [OF parts(1) digits(3)] padded_digits_back [OF parts(2) len] by simp_all
qed

text \<open>
  Every positive number of datos prints as a GAS amount that reads back as that number.
\<close>

lemma gas_round_trip:
  assumes "0 < v"
  shows "parseGasAmountToDatos (formatDatosAsGas v) = Inr v"
proof -
  obtain n where n: "v = int n" "0 < n" using assms by (metis zero_less_imp_eq_int)
  let ?d = "pad_start 9 (CHR ''0'') (dec_str n)"
  let ?w = "take (length ?d - 8) ?d" and ?f = "drop (length ?d - 8) ?d"
  have len: "9 \<le> length ?d" "length ?f = 8" by auto
  note digits = padded_digits [OF n(2)]
  have parts: "list_all is_digit ?w" "list_all is_digit ?f"
    using digits(1) by (metis append_take_drop_id list_all_append)+
  have "?d \<noteq> []" using len(1) by (metis list.size(3) not_numeral_le_zero)
  then have w: "all_digits ?w" using parts(1) len(1) by (auto simp: all_digits_def)
  from pad_strip_zeros [OF len(2)] have strip: "pad_end 8 (CHR ''0'') (strip_zeros ?f) = ?f" "length (strip_zeros ?f) \<le> 8"
    "set (strip_zeros ?f) \<subseteq> set ?f" by blast+
  have "list_all is_digit (strip_zeros ?f)" using parts(2) strip(3) by (auto simp: list_all_iff)
  then have g: "gas_groups (formatDatosAsGas v) = Some (?w, strip_zeros ?f)"
    using gas_groups_text [OF w digits(3) _ strip(2)] by (simp add: formatDatosAsGas_def int_str_def n Let_def)
  have "n = str_dec ?w * 10 ^ 8 + str_dec ?f"
    using digits(2) str_nat_append [of 10 ?w ?f] len(2) by (metis append_take_drop_id)
  then have "v = int (str_dec ?w * 10 ^ 8 + str_dec ?f)" by (simp only: n)
  then have v: "int (str_dec ?w) * GAS_FACTOR + int (str_dec ?f) = v" by (simp add: GAS_FACTOR_def)
  show ?thesis
    by (simp only: parseGasAmountToDatos_def g option.case prod.case strip(1) Let_def v) (use assms in simp)
qed

lemma gas_round_trip_witness: "parseGasAmountToDatos ''0.0000015'' = Inr 150 \<and> formatDatosAsGas 150 = ''0.0000015''"
proof -
  have "formatDatosAsGas 150 = ''0.0000015''" by code_simp
  with gas_round_trip [of 150] show ?thesis by simp
qed

section \<open>Token amounts\<close>

definition scaleTokenAmount :: "jsval \<Rightarrow> jsnum \<Rightarrow> string result" where
  "scaleTokenAmount amount decimals =
     (case decimals of
        NInt d \<Rightarrow>
          if \<not> isSafeInteger decimals \<or> d < 0 \<or> 255 < d then invalid ''Invalid token decimals: ''
          else (case amount of
            JStr a \<Rightarrow>
              if \<not> decimal_text (trim a) then invalid ''Amount must be a positive decimal string''
              else let parts = split_on CHR ''.'' (trim a);
                       whole = hd parts; fraction = (case parts of [w, f] \<Rightarrow> f | _ \<Rightarrow> []) in
                if nat d < length fraction then invalid ''Amount has more than ''
                else let scaled = int (str_dec (whole @ pad_end (nat d) (CHR ''0'') fraction)) in
                  if scaled \<le> 0 then invalid ''Amount must be greater than zero: ''
                  else if 2 ^ 255 - 1 < scaled then invalid ''Scaled amount exceeds the Neo VM integer range''
                  else Inr (int_str scaled)
          | _ \<Rightarrow> invalid ''Amount must be a positive decimal string'')
      | _ \<Rightarrow> invalid ''Invalid token decimals: '')"

text \<open>The digits of a decimal text and how many of them stand after the point.\<close>

definition decimal_digits :: "string \<Rightarrow> string" where
  "decimal_digits s = filter (\<lambda>c. c \<noteq> CHR ''.'') s"

definition decimal_places :: "string \<Rightarrow> nat" where
  "decimal_places s = length (tl (dropWhile (\<lambda>c. c \<noteq> CHR ''.'') s))"

lemma split_on_filter: "concat (split_on d s) = filter (\<lambda>c. c \<noteq> d) s"
  by (induction s) (auto split: list.splits)

lemma split_on_single: "split_on d s = [w] \<Longrightarrow> w = s \<and> d \<notin> set s"
  by (induction s arbitrary: w) (auto split: list.splits if_splits)

lemma split_on_tail: "split_on d s = [w, f] \<Longrightarrow> f = tl (dropWhile (\<lambda>c. c \<noteq> d) s)"
  by (induction s arbitrary: w) (auto dest: split_on_single split: list.splits if_splits)

lemma decimal_text_cases:
  assumes "decimal_text s"
  obtains w where "split_on CHR ''.'' s = [w]" "decimal_digits s = w" "decimal_places s = 0"
  | w f where "split_on CHR ''.'' s = [w, f]" "decimal_digits s = w @ f" "decimal_places s = length f"
proof -
  consider w where "split_on CHR ''.'' s = [w]" | w f where "split_on CHR ''.'' s = [w, f]"
    using assms by (auto simp: decimal_text_def split: list.splits)
  then show thesis
  proof cases
    case (1 w)
    have "dropWhile (\<lambda>c. c \<noteq> CHR ''.'') s = []" using split_on_single [OF 1] by (auto simp: dropWhile_eq_Nil_conv)
    then have "decimal_places s = 0" by (simp only: decimal_places_def list.sel list.size)
    moreover have "decimal_digits s = w" using split_on_filter [of "CHR ''.''" s] by (simp add: 1 decimal_digits_def)
    ultimately show thesis using that(1) 1 by blast
  next
    case (2 w f)
    have "decimal_digits s = w @ f" using split_on_filter [of "CHR ''.''" s] by (simp add: 2 decimal_digits_def)
    moreover have "decimal_places s = length f" using split_on_tail [OF 2] by (simp add: decimal_places_def)
    ultimately show thesis using that(2) 2 by blast
  qed
qed

text \<open>
  C16: scaling is exact. For a decimal text with at most \<open>d\<close> places the result is the canonical
  text of the amount times \<open>10^d\<close>, computed without rounding; it is positive and fits the
  integers of the VM.
\<close>

theorem scale_amount_exact:
  assumes "scaleTokenAmount (JStr a) (NInt d) = Inr r"
  shows "\<exists>n. r = dec_str n \<and> n * 10 ^ decimal_places (trim a) = str_dec (decimal_digits (trim a)) * 10 ^ nat d
    \<and> 0 < n \<and> n < 2 ^ 255 \<and> decimal_places (trim a) \<le> nat d \<and> 0 \<le> d \<and> d \<le> 255"
proof -
  let ?parts = "split_on CHR ''.'' (trim a)"
  define f where "f = (case ?parts of [w, f] \<Rightarrow> f | _ \<Rightarrow> [])"
  define n where "n = str_dec (hd ?parts @ pad_end (nat d) (CHR ''0'') f)"
  from assms have t: "decimal_text (trim a)" and d: "0 \<le> d" "d \<le> 255" and len: "length f \<le> nat d"
    and n: "0 < n" "int n \<le> 2 ^ 255 - 1" and r: "r = int_str (int n)"
    unfolding f_def n_def by (auto simp: scaleTokenAmount_def Let_def not_less split: if_splits)
  have "int n < 2 ^ 255" using n(2) by simp
  then have n255: "n < 2 ^ 255" by (metis of_nat_less_iff of_nat_numeral of_nat_power)
  have pad: "n = str_dec (hd ?parts @ f) * 10 ^ (nat d - length f)"
    unfolding n_def pad_end_def append_assoc [symmetric] by (rule str_nat_zeros_right)
  have "hd ?parts @ f = decimal_digits (trim a) \<and> length f = decimal_places (trim a)"
    using t by (cases rule: decimal_text_cases) (simp_all add: f_def)
  with pad len have "n * 10 ^ decimal_places (trim a) = str_dec (decimal_digits (trim a)) * 10 ^ nat d"
    by (simp add: mult.assoc flip: power_add)
  moreover have "decimal_places (trim a) \<le> nat d" using len \<open>hd ?parts @ f = _ \<and> _\<close> by simp
  ultimately show ?thesis using r n(1) n255 d by (intro exI [of _ n]) (simp add: int_str_def)
qed

lemma scale_amount_exact_witness: "decimal_places (trim '' 1.05'') \<le> nat 3"
proof -
  have "scaleTokenAmount (JStr '' 1.05'') (NInt 3) = Inr ''1050''" by code_simp
  from scale_amount_exact [OF this] show ?thesis by blast
qed

section \<open>Fees of a prepared transaction\<close>

text \<open>\<open>String(v)\<close>\<close>

fun js_String :: "jsval \<Rightarrow> string" where
  "js_String JUndef = ''undefined''"
| "js_String JNull = ''null''"
| "js_String (JBool b) = (if b then ''true'' else ''false'')"
| "js_String (JNum n) = num_text n"
| "js_String (JBig i) = int_str i"
| "js_String (JStr s) = s"
| "js_String (JArr vs) = join_with '','' (map (\<lambda>v. if nullish v then [] else js_String v) vs)"
| "js_String (JBytes bs) = join_with '','' (map dec_str bs)"
| "js_String JRegExp = ''/(?:)/''"
| "js_String JFun = ''function''"
| "js_String JSym = ''Symbol()''"
| "js_String (JObj kvs) = ''[object Object]''"
| "js_String (JInst kvs) = ''[object Object]''"
| "js_String (JToJson kvs v) = ''[object Object]''"

definition FALLBACK_TRANSACTION_LIFESPAN :: int where "FALLBACK_TRANSACTION_LIFESPAN = 5760"

text \<open>
  neon-js is a parameter: \<open>smart\<close> is \<open>smartCalculateNetworkFee\<close> as a function of what the
  validating client answers, \<open>fromDecimal\<close> the number \<open>BigInteger.fromDecimal\<close> makes of a
  text of digits. RPC answers are inputs, an error standing for a call that throws.
\<close>

definition validated_network_fee :: "jsval result \<Rightarrow> string result" where
  "validated_network_fee answer =
     bindR answer (\<lambda>fee.
     case fee of
       JStr s \<Rightarrow> if all_digits s then Inr s else Inl (GenericError ''Neo RPC returned an invalid network fee'')
     | JNum n \<Rightarrow> if isSafeInteger n \<and> all_digits (num_text n) then Inr (num_text n)
                 else Inl (GenericError ''Neo RPC returned an invalid network fee'')
     | _ \<Rightarrow> Inl (GenericError ''Neo RPC returned an invalid network fee''))"

definition calculateNetworkFee :: "(string result \<Rightarrow> string result) \<Rightarrow> jsval result \<Rightarrow> string result" where
  "calculateNetworkFee smart answer = smart (validated_network_fee answer)"

definition calculateSystemFee :: "(string \<Rightarrow> int) \<Rightarrow> jsobj result \<Rightarrow> int result" where
  "calculateSystemFee fromDecimal answer =
     bindR answer (\<lambda>r.
     if oget r ''state'' \<noteq> JStr ''HALT'' then Inl (GenericError ''Script execution failed with invalid VM state '')
     else let gasConsumed = (if nullish (oget r ''gasconsumed'') then [] else js_String (oget r ''gasconsumed'')) in
       if all_digits gasConsumed then Inr (fromDecimal gasConsumed)
       else Inl (GenericError ''Neo RPC returned an invalid system fee''))"

text \<open>\<open>gasBalanceResult.stack?.[0]?.value\<close>, and the balance it stands for.\<close>

definition stack_value :: "jsobj \<Rightarrow> jsval" where
  "stack_value r =
     (let item = (case oget r ''stack'' of
                    JArr (x # xs) \<Rightarrow> x
                  | v \<Rightarrow> (case own_props v of Some kvs \<Rightarrow> oget kvs ''0'' | None \<Rightarrow> JUndef)) in
      case own_props item of Some kvs \<Rightarrow> oget kvs ''value'' | None \<Rightarrow> JUndef)"

definition gas_balance :: "jsobj result \<Rightarrow> int result" where
  "gas_balance answer =
     bindR answer (\<lambda>r.
     let bad = Inl (GenericError ''Neo RPC returned an invalid GAS balance'') in
     if oget r ''state'' \<noteq> JStr ''HALT'' then bad
     else case stack_value r of
       JStr s \<Rightarrow> if all_digits s then Inr (int (str_dec s)) else bad
     | JNum (NInt i) \<Rightarrow> if all_digits (int_str i) then Inr i else bad
     | _ \<Rightarrow> bad)"

record fee_answers =
  a_blockCount :: "int result"
  a_invokeScript :: "jsobj result"
  a_networkFee :: "jsval result"
  a_balanceOf :: "jsobj result"

record prepared_fees =
  p_validUntilBlock :: int
  p_systemFee :: int
  p_networkFee :: string

definition prepareTransactionForSigning ::
    "(string \<Rightarrow> int) \<Rightarrow> (string result \<Rightarrow> string result) \<Rightarrow> int \<Rightarrow> int option \<Rightarrow> fee_answers \<Rightarrow> prepared_fees result" where
  "prepareTransactionForSigning fromDecimal smart maxLifespan maxFee ans =
     bindR (a_blockCount ans) (\<lambda>blockCount.
     let lifespan = (if maxLifespan \<noteq> 0 then maxLifespan else FALLBACK_TRANSACTION_LIFESPAN) in
     bindR (calculateSystemFee fromDecimal (a_invokeScript ans)) (\<lambda>systemFee.
     bindR (calculateNetworkFee smart (a_networkFee ans)) (\<lambda>networkFee.
     if \<not> all_digits networkFee then Inl (GenericError ''Neo RPC returned an invalid network fee'')
     else let requiredGas = systemFee + int (str_dec networkFee);
              cap = (case maxFee of Some m \<Rightarrow> m | None \<Rightarrow> DEFAULT_MAX_TRANSACTION_FEE_DATOS) in
       if cap \<le> 0 then Inl (RangeError ''Maximum transaction fee must be greater than zero'')
       else if cap < requiredGas then invalid ''Transaction fees exceed the configured maximum of ''
       else bindR (gas_balance (a_balanceOf ans)) (\<lambda>balance.
         if balance < requiredGas then invalid ''Insufficient GAS for transaction fees. Required: ''
         else Inr \<lparr>p_validUntilBlock = blockCount + lifespan - 1, p_systemFee = systemFee, p_networkFee = networkFee\<rparr>))))"

text \<open>
  C17: a transaction that comes out of the preparation ran to HALT in simulation, its fees are at
  most the configured cap (20 GAS when none is configured) and at most the GAS balance the node
  reported for the account.
\<close>

theorem prepared_fees_covered:
  assumes "prepareTransactionForSigning fd smart life maxFee ans = Inr p"
  shows "\<exists>r balance. a_invokeScript ans = Inr r \<and> oget r ''state'' = JStr ''HALT''
    \<and> gas_balance (a_balanceOf ans) = Inr balance \<and> all_digits (p_networkFee p)
    \<and> p_systemFee p + int (str_dec (p_networkFee p)) \<le> balance
    \<and> p_systemFee p + int (str_dec (p_networkFee p)) \<le> (case maxFee of Some m \<Rightarrow> m | None \<Rightarrow> 2000000000)"
proof -
  from assms obtain blockCount nf sf balance where
    sf: "calculateSystemFee fd (a_invokeScript ans) = Inr sf" and bal: "gas_balance (a_balanceOf ans) = Inr balance"
    and le: "all_digits nf" "sf + int (str_dec nf) \<le> balance"
      "sf + int (str_dec nf) \<le> (case maxFee of Some m \<Rightarrow> m | None \<Rightarrow> DEFAULT_MAX_TRANSACTION_FEE_DATOS)"
    and p: "p_systemFee p = sf" "p_networkFee p = nf"
    by (auto simp: prepareTransactionForSigning_def Let_def result_simps not_less split: if_splits)
  from sf obtain r where "a_invokeScript ans = Inr r" "oget r ''state'' = JStr ''HALT''"
    by (auto simp: calculateSystemFee_def result_simps)
  then show ?thesis using bal le by (auto simp: p DEFAULT_MAX_TRANSACTION_FEE_DATOS_def GAS_FACTOR_def split: option.splits)
qed

definition demo_answers :: fee_answers where
  "demo_answers =
    \<lparr>a_blockCount = Inr 100, a_invokeScript = Inr [(''state'', JStr ''HALT''), (''gasconsumed'', JStr ''12'')],
     a_networkFee = Inr (JStr ''3''),
     a_balanceOf = Inr [(''state'', JStr ''HALT''), (''stack'', JArr [JObj [(''value'', JStr ''20'')]])]\<rparr>"

lemma prepared_fees_covered_witness:
  "\<exists>balance. gas_balance (a_balanceOf demo_answers) = Inr balance \<and> 12 + int (str_dec ''3'') \<le> balance"
proof -
  have "prepareTransactionForSigning (\<lambda>s. int (str_dec s)) (\<lambda>r. r) 5760 (Some 50) demo_answers
      = Inr \<lparr>p_validUntilBlock = 5859, p_systemFee = 12, p_networkFee = ''3''\<rparr>" by code_simp
  from prepared_fees_covered [OF this] show ?thesis by auto
qed

end
