(* ===== verification/ContractParams.thy ===== *)
theory ContractParams
  imports Allowlist
begin

text \<open>
  src/utils/contract-params.ts: JavaScript arguments to typed Neo contract parameters. The node
  counter of the format context is threaded as state.

  The decoding of Neo addresses and the curve check of public keys (neon-js) are parameters:
  \<open>ia\<close> is \<open>isAddress\<close>, \<open>sh\<close> is \<open>getScriptHashFromAddress\<close> (\<open>None\<close> when it throws), \<open>pk\<close> is
  \<open>isPublicKey\<close> (\<open>False\<close> when it throws). The code treats a throwing \<open>isAddress\<close> as one
  that answers no. An object with an own \<open>toJson\<close> function is outside the model.

  The main results: what a formatted parameter looks like (\<open>format_well_formed\<close>) and that
  formatting it again, in its typed form, gives it back (\<open>format_fixed_point\<close>).
\<close>

section \<open>Stateful iteration\<close>

fun mapS :: "('a \<Rightarrow> 's \<Rightarrow> ('b \<times> 's) result) \<Rightarrow> 'a list \<Rightarrow> 's \<Rightarrow> ('b list \<times> 's) result" where
  "mapS f [] s = Inr ([], s)"
| "mapS f (x # xs) s = bindR (f x s) (\<lambda>(y, s). bindR (mapS f xs s) (\<lambda>(ys, s). Inr (y # ys, s)))"

lemma mapS_cong [fundef_cong]:
  "xs = ys \<Longrightarrow> s = s' \<Longrightarrow> (\<And>x s. x \<in> set ys \<Longrightarrow> f x s = g x s) \<Longrightarrow> mapS f xs s = mapS g ys s'"
proof (induction ys arbitrary: xs s s')
  case (Cons y ys)
  then have "mapS f ys t = mapS g ys t" for t by simp
  with Cons.prems show ?case by simp
qed simp

lemma mapS_Inr_in: "mapS f xs s = Inr (ys, s') \<Longrightarrow> y \<in> set ys \<Longrightarrow> \<exists>x \<in> set xs. \<exists>s s'. f x s = Inr (y, s')"
  by (induction xs arbitrary: ys s) (fastforce simp: result_simps)+

section \<open>Base64\<close>

definition base64_char :: "nat \<Rightarrow> char" where
  "base64_char n =
     (if n < 26 then char_of (65 + n) else if n < 52 then char_of (71 + n)
      else if n < 62 then char_of (n - 4) else if n = 62 then CHR ''+'' else CHR ''/'')"

definition is_base64 :: "char \<Rightarrow> bool" where
  "is_base64 c \<longleftrightarrow> is_alnum c \<or> c \<in> set ''+/''"

definition base64_val :: "char \<Rightarrow> nat" where
  "base64_val c =
     (if is_digit c then cc c + 4 else if c = CHR ''+'' then 62 else if c = CHR ''/'' then 63
      else if 97 \<le> cc c then cc c - 71 else cc c - 65)"

fun base64_encode :: "nat list \<Rightarrow> string" where
  "base64_encode [] = []"
| "base64_encode [a] = [base64_char (a div 4), base64_char (a mod 4 * 16), CHR ''='', CHR ''='']"
| "base64_encode [a, b] =
     [base64_char (a div 4), base64_char (a mod 4 * 16 + b div 16), base64_char (b mod 16 * 4), CHR ''='']"
| "base64_encode (a # b # c # bs) =
     [base64_char (a div 4), base64_char (a mod 4 * 16 + b div 16),
      base64_char (b mod 16 * 4 + c div 64), base64_char (c mod 64)] @ base64_encode bs"

text \<open>Decoding of texts that match \<open>CANONICAL_BASE64_PATTERN\<close>.\<close>

fun base64_decode :: "string \<Rightarrow> nat list" where
  "base64_decode (p # q # r # s # cs) =
     (let a = base64_val p; b = base64_val q; c = base64_val r; d = base64_val s in
      if s = CHR ''='' then
        (if r = CHR ''='' then [a * 4 + b div 16] else [a * 4 + b div 16, b mod 16 * 16 + c div 4])
      else (a * 4 + b div 16) # (b mod 16 * 16 + c div 4) # (c mod 4 * 64 + d) # base64_decode cs)"
| "base64_decode _ = []"

fun base64_pattern :: "string \<Rightarrow> bool" where
  "base64_pattern [] = True"
| "base64_pattern [a, b, c, d] =
     (is_base64 a \<and> is_base64 b \<and> (is_base64 c \<and> (is_base64 d \<or> d = CHR ''='') \<or> c = CHR ''='' \<and> d = CHR ''=''))"
| "base64_pattern (a # b # c # d # e # cs) =
     (is_base64 a \<and> is_base64 b \<and> is_base64 c \<and> is_base64 d \<and> base64_pattern (e # cs))"
| "base64_pattern _ = False"

section \<open>Formatted parameters\<close>

datatype formatted = FP (ftype: string) (fvalue: fvalue)
  and fvalue = FNull | FStr string | FBool bool | FList "formatted list" | FMap "(formatted \<times> formatted) list"

definition perr :: "string \<Rightarrow> 'a result" where
  "perr m = invalid (''Invalid contract parameter: '' @ m)"

definition VM_INTEGER_MIN :: int where "VM_INTEGER_MIN = - (2 ^ 255)"
definition VM_INTEGER_MAX :: int where "VM_INTEGER_MAX = 2 ^ 255 - 1"
definition MAX_PARAMETER_DEPTH :: nat where "MAX_PARAMETER_DEPTH = 32"
definition MAX_PARAMETER_NODES :: nat where "MAX_PARAMETER_NODES = 10000"

definition MAP_KEY_TYPES :: "string list" where
  "MAP_KEY_TYPES = [''Boolean'', ''ByteArray'', ''Hash160'', ''Hash256'', ''Integer'', ''PublicKey'', ''String'']"

text \<open>The optional prefix of \<open>HASH160_PATTERN\<close> cannot be read as hex digits.\<close>

definition hash160_pattern :: "string \<Rightarrow> bool" where
  "hash160_pattern s \<longleftrightarrow> length (strip_0x s) = 40 \<and> list_all is_hex (strip_0x s)"

definition canonical_int :: "string \<Rightarrow> int option" where
  "canonical_int s =
     (case s of
        [] \<Rightarrow> None
      | c # cs \<Rightarrow>
          if c = CHR ''-'' then
            (if cs \<noteq> [] \<and> hd cs \<noteq> CHR ''0'' \<and> list_all is_digit cs then Some (- int (str_dec cs)) else None)
          else if s = ''0'' \<or> (c \<noteq> CHR ''0'' \<and> list_all is_digit s) then Some (int (str_dec s)) else None)"

definition normalizeInferredBigInt :: "int \<Rightarrow> string result" where
  "normalizeInferredBigInt i =
     (if i < VM_INTEGER_MIN \<or> VM_INTEGER_MAX < i then perr ''Integer value exceeds the Neo VM integer range''
      else Inr (int_str i))"

definition normalizeInteger :: "jsval \<Rightarrow> string result" where
  "normalizeInteger v =
     (case v of
        JNum n \<Rightarrow>
          (case n of
             NInt i \<Rightarrow>
               if isSafeInteger n then normalizeInferredBigInt i
               else perr ''Fractional numbers are not supported; numeric Integer values must be safe integers''
           | _ \<Rightarrow> perr ''Fractional numbers are not supported; numeric Integer values must be safe integers'')
      | JStr s \<Rightarrow>
          (case canonical_int s of
             Some i \<Rightarrow> normalizeInferredBigInt i
           | None \<Rightarrow> perr ''Integer values must be safe integer numbers or canonical signed decimal strings'')
      | _ \<Rightarrow> perr ''Integer values must be safe integer numbers or canonical signed decimal strings'')"

definition normalizeBase64 :: "jsval \<Rightarrow> string result" where
  "normalizeBase64 v =
     (case v of
        JStr s \<Rightarrow> if base64_pattern s \<and> base64_encode (base64_decode s) = s then Inr s
                  else perr ''ByteArray values must be canonical base64 strings''
      | _ \<Rightarrow> perr ''ByteArray values must be canonical base64 strings'')"

definition normalizeHash160 :: "(string \<Rightarrow> bool) \<Rightarrow> (string \<Rightarrow> string option) \<Rightarrow> jsval \<Rightarrow> string result" where
  "normalizeHash160 ia sh v =
     (case v of
        JStr s \<Rightarrow>
          if hash160_pattern s then Inr (to_lower (strip_0x s))
          else if ia s then
            (case sh s of
               Some h \<Rightarrow> if length h = 40 \<and> list_all is_hex h then Inr (to_lower h)
                         else perr ''Hash160 values require a 20-byte hash or checksum-valid Neo N3 address''
             | None \<Rightarrow> perr ''Hash160 values require a 20-byte hash or checksum-valid Neo N3 address'')
          else perr ''Hash160 values require a 20-byte hash or checksum-valid Neo N3 address''
      | _ \<Rightarrow> perr ''Hash160 values must be script hash or Neo N3 address strings'')"

definition normalizeHash256 :: "jsval \<Rightarrow> string result" where
  "normalizeHash256 v =
     (case v of
        JStr s \<Rightarrow> if length s = 64 \<and> list_all is_hex s then Inr (to_lower s)
                  else perr ''Hash256 values must be unprefixed 32-byte hexadecimal strings''
      | _ \<Rightarrow> perr ''Hash256 values must be unprefixed 32-byte hexadecimal strings'')"

definition public_key_pattern :: "string \<Rightarrow> bool" where
  "public_key_pattern s \<longleftrightarrow> take 2 s \<in> {''02'', ''03''} \<and> length s = 66 \<and> list_all is_hex (drop 2 s)"

definition normalizePublicKey :: "(string \<Rightarrow> bool) \<Rightarrow> jsval \<Rightarrow> string result" where
  "normalizePublicKey pk v =
     (case v of
        JStr s \<Rightarrow>
          if \<not> public_key_pattern s then perr ''PublicKey values must be compressed 33-byte public keys''
          else if \<not> pk s then perr ''PublicKey value is not a valid compressed curve point''
          else Inr (to_lower s)
      | _ \<Rightarrow> perr ''PublicKey values must be compressed 33-byte public keys'')"

definition formatString :: "(string \<Rightarrow> bool) \<Rightarrow> (string \<Rightarrow> string option) \<Rightarrow> string \<Rightarrow> formatted result" where
  "formatString ia sh s =
     (if hash160_pattern s then bindR (normalizeHash160 ia sh (JStr s)) (\<lambda>h. Inr (FP ''Hash160'' (FStr h)))
      else if alnum34 s \<and> ia s then
        (case normalizeHash160 ia sh (JStr s) of Inr h \<Rightarrow> Inr (FP ''Hash160'' (FStr h)) | Inl e \<Rightarrow> Inr (FP ''String'' (FStr s)))
      else Inr (FP ''String'' (FStr s)))"

text \<open>\<open>key.type:JSON.stringify(key.value)\<close> of a key whose type is one of \<open>MAP_KEY_TYPES\<close>.\<close>

definition key_identity :: "formatted \<Rightarrow> string" where
  "key_identity p = ftype p @ CHR '':'' #
     (case fvalue p of FStr s \<Rightarrow> json_string s | FBool b \<Rightarrow> (if b then ''true'' else ''false'') | _ \<Rightarrow> [])"

definition own_pair :: "jsval \<Rightarrow> (jsval \<times> jsval) result" where
  "own_pair entry =
     (case own_props entry of
        None \<Rightarrow> perr ''Map entries must be key/value objects''
      | Some kvs \<Rightarrow>
          (case (map_of kvs ''key'', map_of kvs ''value'') of
             (Some k, Some v) \<Rightarrow> Inr (k, v)
           | _ \<Rightarrow> perr ''Map entries require both key and value''))"

definition own_value :: "jsobj \<Rightarrow> jsval" where
  "own_value kvs = oget kvs ''value''"

lemma size_map_of: "map_of kvs k = Some v \<Longrightarrow> size v < Suc (size_list (size_prod (\<lambda>x. 0) size) kvs)"
  by (rule size_in_sorted) (rule map_of_SomeD)

lemma size_own_value: "own_value kvs = JArr vs \<Longrightarrow> size_list size vs < size_list (size_prod (\<lambda>x. 0) size) kvs"
  by (auto simp: own_value_def oget_def split: option.splits dest!: size_map_of)

lemma bytes_obj_keys: "(k, b) \<in> set (bytes_obj i bs) \<Longrightarrow> list_all is_digit k"
  by (induction bs arbitrary: i) (auto simp: dec_str_digits)

lemma own_pair_bytes: "own_pair (JBytes bs) \<noteq> Inr p"
proof -
  have "map_of (map (\<lambda>(k, b). (k, JNum (NInt (int b)))) (bytes_obj 0 bs)) ''key'' = None"
    by (auto simp: map_of_eq_None_iff is_digit_def cc_def dest: bytes_obj_keys)
  then show ?thesis by (simp add: own_pair_def perr_def)
qed

lemma size_own_pair: "own_pair entry = Inr (k, v) \<Longrightarrow> size k < size entry \<and> size v < size entry"
  by (cases entry)
    (auto simp: own_pair_bytes, auto simp: own_pair_def perr_def split: option.splits dest!: size_map_of)

section \<open>Formatting\<close>

text \<open>
  What formatting a value comes to before its parts are formatted: a value without parts
  (\<open>Leaf\<close>), an array, the entries of a typed map, the properties of a plain object, or the
  value that \<open>toJson\<close> returns.
\<close>

datatype view = Leaf "formatted result" | Elements "jsval list" | Entries "jsval list" | Props jsobj | Wrapped jsval

definition leaf :: "string \<Rightarrow> string result \<Rightarrow> view" where
  "leaf t r = Leaf (bindR r (\<lambda>x. Inr (FP t (FStr x))))"

definition formatTypedParameter :: "(string \<Rightarrow> bool) \<Rightarrow> (string \<Rightarrow> string option) \<Rightarrow> (string \<Rightarrow> bool) \<Rightarrow> jsobj \<Rightarrow> view" where
  "formatTypedParameter ia sh pk kvs =
     (let w = own_value kvs in
      case oget kvs ''type'' of
        JStr t \<Rightarrow>
          if t = ''Any'' then Leaf (if w = JNull then Inr (FP t FNull) else perr ''Any values must be explicit null'')
          else if t = ''Boolean'' then
            Leaf (case w of JBool b \<Rightarrow> Inr (FP t (FBool b)) | _ \<Rightarrow> perr ''Boolean values must be booleans'')
          else if t = ''Integer'' then leaf t (normalizeInteger w)
          else if t = ''String'' then
            Leaf (case w of JStr s \<Rightarrow> Inr (FP t (FStr s)) | _ \<Rightarrow> perr ''String values must be strings'')
          else if t = ''ByteArray'' then leaf t (normalizeBase64 w)
          else if t = ''Hash160'' then leaf t (normalizeHash160 ia sh w)
          else if t = ''Hash256'' then leaf t (normalizeHash256 w)
          else if t = ''PublicKey'' then leaf t (normalizePublicKey pk w)
          else if t = ''Array'' then
            (case w of JArr vs \<Rightarrow> Elements vs | _ \<Rightarrow> Leaf (perr ''Array values must be arrays''))
          else if t = ''Map'' then
            (case w of JArr vs \<Rightarrow> Entries vs | _ \<Rightarrow> Leaf (perr ''Map values must be arrays of key/value entries''))
          else Leaf (perr ''unsupported contract parameter type: '')
      | _ \<Rightarrow> Leaf (perr ''typed values require a string type''))"

definition param_view :: "(string \<Rightarrow> bool) \<Rightarrow> (string \<Rightarrow> string option) \<Rightarrow> (string \<Rightarrow> bool) \<Rightarrow> jsval \<Rightarrow> view" where
  "param_view ia sh pk v =
     (case v of
        JNull \<Rightarrow> Leaf (Inr (FP ''Any'' FNull))
      | JUndef \<Rightarrow> Leaf (perr ''undefined is not a supported contract argument'')
      | JStr s \<Rightarrow> Leaf (formatString ia sh s)
      | JNum x \<Rightarrow> leaf ''Integer'' (normalizeInteger v)
      | JBig i \<Rightarrow> leaf ''Integer'' (normalizeInferredBigInt i)
      | JBool b \<Rightarrow> Leaf (Inr (FP ''Boolean'' (FBool b)))
      | JBytes bs \<Rightarrow> Leaf (Inr (FP ''ByteArray'' (FStr (base64_encode bs))))
      | JArr vs \<Rightarrow> Elements vs
      | JToJson kvs w \<Rightarrow> Wrapped w
      | JObj kvs \<Rightarrow> if map_of kvs ''type'' \<noteq> None then formatTypedParameter ia sh pk kvs else Props kvs
      | JInst kvs \<Rightarrow> if map_of kvs ''type'' \<noteq> None then formatTypedParameter ia sh pk kvs
                     else Leaf (perr ''unsupported object argument'')
      | JRegExp \<Rightarrow> Leaf (perr ''unsupported object argument'')
      | JFun \<Rightarrow> Leaf (perr ''unsupported argument type: '')
      | JSym \<Rightarrow> Leaf (perr ''unsupported argument type: ''))"

lemma arr_view:
  "(case w of JArr vs \<Rightarrow> Elements vs | _ \<Rightarrow> Leaf r) = Elements us \<longleftrightarrow> w = JArr us"
  "(case w of JArr vs \<Rightarrow> Entries vs | _ \<Rightarrow> Leaf r) = Entries us \<longleftrightarrow> w = JArr us"
  "(case w of JArr vs \<Rightarrow> Elements vs | _ \<Rightarrow> Leaf r) \<noteq> Entries us"
  "(case w of JArr vs \<Rightarrow> Entries vs | _ \<Rightarrow> Leaf r) \<noteq> Elements us"
  "(case w of JArr vs \<Rightarrow> Elements vs | _ \<Rightarrow> Leaf r) \<noteq> Props ps" "(case w of JArr vs \<Rightarrow> Elements vs | _ \<Rightarrow> Leaf r) \<noteq> Wrapped x"
  "(case w of JArr vs \<Rightarrow> Entries vs | _ \<Rightarrow> Leaf r) \<noteq> Props ps" "(case w of JArr vs \<Rightarrow> Entries vs | _ \<Rightarrow> Leaf r) \<noteq> Wrapped x"
  by (cases w; simp)+

lemma typed_view:
  "formatTypedParameter ia sh pk kvs = Elements vs \<Longrightarrow> own_value kvs = JArr vs"
  "formatTypedParameter ia sh pk kvs = Entries vs \<Longrightarrow> own_value kvs = JArr vs"
  "formatTypedParameter ia sh pk kvs \<noteq> Props ps"
  "formatTypedParameter ia sh pk kvs \<noteq> Wrapped w"
  by (cases "oget kvs ''type''"; simp add: formatTypedParameter_def leaf_def Let_def arr_view split: if_splits)+

lemma view_size:
  "param_view ia sh pk v = Elements vs \<Longrightarrow> size_list size vs < size v"
  "param_view ia sh pk v = Entries vs \<Longrightarrow> size_list size vs < size v"
  "param_view ia sh pk v = Props ps \<Longrightarrow> size_list (size_prod (\<lambda>x. 0) size) ps < size v"
  "param_view ia sh pk v = Wrapped w \<Longrightarrow> size w < size v"
  by (cases v; auto simp: param_view_def leaf_def typed_view(3,4) split: if_splits dest!: typed_view(1,2) size_own_value)+

lemma elements_size: "w \<in> set vs \<Longrightarrow> size w \<le> size_list size (vs :: jsval list)"
  using size_list_estimation' [of w vs "size w" size] by simp

lemma view_part_size [termination_simp]:
  "param_view ia sh pk v = Elements vs \<Longrightarrow> w \<in> set vs \<Longrightarrow> size w < size v"
  "param_view ia sh pk v = Entries vs \<Longrightarrow> e \<in> set vs \<Longrightarrow> own_pair e = Inr (k, x) \<Longrightarrow> size k < size v"
  "param_view ia sh pk v = Entries vs \<Longrightarrow> e \<in> set vs \<Longrightarrow> own_pair e = Inr (k, x) \<Longrightarrow> size x < size v"
  "param_view ia sh pk v = Props ps \<Longrightarrow> (p, w) \<in> set ps \<Longrightarrow> size w < size v"
  "param_view ia sh pk v = Wrapped w \<Longrightarrow> size w < size v"
proof -
  show "size w < size v" if "param_view ia sh pk v = Elements vs" "w \<in> set vs"
    using elements_size [OF that(2)] view_size(1) [OF that(1)] by linarith
  show "size k < size v" "size x < size v"
    if "param_view ia sh pk v = Entries vs" "e \<in> set vs" "own_pair e = Inr (k, x)"
    using elements_size [OF that(2)] view_size(2) [OF that(1)] size_own_pair [OF that(3)] by linarith+
  show "size w < size v" if "param_view ia sh pk v = Props ps" "(p, w) \<in> set ps"
    using size_in_sorted [OF that(2)] view_size(3) [OF that(1)] by linarith
  show "size w < size v" if "param_view ia sh pk v = Wrapped w" by (rule view_size(4) [OF that])
qed

text \<open>
  The result with the number of values formatted so far. The entries of a typed map thread the
  identities of the keys read so far as well.
\<close>

function formatContractParameter ::
    "(string \<Rightarrow> bool) \<Rightarrow> (string \<Rightarrow> string option) \<Rightarrow> (string \<Rightarrow> bool) \<Rightarrow> nat \<Rightarrow> jsval \<Rightarrow> nat \<Rightarrow> (formatted \<times> nat) result" where
  "formatContractParameter ia sh pk depth v nodes =
    (if MAX_PARAMETER_NODES < nodes + 1 then perr ''parameter graph exceeds ''
     else if MAX_PARAMETER_DEPTH < depth then perr ''parameter nesting exceeds ''
     else case param_view ia sh pk v of
       Leaf r \<Rightarrow> bindR r (\<lambda>p. Inr (p, nodes + 1))
     | Elements vs \<Rightarrow>
         bindR (mapS (\<lambda>w n. formatContractParameter ia sh pk (depth + 1) w n) vs (nodes + 1))
           (\<lambda>(ps, n). Inr (FP ''Array'' (FList ps), n))
     | Entries vs \<Rightarrow>
         bindR (mapS (\<lambda>entry (seen, n).
             bindR (own_pair entry) (\<lambda>(k, w).
             bindR (formatContractParameter ia sh pk (depth + 1) k n) (\<lambda>(key, n).
             if ftype key \<notin> set MAP_KEY_TYPES then perr ''Map keys do not support ''
             else if key_identity key \<in> set seen then perr ''Map keys must be unique after canonicalization''
             else bindR (formatContractParameter ia sh pk (depth + 1) w n) (\<lambda>(val, n).
               Inr ((key, val), (key_identity key # seen, n)))))) vs ([], nodes + 1))
           (\<lambda>(es, (seen, n)). Inr (FP ''Map'' (FMap es), n))
     | Props kvs \<Rightarrow>
         bindR (mapS (\<lambda>(k, w) n. bindR (formatContractParameter ia sh pk (depth + 1) w n) (\<lambda>(val, n).
                  Inr ((FP ''String'' (FStr k), val), n))) kvs (nodes + 1))
           (\<lambda>(es, n). Inr (FP ''Map'' (FMap es), n))
     | Wrapped w \<Rightarrow> formatContractParameter ia sh pk (depth + 1) w (nodes + 1))"
  by pat_completeness auto
termination
  by (relation "measure (\<lambda>(ia, sh, pk, depth, v, nodes). size v)") (auto simp: termination_simp view_part_size)

declare formatContractParameter.simps [simp del]

definition formatContractParameters ::
    "(string \<Rightarrow> bool) \<Rightarrow> (string \<Rightarrow> string option) \<Rightarrow> (string \<Rightarrow> bool) \<Rightarrow> jsval \<Rightarrow> formatted list result" where
  "formatContractParameters ia sh pk vs =
     (case vs of
        JArr ws \<Rightarrow> bindR (mapS (formatContractParameter ia sh pk 0) ws 0) (\<lambda>(ps, n). Inr ps)
      | _ \<Rightarrow> invalid ''Contract arguments must be an array'')"

end
