(* ===== verification/ContractParamSpec.thy ===== *)
theory ContractParamSpec
  imports ContractParams
begin

text \<open>
  What formatted contract parameters look like, and the round trip through their typed form:
  the specification of src/utils/contract-params.ts over the definitions of ContractParams.
\<close>

section \<open>Base64\<close>

lemma base64_char_cc:
  "n < 64 \<Longrightarrow> cc (base64_char n) = (if n < 26 then 65 + n else if n < 52 then 71 + n else if n < 62 then n - 4
     else if n = 62 then 43 else 47)"
  by (simp add: base64_char_def) (simp add: cc_def)

lemma base64_literals: "c = CHR ''+'' \<longleftrightarrow> cc c = 43" "c = CHR ''/'' \<longleftrightarrow> cc c = 47" "c = CHR ''='' \<longleftrightarrow> cc c = 61"
proof -
  have "cc CHR ''+'' = 43" "cc CHR ''/'' = 47" "cc CHR ''='' = 61" by (simp_all add: cc_def)
  then show "c = CHR ''+'' \<longleftrightarrow> cc c = 43" "c = CHR ''/'' \<longleftrightarrow> cc c = 47" "c = CHR ''='' \<longleftrightarrow> cc c = 61"
    by (metis cc_inj)+
qed

lemma base64_digit:
  assumes "n < 64"
  shows "base64_val (base64_char n) = n" "is_base64 (base64_char n)" "base64_char n \<noteq> CHR ''=''"
proof -
  have ranges: "n < 26 \<or> 26 \<le> n \<and> n < 52 \<or> 52 \<le> n \<and> n < 62 \<or> n = 62 \<or> n = 63" using assms by linarith
  show "base64_char n \<noteq> CHR ''=''"
    unfolding base64_literals base64_char_cc [OF assms] using ranges by presburger
  show "base64_val (base64_char n) = n"
    unfolding base64_val_def base64_literals is_digit_def base64_char_cc [OF assms]
    using ranges by (elim disjE conjE; simp; presburger?)
  show "is_base64 (base64_char n)"
    unfolding is_base64_def is_alnum_def is_alpha_def is_digit_def list.set insert_iff empty_iff base64_literals
      base64_char_cc [OF assms] using ranges by (elim disjE conjE; simp; presburger?)
qed

definition bytes_ok :: "nat list \<Rightarrow> bool" where
  "bytes_ok bs \<longleftrightarrow> list_all (\<lambda>b. b < 256) bs"

lemma three_bytes:
  fixes a b c :: nat
  assumes "a < 256" "b < 256" "c < 256"
  shows "a div 4 < 64" "a mod 4 * 16 + b div 16 < 64" "b mod 16 * 4 + c div 64 < 64" "c mod 64 < 64"
    "a mod 4 * 16 < 64" "b mod 16 * 4 < 64"
    "a div 4 * 4 + (a mod 4 * 16 + b div 16) div 16 = a" "a div 4 * 4 + (a mod 4 * 16) div 16 = a"
    "(a mod 4 * 16 + b div 16) mod 16 * 16 + (b mod 16 * 4 + c div 64) div 4 = b"
    "(a mod 4 * 16 + b div 16) mod 16 * 16 + (b mod 16 * 4) div 4 = b"
    "(b mod 16 * 4 + c div 64) mod 4 * 64 + c mod 64 = c"
proof -
  have b: "b div 16 < 16" and c: "c div 64 < 4" using assms by auto
  show "a div 4 < 64" "a mod 4 * 16 + b div 16 < 64" "b mod 16 * 4 + c div 64 < 64" "c mod 64 < 64"
    "a mod 4 * 16 < 64" "b mod 16 * 4 < 64" using assms by auto
  from b have ab: "(a mod 4 * 16 + b div 16) div 16 = a mod 4" "(a mod 4 * 16 + b div 16) mod 16 = b div 16" by auto
  from c have bc: "(b mod 16 * 4 + c div 64) div 4 = b mod 16" "(b mod 16 * 4 + c div 64) mod 4 = c div 64" by auto
  show "a div 4 * 4 + (a mod 4 * 16 + b div 16) div 16 = a" "a div 4 * 4 + (a mod 4 * 16) div 16 = a"
    "(a mod 4 * 16 + b div 16) mod 16 * 16 + (b mod 16 * 4 + c div 64) div 4 = b"
    "(a mod 4 * 16 + b div 16) mod 16 * 16 + (b mod 16 * 4) div 4 = b"
    "(b mod 16 * 4 + c div 64) mod 4 * 64 + c mod 64 = c"
    unfolding ab bc by (simp_all add: div_mult_mod_eq)
qed

lemma base64_decode_encode: "bytes_ok bs \<Longrightarrow> base64_decode (base64_encode bs) = bs"
proof (induction bs rule: base64_encode.induct)
  case (2 a)
  then show ?case using three_bytes [of a 0 0] by (simp add: bytes_ok_def base64_digit Let_def)
next
  case (3 a b)
  then show ?case using three_bytes [of a b 0]
    by (simp add: bytes_ok_def base64_digit Let_def)
next
  case (4 a b c bs)
  then show ?case using three_bytes [of a b c]
    by (simp add: bytes_ok_def base64_digit Let_def)
qed simp

lemma base64_encode_pattern: "bytes_ok bs \<Longrightarrow> base64_pattern (base64_encode bs)"
proof (induction bs rule: base64_encode.induct)
  case (2 a)
  then show ?case using three_bytes [of a 0 0] by (simp add: bytes_ok_def base64_digit)
next
  case (3 a b)
  then show ?case using three_bytes [of a b 0] by (simp add: bytes_ok_def base64_digit)
next
  case (4 a b c bs)
  then show ?case using three_bytes [of a b c]
    by (cases "base64_encode bs") (simp_all add: bytes_ok_def base64_digit)
qed simp

section \<open>Well-formed parameters\<close>

definition canonical_integer :: "string \<Rightarrow> bool" where
  "canonical_integer s \<longleftrightarrow> (\<exists>i. s = int_str i \<and> VM_INTEGER_MIN \<le> i \<and> i \<le> VM_INTEGER_MAX)"

definition leaf_ok :: "(string \<Rightarrow> bool) \<Rightarrow> string \<Rightarrow> string \<Rightarrow> bool" where
  "leaf_ok pk t s \<longleftrightarrow>
     t = ''String''
     \<or> t = ''Integer'' \<and> canonical_integer s
     \<or> t = ''ByteArray'' \<and> base64_pattern s \<and> base64_encode (base64_decode s) = s
     \<or> t = ''Hash160'' \<and> length s = 40 \<and> list_all is_lower_hex s
     \<or> t = ''Hash256'' \<and> length s = 64 \<and> list_all is_lower_hex s
     \<or> t = ''PublicKey'' \<and> public_key_pattern s \<and> to_lower s = s \<and> pk s"

fun wf_param :: "(string \<Rightarrow> bool) \<Rightarrow> formatted \<Rightarrow> bool"
  and wf_value :: "(string \<Rightarrow> bool) \<Rightarrow> string \<Rightarrow> fvalue \<Rightarrow> bool" where
  "wf_param pk (FP t v) = wf_value pk t v"
| "wf_value pk t FNull = (t = ''Any'')"
| "wf_value pk t (FBool b) = (t = ''Boolean'')"
| "wf_value pk t (FStr s) = leaf_ok pk t s"
| "wf_value pk t (FList ps) = (t = ''Array'' \<and> list_all (wf_param pk) ps)"
| "wf_value pk t (FMap es) =
     (t = ''Map'' \<and> list_all (\<lambda>(k, v). wf_param pk k \<and> ftype k \<in> set MAP_KEY_TYPES \<and> wf_param pk v) es
      \<and> distinct (map (\<lambda>(k, v). key_identity k) es))"

text \<open>The levels of a parameter, counting itself, and the values in it, keys included.\<close>

fun levels :: "formatted \<Rightarrow> nat" and value_levels :: "fvalue \<Rightarrow> nat" where
  "levels (FP t v) = Suc (value_levels v)"
| "value_levels (FList ps) = fold max (map levels ps) 0"
| "value_levels (FMap es) = fold max (map (\<lambda>(k, v). max (levels k) (levels v)) es) 0"
| "value_levels _ = 0"

fun nodes_of :: "formatted \<Rightarrow> nat" and value_nodes :: "fvalue \<Rightarrow> nat" where
  "nodes_of (FP t v) = Suc (value_nodes v)"
| "value_nodes (FList ps) = sum_list (map nodes_of ps)"
| "value_nodes (FMap es) = sum_list (map (\<lambda>(k, v). nodes_of k + nodes_of v) es)"
| "value_nodes _ = 0"

text \<open>The typed form of a parameter: the object \<open>{ type, value }\<close> the code returns.\<close>

fun to_js :: "formatted \<Rightarrow> jsval" and value_js :: "fvalue \<Rightarrow> jsval" where
  "to_js (FP t v) = JObj [(''type'', JStr t), (''value'', value_js v)]"
| "value_js FNull = JNull"
| "value_js (FStr s) = JStr s"
| "value_js (FBool b) = JBool b"
| "value_js (FList ps) = JArr (map to_js ps)"
| "value_js (FMap es) = JArr (map (\<lambda>(k, v). JObj [(''key'', to_js k), (''value'', to_js v)]) es)"

text \<open>What holds of every JavaScript value: own keys are distinct, bytes are bytes.\<close>

fun js_ok :: "jsval \<Rightarrow> bool" where
  "js_ok (JArr vs) = list_all js_ok vs"
| "js_ok (JObj kvs) = (distinct (map fst kvs) \<and> list_all (\<lambda>(k, v). js_ok v) kvs)"
| "js_ok (JInst kvs) = (distinct (map fst kvs) \<and> list_all (\<lambda>(k, v). js_ok v) kvs)"
| "js_ok (JToJson kvs w) = (distinct (map fst kvs) \<and> list_all (\<lambda>(k, v). js_ok v) kvs \<and> js_ok w)"
| "js_ok (JBytes bs) = bytes_ok bs"
| "js_ok _ = True"

section \<open>Leaves\<close>

lemma canonical_int_str: "canonical_int (int_str i) = Some i"
proof (cases "i < 0")
  case True
  then obtain n where n: "i = - int n" "0 < n" by (metis neg_int_cases of_nat_0_less_iff)
  have d: "list_all is_digit (dec_str n)" by (rule dec_str_digits)
  have "hd (dec_str n) \<noteq> CHR ''0''"
  proof
    assume "hd (dec_str n) = CHR ''0''"
    then have "dec_str n = ''0''" using dec_str_canonical by (simp add: canonical_digits_def)
    then have "str_dec (dec_str n) = 0" by (simp add: str_nat_def digit_val_def cc_def)
    with n show False by simp
  qed
  with n d show ?thesis by (simp add: int_str_def canonical_int_def)
next
  case False
  then obtain n where n: "i = int n" by (metis nonneg_int_cases not_less)
  obtain c cs where c: "dec_str n = c # cs" by (cases "dec_str n") auto
  have "list_all is_digit (dec_str n)" "canonical_digits (dec_str n)" by (rule dec_str_digits, rule dec_str_canonical)
  moreover have "c \<noteq> CHR ''-''" using \<open>list_all is_digit (dec_str n)\<close> by (auto simp: c is_digit_def cc_def)
  moreover have "str_dec (c # cs) = n" using str_dec_dec_str [of n] by (simp add: c)
  ultimately show ?thesis by (auto simp: n int_str_def canonical_int_def c canonical_digits_def)
qed

lemma bigint_Inr: "normalizeInferredBigInt i = Inr s \<Longrightarrow> canonical_integer s"
  by (auto simp: normalizeInferredBigInt_def perr_def canonical_integer_def not_less split: if_splits)

lemma integer_Inr: "normalizeInteger v = Inr s \<Longrightarrow> canonical_integer s"
  by (cases v)
    (auto simp: normalizeInteger_def perr_def split: jsnum.splits option.splits if_splits dest: bigint_Inr)

lemma integer_fix: "canonical_integer s \<Longrightarrow> normalizeInteger (JStr s) = Inr s"
  by (auto simp: canonical_integer_def normalizeInteger_def canonical_int_str normalizeInferredBigInt_def)

lemma strip_0x_hex: "list_all is_hex s \<Longrightarrow> length s = 40 \<Longrightarrow> strip_0x s = s"
proof (cases "starts_with s ''0x''")
  case True
  assume "list_all is_hex s"
  moreover have "CHR ''x'' \<in> set s" using starts_withD [OF True]
    by (metis in_set_conv_decomp append_Cons list.set_intros set_append Un_iff)
  ultimately have "is_hex (CHR ''x'')" by (auto simp: list_all_iff)
  then show ?thesis by (simp add: is_hex_def is_lower_hex_def is_digit_def cc_def)
qed (simp add: strip_0x_def)

lemma hash160_Inr: "normalizeHash160 ia sh v = Inr s \<Longrightarrow> length s = 40 \<and> list_all is_lower_hex s"
  by (cases v)
    (auto simp: normalizeHash160_def perr_def hash160_pattern_def to_lower_hex split: if_splits option.splits)

lemma hash160_fix: "length s = 40 \<Longrightarrow> list_all is_lower_hex s \<Longrightarrow> normalizeHash160 ia sh (JStr s) = Inr s"
proof -
  assume a: "length s = 40" "list_all is_lower_hex s"
  then have "list_all is_hex s" by (auto simp: list_all_iff)
  with a show ?thesis by (simp add: normalizeHash160_def hash160_pattern_def strip_0x_hex to_lower_id)
qed

lemma hash256_Inr: "normalizeHash256 v = Inr s \<Longrightarrow> length s = 64 \<and> list_all is_lower_hex s"
  by (cases v) (auto simp: normalizeHash256_def perr_def to_lower_hex split: if_splits)

lemma hash256_fix: "length s = 64 \<Longrightarrow> list_all is_lower_hex s \<Longrightarrow> normalizeHash256 (JStr s) = Inr s"
  by (auto simp: normalizeHash256_def to_lower_id list_all_iff)

text \<open>Hex digits in either case name the same public key.\<close>

definition case_law :: "(string \<Rightarrow> bool) \<Rightarrow> bool" where
  "case_law pk \<longleftrightarrow> (\<forall>k. pk k \<longrightarrow> pk (to_lower k))"

lemma public_key_Inr:
  assumes "normalizePublicKey pk v = Inr s" "case_law pk"
  shows "public_key_pattern s \<and> to_lower s = s \<and> pk s"
proof -
  from assms(1) obtain k where k: "public_key_pattern k" "pk k" "s = to_lower k"
    by (cases v) (auto simp: normalizePublicKey_def perr_def split: if_splits)
  obtain p where p: "k = take 2 k @ drop 2 k" "take 2 k \<in> {''02'', ''03''}" "list_all is_hex (drop 2 k)"
    using k(1) by (simp add: public_key_pattern_def)
  have "to_lower (take 2 k) = take 2 k" using p(2) by (auto simp: to_lower_def lower_char_def cc_def)
  moreover have "to_lower k = to_lower (take 2 k) @ to_lower (drop 2 k)" by (metis p(1) to_lower_append)
  moreover have "length (take 2 k) = 2" using k(1) by (simp add: public_key_pattern_def)
  ultimately have "take 2 s = take 2 k" "drop 2 s = to_lower (drop 2 k)" by (simp_all add: k(3))
  moreover have "list_all is_hex (to_lower (drop 2 k))"
    using to_lower_hex [OF p(3)] by (auto simp: list_all_iff)
  ultimately have "public_key_pattern s" using k(1) by (simp add: public_key_pattern_def k(3))
  with k assms(2) show ?thesis by (simp add: case_law_def)
qed

lemma public_key_fix: "public_key_pattern s \<Longrightarrow> to_lower s = s \<Longrightarrow> pk s \<Longrightarrow> normalizePublicKey pk (JStr s) = Inr s"
  by (simp add: normalizePublicKey_def)

lemma base64_Inr: "normalizeBase64 v = Inr s \<longleftrightarrow> v = JStr s \<and> base64_pattern s \<and> base64_encode (base64_decode s) = s"
  by (cases v) (auto simp: normalizeBase64_def perr_def split: if_splits)

lemma formatString_form: "formatString ia sh s = Inr p \<Longrightarrow> wf_param pk p \<and> value_levels (fvalue p) = 0"
  by (auto simp: formatString_def result_simps leaf_ok_def dest!: hash160_Inr split: if_splits sum.splits)

lemma leaf_Leaf: "leaf t r = Leaf (Inr p) \<longleftrightarrow> (\<exists>s. r = Inr s \<and> p = FP t (FStr s))"
  by (auto simp: leaf_def result_simps)

lemma case_view:
  "(case w of JBool b \<Rightarrow> Inr (FP t (FBool b)) | _ \<Rightarrow> perr m) = Inr p \<longleftrightarrow> (\<exists>b. w = JBool b \<and> p = FP t (FBool b))"
  "(case w of JStr s \<Rightarrow> Inr (FP t (FStr s)) | _ \<Rightarrow> perr m) = Inr p \<longleftrightarrow> (\<exists>s. w = JStr s \<and> p = FP t (FStr s))"
  "(case w of JArr vs \<Rightarrow> Elements vs | _ \<Rightarrow> Leaf (perr m)) \<noteq> Leaf (Inr p)"
  "(case w of JArr vs \<Rightarrow> Entries vs | _ \<Rightarrow> Leaf (perr m)) \<noteq> Leaf (Inr p)"
  by (cases w; auto simp: perr_def)+

lemma typed_leaf_form:
  assumes "formatTypedParameter ia sh pk kvs = Leaf (Inr p)" "case_law pk"
  shows "wf_param pk p \<and> value_levels (fvalue p) = 0"
proof -
  obtain t where "oget kvs ''type'' = JStr t"
    using assms(1) by (cases "oget kvs ''type''") (auto simp: formatTypedParameter_def perr_def)
  note view = assms(1) [unfolded formatTypedParameter_def this Let_def jsval.case]
  have perr: "perr m \<noteq> Inr q" for m q by (simp add: perr_def)
  from view show ?thesis
    by (auto simp: leaf_Leaf case_view perr leaf_ok_def base64_Inr split: if_splits
      dest: integer_Inr hash160_Inr hash256_Inr public_key_Inr [OF _ assms(2)])
qed

lemma leaf_form:
  assumes "param_view ia sh pk v = Leaf (Inr p)" "js_ok v" "case_law pk"
  shows "wf_param pk p \<and> value_levels (fvalue p) = 0"
  using assms(1,2)
  by (cases v)
    (auto simp: param_view_def leaf_Leaf perr_def leaf_ok_def base64_encode_pattern base64_decode_encode
      dest: integer_Inr bigint_Inr formatString_form [of ia sh _ p pk] typed_leaf_form [OF _ assms(3)] split: if_splits)

section \<open>Every result is well-formed\<close>

lemma mapS_inv:
  assumes "mapS f xs s = Inr (ys, s')" "I s"
    and step: "\<And>x s y s'. x \<in> set xs \<Longrightarrow> I s \<Longrightarrow> f x s = Inr (y, s') \<Longrightarrow> I s' \<and> P y"
  shows "I s' \<and> list_all P ys"
  using assms
proof (induction xs arbitrary: s ys)
  case (Cons x xs)
  from Cons.prems(1) obtain y t zs where one: "f x s = Inr (y, t)" "mapS f xs t = Inr (zs, s')" "ys = y # zs"
    by (auto simp: result_simps)
  have "I t \<and> P y" using Cons.prems(3) [OF _ Cons.prems(2) one(1)] by simp
  moreover then have "I s' \<and> list_all P zs"
    by (intro Cons.IH [OF one(2)]) (auto intro: Cons.prems(3) [THEN conjunct1] Cons.prems(3) [THEN conjunct2])
  ultimately show ?case by (simp add: one(3))
qed simp

lemma mapS_distinct:
  assumes "mapS f xs s = Inr (ys, s')"
    and "\<And>x s y s'. f x s = Inr (y, s') \<Longrightarrow> fst s' = g y # fst s \<and> g y \<notin> set (fst s)"
  shows "distinct (map g ys) \<and> set (map g ys) \<inter> set (fst s) = {}"
  using assms(1)
proof (induction xs arbitrary: s ys)
  case (Cons x xs)
  then obtain y t zs where step: "f x s = Inr (y, t)" "mapS f xs t = Inr (zs, s')" "ys = y # zs"
    by (auto simp: result_simps)
  with Cons.IH [OF step(2)] assms(2) [OF step(1)] show ?case by auto
qed simp

lemma mapS_keys: "mapS f xs s = Inr (ys, s') \<Longrightarrow> (\<And>x s y s'. f x s = Inr (y, s') \<Longrightarrow> g y = h x) \<Longrightarrow> map g ys = map h xs"
  by (induction xs arbitrary: s ys) (auto simp: result_simps)

lemma fold_max_le: "d + fold max ys a \<le> k \<longleftrightarrow> d + a \<le> k \<and> (\<forall>y \<in> set ys. d + y \<le> (k :: nat))"
  by (induction ys arbitrary: a) (auto simp: max_def)

lemma own_pair_ok: "own_pair e = Inr (k, w) \<Longrightarrow> js_ok e \<Longrightarrow> js_ok k \<and> js_ok w"
proof (cases e)
  case (JBytes bs)
  moreover assume "own_pair e = Inr (k, w)"
  ultimately show ?thesis using own_pair_bytes by blast
qed (auto simp: own_pair_def perr_def list_all_iff split: option.splits dest!: map_of_SomeD)

lemma own_value_ok: "own_value kvs = JArr vs \<Longrightarrow> list_all (\<lambda>(k, v). js_ok v) kvs \<Longrightarrow> list_all js_ok vs"
  by (auto simp: own_value_def oget_def list_all_iff split: option.splits dest!: map_of_SomeD)

lemma view_part_ok:
  assumes "js_ok v"
  shows "param_view ia sh pk v = Elements vs \<Longrightarrow> list_all js_ok vs"
    "param_view ia sh pk v = Entries vs \<Longrightarrow> list_all js_ok vs"
    "param_view ia sh pk v = Props ps \<Longrightarrow> distinct (map fst ps) \<and> list_all (\<lambda>(k, w). js_ok w) ps"
    "param_view ia sh pk v = Wrapped w \<Longrightarrow> js_ok w"
  using assms
  by (cases v; auto simp: param_view_def leaf_def typed_view(3,4) split: if_splits dest!: typed_view(1,2) intro: own_value_ok)+

lemma string_key_inj: "key_identity (FP ''String'' (FStr a)) = key_identity (FP ''String'' (FStr b)) \<longleftrightarrow> a = b"
  using json_string_unique [of a "[]" b "[]"] by (auto simp: key_identity_def)

lemma distinct_string_keys:
  "distinct (map fst kvs) \<Longrightarrow> distinct (map (\<lambda>(k, v). key_identity (FP ''String'' (FStr k))) kvs)"
  by (induction kvs) (auto simp: string_key_inj image_iff split: prod.splits)

definition bounded_param :: "(string \<Rightarrow> bool) \<Rightarrow> nat \<Rightarrow> formatted \<Rightarrow> bool" where
  "bounded_param pk depth p \<longleftrightarrow> wf_param pk p \<and> depth + levels p \<le> 33"

lemma bounded_map:
  assumes "list_all (\<lambda>(key, val). bounded_param pk (depth + 1) key \<and> ftype key \<in> set MAP_KEY_TYPES \<and> bounded_param pk (depth + 1) val) es"
    "distinct (map (\<lambda>(k, v). key_identity k) es)" "depth \<le> 32"
  shows "bounded_param pk depth (FP ''Map'' (FMap es))"
proof -
  have "wf_value pk ''Map'' (FMap es)" using assms(1,2) by (auto simp: bounded_param_def list_all_iff)
  moreover have "depth + fold max (map (\<lambda>(k, v). max (levels k) (levels v)) es) 0 \<le> 32"
    using assms(1,3) by (auto simp: fold_max_le bounded_param_def list_all_iff)
  ultimately show ?thesis by (simp add: bounded_param_def)
qed

lemma bounded_string_key: "bounded_param pk depth val \<Longrightarrow> bounded_param pk depth (FP ''String'' (FStr k))"
  by (cases val) (simp add: bounded_param_def leaf_ok_def)

lemma format_invariant:
  assumes "case_law pk"
  shows "formatContractParameter ia sh pk depth v n = Inr (p, m) \<Longrightarrow> js_ok v
    \<Longrightarrow> bounded_param pk depth p \<and> n < m \<and> m \<le> 10000"
proof (induction "size v" arbitrary: depth v n p m rule: less_induct)
  case less
  define F where "F = formatContractParameter ia sh pk (depth + 1)"
  let ?I = "\<lambda>k. n < k \<and> k \<le> (10000 :: nat)"
  have IH: "bounded_param pk (depth + 1) q \<and> ?I m'" if "size w < size v" "js_ok w" "?I k" "F w k = Inr (q, m')" for w k q m'
    using less.hyps [OF that(1) that(4) [unfolded F_def] that(2)] that(3) by auto
  have start: "?I (n + 1)" "depth \<le> 32" using less.prems(1)
    by (auto simp: formatContractParameter.simps [of ia sh pk depth] perr_def MAX_PARAMETER_NODES_def MAX_PARAMETER_DEPTH_def split: if_splits)
  note run = less.prems(1) [unfolded formatContractParameter.simps [of ia sh pk depth v n], folded F_def]
  show ?case
  proof (cases "param_view ia sh pk v")
    case (Leaf r)
    with run start have r: "r = Inr p" "m = n + 1" by (auto simp: result_simps perr_def split: if_splits)
    from leaf_form [OF Leaf [unfolded r(1)] less.prems(2) assms] start r(2) show ?thesis
      by (cases p) (simp add: bounded_param_def)
  next
    case (Elements vs)
    with run obtain ps where ps: "mapS F vs (n + 1) = Inr (ps, m)" "p = FP ''Array'' (FList ps)"
      by (auto simp: result_simps perr_def split: if_splits)
    have "?I m \<and> list_all (bounded_param pk (depth + 1)) ps"
    proof (rule mapS_inv [OF ps(1), of ?I], rule start(1))
      fix w k q m' assume w: "w \<in> set vs" "?I k" "F w k = Inr (q, m')"
      have "js_ok w" using view_part_ok(1) [OF less.prems(2) Elements] w(1) by (simp add: list_all_iff)
      from IH [OF view_part_size(1) [OF Elements w(1)] this w(2,3)] show "?I m' \<and> bounded_param pk (depth + 1) q" by blast
    qed
    with start ps(2) show ?thesis by (auto simp: bounded_param_def fold_max_le list_all_iff)
  next
    case (Props kvs)
    let ?g = "\<lambda>(k, w) n. bindR (F w n) (\<lambda>(val, n). Inr ((FP ''String'' (FStr k), val), n))"
    from Props run obtain es where es: "mapS ?g kvs (n + 1) = Inr (es, m)" "p = FP ''Map'' (FMap es)"
      by (auto simp: result_simps perr_def split: if_splits)
    let ?P = "\<lambda>(key, val). bounded_param pk (depth + 1) key \<and> ftype key \<in> set MAP_KEY_TYPES \<and> bounded_param pk (depth + 1) val"
    have all: "?I m \<and> list_all ?P es"
    proof (rule mapS_inv [OF es(1), of ?I], rule start(1))
      fix x k q m' assume x: "x \<in> set kvs" "?I k" "?g x k = Inr (q, m')"
      obtain kk w val where parts: "x = (kk, w)" "F w k = Inr (val, m')" "q = (FP ''String'' (FStr kk), val)"
        using x(3) by (cases x) (auto simp: result_simps)
      have "js_ok w" using view_part_ok(3) [OF less.prems(2) Props] x(1) by (auto simp: parts list_all_iff)
      from IH [OF view_part_size(4) [OF Props x(1) [unfolded parts(1)]] this x(2) parts(2)]
      show "?I m' \<and> ?P q" by (auto simp: parts(3) bounded_string_key MAP_KEY_TYPES_def)
    qed
    have "map (\<lambda>(k, v). key_identity k) es = map (\<lambda>(k, v). key_identity (FP ''String'' (FStr k))) kvs"
      by (rule mapS_keys [OF es(1)]) (auto simp: result_simps)
    moreover have "distinct (map (\<lambda>(k, v). key_identity (FP ''String'' (FStr k))) kvs)"
      using view_part_ok(3) [OF less.prems(2) Props] by (intro distinct_string_keys) blast
    ultimately have "distinct (map (\<lambda>(k, v). key_identity k) es)" by simp
    with all start(2) show ?thesis unfolding es(2) by (intro conjI bounded_map) blast+
  next
    case (Wrapped w)
    with run have "F w (n + 1) = Inr (p, m)" by (auto simp: perr_def split: if_splits)
    with IH [OF view_part_size(5) [OF Wrapped] view_part_ok(4) [OF less.prems(2) Wrapped] start(1)] show ?thesis
      by (auto simp: bounded_param_def)
  next
    case (Entries vs)
    let ?g = "\<lambda>entry (seen, n). bindR (own_pair entry) (\<lambda>(k, w). bindR (F k n) (\<lambda>(key, n).
      if ftype key \<notin> set MAP_KEY_TYPES then perr ''Map keys do not support ''
      else if key_identity key \<in> set seen then perr ''Map keys must be unique after canonicalization''
      else bindR (F w n) (\<lambda>(val, n). Inr ((key, val), (key_identity key # seen, n)))))"
    from Entries run obtain es seen where es: "mapS ?g vs ([], n + 1) = Inr (es, (seen, m))" "p = FP ''Map'' (FMap es)"
      by (auto simp: result_simps perr_def split: if_splits)
    let ?P = "\<lambda>(key, val). bounded_param pk (depth + 1) key \<and> ftype key \<in> set MAP_KEY_TYPES \<and> bounded_param pk (depth + 1) val"
    have all: "?I (snd (seen, m)) \<and> list_all ?P es"
    proof (rule mapS_inv [OF es(1)])
      show "?I (snd ([], n + 1))" using start by simp
    next
      fix e s y s' assume e: "e \<in> set vs" and I: "?I (snd s)" and g: "?g e s = Inr (y, s')"
      obtain se k where s: "s = (se, k)" by (cases s)
      from g obtain kk w key k' val k'' where parts: "own_pair e = Inr (kk, w)" "F kk k = Inr (key, k')" "F w k' = Inr (val, k'')"
        "y = (key, val)" "s' = (key_identity key # se, k'')" "ftype key \<in> set MAP_KEY_TYPES"
        by (auto simp: s result_simps perr_def split: if_splits)
      have "js_ok kk \<and> js_ok w" using own_pair_ok [OF parts(1)] view_part_ok(2) [OF less.prems(2) Entries] e by (auto simp: list_all_iff)
      with IH [OF view_part_size(2) [OF Entries e parts(1)] _ _ parts(2)] IH [OF view_part_size(3) [OF Entries e parts(1)] _ _ parts(3)]
      show "?I (snd s') \<and> ?P y" using I parts by (simp add: s)
    qed
    moreover have "distinct (map (\<lambda>(k, v). key_identity k) es)"
      by (rule mapS_distinct [OF es(1), THEN conjunct1]) (auto simp: result_simps perr_def split: if_splits)
    ultimately show ?thesis using start(2) unfolding es(2) snd_conv by (intro conjI bounded_map) blast+
  qed
qed

section \<open>Well-formed parameters are fixed points\<close>

abbreviation typed :: "string \<Rightarrow> jsval \<Rightarrow> jsobj" where
  "typed t w \<equiv> [(''type'', JStr t), (''value'', w)]"

lemma typed_leaf_fix: "leaf_ok pk t s \<Longrightarrow> param_view ia sh pk (JObj (typed t (JStr s))) = Leaf (Inr (FP t (FStr s)))"
  unfolding leaf_ok_def
  by (elim disjE conjE; simp add: param_view_def formatTypedParameter_def own_value_def leaf_def Let_def
    integer_fix base64_Inr [THEN iffD2] hash160_fix hash256_fix public_key_fix)

lemma typed_other_fix:
  "param_view ia sh pk (JObj (typed ''Any'' JNull)) = Leaf (Inr (FP ''Any'' FNull))"
  "param_view ia sh pk (JObj (typed ''Boolean'' (JBool b))) = Leaf (Inr (FP ''Boolean'' (FBool b)))"
  "param_view ia sh pk (JObj (typed ''Array'' (JArr vs))) = Elements vs"
  "param_view ia sh pk (JObj (typed ''Map'' (JArr vs))) = Entries vs"
  by (simp_all add: param_view_def formatTypedParameter_def own_value_def Let_def)

lemma own_pair_typed: "own_pair (JObj [(''key'', k), (''value'', v)]) = Inr (k, v)"
  by (simp add: own_pair_def)

lemma mapS_fix:
  assumes "\<And>q n. q \<in> set ps \<Longrightarrow> n + size_of q \<le> K \<Longrightarrow> f (h q) n = Inr (q, n + size_of q)"
  shows "n + sum_list (map size_of ps) \<le> (K :: nat) \<Longrightarrow> mapS f (map h ps) n = Inr (ps, n + sum_list (map size_of ps))"
  using assms by (induction ps arbitrary: n) (simp_all add: add.assoc [symmetric])

lemma mapS_entries_fix:
  assumes "\<And>e seen n. e \<in> set es \<Longrightarrow> key_of e \<notin> set seen \<Longrightarrow> n + size_of e \<le> K
      \<Longrightarrow> f (h e) (seen, n) = Inr (e, (key_of e # seen, n + size_of e))"
    and "distinct (map key_of es)" "set (map key_of es) \<inter> set seen = {}" "n + sum_list (map size_of es) \<le> (K :: nat)"
  shows "\<exists>seen'. mapS f (map h es) (seen, n) = Inr (es, (seen', n + sum_list (map size_of es)))"
  using assms
proof (induction es arbitrary: seen n)
  case (Cons e es)
  have "f (h e) (seen, n) = Inr (e, (key_of e # seen, n + size_of e))"
    using Cons.prems(3,4) by (intro Cons.prems(1)) auto
  moreover have "\<exists>seen'. mapS f (map h es) (key_of e # seen, n + size_of e)
      = Inr (es, (seen', n + size_of e + sum_list (map size_of es)))"
    using Cons.prems(2-4) by (intro Cons.IH) (auto intro: Cons.prems(1))
  ultimately show ?case by (auto simp: add.assoc)
qed simp

lemma format_fix:
  "bounded_param pk depth p \<Longrightarrow> n + nodes_of p \<le> 10000
     \<Longrightarrow> formatContractParameter ia sh pk depth (to_js p) n = Inr (p, n + nodes_of p)"
proof (induction "size p" arbitrary: p depth n rule: less_induct)
  case less
  define F where "F = formatContractParameter ia sh pk (depth + 1)"
  obtain t v where p: "p = FP t v" by (cases p)
  have IH: "F (to_js q) k = Inr (q, k + nodes_of q)"
    if "size q < size p" "bounded_param pk (depth + 1) q" "k + nodes_of q \<le> 10000" for q k
    using less.hyps that unfolding F_def by blast
  have run: "formatContractParameter ia sh pk depth w n = (case param_view ia sh pk w of
       Leaf r \<Rightarrow> bindR r (\<lambda>p. Inr (p, n + 1))
     | Elements vs \<Rightarrow> bindR (mapS (\<lambda>w n. F w n) vs (n + 1)) (\<lambda>(ps, n). Inr (FP ''Array'' (FList ps), n))
     | Entries vs \<Rightarrow>
         bindR (mapS (\<lambda>entry (seen, n).
             bindR (own_pair entry) (\<lambda>(k, w). bindR (F k n) (\<lambda>(key, n).
             if ftype key \<notin> set MAP_KEY_TYPES then perr ''Map keys do not support ''
             else if key_identity key \<in> set seen then perr ''Map keys must be unique after canonicalization''
             else bindR (F w n) (\<lambda>(val, n). Inr ((key, val), (key_identity key # seen, n)))))) vs ([], n + 1))
           (\<lambda>(es, (seen, n)). Inr (FP ''Map'' (FMap es), n))
     | Props kvs \<Rightarrow>
         bindR (mapS (\<lambda>(k, w) n. bindR (F w n) (\<lambda>(val, n). Inr ((FP ''String'' (FStr k), val), n))) kvs (n + 1))
           (\<lambda>(es, n). Inr (FP ''Map'' (FMap es), n))
     | Wrapped w \<Rightarrow> F w (n + 1))" for w
    using less.prems unfolding F_def formatContractParameter.simps [of ia sh pk depth w n]
    by (simp add: MAX_PARAMETER_NODES_def MAX_PARAMETER_DEPTH_def bounded_param_def p)
  have lv: "depth + value_levels v \<le> 32" and wf: "wf_value pk t v" using less.prems(1) by (simp_all add: p bounded_param_def)
  show ?case
  proof (cases v)
    case (FList ps)
    with wf lv have t: "t = ''Array''" and q: "list_all (bounded_param pk (depth + 1)) ps"
      by (auto simp: fold_max_le list_all_iff bounded_param_def)
    have "size q < size p" if "q \<in> set ps" for q
      using size_list_estimation' [OF that, of "size q" size] by (simp add: p FList)
    then have "mapS (\<lambda>w n. F w n) (map to_js ps) (n + 1) = Inr (ps, n + 1 + sum_list (map nodes_of ps))"
      using q less.prems(2) by (intro mapS_fix [of _ _ 10000] IH) (auto simp: p FList list_all_iff)
    then show ?thesis by (simp add: run p FList t typed_other_fix)
  next
    case (FMap es)
    let ?key = "\<lambda>(k, v). key_identity k" and ?nodes = "\<lambda>(k, v). nodes_of k + nodes_of v"
    from FMap wf lv have t: "t = ''Map''" and d: "distinct (map ?key es)"
      and q: "list_all (\<lambda>(k, v). bounded_param pk (depth + 1) k \<and> ftype k \<in> set MAP_KEY_TYPES \<and> bounded_param pk (depth + 1) v) es"
      by (auto simp: fold_max_le list_all_iff bounded_param_def)
    have sz: "size k < size p \<and> size w < size p" if "(k, w) \<in> set es" for k w
      using size_list_estimation' [OF that, of "size k + size w" "size_prod size size"] by (simp add: p FMap)
    have "\<exists>seen. mapS (\<lambda>entry (seen, n). bindR (own_pair entry) (\<lambda>(k, w). bindR (F k n) (\<lambda>(key, n).
             if ftype key \<notin> set MAP_KEY_TYPES then perr ''Map keys do not support ''
             else if key_identity key \<in> set seen then perr ''Map keys must be unique after canonicalization''
             else bindR (F w n) (\<lambda>(val, n). Inr ((key, val), (key_identity key # seen, n))))))
        (map (\<lambda>(k, v). JObj [(''key'', to_js k), (''value'', to_js v)]) es) ([], n + 1)
      = Inr (es, (seen, n + 1 + sum_list (map ?nodes es)))"
    proof (rule mapS_entries_fix [where key_of = ?key and size_of = ?nodes and K = 10000])
      fix e seen k assume e: "e \<in> set es" "?key e \<notin> set seen" "k + ?nodes e \<le> 10000"
      obtain key w where kw: "e = (key, w)" by (cases e)
      with e q have b: "bounded_param pk (depth + 1) key" "ftype key \<in> set MAP_KEY_TYPES" "bounded_param pk (depth + 1) w"
        by (auto simp: list_all_iff)
      have "F (to_js key) k = Inr (key, k + nodes_of key)" using sz [of key w] e kw b by (intro IH) auto
      moreover have "F (to_js w) (k + nodes_of key) = Inr (w, k + nodes_of key + nodes_of w)"
        using sz [of key w] e kw b by (intro IH) auto
      ultimately show "(\<lambda>entry (seen, n). bindR (own_pair entry) (\<lambda>(k, w). bindR (F k n) (\<lambda>(key, n).
             if ftype key \<notin> set MAP_KEY_TYPES then perr ''Map keys do not support ''
             else if key_identity key \<in> set seen then perr ''Map keys must be unique after canonicalization''
             else bindR (F w n) (\<lambda>(val, n). Inr ((key, val), (key_identity key # seen, n))))))
          ((\<lambda>(k, v). JObj [(''key'', to_js k), (''value'', to_js v)]) e) (seen, k)
          = Inr (e, (?key e # seen, k + ?nodes e))"
        using e(2) b by (simp add: kw own_pair_typed add.assoc)
    qed (use d less.prems(2) in \<open>auto simp: p FMap\<close>)
    then show ?thesis by (auto simp: run p FMap t typed_other_fix)
  qed (use wf in \<open>auto simp: run p typed_other_fix typed_leaf_fix\<close>)
qed

section \<open>Properties\<close>

lemma mapS_format:
  assumes "mapS (formatContractParameter ia sh pk 0) ws 0 = Inr (ps, n)" "list_all js_ok ws" "case_law pk"
  shows "list_all (bounded_param pk 0) ps"
proof -
  have "True \<and> list_all (bounded_param pk 0) ps"
  proof (rule mapS_inv [OF assms(1)])
    fix w s q s' assume "w \<in> set ws" "formatContractParameter ia sh pk 0 w s = Inr (q, s')"
    then show "True \<and> bounded_param pk 0 q"
      using format_invariant [OF assms(3)] assms(2) by (auto simp: list_all_iff)
  qed simp
  then show ?thesis by simp
qed

lemma formatContractParameters_Inr:
  "formatContractParameters ia sh pk v = Inr ps \<longleftrightarrow>
     (\<exists>ws n. v = JArr ws \<and> mapS (formatContractParameter ia sh pk 0) ws 0 = Inr (ps, n))"
  by (cases v) (auto simp: formatContractParameters_def result_simps)

text \<open>
  C15: the formatted arguments are well-typed contract parameters: every value has the form of
  its type (integers canonical and in the range of the VM, hashes and keys lower-case hex of
  their length, byte arrays canonical base64), map keys have a key type and are distinct, and
  nothing nests deeper than 33 levels.
\<close>

theorem format_well_typed:
  assumes "formatContractParameters ia sh pk v = Inr ps" "js_ok v" "case_law pk"
  shows "list_all (\<lambda>p. wf_param pk p \<and> levels p \<le> 33) ps"
proof -
  from assms(1) obtain ws n where "v = JArr ws" "mapS (formatContractParameter ia sh pk 0) ws 0 = Inr (ps, n)"
    by (auto simp: formatContractParameters_Inr)
  from mapS_format [OF this(2) _ assms(3)] this(1) assms(2) show ?thesis
    by (simp add: list_all_iff bounded_param_def)
qed

definition demo_args :: jsval where
  "demo_args = JArr [JObj [(''to'', JBytes [1, 2, 255]), (''n'', JNum (NInt (-7)))], JNull, JArr [JBool True, JStr ''hi'']]"

definition demo_params :: "formatted list" where
  "demo_params =
    [FP ''Map'' (FMap [(FP ''String'' (FStr ''to''), FP ''ByteArray'' (FStr ''AQL/'')),
                     (FP ''String'' (FStr ''n''), FP ''Integer'' (FStr ''-7''))]),
     FP ''Any'' FNull, FP ''Array'' (FList [FP ''Boolean'' (FBool True), FP ''String'' (FStr ''hi'')])]"

lemma demo_formats: "formatContractParameters (\<lambda>s. False) (\<lambda>s. None) (\<lambda>k. True) demo_args = Inr demo_params"
  by (simp add: demo_args_def demo_params_def formatContractParameters_def formatContractParameter.simps param_view_def
    leaf_def MAX_PARAMETER_NODES_def MAX_PARAMETER_DEPTH_def formatString_def hash160_pattern_def strip_0x_def
    starts_with_def alnum34_def normalizeInteger_def isSafeInteger.simps maxSafeInteger_def normalizeInferredBigInt_def
    VM_INTEGER_MIN_def VM_INTEGER_MAX_def int_str_def base64_char_def digit_char_def) code_simp

lemma format_well_typed_witness: "list_all (\<lambda>p. wf_param (\<lambda>k. True) p \<and> levels p \<le> 33) demo_params"
proof -
  note demo_formats
  moreover have "js_ok demo_args" by (simp add: demo_args_def bytes_ok_def)
  moreover have "case_law (\<lambda>k. True)" by (simp add: case_law_def)
  ultimately show ?thesis using format_well_typed [of "\<lambda>s. False" "\<lambda>s. None" "\<lambda>k. True" demo_args demo_params] by blast
qed

text \<open>
  Formatting is idempotent: the typed form of formatted arguments formats to the same
  arguments, however the caller had written them (plain values, objects, typed values or SDK
  objects), unless the keys of plain objects, which the second pass counts, exceed the limit.
\<close>

lemma format_fixed_point:
  assumes "formatContractParameters ia sh pk v = Inr ps" "js_ok v" "case_law pk" "sum_list (map nodes_of ps) \<le> 10000"
  shows "formatContractParameters ia sh pk (JArr (map to_js ps)) = Inr ps"
proof -
  from assms(1) obtain ws n where "v = JArr ws" "mapS (formatContractParameter ia sh pk 0) ws 0 = Inr (ps, n)"
    by (auto simp: formatContractParameters_Inr)
  from mapS_format [OF this(2) _ assms(3)] this(1) assms(2) have b: "list_all (bounded_param pk 0) ps" by simp
  have "mapS (formatContractParameter ia sh pk 0) (map to_js ps) 0 = Inr (ps, 0 + sum_list (map nodes_of ps))"
    using b assms(4) by (intro mapS_fix [of _ _ 10000] format_fix) (auto simp: list_all_iff)
  then show ?thesis by (simp add: formatContractParameters_Inr)
qed

lemma format_fixed_point_witness:
  "formatContractParameters (\<lambda>s. False) (\<lambda>s. None) (\<lambda>k. True) (JArr (map to_js demo_params)) = Inr demo_params"
proof -
  note demo_formats
  moreover have "js_ok demo_args" by (simp add: demo_args_def bytes_ok_def)
  moreover have "case_law (\<lambda>k. True)" by (simp add: case_law_def)
  moreover have "sum_list (map nodes_of demo_params) \<le> 10000" by (simp add: demo_params_def)
  ultimately show ?thesis by (rule format_fixed_point)
qed

end
