(* ===== verification/Proposals.thy ===== *)
theory Proposals
  imports Amounts ContractParamSpec
begin

text \<open>
  src/utils/transaction-proposal.ts: the builders of unsigned transaction proposals. \<open>ia\<close>, \<open>sh\<close>
  and \<open>pk\<close> are the neon-js parameters of ContractParams.

  The main results: the arguments of a transfer proposal are the two script hashes, the scaled
  amount and null (\<open>transfer_proposal_faithful\<close>); a Neo X proposal carries the given value, gas
  and price as minimal hex quantities between checked addresses (\<open>evm_proposal_faithful\<close>).
\<close>

section \<open>Neo N3\<close>

definition NEO_NATIVE_SCRIPT_HASH :: string where
  "NEO_NATIVE_SCRIPT_HASH = ''0xef4073a0f2b305a38ec4050e4d3d28bc40ea63f5''"
definition GAS_NATIVE_SCRIPT_HASH :: string where
  "GAS_NATIVE_SCRIPT_HASH = ''0xd2a4cff31913016155e38e474a2c06d08be276cf''"

record signer =
  s_account :: string
  s_scopes :: string

record n3_proposal =
  n_network :: string
  n_scriptHash :: string
  n_operation :: string
  n_args :: "formatted list"
  n_signers :: "signer list"
  n_from :: string
  n_to :: "string option"
  n_summary :: string
  n_signingNote :: string

definition SIGNING_NOTE_N3 :: string where
  "SIGNING_NOTE_N3 = ''UNSIGNED proposal. This MCP server never signs or broadcasts. '' @
     ''Hand these invoke params to the user'' @ [CHR 0x27] @ ''s NeoLine/WalletConnect wallet to sign and send.''"
definition SIGNING_NOTE_EVM :: string where
  "SIGNING_NOTE_EVM = ''UNSIGNED proposal. This MCP server never signs or broadcasts. '' @
     ''Hand this transaction to the user'' @ [CHR 0x27] @ ''s MetaMask wallet to fill the nonce, sign, and send.''"

definition resolveNep17ScriptHash :: "jsval \<Rightarrow> (string \<times> string option) result" where
  "resolveNep17ScriptHash asset =
     (case asset of
        JStr s \<Rightarrow>
          if trim s = [] then invalid ''Asset must be ''
          else if to_upper (trim s) = ''NEO'' then Inr (NEO_NATIVE_SCRIPT_HASH, Some ''NEO'')
          else if to_upper (trim s) = ''GAS'' then Inr (GAS_NATIVE_SCRIPT_HASH, Some ''GAS'')
          else bindR (validateScriptHash (JStr (trim s))) (\<lambda>h. Inr (h, None))
      | _ \<Rightarrow> invalid ''Asset must be '')"

definition defaultDecimalsForScriptHash :: "string \<Rightarrow> int option" where
  "defaultDecimalsForScriptHash h =
     (if to_lower h = NEO_NATIVE_SCRIPT_HASH then Some 0
      else if to_lower h = GAS_NATIVE_SCRIPT_HASH then Some 8 else None)"

definition addressToHash160Value :: "(string \<Rightarrow> string option) \<Rightarrow> string \<Rightarrow> string result" where
  "addressToHash160Value sh a =
     (case sh a of Some h \<Rightarrow> Inr (to_lower h) | None \<Rightarrow> Inl (GenericError ''getScriptHashFromAddress''))"

definition calledByEntrySigner :: "(string \<Rightarrow> string option) \<Rightarrow> string \<Rightarrow> signer result" where
  "calledByEntrySigner sh a =
     bindR (addressToHash160Value sh a) (\<lambda>h. Inr \<lparr>s_account = ''0x'' @ h, s_scopes = ''CalledByEntry''\<rparr>)"

record transfer_input =
  t_network :: string
  t_from :: jsval
  t_to :: jsval
  t_asset :: jsval
  t_amount :: string
  t_decimals :: jsnum

definition buildN3TransferProposal ::
    "(string \<Rightarrow> bool) \<Rightarrow> (string \<Rightarrow> string option) \<Rightarrow> (string \<Rightarrow> bool) \<Rightarrow> transfer_input \<Rightarrow> n3_proposal result" where
  "buildN3TransferProposal ia sh pk inp =
     bindR (validateAddress ia sh (t_from inp)) (\<lambda>from_addr.
     bindR (validateAddress ia sh (t_to inp)) (\<lambda>to_addr.
     bindR (resolveNep17ScriptHash (t_asset inp)) (\<lambda>(scriptHash, symbol).
     bindR (scaleTokenAmount (JStr (t_amount inp)) (t_decimals inp)) (\<lambda>rawAmount.
     bindR (formatContractParameters ia sh pk (JArr [JStr from_addr, JStr to_addr, JBig (int (str_dec rawAmount)), JNull])) (\<lambda>args.
     let label = (case symbol of Some s \<Rightarrow> s | None \<Rightarrow> scriptHash) in
     Inr \<lparr>n_network = t_network inp, n_scriptHash = scriptHash, n_operation = ''transfer'', n_args = args,
       n_signers = [\<lparr>s_account = from_addr, s_scopes = ''CalledByEntry''\<rparr>], n_from = from_addr, n_to = Some to_addr,
       n_summary = ''Transfer '' @ t_amount inp @ '' '' @ label @ '' from '' @ from_addr @ '' to '' @ to_addr @ '' on Neo N3 ''
         @ t_network inp @ ''.'',
       n_signingNote = SIGNING_NOTE_N3\<rparr>)))))"

record invoke_input =
  i_network :: string
  i_scriptHash :: jsval
  i_operation :: jsval
  i_args :: jsval
  i_from :: jsval
  i_signers :: "signer list"

definition buildN3InvokeProposal ::
    "(string \<Rightarrow> bool) \<Rightarrow> (string \<Rightarrow> string option) \<Rightarrow> (string \<Rightarrow> bool) \<Rightarrow> invoke_input \<Rightarrow> n3_proposal result" where
  "buildN3InvokeProposal ia sh pk inp =
     bindR (validateScriptHash (i_scriptHash inp)) (\<lambda>scriptHash.
     bindR (validateAddress ia sh (i_from inp)) (\<lambda>from_addr.
     case i_operation inp of
       JStr operation \<Rightarrow>
         if trim operation = [] then invalid ''operation must be a non-empty string''
         else bindR (formatContractParameters ia sh pk (case i_args inp of JArr vs \<Rightarrow> JArr vs | _ \<Rightarrow> JArr [])) (\<lambda>args.
           let signers = (if i_signers inp \<noteq> [] then i_signers inp
                          else [\<lparr>s_account = from_addr, s_scopes = ''CalledByEntry''\<rparr>]) in
           Inr \<lparr>n_network = i_network inp, n_scriptHash = scriptHash, n_operation = trim operation, n_args = args,
             n_signers = signers, n_from = from_addr, n_to = None,
             n_summary = ''Invoke '' @ trim operation @ '' on '' @ scriptHash @ '' (Neo N3 '' @ i_network inp
               @ ''), signed by '' @ from_addr @ ''.'',
             n_signingNote = SIGNING_NOTE_N3\<rparr>)
     | _ \<Rightarrow> invalid ''operation must be a non-empty string''))"

record simulation_request =
  r_scriptHash :: string
  r_operation :: string
  r_params :: "formatted list"
  r_signers :: "signer list"

definition rpc_signer :: "(string \<Rightarrow> bool) \<Rightarrow> (string \<Rightarrow> string option) \<Rightarrow> signer \<Rightarrow> signer result" where
  "rpc_signer ia sh s =
     (if hex_0x 40 (s_account s) then Inr \<lparr>s_account = to_lower (s_account s), s_scopes = s_scopes s\<rparr>
      else bindR (validateAddress ia sh (JStr (s_account s))) (\<lambda>a.
           bindR (calledByEntrySigner sh a) (\<lambda>c. Inr \<lparr>s_account = s_account c, s_scopes = s_scopes s\<rparr>)))"

definition simulationRequestFor :: "(string \<Rightarrow> bool) \<Rightarrow> (string \<Rightarrow> string option) \<Rightarrow> n3_proposal \<Rightarrow> simulation_request result" where
  "simulationRequestFor ia sh p =
     bindR (mapR (rpc_signer ia sh) (n_signers p)) (\<lambda>signers.
     Inr \<lparr>r_scriptHash = n_scriptHash p, r_operation = n_operation p, r_params = n_args p, r_signers = signers\<rparr>)"

section \<open>Neo X\<close>

definition hex_quantity_text :: "string \<Rightarrow> bool" where
  "hex_quantity_text s \<longleftrightarrow> starts_with s ''0x'' \<and> 2 < length s \<and> list_all is_hex (drop 2 s)"

definition quantity_value :: "jsval \<Rightarrow> int result" where
  "quantity_value v =
     (case v of
        JBig i \<Rightarrow> Inr i
      | JNum n \<Rightarrow>
          (case n of
             NInt i \<Rightarrow> if \<not> isSafeInteger n \<or> i < 0 then invalid ''Quantity must be a non-negative safe integer'' else Inr i
           | _ \<Rightarrow> invalid ''Quantity must be a non-negative safe integer'')
      | JStr s \<Rightarrow>
          if hex_quantity_text (trim s) then Inr (int (str_hex (drop 2 (trim s))))
          else if all_digits (trim s) then Inr (int (str_dec (trim s)))
          else invalid ''Invalid quantity: ''
      | _ \<Rightarrow> invalid ''Quantity must be a bigint, number, or string'')"

definition toHexQuantity :: "jsval \<Rightarrow> string result" where
  "toHexQuantity v =
     bindR (quantity_value v) (\<lambda>big.
     if big < 0 then invalid ''Quantity must not be negative'' else Inr (''0x'' @ hex_str (nat big)))"

definition normalizeCalldata :: "jsval \<Rightarrow> string result" where
  "normalizeCalldata v =
     (if nullish v \<or> v = JStr [] then Inr ''0x''
      else case v of
        JStr s \<Rightarrow>
          let body = (if starts_with s ''0x'' \<or> starts_with s ''0X'' then drop 2 s else s) in
          if odd (length body) \<or> \<not> list_all is_hex body then invalid ''Invalid calldata (not even-length hex): ''
          else Inr (''0x'' @ to_lower body)
      | _ \<Rightarrow> invalid ''Calldata must be a 0x-hex string'')"

record evm_input =
  e_network :: string
  e_from :: jsval
  e_to :: jsval
  e_valueWei :: jsval
  e_data :: jsval
  e_chainId :: jsnum
  e_gas :: jsval
  e_gasPrice :: jsval
  e_summaryText :: "string option"

record evm_tx =
  x_from :: string
  x_to :: string
  x_value :: string
  x_data :: string
  x_chainId :: string
  x_gas :: string
  x_gasPrice :: string

record evm_proposal =
  ep_network :: string
  ep_tx :: evm_tx
  ep_summary :: string
  ep_signingNote :: string

fun positive_safe :: "jsnum \<Rightarrow> bool" where
  "positive_safe (NInt i) = (isSafeInteger (NInt i) \<and> 0 < i)"
| "positive_safe _ = False"

definition buildEvmTxProposal :: "evm_input \<Rightarrow> evm_proposal result" where
  "buildEvmTxProposal inp =
     bindR (validateEvmAddress (e_from inp)) (\<lambda>from_addr.
     bindR (validateEvmAddress (e_to inp)) (\<lambda>to_addr.
     bindR (validateEvmAmount True (e_valueWei inp)) (\<lambda>v.
     bindR (normalizeCalldata (e_data inp)) (\<lambda>data.
     if \<not> positive_safe (e_chainId inp) then invalid ''chainId must be a positive integer''
     else bindR (toHexQuantity (JStr v)) (\<lambda>value.
     bindR (toHexQuantity (JNum (e_chainId inp))) (\<lambda>chainId.
     bindR (toHexQuantity (e_gas inp)) (\<lambda>gas.
     bindR (toHexQuantity (e_gasPrice inp)) (\<lambda>gasPrice.
     Inr \<lparr>ep_network = e_network inp,
       ep_tx = \<lparr>x_from = from_addr, x_to = to_addr, x_value = value, x_data = data, x_chainId = chainId,
         x_gas = gas, x_gasPrice = gasPrice\<rparr>,
       ep_summary = (case e_summaryText inp of
           Some s \<Rightarrow> s
         | None \<Rightarrow> ''Neo X '' @ e_network inp @ '' transaction from '' @ from_addr @ '' to '' @ to_addr @ '' (value '' @ v @ '' wei).''),
       ep_signingNote = SIGNING_NOTE_EVM\<rparr>))))))))"

section \<open>Properties\<close>

lemma format_leaf:
  "param_view ia sh pk v = Leaf (Inr p) \<Longrightarrow> depth \<le> 32 \<Longrightarrow> n < 10000
     \<Longrightarrow> formatContractParameter ia sh pk depth v n = Inr (p, n + 1)"
  by (simp add: formatContractParameter.simps MAX_PARAMETER_NODES_def MAX_PARAMETER_DEPTH_def)

lemma address_leaf:
  assumes "alnum34 a" "ia a" "sh a = Some h" "length h = 40" "list_all is_hex h"
  shows "param_view ia sh pk (JStr a) = Leaf (Inr (FP ''Hash160'' (FStr (to_lower h))))"
proof -
  have "length (strip_0x a) \<noteq> 40" using assms(1) by (simp add: alnum34_def strip_0x_def)
  then have "\<not> hash160_pattern a" by (simp add: hash160_pattern_def)
  then show ?thesis using assms by (simp add: param_view_def formatString_def normalizeHash160_def)
qed

lemma scaled_leaf:
  assumes "scaleTokenAmount (JStr a) d = Inr raw"
  shows "param_view ia sh pk (JBig (int (str_dec raw))) = Leaf (Inr (FP ''Integer'' (FStr raw)))"
proof -
  from assms obtain i where "raw = int_str i" "0 < i" "i \<le> 2 ^ 255 - 1"
    by (auto simp: scaleTokenAmount_def Let_def not_le not_less split: jsnum.splits if_splits)
  then show ?thesis
    by (simp add: param_view_def leaf_def normalizeInferredBigInt_def VM_INTEGER_MIN_def VM_INTEGER_MAX_def int_str_def)
qed

lemma validateAddress_Inr:
  "validateAddress ia sh v = Inr a \<longleftrightarrow> v = JStr a \<and> alnum34 a \<and> ia a \<and> (\<exists>h. sh a = Some h \<and> length h = 40)"
  by (cases v) (auto simp: validateAddress_def alnum34_def split: option.splits)

text \<open>
  A transfer proposal is the transfer that was asked for: its arguments are the script
  hashes of the checked sender and recipient, the exactly scaled amount and null, it is to be
  signed by the sender alone with CalledByEntry scope.
\<close>

lemma transfer_proposal_faithful:
  assumes "buildN3TransferProposal ia sh pk inp = Inr p"
    and hex: "\<And>a h. ia a \<Longrightarrow> sh a = Some h \<Longrightarrow> list_all is_hex h"
  shows "\<exists>a b ha hb raw. t_from inp = JStr a \<and> t_to inp = JStr b \<and> ia a \<and> ia b \<and> sh a = Some ha \<and> sh b = Some hb
    \<and> scaleTokenAmount (JStr (t_amount inp)) (t_decimals inp) = Inr raw
    \<and> n_args p = [FP ''Hash160'' (FStr (to_lower ha)), FP ''Hash160'' (FStr (to_lower hb)), FP ''Integer'' (FStr raw), FP ''Any'' FNull]
    \<and> n_operation p = ''transfer'' \<and> n_signers p = [\<lparr>s_account = a, s_scopes = ''CalledByEntry''\<rparr>]"
proof -
  from assms(1) obtain a b raw args where a: "validateAddress ia sh (t_from inp) = Inr a"
    and b: "validateAddress ia sh (t_to inp) = Inr b"
    and raw: "scaleTokenAmount (JStr (t_amount inp)) (t_decimals inp) = Inr raw"
    and args: "formatContractParameters ia sh pk (JArr [JStr a, JStr b, JBig (int (str_dec raw)), JNull]) = Inr args"
    and p: "n_args p = args" "n_operation p = ''transfer''" "n_signers p = [\<lparr>s_account = a, s_scopes = ''CalledByEntry''\<rparr>]"
    by (auto simp: buildN3TransferProposal_def result_simps Let_def)
  from a b obtain ha hb where h: "t_from inp = JStr a" "ia a" "sh a = Some ha" "alnum34 a" "length ha = 40"
    "t_to inp = JStr b" "ia b" "sh b = Some hb" "alnum34 b" "length hb = 40" by (auto simp: validateAddress_Inr)
  have "param_view ia sh pk JNull = Leaf (Inr (FP ''Any'' FNull))" by (simp add: param_view_def)
  note leaves = address_leaf [of a ia sh ha pk, OF h(4,2,3,5) hex [OF h(2,3)]] address_leaf [of b ia sh hb pk, OF h(9,7,8,10) hex [OF h(7,8)]]
    scaled_leaf [OF raw] this
  have "args = [FP ''Hash160'' (FStr (to_lower ha)), FP ''Hash160'' (FStr (to_lower hb)), FP ''Integer'' (FStr raw), FP ''Any'' FNull]"
    using args by (simp add: formatContractParameters_def leaves [THEN format_leaf])
  then show ?thesis using h raw p by blast
qed

definition demo_transfer :: transfer_input where
  "demo_transfer = \<lparr>t_network = ''testnet'', t_from = JStr (replicate 34 CHR ''N''), t_to = JStr (replicate 34 CHR ''M''),
     t_asset = JStr ''gas'', t_amount = ''0.05'', t_decimals = NInt 3\<rparr>"

lemma transfer_proposal_faithful_witness:
  "\<exists>raw. scaleTokenAmount (JStr (t_amount demo_transfer)) (t_decimals demo_transfer) = Inr raw
     \<and> t_from demo_transfer = JStr (replicate 34 CHR ''N'')"
proof -
  let ?sh = "\<lambda>a. Some (replicate 40 CHR ''a'')" and ?ia = "\<lambda>a. True" and ?pk = "\<lambda>k. True"
  let ?N = "replicate 34 CHR ''N''" and ?M = "replicate 34 CHR ''M''"
  have hex: "list_all is_hex (replicate 40 CHR ''a'')" by (simp add: list_all_iff is_hex_def is_lower_hex_def cc_def)
  have N: "validateAddress ?ia ?sh (JStr ?N) = Inr ?N" and M: "validateAddress ?ia ?sh (JStr ?M) = Inr ?M" by code_simp+
  have scale: "scaleTokenAmount (JStr ''0.05'') (NInt 3) = Inr ''50''" by code_simp
  have asset: "resolveNep17ScriptHash (JStr ''gas'') = Inr (GAS_NATIVE_SCRIPT_HASH, Some ''GAS'')" by code_simp
  have null: "param_view ?ia ?sh ?pk JNull = Leaf (Inr (FP ''Any'' FNull))" by (simp add: param_view_def)
  have "\<exists>args. formatContractParameters ?ia ?sh ?pk (JArr [JStr ?N, JStr ?M, JBig (int (str_dec ''50'')), JNull]) = Inr args"
    using N M hex
    by (simp add: formatContractParameters_def validateAddress_Inr address_leaf [THEN format_leaf]
      scaled_leaf [OF scale, THEN format_leaf] null [THEN format_leaf])
  then obtain p where "buildN3TransferProposal ?ia ?sh ?pk demo_transfer = Inr p"
    using N M scale asset by (auto simp: buildN3TransferProposal_def demo_transfer_def Let_def)
  from transfer_proposal_faithful [OF this] hex show ?thesis by (auto simp: demo_transfer_def)
qed

lemma drop2: "drop 2 (a # b # s) = s" and take2: "take 2 (a # b # s) = [a, b]"
  by (simp_all add: numeral_2_eq_2)

lemma quantity_Inr:
  "toHexQuantity v = Inr q \<longleftrightarrow> (\<exists>n. q = ''0x'' @ hex_str n \<and> quantity_value v = Inr (int n))"
proof
  assume "toHexQuantity v = Inr q"
  then obtain i where "quantity_value v = Inr i" "0 \<le> i" "q = ''0x'' @ hex_str (nat i)"
    by (auto simp: toHexQuantity_def result_simps)
  then show "\<exists>n. q = ''0x'' @ hex_str n \<and> quantity_value v = Inr (int n)" by (intro exI [of _ "nat i"]) simp
qed (auto simp: toHexQuantity_def)

lemma quantity_fix: "quantity_value (JStr (CHR ''0'' # CHR ''x'' # hex_str n)) = Inr (int n)"
proof -
  let ?q = "CHR ''0'' # CHR ''x'' # hex_str n"
  have h: "list_all is_lower_hex (hex_str n)" by (rule hex_str_hex)
  then have "\<not> list_ex is_ws ?q"
    by (auto simp: list_all_iff list_ex_iff is_lower_hex_def is_digit_def is_ws_def cc_def)
  then have "trim ?q = ?q" by (rule trim_id)
  moreover have "hex_quantity_text ?q"
    using h by (auto simp: hex_quantity_text_def starts_with_def list_all_iff drop2 take2)
  ultimately show ?thesis by (simp add: quantity_value_def drop2)
qed

definition even_hex :: "string \<Rightarrow> bool" where
  "even_hex s \<longleftrightarrow> starts_with s ''0x'' \<and> even (length s) \<and> list_all is_lower_hex (drop 2 s)"

lemma even_hex_lower: "even (length b) \<Longrightarrow> list_all is_hex b \<Longrightarrow> even_hex (CHR ''0'' # CHR ''x'' # to_lower b)"
  by (simp add: even_hex_def starts_with_def drop2 take2 to_lower_hex)

lemma calldata_form: "normalizeCalldata v = Inr d \<Longrightarrow> even_hex d"
  using even_hex_lower [of "[]"] even_hex_lower
  by (cases v) (auto simp: normalizeCalldata_def Let_def to_lower_def [of "[]"] split: if_splits)

text \<open>A minimal hex quantity standing for a value.\<close>

definition quantity_of :: "string \<Rightarrow> jsval \<Rightarrow> bool" where
  "quantity_of q v \<longleftrightarrow> (\<exists>n. q = ''0x'' @ hex_str n \<and> quantity_value v = Inr (int n) \<and> quantity_value (JStr q) = Inr (int n))"

lemma evm_address_form: "validateEvmAddress v = Inr a \<Longrightarrow> hex_0x 40 a \<and> to_lower a = a"
  using hex_0x_lower by (auto simp: validateEvmAddress_def split: jsval.splits if_splits)

lemma wei_form: "validateEvmAmount True v = Inr t \<Longrightarrow> \<exists>n. t = dec_str n \<and> evm_amount_value v = Inr (int n)"
  by (auto simp: validateEvmAmount_def result_simps int_str_def intro!: exI [of _ "nat _"] split: if_splits)

text \<open>
  C18: a Neo X proposal goes between two checked lower-case addresses with even-length lower-case
  hex calldata, and its value, chain id, gas and gas price are minimal hex quantities that read
  back as exactly the numbers given.
\<close>

theorem evm_proposal_faithful:
  assumes "buildEvmTxProposal inp = Inr p"
  shows "hex_0x 40 (x_from (ep_tx p)) \<and> hex_0x 40 (x_to (ep_tx p)) \<and> even_hex (x_data (ep_tx p))
    \<and> (\<exists>n. evm_amount_value (e_valueWei inp) = Inr (int n) \<and> quantity_of (x_value (ep_tx p)) (JBig (int n)))
    \<and> quantity_of (x_chainId (ep_tx p)) (JNum (e_chainId inp))
    \<and> quantity_of (x_gas (ep_tx p)) (e_gas inp) \<and> quantity_of (x_gasPrice (ep_tx p)) (e_gasPrice inp)"
proof -
  have q: "toHexQuantity v = Inr q \<Longrightarrow> quantity_of q v" for v q
    by (auto simp: quantity_Inr quantity_of_def quantity_fix)
  from assms obtain a b v d wei chainId gas price where
    "validateEvmAddress (e_from inp) = Inr a" "validateEvmAddress (e_to inp) = Inr b" and v: "validateEvmAmount True (e_valueWei inp) = Inr v"
    and "normalizeCalldata (e_data inp) = Inr d" and wei: "toHexQuantity (JStr v) = Inr wei"
    and "toHexQuantity (JNum (e_chainId inp)) = Inr chainId" "toHexQuantity (e_gas inp) = Inr gas"
    "toHexQuantity (e_gasPrice inp) = Inr price"
    and p: "ep_tx p = \<lparr>x_from = a, x_to = b, x_value = wei, x_data = d, x_chainId = chainId, x_gas = gas, x_gasPrice = price\<rparr>"
    by (auto simp: buildEvmTxProposal_def result_simps)
  moreover obtain n where n: "v = dec_str n" "evm_amount_value (e_valueWei inp) = Inr (int n)" using wei_form [OF v] by blast
  moreover have "quantity_value (JStr v) = Inr (int n)"
  proof -
    have "\<not> starts_with (dec_str n) ''0x''"
    proof
      assume "starts_with (dec_str n) ''0x''"
      then obtain t where "dec_str n = ''0x'' @ t" by (blast dest: starts_withD)
      then show False using dec_str_digits [of n] by (simp add: is_digit_def cc_def)
    qed
    then show ?thesis by (simp add: n quantity_value_def trim_digits hex_quantity_text_def)
  qed
  ultimately have "quantity_of wei (JBig (int n))"
    using q [OF wei] by (auto simp: quantity_of_def quantity_value_def [of "JBig _"])
  with \<open>validateEvmAddress (e_from inp) = Inr a\<close> \<open>validateEvmAddress (e_to inp) = Inr b\<close> n(2)
    \<open>normalizeCalldata (e_data inp) = Inr d\<close> \<open>toHexQuantity (JNum (e_chainId inp)) = Inr chainId\<close>
    \<open>toHexQuantity (e_gas inp) = Inr gas\<close> \<open>toHexQuantity (e_gasPrice inp) = Inr price\<close>
  show ?thesis by (auto simp: p dest: q evm_address_form calldata_form)
qed

definition demo_evm :: evm_input where
  "demo_evm = \<lparr>e_network = ''neox-testnet'', e_from = JStr (replicate 40 CHR ''A''), e_to = JStr (''0x'' @ replicate 40 CHR ''b''),
     e_valueWei = JStr ''17'', e_data = JStr ''0XAB'', e_chainId = NInt 12, e_gas = JStr ''0x0f'', e_gasPrice = JNum (NInt 3),
     e_summaryText = Some ''demo''\<rparr>"

lemma evm_proposal_faithful_witness: "quantity_of ''0xf'' (JStr ''0x0f'') \<and> even_hex ''0xab''"
proof -
  have "buildEvmTxProposal demo_evm = Inr \<lparr>ep_network = ''neox-testnet'',
      ep_tx = \<lparr>x_from = ''0x'' @ replicate 40 CHR ''a'', x_to = ''0x'' @ replicate 40 CHR ''b'', x_value = ''0x11'',
        x_data = ''0xab'', x_chainId = ''0xc'', x_gas = ''0xf'', x_gasPrice = ''0x3''\<rparr>,
      ep_summary = ''demo'', ep_signingNote = SIGNING_NOTE_EVM\<rparr>" by code_simp
  from evm_proposal_faithful [OF this] show ?thesis by (simp add: demo_evm_def)
qed

end
