(* ===== verification/RpcFailover.thy ===== *)
theory RpcFailover
  imports RpcTransport
begin

text \<open>
  src/utils/rpc-client.ts: one JSON-RPC query over HTTP, and the sweep over a list of endpoints.
  Times are milliseconds. Between two attempts no time passes: the clock moves while an attempt is awaited.
\<close>

section \<open>Endpoints\<close>

definition MAX_RPC_RESPONSE_BYTES :: nat where "MAX_RPC_RESPONSE_BYTES = 16 * 1024 * 1024"

definition NON_FAILOVER_METHODS :: "string set" where
  "NON_FAILOVER_METHODS = {''sendrawtransaction'', ''submitblock''}"

definition MAX_ATTEMPT_TIMEOUT_MS :: int where "MAX_ATTEMPT_TIMEOUT_MS = 8000"

text \<open>\<open>[...new Set(list)]\<close>: the first occurrence of each stays.\<close>

fun unique_from :: "string list \<Rightarrow> string list \<Rightarrow> string list" where
  "unique_from seen [] = []"
| "unique_from seen (x # xs) = (if x \<in> set seen then unique_from seen xs else x # unique_from (x # seen) xs)"

definition toRpcUrlList :: "jsval \<Rightarrow> string list" where
  "toRpcUrlList rpcUrls =
     (let given = (case rpcUrls of JArr vs \<Rightarrow> vs | v \<Rightarrow> [v]) in
      unique_from [] (filter (\<lambda>s. s \<noteq> []) (map (\<lambda>v. trim (if nullish v then [] else js_String v)) given)))"

definition normalizeRpcUrls :: "jsval \<Rightarrow> string list result" where
  "normalizeRpcUrls rpcUrls =
     (if toRpcUrlList rpcUrls = [] then Inl (GenericError ''createRpcClient requires at least one RPC URL'')
      else Inr (toRpcUrlList rpcUrls))"

lemma unique_from: "distinct (unique_from seen xs) \<and> set (unique_from seen xs) = set xs - set seen"
  by (induction seen xs rule: unique_from.induct) auto

section \<open>Errors of a query\<close>

definition unsupported_text :: "string \<Rightarrow> bool" where
  "unsupported_text message \<longleftrightarrow>
     list_ex (includes_str (to_lower message))
       [''method not found'', ''method not supported'', ''unsupported method'', ''unsupported rpc method'', ''unknown method'']"

definition isUnsupportedRpcMethodError :: "rpc_failure \<Rightarrow> bool" where
  "isUnsupportedRpcMethodError e \<longleftrightarrow>
     f_code e = JNum (NInt (- 32601)) \<or> f_code e = JStr ''-32601'' \<or> unsupported_text (f_message e)"

definition isDefinitiveRpcRejection :: "rpc_failure \<Rightarrow> bool" where
  "isDefinitiveRpcRejection e \<longleftrightarrow>
     f_name e = ''RpcError'' \<and> (case f_code e of JNum _ \<Rightarrow> True | JStr _ \<Rightarrow> True | _ \<Rightarrow> False)"

definition RpcDeadlineFailure :: "int \<Rightarrow> rpc_failure" where
  "RpcDeadlineFailure timeoutMs =
     \<lparr>f_name = ''RpcDeadlineError'', f_code = JUndef, f_message = ''RPC request timed out after '' @ int_str timeoutMs @ ''ms''\<rparr>"

section \<open>One query\<close>

text \<open>
  What the network does in one attempt: the time until the query settles, whether the timer of the
  attempt fired by then, and what \<open>fetch\<close> gave.
\<close>

record exchange =
  x_elapsed :: int
  x_aborted :: bool
  x_fetch :: "rpc_failure + response"

fun member :: "jsval \<Rightarrow> string \<Rightarrow> jsval" where
  "member (JObj kvs) k = oget kvs k"
| "member _ k = JUndef"

text \<open>The answer in a payload: \<open>error\<close> first, then an own \<open>result\<close>.\<close>

definition payload_result :: "string \<Rightarrow> jsval \<Rightarrow> rpc_failure + jsval" where
  "payload_result method payload =
     (if nullish payload then Inl \<lparr>f_name = ''TypeError'', f_code = JUndef, f_message = ''Cannot read properties of null''\<rparr>
      else let error = member payload ''error'' in
        if truthy error
        then Inl \<lparr>f_name = ''RpcError'', f_code = member error ''code'',
                  f_message = (if member error ''message'' = JUndef then [] else js_String (member error ''message''))\<rparr>
        else case payload of
          JObj kvs \<Rightarrow>
            (case map_of kvs ''result'' of
               Some v \<Rightarrow> Inr v
             | None \<Rightarrow> Inl (plain_error (''Neo RPC returned a malformed response for '' @ method)))
        | _ \<Rightarrow> Inl (plain_error (''Neo RPC returned a malformed response for '' @ method)))"

definition executeQuery ::
    "(nat list \<Rightarrow> jsval option) \<Rightarrow> exchange \<Rightarrow> string \<Rightarrow> int \<Rightarrow> rpc_failure + jsval" where
  "executeQuery parseJSON x method timeoutMs =
     (let answer = (case x_fetch x of
          Inl e \<Rightarrow> Inl e
        | Inr response \<Rightarrow>
            if r_status response < 200 \<or> 299 < r_status response
            then Inl (plain_error (''Neo RPC returned HTTP '' @ dec_str (r_status response) @ '' for '' @ method))
            else (case readBoundedJson parseJSON response MAX_RPC_RESPONSE_BYTES ''Neo RPC'' of
                    Inl e \<Rightarrow> Inl e
                  | Inr payload \<Rightarrow> payload_result method payload)) in
      case answer of
        Inl e \<Rightarrow> if x_aborted x then Inl (RpcDeadlineFailure timeoutMs) else Inl e
      | Inr v \<Rightarrow> Inr v)"

section \<open>The sweep\<close>

record attempt =
  a_url :: string
  a_timeout :: int
  a_outcome :: "rpc_failure + jsval"

text \<open>The outcome (\<open>Inl None\<close> when nothing was ever thrown), the attempts and the time they took.\<close>

type_synonym sweep = "(rpc_failure option + jsval) \<times> attempt list \<times> int"

definition answers_for_all :: "rpc_failure \<Rightarrow> bool" where
  "answers_for_all e \<longleftrightarrow> isDefinitiveRpcRejection e \<or> isUnsupportedRpcMethodError e"

definition sweep_scope :: "nat \<Rightarrow> nat \<Rightarrow> int \<Rightarrow> string" where
  "sweep_scope attempted endpointCount timeoutMs =
     (if attempted = endpointCount then ''all '' @ dec_str endpointCount @ '' Neo RPC endpoints failed''
      else dec_str attempted @ '' of '' @ dec_str endpointCount @ '' Neo RPC endpoints tried within the '' @ int_str timeoutMs @ ''ms budget'')"

definition sweep_error :: "nat \<Rightarrow> nat \<Rightarrow> int \<Rightarrow> rpc_failure option \<Rightarrow> rpc_failure option" where
  "sweep_error attempted endpointCount timeoutMs lastError =
     (if 1 < endpointCount then map_option (\<lambda>e. e\<lparr>f_message := f_message e @ '' ('' @ sweep_scope attempted endpointCount timeoutMs @ '')''\<rparr>) lastError
      else lastError)"

fun sweep_loop ::
    "(nat list \<Rightarrow> jsval option) \<Rightarrow> (nat \<Rightarrow> string \<Rightarrow> int \<Rightarrow> exchange) \<Rightarrow> string \<Rightarrow> int \<Rightarrow> nat \<Rightarrow> nat \<Rightarrow> int \<Rightarrow>
     rpc_failure option \<Rightarrow> string list \<Rightarrow> sweep" where
  "sweep_loop parseJSON net method timeoutMs endpointCount attempted elapsed lastError [] =
     (Inl (sweep_error attempted endpointCount timeoutMs lastError), [], elapsed)"
| "sweep_loop parseJSON net method timeoutMs endpointCount attempted elapsed lastError (url # urls) =
     (let remaining = timeoutMs - elapsed in
      if 0 < attempted \<and> remaining \<le> 0
      then (Inl (sweep_error attempted endpointCount timeoutMs lastError), [], elapsed)
      else
        let budget = (if attempted = 0 then timeoutMs else remaining);
            limit = (if urls = [] then budget else min budget MAX_ATTEMPT_TIMEOUT_MS);
            x = net attempted url limit;
            outcome = executeQuery parseJSON x method limit;
            this = \<lparr>a_url = url, a_timeout = limit, a_outcome = outcome\<rparr>;
            now = elapsed + x_elapsed x in
        (case outcome of
           Inr v \<Rightarrow> (Inr v, [this], now)
         | Inl e \<Rightarrow>
             if answers_for_all e then (Inl (Some e), [this], now)
             else (case sweep_loop parseJSON net method timeoutMs endpointCount (Suc attempted) now (Some e) urls of
                     (r, attempts, end_time) \<Rightarrow> (r, this # attempts, end_time))))"

definition executeWithFailover ::
    "(nat list \<Rightarrow> jsval option) \<Rightarrow> (nat \<Rightarrow> string \<Rightarrow> int \<Rightarrow> exchange) \<Rightarrow> string list \<Rightarrow> string \<Rightarrow> int \<Rightarrow> sweep" where
  "executeWithFailover parseJSON net rpcUrls method timeoutMs =
     (let failoverAllowed = 1 < length rpcUrls \<and> to_lower method \<notin> NON_FAILOVER_METHODS;
          endpoints = (if failoverAllowed then rpcUrls else take 1 rpcUrls) in
      sweep_loop parseJSON net method timeoutMs (length endpoints) 0 0 None endpoints)"

text \<open>The \<open>execute\<close> of the client, with the timeout of the call when it gives one.\<close>

definition client_execute ::
    "(nat list \<Rightarrow> jsval option) \<Rightarrow> (nat \<Rightarrow> string \<Rightarrow> int \<Rightarrow> exchange) \<Rightarrow> jsval \<Rightarrow> int \<Rightarrow> string \<Rightarrow> int option \<Rightarrow> sweep result" where
  "client_execute parseJSON net rpcUrls timeoutMs method requestedTimeout =
     bindR (normalizeRpcUrls rpcUrls) (\<lambda>endpoints.
     Inr (executeWithFailover parseJSON net endpoints method
       (case requestedTimeout of None \<Rightarrow> timeoutMs | Some t \<Rightarrow> min timeoutMs t)))"

section \<open>What a sweep does\<close>

text \<open>An attempt settles no later than \<open>slack\<close> after its timeout.\<close>

definition punctual :: "int \<Rightarrow> (nat \<Rightarrow> string \<Rightarrow> int \<Rightarrow> exchange) \<Rightarrow> bool" where
  "punctual slack net \<longleftrightarrow> (\<forall>n url limit. 0 \<le> x_elapsed (net n url limit) \<and> x_elapsed (net n url limit) \<le> max 0 limit + slack)"

text \<open>
  The answer of a sweep over \<open>urls\<close> that made \<open>attempts\<close> and ended at \<open>end_time\<close>: the value of the last attempt,
  its definitive error, or its transport error when the endpoints or the time ran out.
\<close>

definition sweep_answer :: "int \<Rightarrow> string list \<Rightarrow> attempt list \<Rightarrow> int \<Rightarrow> rpc_failure option + jsval \<Rightarrow> bool" where
  "sweep_answer timeoutMs urls attempts end_time r \<longleftrightarrow>
     (case a_outcome (last attempts) of
        Inr v \<Rightarrow> r = Inr v
      | Inl e \<Rightarrow>
          if answers_for_all e then r = Inl (Some e)
          else (length attempts = length urls \<or> timeoutMs \<le> end_time)
            \<and> (\<exists>e'. r = Inl (Some e') \<and> f_name e' = f_name e \<and> f_code e' = f_code e \<and> starts_with (f_message e') (f_message e)))"

definition retryable :: "attempt \<Rightarrow> bool" where
  "retryable a \<longleftrightarrow> (case a_outcome a of Inl e \<Rightarrow> \<not> answers_for_all e | Inr _ \<Rightarrow> False)"

lemma sweep_error_Some:
  "\<exists>e'. sweep_error k n t (Some e) = Some e' \<and> f_name e' = f_name e \<and> f_code e' = f_code e \<and> starts_with (f_message e') (f_message e)"
  using starts_with_append [of "f_message e" "[]"] by (simp add: sweep_error_def)

lemma sweep_loop_shape:
  assumes "punctual slack net"
  shows "sweep_loop parseJSON net method timeoutMs endpointCount attempted elapsed lastError urls = (r, attempts, end_time)
    \<Longrightarrow> 0 \<le> elapsed \<and> elapsed \<le> max 0 timeoutMs + slack \<Longrightarrow> (attempted = 0 \<longrightarrow> elapsed = 0)
    \<Longrightarrow> map a_url attempts = take (length attempts) urls \<and> end_time \<le> max 0 timeoutMs + slack
      \<and> list_all retryable (butlast attempts)
      \<and> list_all (\<lambda>a. a_timeout a \<le> timeoutMs \<and> (length attempts < length urls \<longrightarrow> a_timeout a \<le> MAX_ATTEMPT_TIMEOUT_MS)) attempts
      \<and> (if attempts = [] then (urls = [] \<or> 0 < attempted \<and> timeoutMs \<le> end_time) \<and> r = Inl (sweep_error attempted endpointCount timeoutMs lastError)
         else sweep_answer timeoutMs urls attempts end_time r)"
proof (induction urls arbitrary: attempted elapsed lastError r attempts end_time)
  case Nil
  then show ?case by simp
next
  case (Cons url urls)
  show ?case
  proof (cases "0 < attempted \<and> timeoutMs - elapsed \<le> 0")
    case True
    with Cons.prems show ?thesis by auto
  next
    case False
    define limit where "limit = (if urls = [] then (if attempted = 0 then timeoutMs else timeoutMs - elapsed)
      else min (if attempted = 0 then timeoutMs else timeoutMs - elapsed) MAX_ATTEMPT_TIMEOUT_MS)"
    define x where "x = net attempted url limit"
    define outcome where "outcome = executeQuery parseJSON x method limit"
    define this where "this = \<lparr>a_url = url, a_timeout = limit, a_outcome = outcome\<rparr>"
    have run: "sweep_loop parseJSON net method timeoutMs endpointCount attempted elapsed lastError (url # urls) =
      (case outcome of
         Inr v \<Rightarrow> (Inr v, [this], elapsed + x_elapsed x)
       | Inl e \<Rightarrow>
           if answers_for_all e then (Inl (Some e), [this], elapsed + x_elapsed x)
           else (case sweep_loop parseJSON net method timeoutMs endpointCount (Suc attempted) (elapsed + x_elapsed x) (Some e) urls of
                   (r, attempts, end_time) \<Rightarrow> (r, this # attempts, end_time)))"
      unfolding sweep_loop.simps Let_def this_def outcome_def x_def limit_def by (simp only: False if_False)
    have lim: "limit \<le> timeoutMs" "urls \<noteq> [] \<Longrightarrow> limit \<le> MAX_ATTEMPT_TIMEOUT_MS"
      using Cons.prems(2) by (auto simp: limit_def)
    have shorter: "length as < length urls \<Longrightarrow> limit \<le> MAX_ATTEMPT_TIMEOUT_MS" for as :: "attempt list"
      using lim(2) by (cases urls) auto
    have x: "0 \<le> x_elapsed x" "x_elapsed x \<le> max 0 limit + slack" using assms by (simp_all add: punctual_def x_def)
    have now: "0 \<le> elapsed + x_elapsed x" "elapsed + x_elapsed x \<le> max 0 timeoutMs + slack"
      using x False Cons.prems(2,3) by (auto simp: limit_def split: if_splits)
    show ?thesis
    proof (cases "\<exists>e. outcome = Inl e \<and> \<not> answers_for_all e")
      case True
      then obtain e where e: "outcome = Inl e" "\<not> answers_for_all e" by blast
      obtain r' as' t' where rest: "sweep_loop parseJSON net method timeoutMs endpointCount (Suc attempted) (elapsed + x_elapsed x) (Some e) urls = (r', as', t')"
        by (metis prod_cases3)
      with Cons.prems(1) run e have res: "r = r'" "attempts = this # as'" "end_time = t'" by simp_all
      note ih = Cons.IH [OF rest] now
      have retry: "retryable this" using e by (simp add: this_def retryable_def)
      show ?thesis
      proof (cases "as' = []")
        case True
        with ih res e sweep_error_Some [of "Suc attempted" endpointCount timeoutMs e] lim show ?thesis
          by (auto simp: sweep_answer_def this_def)
      next
        case False
        with ih res retry lim(1) shorter [of as'] show ?thesis by (auto simp: sweep_answer_def this_def split: sum.splits if_splits)
      qed
    next
      case False
      then have "attempts = [this] \<and> end_time = elapsed + x_elapsed x \<and> sweep_answer timeoutMs (url # urls) attempts end_time r"
        using Cons.prems(1) run by (auto simp: sweep_answer_def this_def split: sum.splits if_splits)
      with now lim show ?thesis by (auto simp: this_def)
    qed
  qed
qed

text \<open>
  C20: a call asks a prefix of its endpoints, at least one, and only one for a submission. It ends within
  its budget, whatever the number of endpoints, and no attempt but the one at the last endpoint may
  take more than the ceiling. Every attempt but the last failed in transport; the caller gets the value or the definitive
  error of the last one, or its transport error, then with no endpoint or no time left.
\<close>

theorem failover_sweep:
  assumes "punctual slack net" and "0 \<le> slack" and "rpcUrls \<noteq> []"
    and "executeWithFailover parseJSON net rpcUrls method timeoutMs = (r, attempts, end_time)"
  shows "attempts \<noteq> [] \<and> map a_url attempts = take (length attempts) rpcUrls
    \<and> (to_lower method \<in> NON_FAILOVER_METHODS \<longrightarrow> length attempts = 1)
    \<and> end_time \<le> max 0 timeoutMs + slack
    \<and> list_all (\<lambda>a. a_timeout a \<le> timeoutMs \<and> (length attempts < length rpcUrls \<longrightarrow> to_lower method \<notin> NON_FAILOVER_METHODS
        \<longrightarrow> a_timeout a \<le> MAX_ATTEMPT_TIMEOUT_MS)) attempts
    \<and> list_all retryable (butlast attempts)
    \<and> sweep_answer timeoutMs (if to_lower method \<in> NON_FAILOVER_METHODS then [hd rpcUrls] else rpcUrls) attempts end_time r"
proof -
  let ?endpoints = "if to_lower method \<in> NON_FAILOVER_METHODS then [hd rpcUrls] else rpcUrls"
  have ends: "(if 1 < length rpcUrls \<and> to_lower method \<notin> NON_FAILOVER_METHODS then rpcUrls else take 1 rpcUrls) = ?endpoints"
    using assms(3) by (cases rpcUrls) (auto simp: Suc_lessI)
  have "sweep_loop parseJSON net method timeoutMs (length ?endpoints) 0 0 None ?endpoints = (r, attempts, end_time)"
    using assms(4) unfolding executeWithFailover_def Let_def ends .
  from sweep_loop_shape [OF assms(1) this] assms(2) have
    s: "map a_url attempts = take (length attempts) ?endpoints" "end_time \<le> max 0 timeoutMs + slack" "list_all retryable (butlast attempts)"
      "list_all (\<lambda>a. a_timeout a \<le> timeoutMs \<and> (length attempts < length ?endpoints \<longrightarrow> a_timeout a \<le> MAX_ATTEMPT_TIMEOUT_MS)) attempts"
      "attempts \<noteq> []" "sweep_answer timeoutMs ?endpoints attempts end_time r"
    using assms(3) by (auto split: if_splits)
  show ?thesis
  proof (cases "to_lower method \<in> NON_FAILOVER_METHODS")
    case True
    with s(1,5) have "length attempts = 1" by (cases attempts; cases "tl attempts") auto
    with True s assms(3) show ?thesis by (cases rpcUrls) (auto simp: list_all_iff)
  next
    case False
    with s show ?thesis by (auto simp: list_all_iff)
  qed
qed

lemma failover_sweep_witness:
  "to_lower ''getblockcount'' \<notin> NON_FAILOVER_METHODS
    \<and> list_all retryable (butlast
        [\<lparr>a_url = ''https://a'', a_timeout = 8000, a_outcome = Inl (plain_error ''fetch failed'')\<rparr>,
         \<lparr>a_url = ''https://b'', a_timeout = 14995, a_outcome = Inr (JNum (NInt 7))\<rparr>])
    \<and> (10 :: int) \<le> max 0 15000 + 5"
proof -
  define net where "net = (\<lambda>n (url :: string) (limit :: int). \<lparr>x_elapsed = 5, x_aborted = False,
    x_fetch = (if n = (0 :: nat) then Inl (plain_error ''fetch failed'')
      else Inr \<lparr>r_status = 200, r_content_length = None, r_body = None, r_json = Inr (JObj [(''result'', JNum (NInt 7))])\<rparr>)\<rparr>)"
  let ?as = "[\<lparr>a_url = ''https://a'', a_timeout = 8000, a_outcome = Inl (plain_error ''fetch failed'')\<rparr>,
         \<lparr>a_url = ''https://b'', a_timeout = 14995, a_outcome = Inr (JNum (NInt 7))\<rparr>]"
  have p: "punctual 5 net" by (simp add: punctual_def net_def)
  have m: "to_lower ''getblockcount'' \<notin> NON_FAILOVER_METHODS"
    by (simp add: NON_FAILOVER_METHODS_def to_lower_def lower_char_def cc_def)
  have a: "\<not> answers_for_all (plain_error ''fetch failed'')"
    by (simp add: answers_for_all_def isDefinitiveRpcRejection_def isUnsupportedRpcMethodError_def unsupported_text_def plain_error_def
      to_lower_def lower_char_def cc_def starts_with_def)
  have q0: "executeQuery (\<lambda>_. None) (net 0 url l) mtd l = Inl (plain_error ''fetch failed'')" for url l mtd
    by (simp add: executeQuery_def net_def)
  have q1: "executeQuery (\<lambda>_. None) (net (Suc 0) url l) mtd l = Inr (JNum (NInt 7))" for url l mtd
    by (simp add: executeQuery_def net_def readBoundedJson_def payload_result_def MAX_RPC_RESPONSE_BYTES_def maxSafeInteger_def)
  have el: "x_elapsed (net n url l) = 5" for n url l by (simp add: net_def)
  have e: "executeWithFailover (\<lambda>_. None) net [''https://a'', ''https://b''] ''getblockcount'' 15000 = (Inr (JNum (NInt 7)), ?as, 10)"
    using m a by (simp add: executeWithFailover_def q0 q1 el MAX_ATTEMPT_TIMEOUT_MS_def)
  from failover_sweep [OF p _ _ e] m show ?thesis by simp
qed

end
