(* ===== verification/NeoxRpc.thy ===== *)
theory NeoxRpc
  imports RpcFailover
begin

text \<open>
  The read path to Neo X: src/chains/chain-id.ts (chains, networks and backends), src/contracts/evm-rpc-client.ts
  (the JSON-RPC client with its allowlist and its failover) and src/chains/neox-node-adapter.ts (the narrower
  allowlist of the tools). The network is a parameter, as in RpcFailover; every request that is sent is
  part of the result.

  The main result is \<open>neox_reads_only\<close>: nothing but read-only calls is ever sent.
\<close>

section \<open>Chains and networks\<close>

definition CHAIN_IDS :: "string list" where "CHAIN_IDS = [''n3'', ''neox'']"

definition CHAIN_BACKENDS :: "string list" where "CHAIN_BACKENDS = [''node'', ''explorer'', ''wallet'']"

definition CHAIN_DISPLAY_NAMES :: "(string \<times> string) list" where
  "CHAIN_DISPLAY_NAMES = [(''n3'', ''Neo N3''), (''neox'', ''Neo X'')]"

definition CHAIN_BACKEND_SUPPORT :: "(string \<times> string list) list" where
  "CHAIN_BACKEND_SUPPORT = [(''n3'', [''node'', ''explorer'', ''wallet'']), (''neox'', [''node'', ''explorer''])]"

definition isChainId :: "jsval \<Rightarrow> bool" where
  "isChainId v = (case v of JStr s \<Rightarrow> s \<in> set CHAIN_IDS | _ \<Rightarrow> False)"

definition chainDisplayName :: "string \<Rightarrow> string" where
  "chainDisplayName chain = (case map_of CHAIN_DISPLAY_NAMES chain of Some n \<Rightarrow> n | None \<Rightarrow> chain)"

definition assertChainId :: "jsval \<Rightarrow> string result" where
  "assertChainId v =
     (case v of JStr s \<Rightarrow> if s \<in> set CHAIN_IDS then Inr s else invalid ''Invalid chain: '' | _ \<Rightarrow> invalid ''Invalid chain: '')"

definition normalizeNetworkInput :: "jsval \<Rightarrow> string option" where
  "normalizeNetworkInput network =
     (if nullish network then None
      else let trimmed = to_lower (trim (js_String network)) in if trimmed = [] then None else Some trimmed)"

definition resolveN3Network :: "jsval \<Rightarrow> string result" where
  "resolveN3Network network =
     (case normalizeNetworkInput network of
        None \<Rightarrow> Inr ''mainnet''
      | Some n \<Rightarrow> if n = ''mainnet'' then Inr ''mainnet'' else if n = ''testnet'' then Inr ''testnet''
                  else invalid ''Invalid Neo N3 network: '')"

definition resolveNeoxNetwork :: "jsval \<Rightarrow> string result" where
  "resolveNeoxNetwork network =
     (case normalizeNetworkInput network of
        None \<Rightarrow> Inr ''neox-mainnet''
      | Some n \<Rightarrow>
          if n = ''mainnet'' \<or> n = ''neox-mainnet'' then Inr ''neox-mainnet''
          else if n = ''testnet'' \<or> n = ''neox-testnet'' then Inr ''neox-testnet''
          else invalid ''Invalid Neo X network: '')"

definition resolveChainNetwork :: "jsval \<Rightarrow> jsval \<Rightarrow> string result" where
  "resolveChainNetwork chain network =
     bindR (assertChainId chain) (\<lambda>c. if c = ''n3'' then resolveN3Network network else resolveNeoxNetwork network)"

definition supportsBackend :: "jsval \<Rightarrow> string \<Rightarrow> bool" where
  "supportsBackend chain backend =
     (case chain of
        JStr c \<Rightarrow> (case map_of CHAIN_BACKEND_SUPPORT c of Some bs \<Rightarrow> backend \<in> set bs | None \<Rightarrow> False)
      | _ \<Rightarrow> False)"

definition assertChainSupportsBackend :: "jsval \<Rightarrow> string \<Rightarrow> unit result" where
  "assertChainSupportsBackend chain backend =
     bindR (assertChainId chain) (\<lambda>c.
     if supportsBackend (JStr c) backend then Inr ()
     else invalid (chainDisplayName c @ '' does not support the '' @ backend @ '' backend. ''))"

lemma resolve_networks:
  "resolveN3Network v = Inr n \<Longrightarrow> n \<in> {''mainnet'', ''testnet''}" "resolveNeoxNetwork v = Inr n \<Longrightarrow> n \<in> {''neox-mainnet'', ''neox-testnet''}"
  by (auto simp: resolveN3Network_def resolveNeoxNetwork_def split: option.splits if_splits)

text \<open>The networks of the two chains have no name in common, so a pair of chain and network names one of four backends.\<close>

lemma chain_networks_disjoint:
  "resolveChainNetwork (JStr ''n3'') v = Inr n \<Longrightarrow> resolveChainNetwork (JStr ''neox'') w \<noteq> Inr n"
  using resolve_networks(1) [of v n] resolve_networks(2) [of w n]
  by (auto simp: resolveChainNetwork_def assertChainId_def CHAIN_IDS_def)

lemma no_wallet_on_neox: "\<not> supportsBackend (JStr ''neox'') ''wallet''"
  by (simp add: supportsBackend_def CHAIN_BACKEND_SUPPORT_def)

section \<open>The EVM client\<close>

definition MAX_EVM_RPC_RESPONSE_BYTES :: nat where "MAX_EVM_RPC_RESPONSE_BYTES = 4 * 1024 * 1024"

definition DEFAULT_EVM_RPC_TIMEOUT_MS :: int where "DEFAULT_EVM_RPC_TIMEOUT_MS = 12000"

definition EVM_READ_ONLY_METHODS :: "string list" where
  "EVM_READ_ONLY_METHODS =
    [''eth_chainId'', ''eth_gasPrice'', ''eth_estimateGas'', ''eth_call'', ''eth_getTransactionCount'', ''eth_getBalance'',
     ''eth_blockNumber'', ''net_version'', ''eth_getBlockByNumber'', ''eth_getBlockByHash'',
     ''eth_getBlockTransactionCountByNumber'', ''eth_getBlockTransactionCountByHash'', ''eth_getTransactionByHash'',
     ''eth_getTransactionByBlockNumberAndIndex'', ''eth_getTransactionByBlockHashAndIndex'', ''eth_getTransactionReceipt'',
     ''eth_getCode'', ''eth_getLogs'', ''eth_maxPriorityFeePerGas'', ''eth_feeHistory'', ''eth_syncing'']"

definition EVM_FORBIDDEN_METHODS :: "string list" where
  "EVM_FORBIDDEN_METHODS =
    [''eth_sendRawTransaction'', ''eth_sendTransaction'', ''eth_signTransaction'', ''eth_sign'', ''personal_sign'',
     ''personal_sendTransaction'']"

definition NEOX_NODE_READ_METHODS :: "string list" where
  "NEOX_NODE_READ_METHODS =
    [''eth_chainId'', ''eth_blockNumber'', ''eth_getBlockByNumber'', ''eth_getBlockByHash'',
     ''eth_getBlockTransactionCountByNumber'', ''eth_getBlockTransactionCountByHash'', ''eth_getTransactionByHash'',
     ''eth_getTransactionByBlockNumberAndIndex'', ''eth_getTransactionByBlockHashAndIndex'', ''eth_getTransactionReceipt'',
     ''eth_getTransactionCount'', ''eth_getBalance'', ''eth_getCode'', ''eth_getLogs'', ''eth_call'', ''eth_estimateGas'',
     ''eth_gasPrice'', ''eth_maxPriorityFeePerGas'', ''eth_feeHistory'', ''eth_syncing'', ''net_version'']"

record neox_config =
  testnetEnabled :: bool
  mainnetRpcUrls :: jsval
  testnetRpcUrls :: jsval
  mainnetChainId :: int
  testnetChainId :: int

text \<open>\<open>String(network || '')\<close>.\<close>

definition or_empty :: "jsval \<Rightarrow> string" where
  "or_empty v = (if truthy v then js_String v else [])"

definition resolveNeoxEvmNetwork :: "jsval \<Rightarrow> string result" where
  "resolveNeoxEvmNetwork network =
     (let normalized = to_lower (trim (or_empty network)) in
      if normalized = ''neox-mainnet'' \<or> normalized = ''mainnet'' then Inr ''neox-mainnet''
      else if normalized = ''neox-testnet'' \<or> normalized = ''testnet'' then Inr ''neox-testnet''
      else invalid ''Invalid Neo X network: '')"

definition neoxChainId :: "neox_config \<Rightarrow> string \<Rightarrow> int" where
  "neoxChainId cfg network = (if network = ''neox-testnet'' then testnetChainId cfg else mainnetChainId cfg)"

definition strip_slashes :: "string \<Rightarrow> string" where
  "strip_slashes s = rev (dropWhile (\<lambda>c. c = CHR ''/'') (rev s))"

definition configured_bases :: "neox_config \<Rightarrow> string \<Rightarrow> string list" where
  "configured_bases cfg network =
     (let candidates = (if network = ''neox-testnet'' then testnetRpcUrls cfg else mainnetRpcUrls cfg);
          given = (case candidates of JArr vs \<Rightarrow> vs | _ \<Rightarrow> []) in
      unique_from [] (filter (\<lambda>s. s \<noteq> []) (map (\<lambda>v. strip_slashes (or_empty v)) given)))"

definition check_base :: "(string \<Rightarrow> url_parts option) \<Rightarrow> string \<Rightarrow> unit result" where
  "check_base parseURL base =
     (case parseURL base of
        None \<Rightarrow> Inl (TypeError ''Invalid URL'')
      | Some u \<Rightarrow>
          if u_protocol u \<notin> {''http:'', ''https:''} \<or> u_username u \<noteq> [] \<or> u_password u \<noteq> []
          then invalid ''Neo X RPC URL must be an HTTP/HTTPS URL without embedded credentials'' else Inr ())"

definition resolveRpcUrls :: "(string \<Rightarrow> url_parts option) \<Rightarrow> neox_config \<Rightarrow> string \<Rightarrow> string list result" where
  "resolveRpcUrls parseURL cfg network =
     (if network = ''neox-testnet'' \<and> \<not> testnetEnabled cfg
      then invalid ''Neo X testnet access is disabled (set NEOX_TESTNET_ENABLED=true to enable).''
      else let unique = configured_bases cfg network in
        if unique = [] then invalid ''No Neo X RPC URL configured for ''
        else bindR (mapR (check_base parseURL) unique) (\<lambda>_. Inr unique))"

definition assertReadOnlyEvmMethod :: "jsval \<Rightarrow> string result" where
  "assertReadOnlyEvmMethod v =
     (case v of
        JStr m \<Rightarrow>
          if m = [] then invalid ''EVM RPC method must be a non-empty string''
          else if m \<in> set EVM_FORBIDDEN_METHODS then invalid (''EVM RPC method '' @ [CHR 0x22])
          else if m \<notin> set EVM_READ_ONLY_METHODS then invalid (''EVM RPC method '' @ [CHR 0x22])
          else Inr m
      | _ \<Rightarrow> invalid ''EVM RPC method must be a non-empty string'')"

text \<open>
  A failure of a call: \<open>Refused\<close> is thrown before anything is sent, \<open>NetworkFailure\<close> is a
  \<open>NetworkError\<close> with its mark \<open>evmRetryable\<close>.
\<close>

datatype evm_failure = Refused js_error | NetworkFailure bool string

text \<open>One exchange: what \<open>fetch\<close> gave, and whether the request's or the caller's signal was aborted by then.\<close>

record evm_exchange =
  ex_fetch :: "rpc_failure + response"
  ex_aborted :: bool
  ex_caller_aborted :: bool

record evm_post =
  e_url :: string
  e_method :: string
  e_params :: "jsval list"

definition envelope_result :: "string \<Rightarrow> jsval \<Rightarrow> evm_failure + jsval" where
  "envelope_result method envelope =
     (let error = member envelope ''error'' in
      if truthy envelope \<and> truthy error
      then let code = member error ''code''; message = member error ''message'' in
        Inl (NetworkFailure False (''Neo X RPC '' @ method @ '' error: ''
          @ (if nullish message then ''unknown error'' else js_String message)
          @ (if code \<noteq> JUndef then '' (code '' @ js_String code @ '')'' else [])))
      else Inr (member envelope ''result''))"

definition transport_failure :: "string \<Rightarrow> evm_exchange \<Rightarrow> rpc_failure \<Rightarrow> evm_failure" where
  "transport_failure method x e =
     (if ex_aborted x \<or> f_name e = ''AbortError''
      then NetworkFailure (\<not> ex_caller_aborted x)
        (''Neo X RPC '' @ method @ '' timed out after '' @ int_str DEFAULT_EVM_RPC_TIMEOUT_MS @ ''ms'')
      else NetworkFailure True (f_message e))"

definition postEvmRpc :: "(nat list \<Rightarrow> jsval option) \<Rightarrow> string \<Rightarrow> evm_exchange \<Rightarrow> evm_failure + jsval" where
  "postEvmRpc parseJSON method x =
     (case ex_fetch x of
        Inl e \<Rightarrow> Inl (transport_failure method x e)
      | Inr response \<Rightarrow>
          if r_status response < 200 \<or> 299 < r_status response
          then Inl (NetworkFailure True (''Neo X RPC '' @ method @ '' failed ('' @ dec_str (r_status response) @ '')''))
          else (case readBoundedJson parseJSON response MAX_EVM_RPC_RESPONSE_BYTES ''Neo X RPC'' of
                  Inl e \<Rightarrow> Inl (transport_failure method x e)
                | Inr envelope \<Rightarrow> envelope_result method envelope))"

fun isRetryableEvmTransportError :: "evm_failure \<Rightarrow> bool" where
  "isRetryableEvmTransportError (NetworkFailure mark _) = mark"
| "isRetryableEvmTransportError (Refused _) = False"

fun evm_loop ::
    "(nat list \<Rightarrow> jsval option) \<Rightarrow> (nat \<Rightarrow> evm_post \<Rightarrow> evm_exchange) \<Rightarrow> string \<Rightarrow> jsval list \<Rightarrow> nat \<Rightarrow>
     evm_failure option \<Rightarrow> string list \<Rightarrow> (evm_failure option + jsval) \<times> evm_post list" where
  "evm_loop parseJSON net method params n lastError [] = (Inl lastError, [])"
| "evm_loop parseJSON net method params n lastError (url # urls) =
     (let post = \<lparr>e_url = url, e_method = method, e_params = params\<rparr>; x = net n post in
      case postEvmRpc parseJSON method x of
        Inr v \<Rightarrow> (Inr v, [post])
      | Inl e \<Rightarrow>
          if \<not> isRetryableEvmTransportError e \<or> ex_caller_aborted x then (Inl (Some e), [post])
          else (case evm_loop parseJSON net method params (Suc n) (Some e) urls of (r, posts) \<Rightarrow> (r, post # posts)))"

definition callEvmRpc ::
    "(string \<Rightarrow> url_parts option) \<Rightarrow> (nat list \<Rightarrow> jsval option) \<Rightarrow> neox_config \<Rightarrow> (nat \<Rightarrow> evm_post \<Rightarrow> evm_exchange) \<Rightarrow>
     string \<Rightarrow> jsval \<Rightarrow> jsval \<Rightarrow> (evm_failure option + jsval) \<times> evm_post list" where
  "callEvmRpc parseURL parseJSON cfg net network method params =
     (case assertReadOnlyEvmMethod method of
        Inl e \<Rightarrow> (Inl (Some (Refused e)), [])
      | Inr m \<Rightarrow>
          (case params of
             JArr ps \<Rightarrow>
               (case resolveRpcUrls parseURL cfg network of
                  Inl e \<Rightarrow> (Inl (Some (Refused e)), [])
                | Inr urls \<Rightarrow> evm_loop parseJSON net m ps 0 None urls)
           | _ \<Rightarrow> (Inl (Some (Refused (ValidationError ''EVM RPC params must be an array''))), [])))"

section \<open>The adapter of the tools\<close>

definition assertNeoxNodeReadMethod :: "jsval \<Rightarrow> unit result" where
  "assertNeoxNodeReadMethod v =
     (case v of
        JStr m \<Rightarrow>
          if m \<notin> set NEOX_NODE_READ_METHODS then invalid ''Neo X node method not permitted: ''
          else if m \<notin> set EVM_READ_ONLY_METHODS then invalid ''Neo X node method not read-only: ''
          else Inr ()
      | _ \<Rightarrow> invalid ''Neo X node method not permitted: '')"

definition neoxNodeCall ::
    "(string \<Rightarrow> url_parts option) \<Rightarrow> (nat list \<Rightarrow> jsval option) \<Rightarrow> neox_config \<Rightarrow> (nat \<Rightarrow> evm_post \<Rightarrow> evm_exchange) \<Rightarrow>
     jsval \<Rightarrow> jsval \<Rightarrow> jsval \<Rightarrow> (evm_failure option + jsval) \<times> evm_post list" where
  "neoxNodeCall parseURL parseJSON cfg net network method params =
     (case assertNeoxNodeReadMethod method of
        Inl e \<Rightarrow> (Inl (Some (Refused e)), [])
      | Inr _ \<Rightarrow>
          (case resolveNeoxNetwork network of
             Inl e \<Rightarrow> (Inl (Some (Refused e)), [])
           | Inr evmNetwork \<Rightarrow> callEvmRpc parseURL parseJSON cfg net evmNetwork method params))"

section \<open>What is sent\<close>

lemma allowlists: "set NEOX_NODE_READ_METHODS \<subseteq> set EVM_READ_ONLY_METHODS" "set EVM_READ_ONLY_METHODS \<inter> set EVM_FORBIDDEN_METHODS = {}"
  by code_simp+

lemma evm_loop_posts:
  "evm_loop parseJSON net method params n lastError urls = (r, posts) \<Longrightarrow>
    posts = map (\<lambda>u. \<lparr>e_url = u, e_method = method, e_params = params\<rparr>) (take (length posts) urls)"
proof (induction urls arbitrary: n lastError r posts)
  case (Cons u urls)
  then show ?case by (auto simp: Let_def split: sum.splits if_splits prod.splits)
qed simp

lemma resolveRpcUrls_Inr:
  assumes "resolveRpcUrls parseURL cfg network = Inr urls"
  shows "urls = configured_bases cfg network \<and> urls \<noteq> [] \<and> distinct urls \<and> (network = ''neox-testnet'' \<longrightarrow> testnetEnabled cfg)
    \<and> list_all (\<lambda>u. check_base parseURL u = Inr ()) urls"
proof -
  from assms have u: "urls = configured_bases cfg network" "urls \<noteq> []" "network = ''neox-testnet'' \<longrightarrow> testnetEnabled cfg"
    and ok: "\<exists>xs. mapR (check_base parseURL) urls = Inr xs"
    by (auto simp: resolveRpcUrls_def Let_def result_simps split: if_splits)
  from ok have "list_all (\<lambda>u. check_base parseURL u = Inr ()) urls"
    by (auto simp: mapR_Inr_iff list_all2_conv_all_nth list_all_length)
  moreover have "distinct urls" using u(1) unique_from by (simp add: configured_bases_def Let_def)
  ultimately show ?thesis using u by blast
qed

text \<open>What an adapter call sends: one method and its parameters, to a prefix of the endpoints of the network.\<close>

lemma neox_call_shape:
  assumes "neoxNodeCall parseURL parseJSON cfg net network method params = (r, posts)" "posts \<noteq> []"
  obtains m ps n urls k where "method = JStr m" "params = JArr ps" "m \<in> set NEOX_NODE_READ_METHODS" "m \<in> set EVM_READ_ONLY_METHODS"
    "resolveNeoxNetwork network = Inr n" "resolveRpcUrls parseURL cfg n = Inr urls"
    "posts = map (\<lambda>u. \<lparr>e_url = u, e_method = m, e_params = ps\<rparr>) (take k urls)"
proof -
  from assms obtain m where m: "method = JStr m" "m \<in> set NEOX_NODE_READ_METHODS" "m \<in> set EVM_READ_ONLY_METHODS"
    and a: "assertNeoxNodeReadMethod method = Inr ()"
    by (auto simp: neoxNodeCall_def assertNeoxNodeReadMethod_def split: sum.splits jsval.splits if_splits)
  from assms a obtain n where n: "resolveNeoxNetwork network = Inr n" "callEvmRpc parseURL parseJSON cfg net n method params = (r, posts)"
    by (auto simp: neoxNodeCall_def split: sum.splits)
  have "assertReadOnlyEvmMethod method = Inr m"
    using n(2) m(1) assms(2) by (auto simp: callEvmRpc_def assertReadOnlyEvmMethod_def split: sum.splits if_splits)
  with n(2) assms(2) obtain ps urls where urls: "resolveRpcUrls parseURL cfg n = Inr urls" "params = JArr ps"
    and loop: "evm_loop parseJSON net m ps 0 None urls = (r, posts)"
    by (auto simp: callEvmRpc_def split: sum.splits jsval.splits)
  from that [OF m(1) urls(2) m(2,3) n(1) urls(1) evm_loop_posts [OF loop]] show thesis .
qed

text \<open>
  Whatever a tool asks for, every request that is sent carries one read-only method of the adapter's list and goes
  once to a checked endpoint configured for the network that was named; the testnet only when it is enabled.
\<close>

lemma neox_reads_only:
  assumes "neoxNodeCall parseURL parseJSON cfg net network method params = (r, posts)" and "post \<in> set posts"
  shows "JStr (e_method post) = method \<and> e_method post \<in> set NEOX_NODE_READ_METHODS
    \<and> e_method post \<in> set EVM_READ_ONLY_METHODS \<and> e_method post \<notin> set EVM_FORBIDDEN_METHODS
    \<and> distinct (map e_url posts)
    \<and> (\<exists>n. resolveNeoxNetwork network = Inr n \<and> e_url post \<in> set (configured_bases cfg n) \<and> (n = ''neox-testnet'' \<longrightarrow> testnetEnabled cfg))
    \<and> (\<exists>u. parseURL (e_url post) = Some u \<and> u_protocol u \<in> {''http:'', ''https:''} \<and> u_username u = [] \<and> u_password u = [])"
proof -
  from assms(2) have "posts \<noteq> []" by auto
  then obtain m ps n urls k where m: "method = JStr m" "m \<in> set NEOX_NODE_READ_METHODS" "m \<in> set EVM_READ_ONLY_METHODS"
    and n: "resolveNeoxNetwork network = Inr n" and urls: "resolveRpcUrls parseURL cfg n = Inr urls"
    and k: "posts = map (\<lambda>u. \<lparr>e_url = u, e_method = m, e_params = ps\<rparr>) (take k urls)"
    using neox_call_shape [OF assms(1)] by metis
  have "map e_url posts = take k urls" unfolding k by (simp add: comp_def)
  moreover from assms(2) have p: "e_method post = m \<and> e_url post \<in> set urls" unfolding k by (auto dest: in_set_takeD)
  moreover from resolveRpcUrls_Inr [OF urls] have u: "urls = configured_bases cfg n" "distinct urls" "n = ''neox-testnet'' \<longrightarrow> testnetEnabled cfg"
    "list_all (\<lambda>u. check_base parseURL u = Inr ()) urls" by blast+
  moreover from u(4) p have "check_base parseURL (e_url post) = Inr ()" by (simp add: list_all_iff)
  then have "\<exists>u. parseURL (e_url post) = Some u \<and> u_protocol u \<in> {''http:'', ''https:''} \<and> u_username u = [] \<and> u_password u = []"
    by (auto simp: check_base_def split: option.splits if_splits)
  ultimately show ?thesis using m n allowlists(2) by (auto simp: distinct_take)
qed

lemma neox_reads_only_witness:
  "\<exists>post \<in> set [\<lparr>e_url = ''https://n'', e_method = ''eth_blockNumber'', e_params = []\<rparr>].
     e_method post \<in> set EVM_READ_ONLY_METHODS \<and> e_method post \<notin> set EVM_FORBIDDEN_METHODS"
proof -
  define cfg where "cfg = \<lparr>testnetEnabled = False, mainnetRpcUrls = JArr [JStr ''https://n/''], testnetRpcUrls = JArr [],
    mainnetChainId = 47763, testnetChainId = 12227332\<rparr>"
  define parse where "parse = (\<lambda>s :: string. Some \<lparr>u_protocol = ''https:'', u_hostname = ''n'', u_username = [], u_password = []\<rparr>)"
  define net where "net = (\<lambda>(k :: nat) (p :: evm_post). \<lparr>ex_fetch = Inr \<lparr>r_status = 200, r_content_length = None, r_body = None,
    r_json = Inr (JObj [(''result'', JStr ''0x1'')])\<rparr>, ex_aborted = False, ex_caller_aborted = False\<rparr>)"
  have r: "resolveRpcUrls parse cfg ''neox-mainnet'' = Inr [''https://n'']"
    by (simp add: resolveRpcUrls_def configured_bases_def cfg_def parse_def check_base_def or_empty_def strip_slashes_def)
  have a: "assertNeoxNodeReadMethod (JStr ''eth_blockNumber'') = Inr ()" "assertReadOnlyEvmMethod (JStr ''eth_blockNumber'') = Inr ''eth_blockNumber''"
    by code_simp+
  have n: "resolveNeoxNetwork JUndef = Inr ''neox-mainnet''" by code_simp
  have c: "neoxNodeCall parse (\<lambda>_. None) cfg net JUndef (JStr ''eth_blockNumber'') (JArr [])
      = (Inr (JStr ''0x1''), [\<lparr>e_url = ''https://n'', e_method = ''eth_blockNumber'', e_params = []\<rparr>])"
    by (simp add: neoxNodeCall_def a n callEvmRpc_def r net_def postEvmRpc_def readBoundedJson_def envelope_result_def
      MAX_EVM_RPC_RESPONSE_BYTES_def maxSafeInteger_def)
  from neox_reads_only [OF c] show ?thesis by simp
qed

end
