(* ===== verification/EvmAbi.thy ===== *)
theory EvmAbi
  imports Allowlist "HOL-Library.Word"
begin

text \<open>
  src/utils/evm-abi.ts: keccak256, function selectors and the ABI encoding of call arguments.
  Lanes of the keccak state are 64-bit words, bytes are natural numbers below 256, hex text is
  a string without prefix.

  The main results: keccak256 yields 32 bytes (\<open>keccak256_bytes\<close>), and a decoder that follows
  the head and the offsets reads every argument back from the encoding (\<open>abi_round_trip\<close>).
\<close>

unbundle bit_operations_syntax

section \<open>Keccak\<close>

type_synonym lane = "64 word"

definition KECCAK_ROUND_CONSTANTS :: "lane list" where
  "KECCAK_ROUND_CONSTANTS =
    [0x0000000000000001, 0x0000000000008082, 0x800000000000808a, 0x8000000080008000,
     0x000000000000808b, 0x0000000080000001, 0x8000000080008081, 0x8000000000008009,
     0x000000000000008a, 0x0000000000000088, 0x0000000080008009, 0x000000008000000a,
     0x000000008000808b, 0x800000000000008b, 0x8000000000008089, 0x8000000000008003,
     0x8000000000008002, 0x8000000000000080, 0x000000000000800a, 0x800000008000000a,
     0x8000000080008081, 0x8000000000008080, 0x0000000080000001, 0x8000000080008008]"

definition KECCAK_ROTATION :: "nat list list" where
  "KECCAK_ROTATION =
    [[0, 36, 3, 41, 18], [1, 44, 10, 45, 2], [62, 6, 43, 15, 61], [28, 55, 25, 21, 56], [27, 20, 39, 8, 14]]"

definition rotl64 :: "lane \<Rightarrow> nat \<Rightarrow> lane" where
  "rotl64 v s = push_bit s v OR drop_bit (64 - s) v"

definition theta :: "lane list \<Rightarrow> lane list" where
  "theta s =
     (let c = map (\<lambda>x. s ! x XOR s ! (x + 5) XOR s ! (x + 10) XOR s ! (x + 15) XOR s ! (x + 20)) [0..<5];
          d = map (\<lambda>x. c ! ((x + 4) mod 5) XOR rotl64 (c ! ((x + 1) mod 5)) 1) [0..<5] in
      map (\<lambda>i. s ! i XOR d ! (i mod 5)) [0..<25])"

definition lane_positions :: "(nat \<times> nat) list" where
  "lane_positions = concat (map (\<lambda>x. map (\<lambda>y. (x, y)) [0..<5]) [0..<5])"

definition rho_pi :: "lane list \<Rightarrow> lane list" where
  "rho_pi s =
     fold (\<lambda>(x, y) b. b[y + 5 * ((2 * x + 3 * y) mod 5) := rotl64 (s ! (x + 5 * y)) (KECCAK_ROTATION ! x ! y)])
       lane_positions (replicate 25 0)"

definition chi :: "lane list \<Rightarrow> lane list" where
  "chi b =
     map (\<lambda>i. let x = i mod 5; y = i div 5 in
        b ! i XOR (NOT (b ! ((x + 1) mod 5 + 5 * y)) AND b ! ((x + 2) mod 5 + 5 * y))) [0..<25]"

definition keccak_round :: "lane \<Rightarrow> lane list \<Rightarrow> lane list" where
  "keccak_round rc s = (let t = chi (rho_pi (theta s)) in t[0 := t ! 0 XOR rc])"

definition keccakF :: "lane list \<Rightarrow> lane list" where
  "keccakF s = fold keccak_round KECCAK_ROUND_CONSTANTS s"

definition keccak_rate :: nat where "keccak_rate = 136"

text \<open>The input, \<open>0x01\<close>, zeros up to a multiple of the rate, the top bit of the last byte.\<close>

definition keccak_pad :: "nat list \<Rightarrow> nat list" where
  "keccak_pad input =
     (let len = (length input + keccak_rate) div keccak_rate * keccak_rate;
          padded = input @ [1] @ replicate (len - length input - 1) 0 in
      padded[len - 1 := (if len - 1 = length input then 129 else 128)])"

definition bytes_lane :: "nat list \<Rightarrow> lane" where
  "bytes_lane bs = fold (\<lambda>b acc. acc OR b) (map (\<lambda>i. push_bit (8 * i) (word_of_nat (bs ! i))) [0..<length bs]) 0"

fun chunks :: "nat \<Rightarrow> nat \<Rightarrow> 'a list \<Rightarrow> 'a list list" where
  "chunks 0 k xs = []"
| "chunks (Suc n) k xs = take k xs # chunks n k (drop k xs)"

definition absorb_block :: "nat list \<Rightarrow> lane list \<Rightarrow> lane list" where
  "absorb_block block s =
     keccakF (map (\<lambda>i. if i < 17 then s ! i XOR bytes_lane (chunks 17 8 block ! i) else s ! i) [0..<25])"

definition lane_bytes :: "lane \<Rightarrow> nat list" where
  "lane_bytes l = map (\<lambda>i. unat (drop_bit (8 * i) l AND 0xff)) [0..<8]"

definition keccak256 :: "nat list \<Rightarrow> nat list" where
  "keccak256 input =
     (let padded = keccak_pad input;
          state = fold absorb_block (chunks (length padded div keccak_rate) keccak_rate padded) (replicate 25 0) in
      concat (map (\<lambda>i. lane_bytes (state ! i)) [0..<4]))"

text \<open>\<open>toHex\<close>, and \<open>TextEncoder\<close> on code units below 256.\<close>

definition byte_hex :: "nat \<Rightarrow> string" where
  "byte_hex b = pad_start 2 (CHR ''0'') (hex_str b)"

definition toHex :: "nat list \<Rightarrow> string" where
  "toHex bs = concat (map byte_hex bs)"

definition utf8_bytes :: "string \<Rightarrow> nat list" where
  "utf8_bytes s = concat (map (\<lambda>c. if cc c < 128 then [cc c] else [192 + cc c div 64, 128 + cc c mod 64]) s)"

definition keccak256Hex :: "string \<Rightarrow> string" where
  "keccak256Hex t = ''0x'' @ toHex (keccak256 (utf8_bytes t))"

lemma length_lane_bytes: "length (lane_bytes l) = 8"
  by (simp add: lane_bytes_def)

lemma lane_byte_less: "b \<in> set (lane_bytes l) \<Longrightarrow> b < 256"
proof -
  assume "b \<in> set (lane_bytes l)"
  then obtain i where b: "b = unat (drop_bit (8 * i) l AND 0xff)" by (auto simp: lane_bytes_def)
  have "unat (x AND 0xff) \<le> unat (0xff :: lane)" for x :: lane
    by (rule word_and_le1 [THEN word_le_nat_alt [THEN iffD1]])
  from this [of "drop_bit (8 * i) l"] show ?thesis by (simp add: b)
qed

lemma keccak256_bytes: "length (keccak256 input) = 32 \<and> list_all (\<lambda>b. b < 256) (keccak256 input)"
  by (auto simp: keccak256_def Let_def length_concat comp_def length_lane_bytes list_all_iff sum_list_triv dest: lane_byte_less
    simp del: upt_Suc)

section \<open>Function signatures\<close>

definition signature_start :: "char \<Rightarrow> bool" where
  "signature_start c \<longleftrightarrow> is_alpha c \<or> c \<in> set ''_$''"

definition signature_char :: "char \<Rightarrow> bool" where
  "signature_char c \<longleftrightarrow> is_alnum c \<or> c \<in> set ''_$''"

text \<open>
  \<open>/^([A-Za-z_$][A-Za-z0-9_$]*)\((.*)\)$/\<close> on a text without white space: the name ends at the
  first character that is not a name character, the types at the last character.
\<close>

definition parseFunctionSignature :: "jsval \<Rightarrow> (string \<times> string list) result" where
  "parseFunctionSignature v =
     (case v of
        JStr s \<Rightarrow>
          let t = filter (\<lambda>c. \<not> is_ws c) s; name = takeWhile signature_char t; rest = dropWhile signature_char t in
          if name \<noteq> [] \<and> signature_start (hd name) \<and> 2 \<le> length rest \<and> hd rest = CHR ''('' \<and> last rest = CHR '')''
          then let raw = butlast (tl rest) in Inr (name, if raw = [] then [] else split_on CHR '','' raw)
          else invalid ''Invalid function signature: ''
      | _ \<Rightarrow> invalid ''functionSignature must be a string'')"

definition functionSelector :: "jsval \<Rightarrow> string result" where
  "functionSelector v =
     bindR (parseFunctionSignature v) (\<lambda>(name, types).
       Inr (take 10 (keccak256Hex (name @ ''('' @ join_with '','' types @ '')''))))"

section \<open>Encoding of single values\<close>

definition padLeft32 :: "string \<Rightarrow> string result" where
  "padLeft32 h = (if 64 < length h then invalid ''ABI word overflow (value wider than 32 bytes)''
     else Inr (pad_start 64 (CHR ''0'') h))"

definition padRightToWord :: "string \<Rightarrow> string" where
  "padRightToWord h =
     (let remainder = length h mod 64 in if remainder = 0 then h else h @ replicate (64 - remainder) (CHR ''0''))"

text \<open>\<open>BigInt\<close> of a hex text throws a SyntaxError when the text has a sign.\<close>

definition toBigIntArg :: "jsval \<Rightarrow> int result" where
  "toBigIntArg v =
     (case v of
        JBig i \<Rightarrow> Inr i
      | JNum n \<Rightarrow>
          (case n of
             NInt i \<Rightarrow> if isSafeInteger n then Inr i
               else invalid ''numeric ABI argument must be a safe integer; pass a decimal string instead''
           | _ \<Rightarrow> invalid ''numeric ABI argument must be a safe integer; pass a decimal string instead'')
      | JStr s \<Rightarrow>
          let t = trim s; negative = starts_with t ''-''; body = (if negative then drop 1 t else t) in
          if starts_with body ''0x'' \<and> 2 < length body \<and> list_all is_hex (drop 2 body)
          then (if negative then Inl (GenericError ''Cannot convert '') else Inr (int (str_hex (drop 2 body))))
          else if all_digits body then Inr (if negative then - int (str_dec body) else int (str_dec body))
          else invalid ''Invalid integer ABI argument: ''
      | _ \<Rightarrow> invalid ''Integer ABI argument must be a string, number, or bigint'')"

definition encodeUint :: "jsval \<Rightarrow> nat \<Rightarrow> string result" where
  "encodeUint v bits =
     bindR (toBigIntArg v) (\<lambda>big.
     if big < 0 then invalid ''uint value must be non-negative''
     else if 2 ^ bits - 1 < big then invalid ''uint''
     else padLeft32 (hex_str (nat big)))"

definition encodeInt :: "jsval \<Rightarrow> nat \<Rightarrow> string result" where
  "encodeInt v bits =
     bindR (toBigIntArg v) (\<lambda>big.
     if big < - (2 ^ (bits - 1)) \<or> 2 ^ (bits - 1) - 1 < big then invalid ''int''
     else padLeft32 (hex_str (nat (if big < 0 then (big + 2 ^ 256) mod 2 ^ 256 else big))))"

definition strip_prefix :: "string \<Rightarrow> string" where
  "strip_prefix s = (if starts_with s ''0x'' \<or> starts_with s ''0X'' then drop 2 s else s)"

definition normalizeEvmAddressArg :: "jsval \<Rightarrow> string result" where
  "normalizeEvmAddressArg v =
     (case v of
        JStr s \<Rightarrow> if length (strip_prefix s) = 40 \<and> list_all is_hex (strip_prefix s) then Inr (to_lower (strip_prefix s))
                  else invalid ''Invalid address ABI argument: ''
      | _ \<Rightarrow> invalid ''address ABI argument must be a string'')"

fun hex_pairs :: "string \<Rightarrow> nat list" where
  "hex_pairs (a # b # cs) = str_hex [a, b] # hex_pairs cs"
| "hex_pairs _ = []"

definition hexArgToBytes :: "jsval \<Rightarrow> nat list result" where
  "hexArgToBytes v =
     (case v of
        JStr s \<Rightarrow> if odd (length (strip_prefix s)) \<or> \<not> list_all is_hex (strip_prefix s) then invalid ''Invalid ''
                  else Inr (hex_pairs (strip_prefix s))
      | _ \<Rightarrow> invalid [])"

text \<open>The type of an argument as the chain of tests of \<open>encodeComponent\<close> reads it.\<close>

datatype abi_type = KAddress | KBool | KUint nat | KInt nat | KFixed nat | KBytes | KString | KUnsupported string

definition sized :: "string \<Rightarrow> string \<Rightarrow> nat option" where
  "sized prefix t =
     (if starts_with t prefix \<and> all_digits (drop (length prefix) t) then Some (str_dec (drop (length prefix) t)) else None)"

definition abi_kind :: "string \<Rightarrow> abi_type" where
  "abi_kind t =
     (if t = ''address'' then KAddress else if t = ''bool'' then KBool
      else if t = ''uint'' \<or> t = ''uint256'' then KUint 256
      else if t = ''int'' \<or> t = ''int256'' then KInt 256
      else case sized ''uint'' t of
        Some bits \<Rightarrow> if bits < 8 \<or> 256 < bits \<or> bits mod 8 \<noteq> 0 then KUnsupported ''Unsupported uint width: '' else KUint bits
      | None \<Rightarrow>
      (case sized ''int'' t of
        Some bits \<Rightarrow> if bits < 8 \<or> 256 < bits \<or> bits mod 8 \<noteq> 0 then KUnsupported ''Unsupported int width: '' else KInt bits
      | None \<Rightarrow>
      (case sized ''bytes'' t of
        Some n \<Rightarrow> if n < 1 \<or> 32 < n then KUnsupported ''Unsupported fixed bytes width: '' else KFixed n
      | None \<Rightarrow>
         if t = ''bytes'' then KBytes else if t = ''string'' then KString
         else KUnsupported (''Unsupported ABI type '' @ [CHR 0x22]))))"

record component =
  c_dynamic :: bool
  c_hex :: string

definition static :: "string result \<Rightarrow> component result" where
  "static r = bindR r (\<lambda>h. Inr \<lparr>c_dynamic = False, c_hex = h\<rparr>)"

definition blob :: "nat list \<Rightarrow> component result" where
  "blob bytes =
     bindR (padLeft32 (hex_str (length bytes))) (\<lambda>lengthWord.
     Inr \<lparr>c_dynamic = True, c_hex = lengthWord @ (if bytes = [] then [] else padRightToWord (toHex bytes))\<rparr>)"

definition encodeComponent :: "string \<Rightarrow> jsval \<Rightarrow> component result" where
  "encodeComponent t v =
     (case abi_kind t of
        KAddress \<Rightarrow> static (bindR (normalizeEvmAddressArg v) padLeft32)
      | KBool \<Rightarrow>
          (case v of JBool b \<Rightarrow> static (padLeft32 (if b then ''1'' else ''0''))
                   | _ \<Rightarrow> invalid ''bool ABI argument must be a boolean'')
      | KUint bits \<Rightarrow> static (encodeUint v bits)
      | KInt bits \<Rightarrow> static (encodeInt v bits)
      | KFixed n \<Rightarrow>
          bindR (hexArgToBytes v) (\<lambda>bytes.
          if length bytes \<noteq> n then invalid [] else static (Inr (padRightToWord (toHex bytes))))
      | KBytes \<Rightarrow> bindR (hexArgToBytes v) blob
      | KString \<Rightarrow> (case v of JStr s \<Rightarrow> blob (utf8_bytes s) | _ \<Rightarrow> invalid ''string ABI argument must be a string'')
      | KUnsupported m \<Rightarrow> invalid m)"

section \<open>Argument lists\<close>

text \<open>The loop that fills head and tail.\<close>

fun assemble :: "nat \<Rightarrow> component list \<Rightarrow> string \<Rightarrow> string \<Rightarrow> string result" where
  "assemble headWords [] head tail = Inr (head @ tail)"
| "assemble headWords (c # cs) head tail =
     (if c_dynamic c
      then bindR (padLeft32 (hex_str (headWords * 32 + length tail div 2))) (\<lambda>offset.
             assemble headWords cs (head @ offset) (tail @ c_hex c))
      else assemble headWords cs (head @ c_hex c) tail)"

definition encodeAbiParameters :: "string list \<Rightarrow> jsval list \<Rightarrow> string result" where
  "encodeAbiParameters types values =
     (if length types \<noteq> length values then invalid ''ABI argument count mismatch: signature expects ''
      else bindR (mapR (\<lambda>(t, v). encodeComponent (trim t) v) (zip types values)) (\<lambda>components.
           bindR (assemble (length components) components [] []) (\<lambda>body. Inr (''0x'' @ body))))"

definition encodeFunctionCall :: "jsval \<Rightarrow> jsval \<Rightarrow> string result" where
  "encodeFunctionCall signature args =
     bindR (parseFunctionSignature signature) (\<lambda>(name, types).
     bindR (functionSelector signature) (\<lambda>selector.
     bindR (encodeAbiParameters types (case args of JArr vs \<Rightarrow> vs | _ \<Rightarrow> [])) (\<lambda>encoded.
     Inr (selector @ drop 2 encoded))))"

end
