(* ===== verification/EvmAbiSpec.thy ===== *)
theory EvmAbiSpec
  imports EvmAbi
begin

text \<open>
  A decoder for ABI encodings, in the shape the ABI specification gives it: a static argument is
  its 32-byte slot in the head, a dynamic argument is the byte string at the offset its slot
  holds. Every encoding of EvmAbi reads back as the arguments it was made of.
\<close>

section \<open>The decoder\<close>

datatype abi_value = Word nat | Blob "nat list"

definition slot :: "nat \<Rightarrow> string \<Rightarrow> string" where
  "slot i body = take 64 (drop (64 * i) body)"

definition read_blob :: "nat \<Rightarrow> string \<Rightarrow> nat list" where
  "read_blob off body =
     (let rest = drop (2 * off) body in hex_pairs (take (2 * str_hex (take 64 rest)) (drop 64 rest)))"

definition dynamic_kind :: "abi_type \<Rightarrow> bool" where
  "dynamic_kind k \<longleftrightarrow> k = KBytes \<or> k = KString"

definition abi_read :: "string \<Rightarrow> nat \<Rightarrow> string \<Rightarrow> abi_value" where
  "abi_read t i body =
     (if dynamic_kind (abi_kind t) then Blob (read_blob (str_hex (slot i body)) body) else Word (str_hex (slot i body)))"

text \<open>What an argument means: a 256-bit word (two's complement for a signed one, left-aligned for fixed bytes) or bytes.\<close>

definition abi_meaning :: "string \<Rightarrow> jsval \<Rightarrow> abi_value option" where
  "abi_meaning t v =
     (case abi_kind t of
        KAddress \<Rightarrow> (case normalizeEvmAddressArg v of Inr h \<Rightarrow> Some (Word (str_hex h)) | Inl e \<Rightarrow> None)
      | KBool \<Rightarrow> (case v of JBool b \<Rightarrow> Some (Word (if b then 1 else 0)) | _ \<Rightarrow> None)
      | KUint bits \<Rightarrow> (case toBigIntArg v of Inr i \<Rightarrow> Some (Word (nat i)) | Inl e \<Rightarrow> None)
      | KInt bits \<Rightarrow> (case toBigIntArg v of Inr i \<Rightarrow> Some (Word (nat (i mod 2 ^ 256))) | Inl e \<Rightarrow> None)
      | KFixed n \<Rightarrow> (case hexArgToBytes v of Inr bs \<Rightarrow> Some (Word (str_hex (toHex bs) * 16 ^ (64 - 2 * n))) | Inl e \<Rightarrow> None)
      | KBytes \<Rightarrow> (case hexArgToBytes v of Inr bs \<Rightarrow> Some (Blob bs) | Inl e \<Rightarrow> None)
      | KString \<Rightarrow> (case v of JStr s \<Rightarrow> Some (Blob (utf8_bytes s)) | _ \<Rightarrow> None)
      | KUnsupported m \<Rightarrow> None)"

section \<open>Bytes as hex text\<close>

lemma byte_hex: "b < 256 \<Longrightarrow> length (byte_hex b) = 2 \<and> str_hex (byte_hex b) = b"
proof -
  assume "b < 256"
  then have "length (hex_str b) \<le> 2" by (intro length_nat_str_le) auto
  then show ?thesis by (simp add: byte_hex_def pad_start_def)
qed

lemma toHex_Cons [simp]: "toHex (b # bs) = byte_hex b @ toHex bs" and toHex_Nil [simp]: "toHex [] = []"
  by (simp_all add: toHex_def)

lemma length_toHex: "list_all (\<lambda>b. b < 256) bs \<Longrightarrow> length (toHex bs) = 2 * length bs"
  by (induction bs) (simp_all add: byte_hex)

lemma hex_pairs_toHex: "list_all (\<lambda>b. b < 256) bs \<Longrightarrow> hex_pairs (toHex bs) = bs"
proof (induction bs)
  case (Cons b bs)
  then have h: "length (byte_hex b) = 2" "str_hex (byte_hex b) = b" by (simp_all add: byte_hex)
  then obtain x y where "byte_hex b = [x, y]" by (metis (no_types) One_nat_def Suc_1 length_0_conv length_Suc_conv)
  with h Cons show ?case by simp
qed simp

lemma hex_pairs_less: "list_all is_hex s \<Longrightarrow> list_all (\<lambda>b. b < 256) (hex_pairs s)"
proof (induction s rule: hex_pairs.induct)
  case (1 a b cs)
  then have "digit_val a < 16" "digit_val b < 16" by (simp_all add: hex_val_less)
  with 1 show ?case by (simp add: str_nat_def)
qed auto

lemma hexArg_less: "hexArgToBytes v = Inr bs \<Longrightarrow> list_all (\<lambda>b. b < 256) bs"
  by (cases v) (auto simp: hexArgToBytes_def hex_pairs_less split: if_splits)

lemma utf8_less: "list_all (\<lambda>b. b < 256) (utf8_bytes s)"
proof -
  have "cc c div 64 < 4" for c using cc_less [of c] by auto
  then show ?thesis by (auto simp: utf8_bytes_def list_all_iff) (metis add.commute nat_add_left_cancel_less numeral_Bit0 trans_less_add2)
qed

section \<open>Components\<close>

lemma padLeft32_Inr: "padLeft32 h = Inr w \<Longrightarrow> length w = 64 \<and> str_hex w = str_hex h"
  by (auto simp: padLeft32_def pad_start_def split: if_splits)

lemma padRight_short:
  "length h \<le> 64 \<Longrightarrow> h \<noteq> [] \<Longrightarrow> padRightToWord h = h @ replicate (64 - length h) (CHR ''0'')"
  by (cases "length h = 64") (auto simp: padRightToWord_def Let_def)

lemma padRight_prefix: "\<exists>z. padRightToWord h = h @ z \<and> 64 dvd length (h @ z)"
proof (cases "length h mod 64 = 0")
  case True
  then show ?thesis by (intro exI [of _ "[]"]) (auto simp: padRightToWord_def Let_def)
next
  case False
  have less: "length h mod 64 < 64" by simp
  have "length h + (64 - length h mod 64) = 64 * (length h div 64 + 1)"
    using less mult_div_mod_eq [of 64 "length h"] unfolding distrib_left by linarith
  then show ?thesis
    using False by (intro exI [of _ "replicate (64 - length h mod 64) (CHR ''0'')"]) (simp add: padRightToWord_def Let_def)
qed

text \<open>What a component holds: a slot with the word, or the length and the bytes.\<close>

definition component_ok :: "component \<Rightarrow> abi_value \<Rightarrow> bool" where
  "component_ok c m \<longleftrightarrow>
     (case m of
        Word w \<Rightarrow> \<not> c_dynamic c \<and> length (c_hex c) = 64 \<and> str_hex (c_hex c) = w
      | Blob bs \<Rightarrow> c_dynamic c \<and> even (length (c_hex c)) \<and> list_all (\<lambda>b. b < 256) bs
          \<and> (\<exists>l z. c_hex c = l @ toHex bs @ z \<and> length l = 64 \<and> str_hex l = length bs))"

lemma static_ok: "static r = Inr c \<Longrightarrow> (\<And>h. r = Inr h \<Longrightarrow> length h = 64 \<and> str_hex h = w) \<Longrightarrow> component_ok c (Word w)"
  by (auto simp: static_def result_simps component_ok_def)

lemma blob_ok: "blob bs = Inr c \<Longrightarrow> list_all (\<lambda>b. b < 256) bs \<Longrightarrow> component_ok c (Blob bs)"
proof -
  assume b: "blob bs = Inr c" "list_all (\<lambda>b. b < 256) bs"
  then obtain l where l: "padLeft32 (hex_str (length bs)) = Inr l"
    and c: "c_dynamic c" "c_hex c = l @ (if bs = [] then [] else padRightToWord (toHex bs))"
    by (auto simp: blob_def result_simps)
  from padLeft32_Inr [OF l] have l64: "length l = 64" "str_hex l = length bs" by simp_all
  obtain z where z: "padRightToWord (toHex bs) = toHex bs @ z" "64 dvd length (toHex bs @ z)" using padRight_prefix by blast
  show ?thesis
  proof (cases "bs = []")
    case True
    then show ?thesis using c l64 by (auto simp: component_ok_def)
  next
    case False
    have "even (length (toHex bs @ z))" using z(2) by (metis dvd_trans even_numeral)
    with False c l64 z b(2) show ?thesis by (auto simp: component_ok_def)
  qed
qed

lemma abi_kind_widths:
  "abi_kind t = KUint b \<Longrightarrow> b \<le> 256" "abi_kind t = KInt b \<Longrightarrow> 0 < b \<and> b \<le> 256"
  "abi_kind t = KFixed n \<Longrightarrow> 0 < n \<and> n \<le> 32"
  by (auto simp: abi_kind_def split: if_splits option.splits)

lemma encodeInt_word:
  assumes "encodeInt v bits = Inr h" and "bits \<le> 256"
  shows "\<exists>i. toBigIntArg v = Inr i \<and> length h = 64 \<and> str_hex h = nat (i mod 2 ^ 256)"
proof -
  from assms(1) obtain i where i: "toBigIntArg v = Inr i" "i \<le> 2 ^ (bits - 1) - 1"
    and h: "padLeft32 (hex_str (nat (if i < 0 then (i + 2 ^ 256) mod 2 ^ 256 else i))) = Inr h"
    by (auto simp: encodeInt_def result_simps split: if_splits)
  have "(2 :: int) ^ (bits - 1) \<le> 2 ^ 256" using assms(2) by (intro power_increasing) auto
  then have "(if i < 0 then (i + 2 ^ 256) mod 2 ^ 256 else i) = i mod 2 ^ 256" using i(2) by (auto intro!: mod_pos_pos_trivial [symmetric])
  with i(1) padLeft32_Inr [OF h] show ?thesis by auto
qed

lemma encodeUint_word:
  "encodeUint v bits = Inr h \<Longrightarrow> \<exists>i. toBigIntArg v = Inr i \<and> length h = 64 \<and> str_hex h = nat i"
  by (auto simp: encodeUint_def result_simps dest!: padLeft32_Inr split: if_splits)

lemma fixed_word:
  assumes "list_all (\<lambda>b. b < 256) bs" and "0 < length bs" and "length bs \<le> 32"
  shows "length (padRightToWord (toHex bs)) = 64
    \<and> str_hex (padRightToWord (toHex bs)) = str_hex (toHex bs) * 16 ^ (64 - 2 * length bs)"
proof -
  have l: "length (toHex bs) = 2 * length bs" using assms(1) by (rule length_toHex)
  then have "toHex bs \<noteq> []" using assms(2) by auto
  then have "padRightToWord (toHex bs) = toHex bs @ replicate (64 - 2 * length bs) (CHR ''0'')"
    using padRight_short [of "toHex bs"] l assms(3) by simp
  with l assms(3) show ?thesis by (simp add: str_nat_zeros_right)
qed

lemma component_meaning:
  assumes "encodeComponent t v = Inr c"
  shows "\<exists>m. abi_meaning t v = Some m \<and> component_ok c m \<and> (c_dynamic c \<longleftrightarrow> dynamic_kind (abi_kind t))"
proof -
  have dyn: "component_ok c (Word w) \<Longrightarrow> \<not> c_dynamic c" "component_ok c (Blob bs) \<Longrightarrow> c_dynamic c" for w bs
    by (simp_all add: component_ok_def)
  show ?thesis
  proof (cases "abi_kind t")
    case KAddress
    with assms obtain h w where "normalizeEvmAddressArg v = Inr h" "padLeft32 h = Inr w" "c = \<lparr>c_dynamic = False, c_hex = w\<rparr>"
      by (auto simp: encodeComponent_def static_def result_simps)
    then show ?thesis using KAddress padLeft32_Inr [of h w] by (simp add: abi_meaning_def component_ok_def dynamic_kind_def)
  next
    case KBool
    with assms obtain b w where "v = JBool b" "padLeft32 (if b then ''1'' else ''0'') = Inr w" "c = \<lparr>c_dynamic = False, c_hex = w\<rparr>"
      by (auto simp: encodeComponent_def static_def result_simps split: jsval.splits)
    then show ?thesis using KBool padLeft32_Inr [of "if b then ''1'' else ''0''" w]
      by (cases b) (simp_all add: abi_meaning_def component_ok_def dynamic_kind_def str_nat_def digit_val_def cc_def)
  next
    case (KUint bits)
    with assms obtain h where "encodeUint v bits = Inr h" "c = \<lparr>c_dynamic = False, c_hex = h\<rparr>"
      by (auto simp: encodeComponent_def static_def result_simps)
    then show ?thesis using KUint encodeUint_word [of v bits h] by (auto simp: abi_meaning_def component_ok_def dynamic_kind_def)
  next
    case (KInt bits)
    with assms obtain h where "encodeInt v bits = Inr h" "c = \<lparr>c_dynamic = False, c_hex = h\<rparr>"
      by (auto simp: encodeComponent_def static_def result_simps)
    then show ?thesis using KInt encodeInt_word [of v bits h] abi_kind_widths(2) [OF KInt]
      by (auto simp: abi_meaning_def component_ok_def dynamic_kind_def)
  next
    case (KFixed n)
    with assms obtain bs where bs: "hexArgToBytes v = Inr bs" "length bs = n" "c = \<lparr>c_dynamic = False, c_hex = padRightToWord (toHex bs)\<rparr>"
      by (auto simp: encodeComponent_def static_def result_simps split: if_splits)
    then show ?thesis using KFixed fixed_word [OF hexArg_less [OF bs(1)]] abi_kind_widths(3) [OF KFixed]
      by (simp add: abi_meaning_def component_ok_def dynamic_kind_def)
  next
    case KBytes
    with assms obtain bs where "hexArgToBytes v = Inr bs" "blob bs = Inr c" by (auto simp: encodeComponent_def result_simps)
    then show ?thesis using KBytes blob_ok [of bs c] hexArg_less [of v bs] dyn(2) by (simp add: abi_meaning_def dynamic_kind_def)
  next
    case KString
    with assms obtain s where "v = JStr s" "blob (utf8_bytes s) = Inr c"
      by (auto simp: encodeComponent_def split: jsval.splits)
    then show ?thesis using KString blob_ok [of "utf8_bytes s" c] utf8_less dyn(2) by (simp add: abi_meaning_def dynamic_kind_def)
  next
    case (KUnsupported m)
    with assms show ?thesis by (simp add: encodeComponent_def)
  qed
qed

section \<open>Head and tail\<close>

definition slot_ok :: "nat \<Rightarrow> string \<Rightarrow> component \<Rightarrow> string \<Rightarrow> bool" where
  "slot_ok hw s c rest \<longleftrightarrow>
     (if c_dynamic c then 64 * hw \<le> 2 * str_hex s \<and> (\<exists>r. drop (2 * str_hex s - 64 * hw) rest = c_hex c @ r) else s = c_hex c)"

definition component_shape :: "component \<Rightarrow> bool" where
  "component_shape c \<longleftrightarrow> (if c_dynamic c then even (length (c_hex c)) else length (c_hex c) = 64)"

lemma component_shape: "component_ok c m \<Longrightarrow> component_shape c"
  by (auto simp: component_ok_def component_shape_def split: abi_value.splits)

lemma slots_Cons:
  assumes "length w = 64" and "slot_ok hw w c rest" and "\<forall>i<length cs. slot_ok hw (take 64 (drop (64 * i) H)) (cs ! i) rest"
  shows "\<forall>i<length (c # cs). slot_ok hw (take 64 (drop (64 * i) (w @ H))) ((c # cs) ! i) rest"
proof (intro allI impI)
  fix i assume "i < length (c # cs)"
  then show "slot_ok hw (take 64 (drop (64 * i) (w @ H))) ((c # cs) ! i) rest"
    using assms by (cases i) simp_all
qed

lemma assemble_slots:
  "assemble hw cs head tail = Inr body \<Longrightarrow> even (length tail) \<Longrightarrow> list_all component_shape cs
    \<Longrightarrow> \<exists>H T. body = head @ H @ tail @ T \<and> length H = 64 * length cs
      \<and> (\<forall>i<length cs. slot_ok hw (take 64 (drop (64 * i) H)) (cs ! i) (tail @ T))"
proof (induction cs arbitrary: head tail)
  case Nil
  then show ?case by auto
next
  case (Cons c cs)
  show ?case
  proof (cases "c_dynamic c")
    case True
    with Cons.prems obtain w where w: "padLeft32 (hex_str (hw * 32 + length tail div 2)) = Inr w"
      and a: "assemble hw cs (head @ w) (tail @ c_hex c) = Inr body" by (auto simp: result_simps)
    from padLeft32_Inr [OF w] have w64: "length w = 64" and o: "str_hex w = hw * 32 + length tail div 2" by simp_all
    from True Cons.prems have "even (length (tail @ c_hex c))" by (simp add: component_shape_def)
    from Cons.IH [OF a this] Cons.prems obtain H T where
      b: "body = (head @ w) @ H @ (tail @ c_hex c) @ T" "length H = 64 * length cs"
      "\<forall>i<length cs. slot_ok hw (take 64 (drop (64 * i) H)) (cs ! i) ((tail @ c_hex c) @ T)" by auto
    from o Cons.prems(2) have off: "2 * str_hex w = 64 * hw + length tail" by simp
    have "slot_ok hw w c ((tail @ c_hex c) @ T)" using True by (simp add: slot_ok_def off)
    from slots_Cons [OF w64 this b(3)] b w64 show ?thesis
      by (intro exI [of _ "w @ H"] exI [of _ "c_hex c @ T"]) simp
  next
    case False
    with Cons.prems have a: "assemble hw cs (head @ c_hex c) tail = Inr body" and c64: "length (c_hex c) = 64"
      by (simp_all add: component_shape_def)
    from Cons.IH [OF a Cons.prems(2)] Cons.prems obtain H T where
      b: "body = (head @ c_hex c) @ H @ tail @ T" "length H = 64 * length cs"
      "\<forall>i<length cs. slot_ok hw (take 64 (drop (64 * i) H)) (cs ! i) (tail @ T)" by auto
    have "slot_ok hw (c_hex c) c (tail @ T)" using False by (simp add: slot_ok_def)
    from slots_Cons [OF c64 this b(3)] b c64 show ?thesis
      by (intro exI [of _ "c_hex c @ H"] exI [of _ T]) simp
  qed
qed

lemma read_slot:
  assumes "length H = 64 * n" and "i < n" and "slot_ok n (take 64 (drop (64 * i) H)) c T" and "component_ok c m"
    and "c_dynamic c \<longleftrightarrow> dynamic_kind (abi_kind t)"
  shows "abi_read t i (H @ T) = m"
proof -
  have "64 \<le> 64 * n - 64 * i" using assms(2) by arith
  then have s: "slot i (H @ T) = take 64 (drop (64 * i) H)" using assms(1) by (simp add: slot_def)
  show ?thesis
  proof (cases m)
    case (Word w)
    then show ?thesis using assms s by (simp add: abi_read_def component_ok_def slot_ok_def)
  next
    case (Blob bs)
    with assms(4) obtain l z where d: "c_dynamic c" "list_all (\<lambda>b. b < 256) bs"
      and c: "c_hex c = l @ toHex bs @ z" "length l = 64" "str_hex l = length bs" by (auto simp: component_ok_def)
    define off where "off = str_hex (take 64 (drop (64 * i) H))"
    from assms(3) d obtain r where "64 * n \<le> 2 * off" "drop (2 * off - 64 * n) T = c_hex c @ r"
      by (auto simp: slot_ok_def off_def)
    then have "drop (2 * off) (H @ T) = l @ toHex bs @ z @ r" using assms(1) c by simp
    then have "read_blob off (H @ T) = bs" using c length_toHex [OF d(2)] hex_pairs_toHex [OF d(2)]
      by (simp add: read_blob_def)
    with Blob d assms(5) s show ?thesis by (simp add: abi_read_def off_def)
  qed
qed

section \<open>The round trip\<close>

text \<open>
  C19: every argument list that the encoder accepts reads back from the encoding: at each position
  the decoder of the ABI specification finds the word or the bytes the argument means.
\<close>

theorem abi_round_trip:
  assumes "encodeAbiParameters types values = Inr encoded"
  shows "length types = length values \<and>
    (\<exists>body. encoded = ''0x'' @ body \<and>
      (\<forall>i<length types. Some (abi_read (trim (types ! i)) i body) = abi_meaning (trim (types ! i)) (values ! i)))"
proof -
  from assms have len: "length types = length values" by (auto simp: encodeAbiParameters_def split: if_splits)
  from assms obtain cs body where cs: "mapR (\<lambda>(t, v). encodeComponent (trim t) v) (zip types values) = Inr cs"
    and body: "assemble (length cs) cs [] [] = Inr body" and enc: "encoded = ''0x'' @ body"
    by (auto simp: encodeAbiParameters_def result_simps split: if_splits)
  from cs len have lcs: "length cs = length types" by (auto dest: mapR_Inr_length)
  have comp: "encodeComponent (trim (types ! i)) (values ! i) = Inr (cs ! i)" if "i < length types" for i
    using cs that len by (auto simp: mapR_Inr_iff list_all2_conv_all_nth)
  have "list_all component_shape cs"
    unfolding list_all_length using comp component_meaning component_shape lcs by metis
  from assemble_slots [OF body _ this] obtain H T where H: "body = H @ T" "length H = 64 * length cs"
    "\<forall>i<length cs. slot_ok (length cs) (take 64 (drop (64 * i) H)) (cs ! i) T" by auto
  have "Some (abi_read (trim (types ! i)) i body) = abi_meaning (trim (types ! i)) (values ! i)" if i: "i < length types" for i
  proof -
    from component_meaning [OF comp [OF i]] obtain m where m: "abi_meaning (trim (types ! i)) (values ! i) = Some m"
      "component_ok (cs ! i) m" "c_dynamic (cs ! i) \<longleftrightarrow> dynamic_kind (abi_kind (trim (types ! i)))" by blast
    have "abi_read (trim (types ! i)) i (H @ T) = m"
      using i lcs H m by (intro read_slot [of H "length cs" i "cs ! i" T m]) auto
    with m H show ?thesis by simp
  qed
  with len enc show ?thesis by blast
qed

lemma abi_round_trip_witness:
  "\<exists>body. ''0x'' @ replicate 62 (CHR ''0'') @ ''ff'' @ replicate 62 (CHR ''0'') @ ''40''
      @ replicate 63 (CHR ''0'') @ ''2'' @ ''abcd'' @ replicate 60 (CHR ''0'') = ''0x'' @ body
    \<and> Some (abi_read ''uint256'' 0 body) = Some (Word 255) \<and> Some (abi_read ''bytes'' 1 body) = Some (Blob [171, 205])"
proof -
  have e: "encodeAbiParameters [''uint256'', ''bytes''] [JNum (NInt 255), JStr ''0xABcd''] =
    Inr (''0x'' @ replicate 62 (CHR ''0'') @ ''ff'' @ replicate 62 (CHR ''0'') @ ''40''
      @ replicate 63 (CHR ''0'') @ ''2'' @ ''abcd'' @ replicate 60 (CHR ''0''))" by code_simp
  have m: "abi_meaning (trim ''uint256'') (JNum (NInt 255)) = Some (Word 255)"
    "abi_meaning (trim ''bytes'') (JStr ''0xABcd'') = Some (Blob [171, 205])"
    "trim ''uint256'' = ''uint256''" "trim ''bytes'' = ''bytes''" by code_simp+
  from abi_round_trip [OF e] obtain body where b: "''0x'' @ replicate 62 (CHR ''0'') @ ''ff'' @ replicate 62 (CHR ''0'') @ ''40''
      @ replicate 63 (CHR ''0'') @ ''2'' @ ''abcd'' @ replicate 60 (CHR ''0'') = ''0x'' @ body"
    "\<forall>i<length [''uint256'', ''bytes'']. Some (abi_read (trim ([''uint256'', ''bytes''] ! i)) i body)
      = abi_meaning (trim ([''uint256'', ''bytes''] ! i)) ([JNum (NInt 255), JStr ''0xABcd''] ! i)" by blast
  from b(2) [rule_format, of 0] b(2) [rule_format, of 1] m b(1) show ?thesis by (intro exI [of _ body]) simp
qed

end
