(* ===== verification/NeoData.thy ===== *)
theory NeoData
  imports EvmAbiSpec ContractParamSpec Amounts "HOL-Library.AList"
begin

text \<open>
  src/handlers/neo-data-tools.ts: inspection of values, conversions between byte formats, integers and
  addresses, and disassembly of scripts. Parameters are neon-js (\<open>ia\<close>: is a valid address, \<open>sh\<close>: its script
  hash, \<open>ha\<close>: the address of a script hash, \<open>pk\<close>: is a curve point, the token parser and the
  names of opcodes and interop services), \<open>JSON.parse\<close> and the decoding of UTF-8.

  The main results: NeoVM integers have exactly one minimal byte form, which reads back
  (\<open>vm_integer_minimal\<close>), and converting an integer to bytes and back yields it again
  (\<open>convert_integer_back\<close>).
\<close>

section \<open>Formats of input texts\<close>

definition MAX_INPUT_BYTES :: nat where "MAX_INPUT_BYTES = 64 * 1024"

definition MAX_SCRIPT_INSTRUCTIONS :: nat where "MAX_SCRIPT_INSTRUCTIONS = 2000"

definition hex_re :: "string \<Rightarrow> bool" where
  "hex_re s \<longleftrightarrow> strip_0x s \<noteq> [] \<and> list_all is_hex (strip_0x s)"

definition hash_re :: "nat \<Rightarrow> string \<Rightarrow> bool" where
  "hash_re n s \<longleftrightarrow> length (strip_0x s) = n \<and> list_all is_hex (strip_0x s)"

definition evm_address_re :: "string \<Rightarrow> bool" where
  "evm_address_re s \<longleftrightarrow> starts_with s ''0x'' \<and> hash_re 40 s"

definition alnum_low :: "char \<Rightarrow> bool" where
  "alnum_low c \<longleftrightarrow> is_digit c \<or> (97 \<le> cc c \<and> cc c \<le> 122)"

text \<open>One label of \<open>NNS_RE\<close>: at most 63 characters, no hyphen at the ends.\<close>

definition nns_label :: "string \<Rightarrow> bool" where
  "nns_label w \<longleftrightarrow> w \<noteq> [] \<and> length w \<le> 63 \<and> list_all (\<lambda>c. alnum_low c \<or> c = CHR ''-'') w \<and> alnum_low (hd w) \<and> alnum_low (last w)"

definition nns_re :: "string \<Rightarrow> bool" where
  "nns_re s \<longleftrightarrow>
     (let labels = split_on (CHR ''.'') s in
      3 \<le> length s \<and> length s \<le> 255 \<and> 2 \<le> length labels \<and> last labels = ''neo'' \<and> list_all nns_label (butlast labels))"

definition neofs_id :: "string \<Rightarrow> bool" where
  "neofs_id s \<longleftrightarrow> 32 \<le> length s \<and> length s \<le> 64 \<and> list_all base58_char s"

definition requireDataString :: "jsobj \<Rightarrow> string \<Rightarrow> string result" where
  "requireDataString input field =
     (case oget input field of
        JStr s \<Rightarrow>
          if s = [] then invalid (field @ '' must be a non-empty string'')
          else if MAX_INPUT_BYTES < length (utf8_bytes s) then invalid (field @ '' exceeds the '')
          else Inr s
      | _ \<Rightarrow> invalid (field @ '' must be a non-empty string''))"

definition normalizeHex :: "string \<Rightarrow> string result" where
  "normalizeHex v =
     (let body = strip_prefix v in
      if body = [] \<or> odd (length body) \<or> \<not> list_all is_hex body
      then invalid ''Hex input must contain an even number of hexadecimal characters'' else Inr (to_lower body))"

definition decodeBase64 :: "string \<Rightarrow> nat list result" where
  "decodeBase64 v =
     (if \<not> base64_pattern v \<or> base64_encode (base64_decode v) \<noteq> v
      then invalid ''Base64 input must use canonical RFC 4648 encoding'' else Inr (base64_decode v))"

definition canonicalBase64 :: "string \<Rightarrow> bool" where
  "canonicalBase64 v \<longleftrightarrow> v \<noteq> [] \<and> base64_pattern v \<and> base64_encode (base64_decode v) = v"

definition publicKeyIsValid :: "(string \<Rightarrow> bool) \<Rightarrow> string \<Rightarrow> bool" where
  "publicKeyIsValid pk v \<longleftrightarrow> public_key_pattern v \<and> pk v"

definition parseNeoFsUri :: "string \<Rightarrow> (string \<times> string option) option" where
  "parseNeoFsUri v =
     (if \<not> starts_with v ''neofs://'' then None
      else let parts = split_on (CHR ''/'') (drop 8 v) in
        if \<not> neofs_id (hd parts) then None
        else if 2 < length parts \<or> (length parts = 2 \<and> parts ! 1 \<noteq> [] \<and> \<not> neofs_id (parts ! 1)) then None
        else Some (hd parts, if length parts = 2 \<and> parts ! 1 \<noteq> [] then Some (parts ! 1) else None))"

section \<open>Inspection\<close>

record value_match =
  m_type :: string
  m_confidence :: string
  m_extra :: jsobj

definition match :: "string \<Rightarrow> string \<Rightarrow> jsobj \<Rightarrow> value_match" where
  "match t c e = \<lparr>m_type = t, m_confidence = c, m_extra = e\<rparr>"

definition json_type :: "jsval \<Rightarrow> string" where
  "json_type v =
     (case v of
        JArr _ \<Rightarrow> ''json_array'' | JNull \<Rightarrow> ''json_null'' | JStr _ \<Rightarrow> ''json_string'' | JNum _ \<Rightarrow> ''json_number''
      | JBool _ \<Rightarrow> ''json_boolean'' | _ \<Rightarrow> ''json_object'')"

definition prefixed_lower :: "string \<Rightarrow> jsobj" where
  "prefixed_lower t = [(''normalized'', JStr (''0x'' @ to_lower (strip_prefix t)))]"

definition inspect_matches ::
    "(string \<Rightarrow> bool) \<Rightarrow> (string \<Rightarrow> string) \<Rightarrow> (string \<Rightarrow> bool) \<Rightarrow> (string \<Rightarrow> jsval option) \<Rightarrow> string \<Rightarrow> value_match list" where
  "inspect_matches ia sh pk parseJSON t =
     (if ia t then [match ''neo_n3_address'' ''exact'' [(''scriptHash'', JStr (''0x'' @ to_lower (sh t)))]] else []) @
     (if evm_address_re t then [match ''neo_x_address'' ''shape'' [(''normalized'', JStr (to_lower t))]] else []) @
     (if hash_re 40 t then [match ''hash160'' ''shape'' (prefixed_lower t)] else []) @
     (if hash_re 64 t then [match ''hash256'' ''shape'' (prefixed_lower t)] else []) @
     (if publicKeyIsValid pk t then [match ''compressed_public_key'' ''exact'' [(''normalized'', JStr (to_lower t))]] else []) @
     (if nns_re (to_lower t) then [match ''nns_domain'' ''shape'' [(''normalized'', JStr (to_lower t))]] else []) @
     (case parseNeoFsUri t of
        Some (c, obj) \<Rightarrow> [match ''neofs_uri'' ''shape''
          [(''containerId'', JStr c), (''objectId'', case obj of Some x \<Rightarrow> JStr x | None \<Rightarrow> JNull)]]
      | None \<Rightarrow> []) @
     (case canonical_int t of Some i \<Rightarrow> [match ''integer'' ''exact'' [(''normalized'', JStr (int_str i))]] | None \<Rightarrow> []) @
     (if hex_re t \<and> even (length (strip_prefix t))
      then [match ''hex_bytes'' (if starts_with t ''0x'' then ''exact'' else ''possible'')
              [(''byteLength'', JNum (NInt (int (length (strip_prefix t) div 2))))]] else []) @
     (if canonicalBase64 t
      then [match ''base64_bytes'' (if list_ex (\<lambda>c. c \<in> set ''+/='') t then ''exact'' else ''possible'')
              [(''byteLength'', JNum (NInt (int (length (base64_decode t)))))]] else []) @
     (case parseJSON t of Some v \<Rightarrow> [match (json_type v) ''exact'' []] | None \<Rightarrow> [])"

definition inspectValue ::
    "(string \<Rightarrow> bool) \<Rightarrow> (string \<Rightarrow> string) \<Rightarrow> (string \<Rightarrow> bool) \<Rightarrow> (string \<Rightarrow> jsval option) \<Rightarrow> string \<Rightarrow> string \<times> value_match list" where
  "inspectValue ia sh pk parseJSON v =
     (let found = inspect_matches ia sh pk parseJSON (trim v);
          matches = found @ [match ''utf8_string'' (if found = [] then ''exact'' else ''fallback'')
            [(''byteLength'', JNum (NInt (int (length (utf8_bytes v)))))]] in
      (m_type (hd matches), matches))"

section \<open>NeoVM integers\<close>

function vm_width :: "int \<Rightarrow> nat \<Rightarrow> nat result" where
  "vm_width v width =
     (if v < - (2 ^ (width * 8 - 1)) \<or> 2 ^ (width * 8 - 1) - 1 < v
      then (if 32 < width + 1 then invalid ''Integer exceeds the Neo VM 256-bit range'' else vm_width v (width + 1))
      else Inr width)"
  by pat_completeness auto
termination by (relation "measure (\<lambda>(v, width). 33 - width)") auto

declare vm_width.simps [simp del]

definition le_bytes :: "nat \<Rightarrow> int \<Rightarrow> nat list" where
  "le_bytes width encoded = map (\<lambda>i. nat (encoded div 256 ^ i mod 256)) [0..<width]"

definition integerToSignedLittleEndian :: "int \<Rightarrow> nat list result" where
  "integerToSignedLittleEndian v =
     (if v = 0 then Inr []
      else bindR (vm_width v 1) (\<lambda>width. Inr (le_bytes width (if v < 0 then 2 ^ (width * 8) + v else v))))"

definition le_value :: "nat list \<Rightarrow> int" where
  "le_value bs = foldr (\<lambda>b acc. acc * 256 + int b) bs 0"

definition signedLittleEndianToInteger :: "nat list \<Rightarrow> int result" where
  "signedLittleEndianToInteger bs =
     (if bs = [] then Inr 0
      else if 32 < length bs then invalid ''Integer byte input exceeds 32 bytes''
      else Inr (if 128 \<le> last bs then le_value bs - 2 ^ (length bs * 8) else le_value bs))"

section \<open>Conversion\<close>

definition conversion_inputs :: "string list" where
  "conversion_inputs = [''auto'', ''utf8'', ''hex'', ''base64'', ''integer'', ''neo_address'', ''script_hash'']"

definition conversion_outputs :: "string list" where
  "conversion_outputs = [''utf8'', ''hex'', ''base64'', ''integer'', ''neo_address'', ''script_hash'']"

definition inferInputFormat :: "(string \<Rightarrow> bool) \<Rightarrow> string \<Rightarrow> string \<Rightarrow> string" where
  "inferInputFormat ia v output =
     (let t = trim v in
      if ia t then ''neo_address''
      else if hash_re 40 t \<and> output = ''neo_address'' then ''script_hash''
      else if canonical_int t \<noteq> None then ''integer''
      else if starts_with t ''0x'' \<and> hex_re t then ''hex''
      else if canonicalBase64 t \<and> list_ex (\<lambda>c. c \<in> set ''+/='') t then ''base64''
      else ''utf8'')"

record conversion =
  c_inputFormat :: string
  c_outputFormat :: string
  c_value :: string
  c_byteLength :: "nat option"

definition input_bytes :: "string \<Rightarrow> string \<Rightarrow> nat list result" where
  "input_bytes inputFormat v =
     (let t = trim v in
      if inputFormat = ''utf8'' then Inr (utf8_bytes v)
      else if inputFormat = ''hex'' then bindR (normalizeHex t) (\<lambda>h. Inr (hex_pairs h))
      else if inputFormat = ''base64'' then decodeBase64 t
      else if inputFormat = ''integer'' then
        (case canonical_int t of
           None \<Rightarrow> invalid ''Integer input must be canonical decimal''
         | Some i \<Rightarrow> integerToSignedLittleEndian i)
      else invalid ''Unsupported semantic conversion'')"

definition output_text :: "(nat list \<Rightarrow> string) \<Rightarrow> string \<Rightarrow> nat list \<Rightarrow> string result" where
  "output_text fromUtf8 outputFormat bytes =
     (if outputFormat = ''utf8'' then
        (if utf8_bytes (fromUtf8 bytes) \<noteq> bytes then invalid ''Byte input is not valid round-trippable UTF-8'' else Inr (fromUtf8 bytes))
      else if outputFormat = ''hex'' then Inr (toHex bytes)
      else if outputFormat = ''base64'' then Inr (base64_encode bytes)
      else bindR (signedLittleEndianToInteger bytes) (\<lambda>i. Inr (int_str i)))"

definition option_text :: "jsobj \<Rightarrow> string \<Rightarrow> string \<Rightarrow> string" where
  "option_text input k d = (if truthy (oget input k) then js_String (oget input k) else d)"

definition convertValue ::
    "(string \<Rightarrow> bool) \<Rightarrow> (string \<Rightarrow> string) \<Rightarrow> (string \<Rightarrow> string) \<Rightarrow> (nat list \<Rightarrow> string) \<Rightarrow> jsobj \<Rightarrow> conversion result" where
  "convertValue ia sh ha fromUtf8 input =
     bindR (requireDataString input ''value'') (\<lambda>v.
     let requestedInput = option_text input ''inputFormat'' ''auto''; outputFormat = option_text input ''outputFormat'' [] in
     if requestedInput \<notin> set conversion_inputs then invalid ''Unsupported inputFormat''
     else if outputFormat \<notin> set conversion_outputs then invalid ''Unsupported outputFormat''
     else
       let inputFormat = (if requestedInput = ''auto'' then inferInputFormat ia v outputFormat else requestedInput); t = trim v;
           done = (\<lambda>text size. \<lparr>c_inputFormat = inputFormat, c_outputFormat = outputFormat, c_value = text, c_byteLength = size\<rparr>) in
       if inputFormat = ''neo_address'' then
         (if outputFormat \<noteq> ''script_hash'' then invalid ''Neo addresses can only be converted to script_hash''
          else if \<not> ia t then invalid ''Invalid Neo N3 address checksum''
          else Inr (done (''0x'' @ to_lower (sh t)) None))
       else if inputFormat = ''script_hash'' then
         (if outputFormat \<noteq> ''neo_address'' then invalid ''Script hashes can only be converted to neo_address''
          else if \<not> hash_re 40 t then invalid ''script_hash must be 20 bytes''
          else Inr (done (ha (to_lower (strip_prefix t))) None))
       else if outputFormat \<in> {''neo_address'', ''script_hash''} then invalid (outputFormat @ '' requires semantic address/hash input'')
       else
         bindR (input_bytes inputFormat v) (\<lambda>bytes.
         bindR (output_text fromUtf8 outputFormat bytes) (\<lambda>text. Inr (done text (Some (length bytes))))))"

section \<open>Disassembly\<close>

text \<open>The alternatives of a pattern \<open>/^(A|B|...)/\<close>.\<close>

definition begins_with_any :: "string list \<Rightarrow> string \<Rightarrow> bool" where
  "begins_with_any ps s \<longleftrightarrow> list_ex (\<lambda>p. starts_with s p) ps"

definition opcodeCategory :: "string \<Rightarrow> string" where
  "opcodeCategory name =
     (if starts_with name ''PUSH'' then ''stack/data''
      else if begins_with_any [''JMP'', ''CALL'', ''TRY'', ''ENDTRY'', ''RET'', ''ABORT'', ''ASSERT''] name then ''control-flow''
      else if begins_with_any [''LD'', ''ST'', ''NEW'', ''PACK'', ''UNPACK'', ''PICK'', ''APPEND'', ''SETITEM'', ''REMOVE'', ''CLEAR''] name
      then ''data-structure''
      else if begins_with_any [''ADD'', ''SUB'', ''MUL'', ''DIV'', ''MOD'', ''POW'', ''SHL'', ''SHR'', ''INC'', ''DEC'', ''NEGATE'', ''ABS'', ''SIGN''] name
      then ''arithmetic''
      else if begins_with_any [''EQUAL'', ''NOTEQUAL'', ''LT'', ''LE'', ''GT'', ''GE'', ''NUMEQUAL'', ''NUMNOTEQUAL'', ''BOOLAND'', ''BOOLOR''] name
      then ''comparison''
      else if begins_with_any [''AND'', ''OR'', ''XOR'', ''NOT'', ''INVERT''] name then ''bitwise''
      else if name = ''SYSCALL'' then ''interop''
      else if begins_with_any [''CONVERT'', ''ISTYPE''] name then ''type''
      else ''vm'')"

definition opcodeExplanation :: "string \<Rightarrow> string option \<Rightarrow> string" where
  "opcodeExplanation name syscall =
     (if starts_with name ''PUSH'' then ''Pushes a constant or byte sequence onto the evaluation stack.''
      else if name = ''SYSCALL'' then
        (case syscall of
           Some service \<Rightarrow> ''Calls the Neo runtime interop service '' @ service @ ''.''
         | None \<Rightarrow> ''Calls a Neo runtime interop service identified by the operand.'')
      else if name = ''RET'' then ''Returns from the current call frame.''
      else if starts_with name ''CALL'' then ''Invokes another location, method token, or contract call path.''
      else if starts_with name ''JMP'' then ''Changes control flow, optionally based on a stack condition.''
      else if starts_with name ''LD'' then ''Loads a value into the evaluation stack.''
      else if starts_with name ''ST'' then ''Stores a value from the evaluation stack.''
      else if begins_with_any [''ADD'', ''SUB'', ''MUL'', ''DIV'', ''MOD'', ''POW''] name then ''Performs an integer arithmetic operation.''
      else if begins_with_any [''EQUAL'', ''NOTEQUAL'', ''LT'', ''LE'', ''GT'', ''GE'', ''NUMEQUAL'', ''NUMNOTEQUAL''] name
      then ''Compares stack values and pushes a Boolean result.''
      else if begins_with_any [''PACK'', ''UNPACK'', ''NEW'', ''APPEND'', ''SETITEM'', ''REMOVE'', ''CLEAR''] name
      then ''Creates or mutates a VM collection value.''
      else ''Executes the NeoVM '' @ name @ '' instruction.'')"

text \<open>A token of the parser: its opcode, its operand (empty when there is none) and its encoding.\<close>

record op_token =
  ot_code :: nat
  ot_params :: string
  ot_script :: string

record vm_instruction =
  vi_index :: nat
  vi_offset :: nat
  vi_size :: nat
  vi_opcode :: string
  vi_operand :: "string option"
  vi_syscall :: "string option"
  vi_category :: string
  vi_explanation :: string

definition opcode_name :: "(nat \<Rightarrow> string option) \<Rightarrow> nat \<Rightarrow> string" where
  "opcode_name opname code = (case opname code of Some n \<Rightarrow> n | None \<Rightarrow> ''UNKNOWN_0x'' @ byte_hex code)"

text \<open>The table of interop services is a \<open>Map\<close> from lower-case codes to names, the last entry of a code winning.\<close>

definition syscall_of :: "(string \<times> string) list \<Rightarrow> string \<Rightarrow> op_token \<Rightarrow> string option" where
  "syscall_of services name token =
     (if name = ''SYSCALL'' \<and> ot_params token \<noteq> []
      then map_of (rev (map (\<lambda>(n, code). (to_lower code, n)) services)) (to_lower (ot_params token)) else None)"

definition instruction ::
    "(nat \<Rightarrow> string option) \<Rightarrow> (string \<times> string) list \<Rightarrow> nat \<Rightarrow> nat \<Rightarrow> op_token \<Rightarrow> vm_instruction" where
  "instruction opname services index offset token =
     (let name = opcode_name opname (ot_code token); syscall = syscall_of services name token in
      \<lparr>vi_index = index, vi_offset = offset, vi_size = length (ot_script token) div 2, vi_opcode = name,
       vi_operand = (if ot_params token = [] then None else Some (ot_params token)), vi_syscall = syscall,
       vi_category = opcodeCategory name, vi_explanation = opcodeExplanation name syscall\<rparr>)"

fun instructions_from ::
    "(nat \<Rightarrow> string option) \<Rightarrow> (string \<times> string) list \<Rightarrow> nat \<Rightarrow> nat \<Rightarrow> op_token list \<Rightarrow> vm_instruction list" where
  "instructions_from opname services index offset [] = []"
| "instructions_from opname services index offset (token # tokens) =
     instruction opname services index offset token #
     instructions_from opname services (Suc index) (offset + length (ot_script token) div 2) tokens"

definition add_category :: "(string \<times> nat) list \<Rightarrow> string \<Rightarrow> (string \<times> nat) list" where
  "add_category acc c = AList.update c ((case map_of acc c of Some n \<Rightarrow> n | None \<Rightarrow> 0) + 1) acc"

definition category_counts :: "vm_instruction list \<Rightarrow> (string \<times> nat) list" where
  "category_counts is = foldl add_category [] (map vi_category is)"

record disassembly =
  da_inputFormat :: string
  da_scriptHex :: string
  da_byteLength :: nat
  da_instructionCount :: nat
  da_categories :: "(string \<times> nat) list"
  da_instructions :: "vm_instruction list"

definition decodeScript ::
    "(string \<Rightarrow> js_error + op_token list) \<Rightarrow> (nat \<Rightarrow> string option) \<Rightarrow> (string \<times> string) list \<Rightarrow> jsobj \<Rightarrow> disassembly result" where
  "decodeScript fromScript opname services input =
     bindR (requireDataString input ''script'') (\<lambda>raw.
     let v = trim raw; requested = option_text input ''inputFormat'' ''auto'' in
     if requested \<notin> {''auto'', ''hex'', ''base64''} then invalid ''inputFormat must be auto, hex, or base64''
     else
       let format = (if requested = ''auto'' then (if hex_re v then ''hex'' else ''base64'') else requested) in
       bindR (if format = ''hex'' then normalizeHex v else bindR (decodeBase64 v) (\<lambda>bytes. Inr (toHex bytes))) (\<lambda>scriptHex.
       case fromScript scriptHex of
         Inl _ \<Rightarrow> invalid ''Invalid NeoVM script: ''
       | Inr tokens \<Rightarrow>
           if MAX_SCRIPT_INSTRUCTIONS < length tokens then invalid ''Script exceeds the ''
           else
             let is = instructions_from opname services 0 0 tokens in
             Inr \<lparr>da_inputFormat = format, da_scriptHex = scriptHex, da_byteLength = length scriptHex div 2,
                  da_instructionCount = length is, da_categories = category_counts is, da_instructions = is\<rparr>))"

datatype data_answer = Inspected "string \<times> value_match list" | Converted conversion | Disassembled disassembly

definition dispatchNeoDataTool ::
    "(string \<Rightarrow> bool) \<Rightarrow> (string \<Rightarrow> string) \<Rightarrow> (string \<Rightarrow> string) \<Rightarrow> (string \<Rightarrow> bool) \<Rightarrow> (string \<Rightarrow> jsval option) \<Rightarrow> (nat list \<Rightarrow> string) \<Rightarrow>
     (string \<Rightarrow> js_error + op_token list) \<Rightarrow> (nat \<Rightarrow> string option) \<Rightarrow> (string \<times> string) list \<Rightarrow> string \<Rightarrow> jsobj \<Rightarrow> data_answer result" where
  "dispatchNeoDataTool ia sh ha pk parseJSON fromUtf8 fromScript opname services name input =
     (if name = ''inspect_neo_value'' then
        bindR (requireDataString input ''value'') (\<lambda>v. Inr (Inspected (inspectValue ia sh pk parseJSON v)))
      else if name = ''convert_neo_data'' then bindR (convertValue ia sh ha fromUtf8 input) (\<lambda>c. Inr (Converted c))
      else if name = ''decode_neo_script'' then bindR (decodeScript fromScript opname services input) (\<lambda>d. Inr (Disassembled d))
      else invalid (''Unknown Neo data tool: '' @ name))"

section \<open>The integer codec\<close>

lemma le_value_simps [simp]: "le_value [] = 0" "le_value (b # bs) = int b + 256 * le_value bs"
  by (simp_all add: le_value_def)

lemma le_bytes_simps [simp]: "le_bytes 0 e = []" "le_bytes (Suc w) e = nat (e mod 256) # le_bytes w (e div 256)"
proof -
  have "e div 256 ^ Suc i = e div 256 div 256 ^ i" for i by (simp add: zdiv_zmult2_eq)
  then show "le_bytes (Suc w) e = nat (e mod 256) # le_bytes w (e div 256)"
    by (simp add: le_bytes_def map_upt_Suc del: power_Suc upt_Suc)
qed (simp add: le_bytes_def)

lemma length_le_bytes [simp]: "length (le_bytes w e) = w"
  by (simp add: le_bytes_def)

lemma le_bytes_byte: "list_all (\<lambda>b. b < 256) (le_bytes w e)"
  by (auto simp: le_bytes_def list_all_iff nat_less_iff)

lemma le_value_bytes: "0 \<le> e \<Longrightarrow> le_value (le_bytes w e) = e mod 256 ^ w"
proof (induction w arbitrary: e)
  case (Suc w)
  have "le_value (le_bytes w (e div 256)) = e div 256 mod 256 ^ w" using Suc by simp
  moreover have "e mod (256 * 256 ^ w) = 256 * (e div 256 mod 256 ^ w) + e mod 256" by (rule zmod_zmult2_eq) simp
  ultimately show ?case by simp
qed simp

lemma le_value_range: "list_all (\<lambda>b. b < 256) bs \<Longrightarrow> 0 \<le> le_value bs \<and> le_value bs < 256 ^ length bs"
proof (induction bs)
  case (Cons b bs)
  then have "0 \<le> le_value bs" "le_value bs + 1 \<le> 256 ^ length bs" "int b \<le> 255" by auto
  then show ?case by simp
qed simp

lemma pow256: "(256 :: int) ^ n = 2 ^ (n * 8)"
  using power_mult [of "2 :: int" 8 n] by (simp add: mult.commute)

lemma half_pow: "0 < n \<Longrightarrow> (2 :: int) ^ (n * 8) = 2 * 2 ^ (n * 8 - 1)"
  by (cases n) (simp_all flip: power_Suc)

lemma top_bit: "list_all (\<lambda>b. b < 256) bs \<Longrightarrow> bs \<noteq> [] \<Longrightarrow> 128 \<le> last bs \<longleftrightarrow> 2 ^ (length bs * 8 - 1) \<le> le_value bs"
proof (induction bs)
  case (Cons b bs)
  show ?case
  proof (cases bs)
    case Nil
    then show ?thesis by auto
  next
    case (Cons c cs)
    have ih: "128 \<le> last bs \<longleftrightarrow> 2 ^ (length bs * 8 - 1) \<le> le_value bs" using Cons.IH Cons.prems Cons by simp
    have p: "(2 :: int) ^ (length (b # bs) * 8 - 1) = 256 * 2 ^ (length bs * 8 - 1)"
      using Cons power_add [of "2 :: int" 8 "7 + length cs * 8"] by (simp add: add.commute)
    have "int b < 256" using Cons.prems by simp
    then show ?thesis using ih p Cons by auto
  qed
qed simp

definition vm_range :: "int \<Rightarrow> nat \<Rightarrow> bool" where
  "vm_range v w \<longleftrightarrow> - (2 ^ (w * 8 - 1)) \<le> v \<and> v \<le> 2 ^ (w * 8 - 1) - 1"

lemma vm_range_mono: "vm_range v w \<Longrightarrow> w \<le> u \<Longrightarrow> vm_range v u"
proof -
  assume "vm_range v w" "w \<le> u"
  moreover from \<open>w \<le> u\<close> have "(2 :: int) ^ (w * 8 - 1) \<le> 2 ^ (u * 8 - 1)" by (intro power_increasing) auto
  ultimately show ?thesis unfolding vm_range_def by linarith
qed

lemma vm_width_step: "vm_width v w = (if vm_range v w then Inr w else if 32 \<le> w then invalid ''Integer exceeds the Neo VM 256-bit range'' else vm_width v (Suc w))"
  by (subst vm_width.simps) (auto simp: vm_range_def)

lemma vm_width_Inr: "vm_width v w = Inr u \<Longrightarrow> vm_range v u \<and> w \<le> u \<and> (\<forall>x. vm_range v x \<longrightarrow> w \<le> x \<longrightarrow> u \<le> x)"
proof (induction v w rule: vm_width.induct)
  case (1 v w)
  show ?case
  proof (cases "vm_range v w")
    case True
    with 1(2) show ?thesis by (simp add: vm_width_step [of v w])
  next
    case False
    with 1(2) have "w < 32" "vm_width v (Suc w) = Inr u" by (auto simp: vm_width_step [of v w] split: if_splits)
    moreover from this have "vm_width v (w + 1) = Inr u \<Longrightarrow> vm_range v u \<and> w + 1 \<le> u \<and> (\<forall>x. vm_range v x \<longrightarrow> w + 1 \<le> x \<longrightarrow> u \<le> x)"
      using False by (intro 1(1)) (auto simp: vm_range_def)
    ultimately show ?thesis using False by (auto simp: Suc_le_eq order.order_iff_strict)
  qed
qed

lemma vm_width_total: "vm_range v 32 \<Longrightarrow> w \<le> 32 \<Longrightarrow> \<exists>u \<le> 32. vm_width v w = Inr u"
proof (induction v w rule: vm_width.induct)
  case (1 v w)
  show ?case
  proof (cases "vm_range v w")
    case True
    with 1 show ?thesis by (auto simp: vm_width_step [of v w])
  next
    case False
    with 1 have "w < 32" by (cases "w = 32") auto
    with False 1 have "\<exists>u \<le> 32. vm_width v (w + 1) = Inr u" by (auto simp: vm_range_def)
    with False \<open>w < 32\<close> show ?thesis by (simp add: vm_width_step [of v w])
  qed
qed

lemma vm_width_fails: "\<not> vm_range v 32 \<Longrightarrow> w \<le> 32 \<Longrightarrow> vm_width v w = invalid ''Integer exceeds the Neo VM 256-bit range''"
proof (induction v w rule: vm_width.induct)
  case (1 v w)
  then have f: "\<not> vm_range v w" using vm_range_mono by blast
  show ?case
  proof (cases "w = 32")
    case True
    with f show ?thesis by (subst vm_width_step) simp
  next
    case False
    with 1 f have "vm_width v (w + 1) = invalid ''Integer exceeds the Neo VM 256-bit range''" by (auto simp: vm_range_def)
    with f False 1(3) show ?thesis by (simp add: vm_width_step [of v w])
  qed
qed

lemma signed_range:
  assumes "signedLittleEndianToInteger bs = Inr v" and "list_all (\<lambda>b. b < 256) bs" and "bs \<noteq> []"
  shows "vm_range v (length bs) \<and> length bs \<le> 32"
proof -
  from assms(3) have h: "(2 :: int) ^ (length bs * 8) = 2 * 2 ^ (length bs * 8 - 1)" by (intro half_pow) simp
  from le_value_range [OF assms(2)] have r: "0 \<le> le_value bs" "le_value bs < 2 * 2 ^ (length bs * 8 - 1)"
    by (simp_all add: pow256 h)
  show ?thesis using assms(1,3) r h top_bit [OF assms(2,3)]
    by (auto simp: signedLittleEndianToInteger_def vm_range_def split: if_splits)
qed

lemma encode_decodes:
  assumes "vm_range v w" and "0 < w" and "w \<le> 32"
  shows "signedLittleEndianToInteger (le_bytes w (if v < 0 then 2 ^ (w * 8) + v else v)) = Inr v"
proof -
  define e where "e = (if v < 0 then 2 ^ (w * 8) + v else v)"
  have h: "(2 :: int) ^ (w * 8) = 2 * 2 ^ (w * 8 - 1)" using assms(2) by (rule half_pow)
  have e: "0 \<le> e" "e < 2 ^ (w * 8)" "2 ^ (w * 8 - 1) \<le> e \<longleftrightarrow> v < 0"
    using assms(1) h by (auto simp: e_def vm_range_def)
  have v: "le_value (le_bytes w e) = e" using e by (simp add: le_value_bytes pow256)
  have ne: "le_bytes w e \<noteq> []" using assms(2) by (metis length_le_bytes less_numeral_extra(3) list.size(3))
  from top_bit [OF le_bytes_byte ne] v e(3) have "128 \<le> last (le_bytes w e) \<longleftrightarrow> v < 0" by simp
  with v ne assms(3) show ?thesis unfolding e_def [symmetric]
    by (simp add: signedLittleEndianToInteger_def) (simp add: e_def)
qed

lemma integer_codec:
  "case integerToSignedLittleEndian v of
     Inl e \<Rightarrow> \<not> (- (2 ^ 255) \<le> v \<and> v < 2 ^ 255) \<and> e = ValidationError ''Integer exceeds the Neo VM 256-bit range''
   | Inr bs \<Rightarrow> - (2 ^ 255) \<le> v \<and> v < 2 ^ 255 \<and> list_all (\<lambda>b. b < 256) bs \<and> signedLittleEndianToInteger bs = Inr v
       \<and> (\<forall>cs. list_all (\<lambda>b. b < 256) cs \<longrightarrow> signedLittleEndianToInteger cs = Inr v \<longrightarrow> length bs \<le> length cs)"
proof (cases "vm_range v 32")
  case False
  then have "integerToSignedLittleEndian v = invalid ''Integer exceeds the Neo VM 256-bit range''"
    using vm_width_fails [of v 1] by (auto simp: integerToSignedLittleEndian_def vm_range_def)
  with False show ?thesis by (auto simp: vm_range_def)
next
  case True
  then have range: "- (2 ^ 255) \<le> v" "v < 2 ^ 255" by (simp_all add: vm_range_def)
  show ?thesis
  proof (cases "v = 0")
    case True
    with range show ?thesis by (simp add: integerToSignedLittleEndian_def signedLittleEndianToInteger_def)
  next
    case False
    from vm_width_total [OF True, of 1] obtain w where w: "w \<le> 32" "vm_width v 1 = Inr w" by auto
    from vm_width_Inr [OF w(2)] have r: "vm_range v w" "0 < w" "\<And>x. vm_range v x \<Longrightarrow> 1 \<le> x \<Longrightarrow> w \<le> x" by auto
    have "w \<le> length cs" if "list_all (\<lambda>b. b < 256) cs" "signedLittleEndianToInteger cs = Inr v" for cs
      using that False signed_range [of cs v] r(3) [of "length cs"] by (cases cs) (auto simp: signedLittleEndianToInteger_def)
    with False w r range encode_decodes [OF r(1,2) w(1)] le_bytes_byte show ?thesis
      by (simp add: integerToSignedLittleEndian_def)
  qed
qed

lemma integer_codec_back:
  "integerToSignedLittleEndian v = Inr bs \<Longrightarrow> list_all (\<lambda>b. b < 256) bs \<and> signedLittleEndianToInteger bs = Inr v"
  using integer_codec [of v] by simp

text \<open>
  An integer has a byte form exactly when it is a 256-bit NeoVM integer; the form is made of bytes, reads
  back as the integer, and no shorter sequence of bytes does.
\<close>

lemma vm_integer_minimal:
  "case integerToSignedLittleEndian v of
     Inl e \<Rightarrow> \<not> (- (2 ^ 255) \<le> v \<and> v < 2 ^ 255) \<and> e = ValidationError ''Integer exceeds the Neo VM 256-bit range''
   | Inr bs \<Rightarrow> - (2 ^ 255) \<le> v \<and> v < 2 ^ 255 \<and> list_all (\<lambda>b. b < 256) bs \<and> signedLittleEndianToInteger bs = Inr v
       \<and> (\<forall>cs. list_all (\<lambda>b. b < 256) cs \<longrightarrow> signedLittleEndianToInteger cs = Inr v \<longrightarrow> length bs \<le> length cs)"
  by (rule integer_codec)

theorem vm_integer_minimal_witness:
  "integerToSignedLittleEndian (-129) = Inr [127, 255] \<and> - (2 ^ 255) \<le> (-129 :: int) \<and> signedLittleEndianToInteger [127, 255] = Inr (-129)"
proof -
  have "integerToSignedLittleEndian (-129) = Inr [127, 255]" by code_simp
  then show ?thesis using vm_integer_minimal [of "-129"] by simp
qed

section \<open>Byte texts read back\<close>

lemma hex_not_ws: "is_hex c \<Longrightarrow> \<not> is_ws c"
  by (auto simp: is_hex_def is_lower_hex_def is_digit_def is_ws_def)

lemma trim_hex: "list_all is_hex s \<Longrightarrow> trim s = s"
  by (rule trim_id) (auto simp: list_ex_iff list_all_iff hex_not_ws)

lemma lower_hex_list_hex: "list_all is_lower_hex s \<Longrightarrow> list_all is_hex s"
  by (auto simp: list_all_iff is_hex_def)

lemma strip_prefix_hex: "list_all is_hex s \<Longrightarrow> strip_prefix s = s"
proof -
  assume a: "list_all is_hex s"
  have "\<not> is_hex (CHR ''x'')" "\<not> is_hex (CHR ''X'')"
    by (simp_all add: is_hex_def is_lower_hex_def is_digit_def cc_def)
  then have "\<not> starts_with s ''0x''" "\<not> starts_with s ''0X''" using a
    by (cases s; cases "tl s"; auto simp: starts_with_def)+
  then show ?thesis by (simp add: strip_prefix_def)
qed

lemma toHex_lower: "list_all is_lower_hex (toHex bs)"
proof -
  have "is_lower_hex (CHR ''0'')" by (simp add: is_lower_hex_def is_digit_def cc_def)
  then have "list_all is_lower_hex (byte_hex b)" for b
    using hex_str_hex [of b] by (auto simp: byte_hex_def pad_start_def list_all_iff)
  then show ?thesis by (induction bs) simp_all
qed

lemma hex_input_back:
  assumes "list_all (\<lambda>b. b < 256) bs" and "bs \<noteq> []"
  shows "input_bytes ''hex'' (toHex bs) = Inr bs"
proof -
  have h: "list_all is_hex (toHex bs)" by (intro lower_hex_list_hex toHex_lower)
  moreover have "length (toHex bs) = 2 * length bs" using assms(1) by (rule length_toHex)
  ultimately show ?thesis using assms
    by (auto simp: input_bytes_def Let_def normalizeHex_def bindR_def trim_hex strip_prefix_hex to_lower_id toHex_lower hex_pairs_toHex)
qed

lemma base64_not_ws: "bytes_ok bs \<Longrightarrow> list_all (\<lambda>c. \<not> is_ws c) (base64_encode bs)"
proof -
  have "\<not> is_ws c" if "is_base64 c" for c
    using that unfolding is_base64_def is_alnum_def is_alpha_def is_digit_def is_ws_def list.set insert_iff empty_iff base64_literals
    by auto
  moreover have "\<not> is_ws (CHR ''='')" by (simp add: is_ws_def cc_def)
  ultimately have ws: "n < 64 \<Longrightarrow> \<not> is_ws (base64_char n)" and "\<not> is_ws (CHR ''='')" for n
    using base64_digit(2) by blast+
  then show "bytes_ok bs \<Longrightarrow> list_all (\<lambda>c. \<not> is_ws c) (base64_encode bs)"
  proof (induction bs rule: base64_encode.induct)
    case (2 a)
    then show ?case using three_bytes [of a 0 0] by (simp add: bytes_ok_def)
  next
    case (3 a b)
    then show ?case using three_bytes [of a b 0] by (simp add: bytes_ok_def)
  next
    case (4 a b c bs)
    then show ?case using three_bytes [of a b c] by (simp add: bytes_ok_def)
  qed simp
qed

lemma base64_input_back:
  assumes "list_all (\<lambda>b. b < 256) bs"
  shows "input_bytes ''base64'' (base64_encode bs) = Inr bs"
proof -
  have ok: "bytes_ok bs" using assms by (simp add: bytes_ok_def)
  then have "trim (base64_encode bs) = base64_encode bs"
    using base64_not_ws by (intro trim_id) (auto simp: list_ex_iff list_all_iff)
  with ok show ?thesis
    by (simp add: input_bytes_def Let_def decodeBase64_def base64_encode_pattern base64_decode_encode)
qed

text \<open>An integer other than 0 survives the conversion to hex or Base64 and back; 0 becomes the empty text, which is no input.\<close>

lemma convert_integer_back:
  assumes "input_bytes ''integer'' (int_str v) = Inr bs" and "v \<noteq> 0" and "fmt = ''hex'' \<or> fmt = ''base64''"
    and "canonical_int (trim (int_str v)) = Some v" and "output_text u fmt bs = Inr text"
  shows "input_bytes fmt text = Inr bs \<and> output_text u ''integer'' bs = Inr (int_str v)"
proof -
  have enc: "integerToSignedLittleEndian v = Inr bs" using assms(1,4) by (simp add: input_bytes_def Let_def)
  then have b: "list_all (\<lambda>b. b < 256) bs" "signedLittleEndianToInteger bs = Inr v"
    using integer_codec_back by blast+
  moreover from b(2) \<open>v \<noteq> 0\<close> have "bs \<noteq> []" by (auto simp: signedLittleEndianToInteger_def)
  ultimately show ?thesis using assms(3,5)
    by (auto simp: output_text_def bindR_def hex_input_back base64_input_back)
qed

section \<open>The disassembly covers the tokens\<close>

lemma length_instructions [simp]: "length (instructions_from opname services i off ts) = length ts"
  by (induction ts arbitrary: i off) auto

lemma instruction_offset:
  "k < length ts \<Longrightarrow> vi_offset (instructions_from opname services i off ts ! k) = off + (\<Sum>t\<leftarrow>take k ts. length (ot_script t) div 2)"
proof (induction ts arbitrary: i off k)
  case (Cons t ts)
  then show ?case by (cases k) (auto simp: instruction_def Let_def)
qed simp

lemma instruction_index: "k < length ts \<Longrightarrow> vi_index (instructions_from opname services i off ts ! k) = i + k"
proof (induction ts arbitrary: i off k)
  case (Cons t ts)
  then show ?case by (cases k) (auto simp: instruction_def Let_def)
qed simp

lemma sum_update:
  "distinct (map fst acc) \<Longrightarrow> sum_list (map snd (AList.update c (n :: nat) acc)) + (case map_of acc c of Some m \<Rightarrow> m | None \<Rightarrow> 0) = sum_list (map snd acc) + n"
proof (induction acc)
  case (Cons p acc)
  then show ?case by (cases p) (auto simp: map_of_eq_None_iff split: option.splits)
qed simp

lemma add_category_sum: "distinct (map fst acc) \<Longrightarrow> sum_list (map snd (add_category acc c)) = sum_list (map snd acc) + 1"
  using sum_update [of acc c "(case map_of acc c of Some n \<Rightarrow> n | None \<Rightarrow> 0) + 1"] by (simp add: add_category_def)

lemma add_category_distinct: "distinct (map fst acc) \<Longrightarrow> distinct (map fst (add_category acc c))"
  by (simp add: add_category_def distinct_update)

lemma category_counts_sum: "sum_list (map snd (category_counts is)) = length is"
proof -
  have "distinct (map fst acc) \<Longrightarrow> sum_list (map snd (foldl add_category acc cs)) = sum_list (map snd acc) + length cs" for acc cs
    by (induction cs arbitrary: acc) (simp_all add: add_category_sum add_category_distinct)
  from this [of "[]" "map vi_category is"] show ?thesis by (simp add: category_counts_def)
qed

text \<open>Two opcodes the prefix patterns take for others: SUBSTR for a subtraction, LEFT for a comparison.\<close>

lemma splice_opcodes_mislabelled:
  "opcodeCategory ''SUBSTR'' = ''arithmetic'' \<and> opcodeExplanation ''SUBSTR'' None = ''Performs an integer arithmetic operation.''
   \<and> opcodeCategory ''LEFT'' = ''comparison'' \<and> opcodeExplanation ''LEFT'' None = ''Compares stack values and pushes a Boolean result.''"
  by code_simp

text \<open>
  A disassembly lists the tokens of the script in order: the first instruction starts at byte 0, each next
  one where its predecessor ends, the indices count up from 0, at most 2000 are listed, and the counts of the
  categories add up to the number of instructions.
\<close>

lemma disassembly_contiguous:
  assumes "decodeScript fromScript opname services input = Inr d"
  shows "length (da_instructions d) = da_instructionCount d \<and> da_instructionCount d \<le> MAX_SCRIPT_INSTRUCTIONS
       \<and> sum_list (map snd (da_categories d)) = da_instructionCount d
       \<and> (\<forall>k < length (da_instructions d). vi_index (da_instructions d ! k) = k
             \<and> vi_offset (da_instructions d ! k) = sum_list (map vi_size (take k (da_instructions d))))"
proof -
  from assms obtain tokens where len: "length tokens \<le> MAX_SCRIPT_INSTRUCTIONS"
    and d: "da_instructions d = instructions_from opname services 0 0 tokens" "da_instructionCount d = length tokens"
      "da_categories d = category_counts (da_instructions d)"
    by (auto simp: decodeScript_def Let_def bindR_def split: sum.splits if_splits)
  have sizes: "map vi_size (take k (instructions_from opname services i off ts)) = map (\<lambda>t. length (ot_script t) div 2) (take k ts)" for k i off ts
    by (induction ts arbitrary: k i off) (auto simp: take_Cons instruction_def Let_def split: nat.splits)
  show ?thesis using len by (simp add: d category_counts_sum instruction_index instruction_offset sizes)
qed

lemma disassembly_contiguous_witness:
  "\<exists>d. decodeScript (\<lambda>_. Inr [\<lparr>ot_code = 17, ot_params = [], ot_script = ''11''\<rparr>, \<lparr>ot_code = 64, ot_params = [], ot_script = ''40''\<rparr>])
      (\<lambda>_. None) [] [(''script'', JStr ''1140''), (''inputFormat'', JStr ''hex'')] = Inr d
    \<and> da_instructionCount d = 2 \<and> length (da_instructions d) = da_instructionCount d"
proof -
  let ?in = "[(''script'', JStr ''1140''), (''inputFormat'', JStr ''hex'')]"
  let ?parse = "\<lambda>_ :: string. Inr [\<lparr>ot_code = 17, ot_params = [], ot_script = ''11''\<rparr>, \<lparr>ot_code = 64, ot_params = [], ot_script = ''40''\<rparr>] :: js_error + op_token list"
  have r: "requireDataString ?in ''script'' = Inr ''1140''"
    by (simp add: requireDataString_def oget_def MAX_INPUT_BYTES_def utf8_bytes_def)
  have t: "trim ''1140'' = ''1140''" by (simp add: trim_def is_ws_def cc_def)
  have n: "normalizeHex ''1140'' = Inr ''1140''" by code_simp
  have o: "option_text ?in ''inputFormat'' ''auto'' = ''hex''" by code_simp
  have "\<exists>d. decodeScript ?parse (\<lambda>_. None) [] ?in = Inr d \<and> da_instructionCount d = 2"
    unfolding decodeScript_def by (simp add: r t n o bindR_def MAX_SCRIPT_INSTRUCTIONS_def Let_def)
  then obtain d where "decodeScript ?parse (\<lambda>_. None) [] ?in = Inr d" "da_instructionCount d = 2" by blast
  moreover from this(1) have "length (da_instructions d) = da_instructionCount d" using disassembly_contiguous by blast
  ultimately show ?thesis by blast
qed

end
