(* ===== verification/ProposalTools.thy ===== *)
theory ProposalTools
  imports Proposals NeoxRpc EvmAbi NeoData
begin

text \<open>
  src/handlers/proposal-tools.ts: the tools that simulate a transaction and build an unsigned proposal.
  The environment gives the read-only test invocation of the Neo service, the calls of a Neo X node
  (an instance is \<open>evm_rpc\<close> below, over the node client), the address functions of neon-js and the
  conversion of a text by \<open>Number\<close>. \<open>createSuccessResponse\<close> only wraps a value and is left out.

  The main result: a proposal is handed out only after the very call it stands for was simulated
  successfully (\<open>proposals_simulated\<close>).
\<close>

record tool_env =
  te_invoke :: "simulation_request \<Rightarrow> jsobj result"
  te_rpc :: "string \<Rightarrow> string \<Rightarrow> jsval list \<Rightarrow> jsval result"
  te_config :: neox_config
  te_isAddress :: "string \<Rightarrow> bool"
  te_scriptHash :: "string \<Rightarrow> string option"
  te_isPublicKey :: "string \<Rightarrow> bool"
  te_number :: "string \<Rightarrow> jsnum"

section \<open>Inputs and simulations\<close>

definition proposalString :: "jsval \<Rightarrow> string \<Rightarrow> string result" where
  "proposalString v field =
     (case v of
        JStr s \<Rightarrow> if trim s = [] then invalid (field @ '' must be a non-empty string'') else Inr (trim s)
      | _ \<Rightarrow> invalid (field @ '' must be a non-empty string''))"

record n3_simulation =
  z_state :: string
  z_gasConsumed :: "string option"
  z_exception :: jsval
  z_stack :: "jsval list"

definition shapeSimulation :: "jsobj \<Rightarrow> n3_simulation" where
  "shapeSimulation r =
     \<lparr>z_state = (case oget r ''state'' of JStr s \<Rightarrow> s | _ \<Rightarrow> ''UNKNOWN''),
      z_gasConsumed = (case oget r ''gasconsumed'' of JStr s \<Rightarrow> Some s | _ \<Rightarrow> None),
      z_exception = (if nullish (oget r ''exception'') then JNull else oget r ''exception''),
      z_stack = (case oget r ''stack'' of JArr vs \<Rightarrow> vs | _ \<Rightarrow> [])\<rparr>"

text \<open>The members \<open>type\<close> and \<open>value\<close> of a stack item; an array has neither.\<close>

definition item_props :: "jsval \<Rightarrow> jsobj option" where
  "item_props v = (case v of JArr vs \<Rightarrow> Some [] | _ \<Rightarrow> own_props v)"

definition simulationBooleanResultIsTrue :: "n3_simulation \<Rightarrow> bool" where
  "simulationBooleanResultIsTrue s =
     (case z_stack s of
        [] \<Rightarrow> False
      | first # rest \<Rightarrow>
          (case item_props first of
             None \<Rightarrow> False
           | Some entry \<Rightarrow>
               to_lower (or_empty (oget entry ''type'')) = ''boolean''
               \<and> (oget entry ''value'' = JBool True \<or> to_lower (or_empty (oget entry ''value'')) = ''true''
                  \<or> oget entry ''value'' = JNum (NInt 1) \<or> oget entry ''value'' = JStr ''1'')))"

definition rpc_signer_entry :: "jsval \<Rightarrow> signer result" where
  "rpc_signer_entry v =
     (case item_props v of
        None \<Rightarrow> invalid ''Each signer must be an object with account and scopes''
      | Some entry \<Rightarrow>
          bindR (proposalString (oget entry ''account'') ''signer.account'') (\<lambda>account.
          bindR (if oget entry ''scopes'' = JUndef then Inr ''CalledByEntry''
                 else proposalString (oget entry ''scopes'') ''signer.scopes'') (\<lambda>scopes.
          Inr \<lparr>s_account = account, s_scopes = scopes\<rparr>)))"

definition normalizeRpcSigners :: "jsval \<Rightarrow> signer list option result" where
  "normalizeRpcSigners v =
     (if nullish v then Inr None
      else case v of
        JArr vs \<Rightarrow> bindR (mapR rpc_signer_entry vs) (\<lambda>ss. Inr (Some ss))
      | _ \<Rightarrow> invalid ''signers must be an array'')"

definition proposal_network :: "jsobj \<Rightarrow> string result" where
  "proposal_network input =
     (let raw = (case oget input ''network'' of JStr s \<Rightarrow> to_lower (trim s) | _ \<Rightarrow> ''mainnet'') in
      if raw = ''mainnet'' \<or> raw = ''testnet'' then Inr raw else invalid ''Invalid network: '')"

text \<open>\<open>Number(v)\<close>\<close>

definition js_Number :: "tool_env \<Rightarrow> jsval \<Rightarrow> jsnum" where
  "js_Number env v =
     (case v of
        JUndef \<Rightarrow> NaN
      | JNull \<Rightarrow> NInt 0
      | JBool b \<Rightarrow> NInt (if b then 1 else 0)
      | JNum n \<Rightarrow> n
      | JBig i \<Rightarrow> NInt i
      | _ \<Rightarrow> te_number env (js_String v))"

definition byte_count :: "jsnum \<Rightarrow> bool" where
  "byte_count n \<longleftrightarrow> (case n of NInt i \<Rightarrow> 0 \<le> i \<and> i \<le> 255 | _ \<Rightarrow> False)"

definition reported_decimals :: "jsval \<Rightarrow> jsnum result" where
  "reported_decimals stack =
     (case stack of
        JArr (JNull # rest) \<Rightarrow> Inl (TypeError ''Cannot read properties of null'')
      | JArr (item # rest) \<Rightarrow>
          Inr (case (case item_props item of None \<Rightarrow> JUndef | Some entry \<Rightarrow> oget entry ''value'') of
                 JNum n \<Rightarrow> n
               | JStr s \<Rightarrow> if all_digits s then NInt (int (str_dec s)) else NaN
               | _ \<Rightarrow> NaN)
      | _ \<Rightarrow> Inr NaN)"

definition fetchTokenDecimals :: "tool_env \<Rightarrow> string \<Rightarrow> jsnum result" where
  "fetchTokenDecimals env scriptHash =
     bindR (te_invoke env \<lparr>r_scriptHash = scriptHash, r_operation = ''decimals'', r_params = [], r_signers = []\<rparr>) (\<lambda>r.
     bindR (reported_decimals (oget r ''stack'')) (\<lambda>decimals.
     if oget r ''state'' \<noteq> JStr ''HALT'' \<or> \<not> byte_count decimals
     then invalid ''Could not determine token decimals for '' else Inr decimals))"

definition attachSimulation :: "tool_env \<Rightarrow> n3_proposal \<Rightarrow> bool \<Rightarrow> (n3_proposal \<times> n3_simulation) result" where
  "attachSimulation env proposal requireBooleanTrue =
     bindR (simulationRequestFor (te_isAddress env) (te_scriptHash env) proposal) (\<lambda>request.
     bindR (te_invoke env request) (\<lambda>r.
     let simulation = shapeSimulation r in
     if to_upper (z_state simulation) \<noteq> ''HALT'' \<or> truthy (z_exception simulation)
     then invalid ''Transaction simulation failed''
     else if (n_operation proposal = ''transfer'' \<or> requireBooleanTrue) \<and> \<not> simulationBooleanResultIsTrue simulation
     then invalid ''Transaction simulation failed: ''
     else Inr (proposal, simulation)))"

section \<open>Neo N3\<close>

definition list_args :: "jsobj \<Rightarrow> jsval list result" where
  "list_args input =
     (case oget input ''args'' of JUndef \<Rightarrow> Inr [] | JArr vs \<Rightarrow> Inr vs | _ \<Rightarrow> invalid ''args must be an array'')"

definition handleN3TestInvoke :: "tool_env \<Rightarrow> jsobj \<Rightarrow> n3_simulation result" where
  "handleN3TestInvoke env input =
     bindR (proposalString (oget input ''scriptHash'') ''scriptHash'') (\<lambda>h.
     bindR (validateScriptHash (JStr h)) (\<lambda>scriptHash.
     bindR (proposalString (oget input ''operation'') ''operation'') (\<lambda>operation.
     bindR (list_args input) (\<lambda>rawArgs.
     bindR (formatContractParameters (te_isAddress env) (te_scriptHash env) (te_isPublicKey env) (JArr rawArgs)) (\<lambda>params.
     bindR (normalizeRpcSigners (oget input ''signers'')) (\<lambda>signers.
     let rpcSigners = map (\<lambda>s. if hex_0x 40 (s_account s) then s\<lparr>s_account := to_lower (s_account s)\<rparr> else s)
                        (case signers of None \<Rightarrow> [] | Some ss \<Rightarrow> ss) in
     bindR (te_invoke env \<lparr>r_scriptHash = scriptHash, r_operation = operation, r_params = params, r_signers = rpcSigners\<rparr>) (\<lambda>r.
     Inr (shapeSimulation r))))))))"

definition transfer_decimals :: "tool_env \<Rightarrow> jsobj \<Rightarrow> string \<Rightarrow> jsnum result" where
  "transfer_decimals env input scriptHash =
     (case defaultDecimalsForScriptHash scriptHash of
        Some d \<Rightarrow> Inr (NInt d)
      | None \<Rightarrow>
          if oget input ''decimals'' = JUndef then fetchTokenDecimals env scriptHash
          else let provided = js_Number env (oget input ''decimals'') in
            if byte_count provided then Inr provided else invalid ''decimals must be an integer between 0 and 255'')"

definition handleN3BuildTransfer :: "tool_env \<Rightarrow> jsobj \<Rightarrow> (n3_proposal \<times> n3_simulation) result" where
  "handleN3BuildTransfer env input =
     bindR (proposal_network input) (\<lambda>network.
     bindR (proposalString (oget input ''from'') ''from'') (\<lambda>sender.
     bindR (proposalString (oget input ''to'') ''to'') (\<lambda>receiver.
     bindR (proposalString (oget input ''asset'') ''asset'') (\<lambda>asset.
     bindR (proposalString (oget input ''amount'') ''amount'') (\<lambda>amount.
     bindR (resolveNep17ScriptHash (JStr asset)) (\<lambda>(scriptHash, symbol).
     bindR (transfer_decimals env input scriptHash) (\<lambda>decimals.
     bindR (buildN3TransferProposal (te_isAddress env) (te_scriptHash env) (te_isPublicKey env)
              \<lparr>t_network = network, t_from = JStr sender, t_to = JStr receiver, t_asset = JStr asset, t_amount = amount,
               t_decimals = decimals\<rparr>) (\<lambda>proposal.
     attachSimulation env proposal False))))))))"

definition build_invoke :: "tool_env \<Rightarrow> string \<Rightarrow> string \<Rightarrow> string \<Rightarrow> jsval list \<Rightarrow> string \<Rightarrow> signer list \<Rightarrow> n3_proposal result" where
  "build_invoke env network scriptHash operation args sender signers =
     buildN3InvokeProposal (te_isAddress env) (te_scriptHash env) (te_isPublicKey env)
       \<lparr>i_network = network, i_scriptHash = JStr scriptHash, i_operation = JStr operation, i_args = JArr args, i_from = JStr sender,
        i_signers = signers\<rparr>"

definition handleN3BuildInvoke :: "tool_env \<Rightarrow> jsobj \<Rightarrow> (n3_proposal \<times> n3_simulation) result" where
  "handleN3BuildInvoke env input =
     bindR (proposal_network input) (\<lambda>network.
     bindR (proposalString (oget input ''scriptHash'') ''scriptHash'') (\<lambda>scriptHash.
     bindR (proposalString (oget input ''operation'') ''operation'') (\<lambda>operation.
     bindR (proposalString (oget input ''from'') ''from'') (\<lambda>sender.
     bindR (list_args input) (\<lambda>rawArgs.
     bindR (normalizeRpcSigners (oget input ''signers'')) (\<lambda>signers.
     bindR (build_invoke env network scriptHash operation rawArgs sender (case signers of None \<Rightarrow> [] | Some ss \<Rightarrow> ss)) (\<lambda>proposal.
     attachSimulation env proposal False)))))))"

definition typed_arg :: "string \<Rightarrow> jsval \<Rightarrow> jsval" where
  "typed_arg t v = JObj [(''type'', JStr t), (''value'', v)]"

text \<open>\<open>/^(?:02|03)[0-9a-f]{64}$/\<close>\<close>

definition candidate_key :: "string \<Rightarrow> bool" where
  "candidate_key s \<longleftrightarrow> (starts_with s ''02'' \<or> starts_with s ''03'') \<and> length s = 66 \<and> list_all is_lower_hex (drop 2 s)"

definition vote_candidate :: "jsobj \<Rightarrow> string option result" where
  "vote_candidate input =
     (if nullish (oget input ''candidate'') then Inr None
      else bindR (proposalString (oget input ''candidate'') ''candidate'') (\<lambda>c.
        if candidate_key (to_lower c) then Inr (Some (to_lower c))
        else invalid ''candidate must be a compressed 33-byte public key, or omitted to unvote''))"

definition handleN3BuildVote :: "tool_env \<Rightarrow> jsobj \<Rightarrow> (n3_proposal \<times> n3_simulation) result" where
  "handleN3BuildVote env input =
     bindR (proposal_network input) (\<lambda>network.
     bindR (proposalString (oget input ''from'') ''from'') (\<lambda>sender.
     bindR (vote_candidate input) (\<lambda>candidate.
     bindR (build_invoke env network NEO_NATIVE_SCRIPT_HASH ''vote''
              [typed_arg ''Hash160'' (JStr sender),
               (case candidate of None \<Rightarrow> typed_arg ''Any'' JNull | Some c \<Rightarrow> typed_arg ''PublicKey'' (JStr c))] sender []) (\<lambda>proposal.
     attachSimulation env (proposal\<lparr>n_summary :=
       (case candidate of
          None \<Rightarrow> ''Remove the Neo N3 governance vote for '' @ sender @ '' on '' @ network @ ''.''
        | Some c \<Rightarrow> ''Vote from '' @ sender @ '' for candidate '' @ c @ '' on Neo N3 '' @ network @ ''.'')\<rparr>) True))))"

section \<open>Name service\<close>

definition NNS_SCRIPT_HASH :: "string \<Rightarrow> string" where
  "NNS_SCRIPT_HASH network =
     (if network = ''testnet'' then ''0xd4dbd72c8965b8f12c14d37ad57ddd91ee1d98cb'' else ''0x50ac1c37690cc2cfc594472833cf57505d5f46de'')"

definition NNS_RECORD_TYPES :: "(string \<times> int) list" where
  "NNS_RECORD_TYPES = [(''A'', 1), (''CNAME'', 5), (''TXT'', 16), (''AAAA'', 28)]"

definition drop_dot :: "string \<Rightarrow> string" where
  "drop_dot s = (if s \<noteq> [] \<and> last s = CHR ''.'' then butlast s else s)"

definition normalizeNnsDomain :: "jsval \<Rightarrow> string result" where
  "normalizeNnsDomain v =
     bindR (proposalString v ''domain'') (\<lambda>s.
     let domain = drop_dot (to_lower s) in
     if nns_re domain then Inr domain
     else invalid ''domain must be a valid .neo name using lowercase-compatible DNS label characters'')"

definition nnsRecordType :: "jsval \<Rightarrow> (string \<times> int) result" where
  "nnsRecordType v =
     bindR (proposalString v ''recordType'') (\<lambda>s.
     case map_of NNS_RECORD_TYPES (to_upper s) of
       None \<Rightarrow> invalid ''recordType must be A, CNAME, TXT, or AAAA''
     | Some t \<Rightarrow> Inr (to_upper s, t))"

record nns_request =
  nr_operation :: string
  nr_args :: "jsval list"
  nr_summary :: string
  nr_to :: "string option"
  nr_boolean :: bool

definition on_network :: "string \<Rightarrow> string" where
  "on_network network = '' on Neo N3 '' @ network @ ''.''"

definition nns_renew :: "tool_env \<Rightarrow> jsobj \<Rightarrow> string \<Rightarrow> string \<Rightarrow> nns_request result" where
  "nns_renew env input network domain =
     (let years = (if oget input ''years'' = JUndef then NInt 1 else js_Number env (oget input ''years'')) in
      case years of
        NInt n \<Rightarrow>
          if n < 1 \<or> 10 < n then invalid ''years must be an integer from 1 through 10''
          else Inr \<lparr>nr_operation = ''renew'', nr_args = [typed_arg ''String'' (JStr domain), typed_arg ''Integer'' (JStr (int_str n))],
                 nr_summary = ''Renew '' @ domain @ '' for '' @ int_str n @ '' year'' @ (if n = 1 then [] else ''s'') @ on_network network,
                 nr_to = None, nr_boolean = False\<rparr>
      | _ \<Rightarrow> invalid ''years must be an integer from 1 through 10'')"

definition nns_record :: "jsobj \<Rightarrow> string \<Rightarrow> string \<Rightarrow> bool \<Rightarrow> nns_request result" where
  "nns_record input network domain setting =
     bindR (nnsRecordType (oget input ''recordType'')) (\<lambda>(name, t).
     let args = [typed_arg ''String'' (JStr domain), typed_arg ''Integer'' (JStr (int_str t))] in
     if setting
     then bindR (proposalString (oget input ''data'') ''data'') (\<lambda>d.
       if name = ''TXT'' \<and> 255 < length d then invalid ''NNS TXT record data must not exceed 255 characters''
       else Inr \<lparr>nr_operation = ''setRecord'', nr_args = args @ [typed_arg ''String'' (JStr d)],
              nr_summary = ''Set the '' @ name @ '' record for '' @ domain @ '' to '' @ d @ on_network network,
              nr_to = None, nr_boolean = False\<rparr>)
     else Inr \<lparr>nr_operation = ''deleteRecord'', nr_args = args,
            nr_summary = ''Delete the '' @ name @ '' record for '' @ domain @ on_network network, nr_to = None, nr_boolean = False\<rparr>)"

definition nns_action :: "tool_env \<Rightarrow> jsobj \<Rightarrow> string \<Rightarrow> string \<Rightarrow> string \<Rightarrow> string \<Rightarrow> nns_request result" where
  "nns_action env input network sender domain action =
     (if action = ''register'' then
        Inr \<lparr>nr_operation = ''register'', nr_args = [typed_arg ''String'' (JStr domain), typed_arg ''Hash160'' (JStr sender)],
          nr_summary = ''Register '' @ domain @ '' to '' @ sender @ on_network network, nr_to = None, nr_boolean = True\<rparr>
      else if action = ''renew'' then nns_renew env input network domain
      else if action = ''set_record'' \<or> action = ''delete_record'' then nns_record input network domain (action = ''set_record'')
      else if action = ''transfer'' then
        bindR (proposalString (oget input ''to'') ''to'') (\<lambda>receiver.
        Inr \<lparr>nr_operation = ''transfer'',
          nr_args = [typed_arg ''Hash160'' (JStr receiver), typed_arg ''ByteArray'' (JStr (base64_encode (map cc domain))), typed_arg ''Any'' JNull],
          nr_summary = ''Transfer the NNS domain '' @ domain @ '' from '' @ sender @ '' to '' @ receiver @ on_network network,
          nr_to = Some receiver, nr_boolean = True\<rparr>)
      else invalid ''action must be register, renew, set_record, delete_record, or transfer'')"

definition handleN3BuildNnsOperation :: "tool_env \<Rightarrow> jsobj \<Rightarrow> (n3_proposal \<times> n3_simulation) result" where
  "handleN3BuildNnsOperation env input =
     bindR (proposal_network input) (\<lambda>network.
     bindR (proposalString (oget input ''from'') ''from'') (\<lambda>sender.
     bindR (normalizeNnsDomain (oget input ''domain'')) (\<lambda>domain.
     bindR (proposalString (oget input ''action'') ''action'') (\<lambda>action.
     bindR (nns_action env input network sender domain (to_lower action)) (\<lambda>request.
     bindR (build_invoke env network (NNS_SCRIPT_HASH network) (nr_operation request) (nr_args request) sender []) (\<lambda>proposal.
     attachSimulation env
       (proposal\<lparr>n_summary := nr_summary request, n_to := (case nr_to request of None \<Rightarrow> n_to proposal | Some t \<Rightarrow> Some t)\<rparr>)
       (nr_boolean request)))))))"

section \<open>Neo X\<close>

definition resolveNeoxNetworkParam :: "jsobj \<Rightarrow> string result" where
  "resolveNeoxNetworkParam input =
     resolveNeoxEvmNetwork (case oget input ''network'' of JStr s \<Rightarrow> if trim s = [] then JStr ''neox-mainnet'' else JStr s
                                                        | _ \<Rightarrow> JStr ''neox-mainnet'')"

record evm_call =
  k_from :: "string option"
  k_to :: string
  k_data :: "string option"
  k_value :: "string option"

definition buildEvmCallObject :: "evm_call \<Rightarrow> jsobj result" where
  "buildEvmCallObject c =
     bindR (case k_value c of None \<Rightarrow> Inr [] | Some v \<Rightarrow> bindR (toHexQuantity (JStr v)) (\<lambda>q. Inr [(''value'', JStr q)])) (\<lambda>value.
     Inr ([(''to'', JStr (k_to c))]
          @ (case k_from c of None \<Rightarrow> [] | Some a \<Rightarrow> if a = [] then [] else [(''from'', JStr a)])
          @ (case k_data c of None \<Rightarrow> [] | Some d \<Rightarrow> if d = [] \<or> d = ''0x'' then [] else [(''data'', JStr d)])
          @ value))"

record evm_preview =
  v_network :: string
  v_gasEstimate :: jsval
  v_gasPrice :: jsval
  v_callResult :: jsval
  v_revertReason :: "string option"

text \<open>The answers come in one \<open>Promise.all\<close>; only the price has to succeed. An absent result is \<open>undefined\<close>.\<close>

definition settled_value :: "jsval result \<Rightarrow> jsval" where
  "settled_value r = (case r of Inr v \<Rightarrow> v | Inl e \<Rightarrow> JUndef)"

definition settled_error :: "jsval result \<Rightarrow> string" where
  "settled_error r = (case r of Inr v \<Rightarrow> [] | Inl e \<Rightarrow> error_message e)"

definition simulateEvmCall :: "tool_env \<Rightarrow> string \<Rightarrow> jsobj \<Rightarrow> evm_preview result" where
  "simulateEvmCall env network call =
     (let callOutcome = te_rpc env network ''eth_call'' [JObj call, JStr ''latest''];
          gasOutcome = te_rpc env network ''eth_estimateGas'' [JObj call] in
      bindR (te_rpc env network ''eth_gasPrice'' []) (\<lambda>gasPrice.
      let revertReason = (if settled_error callOutcome \<noteq> [] then settled_error callOutcome else settled_error gasOutcome) in
      Inr \<lparr>v_network = network,
        v_gasEstimate = (if nullish (settled_value gasOutcome) then JNull else settled_value gasOutcome),
        v_gasPrice = gasPrice, v_callResult = settled_value callOutcome,
        v_revertReason = (if revertReason = [] then None else Some revertReason)\<rparr>))"

definition optional_input :: "jsobj \<Rightarrow> string \<Rightarrow> (jsval \<Rightarrow> string result) \<Rightarrow> string option result" where
  "optional_input input k f = (if oget input k = JUndef then Inr None else bindR (f (oget input k)) (\<lambda>s. Inr (Some s)))"

definition evm_party :: "jsobj \<Rightarrow> string \<Rightarrow> string result" where
  "evm_party input k = bindR (proposalString (oget input k) k) (\<lambda>s. validateEvmAddress (JStr s))"

definition handleXSimulateCall :: "tool_env \<Rightarrow> jsobj \<Rightarrow> evm_preview result" where
  "handleXSimulateCall env input =
     bindR (resolveNeoxNetworkParam input) (\<lambda>network.
     bindR (evm_party input ''to'') (\<lambda>to_addr.
     bindR (optional_input input ''from'' validateEvmAddress) (\<lambda>from_addr.
     bindR (optional_input input ''data'' normalizeCalldata) (\<lambda>data.
     bindR (optional_input input ''value'' (validateEvmAmount True)) (\<lambda>v.
     bindR (buildEvmCallObject \<lparr>k_from = from_addr, k_to = to_addr, k_data = data, k_value = v\<rparr>) (\<lambda>call.
     simulateEvmCall env network call))))))"

text \<open>The last steps of both builders: simulate the call, then build the transaction from the same parts.\<close>

definition simulated_tx :: "tool_env \<Rightarrow> string \<Rightarrow> string \<Rightarrow> string \<Rightarrow> string \<Rightarrow> string option \<Rightarrow> string \<Rightarrow> (evm_proposal \<times> evm_preview) result" where
  "simulated_tx env network from_addr to_addr v calldata summary =
     bindR (buildEvmCallObject \<lparr>k_from = Some from_addr, k_to = to_addr, k_data = calldata, k_value = Some v\<rparr>) (\<lambda>call.
     bindR (simulateEvmCall env network call) (\<lambda>simulation.
     if v_revertReason simulation \<noteq> None \<or> \<not> truthy (v_gasEstimate simulation) then invalid ''Transaction simulation failed''
     else bindR (buildEvmTxProposal
         \<lparr>e_network = network, e_from = JStr from_addr, e_to = JStr to_addr, e_valueWei = JStr v,
          e_data = JStr (case calldata of None \<Rightarrow> ''0x'' | Some d \<Rightarrow> d),
          e_chainId = NInt (neoxChainId (te_config env) network), e_gas = v_gasEstimate simulation,
          e_gasPrice = v_gasPrice simulation, e_summaryText = Some summary\<rparr>) (\<lambda>proposal.
       Inr (proposal, simulation))))"

definition handleXBuildTransfer :: "tool_env \<Rightarrow> jsobj \<Rightarrow> (evm_proposal \<times> evm_preview) result" where
  "handleXBuildTransfer env input =
     bindR (resolveNeoxNetworkParam input) (\<lambda>network.
     bindR (evm_party input ''from'') (\<lambda>from_addr.
     bindR (evm_party input ''to'') (\<lambda>to_addr.
     bindR (proposalString (oget input ''amountWei'') ''amountWei'') (\<lambda>amount.
     bindR (validateEvmAmount False (JStr amount)) (\<lambda>v.
     simulated_tx env network from_addr to_addr v None
       (''Transfer '' @ v @ '' wei from '' @ from_addr @ '' to '' @ to_addr @ '' on Neo X '' @ network @ ''.''))))))"

text \<open>The call data and the signature it was encoded from, if any.\<close>

definition contract_calldata :: "jsobj \<Rightarrow> (string \<times> string option) result" where
  "contract_calldata input =
     (if \<not> nullish (oget input ''data'') \<and> oget input ''data'' \<noteq> JStr []
      then bindR (normalizeCalldata (oget input ''data'')) (\<lambda>d. Inr (d, None))
      else if oget input ''functionSignature'' \<noteq> JUndef
      then bindR (proposalString (oget input ''functionSignature'') ''functionSignature'') (\<lambda>signature.
        bindR (case oget input ''args'' of JUndef \<Rightarrow> Inr [] | JArr vs \<Rightarrow> Inr vs
                                         | _ \<Rightarrow> invalid ''args must be an array when using functionSignature'') (\<lambda>args.
        bindR (encodeFunctionCall (JStr signature) (JArr args)) (\<lambda>d. Inr (d, Some signature))))
      else invalid (''Provide either pre-encoded '' @ [CHR 0x22] @ ''data'' @ [CHR 0x22] @ '' or a '' @ [CHR 0x22] @ ''functionSignature''
             @ [CHR 0x22] @ '' (+ args) to encode.''))"

definition call_value :: "jsobj \<Rightarrow> string result" where
  "call_value input = (if oget input ''valueWei'' = JUndef then Inr ''0'' else validateEvmAmount True (oget input ''valueWei''))"

definition handleXBuildContractCall :: "tool_env \<Rightarrow> jsobj \<Rightarrow> ((evm_proposal \<times> evm_preview) \<times> string) result" where
  "handleXBuildContractCall env input =
     bindR (resolveNeoxNetworkParam input) (\<lambda>network.
     bindR (evm_party input ''from'') (\<lambda>from_addr.
     bindR (evm_party input ''to'') (\<lambda>to_addr.
     bindR (contract_calldata input) (\<lambda>(calldata, encodedFrom).
     bindR (call_value input) (\<lambda>v.
     bindR (simulated_tx env network from_addr to_addr v (Some calldata)
         (case encodedFrom of
            Some signature \<Rightarrow> ''Call '' @ signature @ '' on '' @ to_addr @ '' (Neo X '' @ network @ ''), from '' @ from_addr @ ''.''
          | None \<Rightarrow> ''Call '' @ to_addr @ '' with '' @ int_str (int (length calldata div 2) - 1) @ '' bytes of calldata (Neo X '' @ network
                     @ ''), from '' @ from_addr @ ''.'')) (\<lambda>built.
     Inr (built, calldata)))))))"

section \<open>Dispatch\<close>

datatype proposal_answer =
    Simulated n3_simulation
  | N3_built n3_proposal n3_simulation
  | Previewed evm_preview
  | X_built evm_proposal evm_preview "string option"

definition N3_PROPOSAL_TOOLS :: "string list" where
  "N3_PROPOSAL_TOOLS = [''n3_test_invoke'', ''n3_build_transfer'', ''n3_build_invoke'', ''n3_build_vote'', ''n3_build_nns_operation'']"

definition NEOX_PROPOSAL_TOOLS :: "string list" where
  "NEOX_PROPOSAL_TOOLS = [''x_simulate_call'', ''x_build_transfer'', ''x_build_contract_call'']"

definition n3_answer :: "(n3_proposal \<times> n3_simulation) result \<Rightarrow> proposal_answer result" where
  "n3_answer r = bindR r (\<lambda>(p, s). Inr (N3_built p s))"

definition dispatchN3ProposalTool :: "tool_env \<Rightarrow> string \<Rightarrow> jsobj \<Rightarrow> proposal_answer result" where
  "dispatchN3ProposalTool env name input =
     (if name = ''n3_test_invoke'' then bindR (handleN3TestInvoke env input) (\<lambda>s. Inr (Simulated s))
      else if name = ''n3_build_transfer'' then n3_answer (handleN3BuildTransfer env input)
      else if name = ''n3_build_invoke'' then n3_answer (handleN3BuildInvoke env input)
      else if name = ''n3_build_vote'' then n3_answer (handleN3BuildVote env input)
      else if name = ''n3_build_nns_operation'' then n3_answer (handleN3BuildNnsOperation env input)
      else invalid ''Unknown Neo N3 proposal tool: '')"

definition dispatchNeoxProposalTool :: "tool_env \<Rightarrow> string \<Rightarrow> jsobj \<Rightarrow> proposal_answer result" where
  "dispatchNeoxProposalTool env name input =
     (if name = ''x_simulate_call'' then bindR (handleXSimulateCall env input) (\<lambda>v. Inr (Previewed v))
      else if name = ''x_build_transfer'' then bindR (handleXBuildTransfer env input) (\<lambda>(p, v). Inr (X_built p v None))
      else if name = ''x_build_contract_call'' then bindR (handleXBuildContractCall env input) (\<lambda>((p, v), d). Inr (X_built p v (Some d)))
      else invalid ''Unknown Neo X proposal tool: '')"

text \<open>The calls of a Neo X node through the node client; \<open>net m\<close> is the network during the call of \<open>m\<close>.\<close>

definition evm_rpc ::
    "(string \<Rightarrow> url_parts option) \<Rightarrow> (nat list \<Rightarrow> jsval option) \<Rightarrow> neox_config \<Rightarrow> (string \<Rightarrow> nat \<Rightarrow> evm_post \<Rightarrow> evm_exchange)
      \<Rightarrow> string \<Rightarrow> string \<Rightarrow> jsval list \<Rightarrow> jsval result" where
  "evm_rpc parseURL parseJSON cfg net network verb params =
     (case fst (callEvmRpc parseURL parseJSON cfg (net verb) network (JStr verb) (JArr params)) of
        Inr v \<Rightarrow> Inr v
      | Inl (Some (Refused e)) \<Rightarrow> Inl e
      | Inl (Some (NetworkFailure mark m)) \<Rightarrow> Inl (NetworkError m)
      | Inl None \<Rightarrow> Inl (GenericError []))"

section \<open>A proposal was simulated\<close>

lemma attachSimulation_Inr:
  "attachSimulation env proposal bool = Inr (p, s) \<longleftrightarrow>
     p = proposal \<and> (\<exists>request r. simulationRequestFor (te_isAddress env) (te_scriptHash env) proposal = Inr request
       \<and> te_invoke env request = Inr r \<and> s = shapeSimulation r
       \<and> to_upper (z_state s) = ''HALT'' \<and> \<not> truthy (z_exception s)
       \<and> (n_operation proposal = ''transfer'' \<or> bool \<longrightarrow> simulationBooleanResultIsTrue s))"
  by (auto simp: attachSimulation_def result_simps Let_def split: if_splits)

definition simulated_as :: "tool_env \<Rightarrow> n3_proposal \<Rightarrow> n3_simulation \<Rightarrow> bool" where
  "simulated_as env p s \<longleftrightarrow> to_upper (z_state s) = ''HALT'' \<and> \<not> truthy (z_exception s)
     \<and> (\<exists>signers r. mapR (rpc_signer (te_isAddress env) (te_scriptHash env)) (n_signers p) = Inr signers
          \<and> te_invoke env \<lparr>r_scriptHash = n_scriptHash p, r_operation = n_operation p, r_params = n_args p, r_signers = signers\<rparr> = Inr r
          \<and> s = shapeSimulation r)"

lemma attached_simulated:
  assumes "attachSimulation env proposal bool = Inr (p, s)"
  shows "simulated_as env p s" and "n_operation p = ''transfer'' \<or> bool \<Longrightarrow> simulationBooleanResultIsTrue s" and "p = proposal"
proof -
  obtain request r where "p = proposal" "simulationRequestFor (te_isAddress env) (te_scriptHash env) proposal = Inr request"
    "te_invoke env request = Inr r" "s = shapeSimulation r" "to_upper (z_state s) = ''HALT''" "\<not> truthy (z_exception s)"
    "n_operation proposal = ''transfer'' \<or> bool \<longrightarrow> simulationBooleanResultIsTrue s"
    using assms attachSimulation_Inr by blast
  moreover from this obtain signers where "mapR (rpc_signer (te_isAddress env) (te_scriptHash env)) (n_signers p) = Inr signers"
    "request = \<lparr>r_scriptHash = n_scriptHash p, r_operation = n_operation p, r_params = n_args p, r_signers = signers\<rparr>"
    by (auto simp: simulationRequestFor_def result_simps)
  ultimately show "simulated_as env p s" "n_operation p = ''transfer'' \<or> bool \<Longrightarrow> simulationBooleanResultIsTrue s" "p = proposal"
    by (auto simp: simulated_as_def)
qed

lemma built_invoke:
  "build_invoke env network h operation args sender signers = Inr p \<Longrightarrow> trim operation = operation \<Longrightarrow> n_operation p = operation"
  by (auto simp: build_invoke_def buildN3InvokeProposal_def result_simps Let_def split: if_splits)

text \<open>
  C29: a Neo N3 tool hands out a proposal only after the node ran exactly its call (contract, operation, arguments,
  signers) to HALT without an exception; a transfer and a vote have in addition returned true.
\<close>

theorem n3_proposals_simulated:
  assumes "dispatchN3ProposalTool env name input = Inr (N3_built p s)"
  shows "simulated_as env p s \<and> (n_operation p = ''transfer'' \<or> name = ''n3_build_vote'' \<longrightarrow> simulationBooleanResultIsTrue s)"
proof -
  have "\<exists>proposal bool. attachSimulation env proposal bool = Inr (p, s) \<and> (name = ''n3_build_vote'' \<longrightarrow> bool)"
    using assms
    by (auto simp: dispatchN3ProposalTool_def n3_answer_def result_simps handleN3BuildTransfer_def handleN3BuildInvoke_def
        handleN3BuildVote_def handleN3BuildNnsOperation_def split: if_splits)
  then show ?thesis using attached_simulated by blast
qed

lemma amount_again: "validateEvmAmount z v = Inr t \<Longrightarrow> validateEvmAmount True (JStr t) = Inr t"
  using evm_amount_canonical [of z v t] evm_amount_canonical [of True "JStr t" t]
  by (auto simp: validateEvmAmount_def result_simps split: if_splits)

definition call_matches :: "jsobj \<Rightarrow> evm_tx \<Rightarrow> bool" where
  "call_matches call tx \<longleftrightarrow> oget call ''from'' = JStr (x_from tx) \<and> oget call ''to'' = JStr (x_to tx)
     \<and> oget call ''value'' = JStr (x_value tx) \<and> normalizeCalldata (oget call ''data'') = Inr (x_data tx)"

lemma call_of_tx:
  assumes "buildEvmCallObject \<lparr>k_from = Some a, k_to = b, k_data = calldata, k_value = Some v\<rparr> = Inr call"
    and "buildEvmTxProposal \<lparr>e_network = network, e_from = JStr a, e_to = JStr b, e_valueWei = JStr v,
      e_data = JStr (case calldata of None \<Rightarrow> ''0x'' | Some d \<Rightarrow> d), e_chainId = c, e_gas = gas, e_gasPrice = price, e_summaryText = t\<rparr> = Inr p"
    and "validateEvmAddress (JStr a) = Inr a" and "validateEvmAddress (JStr b) = Inr b" and "validateEvmAmount True (JStr v) = Inr v"
  shows "call_matches call (ep_tx p) \<and> ep_network p = network \<and> toHexQuantity gas = Inr (x_gas (ep_tx p))"
proof -
  obtain d q where d: "normalizeCalldata (JStr (case calldata of None \<Rightarrow> ''0x'' | Some d \<Rightarrow> d)) = Inr d"
    and q: "toHexQuantity (JStr v) = Inr q" and tx: "x_from (ep_tx p) = a" "x_to (ep_tx p) = b" "x_value (ep_tx p) = q" "x_data (ep_tx p) = d"
      "ep_network p = network" "toHexQuantity gas = Inr (x_gas (ep_tx p))"
    using assms(2-5) by (auto simp: buildEvmTxProposal_def result_simps split: if_splits)
  have a: "a \<noteq> []" using assms(3) by (auto simp: validateEvmAddress_def)
  have empty: "normalizeCalldata JUndef = Inr ''0x''" "normalizeCalldata (JStr []) = Inr ''0x''" "normalizeCalldata (JStr ''0x'') = Inr ''0x''"
    by (simp_all add: normalizeCalldata_def starts_with_def to_lower_def)
  have call: "call = [(''to'', JStr b), (''from'', JStr a)]
      @ (case calldata of None \<Rightarrow> [] | Some d \<Rightarrow> if d = [] \<or> d = ''0x'' then [] else [(''data'', JStr d)]) @ [(''value'', JStr q)]"
    using assms(1) a q by (simp add: buildEvmCallObject_def)
  have data: "normalizeCalldata (oget call ''data'') = Inr d"
    using d empty by (cases calldata) (auto simp: call split: if_splits)
  have "oget call ''value'' = JStr q" by (cases calldata) (auto simp: call)
  with data tx show ?thesis by (simp add: call_matches_def call)
qed

lemma simulated_tx_Inr:
  assumes "simulated_tx env network a b v calldata summary = Inr (p, s)"
    and "validateEvmAddress (JStr a) = Inr a" and "validateEvmAddress (JStr b) = Inr b" and "validateEvmAmount True (JStr v) = Inr v"
  shows "\<exists>call gas. call_matches call (ep_tx p) \<and> toHexQuantity gas = Inr (x_gas (ep_tx p)) \<and> v_revertReason s = None
    \<and> te_rpc env (ep_network p) ''eth_estimateGas'' [JObj call] = Inr gas
    \<and> settled_error (te_rpc env (ep_network p) ''eth_call'' [JObj call, JStr ''latest'']) = []"
proof -
  obtain call where call: "buildEvmCallObject \<lparr>k_from = Some a, k_to = b, k_data = calldata, k_value = Some v\<rparr> = Inr call"
    and sim: "simulateEvmCall env network call = Inr s" and ok: "v_revertReason s = None" "truthy (v_gasEstimate s)"
    and built: "buildEvmTxProposal \<lparr>e_network = network, e_from = JStr a, e_to = JStr b, e_valueWei = JStr v,
      e_data = JStr (case calldata of None \<Rightarrow> ''0x'' | Some d \<Rightarrow> d), e_chainId = NInt (neoxChainId (te_config env) network),
      e_gas = v_gasEstimate s, e_gasPrice = v_gasPrice s, e_summaryText = Some summary\<rparr> = Inr p"
    using assms(1) by (auto simp: simulated_tx_def result_simps split: if_splits)
  have m: "call_matches call (ep_tx p)" "ep_network p = network" "toHexQuantity (v_gasEstimate s) = Inr (x_gas (ep_tx p))"
    using call_of_tx [OF call built assms(2-4)] by auto
  have "te_rpc env network ''eth_estimateGas'' [JObj call] = Inr (v_gasEstimate s)"
    "settled_error (te_rpc env network ''eth_call'' [JObj call, JStr ''latest'']) = []"
    using sim ok by (auto simp: simulateEvmCall_def Let_def result_simps settled_value_def split: if_splits sum.splits)
  with m ok show ?thesis by metis
qed

lemma evm_party_again: "evm_party input k = Inr a \<Longrightarrow> validateEvmAddress (JStr a) = Inr a"
  using evm_address_normal_form by (auto simp: evm_party_def result_simps)

definition tx_simulated :: "tool_env \<Rightarrow> evm_proposal \<Rightarrow> evm_preview \<Rightarrow> bool" where
  "tx_simulated env p v \<longleftrightarrow> (\<exists>call gas. call_matches call (ep_tx p) \<and> toHexQuantity gas = Inr (x_gas (ep_tx p)) \<and> v_revertReason v = None
    \<and> te_rpc env (ep_network p) ''eth_estimateGas'' [JObj call] = Inr gas
    \<and> settled_error (te_rpc env (ep_network p) ''eth_call'' [JObj call, JStr ''latest'']) = [])"

lemma transfer_simulated:
  assumes "handleXBuildTransfer env input = Inr (p, v)" shows "tx_simulated env p v"
proof -
  obtain network a b amount w summary where "evm_party input ''from'' = Inr a" "evm_party input ''to'' = Inr b"
    "validateEvmAmount False (JStr amount) = Inr w" and tx: "simulated_tx env network a b w None summary = Inr (p, v)"
    using assms by (auto simp: handleXBuildTransfer_def result_simps)
  then have "validateEvmAddress (JStr a) = Inr a" "validateEvmAddress (JStr b) = Inr b" "validateEvmAmount True (JStr w) = Inr w"
    using evm_party_again amount_again by blast+
  from simulated_tx_Inr [OF tx this] show ?thesis unfolding tx_simulated_def .
qed

lemma contract_call_simulated:
  assumes "handleXBuildContractCall env input = Inr ((p, v), d)" shows "tx_simulated env p v"
proof -
  have zero: "validateEvmAmount True (JStr ''0'') = Inr ''0''" by code_simp
  obtain network a b w calldata summary where "evm_party input ''from'' = Inr a" "evm_party input ''to'' = Inr b"
    and w: "call_value input = Inr w"
    and tx: "simulated_tx env network a b w (Some calldata) summary = Inr (p, v)"
    using assms by (auto simp: handleXBuildContractCall_def result_simps)
  then have "validateEvmAddress (JStr a) = Inr a" "validateEvmAddress (JStr b) = Inr b" using evm_party_again by blast+
  moreover have "validateEvmAmount True (JStr w) = Inr w" using w zero amount_again by (auto simp: call_value_def split: if_splits)
  ultimately show ?thesis using simulated_tx_Inr [OF tx] unfolding tx_simulated_def by blast
qed

text \<open>
  A Neo X tool hands out a transaction only after the node ran the call with the same sender, recipient, value and
  data without a reported error; its gas is the estimate of that call.
\<close>

lemma x_proposals_simulated:
  assumes "dispatchNeoxProposalTool env name input = Inr (X_built p v d)"
  shows "\<exists>call gas. call_matches call (ep_tx p) \<and> toHexQuantity gas = Inr (x_gas (ep_tx p)) \<and> v_revertReason v = None
    \<and> te_rpc env (ep_network p) ''eth_estimateGas'' [JObj call] = Inr gas
    \<and> settled_error (te_rpc env (ep_network p) ''eth_call'' [JObj call, JStr ''latest'']) = []"
proof -
  have "tx_simulated env p v"
    using assms transfer_simulated contract_call_simulated
    by (auto simp: dispatchNeoxProposalTool_def result_simps split: if_splits)
  then show ?thesis unfolding tx_simulated_def .
qed

section \<open>Concrete tools\<close>

definition demo_tools :: tool_env where
  "demo_tools = \<lparr>te_invoke = (\<lambda>r. Inr [(''state'', JStr ''HALT''), (''gasconsumed'', JStr ''10''), (''exception'', JNull),
       (''stack'', JArr [JObj [(''type'', JStr ''Boolean''), (''value'', JBool True)]])]),
     te_rpc = (\<lambda>n m ps. Inr (JStr ''0x3'')),
     te_config = \<lparr>testnetEnabled = True, mainnetRpcUrls = JUndef, testnetRpcUrls = JUndef, mainnetChainId = 12, testnetChainId = 13\<rparr>,
     te_isAddress = (\<lambda>a. True), te_scriptHash = (\<lambda>a. Some (replicate 40 CHR ''a'')), te_isPublicKey = (\<lambda>k. True),
     te_number = (\<lambda>t. NaN)\<rparr>"

definition demo_vote :: jsobj where
  "demo_vote = [(''from'', JStr (replicate 34 CHR ''N''))]"

definition demo_x_transfer :: jsobj where
  "demo_x_transfer = [(''from'', JStr (''0x'' @ replicate 40 CHR ''A'')), (''to'', JStr (''0x'' @ replicate 40 CHR ''b'')), (''amountWei'', JStr ''17'')]"

definition is_x_built :: "proposal_answer result \<Rightarrow> bool" where
  "is_x_built r = (case r of Inr (X_built p v d) \<Rightarrow> x_gas (ep_tx p) = ''0x3'' \<and> x_value (ep_tx p) = ''0x11'' | _ \<Rightarrow> False)"

lemma demo_x: "is_x_built (dispatchNeoxProposalTool demo_tools ''x_build_transfer'' demo_x_transfer)"
  by code_simp

lemma x_proposals_simulated_witness:
  "\<exists>p v d. dispatchNeoxProposalTool demo_tools ''x_build_transfer'' demo_x_transfer = Inr (X_built p v d)
     \<and> (\<exists>call. call_matches call (ep_tx p) \<and> oget call ''value'' = JStr ''0x11'')"
proof -
  obtain p v d where p: "dispatchNeoxProposalTool demo_tools ''x_build_transfer'' demo_x_transfer = Inr (X_built p v d)"
    "x_value (ep_tx p) = ''0x11''"
    using demo_x by (auto simp: is_x_built_def split: sum.splits proposal_answer.splits)
  from x_proposals_simulated [OF p(1)] p show ?thesis by (auto simp: call_matches_def)
qed

definition is_n3_built :: "proposal_answer result \<Rightarrow> bool" where
  "is_n3_built r = (case r of Inr (N3_built p s) \<Rightarrow> n_operation p = ''vote'' \<and> length (n_args p) = 2 | _ \<Rightarrow> False)"

lemma demo_n3: "is_n3_built (dispatchN3ProposalTool demo_tools ''n3_build_vote'' demo_vote)"
  by code_simp

lemma n3_proposals_simulated_witness:
  "\<exists>p s. dispatchN3ProposalTool demo_tools ''n3_build_vote'' demo_vote = Inr (N3_built p s)
     \<and> n_operation p = ''vote'' \<and> simulated_as demo_tools p s \<and> simulationBooleanResultIsTrue s"
proof -
  obtain p s where p: "dispatchN3ProposalTool demo_tools ''n3_build_vote'' demo_vote = Inr (N3_built p s)" "n_operation p = ''vote''"
    using demo_n3 by (auto simp: is_n3_built_def split: sum.splits proposal_answer.splits)
  from n3_proposals_simulated [OF p(1)] p show ?thesis by auto
qed

end
