(* ===== verification/Traces.thy ===== *)
theory Traces
  imports Prelude
begin

text \<open>
  Handlers that call services: a value of type \<open>('c, 'a) traced\<close> is the list of the calls a handler made,
  in order, and its result. After an error nothing more is called. \<open>calls_in P\<close> says that every call
  satisfies \<open>P\<close>; the rules of \<open>calls_intros\<close> reduce it to the single calls.
\<close>

type_synonym ('c, 'a) traced = "'c list \<times> 'a result"

definition giveH :: "'a result \<Rightarrow> ('c, 'a) traced" where
  "giveH r = ([], r)"

definition callH :: "'c \<Rightarrow> 'a result \<Rightarrow> ('c, 'a) traced" where
  "callH c r = ([c], r)"

definition bindH :: "('c, 'a) traced \<Rightarrow> ('a \<Rightarrow> ('c, 'b) traced) \<Rightarrow> ('c, 'b) traced" where
  "bindH m f = (case snd m of Inl e \<Rightarrow> (fst m, Inl e) | Inr a \<Rightarrow> (fst m @ fst (f a), snd (f a)))"

definition liftH :: "'a result \<Rightarrow> ('a \<Rightarrow> ('c, 'b) traced) \<Rightarrow> ('c, 'b) traced" where
  "liftH r f = (case r of Inl e \<Rightarrow> ([], Inl e) | Inr a \<Rightarrow> f a)"

text \<open>\<open>try\<close> and \<open>catch\<close> where the handler of the error calls nothing; and the settled outcome of a promise.\<close>

definition catchH :: "('c, 'a) traced \<Rightarrow> (js_error \<Rightarrow> 'a result) \<Rightarrow> ('c, 'a) traced" where
  "catchH m h = (case snd m of Inl e \<Rightarrow> (fst m, h e) | Inr a \<Rightarrow> m)"

definition settleH :: "('c, 'a) traced \<Rightarrow> ('c, 'a result) traced" where
  "settleH m = (fst m, Inr (snd m))"

definition calls_in :: "('c \<Rightarrow> bool) \<Rightarrow> ('c, 'a) traced \<Rightarrow> bool" where
  "calls_in P m \<longleftrightarrow> list_all P (fst m)"

named_theorems calls_intros \<open>the calls a handler makes\<close>

lemma calls_giveH [calls_intros]: "calls_in P (giveH r)"
  by (simp add: calls_in_def giveH_def)

lemma calls_callH [calls_intros]: "P c \<Longrightarrow> calls_in P (callH c r)"
  by (simp add: calls_in_def callH_def)

lemma calls_bindH [calls_intros]:
  "calls_in P m \<Longrightarrow> (\<And>a. snd m = Inr a \<Longrightarrow> calls_in P (f a)) \<Longrightarrow> calls_in P (bindH m f)"
  by (auto simp: calls_in_def bindH_def split: sum.splits)

lemma calls_liftH [calls_intros]: "(\<And>a. r = Inr a \<Longrightarrow> calls_in P (f a)) \<Longrightarrow> calls_in P (liftH r f)"
  by (auto simp: calls_in_def liftH_def split: sum.splits)

lemma calls_catchH [calls_intros]: "calls_in P m \<Longrightarrow> calls_in P (catchH m h)"
  by (auto simp: calls_in_def catchH_def split: sum.splits)

lemma calls_settleH [calls_intros]: "calls_in P m \<Longrightarrow> calls_in P (settleH m)"
  by (simp add: calls_in_def settleH_def)

lemma calls_if [calls_intros]:
  "(b \<Longrightarrow> calls_in P m) \<Longrightarrow> (\<not> b \<Longrightarrow> calls_in P m') \<Longrightarrow> calls_in P (if b then m else m')"
  by simp

lemma calls_pair [calls_intros]:
  "(\<And>a b. p = (a, b) \<Longrightarrow> calls_in P (f a b)) \<Longrightarrow> calls_in P (case p of (a, b) \<Rightarrow> f a b)"
  by (cases p) simp

lemma calls_option [calls_intros]:
  "(v = None \<Longrightarrow> calls_in P m) \<Longrightarrow> (\<And>a. v = Some a \<Longrightarrow> calls_in P (f a)) \<Longrightarrow> calls_in P (case v of None \<Rightarrow> m | Some a \<Rightarrow> f a)"
  by (cases v) auto

lemma calls_each: "(\<And>c. c \<in> set (fst m) \<Longrightarrow> P c) \<Longrightarrow> calls_in P m"
  by (simp add: calls_in_def list_all_iff)

text \<open>The calls of an inner client, as calls of the outer one.\<close>

definition mapH :: "('c \<Rightarrow> 'd) \<Rightarrow> ('c, 'a) traced \<Rightarrow> ('d, 'a) traced" where
  "mapH f m = (map f (fst m), snd m)"

lemma calls_mapH: "calls_in (\<lambda>c. P (f c)) m \<Longrightarrow> calls_in P (mapH f m)"
  by (simp add: calls_in_def mapH_def list_all_iff)

lemma calls_mono: "calls_in P m \<Longrightarrow> (\<And>c. P c \<Longrightarrow> Q c) \<Longrightarrow> calls_in Q m"
  by (auto simp: calls_in_def list_all_iff)

lemma bindH_Inr: "snd (bindH m f) = Inr b \<longleftrightarrow> (\<exists>a. snd m = Inr a \<and> snd (f a) = Inr b)"
  by (auto simp: bindH_def split: sum.splits)

end
