(* ===== verification/NeoxTools.thy ===== *)
theory NeoxTools
  imports NeoxRpc EvmAbi Amounts Traces
begin

text \<open>
  src/handlers/neox-node-tools.ts: the seven questions answered by a live Neo X node. The calls go
  through \<open>neoxNodeCall\<close> of the adapter; the trace of a handler is the list of the posts that were sent.
  \<open>net m\<close> is the network during the call of the JSON-RPC method \<open>m\<close> (no handler calls one twice).
  \<open>createSuccessResponse\<close> only wraps and is left out.

  An error of a handler is what \<open>handleError\<close> makes the reply from.

  The main results: nothing but reads is sent (\<open>neox_tools_read_only\<close>), what a status says (\<open>neox_status_truthful\<close>) and exact decimal amounts
  (\<open>formatUnits_scales\<close>).
\<close>

record neox_env =
  ne_parseURL :: "string \<Rightarrow> url_parts option"
  ne_parseJSON :: "nat list \<Rightarrow> jsval option"
  ne_config :: neox_config
  ne_net :: "string \<Rightarrow> nat \<Rightarrow> evm_post \<Rightarrow> evm_exchange"

type_synonym 'a node_read = "(evm_post, 'a) traced"

text \<open>The error a failed call is thrown as; the last case does not arise, as there is always an endpoint to ask.\<close>

fun failure_error :: "evm_failure option \<Rightarrow> js_error" where
  "failure_error (Some (Refused e)) = e"
| "failure_error (Some (NetworkFailure mark m)) = NetworkError m"
| "failure_error None = GenericError []"

definition node_call :: "neox_env \<Rightarrow> jsval \<Rightarrow> string \<Rightarrow> jsval list \<Rightarrow> jsval node_read" where
  "node_call env network rpc params =
     (case neoxNodeCall (ne_parseURL env) (ne_parseJSON env) (ne_config env) (ne_net env rpc) network (JStr rpc) (JArr params) of
        (Inl e, posts) \<Rightarrow> (posts, Inl (failure_error e))
      | (Inr v, posts) \<Rightarrow> (posts, Inr v))"

section \<open>Inputs and quantities\<close>

definition NEOX_NATIVE_DECIMALS :: nat where "NEOX_NATIVE_DECIMALS = 18"

definition BLOCK_TAGS :: "string list" where
  "BLOCK_TAGS = [''latest'', ''earliest'', ''pending'', ''safe'', ''finalized'']"

definition NEOX_NODE_TOOLS :: "string list" where
  "NEOX_NODE_TOOLS =
     [''x_node_get_chain_info'', ''x_node_get_block_height'', ''x_node_get_block'', ''x_node_get_transaction'',
      ''x_node_get_balance'', ''x_node_get_transaction_status'', ''x_node_call_contract'']"

definition neox_requested :: "jsobj \<Rightarrow> jsval result" where
  "neox_requested input =
     (case oget input ''network'' of
        JStr s \<Rightarrow> Inr (JStr s)
      | v \<Rightarrow> if nullish v then Inr JUndef else invalid ''network must be a string ('')"

definition reportedNetwork :: "jsobj \<Rightarrow> string result" where
  "reportedNetwork input =
     bindR (neox_requested input) (\<lambda>v. Inr
       (case v of JStr raw \<Rightarrow> if trim raw \<noteq> [] \<and> includes_str (to_lower raw) ''test'' then ''testnet'' else ''mainnet''
                | _ \<Rightarrow> ''mainnet''))"

text \<open>The pattern \<open>/^0x[0-9a-fA-F]+$/\<close>.\<close>

definition node_quantity :: "string \<Rightarrow> bool" where
  "node_quantity s \<longleftrightarrow> starts_with s ''0x'' \<and> drop 2 s \<noteq> [] \<and> list_all is_hex (drop 2 s)"

definition hexToBigInt :: "jsval \<Rightarrow> string \<Rightarrow> nat result" where
  "hexToBigInt v label =
     (case v of
        JNum (NInt i) \<Rightarrow> if 0 \<le> i then Inr (nat i) else invalid (''Node returned a malformed '' @ label)
      | JStr s \<Rightarrow> if node_quantity s then Inr (str_hex (drop 2 s)) else invalid (''Node returned a malformed '' @ label)
      | _ \<Rightarrow> invalid (''Node returned a malformed '' @ label))"

definition hexToNumber :: "jsval \<Rightarrow> string \<Rightarrow> nat result" where
  "hexToNumber v label =
     bindR (hexToBigInt v label) (\<lambda>n. if maxSafeInteger < int n then invalid (label @ '' exceeds the safe integer range: '') else Inr n)"

definition hexToDecimalString :: "jsval \<Rightarrow> string \<Rightarrow> string result" where
  "hexToDecimalString v label = bindR (hexToBigInt v label) (\<lambda>n. Inr (dec_str n))"

definition formatUnits :: "int \<Rightarrow> nat \<Rightarrow> string" where
  "formatUnits wei decimals =
     (let magnitude = nat \<bar>wei\<bar>; divisor = 10 ^ decimals; whole = magnitude div divisor; fraction = magnitude mod divisor;
          sign = (if wei < 0 then ''-'' else []) in
      if fraction = 0 then sign @ dec_str whole
      else sign @ dec_str whole @ ''.'' @ strip_zeros (pad_start decimals (CHR ''0'') (dec_str fraction)))"

definition resolveBlockLookup :: "jsval \<Rightarrow> (string \<times> string) result" where
  "resolveBlockLookup reference =
     (case reference of
        JNum n \<Rightarrow>
          (case n of
             NInt i \<Rightarrow> if \<not> isSafeInteger n \<or> i < 0 then invalid ''Invalid block height: ''
                       else Inr (''eth_getBlockByNumber'', ''0x'' @ hex_str (nat i))
           | _ \<Rightarrow> invalid ''Invalid block height: '')
      | JStr s \<Rightarrow>
          (let t = trim s in
           if t = [] then invalid ''A block hash, height, or tag is required.''
           else if to_lower t \<in> set BLOCK_TAGS then Inr (''eth_getBlockByNumber'', to_lower t)
           else if all_digits t then Inr (''eth_getBlockByNumber'', ''0x'' @ hex_str (str_dec t))
           else if node_quantity t \<and> length t \<noteq> 66 then Inr (''eth_getBlockByNumber'', ''0x'' @ hex_str (str_hex (drop 2 t)))
           else bindR (validateEvmHash (JStr t)) (\<lambda>h. Inr (''eth_getBlockByHash'', h)))
      | _ \<Rightarrow> invalid ''A block hash, height, or tag is required.'')"

definition requireEvmData :: "jsval \<Rightarrow> string \<Rightarrow> string result" where
  "requireEvmData v label =
     (case v of
        JStr s \<Rightarrow>
          if trim s = [] then invalid (label @ '' must be a non-empty hex string'')
          else let t = trim s; prefixed = (if starts_with t ''0x'' then t else ''0x'' @ t) in
            if odd (length prefixed) \<or> \<not> list_all is_hex (drop 2 prefixed)
            then invalid (label @ '' must be 0x-prefixed hex with an even number of digits'') else Inr (to_lower prefixed)
      | _ \<Rightarrow> invalid (label @ '' must be a non-empty hex string''))"

section \<open>The handlers\<close>

definition num :: "nat \<Rightarrow> jsval" where
  "num n = JNum (NInt (int n))"

definition first_defined :: "jsval \<Rightarrow> jsval \<Rightarrow> jsval" where
  "first_defined v w = (if nullish v then w else v)"

definition neox_reply :: "jsobj \<Rightarrow> (string \<Rightarrow> jsobj result) \<Rightarrow> jsval node_read" where
  "neox_reply input rest =
     liftH (reportedNetwork input) (\<lambda>network.
     liftH (rest network) (\<lambda>kvs. giveH (Inr (JObj ([(''chain'', JStr ''neox''), (''network'', JStr network)] @ kvs)))))"

text \<open>\<open>Promise.all\<close> of the three reads: all are sent; the first error in this order is taken.\<close>

definition all_of :: "jsval node_read list \<Rightarrow> jsval list node_read" where
  "all_of reads = (concat (map fst reads), mapR (\<lambda>r. r) (map snd reads))"

definition neox_chain_info :: "neox_env \<Rightarrow> jsobj \<Rightarrow> jsval node_read" where
  "neox_chain_info env input =
     liftH (neox_requested input) (\<lambda>network.
     bindH (all_of [node_call env network ''eth_chainId'' [], node_call env network ''eth_blockNumber'' [],
                    node_call env network ''eth_gasPrice'' []]) (\<lambda>answers.
     neox_reply input (\<lambda>_.
       bindR (hexToNumber (answers ! 0) ''chain id'') (\<lambda>chainId.
       bindR (hexToNumber (answers ! 1) ''block number'') (\<lambda>height.
       bindR (hexToDecimalString (answers ! 2) ''gas price'') (\<lambda>gasPrice.
       Inr [(''chainId'', num chainId), (''blockHeight'', num height), (''gasPrice'', JStr gasPrice), (''gasPriceUnit'', JStr ''wei''),
            (''nativeSymbol'', JStr ''GAS''), (''nativeDecimals'', num NEOX_NATIVE_DECIMALS)]))))))"

definition neox_block_height :: "neox_env \<Rightarrow> jsobj \<Rightarrow> jsval node_read" where
  "neox_block_height env input =
     liftH (neox_requested input) (\<lambda>network.
     bindH (node_call env network ''eth_blockNumber'' []) (\<lambda>blockNumber.
     liftH (hexToNumber blockNumber ''block number'') (\<lambda>height.
     neox_reply input (\<lambda>_. Inr [(''blockHeight'', num height), (''blockCount'', num (height + 1))]))))"

definition neox_block :: "neox_env \<Rightarrow> jsobj \<Rightarrow> jsval node_read" where
  "neox_block env input =
     liftH (neox_requested input) (\<lambda>network.
     liftH (resolveBlockLookup (first_defined (oget input ''blockHashOrHeight'') (oget input ''hashOrHeight''))) (\<lambda>(rpc, param).
     bindH (node_call env network rpc [JStr param, JBool (oget input ''includeTransactions'' = JBool True)]) (\<lambda>block.
     if nullish block then giveH (invalid ''Block not found on Neo X: '')
     else neox_reply input (\<lambda>_.
       bindR (hexToNumber (member block ''number'') ''block number'') (\<lambda>n. Inr [(''blockNumber'', num n), (''block'', block)])))))"

definition neox_transaction :: "neox_env \<Rightarrow> jsobj \<Rightarrow> jsval node_read" where
  "neox_transaction env input =
     liftH (neox_requested input) (\<lambda>network.
     liftH (validateEvmHash (oget input ''hash'')) (\<lambda>hash.
     bindH (node_call env network ''eth_getTransactionByHash'' [JStr hash]) (\<lambda>transaction.
     if nullish transaction then giveH (invalid ''Transaction not found on Neo X: '')
     else neox_reply input (\<lambda>_. Inr [(''transaction'', transaction)]))))"

definition neox_balance :: "neox_env \<Rightarrow> jsobj \<Rightarrow> jsval node_read" where
  "neox_balance env input =
     liftH (neox_requested input) (\<lambda>network.
     liftH (validateEvmAddress (oget input ''address'')) (\<lambda>address.
     bindH (node_call env network ''eth_getBalance'' [JStr address, JStr ''latest'']) (\<lambda>wei.
     liftH (hexToBigInt wei ''balance'') (\<lambda>n.
     neox_reply input (\<lambda>_.
       Inr [(''address'', JStr address), (''symbol'', JStr ''GAS''), (''decimals'', num NEOX_NATIVE_DECIMALS), (''wei'', JStr (dec_str n)),
            (''balance'', JStr (formatUnits (int n) NEOX_NATIVE_DECIMALS))])))))"

definition unmined_status :: "string \<Rightarrow> jsval \<Rightarrow> jsobj" where
  "unmined_status hash pooled =
     [(''hash'', JStr hash), (''status'', JStr (if nullish pooled then ''unknown'' else ''pending'')), (''succeeded'', JBool False),
      (''confirmations'', num 0)]"

definition mined_status :: "string \<Rightarrow> jsval \<Rightarrow> nat \<Rightarrow> nat \<Rightarrow> jsobj result" where
  "mined_status hash receipt blockNumber tip =
     bindR (hexToBigInt (member receipt ''status'') ''receipt status'') (\<lambda>status.
     bindR (hexToDecimalString (member receipt ''gasUsed'') ''gas used'') (\<lambda>gasUsed.
     Inr [(''hash'', JStr hash), (''status'', JStr ''confirmed''), (''succeeded'', JBool (status = 1)), (''blockNumber'', num blockNumber),
          (''blockHash'', member receipt ''blockHash''),
          (''confirmations'', JNum (NInt (max 0 (int tip - int blockNumber + 1)))), (''gasUsed'', JStr gasUsed)]))"

definition neox_transaction_status :: "neox_env \<Rightarrow> jsobj \<Rightarrow> jsval node_read" where
  "neox_transaction_status env input =
     liftH (neox_requested input) (\<lambda>network.
     liftH (validateEvmHash (oget input ''hash'')) (\<lambda>hash.
     bindH (node_call env network ''eth_getTransactionReceipt'' [JStr hash]) (\<lambda>receipt.
     if nullish receipt
     then bindH (node_call env network ''eth_getTransactionByHash'' [JStr hash]) (\<lambda>pooled.
          neox_reply input (\<lambda>_. Inr (unmined_status hash pooled)))
     else liftH (hexToNumber (member receipt ''blockNumber'') ''block number'') (\<lambda>blockNumber.
          bindH (node_call env network ''eth_blockNumber'' []) (\<lambda>answer.
          liftH (hexToNumber answer ''block number'') (\<lambda>tip.
          neox_reply input (\<lambda>_. mined_status hash receipt blockNumber tip)))))))"

definition call_data :: "jsobj \<Rightarrow> string result" where
  "call_data input =
     (if oget input ''data'' \<noteq> JUndef then requireEvmData (oget input ''data'') ''data''
      else case oget input ''functionSignature'' of
        JUndef \<Rightarrow> invalid (''Provide either pre-encoded '' @ [CHR 0x22] @ ''data'' @ [CHR 0x22] @ '' or a '' @ [CHR 0x22]
                     @ ''functionSignature'' @ [CHR 0x22] @ '' (+ args) to encode.'')
      | JStr s \<Rightarrow>
          if trim s = [] then invalid ''functionSignature must be a non-empty string''
          else (case oget input ''args'' of
                  JUndef \<Rightarrow> encodeFunctionCall (JStr (trim s)) (JArr [])
                | JArr vs \<Rightarrow> encodeFunctionCall (JStr (trim s)) (JArr vs)
                | _ \<Rightarrow> invalid ''args must be an array when using functionSignature'')
      | _ \<Rightarrow> invalid ''functionSignature must be a non-empty string'')"

definition neox_call_contract :: "neox_env \<Rightarrow> jsobj \<Rightarrow> jsval node_read" where
  "neox_call_contract env input =
     liftH (neox_requested input) (\<lambda>network.
     liftH (validateEvmAddress (first_defined (oget input ''contract'') (oget input ''to''))) (\<lambda>to_addr.
     liftH (call_data input) (\<lambda>data.
     liftH (if oget input ''from'' = JUndef then Inr [] else bindR (validateEvmAddress (oget input ''from'')) (\<lambda>a. Inr [(''from'', JStr a)])) (\<lambda>sender.
     bindH (node_call env network ''eth_call'' [JObj ([(''to'', JStr to_addr), (''data'', JStr data)] @ sender), JStr ''latest'']) (\<lambda>returned.
     neox_reply input (\<lambda>_. Inr [(''contract'', JStr to_addr), (''data'', returned), (''state'', JStr ''HALT'')]))))))"

definition neox_handler :: "neox_env \<Rightarrow> string \<Rightarrow> jsobj \<Rightarrow> jsval node_read" where
  "neox_handler env name input =
     (if name = ''x_node_get_chain_info'' then neox_chain_info env input
      else if name = ''x_node_get_block_height'' then neox_block_height env input
      else if name = ''x_node_get_block'' then neox_block env input
      else if name = ''x_node_get_transaction'' then neox_transaction env input
      else if name = ''x_node_get_balance'' then neox_balance env input
      else if name = ''x_node_get_transaction_status'' then neox_transaction_status env input
      else neox_call_contract env input)"

definition dispatchNeoxNodeTool :: "neox_env \<Rightarrow> string \<Rightarrow> jsobj \<Rightarrow> jsval node_read" where
  "dispatchNeoxNodeTool env name input =
     (if name \<notin> set NEOX_NODE_TOOLS then giveH (Inl (GenericError (name @ '' is not a Neo X node tool''))) else neox_handler env name input)"

section \<open>What is sent\<close>

text \<open>Every post of a tool is a read to an endpoint configured for the network of the call.\<close>

definition node_read_post :: "neox_config \<Rightarrow> evm_post \<Rightarrow> bool" where
  "node_read_post cfg post \<longleftrightarrow>
     e_method post \<in> set NEOX_NODE_READ_METHODS \<and> e_method post \<notin> set EVM_FORBIDDEN_METHODS
     \<and> (e_url post \<in> set (configured_bases cfg ''neox-mainnet'')
         \<or> e_url post \<in> set (configured_bases cfg ''neox-testnet'') \<and> testnetEnabled cfg)"

lemma node_call_reads: "calls_in (node_read_post (ne_config env)) (node_call env network rpc params)"
proof (cases "neoxNodeCall (ne_parseURL env) (ne_parseJSON env) (ne_config env) (ne_net env rpc) network (JStr rpc) (JArr params)")
  case (Pair r posts)
  have "fst (node_call env network rpc params) = posts" by (simp add: node_call_def Pair split: sum.splits)
  moreover have "list_all (node_read_post (ne_config env)) posts"
  proof (cases "posts = []")
    case False
    from neox_call_shape [OF Pair this] obtain m ps n urls k where m: "m \<in> set NEOX_NODE_READ_METHODS" "m \<in> set EVM_READ_ONLY_METHODS"
      and n: "resolveNeoxNetwork network = Inr n" and urls: "resolveRpcUrls (ne_parseURL env) (ne_config env) n = Inr urls"
      and k: "posts = map (\<lambda>u. \<lparr>e_url = u, e_method = m, e_params = ps\<rparr>) (take k urls)" by metis
    show ?thesis unfolding k using m allowlists(2) resolveRpcUrls_Inr [OF urls] resolve_networks(2) [OF n]
      by (auto simp: list_all_iff node_read_post_def dest: in_set_takeD)
  qed simp
  ultimately show ?thesis by (simp add: calls_in_def)
qed

lemma calls_all_of: "list_all (calls_in P) ms \<Longrightarrow> calls_in P (all_of ms)"
  by (auto simp: calls_in_def all_of_def list_all_iff)

lemma calls_neox_reply: "calls_in P (neox_reply input rest)"
  unfolding neox_reply_def by (intro calls_intros)

lemma neox_handler_reads: "calls_in (node_read_post (ne_config env)) (neox_handler env name input)"
  unfolding neox_handler_def neox_chain_info_def neox_block_height_def neox_block_def neox_transaction_def neox_balance_def
    neox_transaction_status_def neox_call_contract_def
  by (intro calls_intros calls_neox_reply calls_all_of) (simp_all add: node_call_reads)

lemma neox_tools_read_only: "calls_in (node_read_post (ne_config env)) (dispatchNeoxNodeTool env name input)"
  unfolding dispatchNeoxNodeTool_def by (intro calls_intros neox_handler_reads)

section \<open>What a reply says\<close>

lemma trace_Inr:
  "snd (bindH m f) = Inr b \<longleftrightarrow> (\<exists>a. snd m = Inr a \<and> snd (f a) = Inr b)"
  "snd (liftH r g) = Inr b \<longleftrightarrow> (\<exists>a. r = Inr a \<and> snd (g a) = Inr b)"
  "snd (giveH r') = Inr b \<longleftrightarrow> r' = Inr b"
  "snd (if c then m1 else m2) = Inr b \<longleftrightarrow> (if c then snd m1 = Inr b else snd m2 = Inr b)"
  by (auto simp: bindH_def liftH_def giveH_def split: sum.splits)

lemma neox_reply_Inr:
  "snd (neox_reply input rest) = Inr v \<longleftrightarrow>
     (\<exists>network kvs. reportedNetwork input = Inr network \<and> rest network = Inr kvs
        \<and> v = JObj ((''chain'', JStr ''neox'') # (''network'', JStr network) # kvs))"
  by (auto simp: neox_reply_def trace_Inr)

text \<open>The network that is reported is the one that was asked.\<close>

lemma includes_first: "includes_str s (c # p) \<Longrightarrow> c \<in> set s"
  by (induction s) (auto simp: starts_with_def)

lemma includes_tail: "includes_str s (c # p) \<Longrightarrow> includes_str s p"
proof (induction s)
  case (Cons x xs)
  then consider "starts_with (x # xs) (c # p)" | "includes_str xs (c # p)" by auto
  then show ?case
  proof cases
    case 1
    then have "starts_with xs p" by (simp add: starts_with_def)
    then show ?thesis by (cases xs) (simp_all add: starts_with_def)
  qed (use Cons.IH in simp)
qed simp

lemma includes_longer: "includes_str s p \<Longrightarrow> includes_str (s @ b) p"
proof (induction s)
  case Nil
  then show ?case by (cases b) (simp_all add: starts_with_def)
next
  case (Cons c cs)
  have "starts_with (c # cs) p \<Longrightarrow> starts_with ((c # cs) @ b) p" by (metis append_assoc starts_with_append starts_withD)
  then show ?case using Cons by auto
qed

lemma lower_ws: "is_ws c \<Longrightarrow> lower_char c = c"
  by (auto simp: is_ws_def lower_char_def)

lemma trim_frame: "\<exists>a b. s = a @ trim s @ b \<and> list_all is_ws a \<and> list_all is_ws b"
proof -
  let ?t = "dropWhile is_ws s"
  have "s = takeWhile is_ws s @ ?t" by simp
  moreover have "?t = trim s @ rev (takeWhile is_ws (rev ?t))"
    unfolding trim_def by (metis rev_append rev_rev_ident takeWhile_dropWhile_id)
  moreover have "list_all is_ws (takeWhile is_ws s)" "list_all is_ws (rev (takeWhile is_ws (rev ?t)))"
    by (auto simp: list_all_iff dest: set_takeWhileD)
  ultimately show ?thesis by metis
qed

lemma test_network:
  assumes "to_lower (trim raw) = t" "CHR ''s'' \<in> set t \<Longrightarrow> includes_str t ''test''"
  shows "includes_str (to_lower raw) ''test'' \<longleftrightarrow> includes_str t ''test''"
proof -
  obtain a b where raw: "raw = a @ trim raw @ b" and ws: "list_all is_ws a" "list_all is_ws b" using trim_frame by metis
  have ab: "to_lower a = a" "to_lower b = b" using ws lower_ws by (auto simp: to_lower_def list_all_iff map_idI)
  have low: "to_lower raw = a @ t @ b" by (subst raw) (simp add: ab assms(1))
  have "CHR ''s'' \<notin> set a" "CHR ''s'' \<notin> set b" using ws by (auto simp: list_all_iff is_ws_def cc_def)
  then have "includes_str (to_lower raw) ''test'' \<Longrightarrow> CHR ''s'' \<in> set t"
    using includes_first [of "to_lower raw" "CHR ''s''" "''t''"] includes_tail [of "to_lower raw"] by (auto simp: low)
  moreover have "includes_str (to_lower raw) ''test''" if "includes_str t ''test''"
  proof -
    have "includes_str (t @ b) ''test''" using that by (rule includes_longer)
    then show ?thesis unfolding low by (induction a) auto
  qed
  ultimately show ?thesis using assms(2) by blast
qed

lemma reported_network:
  assumes "resolveNeoxNetwork v = Inr n" "neox_requested input = Inr v" "reportedNetwork input = Inr r"
  shows "n = ''neox-'' @ r"
proof -
  have inc: "\<not> includes_str ''neox-mainnet'' ''test''" "\<not> includes_str ''mainnet'' ''test''"
    "includes_str ''neox-testnet'' ''test''" "includes_str ''testnet'' ''test''"
    "CHR ''s'' \<notin> set ''neox-mainnet''" "CHR ''s'' \<notin> set ''mainnet''" by code_simp+
  show ?thesis
  proof (cases v)
    case (JStr s)
    define t where "t = to_lower (trim s)"
    have r: "r = (if t \<noteq> [] \<and> includes_str (to_lower s) ''test'' then ''testnet'' else ''mainnet'')"
      using assms(2,3) by (simp add: JStr reportedNetwork_def t_def to_lower_def split: if_splits)
    show ?thesis
    proof (cases "t = []")
      case True
      then show ?thesis using assms(1) by (simp add: r JStr resolveNeoxNetwork_def normalizeNetworkInput_def t_def)
    next
      case False
      have n: "t = ''mainnet'' \<or> t = ''neox-mainnet'' \<Longrightarrow> n = ''neox-mainnet''" "t = ''testnet'' \<or> t = ''neox-testnet'' \<Longrightarrow> n = ''neox-testnet''"
        and t: "t \<in> {''mainnet'', ''neox-mainnet'', ''testnet'', ''neox-testnet''}"
        using assms(1) False
        by (auto simp add: JStr t_def [symmetric] resolveNeoxNetwork_def normalizeNetworkInput_def Let_def simp del: list.simps(8,9) split: if_splits)
      have "includes_str (to_lower s) ''test'' \<longleftrightarrow> includes_str t ''test''" using t inc by (intro test_network) (auto simp: t_def)
      with t n inc False show ?thesis unfolding r by (elim insertE emptyE) simp_all
    qed
  qed (use assms in \<open>auto simp: neox_requested_def reportedNetwork_def resolveNeoxNetwork_def normalizeNetworkInput_def
      split: jsval.splits if_splits\<close>)
qed

lemma mined_status_Inr:
  assumes "mined_status hash receipt block tip = Inr kvs"
  shows "\<exists>status. hexToBigInt (member receipt ''status'') ''receipt status'' = Inr status \<and> oget kvs ''hash'' = JStr hash
    \<and> oget kvs ''status'' = JStr ''confirmed'' \<and> oget kvs ''succeeded'' = JBool (status = 1) \<and> oget kvs ''blockNumber'' = num block
    \<and> oget kvs ''confirmations'' = num (if block \<le> tip then tip - block + 1 else 0)"
proof -
  from assms obtain status gas where "hexToBigInt (member receipt ''status'') ''receipt status'' = Inr status"
    "kvs = [(''hash'', JStr hash), (''status'', JStr ''confirmed''), (''succeeded'', JBool (status = 1)), (''blockNumber'', num block),
      (''blockHash'', member receipt ''blockHash''), (''confirmations'', JNum (NInt (max 0 (int tip - int block + 1)))), (''gasUsed'', JStr gas)]"
    unfolding mined_status_def bindR_eq_Inr by blast
  moreover have "max 0 (int tip - int block + 1) = int (if block \<le> tip then tip - block + 1 else 0)" by auto
  ultimately show ?thesis by (simp add: num_def del: max_def)
qed

text \<open>
  The status of a transaction says what the node answered. Confirmed means the node has a receipt, pending that
  it has none but knows the transaction, unknown that it has neither; \<open>succeeded\<close> is claimed exactly
  when the receipt has status one, and confirmations count from the block of the receipt to the tip.
\<close>

lemma neox_status_truthful:
  assumes "snd (dispatchNeoxNodeTool env ''x_node_get_transaction_status'' input) = Inr (JObj reply)"
  shows "\<exists>v hash receipt. neox_requested input = Inr v \<and> validateEvmHash (oget input ''hash'') = Inr hash \<and> oget reply ''hash'' = JStr hash
    \<and> snd (node_call env v ''eth_getTransactionReceipt'' [JStr hash]) = Inr receipt
    \<and> (if nullish receipt
       then (\<exists>pooled. snd (node_call env v ''eth_getTransactionByHash'' [JStr hash]) = Inr pooled
               \<and> oget reply ''status'' = JStr (if nullish pooled then ''unknown'' else ''pending''))
            \<and> oget reply ''succeeded'' = JBool False \<and> oget reply ''confirmations'' = num 0
       else oget reply ''status'' = JStr ''confirmed''
            \<and> (\<exists>status. hexToBigInt (member receipt ''status'') ''receipt status'' = Inr status \<and> oget reply ''succeeded'' = JBool (status = 1))
            \<and> (\<exists>block answer tip. hexToNumber (member receipt ''blockNumber'') ''block number'' = Inr block
                \<and> snd (node_call env v ''eth_blockNumber'' []) = Inr answer \<and> hexToNumber answer ''block number'' = Inr tip
                \<and> oget reply ''blockNumber'' = num block \<and> oget reply ''confirmations'' = num (if block \<le> tip then tip - block + 1 else 0)))"
proof -
  have known: "dispatchNeoxNodeTool env ''x_node_get_transaction_status'' input = neox_transaction_status env input"
    by (simp add: dispatchNeoxNodeTool_def neox_handler_def NEOX_NODE_TOOLS_def)
  from assms obtain v hash receipt network where v: "neox_requested input = Inr v" "validateEvmHash (oget input ''hash'') = Inr hash"
      "snd (node_call env v ''eth_getTransactionReceipt'' [JStr hash]) = Inr receipt"
    and cases: "if nullish receipt
      then \<exists>pooled. snd (node_call env v ''eth_getTransactionByHash'' [JStr hash]) = Inr pooled
             \<and> reply = (''chain'', JStr ''neox'') # (''network'', JStr network) # unmined_status hash pooled
      else \<exists>block answer tip kvs. hexToNumber (member receipt ''blockNumber'') ''block number'' = Inr block
             \<and> snd (node_call env v ''eth_blockNumber'' []) = Inr answer \<and> hexToNumber answer ''block number'' = Inr tip
             \<and> mined_status hash receipt block tip = Inr kvs \<and> reply = (''chain'', JStr ''neox'') # (''network'', JStr network) # kvs"
    unfolding known neox_transaction_status_def by (auto simp: trace_Inr neox_reply_Inr split: if_splits)
  show ?thesis
  proof (cases "nullish receipt")
    case True
    with cases obtain pooled where "snd (node_call env v ''eth_getTransactionByHash'' [JStr hash]) = Inr pooled"
      "reply = (''chain'', JStr ''neox'') # (''network'', JStr network) # unmined_status hash pooled" by auto
    with v True show ?thesis by (intro exI [of _ v] exI [of _ hash] exI [of _ receipt]) (simp add: unmined_status_def)
  next
    case False
    with cases obtain block answer tip kvs where b: "hexToNumber (member receipt ''blockNumber'') ''block number'' = Inr block"
      "snd (node_call env v ''eth_blockNumber'' []) = Inr answer" "hexToNumber answer ''block number'' = Inr tip"
      "mined_status hash receipt block tip = Inr kvs"
      and reply: "reply = (''chain'', JStr ''neox'') # (''network'', JStr network) # kvs" by auto
    from mined_status_Inr [OF b(4)] obtain status where status: "hexToBigInt (member receipt ''status'') ''receipt status'' = Inr status"
      and kvs: "oget kvs ''hash'' = JStr hash" "oget kvs ''status'' = JStr ''confirmed''" "oget kvs ''succeeded'' = JBool (status = 1)"
        "oget kvs ''blockNumber'' = num block" "oget kvs ''confirmations'' = num (if block \<le> tip then tip - block + 1 else 0)" by blast
    from v(1,2) status b(1-3) kvs v(3) False show ?thesis unfolding reply
      by (intro exI [of _ v] exI [of _ hash] exI [of _ receipt] conjI) (simp_all only: oget_Cons if_False, simp_all)
  qed
qed

definition demo_node_answer :: "string \<Rightarrow> jsval" where
  "demo_node_answer rpc =
     (if rpc = ''eth_getTransactionReceipt''
      then JObj [(''status'', JStr ''0x0''), (''blockNumber'', JStr ''0x10''), (''gasUsed'', JStr ''0x1'')] else JStr ''0x12'')"

definition demo_node_env :: neox_env where
  "demo_node_env =
     \<lparr>ne_parseURL = \<lambda>_. Some \<lparr>u_protocol = ''https:'', u_hostname = ''n'', u_username = [], u_password = []\<rparr>, ne_parseJSON = \<lambda>_. None,
      ne_config = \<lparr>testnetEnabled = False, mainnetRpcUrls = JArr [JStr ''https://n''], testnetRpcUrls = JArr [], mainnetChainId = 47763,
        testnetChainId = 12227332\<rparr>,
      ne_net = \<lambda>rpc _ _. \<lparr>ex_fetch = Inr \<lparr>r_status = 200, r_content_length = None, r_body = None,
        r_json = Inr (JObj [(''result'', demo_node_answer rpc)])\<rparr>, ex_aborted = False, ex_caller_aborted = False\<rparr>\<rparr>"

lemma demo_node_call:
  assumes "assertNeoxNodeReadMethod (JStr rpc) = Inr ()" "assertReadOnlyEvmMethod (JStr rpc) = Inr rpc"
  shows "snd (node_call demo_node_env JUndef rpc ps) = Inr (demo_node_answer rpc)"
proof -
  have "resolveRpcUrls (ne_parseURL demo_node_env) (ne_config demo_node_env) ''neox-mainnet'' = Inr [''https://n'']"
    by (simp add: resolveRpcUrls_def configured_bases_def demo_node_env_def check_base_def or_empty_def strip_slashes_def)
  then show ?thesis
    by (simp add: node_call_def neoxNodeCall_def assms callEvmRpc_def resolveNeoxNetwork_def normalizeNetworkInput_def Let_def)
      (simp add: demo_node_env_def postEvmRpc_def readBoundedJson_def envelope_result_def MAX_EVM_RPC_RESPONSE_BYTES_def maxSafeInteger_def)
qed

lemma neox_status_truthful_witness:
  "\<exists>reply. snd (dispatchNeoxNodeTool demo_node_env ''x_node_get_transaction_status'' [(''hash'', JStr (replicate 64 (CHR ''a'')))]) = Inr (JObj reply)
     \<and> oget reply ''status'' = JStr ''confirmed'' \<and> oget reply ''succeeded'' = JBool False"
proof -
  have hash: "validateEvmHash (JStr (replicate 64 (CHR ''a''))) = Inr (''0x'' @ replicate 64 (CHR ''a''))" by code_simp
  have "assertNeoxNodeReadMethod (JStr ''eth_getTransactionReceipt'') = Inr ()" "assertReadOnlyEvmMethod (JStr ''eth_getTransactionReceipt'') = Inr ''eth_getTransactionReceipt''"
    "assertNeoxNodeReadMethod (JStr ''eth_blockNumber'') = Inr ()" "assertReadOnlyEvmMethod (JStr ''eth_blockNumber'') = Inr ''eth_blockNumber''" by code_simp+
  note calls = demo_node_call [OF this(1,2)] demo_node_call [OF this(3,4)]
  have h: "str_hex ''0'' = 0" "str_hex ''10'' = 16" "str_hex ''1'' = 1" "str_hex ''12'' = 18" by code_simp+
  have q: "hexToBigInt (JStr ''0x0'') l = Inr 0" "hexToBigInt (JStr ''0x10'') l = Inr 16" "hexToBigInt (JStr ''0x1'') l = Inr 1"
    "hexToBigInt (JStr ''0x12'') l = Inr 18" for l
    by (simp_all add: hexToBigInt_def node_quantity_def starts_with_def is_hex_def is_digit_def cc_def h)
  obtain reply where r: "snd (dispatchNeoxNodeTool demo_node_env ''x_node_get_transaction_status'' [(''hash'', JStr (replicate 64 (CHR ''a'')))])
      = Inr (JObj reply)"
    by (simp add: dispatchNeoxNodeTool_def NEOX_NODE_TOOLS_def neox_handler_def neox_transaction_status_def neox_requested_def hash trace_Inr
      neox_reply_Inr reportedNetwork_def calls demo_node_answer_def hexToNumber_def hexToDecimalString_def mined_status_def q maxSafeInteger_def
      result_simps)
  from neox_status_truthful [OF r] r show ?thesis by (auto simp: neox_requested_def hash calls demo_node_answer_def q)
qed

text \<open>
  A wei amount printed by \<open>formatUnits\<close> reads back exactly: scaling the text with the same number of
  decimals gives the amount, whatever it is, without a float.
\<close>

lemma formatUnits_scales:
  assumes "0 < n" "n < 2 ^ 255" "d \<le> 255"
  shows "scaleTokenAmount (JStr (formatUnits (int n) d)) (NInt (int d)) = Inr (dec_str n)"
proof -
  let ?w = "dec_str (n div 10 ^ d)" and ?f = "pad_start d (CHR ''0'') (dec_str (n mod 10 ^ d))"
  have safe: "isSafeInteger (NInt (int d))" using assms(3) by (simp add: maxSafeInteger_def)
  have "int n < int (2 ^ 255)" using assms(2) by (simp only: of_nat_less_iff)
  then have range: "\<not> int n \<le> 0" "\<not> 2 ^ 255 - 1 < int n" using assms(1) by simp_all
  show ?thesis
  proof (cases "n mod 10 ^ d = 0")
    case True
    then have printed: "formatUnits (int n) d = ?w" by (simp add: formatUnits_def Let_def)
    have sp: "split_on CHR ''.'' ?w = [?w]" by (intro split_on_none all_digits_no_point) simp
    have "str_dec (?w @ pad_end d (CHR ''0'') []) = n"
      using True by (simp add: pad_end_def str_nat_zeros_right) (metis add_0_right div_mult_mod_eq)
    then show ?thesis using safe range assms(3)
      by (simp add: scaleTokenAmount_def printed trim_digits decimal_text_def sp Let_def int_str_def del: of_nat_less_iff)
  next
    case False
    then have d: "0 < d" by (cases d) auto
    have len: "length ?f = d" using length_nat_str_le [of 10 "n mod 10 ^ d" d] d by (simp add: pad_start_def)
    have digits: "list_all is_digit ?f" using dec_str_digits by (auto simp: pad_start_def list_all_iff is_digit_def)
    from pad_strip_zeros [OF len] have strip: "pad_end d (CHR ''0'') (strip_zeros ?f) = ?f" "length (strip_zeros ?f) \<le> d"
      "set (strip_zeros ?f) \<subseteq> set ?f" by blast+
    have "strip_zeros ?f \<noteq> []"
    proof
      assume "strip_zeros ?f = []"
      with strip(1) have "?f = replicate d (CHR ''0'')" by (simp add: pad_end_def)
      then have "str_dec ?f = 0" using str_nat_zeros [of 10 d "[]"] by simp
      then show False using False by (simp add: pad_start_def)
    qed
    with strip(3) digits have f: "all_digits (strip_zeros ?f)" by (auto simp: all_digits_def list_all_iff)
    have printed: "formatUnits (int n) d = ?w @ CHR ''.'' # strip_zeros ?f" using False by (simp add: formatUnits_def Let_def)
    have sp: "split_on CHR ''.'' (?w @ CHR ''.'' # strip_zeros ?f) = [?w, strip_zeros ?f]"
      using f by (simp add: split_on_append split_on_none all_digits_no_point)
    have tr: "trim (?w @ CHR ''.'' # strip_zeros ?f) = ?w @ CHR ''.'' # strip_zeros ?f"
      using f dec_str_all_digits [of "n div 10 ^ d"]
      by (intro trim_id) (auto simp: all_digits_def list_all_iff list_ex_iff is_digit_def is_ws_def cc_def)
    have "str_dec ?f = n mod 10 ^ d" by (simp add: pad_start_def)
    then have "str_dec (?w @ ?f) = n" using len using div_mult_mod_eq [of n "10 ^ d"] by (simp only: str_nat_append str_dec_dec_str)
    then show ?thesis using safe range assms(3) f strip(1,2)
      by (simp add: scaleTokenAmount_def printed tr decimal_text_def sp Let_def int_str_def not_less del: of_nat_less_iff)
  qed
qed

lemma formatUnits_scales_witness: "scaleTokenAmount (JStr ''1.05'') (NInt 3) = Inr ''1050''"
proof -
  have "formatUnits 1050 3 = ''1.05''" "dec_str 1050 = ''1050''" by code_simp+
  with formatUnits_scales [of 1050 3] show ?thesis by simp
qed

end
