(* ===== verification/Ecosystem.thy ===== *)
theory Ecosystem
  imports ProposalTools KnownAccounts NeoxTools "HOL-Library.AList"
begin

text \<open>
  src/handlers/ecosystem-tools.ts: the name service, the oracle, NeoFS and the descriptions of the services.
  The calls of a tool are test invocations of the Neo service and requests to the fixed NeoFS gateway; both are
  parameters with what they answered. A text is a list of code units below 256, so the decoding of UTF-8 bytes is
  a parameter, as is the address of a script hash (neon-js). \<open>createSuccessResponse\<close> only wraps and is left out.

  The main results: where the tools reach (\<open>ecosystem_calls_confined\<close>) and that the three printers of GAS amounts
  agree (\<open>datosToGas_agrees\<close>).
\<close>

text \<open>
  The answer of the gateway: the status, \<open>Number\<close> of the length header, and after \<open>text()\<close> the number of bytes
  of the text and what \<open>JSON.parse\<close> makes of it.
\<close>

record gateway_reply =
  gw_status :: nat
  gw_length :: jsnum
  gw_text :: "rpc_failure + nat \<times> (rpc_failure + jsval)"

record eco_env =
  ec_invoke :: "simulation_request \<Rightarrow> jsobj result"
  ec_network :: string
  ec_fetch :: "string \<Rightarrow> rpc_failure + gateway_reply"
  ec_isAddress :: "string \<Rightarrow> bool"
  ec_scriptHash :: "string \<Rightarrow> string option"
  ec_addressOf :: "string \<Rightarrow> string"
  ec_fromUtf8 :: "nat list \<Rightarrow> string"

datatype eco_call = Test_invoke simulation_request | Gateway_get string

type_synonym 'a eco = "(eco_call, 'a) traced"

definition eco_invoke :: "eco_env \<Rightarrow> string \<Rightarrow> string \<Rightarrow> formatted list \<Rightarrow> jsobj eco" where
  "eco_invoke env hash operation params =
     (let rq = \<lparr>r_scriptHash = hash, r_operation = operation, r_params = params, r_signers = []\<rparr> in
      callH (Test_invoke rq) (ec_invoke env rq))"

text \<open>\<open>.catch(() => null)\<close>\<close>

definition or_null :: "'a eco \<Rightarrow> 'a option eco" where
  "or_null m = (fst m, Inr (case snd m of Inl e \<Rightarrow> None | Inr v \<Rightarrow> Some v))"

section \<open>Inputs\<close>

definition ORACLE_SCRIPT_HASH :: string where "ORACLE_SCRIPT_HASH = ''0xfe924b7cfe89ddd271abaf7210a80a7e11178758''"
definition NEOFS_REST_GATEWAY :: string where "NEOFS_REST_GATEWAY = ''https://rest.fs.neo.org''"
definition MAX_EXTERNAL_BYTES :: nat where "MAX_EXTERNAL_BYTES = 1024 * 1024"
definition ECOSYSTEM_META_TOOLS :: "string list" where "ECOSYSTEM_META_TOOLS = [''get_neo_service_info'', ''query_neofs'']"
definition ECOSYSTEM_N3_TOOLS :: "string list" where "ECOSYSTEM_N3_TOOLS = [''query_nns'', ''get_oracle_info'']"

definition eco_string :: "jsobj \<Rightarrow> string \<Rightarrow> string result" where
  "eco_string input field =
     (case oget input field of
        JStr s \<Rightarrow> if trim s = [] then invalid (field @ '' must be a non-empty string'') else Inr (trim s)
      | _ \<Rightarrow> invalid (field @ '' must be a non-empty string''))"

definition eco_domain :: "jsval \<Rightarrow> string result" where
  "eco_domain v =
     (case v of
        JStr s \<Rightarrow> let domain = drop_dot (to_lower (trim s)) in
          if nns_re domain then Inr domain
          else invalid ''domain must be a lowercase-compatible .neo name with valid DNS label characters''
      | _ \<Rightarrow> invalid ''domain must be a string'')"

definition selectedNetwork :: "eco_env \<Rightarrow> string" where
  "selectedNetwork env = (if ec_network env = ''testnet'' then ''testnet'' else ''mainnet'')"

definition eco_network :: "jsobj \<Rightarrow> string result" where
  "eco_network input =
     (let network = (case oget input ''network'' of JStr s \<Rightarrow> to_lower (trim s) | _ \<Rightarrow> []) in
      if network \<noteq> ''mainnet'' \<and> network \<noteq> ''testnet'' then invalid ''network must be mainnet or testnet'' else Inr network)"

section \<open>Stack items\<close>

definition first_item :: "jsobj \<Rightarrow> jsval" where
  "first_item result = (case oget result ''stack'' of JArr (v # vs) \<Rightarrow> v | JArr [] \<Rightarrow> JUndef | _ \<Rightarrow> JNull)"

definition item_type :: "jsobj \<Rightarrow> string" where
  "item_type item = to_lower (or_empty (oget item ''type''))"

definition booleanStack :: "jsobj \<Rightarrow> bool option" where
  "booleanStack result =
     (case item_props (first_item result) of
        None \<Rightarrow> None
      | Some item \<Rightarrow>
          let v = oget item ''value'' in
          if item_type item \<noteq> ''boolean'' then None
          else if v \<in> {JBool True, JStr ''true'', JNum (NInt 1), JStr ''1''} then Some True
          else if v \<in> {JBool False, JStr ''false'', JNum (NInt 0), JStr ''0''} then Some False
          else None)"

definition integer_text :: "string \<Rightarrow> bool" where
  "integer_text s \<longleftrightarrow> all_digits (if starts_with s ''-'' then drop 1 s else s)"

definition integerStack :: "jsobj \<Rightarrow> string option" where
  "integerStack result =
     (case item_props (first_item result) of
        None \<Rightarrow> None
      | Some item \<Rightarrow>
          if item_type item \<noteq> ''integer'' then None
          else (case oget item ''value'' of JStr s \<Rightarrow> if integer_text s then Some s else None | _ \<Rightarrow> None))"

text \<open>
  \<open>Buffer.from(text, 'base64')\<close> never throws: it reads up to the padding, takes the URL-safe alphabet as well,
  and skips what is no digit; a last group of two or three digits gives one or two bytes.
\<close>

definition base64_digits :: "string \<Rightarrow> string" where
  "base64_digits s =
     filter is_base64 (map (\<lambda>c. if c = CHR ''-'' then CHR ''+'' else if c = CHR ''_'' then CHR ''/'' else c) (takeWhile (\<lambda>c. c \<noteq> CHR ''='') s))"

definition buffer_from_base64 :: "string \<Rightarrow> nat list" where
  "buffer_from_base64 s =
     (let ds = base64_digits s; n = length ds mod 4 in
      base64_decode (if n = 1 then butlast ds else if n = 0 then ds else ds @ replicate (4 - n) (CHR ''='')))"

definition byteStringBuffer :: "jsval \<Rightarrow> nat list option" where
  "byteStringBuffer v =
     (case item_props v of
        None \<Rightarrow> None
      | Some item \<Rightarrow>
          if item_type item \<notin> {''bytestring'', ''buffer''} then None
          else (case oget item ''value'' of JStr s \<Rightarrow> Some (buffer_from_base64 s) | _ \<Rightarrow> None))"

definition byteStringText :: "eco_env \<Rightarrow> jsval \<Rightarrow> string option" where
  "byteStringText env v =
     (case byteStringBuffer v of
        None \<Rightarrow> None
      | Some bytes \<Rightarrow> let t = ec_fromUtf8 env bytes in if utf8_bytes t = bytes then Some t else None)"

definition hash160StackAddress :: "eco_env \<Rightarrow> jsval \<Rightarrow> string option" where
  "hash160StackAddress env v =
     (case byteStringBuffer v of
        None \<Rightarrow> None | Some bytes \<Rightarrow> if length bytes \<noteq> 20 then None else Some (ec_addressOf env (toHex (rev bytes))))"

definition js_option :: "string option \<Rightarrow> jsval" where
  "js_option v = (case v of None \<Rightarrow> JNull | Some s \<Rightarrow> JStr s)"

text \<open>\<open>new Date(ms).toISOString()\<close> for a time from 1970 on, in the Gregorian calendar.\<close>

definition MAX_TIME :: int where "MAX_TIME = 8640000000000000"

definition civil_date :: "nat \<Rightarrow> nat \<times> nat \<times> nat" where
  "civil_date days =
     (let z = days + 719468; era = z div 146097; doe = z mod 146097;
          yoe = (doe - doe div 1460 + doe div 36524 - doe div 146096) div 365;
          doy = doe - (365 * yoe + yoe div 4 - yoe div 100); mp = (5 * doy + 2) div 153;
          d = doy - (153 * mp + 2) div 5 + 1; m = (if mp < 10 then mp + 3 else mp - 9);
          y = yoe + era * 400 + (if m \<le> 2 then 1 else 0) in (y, m, d))"

definition two_digits :: "nat \<Rightarrow> string" where
  "two_digits n = pad_start 2 (CHR ''0'') (dec_str n)"

definition iso_date :: "nat \<Rightarrow> string" where
  "iso_date ms =
     (let s = ms div 1000; (y, m, d) = civil_date (s div 86400) in
      (if y \<le> 9999 then pad_start 4 (CHR ''0'') (dec_str y) else CHR ''+'' # pad_start 6 (CHR ''0'') (dec_str y))
      @ ''-'' @ two_digits m @ ''-'' @ two_digits d @ ''T'' @ two_digits (s div 3600 mod 24) @ '':'' @ two_digits (s div 60 mod 60)
      @ '':'' @ two_digits (s mod 60) @ ''.'' @ pad_start 3 (CHR ''0'') (dec_str (ms mod 1000)) @ ''Z'')"

definition toISOString :: "int \<Rightarrow> string result" where
  "toISOString ms = (if MAX_TIME < ms then Inl (RangeError ''Invalid time value'') else Inr (iso_date (nat ms)))"

text \<open>One entry of the map of properties; assigning a text or null to \<open>__proto__\<close> makes no own property.\<close>

definition property_entry :: "eco_env \<Rightarrow> jsobj \<Rightarrow> jsval \<Rightarrow> jsobj" where
  "property_entry env out entry =
     (case item_props entry of
        None \<Rightarrow> out
      | Some pair \<Rightarrow>
          (case byteStringText env (oget pair ''key'') of
             None \<Rightarrow> out
           | Some key \<Rightarrow>
               if key = [] \<or> key = ''__proto__'' then out
               else let v = oget pair ''value'' in
                 AList.update key
                   (if key = ''admin'' then js_option (hash160StackAddress env v)
                    else if to_lower (or_empty (member v ''type'')) = ''integer''
                    then (case member v ''value'' of JStr s \<Rightarrow> JStr s | _ \<Rightarrow> JNull)
                    else js_option (byteStringText env v)) out))"

definition expiration_of :: "jsobj \<Rightarrow> int option" where
  "expiration_of out =
     (case oget out ''expiration'' of
        JStr s \<Rightarrow> if all_digits s \<and> int (str_dec s) \<le> maxSafeInteger then Some (int (str_dec s)) else None
      | _ \<Rightarrow> None)"

definition decodeNnsProperties :: "eco_env \<Rightarrow> jsobj \<Rightarrow> jsval result" where
  "decodeNnsProperties env result =
     (if to_upper (or_empty (oget result ''state'')) \<noteq> ''HALT'' then Inr JNull
      else case item_props (first_item result) of
        None \<Rightarrow> Inr JNull
      | Some m \<Rightarrow>
          (case oget m ''value'' of
             JArr entries \<Rightarrow>
               if item_type m \<noteq> ''map'' then Inr JNull
               else let out = foldl (property_entry env) [] entries in
                 (case expiration_of out of
                    None \<Rightarrow> Inr (JObj out)
                  | Some ms \<Rightarrow> bindR (toISOString ms) (\<lambda>t. Inr (JObj (AList.update ''expirationIso'' (JStr t) out))))
           | _ \<Rightarrow> Inr JNull))"

definition requireHalt :: "jsobj \<Rightarrow> string \<Rightarrow> jsobj result" where
  "requireHalt result operation =
     (if to_upper (or_empty (oget result ''state'')) \<noteq> ''HALT'' \<or> truthy (oget result ''exception'')
      then invalid (operation @ '' failed: '') else Inr result)"

definition datosToGas :: "string option \<Rightarrow> string option" where
  "datosToGas datos =
     (case datos of
        None \<Rightarrow> None
      | Some s \<Rightarrow>
          if \<not> integer_text s then None
          else let negative = starts_with s ''-''; absolute = str_dec (if negative then drop 1 s else s);
                   fraction = strip_zeros (pad_start 8 (CHR ''0'') (dec_str (absolute mod 100000000))) in
            Some ((if negative \<and> 0 < absolute then ''-'' else []) @ dec_str (absolute div 100000000)
              @ (if fraction \<noteq> [] then CHR ''.'' # fraction else [])))"

section \<open>The name service and the oracle\<close>

definition nns_reply :: "eco_env \<Rightarrow> string \<Rightarrow> string \<Rightarrow> bool \<Rightarrow> string option \<Rightarrow> string option \<Rightarrow> string option \<Rightarrow> jsval \<Rightarrow> jsval" where
  "nns_reply env domain recordType available price resolved own properties =
     JObj [(''network'', JStr (selectedNetwork env)), (''contractHash'', JStr (NNS_SCRIPT_HASH (selectedNetwork env))),
           (''domain'', JStr domain), (''available'', JBool available), (''registrationPriceDatos'', js_option price),
           (''registrationPriceGas'', js_option (datosToGas price)), (''recordType'', JStr recordType),
           (''resolved'', js_option resolved), (''owner'', js_option own), (''properties'', properties)]"

definition nns_taken :: "eco_env \<Rightarrow> string \<Rightarrow> string \<Rightarrow> int \<Rightarrow> string option \<Rightarrow> jsval eco" where
  "nns_taken env domain typeName type price =
     (let hash = NNS_SCRIPT_HASH (selectedNetwork env);
          token = FP ''ByteArray'' (FStr (base64_encode (utf8_bytes domain))) in
      bindH (or_null (eco_invoke env hash ''properties'' [token])) (\<lambda>properties.
      bindH (or_null (eco_invoke env hash ''ownerOf'' [token])) (\<lambda>own.
      bindH (or_null (eco_invoke env hash ''resolve'' [FP ''String'' (FStr domain), FP ''Integer'' (FStr (int_str type))])) (\<lambda>resolve.
      liftH (case properties of None \<Rightarrow> Inr JNull | Some r \<Rightarrow> decodeNnsProperties env r) (\<lambda>decoded.
      giveH (Inr (nns_reply env domain typeName False price
        (byteStringText env (case resolve of None \<Rightarrow> JNull | Some r \<Rightarrow> first_item r))
        (hash160StackAddress env (case own of None \<Rightarrow> JNull | Some r \<Rightarrow> first_item r)) decoded)))))))"

definition queryNns :: "eco_env \<Rightarrow> jsobj \<Rightarrow> jsval eco" where
  "queryNns env input =
     liftH (eco_domain (oget input ''domain'')) (\<lambda>domain.
     let hash = NNS_SCRIPT_HASH (selectedNetwork env);
         typeName = to_upper (if truthy (oget input ''recordType'') then js_String (oget input ''recordType'') else ''TXT'') in
     case map_of NNS_RECORD_TYPES typeName of
       None \<Rightarrow> giveH (invalid ''recordType must be A, CNAME, TXT, or AAAA'')
     | Some type \<Rightarrow>
         bindH (eco_invoke env hash ''isAvailable'' [FP ''String'' (FStr domain)]) (\<lambda>answer.
         liftH (requireHalt answer ''NNS isAvailable'') (\<lambda>availability.
         case booleanStack availability of
           None \<Rightarrow> giveH (invalid ''NNS isAvailable returned a non-Boolean result'')
         | Some available \<Rightarrow>
             bindH (or_null (eco_invoke env hash ''getPrice''
                      [FP ''Integer'' (FStr (dec_str (length (hd (split_on CHR ''.'' domain)))))])) (\<lambda>priceResult.
             let price = (case priceResult of None \<Rightarrow> None | Some r \<Rightarrow> integerStack r) in
             if available then giveH (Inr (nns_reply env domain typeName True price None None JNull))
             else nns_taken env domain typeName type price))))"

definition getOracleInfo :: "eco_env \<Rightarrow> jsval eco" where
  "getOracleInfo env =
     bindH (eco_invoke env ORACLE_SCRIPT_HASH ''getPrice'' []) (\<lambda>answer.
     liftH (requireHalt answer ''Oracle getPrice'') (\<lambda>result.
     case integerStack result of
       None \<Rightarrow> giveH (invalid ''Oracle getPrice returned a non-Integer result'')
     | Some fee \<Rightarrow> giveH (Inr (JObj
         [(''network'', JStr (selectedNetwork env)), (''contractHash'', JStr ORACLE_SCRIPT_HASH), (''responseFeeDatos'', JStr fee),
          (''responseFeeGas'', js_option (datosToGas (Some fee))), (''role'', JStr ''Neo N3 native Oracle service''),
          (''requestMethod'', JStr ''request(url, filter, callback, userData, gasForResponse)''),
          (''note'', JStr (''Oracle requests are contract-originated and asynchronous. This tool reads the current native response ''
             @ ''price; it does not fabricate a request transaction for an arbitrary externally owned account.''))]))))"

section \<open>NeoFS and the descriptions\<close>

definition fetchFixedJson :: "eco_env \<Rightarrow> string \<Rightarrow> jsval eco" where
  "fetchFixedJson env path =
     callH (Gateway_get (NEOFS_REST_GATEWAY @ path))
       (let failed = (\<lambda>e. invalid (if f_name e = ''AbortError'' then ''NeoFS gateway request timed out'' else ''NeoFS gateway request failed: '')) in
        case ec_fetch env (NEOFS_REST_GATEWAY @ path) of
          Inl e \<Rightarrow> failed e
        | Inr r \<Rightarrow>
            if gw_status r < 200 \<or> 299 < gw_status r then invalid ''NeoFS gateway returned HTTP ''
            else if (case gw_length r of NInt i \<Rightarrow> int MAX_EXTERNAL_BYTES < i | NDec d \<Rightarrow> int MAX_EXTERNAL_BYTES \<le> int (str_dec (takeWhile is_digit d)) | _ \<Rightarrow> False)
            then invalid ''NeoFS gateway response exceeds the size limit''
            else (case gw_text r of
                    Inl e \<Rightarrow> failed e
                  | Inr (bytes, parsed) \<Rightarrow>
                      if MAX_EXTERNAL_BYTES < bytes then invalid ''NeoFS gateway response exceeds the size limit''
                      else (case parsed of Inl e \<Rightarrow> failed e | Inr v \<Rightarrow> Inr v)))"

definition gateway_boundary :: string where
  "gateway_boundary = ''NeoFS gateway is global; n3Network is context only and does not select a different gateway.''"

definition neofs_reply :: "string \<Rightarrow> string \<Rightarrow> string \<Rightarrow> jsobj \<Rightarrow> jsval \<Rightarrow> jsval" where
  "neofs_reply operation n3Network boundary extra data =
     JObj ([(''operation'', JStr operation), (''n3Network'', JStr n3Network), (''gateway'', JStr NEOFS_REST_GATEWAY),
            (''networkBoundary'', JStr boundary)] @ extra @ [(''data'', data)])"

definition neofs_identifier :: "jsobj \<Rightarrow> string \<Rightarrow> string \<Rightarrow> string result" where
  "neofs_identifier input field message =
     bindR (eco_string input field) (\<lambda>s. if neofs_id s then Inr s else invalid message)"

definition object_link :: "jsobj \<Rightarrow> string \<Rightarrow> jsval result" where
  "object_link input n3Network =
     bindR (eco_string input ''containerId'') (\<lambda>containerId.
     bindR (eco_string input ''objectId'') (\<lambda>objectId.
     if \<not> neofs_id containerId then invalid ''Invalid NeoFS container id''
     else if \<not> neofs_id objectId then invalid ''Invalid NeoFS object id''
     else Inr (JObj
       [(''operation'', JStr ''object_link''), (''n3Network'', JStr n3Network), (''containerId'', JStr containerId), (''objectId'', JStr objectId),
        (''uri'', JStr (''neofs://'' @ containerId @ ''/'' @ objectId)),
        (''httpGatewayUrl'', JStr (''https://http.fs.neo.org/'' @ containerId @ ''/'' @ objectId)),
        (''networkBoundary'', JStr ''Object identifiers and links are NeoFS-global; n3Network is context only.''),
        (''note'', JStr ''The generated links identify the object; object availability still depends on NeoFS nodes.'')])))"

definition queryNeoFs :: "eco_env \<Rightarrow> jsobj \<Rightarrow> jsval eco" where
  "queryNeoFs env input =
     liftH (eco_network input) (\<lambda>n3Network.
     let operation = or_empty (oget input ''operation'') in
     if operation = ''network_info''
     then bindH (fetchFixedJson env ''/v1/network-info'') (\<lambda>data.
          giveH (Inr (neofs_reply operation n3Network gateway_boundary [] data)))
     else if operation = ''container''
     then liftH (neofs_identifier input ''containerId'' ''Invalid NeoFS container id'') (\<lambda>containerId.
          bindH (fetchFixedJson env (''/v1/containers/'' @ encodeURIComponent containerId)) (\<lambda>data.
          giveH (Inr (neofs_reply operation n3Network gateway_boundary [] data))))
     else if operation = ''account_balance''
     then liftH (bindR (eco_string input ''address'') (\<lambda>a. validateAddress (ec_isAddress env) (ec_scriptHash env) (JStr a))) (\<lambda>address.
          bindH (fetchFixedJson env (''/v1/accounting/balance/'' @ encodeURIComponent address)) (\<lambda>data.
          giveH (Inr (neofs_reply operation n3Network
            ''NeoFS accounting is queried from the global gateway; the N3 network is retained as address context.''
            [(''address'', JStr address)] data))))
     else if operation = ''object_link'' then giveH (object_link input n3Network)
     else giveH (invalid ''operation must be network_info, container, account_balance, or object_link''))"

definition texts :: "string list \<Rightarrow> jsval" where
  "texts ts = JArr (map JStr ts)"

definition service_description :: "string \<Rightarrow> string \<Rightarrow> jsobj result" where
  "service_description service network =
     (if service = ''nns'' then Inr
        [(''service'', JStr ''Neo Name Service''), (''network'', JStr network), (''contractHash'', JStr (NNS_SCRIPT_HASH network)),
         (''explorerPath'', JStr ''/nns''),
         (''capabilities'', texts [''availability'', ''owner'', ''properties'', ''records'', ''register'', ''renew'', ''transfer''])]
      else if service = ''neofs'' then Inr
        [(''service'', JStr ''NeoFS''), (''network'', JStr network), (''restGateway'', JStr NEOFS_REST_GATEWAY),
         (''httpGateway'', JStr ''https://http.fs.neo.org''), (''explorerPath'', JStr ''/tools/neofs''),
         (''capabilities'', texts [''network info'', ''container metadata'', ''accounting balance'', ''object links'']),
         (''writeBoundary'', JStr (''File upload requires file bytes plus a wallet-authorized NeoFS client session and cannot be ''
            @ ''represented as a normal Neo N3 transaction proposal.''))]
      else if service = ''oracle'' then Inr
        [(''service'', JStr ''Neo N3 Oracle''), (''network'', JStr network), (''contractHash'', JStr ORACLE_SCRIPT_HASH),
         (''capabilities'', texts [''response price'', ''contract-originated asynchronous requests'']),
         (''writeBoundary'', JStr (''Oracle.request is normally called by a smart contract with a callback and response gas budget; ''
            @ ''arbitrary EOA requests are not generated.''))]
      else if service = ''bridge'' then Inr
        [(''service'', JStr ''Neo X Bridge''), (''network'', JStr network),
         (''officialUrl'', JStr (if network = ''mainnet'' then ''https://xbridge.neo.org/'' else ''https://testnet.bridge.banelabs.org/'')),
         (''neoXTokenBridge'', JStr ''0x1212000000000000000000000000000000000004''),
         (''capabilities'', texts [''Neo N3 to Neo X deposit'', ''Neo X to Neo N3 withdrawal'']),
         (''writeBoundary'', JStr (''Bridge transfers are multi-stage operations involving bridge contracts, relayers, proofs, and both ''
            @ ''wallet networks. Use the official bridge UI instead of synthesizing a one-step transaction.''))]
      else invalid ''service must be nns, neofs, oracle, or bridge'')"

definition getServiceInfo :: "jsobj \<Rightarrow> jsval result" where
  "getServiceInfo input =
     (let service = to_lower (or_empty (oget input ''service''));
          network = to_lower (if truthy (oget input ''network'') then js_String (oget input ''network'') else ''mainnet'') in
      if network \<noteq> ''mainnet'' \<and> network \<noteq> ''testnet'' then invalid ''network must be mainnet or testnet''
      else bindR (service_description service network) (\<lambda>kvs. Inr (JObj kvs)))"

definition dispatchEcosystemMetaTool :: "eco_env \<Rightarrow> string \<Rightarrow> jsobj \<Rightarrow> jsval eco" where
  "dispatchEcosystemMetaTool env name input =
     (if name = ''get_neo_service_info'' then giveH (getServiceInfo input)
      else if name = ''query_neofs'' then queryNeoFs env input
      else giveH (invalid ''Unknown ecosystem meta tool: ''))"

definition dispatchEcosystemN3Tool :: "eco_env \<Rightarrow> string \<Rightarrow> jsobj \<Rightarrow> jsval eco" where
  "dispatchEcosystemN3Tool env name input =
     (if name = ''query_nns'' then queryNns env input
      else if name = ''get_oracle_info'' then getOracleInfo env
      else giveH (invalid ''Unknown Neo N3 ecosystem tool: ''))"

section \<open>Where the tools reach\<close>

text \<open>A reading method of one of the two contracts, without signers, or a fixed path of the gateway with one plain segment.\<close>

definition gateway_paths :: "string list" where
  "gateway_paths = [''/v1/containers/'', ''/v1/accounting/balance/'']"

fun eco_call_ok :: "eco_call \<Rightarrow> bool" where
  "eco_call_ok (Test_invoke rq) \<longleftrightarrow>
     r_signers rq = []
     \<and> (r_scriptHash rq \<in> {NNS_SCRIPT_HASH ''mainnet'', NNS_SCRIPT_HASH ''testnet''}
           \<and> r_operation rq \<in> {''isAvailable'', ''getPrice'', ''properties'', ''ownerOf'', ''resolve''}
         \<or> r_scriptHash rq = ORACLE_SCRIPT_HASH \<and> r_operation rq = ''getPrice'')"
| "eco_call_ok (Gateway_get url) \<longleftrightarrow>
     url = NEOFS_REST_GATEWAY @ ''/v1/network-info''
     \<or> (\<exists>p \<in> set gateway_paths. \<exists>seg. url = NEOFS_REST_GATEWAY @ p @ seg \<and> seg \<noteq> [] \<and> list_all is_alnum seg)"

lemma calls_or_null: "calls_in P m \<Longrightarrow> calls_in P (or_null m)"
  by (simp add: calls_in_def or_null_def)

lemma selected_networks: "NNS_SCRIPT_HASH (selectedNetwork env) \<in> {NNS_SCRIPT_HASH ''mainnet'', NNS_SCRIPT_HASH ''testnet''}"
  by (simp add: selectedNetwork_def)

lemma calls_nns:
  "operation \<in> {''isAvailable'', ''getPrice'', ''properties'', ''ownerOf'', ''resolve''} \<Longrightarrow>
     calls_in eco_call_ok (eco_invoke env (NNS_SCRIPT_HASH (selectedNetwork env)) operation params)"
  unfolding eco_invoke_def Let_def using selected_networks by (intro calls_callH) simp

lemma calls_oracle: "calls_in eco_call_ok (eco_invoke env ORACLE_SCRIPT_HASH ''getPrice'' params)"
  unfolding eco_invoke_def Let_def by (intro calls_callH) simp

lemma uri_plain: "list_all is_alnum s \<Longrightarrow> encodeURIComponent s = s"
  by (induction s) (auto simp: encodeURIComponent_def uri_unreserved_def)

lemma neofs_id_plain: "neofs_id s \<Longrightarrow> s \<noteq> [] \<and> list_all is_alnum s"
proof -
  assume s: "neofs_id s"
  then have "length s \<noteq> 0" unfolding neofs_id_def by linarith
  moreover have "list_all base58_char s" using s unfolding neofs_id_def by blast
  then have "list_all is_alnum s" by (rule list.pred_mono_strong) (simp add: base58_char_def)
  ultimately show ?thesis by simp
qed

lemma calls_fetchFixedJson: "eco_call_ok (Gateway_get (NEOFS_REST_GATEWAY @ path)) \<Longrightarrow> calls_in eco_call_ok (fetchFixedJson env path)"
  unfolding fetchFixedJson_def by (rule calls_callH)

lemma plain_path:
  assumes "p \<in> set gateway_paths" "s \<noteq> []" "list_all is_alnum s"
  shows "calls_in eco_call_ok (fetchFixedJson env (p @ encodeURIComponent s))"
proof (rule calls_fetchFixedJson)
  have "\<exists>seg. NEOFS_REST_GATEWAY @ p @ s = NEOFS_REST_GATEWAY @ p @ seg \<and> seg \<noteq> [] \<and> list_all is_alnum seg" using assms(2,3) by blast
  then show "eco_call_ok (Gateway_get (NEOFS_REST_GATEWAY @ p @ encodeURIComponent s))"
    using assms(1) unfolding uri_plain [OF assms(3)] eco_call_ok.simps by blast
qed

lemma queryNns_calls: "calls_in eco_call_ok (queryNns env input)"
  unfolding queryNns_def nns_taken_def Let_def
  by (intro calls_intros calls_or_null calls_nns) simp_all

lemma oracle_calls: "calls_in eco_call_ok (getOracleInfo env)"
  unfolding getOracleInfo_def by (intro calls_intros calls_oracle)

lemma neofs_calls: "calls_in eco_call_ok (queryNeoFs env input)"
proof -
  have p: "''/v1/containers/'' \<in> set gateway_paths" "''/v1/accounting/balance/'' \<in> set gateway_paths" by (simp_all add: gateway_paths_def)
  have i: "neofs_identifier input f m = Inr s \<Longrightarrow> s \<noteq> [] \<and> list_all is_alnum s" for f m s
    using neofs_id_plain by (auto simp: neofs_identifier_def result_simps split: if_splits)
  have a: "bindR r (\<lambda>a. validateAddress ia sh (JStr a)) = Inr s \<Longrightarrow> s \<noteq> [] \<and> list_all is_alnum s" for r ia sh s
    by (auto simp: result_simps validateAddress_Inr alnum34_def)
  show ?thesis unfolding queryNeoFs_def Let_def
    by (intro calls_intros) (use p i a in \<open>(intro plain_path calls_fetchFixedJson; simp)+\<close>)
qed

text \<open>
  Whatever the model asks of the name service, the oracle and NeoFS, every call is either a test invocation without
  signers of a reading method of the two known contracts, or a request to one of three fixed paths of the NeoFS gateway
  with at most one alphanumeric segment.
\<close>

lemma ecosystem_calls_confined:
  "calls_in eco_call_ok (dispatchEcosystemMetaTool env name input) \<and> calls_in eco_call_ok (dispatchEcosystemN3Tool env name input)"
  unfolding dispatchEcosystemMetaTool_def dispatchEcosystemN3Tool_def
  by (intro conjI calls_intros neofs_calls queryNns_calls oracle_calls)

section \<open>Three printers of GAS\<close>

text \<open>
  The texts of GAS amounts that the ecosystem tools, the transaction builder and the Neo X tools print by three different
  routines are the same: for every number of datos \<open>datosToGas\<close>, \<open>formatDatosAsGas\<close> and
  \<open>formatUnits\<close> with eight decimals agree.
\<close>

lemma datosToGas_agrees:
  "datosToGas (Some (dec_str n)) = Some (formatDatosAsGas (int n)) \<and> formatUnits (int n) 8 = formatDatosAsGas (int n)"
proof -
  have n: "integer_text (dec_str n)" "\<not> starts_with (dec_str n) ''-''"
    using dec_str_digits [of n] nat_str_nonempty [of 10 n]
    by (cases "dec_str n"; auto simp: integer_text_def starts_with_def all_digits_def is_digit_def cc_def)+
  show ?thesis
  proof (cases "n = 0")
    case True
    have "formatDatosAsGas 0 = ''0''" "dec_str 0 = ''0''" "str_dec ''0'' = 0" "strip_zeros (pad_start 8 (CHR ''0'') ''0'') = []" by code_simp+
    then show ?thesis using n by (simp add: True datosToGas_def formatUnits_def Let_def)
  next
    case False
    then have parts: "formatDatosAsGas (int n) = (let f = strip_zeros (pad_start 8 (CHR ''0'') (dec_str (n mod 10 ^ 8))) in
        if f \<noteq> [] then dec_str (n div 10 ^ 8) @ CHR ''.'' # f else dec_str (n div 10 ^ 8))"
      using datos_parts [of n] by (simp only: formatDatosAsGas_def int_str_def Let_def) simp
    have zero: "strip_zeros (pad_start 8 (CHR ''0'') (dec_str m)) = [] \<longleftrightarrow> m = 0" for m
    proof
      assume "strip_zeros (pad_start 8 (CHR ''0'') (dec_str m)) = []"
      then obtain k where "pad_start 8 (CHR ''0'') (dec_str m) = replicate k (CHR ''0'')"
        using strip_zeros_pad [of "pad_start 8 (CHR ''0'') (dec_str m)"] by auto
      then have "str_dec (pad_start 8 (CHR ''0'') (dec_str m)) = 0" using str_nat_zeros [of 10 k "[]"] by simp
      then show "m = 0" by (simp add: pad_start_def)
    next
      have "strip_zeros (pad_start 8 (CHR ''0'') (dec_str 0)) = []" by code_simp
      then show "m = 0 \<Longrightarrow> strip_zeros (pad_start 8 (CHR ''0'') (dec_str m)) = []" by simp
    qed
    have d: "datosToGas (Some (dec_str n)) = Some (formatDatosAsGas (int n))"
      unfolding parts using n by (simp add: datosToGas_def Let_def)
    have "formatUnits (int n) 8 = formatDatosAsGas (int n)"
      unfolding parts by (simp add: formatUnits_def Let_def zero)
    with d show ?thesis by blast
  qed
qed

end
