(* ===== verification/NeoEnrichment.thy ===== *)
theory NeoEnrichment
  imports KnownAccounts Ecosystem "HOL-Library.AList"
begin

text \<open>
  src/services/neo-service.ts, the pure part: what the service adds to the answers of a node about transfers, balances,
  application logs and transactions. Addresses, their script hashes and UTF-8 decoding are neon-js and platform parameters
  (\<open>enrich_env\<close>). A field that the types of src/types/neo.ts declare as a text counts as absent when it is none.

  The main result is \<open>transfers_kept\<close>: everything the node sent of the transfers of an account is still there.
\<close>

record enrich_env =
  en_isAddress :: "string \<Rightarrow> bool"
  en_scriptHash :: "string \<Rightarrow> string option"
  en_addressOf :: "string \<Rightarrow> string option"
  en_fromUtf8 :: "nat list \<Rightarrow> string"
  en_trunc :: "string \<Rightarrow> int"
  en_network :: string

section \<open>Objects\<close>

text \<open>\<open>{ ...base, ...extra }\<close>\<close>

definition spread :: "jsobj \<Rightarrow> jsobj \<Rightarrow> jsobj" where
  "spread base extra = fold (\<lambda>(k, v) o1. AList.update k v o1) extra base"

definition given :: "string \<Rightarrow> string option \<Rightarrow> jsobj" where
  "given k v = (case v of None \<Rightarrow> [] | Some s \<Rightarrow> if s = [] then [] else [(k, JStr s)])"

definition text_field :: "jsobj \<Rightarrow> string \<Rightarrow> string option" where
  "text_field kvs k = (case oget kvs k of JStr s \<Rightarrow> Some s | _ \<Rightarrow> None)"

definition first_some :: "'a option \<Rightarrow> 'a option \<Rightarrow> 'a option" where
  "first_some a b = (case a of Some x \<Rightarrow> Some x | None \<Rightarrow> b)"

definition kind_text :: "account_kind \<Rightarrow> string" where
  "kind_text k = (case k of Native_token \<Rightarrow> ''native_token'' | Contract_kind \<Rightarrow> ''contract'' | Account_kind \<Rightarrow> ''account'')"

definition account_js :: "account_metadata \<Rightarrow> jsobj" where
  "account_js m =
     [(''id'', JStr (m_id m)), (''name'', JStr (m_name m)), (''kind'', JStr (kind_text (m_kind m)))]
     @ (case m_symbol m of None \<Rightarrow> [] | Some s \<Rightarrow> [(''symbol'', JStr s)])
     @ [(''scriptHash'', JStr (m_scriptHash m))]
     @ (case m_address m of None \<Rightarrow> [] | Some s \<Rightarrow> [(''address'', JStr s)])
     @ [(''logo'', JStr (m_logo m))]"

section \<open>Parties\<close>

definition hash_of_address :: "enrich_env \<Rightarrow> string option \<Rightarrow> string option" where
  "hash_of_address env v = tryGetScriptHashFromAddress (en_isAddress env) (en_scriptHash env) v"

definition account_known :: "enrich_env \<Rightarrow> string option \<Rightarrow> account_metadata option" where
  "account_known env reference = resolveKnownAccount (en_isAddress env) (en_scriptHash env) (en_addressOf env) reference (en_network env)"

definition known_party :: "enrich_env \<Rightarrow> string option \<Rightarrow> string option \<Rightarrow> account_metadata option" where
  "known_party env reference scriptHash =
     first_some (account_known env (first_some reference scriptHash)) (case scriptHash of None \<Rightarrow> None | Some h \<Rightarrow> account_known env (Some h))"

definition enrichKnownParty :: "enrich_env \<Rightarrow> string option \<Rightarrow> jsobj option" where
  "enrichKnownParty env reference =
     (let scriptHash = first_some (normalizeScriptHash reference) (hash_of_address env reference);
          own = (case reference of Some r \<Rightarrow> if r \<noteq> [] \<and> normalizeScriptHash reference = None then Some r else None | None \<Rightarrow> None);
          address = first_some own (tryGetAddressFromScriptHash (en_addressOf env) scriptHash);
          account = known_party env reference scriptHash in
      if address \<in> {None, Some []} \<and> scriptHash = None \<and> account = None then None
      else Some (given ''address'' address @ given ''scriptHash'' scriptHash
        @ (case first_some (map_option m_name account) (first_some address scriptHash) of
             None \<Rightarrow> [(''displayName'', JUndef)] | Some s \<Rightarrow> [(''displayName'', JStr s)])
        @ given ''name'' (map_option m_name account) @ given ''logo'' (map_option m_logo account)
        @ given ''kind'' (map_option (\<lambda>m. kind_text (m_kind m)) account)
        @ (case account of None \<Rightarrow> [] | Some m \<Rightarrow> [(''knownAccount'', JObj (account_js m))])))"

section \<open>Stack items\<close>

definition stack_item :: "jsval \<Rightarrow> jsobj option" where
  "stack_item v = (if truthy v then own_props v else None)"

definition is_bytes :: "jsobj \<Rightarrow> bool" where
  "is_bytes item \<longleftrightarrow> oget item ''type'' \<in> {JStr ''ByteString'', JStr ''ByteArray''}"

definition hex_bytes :: "string \<Rightarrow> bool" where
  "hex_bytes s \<longleftrightarrow> length s = 40 \<and> list_all is_hex s"

definition strip_hex_prefix :: "string \<Rightarrow> string" where
  "strip_hex_prefix s = (if to_lower (take 2 s) = ''0x'' then drop 2 s else s)"

fun byte_pairs :: "string \<Rightarrow> string list" where
  "byte_pairs (a # b # s) = [a, b] # byte_pairs s"
| "byte_pairs s = []"

definition reverse_hex :: "string \<Rightarrow> string" where
  "reverse_hex s = to_lower (concat (rev (byte_pairs s)))"

definition normalizeHash160FromStackItem :: "enrich_env \<Rightarrow> jsval \<Rightarrow> string option" where
  "normalizeHash160FromStackItem env v =
     (case stack_item v of
        None \<Rightarrow> None
      | Some item \<Rightarrow>
          let t = (case oget item ''value'' of JStr s \<Rightarrow> trim s | _ \<Rightarrow> []) in
          if t = [] then None
          else if oget item ''type'' = JStr ''Hash160'' then normalizeScriptHash (Some t)
          else if is_bytes item then
            (if hex_bytes (strip_hex_prefix t) then normalizeScriptHash (Some (reverse_hex (strip_hex_prefix t)))
             else let bytes = buffer_from_base64 t in
               if length bytes = 20 then normalizeScriptHash (Some (toHex (rev bytes)))
               else let decoded = Some (en_fromUtf8 env bytes) in first_some (normalizeScriptHash decoded) (hash_of_address env decoded))
          else if oget item ''type'' = JStr ''String'' then first_some (hash_of_address env (Some t)) (normalizeScriptHash (Some t))
          else None)"

definition js_obj_option :: "jsobj option \<Rightarrow> jsval" where
  "js_obj_option v = (case v of None \<Rightarrow> JNull | Some kvs \<Rightarrow> JObj kvs)"

definition parseTransferParticipant :: "enrich_env \<Rightarrow> jsval \<Rightarrow> jsobj option" where
  "parseTransferParticipant env v =
     (if \<not> truthy v then None
      else let item = (case own_props v of Some kvs \<Rightarrow> kvs | None \<Rightarrow> []) in
        if oget item ''type'' \<in> {JStr ''Any'', JStr ''Null''} then None
        else case normalizeHash160FromStackItem env v of
          Some h \<Rightarrow> Some (case enrichKnownParty env (Some h) of Some p \<Rightarrow> p | None \<Rightarrow> [(''scriptHash'', JStr h)])
        | None \<Rightarrow> (case oget item ''value'' of
            JStr s \<Rightarrow> Some (case enrichKnownParty env (Some s) of Some p \<Rightarrow> p | None \<Rightarrow> [(''value'', JStr s)])
          | _ \<Rightarrow> None))"

definition parseTransferAmount :: "enrich_env \<Rightarrow> jsval \<Rightarrow> string option" where
  "parseTransferAmount env v =
     (case stack_item v of
        None \<Rightarrow> None
      | Some item \<Rightarrow>
          if oget item ''type'' = JStr ''Integer'' then Some (js_String (oget item ''value''))
          else if is_bytes item \<and> text_field item ''value'' \<noteq> None
          then Some (en_fromUtf8 env (buffer_from_base64 (the (text_field item ''value''))))
          else if nullish (oget item ''value'') then None else Some (js_String (oget item ''value'')))"

definition parseTokenId :: "jsval \<Rightarrow> string option" where
  "parseTokenId v =
     (case stack_item v of
        None \<Rightarrow> None
      | Some item \<Rightarrow>
          if nullish (oget item ''value'') then None
          else if is_bytes item \<and> text_field item ''value'' \<noteq> None then Some (toHex (buffer_from_base64 (the (text_field item ''value''))))
          else Some (js_String (oget item ''value'')))"

section \<open>Transfers and balances\<close>

definition buildAssetDescriptor :: "enrich_env \<Rightarrow> string option \<Rightarrow> jsobj" where
  "buildAssetDescriptor env reference =
     (let scriptHash = normalizeScriptHash reference; account = known_party env reference scriptHash;
          address = tryGetAddressFromScriptHash (en_addressOf env) scriptHash in
      given ''scriptHash'' scriptHash @ given ''address'' address
      @ given ''symbol'' (case account of None \<Rightarrow> None | Some m \<Rightarrow> m_symbol m)
      @ [(''name'', case first_some (map_option m_name account) scriptHash of None \<Rightarrow> JUndef | Some s \<Rightarrow> JStr s)]
      @ given ''logo'' (map_option m_logo account)
      @ (case account of None \<Rightarrow> [] | Some m \<Rightarrow> [(''knownAccount'', JObj (account_js m))]))"

text \<open>
  \<open>new Date(ms).toISOString()\<close> before 1970 too: the calendar repeats after 400 years, which are 12622780800000 ms,
  and everything after the year takes 20 characters.
\<close>

definition year_text :: "int \<Rightarrow> string" where
  "year_text y =
     (if y < 0 then ''-'' @ pad_start 6 (CHR ''0'') (int_str (- y))
      else if y \<le> 9999 then pad_start 4 (CHR ''0'') (int_str y) else ''+'' @ pad_start 6 (CHR ''0'') (int_str y))"

definition signed_iso :: "int \<Rightarrow> string result" where
  "signed_iso ms =
     (if MAX_TIME < \<bar>ms\<bar> then Inl (RangeError ''Invalid time value'')
      else if 0 \<le> ms then Inr (iso_date (nat ms))
      else let k = (- ms) div 12622780800000 + 1; t = nat (ms + k * 12622780800000); whole = iso_date t in
        Inr (year_text (int (fst (civil_date (t div 86400000))) - 400 * k) @ drop (length whole - 20) whole))"

text \<open>\<open>parseInt\<close> of a text of digits is infinite from \<open>2^1024 - 2^970\<close> up; the integral part of any other number is \<open>en_trunc\<close>.\<close>

definition timestamp_ms :: "enrich_env \<Rightarrow> jsval \<Rightarrow> int option" where
  "timestamp_ms env v =
     (case v of
        JNum (NInt i) \<Rightarrow> Some i
      | JNum (NDec t) \<Rightarrow> Some (en_trunc env t)
      | JStr s \<Rightarrow> if all_digits s \<and> str_dec s < 2 ^ 1024 - 2 ^ 970 then Some (int (str_dec s)) else None
      | _ \<Rightarrow> None)"

text \<open>The members of a value with \<open>typeof value === 'object'\<close>.\<close>

definition members_of :: "jsval \<Rightarrow> jsobj option" where
  "members_of v =
     (case v of JArr vs \<Rightarrow> Some (map (\<lambda>(i, w). (dec_str i, w)) (enumerate 0 vs)) | _ \<Rightarrow> own_props v)"

definition party_of :: "enrich_env \<Rightarrow> string option \<Rightarrow> jsobj option" where
  "party_of env a =
     (case enrichKnownParty env a of
        Some p \<Rightarrow> Some p
      | None \<Rightarrow> (case a of None \<Rightarrow> None | Some t \<Rightarrow> if t = [] then None else Some [(''address'', JStr t)]))"

definition party_field :: "string \<Rightarrow> jsobj option \<Rightarrow> jsobj" where
  "party_field k v = (case v of None \<Rightarrow> [] | Some kvs \<Rightarrow> [(k, JObj kvs)])"

definition asset_of :: "enrich_env \<Rightarrow> jsobj \<Rightarrow> jsobj" where
  "asset_of env entry =
     (case text_field entry ''assethash'' of
        None \<Rightarrow> [] | Some h \<Rightarrow> if h = [] then [] else [(''asset'', JObj (buildAssetDescriptor env (Some h)))])"

definition iso_field :: "enrich_env \<Rightarrow> jsobj \<Rightarrow> jsobj result" where
  "iso_field env entry =
     (case timestamp_ms env (oget entry ''timestamp'') of
        None \<Rightarrow> Inr [] | Some ms \<Rightarrow> bindR (signed_iso ms) (\<lambda>t. Inr [(''timestampIso'', JStr t)]))"

definition transfer_fields :: "enrich_env \<Rightarrow> string \<Rightarrow> string \<Rightarrow> jsobj \<Rightarrow> jsobj result" where
  "transfer_fields env accountAddress direction entry =
     (let self = Some (case enrichKnownParty env (Some accountAddress) of Some p \<Rightarrow> p | None \<Rightarrow> [(''address'', JStr accountAddress)]);
          counterparty = party_of env (text_field entry ''transferaddress'') in
      bindR (iso_field env entry) (\<lambda>stamp.
      Inr ([(''direction'', JStr direction)] @ stamp @ asset_of env entry
        @ party_field ''from'' (if direction = ''sent'' then self else counterparty)
        @ party_field ''to'' (if direction = ''sent'' then counterparty else self)
        @ party_field ''counterparty'' counterparty)))"

definition buildTransferHistoryEntry :: "enrich_env \<Rightarrow> string \<Rightarrow> string \<Rightarrow> jsval \<Rightarrow> jsval result" where
  "buildTransferHistoryEntry env accountAddress direction v =
     (case members_of v of
        None \<Rightarrow> Inr v
      | Some entry \<Rightarrow> bindR (transfer_fields env accountAddress direction entry) (\<lambda>extra. Inr (JObj (spread entry extra))))"

definition history_list :: "enrich_env \<Rightarrow> string \<Rightarrow> string \<Rightarrow> jsval \<Rightarrow> jsval result" where
  "history_list env accountAddress direction v =
     (case v of
        JArr entries \<Rightarrow> bindR (mapR (buildTransferHistoryEntry env accountAddress direction) entries) (\<lambda>vs. Inr (JArr vs))
      | _ \<Rightarrow> Inr v)"

definition enrich_transfers :: "enrich_env \<Rightarrow> string \<Rightarrow> jsval \<Rightarrow> jsval result" where
  "enrich_transfers env accountAddress v =
     (case members_of v of
        None \<Rightarrow> Inr v
      | Some transfers \<Rightarrow>
          bindR (history_list env accountAddress ''sent'' (oget transfers ''sent'')) (\<lambda>sent.
          bindR (history_list env accountAddress ''received'' (oget transfers ''received'')) (\<lambda>received.
          Inr (JObj (spread transfers [(''sent'', sent), (''received'', received)])))))"

definition enrichNep17Transfers :: "enrich_env \<Rightarrow> string \<Rightarrow> jsval \<Rightarrow> jsval result" where
  "enrichNep17Transfers = enrich_transfers"

definition enrichNep11Transfers :: "enrich_env \<Rightarrow> string \<Rightarrow> jsval \<Rightarrow> jsval result" where
  "enrichNep11Transfers = enrich_transfers"

definition buildNep11BalanceEntry :: "enrich_env \<Rightarrow> jsval \<Rightarrow> jsval" where
  "buildNep11BalanceEntry env v =
     (case members_of v of
        None \<Rightarrow> v
      | Some entry \<Rightarrow> JObj (spread entry (asset_of env entry
          @ (case oget entry ''tokens'' of JArr ts \<Rightarrow> [(''tokenCount'', JNum (NInt (int (length ts))))] | _ \<Rightarrow> []))))"

definition enrichNep11Balances :: "enrich_env \<Rightarrow> jsval \<Rightarrow> jsval" where
  "enrichNep11Balances env v =
     (case members_of v of
        None \<Rightarrow> v
      | Some balances \<Rightarrow> JObj (spread balances
          [(''balance'', case oget balances ''balance'' of
                           JArr es \<Rightarrow> JArr (map (buildNep11BalanceEntry env) es) | w \<Rightarrow> w)]))"

section \<open>Application logs and transactions\<close>

definition either_given :: "jsval \<Rightarrow> jsval \<Rightarrow> jsval" where
  "either_given v w = (if nullish v then w else v)"

definition parsed_transfer :: "enrich_env \<Rightarrow> jsobj \<Rightarrow> jsval list \<Rightarrow> jsobj" where
  "parsed_transfer env n values =
     (let reference = (case either_given (oget n ''contract'') (oget n ''scriptHash'') of JStr s \<Rightarrow> Some s | _ \<Rightarrow> None);
          nft = 4 \<le> length values; text_of = (\<lambda>v. case v of None \<Rightarrow> JNull | Some s \<Rightarrow> JStr s) in
      [(''type'', JStr (if nft then ''nep11_transfer'' else ''nep17_transfer'')),
       (''contract'', JObj (case enrichKnownParty env reference of
          Some p \<Rightarrow> p | None \<Rightarrow> given ''scriptHash'' (normalizeScriptHash reference))),
       (''asset'', JObj (buildAssetDescriptor env reference)),
       (''from'', js_obj_option (parseTransferParticipant env (values ! 0))),
       (''to'', js_obj_option (parseTransferParticipant env (values ! 1))),
       (''amount'', text_of (parseTransferAmount env (values ! 2)))]
      @ (if nft then [(''tokenId'', text_of (parseTokenId (values ! 3)))] else []))"

definition enrichNotification :: "enrich_env \<Rightarrow> jsval \<Rightarrow> jsval" where
  "enrichNotification env v =
     (case members_of v of
        None \<Rightarrow> v
      | Some n \<Rightarrow>
          (case member (oget n ''state'') ''value'' of
             JArr values \<Rightarrow>
               if either_given (oget n ''eventname'') (oget n ''eventName'') \<noteq> JStr ''Transfer'' \<or> length values < 3 then v
               else JObj (spread n [(''parsed'', JObj (parsed_transfer env n values))])
           | _ \<Rightarrow> v))"

text \<open>\<open>{ ...execution }\<close> of a text lists its characters; an execution that is no object has no other members.\<close>

definition enrich_execution :: "enrich_env \<Rightarrow> jsval \<Rightarrow> jsval" where
  "enrich_execution env v =
     (let execution = (case v of JStr s \<Rightarrow> map (\<lambda>(i, c). (dec_str i, JStr [c])) (enumerate 0 s)
                                | _ \<Rightarrow> (case members_of v of None \<Rightarrow> [] | Some kvs \<Rightarrow> kvs)) in
      JObj (spread execution [(''notifications'',
        case oget execution ''notifications'' of JArr ns \<Rightarrow> JArr (map (enrichNotification env) ns) | w \<Rightarrow> w)]))"

definition enrichApplicationLog :: "enrich_env \<Rightarrow> jsval \<Rightarrow> jsval" where
  "enrichApplicationLog env v =
     (case members_of v of
        None \<Rightarrow> v
      | Some log \<Rightarrow>
          (case oget log ''executions'' of
             JArr es \<Rightarrow> JObj (spread log [(''executions'', JArr (map (enrich_execution env) es))])
           | _ \<Rightarrow> v))"

definition enrichTransaction :: "enrich_env \<Rightarrow> jsval \<Rightarrow> jsval" where
  "enrichTransaction env v =
     (case members_of v of
        None \<Rightarrow> v
      | Some tx \<Rightarrow>
          (case oget tx ''sender'' of
             JStr s \<Rightarrow> (case enrichKnownParty env (Some s) of
                None \<Rightarrow> v | Some p \<Rightarrow> JObj (spread tx [(''senderInfo'', JObj p)]))
           | _ \<Rightarrow> v))"

section \<open>Nothing the node sent is lost\<close>

text \<open>\<open>adds ks base out\<close>: outside the members \<open>ks\<close> the object \<open>out\<close> reads as \<open>base\<close>.\<close>

definition adds :: "string set \<Rightarrow> jsval \<Rightarrow> jsval \<Rightarrow> bool" where
  "adds ks base out \<longleftrightarrow>
     out = base \<or> (\<exists>kvs kvs'. members_of base = Some kvs \<and> out = JObj kvs' \<and> (\<forall>k. k \<notin> ks \<longrightarrow> oget kvs' k = oget kvs k))"

lemma spread_Cons: "spread base ((k, v) # extra) = spread (AList.update k v base) extra"
  by (simp add: spread_def)

lemma oget_update: "oget (AList.update k v kvs) k' = (if k' = k then v else oget kvs k')"
  by (simp add: oget_def AList.update_conv)

lemma oget_spread_other: "k \<notin> fst ` set extra \<Longrightarrow> oget (spread base extra) k = oget base k"
proof (induction extra arbitrary: base)
  case Nil
  then show ?case by (simp add: spread_def)
next
  case (Cons kv extra)
  obtain k' v where kv: "kv = (k', v)" by force
  show ?case using Cons.IH [of "AList.update k' v base"] Cons.prems by (simp add: kv spread_Cons oget_update)
qed

lemma spread_adds:
  assumes "members_of base = Some kvs" "fst ` set extra \<subseteq> ks" shows "adds ks base (JObj (spread kvs extra))"
proof -
  have "\<forall>k. k \<notin> ks \<longrightarrow> oget (spread kvs extra) k = oget kvs k" using assms(2) oget_spread_other by blast
  with assms(1) show ?thesis unfolding adds_def by blast
qed

lemma adds_refl [simp]: "adds ks v v"
  by (simp add: adds_def)

definition TRANSFER_KEYS :: "string set" where
  "TRANSFER_KEYS = {''direction'', ''timestampIso'', ''asset'', ''from'', ''to'', ''counterparty''}"

lemma asset_of_keys: "fst ` set (asset_of env entry) \<subseteq> {''asset''}"
  by (auto simp: asset_of_def split: option.splits)

lemma party_field_keys: "fst ` set (party_field k v) \<subseteq> {k}"
  by (auto simp: party_field_def split: option.splits)

lemma iso_field_keys: "iso_field env entry = Inr stamp \<Longrightarrow> fst ` set stamp \<subseteq> {''timestampIso''}"
  by (auto simp: iso_field_def result_simps split: option.splits)

lemma transfer_fields_keys:
  assumes "transfer_fields env a d entry = Inr extra" shows "fst ` set extra \<subseteq> TRANSFER_KEYS"
proof -
  from assms obtain stamp p q r where stamp: "iso_field env entry = Inr stamp" and extra:
    "extra = [(''direction'', JStr d)] @ stamp @ asset_of env entry @ party_field ''from'' p @ party_field ''to'' q @ party_field ''counterparty'' r"
    unfolding transfer_fields_def Let_def bindR_eq_Inr by blast
  show ?thesis using iso_field_keys [OF stamp] asset_of_keys [of env entry] party_field_keys [of "''from''" p]
      party_field_keys [of "''to''" q] party_field_keys [of "''counterparty''" r]
    unfolding extra TRANSFER_KEYS_def set_append image_Un by auto
qed

lemma history_entry_adds:
  "buildTransferHistoryEntry env a d v = Inr out \<Longrightarrow> adds TRANSFER_KEYS v out"
  by (auto simp: buildTransferHistoryEntry_def result_simps split: option.splits intro: spread_adds dest: transfer_fields_keys)

lemma history_list_adds:
  "history_list env a d (JArr es) = Inr out \<Longrightarrow> \<exists>es'. out = JArr es' \<and> list_all2 (adds TRANSFER_KEYS) es es'"
  by (auto simp: history_list_def result_simps mapR_Inr_iff elim!: list_all2_mono intro: history_entry_adds)

lemma nep11_entry_adds: "adds {''asset'', ''tokenCount''} v (buildNep11BalanceEntry env v)"
proof (cases "members_of v")
  case (Some entry)
  have "fst ` set (asset_of env entry @ (case oget entry ''tokens'' of JArr ts \<Rightarrow> [(''tokenCount'', JNum (NInt (int (length ts))))] | _ \<Rightarrow> []))
    \<subseteq> {''asset'', ''tokenCount''}" using asset_of_keys [of env entry] by (auto split: jsval.splits)
  with Some show ?thesis by (simp add: buildNep11BalanceEntry_def spread_adds)
qed (simp add: buildNep11BalanceEntry_def)

lemma notification_adds: "adds {''parsed''} v (enrichNotification env v)"
  by (auto simp: enrichNotification_def spread_adds split: option.splits jsval.splits)

lemma application_log_adds: "adds {''executions''} v (enrichApplicationLog env v)"
  by (auto simp: enrichApplicationLog_def spread_adds split: option.splits jsval.splits)

lemma transaction_adds: "adds {''senderInfo''} v (enrichTransaction env v)"
  by (auto simp: enrichTransaction_def spread_adds split: option.splits jsval.splits)

lemma nep11_balances_adds: "adds {''balance''} v (enrichNep11Balances env v)"
  by (auto simp: enrichNep11Balances_def spread_adds split: option.splits)

text \<open>Both transfer histories come back whole: as many entries as the node sent, in its order, each with what the node said of it.\<close>

lemma oget_spread_last:
  "oget (spread base [(k1, v1), (k2, v2)]) k2 = v2" "k1 \<noteq> k2 \<Longrightarrow> oget (spread base [(k1, v1), (k2, v2)]) k1 = v1"
  by (simp_all add: spread_def oget_update)

theorem transfers_kept:
  assumes "enrich_transfers env a (JObj ts) = Inr out" "oget ts ''sent'' = JArr es" "oget ts ''received'' = JArr rs"
  shows "adds {''sent'', ''received''} (JObj ts) out
    \<and> (\<exists>es' rs'. member out ''sent'' = JArr es' \<and> member out ''received'' = JArr rs'
        \<and> list_all2 (adds TRANSFER_KEYS) es es' \<and> list_all2 (adds TRANSFER_KEYS) rs rs')"
proof -
  have mem: "members_of (JObj ts) = Some ts" by (simp add: members_of_def)
  from assms obtain sent received where s: "history_list env a ''sent'' (JArr es) = Inr sent"
    and r: "history_list env a ''received'' (JArr rs) = Inr received"
    and out: "out = JObj (spread ts [(''sent'', sent), (''received'', received)])"
    by (auto simp: enrich_transfers_def mem result_simps)
  have "adds {''sent'', ''received''} (JObj ts) out" unfolding out by (rule spread_adds [OF mem]) simp
  moreover have "member out ''sent'' = sent" "member out ''received'' = received"
    by (simp_all add: out oget_spread_last)
  ultimately show ?thesis using history_list_adds [OF s] history_list_adds [OF r] by auto
qed

end
