(* ===== verification/ErrorHandler.thy ===== *)
theory ErrorHandler
  imports Strings
begin

text \<open>
  src/utils/errors.ts and src/utils/error-handler.ts: the classes of failures and the conversion of whatever was
  thrown into the error response of a tool. \<open>ProtocolError\<close> and its codes belong to the SDK; a protocol error
  carries its code.

  The main result is \<open>handleError_cases\<close>: which code and which message a caller sees for every kind of failure.
\<close>

datatype error_type =
    VALIDATION_ERROR | CONTRACT_ERROR | TRANSACTION_ERROR | NETWORK_ERROR | RATE_LIMIT_ERROR | WALLET_ERROR | INTERNAL_ERROR

text \<open>
  What can be thrown: an SDK error, one of the server's own classes, another \<open>Error\<close> with its \<open>code\<close> property
  and message, or a value that is no \<open>Error\<close>.
\<close>

datatype thrown =
    ProtocolFailure string protocol_code
  | NeoFailure error_type string
  | ErrorObject jsval string
  | ThrownValue jsval

fun thrown_of :: "js_error \<Rightarrow> thrown" where
  "thrown_of (ValidationError m) = NeoFailure VALIDATION_ERROR m"
| "thrown_of (RateLimitError m) = NeoFailure RATE_LIMIT_ERROR m"
| "thrown_of (NetworkError m) = NeoFailure NETWORK_ERROR m"
| "thrown_of (ProtocolError c m) = ProtocolFailure m c"
| "thrown_of (RpcError c m) = ErrorObject (JNum (NInt c)) m"
| "thrown_of e = ErrorObject JUndef (error_message e)"

record error_response =
  er_message :: jsval
  er_code :: "protocol_code option"

definition ERROR_MAPPINGS :: "(string \<times> string \<times> protocol_code) list" where
  "ERROR_MAPPINGS =
    [(''ECONNREFUSED'',
       ''Could not connect to Neo N3 node. Please check the node URL and try again.'', InternalError),
     (''ETIMEDOUT'',
       ''Connection to Neo N3 node timed out. The network might be congested or the node might be down.'', InternalError),
     (''ENOTFOUND'',
       ''Neo N3 node address not found. Please check the node URL.'', InternalError),
     (''Insufficient funds'',
       ''Insufficient funds to complete the transaction. Please ensure you have enough balance.'', InvalidParams),
     (''Invalid signature'',
       ''Invalid signature. Please check your wallet credentials.'', InvalidParams),
     (''Unknown asset'',
       ''Unknown asset. Please check the asset name or hash.'', InvalidParams),
     (''Transaction rejected'',
       ''Transaction was rejected by the network. It might conflict with network rules.'', InternalError),
     (''VM fault'',
       ''Smart contract execution failed. The operation could not be completed.'', InternalError),
     (''Already exists'',
       ''Transaction already exists in the blockchain.'', InvalidParams),
     (''Invalid address'',
       ''Invalid Neo N3 address format. Please provide a valid address.'', InvalidParams),
     (''Invalid hash'',
       ''Invalid hash format. Please provide a valid transaction or block hash.'', InvalidParams),
     (''Invalid amount'',
       ''Invalid amount. Please provide a valid positive number.'', InvalidParams),
     (''Invalid network'',
       ''Invalid network. Please use '' @ [CHR 0x22] @ ''mainnet'' @ [CHR 0x22] @ '' or '' @ [CHR 0x22] @ ''testnet'' @ [CHR 0x22] @ ''.'', InvalidParams),
     (''Contract not found'',
       ''Smart contract not found. Please check the contract name or hash.'', InvalidParams),
     (''Method not found'',
       ''Contract method not found. Please check the operation name.'', InvalidParams),
     (''Invalid argument'',
       ''Invalid contract argument. Please check the argument types and values.'', InvalidParams)]"

text \<open>A table that is an object literal also answers for the keys of its prototype, with a function or an object
  that has neither a message nor a code.\<close>

definition object_prototype_keys :: "string list" where
  "object_prototype_keys = [''constructor'', ''__defineGetter__'', ''__defineSetter__'', ''hasOwnProperty'', ''__lookupGetter__'',
     ''__lookupSetter__'', ''isPrototypeOf'', ''propertyIsEnumerable'', ''toString'', ''valueOf'', ''__proto__'', ''toLocaleString'']"

definition lookup_mapping :: "string \<Rightarrow> error_response option" where
  "lookup_mapping key =
     (case map_of ERROR_MAPPINGS key of
        Some (m, c) \<Rightarrow> Some \<lparr>er_message = JStr m, er_code = Some c\<rparr>
      | None \<Rightarrow> if key \<in> set object_prototype_keys then Some \<lparr>er_message = JUndef, er_code = None\<rparr> else None)"

definition findErrorMapping :: "string \<Rightarrow> error_response option" where
  "findErrorMapping errorMessage =
     (if errorMessage = [] then None
      else case lookup_mapping errorMessage of
        Some r \<Rightarrow> Some r
      | None \<Rightarrow>
          (case find (\<lambda>(key, m, c). includes_str errorMessage key) ERROR_MAPPINGS of
             Some (key, m, c) \<Rightarrow> Some \<lparr>er_message = JStr m, er_code = Some c\<rparr>
           | None \<Rightarrow> None))"

definition own_message :: "string \<Rightarrow> error_response" where
  "own_message m = \<lparr>er_message = JStr m, er_code = Some InternalError\<rparr>"

definition mapped_message :: "string \<Rightarrow> error_response" where
  "mapped_message m = (case findErrorMapping m of Some r \<Rightarrow> r | None \<Rightarrow> own_message m)"

text \<open>The branches on \<open>errObj.code\<close> and \<open>errObj.message\<close>, for an object with these two properties.\<close>

definition object_response :: "jsval \<Rightarrow> jsval \<Rightarrow> error_response" where
  "object_response code message =
     (case (case code of JStr c \<Rightarrow> if c = [] then None else lookup_mapping c | _ \<Rightarrow> None) of
        Some r \<Rightarrow> r
      | None \<Rightarrow>
          (case message of
             JStr m \<Rightarrow> if m = [] then own_message ''Unknown error'' else mapped_message m
           | _ \<Rightarrow> own_message ''Unknown error''))"

fun handleError :: "thrown \<Rightarrow> error_response result" where
  "handleError (ProtocolFailure m c) = Inr \<lparr>er_message = JStr m, er_code = Some c\<rparr>"
| "handleError (NeoFailure t m) =
     Inr \<lparr>er_message = JStr m, er_code = Some (if t = VALIDATION_ERROR then InvalidParams else InternalError)\<rparr>"
| "handleError (ErrorObject code m) = Inr (object_response code (JStr m))"
| "handleError (ThrownValue (JObj kvs)) = Inr (object_response (oget kvs ''code'') (oget kvs ''message''))"
| "handleError (ThrownValue (JInst kvs)) = Inr (object_response (oget kvs ''code'') (oget kvs ''message''))"
| "handleError (ThrownValue (JStr m)) = Inr (mapped_message m)"
| "handleError (ThrownValue v) =
     (if nullish v then Inl (TypeError ''Cannot read properties of '') else Inr (own_message ''Unknown error''))"

section \<open>What a caller sees\<close>

lemma mapping_code: "(k, m, c) \<in> set ERROR_MAPPINGS \<Longrightarrow> c = InvalidParams \<or> c = InternalError"
  by (auto simp: ERROR_MAPPINGS_def)

definition table_response :: "error_response \<Rightarrow> bool" where
  "table_response r \<longleftrightarrow>
     (\<exists>(k, m, c) \<in> set ERROR_MAPPINGS. r = \<lparr>er_message = JStr m, er_code = Some c\<rparr>) \<or> r = \<lparr>er_message = JUndef, er_code = None\<rparr>"

lemma lookup_table: "lookup_mapping k = Some r \<Longrightarrow> table_response r"
  by (auto simp: lookup_mapping_def table_response_def split: option.splits if_splits dest!: map_of_SomeD)

lemma findErrorMapping_table: "findErrorMapping m = Some r \<Longrightarrow> table_response r"
proof -
  assume a: "findErrorMapping m = Some r"
  show ?thesis
  proof (cases "lookup_mapping m")
    case (Some x)
    with a lookup_table [OF Some] show ?thesis by (auto simp: findErrorMapping_def split: if_splits)
  next
    case None
    with a obtain k t c where "find (\<lambda>(key, m', c). includes_str m key) ERROR_MAPPINGS = Some (k, t, c)"
      and r: "r = \<lparr>er_message = JStr t, er_code = Some c\<rparr>"
      by (auto simp: findErrorMapping_def split: if_splits option.splits)
    then have "(k, t, c) \<in> set ERROR_MAPPINGS" by (auto simp: find_Some_iff in_set_conv_nth)
    with r show ?thesis by (auto simp: table_response_def)
  qed
qed

lemma object_response_cases:
  "object_response code message = own_message ''Unknown error'' \<or> table_response (object_response code message)
   \<or> (\<exists>m. message = JStr m \<and> object_response code message = own_message m)"
proof -
  have f: "mapped_message m = own_message m \<or> table_response (mapped_message m)" for m
    using findErrorMapping_table by (auto simp: mapped_message_def split: option.splits)
  show ?thesis
  proof (cases "case code of JStr c \<Rightarrow> if c = [] then None else lookup_mapping c | _ \<Rightarrow> None")
    case (Some r)
    then have "table_response r" using lookup_table by (auto split: jsval.splits if_splits)
    with Some show ?thesis by (simp add: object_response_def)
  next
    case None
    then have "object_response code message = (case message of
             JStr m \<Rightarrow> if m = [] then own_message ''Unknown error'' else mapped_message m
           | _ \<Rightarrow> own_message ''Unknown error'')" by (simp only: object_response_def option.case)
    then show ?thesis using f by (cases message) auto
  qed
qed

text \<open>
  Every failure but \<open>null\<close> and \<open>undefined\<close> gives a response. A validation failure is the caller's fault and shows
  its own text; the other classes of the server show theirs as internal errors; anything else shows an entry of
  the table, its own text or ``Unknown error''.
\<close>

lemma handleError_cases:
  "case handleError e of
     Inl err \<Rightarrow> \<exists>v. e = ThrownValue v \<and> nullish v
   | Inr r \<Rightarrow>
       (case e of
          ProtocolFailure m c \<Rightarrow> r = \<lparr>er_message = JStr m, er_code = Some c\<rparr>
        | NeoFailure t m \<Rightarrow> er_message r = JStr m \<and> (er_code r = Some InvalidParams \<longleftrightarrow> t = VALIDATION_ERROR)
        | _ \<Rightarrow> table_response r \<or> (\<exists>m. r = own_message m))"
proof (cases e)
  case (ErrorObject code m)
  then show ?thesis using object_response_cases [of code "JStr m"] by auto
next
  case (ThrownValue v)
  then show ?thesis
  proof (cases v)
    case (JObj kvs)
    then show ?thesis using object_response_cases [of "oget kvs ''code''" "oget kvs ''message''"] ThrownValue by auto
  next
    case (JInst kvs)
    then show ?thesis using object_response_cases [of "oget kvs ''code''" "oget kvs ''message''"] ThrownValue by auto
  next
    case (JStr m)
    then show ?thesis using findErrorMapping_table [of m] ThrownValue by (auto simp: mapped_message_def split: option.splits)
  qed (simp_all add: ThrownValue own_message_def)
qed auto

text \<open>An error whose message is a key of the object prototype yields a response without message and code.\<close>

lemma prototype_key_response: "handleError (ErrorObject JUndef ''constructor'') = Inr \<lparr>er_message = JUndef, er_code = None\<rparr>"
  by (simp add: object_response_def mapped_message_def findErrorMapping_def) code_simp

end
