(* ===== verification/NeoService.thy ===== *)
theory NeoService
  imports NeoEnrichment RpcFailover ErrorHandler
begin

text \<open>
  src/services/neo-service.ts, the service that speaks to a Neo N3 node: its state, the identification of the node by its
  network magic, and the reads. An action takes the state and gives a value or an error with the new state. The state
  holds the clock, the magic once it is known, and every request with the answer the node gave to it. The node is a
  parameter: a function of everything it was asked before, of the time and of the request, that also says how many
  milliseconds the answer takes. The class of the error for a wrong network (\<open>ne_mismatchName\<close>) differs in
  src/contracts/contract-service.ts, which shares this code. An error is an \<open>rpc_failure\<close> with its whole message, because the code looks for words in it.

  The main result is \<open>operations_identify_node\<close> of NeoTransactions, which rests on the rules of \<open>asks_intros\<close>.
\<close>

section \<open>Requests, state and actions\<close>

datatype rpc_request =
    Execute string "jsval list"
  | GetBlockCount
  | GetBlock jsval
  | GetRawTransaction string
  | GetApplicationLog string
  | GetUnclaimedGas string
  | GetTransactionHeight string
  | InvokeScript string "string list"
  | InvokeFunction string string "string list"
  | CalculateNetworkFee string
  | SendRawTransaction string

type_synonym rpc_reply = "rpc_failure + jsval"

type_synonym rpc_log = "(rpc_request \<times> rpc_reply) list"

record neo_state =
  ns_clock :: int
  ns_magic :: "int option"
  ns_waits :: nat
  ns_log :: rpc_log

record neo_env =
  ne_node :: "rpc_log \<Rightarrow> int \<Rightarrow> rpc_request \<Rightarrow> rpc_reply \<times> nat"
  ne_network :: string
  ne_mismatchName :: string
  ne_rpcUrls :: "string list"
  ne_rpcTimeoutMs :: int
  ne_maxWaitMs :: int
  ne_minPollMs :: int
  ne_maxWaits :: nat
  ne_maxFeeDatos :: int
  ne_enrich :: enrich_env
  ne_isPublicKey :: "string \<Rightarrow> bool"
  ne_createScript :: "string \<Rightarrow> string \<Rightarrow> formatted list \<Rightarrow> rpc_failure + string"

text \<open>An action over any state; those of the node service keep a \<open>neo_state\<close>.\<close>

type_synonym ('s, 'a) run = "'s \<Rightarrow> (rpc_failure + 'a) \<times> 's"

type_synonym 'a neo = "(neo_state, 'a) run"

definition retN :: "'a \<Rightarrow> ('s, 'a) run" where
  "retN a = (\<lambda>s. (Inr a, s))"

definition throwN :: "rpc_failure \<Rightarrow> ('s, 'a) run" where
  "throwN e = (\<lambda>s. (Inl e, s))"

definition bindN :: "('s, 'a) run \<Rightarrow> ('a \<Rightarrow> ('s, 'b) run) \<Rightarrow> ('s, 'b) run" where
  "bindN m f = (\<lambda>s. case m s of (Inl e, s') \<Rightarrow> (Inl e, s') | (Inr a, s') \<Rightarrow> f a s')"

definition catchN :: "('s, 'a) run \<Rightarrow> (rpc_failure \<Rightarrow> ('s, 'a) run) \<Rightarrow> ('s, 'a) run" where
  "catchN m h = (\<lambda>s. case m s of (Inl e, s') \<Rightarrow> h e s' | (Inr a, s') \<Rightarrow> (Inr a, s'))"

definition settleN :: "('s, 'a) run \<Rightarrow> ('s, rpc_failure + 'a) run" where
  "settleN m = (\<lambda>s. case m s of (r, s') \<Rightarrow> (Inr r, s'))"

definition liftN :: "rpc_failure + 'a \<Rightarrow> ('s, 'a) run" where
  "liftN r = (\<lambda>s. (r, s))"

text \<open>\<open>Promise.all\<close>: both start at once; the error that comes first decides.\<close>

definition parN :: "'a neo \<Rightarrow> 'b neo \<Rightarrow> ('a \<times> 'b) neo" where
  "parN m n = (\<lambda>s.
     case m s of (r, s1) \<Rightarrow>
     case n (s1\<lparr>ns_clock := ns_clock s\<rparr>) of (r', s2) \<Rightarrow>
       (case r of
          Inl e \<Rightarrow>
            (case r' of
               Inl e' \<Rightarrow> if ns_clock s1 \<le> ns_clock s2 then (Inl e, s2\<lparr>ns_clock := ns_clock s1\<rparr>) else (Inl e', s2)
             | Inr b \<Rightarrow> (Inl e, s2\<lparr>ns_clock := ns_clock s1\<rparr>))
        | Inr a \<Rightarrow>
            (case r' of
               Inl e' \<Rightarrow> (Inl e', s2)
             | Inr b \<Rightarrow> (Inr (a, b), s2\<lparr>ns_clock := max (ns_clock s1) (ns_clock s2)\<rparr>))))"

definition failure :: "string \<Rightarrow> string \<Rightarrow> rpc_failure" where
  "failure name m = \<lparr>f_name = name, f_code = JUndef, f_message = m\<rparr>"

text \<open>An error of the shared helpers; its message is the fixed part.\<close>

fun failure_of :: "js_error \<Rightarrow> rpc_failure" where
  "failure_of (ValidationError m) = failure ''ValidationError'' m"
| "failure_of (RangeError m) = failure ''RangeError'' m"
| "failure_of (TypeError m) = failure ''TypeError'' m"
| "failure_of (RateLimitError m) = failure ''RateLimitError'' m"
| "failure_of (NetworkError m) = failure ''NetworkError'' m"
| "failure_of (RpcDeadlineError n) = RpcDeadlineFailure n"
| "failure_of (RpcError c m) = \<lparr>f_name = ''RpcError'', f_code = JNum (NInt c), f_message = m\<rparr>"
| "failure_of OperationAbortedError = failure ''OperationAbortedError'' ''Operation aborted''"
| "failure_of (SubmissionOutcomeUnknownError t) = failure ''SubmissionOutcomeUnknownError'' t"
| "failure_of e = plain_error (error_message e)"

definition helper :: "'a result \<Rightarrow> ('s, 'a) run" where
  "helper r = (case r of Inl e \<Rightarrow> throwN (failure_of e) | Inr a \<Rightarrow> retN a)"

definition fail_with :: "string \<Rightarrow> ('s, 'a) run" where
  "fail_with m = throwN (plain_error m)"

text \<open>\<open>catch (error) { throw new Error(`...${error.message}`) }\<close>\<close>

definition wrapN :: "string \<Rightarrow> ('s, 'a) run \<Rightarrow> ('s, 'a) run" where
  "wrapN prefix m = catchN m (\<lambda>e. fail_with (prefix @ f_message e))"

definition wrap_unless :: "string set \<Rightarrow> string \<Rightarrow> ('s, 'a) run \<Rightarrow> ('s, 'a) run" where
  "wrap_unless names prefix m = catchN m (\<lambda>e. if f_name e \<in> names then throwN e else fail_with (prefix @ f_message e))"

section \<open>Deadlines\<close>

definition send :: "neo_env \<Rightarrow> rpc_request \<Rightarrow> jsval neo" where
  "send env q = (\<lambda>s.
     case ne_node env (ns_log s) (ns_clock s) q of (r, d) \<Rightarrow>
       (r, s\<lparr>ns_clock := ns_clock s + int d, ns_log := ns_log s @ [(q, r)]\<rparr>))"

text \<open>
  \<open>withRpcDeadline\<close> of src/utils/rpc-deadline.ts over an action with a duration (its events are in RpcTransport): the
  timer and the abort, set before the operation starts, win over an answer at the same instant. What an abandoned
  operation has asked stays asked.
\<close>

definition within :: "int option \<Rightarrow> int \<Rightarrow> 'a neo \<Rightarrow> 'a neo" where
  "within abortAt timeoutMs m = (\<lambda>s.
     if timeoutMs \<le> 0 then (Inl (RpcDeadlineFailure 0), s)
     else if (case abortAt of None \<Rightarrow> False | Some t \<Rightarrow> t \<le> ns_clock s) then (Inl (failure_of OperationAbortedError), s)
     else case m s of (r, s') \<Rightarrow>
       let timeout = ns_clock s + timeoutMs in
       (case abortAt of
          None \<Rightarrow> if ns_clock s' < timeout then (r, s') else (Inl (RpcDeadlineFailure timeoutMs), s'\<lparr>ns_clock := timeout\<rparr>)
        | Some t \<Rightarrow>
            if ns_clock s' < min t timeout then (r, s')
            else if timeout \<le> t then (Inl (RpcDeadlineFailure timeoutMs), s'\<lparr>ns_clock := timeout\<rparr>)
            else (Inl (failure_of OperationAbortedError), s'\<lparr>ns_clock := t\<rparr>)))"

definition NEO_NETWORK_MAGIC :: "string \<Rightarrow> int option" where
  "NEO_NETWORK_MAGIC network = map_of [(''mainnet'', 860833102), (''testnet'', 894710606)] network"

definition version_request :: rpc_request where
  "version_request = Execute ''getversion'' []"

definition reported_magic :: "jsval \<Rightarrow> int option" where
  "reported_magic version =
     (case member (member version ''protocol'') ''network'' of JNum (NInt i) \<Rightarrow> Some i | _ \<Rightarrow> None)"

definition checked_magic :: "neo_env \<Rightarrow> jsval \<Rightarrow> rpc_failure + int" where
  "checked_magic env version =
     (case reported_magic version of
        None \<Rightarrow> Inl (plain_error ''Failed to determine network magic from RPC getversion'')
      | Some magic \<Rightarrow>
          if Some magic \<noteq> NEO_NETWORK_MAGIC (ne_network env)
          then Inl (failure (ne_mismatchName env) (''RPC network mismatch for '' @ ne_network env @ '': expected magic ''
            @ (case NEO_NETWORK_MAGIC (ne_network env) of None \<Rightarrow> ''undefined'' | Some m \<Rightarrow> int_str m)
            @ '', but endpoint reported '' @ int_str magic))
          else Inr magic)"

definition getNetworkMagic :: "neo_env \<Rightarrow> int neo" where
  "getNetworkMagic env = (\<lambda>s.
     case ns_magic s of
       Some magic \<Rightarrow> (Inr magic, s)
     | None \<Rightarrow>
         bindN (within None (ne_rpcTimeoutMs env) (send env version_request)) (\<lambda>version.
         bindN (liftN (checked_magic env version)) (\<lambda>magic s'. (Inr magic, s'\<lparr>ns_magic := Some magic\<rparr>))) s)"

definition with_deadline :: "neo_env \<Rightarrow> int option \<Rightarrow> int \<Rightarrow> 'a neo \<Rightarrow> 'a neo" where
  "with_deadline env abortAt timeoutMs m = bindN (getNetworkMagic env) (\<lambda>_. within abortAt timeoutMs m)"

definition ask :: "neo_env \<Rightarrow> rpc_request \<Rightarrow> jsval neo" where
  "ask env q = with_deadline env None (ne_rpcTimeoutMs env) (send env q)"

text \<open>Two reads at once share the request for the version.\<close>

definition ask_both :: "neo_env \<Rightarrow> rpc_request \<Rightarrow> rpc_request \<Rightarrow> (jsval \<times> jsval) neo" where
  "ask_both env q q' = bindN (getNetworkMagic env) (\<lambda>_. parN (ask env q) (ask env q'))"

section \<open>Blocks and validators\<close>

definition validators_from :: "neo_env \<Rightarrow> jsval neo \<Rightarrow> jsval list neo" where
  "validators_from env first =
     catchN
       (bindN (catchN first (\<lambda>e.
          if \<not> isUnsupportedRpcMethodError e then throwN e
          else catchN (ask env (Execute ''getnextblockvalidators'' [])) (\<lambda>_. retN JUndef))) (\<lambda>result.
        retN (case result of JArr vs \<Rightarrow> vs | _ \<Rightarrow> [])))
       (\<lambda>_. retN [])"

definition getValidatorsOrEmpty :: "neo_env \<Rightarrow> jsval list neo" where
  "getValidatorsOrEmpty env = validators_from env (ask env (Execute ''getvalidators'' []))"

definition height_below :: "jsval \<Rightarrow> jsval" where
  "height_below blockCount = JNum (case blockCount of JNum (NInt i) \<Rightarrow> NInt (max 0 (i - 1)) | _ \<Rightarrow> NaN)"

text \<open>
  The two reads share the request for the version; when it fails, the validators still try their second query.
  A block count is a number: any other answer has no height.
\<close>

definition getBlockchainInfo :: "neo_env \<Rightarrow> jsval neo" where
  "getBlockchainInfo env =
     wrapN ''Failed to get blockchain info: ''
       (bindN (bindN (settleN (getNetworkMagic env)) (\<lambda>magic.
          case magic of
            Inl e \<Rightarrow> parN (throwN e) (validators_from env (throwN e))
          | Inr _ \<Rightarrow> parN (ask env GetBlockCount) (getValidatorsOrEmpty env))) (\<lambda>(blockCount, validators).
        retN (JObj [(''blockCount'', blockCount), (''height'', height_below blockCount),
                    (''validators'', JArr validators), (''network'', JStr (ne_network env))])))"

definition getBlock :: "neo_env \<Rightarrow> jsval \<Rightarrow> jsval neo" where
  "getBlock env hashOrHeight =
     wrapN (''Failed to get block '' @ js_String hashOrHeight @ '': '') (ask env (GetBlock hashOrHeight))"

definition getBlockCount :: "neo_env \<Rightarrow> jsval neo" where
  "getBlockCount env = wrapN ''Failed to get block count: '' (ask env GetBlockCount)"

definition parse_index :: "jsval \<Rightarrow> string \<Rightarrow> int neo" where
  "parse_index v field =
     (case v of
        JNum (NInt i) \<Rightarrow> if isSafeInteger (NInt i) \<and> 0 \<le> i then retN i else fail_with (field @ '' is not a non-negative safe integer'')
      | JNum _ \<Rightarrow> fail_with (field @ '' is not a non-negative safe integer'')
      | JStr s \<Rightarrow>
          if \<not> all_digits s then fail_with (field @ '' is not a non-negative integer'')
          else if int (str_dec s) \<le> maxSafeInteger then retN (int (str_dec s))
          else fail_with (field @ '' is not a non-negative safe integer'')
      | _ \<Rightarrow> fail_with (field @ '' is not a non-negative integer''))"

definition state_root :: "neo_env \<Rightarrow> int \<Rightarrow> jsval \<Rightarrow> jsval \<Rightarrow> jsval neo" where
  "state_root env blockHeight root heights =
     (case root of
        JObj r \<Rightarrow>
          bindN (parse_index (oget r ''index'') ''getstateroot index'') (\<lambda>rootIndex.
          bindN (parse_index (member heights ''validatedrootindex'') ''getstateheight validatedrootindex'') (\<lambda>validatedRootIndex.
          bindN (parse_index (member heights ''localrootindex'') ''getstateheight localrootindex'') (\<lambda>localRootIndex.
          if rootIndex \<noteq> blockHeight then
            fail_with (''getstateroot returned index '' @ int_str rootIndex @ '' for requested block '' @ int_str blockHeight)
          else if (case oget r ''roothash'' of JStr s \<Rightarrow> \<not> hex_0x 64 (to_lower s) | _ \<Rightarrow> True) then
            fail_with ''getstateroot returned an invalid roothash''
          else retN (JObj
            [(''blockHeight'', JNum (NInt blockHeight)), (''root'', root), (''localRootIndex'', JNum (NInt localRootIndex)),
             (''validatedRootIndex'', JNum (NInt validatedRootIndex)), (''validated'', JBool (blockHeight \<le> validatedRootIndex)),
             (''network'', JStr (ne_network env))]))))
      | _ \<Rightarrow> fail_with ''getstateroot returned an invalid result'')"

definition getStateRootValidation :: "neo_env \<Rightarrow> jsnum \<Rightarrow> jsval neo" where
  "getStateRootValidation env blockHeight =
     (case blockHeight of
        NInt h \<Rightarrow>
          if \<not> isSafeInteger blockHeight \<or> h < 0
          then throwN (failure ''ValidationError'' ''Block height must be a non-negative safe integer'')
          else wrap_unless {''ValidationError''} (''Failed to validate state root at block '' @ int_str h @ '': '')
            (bindN (ask_both env (Execute ''getstateroot'' [JNum (NInt h)]) (Execute ''getstateheight'' [])) (\<lambda>(root, heights).
             state_root env h root heights))
      | _ \<Rightarrow> throwN (failure ''ValidationError'' ''Block height must be a non-negative safe integer''))"

section \<open>Transactions and transfers\<close>

definition getTransaction :: "neo_env \<Rightarrow> string \<Rightarrow> jsval neo" where
  "getTransaction env txid =
     wrapN (''Failed to get transaction '' @ txid @ '': '')
       (catchN (bindN (ask env (GetRawTransaction txid)) (\<lambda>tx. retN (enrichTransaction (ne_enrich env) tx))) (\<lambda>e.
        if \<not> isUnsupportedRpcMethodError e then throwN e
        else bindN (ask env (Execute ''getrawtransaction'' [JStr txid, JNum (NInt 1)])) (\<lambda>tx.
          retN (enrichTransaction (ne_enrich env) tx))))"

definition getApplicationLog :: "neo_env \<Rightarrow> string \<Rightarrow> jsval neo" where
  "getApplicationLog env txid =
     wrapN (''Failed to get application log for '' @ txid @ '': '')
       (bindN (ask env (GetApplicationLog txid)) (\<lambda>log. retN (enrichApplicationLog (ne_enrich env) log)))"

definition getUnclaimedGas :: "neo_env \<Rightarrow> string \<Rightarrow> jsval neo" where
  "getUnclaimedGas env address =
     wrapN (''Failed to get unclaimed GAS for '' @ address @ '': '')
       (bindN (ask env (GetUnclaimedGas address)) (\<lambda>gas.
        retN (JObj [(''address'', JStr address), (''unclaimedGas'', JStr (js_String gas))])))"

text \<open>The optional bounds in milliseconds; integers from \<open>10^21\<close> up, which the tools never pass, count as none here.\<close>

definition timestamp_bound :: "string \<Rightarrow> jsnum option \<Rightarrow> int option neo" where
  "timestamp_bound name v =
     (case v of
        None \<Rightarrow> retN None
      | Some (NInt i) \<Rightarrow> if i < 0 then fail_with (''Invalid '' @ name @ '': '' @ int_str i) else retN (Some i)
      | Some n \<Rightarrow> fail_with (''Invalid '' @ name @ '': '' @ num_text n))"

definition transfer_params :: "string \<Rightarrow> int option \<Rightarrow> int option \<Rightarrow> jsval list" where
  "transfer_params address a b =
     JStr address # (case a of None \<Rightarrow> [] | Some i \<Rightarrow> [JNum (NInt i)])
     @ (case b of None \<Rightarrow> [] | Some j \<Rightarrow> (if a = None then [JNum (NInt 0)] else []) @ [JNum (NInt j)])"

definition transfer_history ::
    "neo_env \<Rightarrow> string \<Rightarrow> string \<Rightarrow> (enrich_env \<Rightarrow> string \<Rightarrow> jsval \<Rightarrow> jsval result) \<Rightarrow> string \<Rightarrow> jsnum option \<Rightarrow> jsnum option \<Rightarrow> jsval neo" where
  "transfer_history env rpc label enrich address fromMs toMs =
     wrapN (''Failed to get '' @ label @ '' transfers for address '' @ address @ '': '')
       (if address = [] then fail_with ''Invalid address format''
        else bindN (timestamp_bound ''fromTimestampMs'' fromMs) (\<lambda>a. bindN (timestamp_bound ''toTimestampMs'' toMs) (\<lambda>b.
        if (case (a, b) of (Some i, Some j) \<Rightarrow> j < i | _ \<Rightarrow> False)
        then fail_with ''fromTimestampMs must be less than or equal to toTimestampMs''
        else bindN (ask env (Execute rpc (transfer_params address a b))) (\<lambda>transfers.
             helper (enrich (ne_enrich env) address transfers)))))"

definition getNep17Transfers :: "neo_env \<Rightarrow> string \<Rightarrow> jsnum option \<Rightarrow> jsnum option \<Rightarrow> jsval neo" where
  "getNep17Transfers env = transfer_history env ''getnep17transfers'' ''NEP-17'' enrichNep17Transfers"

definition getNep11Transfers :: "neo_env \<Rightarrow> string \<Rightarrow> jsnum option \<Rightarrow> jsnum option \<Rightarrow> jsval neo" where
  "getNep11Transfers env = transfer_history env ''getnep11transfers'' ''NEP-11'' enrichNep11Transfers"

definition getNep11Balances :: "neo_env \<Rightarrow> string \<Rightarrow> jsval neo" where
  "getNep11Balances env address =
     wrapN (''Failed to get NEP-11 balances for address '' @ address @ '': '')
       (if address = [] then fail_with ''Invalid address format''
        else bindN (ask env (Execute ''getnep11balances'' [JStr address])) (\<lambda>balances.
             retN (enrichNep11Balances (ne_enrich env) balances)))"

section \<open>Balances and calls that change nothing\<close>

definition NEO_TOKEN_HASH :: string where "NEO_TOKEN_HASH = ''0xef4073a0f2b305a38ec4050e4d3d28bc40ea63f5''"

definition GAS_TOKEN_HASH :: string where "GAS_TOKEN_HASH = ''0xd2a4cff31913016155e38e474a2c06d08be276cf''"

text \<open>The table is a plain object: a name of \<open>Object.prototype\<close> finds what is there.\<close>

definition getAssetNameByHash :: "string \<Rightarrow> jsval" where
  "getAssetNameByHash assetHash =
     (let h = to_lower assetHash in
      if h = GAS_TOKEN_HASH then JStr ''GAS'' else if h = NEO_TOKEN_HASH then JStr ''NEO''
      else if h \<in> set object_prototype_keys then JFun else JStr assetHash)"

definition member_error :: "string \<Rightarrow> rpc_failure" where
  "member_error k = failure ''TypeError'' (''Cannot read properties of null (reading '' @ [CHR 0x27] @ k @ [CHR 0x27] @ '')'')"

definition balance_item :: "jsval \<Rightarrow> jsval neo" where
  "balance_item v =
     (if nullish v then throwN (member_error ''assethash'')
      else retN (JObj
        [(''asset_hash'', member v ''assethash''), (''amount'', member v ''amount''),
         (''asset_name'', case member v ''assethash'' of JStr h \<Rightarrow> getAssetNameByHash h | _ \<Rightarrow> JStr []),
         (''last_updated_block'', member v ''lastupdatedblock'')]))"

fun eachN :: "('a \<Rightarrow> ('s, 'b) run) \<Rightarrow> 'a list \<Rightarrow> ('s, 'b list) run" where
  "eachN f [] = retN []"
| "eachN f (x # xs) = bindN (f x) (\<lambda>y. bindN (eachN f xs) (\<lambda>ys. retN (y # ys)))"

text \<open>\<open>result.state\<close> and \<open>result.stack\<close> of an answer.\<close>

definition reply_members :: "string \<Rightarrow> jsval \<Rightarrow> ('s, jsobj) run" where
  "reply_members k v = (if nullish v then throwN (member_error k) else retN (case v of JObj kvs \<Rightarrow> kvs | _ \<Rightarrow> []))"

definition digit_value :: "jsval \<Rightarrow> string option" where
  "digit_value v =
     (case v of
        JStr t \<Rightarrow> if all_digits t then Some t else None
      | JNum n \<Rightarrow> if all_digits (num_text n) then Some (num_text n) else None
      | _ \<Rightarrow> None)"

definition extract_balance :: "string \<Rightarrow> jsval \<Rightarrow> string neo" where
  "extract_balance asset result =
     bindN (reply_members ''stack'' result) (\<lambda>r.
     case (oget r ''state'' = JStr ''HALT'', digit_value (stack_value r)) of
       (True, Some t) \<Rightarrow> retN t
     | _ \<Rightarrow> fail_with (''Neo RPC returned an invalid '' @ asset @ '' balance response''))"

definition scripted_balances :: "neo_env \<Rightarrow> string \<Rightarrow> jsval neo" where
  "scripted_balances env address =
     wrapN ''Invoke script approach also failed: ''
       (bindN (liftN (ne_createScript env NEO_TOKEN_HASH ''balanceOf'' [FP ''Hash160'' (FStr address)])) (\<lambda>neoScript.
        bindN (liftN (ne_createScript env GAS_TOKEN_HASH ''balanceOf'' [FP ''Hash160'' (FStr address)])) (\<lambda>gasScript.
        bindN (ask_both env (InvokeScript neoScript []) (InvokeScript gasScript [])) (\<lambda>(neoResult, gasResult).
        bindN (extract_balance ''NEO'' neoResult) (\<lambda>neoBalance.
        bindN (extract_balance ''GAS'' gasResult) (\<lambda>gasBalance.
        retN (JObj [(''address'', JStr address), (''balance'', JArr (map (\<lambda>(name, hash, amount).
            JObj [(''asset'', JStr name), (''asset_hash'', JStr hash), (''asset_name'', JStr name), (''amount'', JStr amount)])
          [(''NEO'', NEO_TOKEN_HASH, neoBalance), (''GAS'', GAS_TOKEN_HASH, gasBalance)]))])))))))"

definition listed_balances :: "neo_env \<Rightarrow> string \<Rightarrow> jsval option neo" where
  "listed_balances env address =
     bindN (ask env (Execute ''getnep17balances'' [JStr address])) (\<lambda>result.
     if \<not> truthy (member result ''balance'') then retN None
     else case member result ''balance'' of
       JArr items \<Rightarrow> bindN (eachN balance_item items) (\<lambda>vs.
         retN (Some (JObj [(''address'', member result ''address''), (''balance'', JArr vs)])))
     | _ \<Rightarrow> throwN (failure ''TypeError'' ''balanceResult.balance.map is not a function''))"

definition getBalance :: "neo_env \<Rightarrow> string \<Rightarrow> jsval neo" where
  "getBalance env address =
     wrapN (''Failed to get balance for address '' @ address @ '': '')
       (if address = [] then fail_with ''Invalid address format''
        else bindN (catchN (listed_balances env address) (\<lambda>e.
               if \<not> isUnsupportedRpcMethodError e then throwN e
               else bindN (scripted_balances env address) (\<lambda>v. retN (Some v)))) (\<lambda>found.
             case found of Some v \<Rightarrow> retN v | None \<Rightarrow> fail_with (''No balance data returned for address '' @ address)))"

definition contract_script :: "neo_env \<Rightarrow> string \<Rightarrow> string \<Rightarrow> jsval list \<Rightarrow> ('s, string) run" where
  "contract_script env scriptHash operation args =
     bindN (helper (formatContractParameters (en_isAddress (ne_enrich env)) (en_scriptHash (ne_enrich env)) (ne_isPublicKey env) (JArr args)))
       (\<lambda>params. liftN (ne_createScript env scriptHash operation params))"

text \<open>A result that did not halt fails with its state; the JSON text of the rest of the result is left out of the message.\<close>

definition invokeReadContract :: "neo_env \<Rightarrow> string \<Rightarrow> string \<Rightarrow> jsval list \<Rightarrow> jsval neo" where
  "invokeReadContract env scriptHash operation args =
     wrap_unless {''ValidationError''} (''Failed to invoke read contract '' @ scriptHash @ ''.'' @ operation @ '': '')
       (if scriptHash = [] then fail_with ''Script hash is required''
        else if operation = [] then fail_with ''Operation is required''
        else bindN (contract_script env scriptHash operation args) (\<lambda>script.
             bindN (ask env (InvokeScript script [])) (\<lambda>result.
             bindN (reply_members ''state'' result) (\<lambda>r.
             if oget r ''state'' \<noteq> JStr ''HALT'' then fail_with (''VM execution '' @ js_String (oget r ''state'') @ '': '')
             else retN result))))"

definition testInvoke :: "neo_env \<Rightarrow> string \<Rightarrow> string \<Rightarrow> jsval list \<Rightarrow> jsval list \<Rightarrow> jsval neo" where
  "testInvoke env scriptHash operation params signers =
     (if scriptHash = [] then throwN (failure ''ValidationError'' ''Script hash is required'')
      else if operation = [] then throwN (failure ''ValidationError'' ''Operation is required'')
      else ask env (Execute ''invokefunction'' [JStr scriptHash, JStr operation, JArr params, JArr signers]))"

section \<open>The node is identified before it is asked\<close>

text \<open>
  \<open>identified\<close>: every request other than \<open>getversion\<close> was sent after the node had reported the magic of the configured
  network, and a magic that is remembered is that one. \<open>asks b env m\<close>: the action keeps this and only adds to the log,
  from every state if \<open>\<not> b\<close>, from those where the node is known if \<open>b\<close>.
\<close>

definition vouched :: "neo_env \<Rightarrow> rpc_log \<Rightarrow> bool" where
  "vouched env l \<longleftrightarrow>
     (\<exists>v magic. (version_request, Inr v) \<in> set l \<and> reported_magic v = Some magic \<and> NEO_NETWORK_MAGIC (ne_network env) = Some magic)"

definition identified :: "neo_env \<Rightarrow> neo_state \<Rightarrow> bool" where
  "identified env s \<longleftrightarrow>
     (\<forall>p q r l. ns_log s = p @ (q, r) # l \<and> q \<noteq> version_request \<longrightarrow> vouched env p) \<and>
     (\<forall>magic. ns_magic s = Some magic \<longrightarrow> NEO_NETWORK_MAGIC (ne_network env) = Some magic \<and> vouched env (ns_log s))"

definition asks :: "bool \<Rightarrow> neo_env \<Rightarrow> 'a neo \<Rightarrow> bool" where
  "asks b env m \<longleftrightarrow>
     (\<forall>s. identified env s \<and> (b \<longrightarrow> vouched env (ns_log s)) \<longrightarrow>
        identified env (snd (m s)) \<and> (\<exists>l. ns_log (snd (m s)) = ns_log s @ l))"

named_theorems asks_intros \<open>actions that ask an identified node\<close>

lemma vouched_append: "vouched env l \<Longrightarrow> vouched env (l @ l')"
  by (auto simp: vouched_def)

lemma identified_log:
  "identified env s \<Longrightarrow> ns_log s' = ns_log s \<Longrightarrow> ns_magic s' = ns_magic s \<Longrightarrow> identified env s'"
  by (simp add: identified_def)

lemma asks_weaken: "asks False env m \<Longrightarrow> asks b env m"
  by (simp add: asks_def)

lemma asksD:
  assumes "asks b env m" "identified env s" "b \<Longrightarrow> vouched env (ns_log s)" "m s = (r, s')"
  shows "identified env s'" "\<exists>l. ns_log s' = ns_log s @ l" "b \<Longrightarrow> vouched env (ns_log s')"
proof -
  have *: "identified env (snd (m s)) \<and> (\<exists>l. ns_log (snd (m s)) = ns_log s @ l)" using assms(1-3) unfolding asks_def by blast
  then show "identified env s'" and ex: "\<exists>l. ns_log s' = ns_log s @ l" by (simp_all add: assms(4))
  show "vouched env (ns_log s')" if b using ex assms(3) [OF that] vouched_append by auto
qed

lemma asks_retN [asks_intros]: "asks b env (retN a)"
  by (simp add: asks_def retN_def)

lemma asks_throwN [asks_intros]: "asks b env (throwN e)"
  by (simp add: asks_def throwN_def)

lemma asks_liftN [asks_intros]: "asks b env (liftN r)"
  by (simp add: asks_def liftN_def)

lemma asks_helper [asks_intros]: "asks b env (helper r)"
  by (simp add: helper_def asks_intros split: sum.split)

lemma asks_fail_with [asks_intros]: "asks b env (fail_with m)"
  by (simp add: fail_with_def asks_intros)

lemma asks_then:
  assumes "asks b env m" and "\<And>r s s'. m s = (r, s') \<Longrightarrow> \<exists>k. k' s = k s' \<and> asks b env k"
  shows "asks b env k'"
  unfolding asks_def
proof (intro allI impI)
  fix s assume s: "identified env s \<and> (b \<longrightarrow> vouched env (ns_log s))"
  obtain r s' where m: "m s = (r, s')" by force
  note d = asksD [OF assms(1) _ _ m]
  from assms(2) [OF m] obtain k where k: "k' s = k s'" "asks b env k" by blast
  obtain r2 s2 where k2: "k s' = (r2, s2)" by force
  note e = asksD [OF k(2) _ _ k2]
  show "identified env (snd (k' s)) \<and> (\<exists>l. ns_log (snd (k' s)) = ns_log s @ l)"
    using d e s by (auto simp: k k2)
qed

lemma asks_bindN [asks_intros]: "asks b env m \<Longrightarrow> (\<And>a. asks b env (f a)) \<Longrightarrow> asks b env (bindN m f)"
proof (rule asks_then [where m = m])
  fix r s s' assume f: "\<And>a. asks b env (f a)" and m: "m s = (r, s')"
  show "\<exists>k. bindN m f s = k s' \<and> asks b env k"
    by (cases r) (auto simp: bindN_def m intro: exI [of _ "throwN _"] exI [of _ "f _"] f asks_throwN simp: throwN_def)
qed

lemma asks_catchN [asks_intros]: "asks b env m \<Longrightarrow> (\<And>e. asks b env (h e)) \<Longrightarrow> asks b env (catchN m h)"
proof (rule asks_then [where m = m])
  fix r s s' assume h: "\<And>a. asks b env (h a)" and m: "m s = (r, s')"
  show "\<exists>k. catchN m h s = k s' \<and> asks b env k"
    by (cases r) (auto simp: catchN_def m intro: exI [of _ "retN _"] exI [of _ "h _"] h asks_retN simp: retN_def)
qed

lemma asks_settleN [asks_intros]: "asks b env m \<Longrightarrow> asks b env (settleN m)"
  by (simp add: asks_def settleN_def split: prod.splits) (metis snd_conv)

lemma asks_wrapN [asks_intros]: "asks b env m \<Longrightarrow> asks b env (wrapN t m)"
  by (simp add: wrapN_def asks_intros)

lemma asks_if [asks_intros]:
  "(c \<Longrightarrow> asks b env m) \<Longrightarrow> (\<not> c \<Longrightarrow> asks b env m') \<Longrightarrow> asks b env (if c then m else m')"
  by simp

lemma asks_wrap_unless [asks_intros]: "asks b env m \<Longrightarrow> asks b env (wrap_unless ns t m)"
  by (simp add: wrap_unless_def asks_intros)

text \<open>Only the clock differs: nothing changes for the log.\<close>

lemma some_clock [simp]: "\<exists>c. s = s\<lparr>ns_clock := c\<rparr>" "\<exists>c. s\<lparr>ns_clock := d\<rparr> = s\<lparr>ns_clock := c\<rparr>"
  by (rule exI [of _ "ns_clock s"], simp) (rule exI [of _ d], simp)

lemma identified_clock [simp]: "identified env (s\<lparr>ns_clock := c\<rparr>) = identified env s"
  by (simp add: identified_def)

lemma within_state: "snd (within a t m s) = s \<or> (\<exists>c. snd (within a t m s) = (snd (m s))\<lparr>ns_clock := c\<rparr>)"
  by (cases "m s") (simp add: within_def Let_def split: option.split)

lemma asks_within [asks_intros]: "asks b env m \<Longrightarrow> asks b env (within a t m)"
  unfolding asks_def
proof (intro allI impI)
  fix s assume m: "\<forall>s. identified env s \<and> (b \<longrightarrow> vouched env (ns_log s)) \<longrightarrow> identified env (snd (m s)) \<and> (\<exists>l. ns_log (snd (m s)) = ns_log s @ l)"
    and s: "identified env s \<and> (b \<longrightarrow> vouched env (ns_log s))"
  from m s have "identified env (snd (m s)) \<and> (\<exists>l. ns_log (snd (m s)) = ns_log s @ l)" by blast
  then show "identified env (snd (within a t m s)) \<and> (\<exists>l. ns_log (snd (within a t m s)) = ns_log s @ l)"
    using within_state [of a t m s] s by auto
qed

lemma asks_parN [asks_intros]:
  assumes "asks b env m" "asks b env n" shows "asks b env (parN m n)"
  unfolding asks_def
proof (intro allI impI)
  fix s assume s: "identified env s \<and> (b \<longrightarrow> vouched env (ns_log s))"
  obtain r s1 where m: "m s = (r, s1)" by force
  note d = asksD [OF assms(1) _ _ m]
  let ?s = "s1\<lparr>ns_clock := ns_clock s\<rparr>"
  obtain r' s2 where n: "n ?s = (r', s2)" by force
  have "identified env ?s" "b \<Longrightarrow> vouched env (ns_log ?s)" using d(1,3) s by simp_all
  note e = asksD [OF assms(2) this n]
  obtain l1 l2 where l: "ns_log s1 = ns_log s @ l1" "ns_log s2 = ns_log s1 @ l2" using d(2) e(2) s by auto
  have "\<exists>c. snd (parN m n s) = s2\<lparr>ns_clock := c\<rparr>"
    by (cases r; cases r') (simp_all add: parN_def m n)
  then show "identified env (snd (parN m n s)) \<and> (\<exists>l. ns_log (snd (parN m n s)) = ns_log s @ l)"
    using e(1) l by auto
qed

lemma split_snoc:
  "(\<forall>p q r l. L @ [(q', r')] = p @ (q, r) # l \<and> q \<noteq> v \<longrightarrow> P p) \<longleftrightarrow>
   (\<forall>p q r l. L = p @ (q, r) # l \<and> q \<noteq> v \<longrightarrow> P p) \<and> (q' \<noteq> v \<longrightarrow> P L)" (is "?A \<longleftrightarrow> ?B \<and> ?C")
proof
  assume a: ?A
  then have ?B by (metis append.assoc append_Cons)
  moreover from a have ?C by blast
  ultimately show "?B \<and> ?C" by blast
next
  assume bc: "?B \<and> ?C"
  show ?A
  proof (intro allI impI)
    fix p q r l assume l: "L @ [(q', r')] = p @ (q, r) # l \<and> q \<noteq> v"
    show "P p"
    proof (cases l rule: rev_cases)
      case Nil
      with l have "L = p" "q' = q" by simp_all
      with l bc show ?thesis by blast
    next
      case (snoc l' x)
      with l have "L @ [(q', r')] = (p @ (q, r) # l') @ [x]" by simp
      then have "L = p @ (q, r) # l'" by (rule append1_eq_conv [THEN iffD1, THEN conjunct1])
      with l bc show ?thesis by blast
    qed
  qed
qed

lemma identified_send:
  assumes "identified env s" "q = version_request \<or> vouched env (ns_log s)"
    "ns_log s' = ns_log s @ [(q, r)]" "ns_magic s' = ns_magic s"
  shows "identified env s'"
  using assms vouched_append unfolding identified_def assms(3) split_snoc by auto

lemma asks_send: "asks True env (send env q)"
  by (auto simp: asks_def send_def split: prod.splits intro: identified_send)

text \<open>The request for the version needs no identified node, and what comes after it has one.\<close>

lemma asks_version: "asks b env (send env version_request)"
  by (auto simp: asks_def send_def split: prod.splits intro: identified_send)

lemma checked_magic_Inr:
  "checked_magic env v = Inr magic \<Longrightarrow> reported_magic v = Some magic \<and> NEO_NETWORK_MAGIC (ne_network env) = Some magic"
  by (auto simp: checked_magic_def split: option.splits if_splits)

lemma within_Inr: "within a t m s = (Inr v, s') \<Longrightarrow> m s = (Inr v, s')"
  by (auto simp: within_def Let_def split: if_splits option.splits prod.splits)

lemma getNetworkMagic_identifies:
  assumes "identified env s" "getNetworkMagic env s = (r, s')"
  shows "identified env s' \<and> (\<exists>l. ns_log s' = ns_log s @ l) \<and> (\<forall>magic. r = Inr magic \<longrightarrow> vouched env (ns_log s') \<and> ns_magic s' = Some magic)"
proof (cases "ns_magic s")
  case (Some magic)
  with assms show ?thesis by (auto simp: getNetworkMagic_def identified_def)
next
  case None
  let ?m = "within None (ne_rpcTimeoutMs env) (send env version_request)"
  obtain r1 s1 where m: "?m s = (r1, s1)" by force
  note d = asksD [OF asks_within [OF asks_version [of False]] assms(1) _ m]
  show ?thesis
  proof (cases r1)
    case (Inl e)
    with assms(2) None m d show ?thesis by (auto simp: getNetworkMagic_def bindN_def)
  next
    case (Inr v)
    have log: "(version_request, Inr v) \<in> set (ns_log s1)"
      using within_Inr [OF m [unfolded Inr]] by (auto simp: send_def split: prod.splits)
    show ?thesis
    proof (cases "checked_magic env v")
      case (Inl e)
      with assms(2) None m Inr d show ?thesis by (auto simp: getNetworkMagic_def bindN_def liftN_def)
    next
      case (Inr magic)
      with log have "vouched env (ns_log s1)" using checked_magic_Inr by (auto simp: vouched_def)
      with checked_magic_Inr [OF Inr] assms(2) None m \<open>r1 = Inr v\<close> Inr d show ?thesis
        by (auto simp: getNetworkMagic_def bindN_def liftN_def identified_def)
    qed
  qed
qed

lemma asks_magic [asks_intros]: "asks b env (getNetworkMagic env)"
  unfolding asks_def using getNetworkMagic_identifies surjective_pairing by metis

lemma asks_after_magic:
  assumes "\<And>a. asks True env (f a)" shows "asks b env (bindN (getNetworkMagic env) f)"
  unfolding asks_def
proof (intro allI impI)
  fix s assume s: "identified env s \<and> (b \<longrightarrow> vouched env (ns_log s))"
  obtain r s1 where m: "getNetworkMagic env s = (r, s1)" by force
  note d = getNetworkMagic_identifies [OF conjunct1 [OF s] m]
  show "identified env (snd (bindN (getNetworkMagic env) f s)) \<and> (\<exists>l. ns_log (snd (bindN (getNetworkMagic env) f s)) = ns_log s @ l)"
  proof (cases r)
    case (Inl e)
    with d show ?thesis by (simp add: bindN_def m)
  next
    case (Inr a)
    obtain r2 s2 where f: "f a s1 = (r2, s2)" by force
    from d Inr have "identified env s1" "True \<Longrightarrow> vouched env (ns_log s1)" by auto
    note e = asksD [OF assms this f]
    with d show ?thesis by (auto simp: bindN_def m Inr f)
  qed
qed

lemma asks_with_deadline [asks_intros]: "asks True env m \<Longrightarrow> asks b env (with_deadline env a t m)"
  unfolding with_deadline_def by (rule asks_after_magic) (rule asks_within)

lemma asks_ask [asks_intros]: "asks b env (ask env q)"
  unfolding ask_def by (intro asks_intros asks_send)

lemma asks_ask_both [asks_intros]: "asks b env (ask_both env q q')"
  unfolding ask_both_def by (intro asks_after_magic asks_parN asks_ask)

lemma asks_pair [asks_intros]: "(\<And>x y. asks b env (f x y)) \<Longrightarrow> asks b env (case p of (x, y) \<Rightarrow> f x y)"
  by (cases p) simp

lemma asks_option [asks_intros]:
  "asks b env m \<Longrightarrow> (\<And>x. asks b env (f x)) \<Longrightarrow> asks b env (case v of None \<Rightarrow> m | Some x \<Rightarrow> f x)"
  by (cases v) simp_all

lemma asks_sum [asks_intros]:
  "(\<And>x. asks b env (f x)) \<Longrightarrow> (\<And>x. asks b env (g x)) \<Longrightarrow> asks b env (case v of Inl x \<Rightarrow> f x | Inr x \<Rightarrow> g x)"
  by (cases v) simp_all

lemma asks_bool [asks_intros]: "asks b env m \<Longrightarrow> asks b env m' \<Longrightarrow> asks b env (case c of True \<Rightarrow> m | False \<Rightarrow> m')"
  by (cases c) simp_all

lemma asks_eachN [asks_intros]: "(\<And>x. asks b env (f x)) \<Longrightarrow> asks b env (eachN f xs)"
  by (induction xs) (simp_all add: asks_intros)

lemma asks_parse_index [asks_intros]: "asks b env (parse_index v field)"
  by (simp add: parse_index_def asks_intros split: jsval.split jsnum.split)

lemma asks_state_root [asks_intros]: "asks b env (state_root e h root heights)"
  by (cases root) (simp_all add: state_root_def asks_intros)

lemma asks_timestamp_bound [asks_intros]: "asks b env (timestamp_bound name v)"
  by (simp add: timestamp_bound_def asks_intros split: option.split jsnum.split)

lemma asks_reply_members [asks_intros]: "asks b env (reply_members k v)"
  by (simp add: reply_members_def asks_intros)

lemma asks_balance_item [asks_intros]: "asks b env (balance_item v)"
  by (simp add: balance_item_def asks_intros)

lemma asks_extract_balance [asks_intros]: "asks b env (extract_balance a v)"
  unfolding extract_balance_def by (intro asks_intros)

lemma asks_contract_script [asks_intros]: "asks b env (contract_script env h op args)"
  unfolding contract_script_def by (intro asks_intros)

lemma asks_validators_from [asks_intros]: "asks b env m \<Longrightarrow> asks b env (validators_from env m)"
  unfolding validators_from_def by (intro asks_intros)

lemma asks_chain_reads [asks_intros]:
  "asks b env (getBlockchainInfo env)" "asks b env (getBlock env k)" "asks b env (getBlockCount env)"
  "asks b env (getTransaction env txid)" "asks b env (getApplicationLog env txid)"
  unfolding getBlockchainInfo_def getBlock_def getBlockCount_def getTransaction_def getApplicationLog_def
    getValidatorsOrEmpty_def by (intro asks_intros)+

lemma asks_state_root_read [asks_intros]: "asks b env (getStateRootValidation env h)"
  by (cases h) (simp_all add: getStateRootValidation_def asks_intros)

lemma asks_transfer_history [asks_intros]: "asks b env (transfer_history env rpc label f a x y)"
  unfolding transfer_history_def by (intro asks_intros)

lemma asks_listed_balances [asks_intros]: "asks b env (listed_balances env a)"
  unfolding listed_balances_def
  by (intro asks_intros) (simp add: asks_intros split: jsval.split)

lemma asks_account_reads [asks_intros]:
  "asks b env (getUnclaimedGas env a)" "asks b env (getNep17Transfers env a x y)" "asks b env (getNep11Transfers env a x y)"
  "asks b env (getNep11Balances env a)" "asks b env (getBalance env a)"
  unfolding getUnclaimedGas_def getNep17Transfers_def getNep11Transfers_def getNep11Balances_def getBalance_def scripted_balances_def
  by (intro asks_intros)+

lemma asks_calls [asks_intros]:
  "asks b env (invokeReadContract env h op args)" "asks b env (testInvoke env h op params signers)"
  unfolding invokeReadContract_def testInvoke_def by (intro asks_intros)+

end
