(* ===== verification/NeoTransactions.thy ===== *)
theory NeoTransactions
  imports NeoWaiting Amounts
begin

text \<open>
  src/services/neo-service.ts, the writes: transfer and invocation scripts, the preparation and signing of a transaction,
  its submission, fee estimates, and the claim of GAS. neon-js builds the scripts and signs (\<open>neon_wallet\<close>); a script, a
  serialized transaction and a hash are texts.

  The main results are \<open>operations_identify_node\<close>: whatever is called on the service, in whatever order, the node is asked
  for its network first; and \<open>submission_outcome\<close>: an error that is not \<open>SubmissionOutcomeUnknownError\<close> means the node
  has not taken the transaction.
\<close>

section \<open>Assets and amounts\<close>

record neo_signer =
  sg_address :: string
  sg_scriptHash :: string

record unsigned_transaction =
  ut_script :: string
  ut_signer :: string
  ut_fees :: prepared_fees

record signed_transaction =
  st_raw :: string
  st_hash :: string

record prepared_neo_transaction =
  pn_rawTransaction :: string
  pn_txid :: string
  pn_validUntilBlock :: int

text \<open>
  \<open>nw_hash\<close> is \<open>getScriptHashFromAddress\<close>, which may throw; \<open>nw_count\<close> the number an answer to \<open>getblockcount\<close> stands for.
\<close>

record neon_wallet =
  nw_hash :: "string \<Rightarrow> rpc_failure + string"
  nw_transferScript :: "string \<Rightarrow> string \<Rightarrow> string \<Rightarrow> string \<Rightarrow> rpc_failure + string"
  nw_sign :: "neo_signer \<Rightarrow> unsigned_transaction \<Rightarrow> int \<Rightarrow> rpc_failure + signed_transaction"
  nw_count :: "jsval \<Rightarrow> int"
  nw_fromDecimal :: "string \<Rightarrow> int"
  nw_smartFee :: "string result \<Rightarrow> string result"
  nw_maxLifespan :: int

definition invalid_argument :: "string \<Rightarrow> ('s, 'a) run" where
  "invalid_argument m = throwN (failure ''ValidationError'' m)"

definition assertNoAdditionalTransactionAttributes :: "jsval list \<Rightarrow> unit neo" where
  "assertNoAdditionalTransactionAttributes extra =
     (if extra \<noteq> [] then fail_with ''Additional transaction attributes are not supported'' else retN ())"

definition scaleTransferAmount :: "string \<Rightarrow> int \<Rightarrow> string neo" where
  "scaleTransferAmount amount decimals =
     (if decimals < 0 \<or> 255 < decimals then fail_with (''Invalid token decimals: '' @ int_str decimals)
      else bindN (helper (validateTokenAmount (JStr amount))) (\<lambda>t.
        let parts = split_on (CHR ''.'') t; whole = hd parts; fraction = (case parts of w # f # rest \<Rightarrow> f | _ \<Rightarrow> []) in
        if nat decimals < length fraction then fail_with (''Transfer amount has more than '' @ int_str decimals @ '' decimal places'')
        else let scaled = int (str_dec (whole @ pad_end (nat decimals) (CHR ''0'') fraction)) in
          if scaled \<le> 0 then fail_with (''Invalid transfer amount: '' @ amount)
          else if 2 ^ 255 - 1 < scaled then fail_with ''Scaled transfer amount exceeds the Neo VM integer range''
          else retN (int_str scaled)))"

definition stripHexPrefix :: "string \<Rightarrow> string" where
  "stripHexPrefix v = (if starts_with v ''0x'' then drop 2 v else v)"

definition isValidNeoAddress :: "neo_env \<Rightarrow> string \<Rightarrow> bool" where
  "isValidNeoAddress env v = en_isAddress (ne_enrich env) v"

text \<open>Both networks have the same two hashes; an upper-case name finds nothing of \<open>Object.prototype\<close>.\<close>

definition getAssetHash :: "neo_env \<Rightarrow> string \<Rightarrow> string neo" where
  "getAssetHash env symbol =
     (if symbol = [] then fail_with ''Asset symbol is required''
      else if ne_network env \<notin> {''mainnet'', ''testnet''} then fail_with (''Unsupported network: '' @ ne_network env)
      else case map_of [(''NEO'', NEO_TOKEN_HASH), (''GAS'', GAS_TOKEN_HASH)] (to_upper symbol) of
        Some h \<Rightarrow> retN h
      | None \<Rightarrow> fail_with (''Unknown asset: '' @ quoted symbol @ '' on network '' @ quoted (ne_network env) @ ''. Available assets: NEO, GAS''))"

text \<open>The decimals of a token the node is asked about; the check that follows refuses everything but 0 to 255.\<close>

definition decimals_value :: "jsval \<Rightarrow> int option" where
  "decimals_value v =
     (case v of
        JNum (NInt i) \<Rightarrow> if 0 \<le> i \<and> i \<le> 255 then Some i else None
      | JStr s \<Rightarrow> if all_digits s \<and> str_dec s \<le> 255 then Some (int (str_dec s)) else None
      | _ \<Rightarrow> None)"

definition token_decimals :: "neo_env \<Rightarrow> string \<Rightarrow> int neo" where
  "token_decimals env contractHash =
     (if to_lower contractHash = NEO_TOKEN_HASH then retN 0
      else if to_lower contractHash = GAS_TOKEN_HASH then retN 8
      else bindN (ask env (InvokeFunction contractHash ''decimals'' [])) (\<lambda>result.
           bindN (reply_members ''stack'' result) (\<lambda>r.
           case (oget r ''state'' = JStr ''HALT'', decimals_value (stack_value r)) of
             (True, Some d) \<Rightarrow> retN d
           | _ \<Rightarrow> fail_with (''Failed to determine token decimals for '' @ contractHash))))"

definition buildNep17TransferScript :: "neon_wallet \<Rightarrow> neo_env \<Rightarrow> string \<Rightarrow> string \<Rightarrow> string \<Rightarrow> string \<Rightarrow> (int \<times> string) neo" where
  "buildNep17TransferScript w env fromAddress toAddress asset amount =
     (if \<not> isValidNeoAddress env fromAddress then fail_with (''Invalid sender address format: '' @ fromAddress)
      else if \<not> isValidNeoAddress env toAddress then fail_with (''Invalid recipient address format: '' @ toAddress)
      else bindN (case normalizeScriptHash (Some asset) of Some h \<Rightarrow> retN h | None \<Rightarrow> getAssetHash env asset) (\<lambda>contractHash.
           bindN (getNetworkMagic env) (\<lambda>networkMagic.
           bindN (token_decimals env contractHash) (\<lambda>decimals.
           bindN (scaleTransferAmount amount decimals) (\<lambda>scaledAmount.
           bindN (liftN (nw_hash w fromAddress)) (\<lambda>fromHash.
           bindN (liftN (nw_hash w toAddress)) (\<lambda>toHash.
           bindN (liftN (nw_transferScript w (stripHexPrefix contractHash) fromHash toHash scaledAmount)) (\<lambda>script.
           retN (networkMagic, script)))))))))"

section \<open>Preparation\<close>

text \<open>
  \<open>prepareTransactionForSigning\<close> of src/utils/transaction-preparation.ts with its requests; Amounts has it as a function of
  the answers, and \<open>fees_as_specified\<close> relates the two.
\<close>

definition js_failure :: "rpc_failure + 'a \<Rightarrow> 'a result" where
  "js_failure r = (case r of Inl e \<Rightarrow> Inl (GenericError (f_message e)) | Inr a \<Rightarrow> Inr a)"

definition script_fee :: "neon_wallet \<Rightarrow> neo_env \<Rightarrow> string \<Rightarrow> string list \<Rightarrow> int neo" where
  "script_fee w env script signers =
     bindN (send env (InvokeScript script signers)) (\<lambda>answer.
     bindN (reply_members ''state'' answer) (\<lambda>r.
     helper (calculateSystemFee (nw_fromDecimal w) (Inr r))))"

definition network_fee :: "neon_wallet \<Rightarrow> neo_env \<Rightarrow> string \<Rightarrow> string neo" where
  "network_fee w env script =
     bindN (settleN (send env (CalculateNetworkFee script))) (\<lambda>answer.
     helper (calculateNetworkFee (nw_smartFee w) (js_failure answer)))"

definition fee_within_cap :: "neo_env \<Rightarrow> int \<Rightarrow> unit neo" where
  "fee_within_cap env requiredGas =
     (if ne_maxFeeDatos env \<le> 0 then throwN (failure ''RangeError'' ''Maximum transaction fee must be greater than zero'')
      else if ne_maxFeeDatos env < requiredGas then invalid_argument ''Transaction fees exceed the configured maximum of ''
      else retN ())"

definition prepare_fees :: "neon_wallet \<Rightarrow> neo_env \<Rightarrow> neo_signer \<Rightarrow> string \<Rightarrow> string \<Rightarrow> prepared_fees neo" where
  "prepare_fees w env account signer script =
     bindN (send env GetBlockCount) (\<lambda>blockCount.
     bindN (script_fee w env script [signer]) (\<lambda>systemFee.
     bindN (network_fee w env script) (\<lambda>networkFee.
     if \<not> all_digits networkFee then fail_with ''Neo RPC returned an invalid network fee''
     else let requiredGas = systemFee + int (str_dec networkFee) in
       bindN (fee_within_cap env requiredGas) (\<lambda>_.
       bindN (send env (InvokeFunction GAS_TOKEN_HASH ''balanceOf'' [sg_address account])) (\<lambda>answer.
       bindN (reply_members ''stack'' answer) (\<lambda>r.
       bindN (helper (gas_balance (Inr r))) (\<lambda>balance.
       if balance < requiredGas then invalid_argument ''Insufficient GAS for transaction fees. Required: ''
       else retN \<lparr>p_validUntilBlock = nw_count w blockCount
                    + (if nw_maxLifespan w \<noteq> 0 then nw_maxLifespan w else FALLBACK_TRANSACTION_LIFESPAN) - 1,
                  p_systemFee = systemFee, p_networkFee = networkFee\<rparr>)))))))"

definition sign_prepared :: "neon_wallet \<Rightarrow> neo_env \<Rightarrow> neo_signer \<Rightarrow> string \<Rightarrow> int \<Rightarrow> prepared_neo_transaction neo" where
  "sign_prepared w env account script networkMagic =
     bindN (if sg_scriptHash account \<noteq> [] then retN (sg_scriptHash account) else liftN (nw_hash w (sg_address account))) (\<lambda>signer.
     bindN (prepare_fees w env account signer script) (\<lambda>fees.
     bindN (liftN (nw_sign w account \<lparr>ut_script = script, ut_signer = signer, ut_fees = fees\<rparr> networkMagic)) (\<lambda>signed.
     retN \<lparr>pn_rawTransaction = st_raw signed,
           pn_txid = (if starts_with (st_hash signed) ''0x'' then st_hash signed else ''0x'' @ st_hash signed),
           pn_validUntilBlock = p_validUntilBlock fees\<rparr>)))"

definition prepareSignedTransaction :: "neon_wallet \<Rightarrow> neo_env \<Rightarrow> neo_signer \<Rightarrow> string \<Rightarrow> int option \<Rightarrow> prepared_neo_transaction neo" where
  "prepareSignedTransaction w env account script providedNetworkMagic =
     (if \<not> isValidNeoAddress env (sg_address account) then invalid_argument (''Invalid sender address: '' @ sg_address account)
      else bindN (case providedNetworkMagic of Some m \<Rightarrow> retN m | None \<Rightarrow> getNetworkMagic env) (sign_prepared w env account script))"

lemma helper_Inr: "helper r s = (Inr a, s') \<longleftrightarrow> r = Inr a \<and> s' = s"
  by (auto simp: helper_def throwN_def retN_def split: sum.splits)

lemma fails [simp]: "fail_with m s \<noteq> (Inr a, s')" "invalid_argument m s \<noteq> (Inr a, s')" "throwN e s \<noteq> (Inr a, s')"
  by (simp_all add: fail_with_def invalid_argument_def throwN_def)

lemma retN_Inr: "retN a s = (Inr b, s') \<longleftrightarrow> b = a \<and> s' = s"
  by (auto simp: retN_def)

text \<open>Fees that are prepared request by request are those that Amounts prepares from the answers.\<close>

lemma fees_as_specified:
  assumes "prepare_fees w env acc sg t s = (Inr p, s')"
  shows "\<exists>ans. prepareTransactionForSigning (nw_fromDecimal w) (nw_smartFee w) (nw_maxLifespan w) (Some (ne_maxFeeDatos env)) ans = Inr p"
proof -
  from assms obtain bc r answer r2 where
    run: "calculateSystemFee (nw_fromDecimal w) (Inr r) = Inr (p_systemFee p)"
      "calculateNetworkFee (nw_smartFee w) (js_failure answer) = Inr (p_networkFee p)" "all_digits (p_networkFee p)"
      "\<not> ne_maxFeeDatos env \<le> 0" "\<not> ne_maxFeeDatos env < p_systemFee p + int (str_dec (p_networkFee p))"
      "\<exists>b. gas_balance (Inr r2) = Inr b \<and> \<not> b < p_systemFee p + int (str_dec (p_networkFee p))"
      "p_validUntilBlock p = nw_count w bc + (if nw_maxLifespan w \<noteq> 0 then nw_maxLifespan w else FALLBACK_TRANSACTION_LIFESPAN) - 1"
    unfolding prepare_fees_def script_fee_def network_fee_def fee_within_cap_def Let_def
    by (auto simp: bindN_Inr helper_Inr retN_Inr split: if_splits) blast+
  let ?ans = "\<lparr>a_blockCount = Inr (nw_count w bc), a_invokeScript = Inr r, a_networkFee = js_failure answer, a_balanceOf = Inr r2\<rparr>"
  have "prepareTransactionForSigning (nw_fromDecimal w) (nw_smartFee w) (nw_maxLifespan w) (Some (ne_maxFeeDatos env)) ?ans = Inr p"
    using run by (auto simp: prepareTransactionForSigning_def Let_def)
  then show ?thesis by blast
qed

text \<open>The amount of a transfer scales as the amount of a proposal does.\<close>

lemma transfer_amount_scales:
  assumes "scaleTransferAmount amount d s = (Inr t, s')" shows "scaleTokenAmount (JStr amount) (NInt d) = Inr t"
proof -
  from assms have d: "0 \<le> d" "d \<le> 255" and v: "validateTokenAmount (JStr amount) = Inr amount"
    by (auto simp: scaleTransferAmount_def bindN_Inr helper_Inr validateTokenAmount_def split: if_splits)
  then have dec: "decimal_text amount" and tr: "trim amount = amount" by (auto simp: validateTokenAmount_def split: if_splits)
  from dec show ?thesis
    by (cases rule: decimal_text_cases)
       (use assms d v dec tr in \<open>auto simp: scaleTransferAmount_def scaleTokenAmount_def bindN_Inr helper_Inr retN_Inr Let_def maxSafeInteger_def not_less split: if_splits\<close>)
qed

section \<open>Submission\<close>

datatype unknown_reason = Inconsistent_response | Transport_error | Timed_out int

definition outcome_unknown :: "string \<Rightarrow> unknown_reason \<Rightarrow> rpc_failure" where
  "outcome_unknown txid reason =
     failure ''SubmissionOutcomeUnknownError''
       ((case reason of
           Inconsistent_response \<Rightarrow> ''Transaction submission returned an inconsistent RPC response; the outcome is unknown. ''
         | Transport_error \<Rightarrow> ''Transaction submission failed without a definitive RPC response; the outcome is unknown. ''
         | Timed_out ms \<Rightarrow> ''Transaction submission timed out after '' @ int_str ms @ ''ms; the outcome is unknown. '')
        @ ''Expected transaction ID: '' @ txid @ ''. Do not retry blindly; query this transaction ID before resubmitting.'')"

definition normalized_txid :: "jsval \<Rightarrow> string" where
  "normalized_txid v = (case v of JStr t \<Rightarrow> to_lower (if starts_with t ''0x'' then t else ''0x'' @ t) | _ \<Rightarrow> [])"

definition submission_error :: "neo_env \<Rightarrow> string \<Rightarrow> rpc_failure \<Rightarrow> rpc_failure" where
  "submission_error env txid e =
     (if f_name e \<in> {''SubmissionOutcomeUnknownError'', ''ValidationError''} then e
      else if is_deadline e then outcome_unknown txid (Timed_out (ne_rpcTimeoutMs env))
      else if isDefinitiveRpcRejection e then e
      else outcome_unknown txid Transport_error)"

definition submitPreparedTransaction :: "neo_env \<Rightarrow> prepared_neo_transaction \<Rightarrow> string neo" where
  "submitPreparedTransaction env prepared =
     (if pn_rawTransaction prepared = [] \<or> \<not> list_all is_hex (pn_rawTransaction prepared) \<or> odd (length (pn_rawTransaction prepared))
      then invalid_argument ''Prepared transaction must contain even-length hexadecimal bytes''
      else if \<not> hex_0x 64 (pn_txid prepared) then invalid_argument ''Prepared transaction ID must be a 32-byte hash''
      else catchN (bindN (ask env (SendRawTransaction (pn_rawTransaction prepared))) (\<lambda>submitted.
             if normalized_txid submitted \<noteq> to_lower (pn_txid prepared) then throwN (outcome_unknown (pn_txid prepared) Inconsistent_response)
             else retN (pn_txid prepared)))
           (\<lambda>e. throwN (submission_error env (pn_txid prepared) e)))"

definition signAndSubmitTransaction :: "neon_wallet \<Rightarrow> neo_env \<Rightarrow> neo_signer \<Rightarrow> string \<Rightarrow> int option \<Rightarrow> string neo" where
  "signAndSubmitTransaction w env account script magic =
     bindN (prepareSignedTransaction w env account script magic) (submitPreparedTransaction env)"

section \<open>Transfers and invocations\<close>

definition prepareTransferTransaction :: "neon_wallet \<Rightarrow> neo_env \<Rightarrow> neo_signer \<Rightarrow> string \<Rightarrow> string \<Rightarrow> string \<Rightarrow> prepared_neo_transaction neo" where
  "prepareTransferTransaction w env account toAddress asset amount =
     bindN (buildNep17TransferScript w env (sg_address account) toAddress asset amount) (\<lambda>(networkMagic, script).
     prepareSignedTransaction w env account script (Some networkMagic))"

definition prepareInvokeTransaction :: "neon_wallet \<Rightarrow> neo_env \<Rightarrow> neo_signer \<Rightarrow> string \<Rightarrow> string \<Rightarrow> jsval list \<Rightarrow> prepared_neo_transaction neo" where
  "prepareInvokeTransaction w env account scriptHash operation args =
     (if scriptHash = [] then invalid_argument ''Script hash is required''
      else if operation = [] then invalid_argument ''Operation is required''
      else bindN (contract_script env scriptHash operation args) (\<lambda>script.
           prepareSignedTransaction w env account script None))"

definition txid_answer :: "string \<Rightarrow> jsval" where
  "txid_answer txid = JObj [(''txid'', JStr txid)]"

definition transferAssets ::
    "neon_wallet \<Rightarrow> neo_env \<Rightarrow> neo_signer option \<Rightarrow> string \<Rightarrow> string \<Rightarrow> string \<Rightarrow> jsval list \<Rightarrow> jsval neo" where
  "transferAssets w env fromAccount toAddress asset amount extra =
     wrap_unless {''SubmissionOutcomeUnknownError'', ''ValidationError''} ''Failed to transfer assets: ''
       (bindN (assertNoAdditionalTransactionAttributes extra) (\<lambda>_.
        case fromAccount of
          None \<Rightarrow> fail_with ''Invalid sender account: missing address''
        | Some account \<Rightarrow>
            if sg_address account = [] then fail_with ''Invalid sender account: missing address''
            else if toAddress = [] then fail_with ''Recipient address is required''
            else if \<not> isValidNeoAddress env (sg_address account) then fail_with (''Invalid sender address format: '' @ sg_address account)
            else if \<not> isValidNeoAddress env toAddress then fail_with (''Invalid recipient address format: '' @ toAddress)
            else bindN (prepareTransferTransaction w env account toAddress asset amount) (\<lambda>prepared.
                 bindN (submitPreparedTransaction env prepared) (\<lambda>txid. retN (txid_answer txid)))))"

definition invokeContract ::
    "neon_wallet \<Rightarrow> neo_env \<Rightarrow> neo_signer option \<Rightarrow> string \<Rightarrow> string \<Rightarrow> jsval list \<Rightarrow> jsval list \<Rightarrow> jsval neo" where
  "invokeContract w env fromAccount scriptHash operation args extra =
     wrap_unless {''SubmissionOutcomeUnknownError'', ''ValidationError''}
       (''Failed to invoke write contract '' @ scriptHash @ ''.'' @ operation @ '': '')
       (bindN (assertNoAdditionalTransactionAttributes extra) (\<lambda>_.
        if scriptHash = [] then fail_with ''Script hash is required''
        else if operation = [] then fail_with ''Operation is required''
        else case fromAccount of
          None \<Rightarrow> fail_with ''Invalid sender account: missing address''
        | Some account \<Rightarrow>
            if sg_address account = [] then fail_with ''Invalid sender account: missing address''
            else bindN (prepareInvokeTransaction w env account scriptHash operation args) (\<lambda>prepared.
                 bindN (submitPreparedTransaction env prepared) (\<lambda>txid. retN (txid_answer txid)))))"

section \<open>Fee estimates\<close>

definition createFeeEstimate :: "string \<Rightarrow> string \<Rightarrow> jsval neo" where
  "createFeeEstimate networkFeeDatos systemFeeDatos =
     (if \<not> all_digits networkFeeDatos \<or> \<not> all_digits systemFeeDatos then fail_with ''Neo RPC returned an invalid fee estimate''
      else retN (JObj
        [(''networkFeeDatos'', JStr networkFeeDatos), (''systemFeeDatos'', JStr systemFeeDatos),
         (''networkFeeGas'', JStr (formatDatosAsGas (int (str_dec networkFeeDatos)))),
         (''systemFeeGas'', JStr (formatDatosAsGas (int (str_dec systemFeeDatos))))]))"

text \<open>The estimate of the network fee signs with a fresh account, which the request for it stands for.\<close>

definition estimate_fees :: "neon_wallet \<Rightarrow> neo_env \<Rightarrow> string \<Rightarrow> string \<Rightarrow> jsval neo" where
  "estimate_fees w env script signer =
     bindN (script_fee w env script [signer]) (\<lambda>systemFee.
     bindN (with_deadline env None (ne_rpcTimeoutMs env) (network_fee w env script)) (\<lambda>networkFee.
     createFeeEstimate networkFee (int_str systemFee)))"

definition calculateTransferFee :: "neon_wallet \<Rightarrow> neo_env \<Rightarrow> string \<Rightarrow> string \<Rightarrow> string \<Rightarrow> string \<Rightarrow> jsval neo" where
  "calculateTransferFee w env fromAddress toAddress asset amount =
     wrapN ''Failed to calculate transfer fee: ''
       (bindN (buildNep17TransferScript w env fromAddress toAddress asset amount) (\<lambda>(magic, script).
        bindN (liftN (nw_hash w fromAddress)) (\<lambda>signer. estimate_fees w env script signer)))"

definition calculateInvokeFee :: "neon_wallet \<Rightarrow> neo_env \<Rightarrow> string \<Rightarrow> string \<Rightarrow> string \<Rightarrow> jsval list \<Rightarrow> jsval neo" where
  "calculateInvokeFee w env fromAddress scriptHash operation args =
     wrap_unless {''ValidationError''} ''Failed to calculate invoke fee: ''
       (if \<not> isValidNeoAddress env fromAddress then invalid_argument (''Invalid signer address: '' @ fromAddress)
        else bindN (contract_script env scriptHash operation args) (\<lambda>script.
             bindN (liftN (nw_hash w fromAddress)) (\<lambda>signer.
             bindN (getNetworkMagic env) (\<lambda>_. estimate_fees w env script signer))))"

section \<open>Claiming GAS\<close>

text \<open>Both reads start at once; the clock then stands where both have settled.\<close>

definition readClaimableNeoBalance :: "neo_env \<Rightarrow> string \<Rightarrow> string neo" where
  "readClaimableNeoBalance env address =
     bindN (getAssetHash env ''NEO'') (\<lambda>neoHash.
     bindN (getNetworkMagic env) (\<lambda>_.
     bindN (parN (settleN (ask env (GetUnclaimedGas address))) (settleN (ask env (InvokeFunction neoHash ''balanceOf'' [address])))) (\<lambda>(gas, balance).
     bindN (liftN gas) (\<lambda>unclaimedGas.
     if (case digit_value unclaimedGas of None \<Rightarrow> True | Some t \<Rightarrow> str_dec t < 50000000)
     then invalid_argument ''Minimum claim value is 0.5 GAS''
     else bindN (liftN balance) (\<lambda>result.
          bindN (reply_members ''stack'' result) (\<lambda>r.
          case (oget r ''state'' = JStr ''HALT'', digit_value (stack_value r)) of
            (True, Some t) \<Rightarrow> if str_dec t = 0 then invalid_argument ''Failed to determine the NEO balance required to claim GAS'' else retN t
          | _ \<Rightarrow> invalid_argument ''Failed to determine the NEO balance required to claim GAS''))))))"

definition prepareClaimGasTransaction :: "neon_wallet \<Rightarrow> neo_env \<Rightarrow> neo_signer option \<Rightarrow> string option \<Rightarrow> prepared_neo_transaction neo" where
  "prepareClaimGasTransaction w env fromAccount knownNeoBalance =
     (case fromAccount of
        None \<Rightarrow> invalid_argument ''Invalid account for claiming GAS: missing address''
      | Some account \<Rightarrow>
          if sg_address account = [] then invalid_argument ''Invalid account for claiming GAS: missing address''
          else bindN (case knownNeoBalance of Some b \<Rightarrow> retN b | None \<Rightarrow> readClaimableNeoBalance env (sg_address account)) (\<lambda>rawNeoBalance.
               bindN (buildNep17TransferScript w env (sg_address account) (sg_address account) ''NEO'' rawNeoBalance) (\<lambda>(networkMagic, script).
               prepareSignedTransaction w env account script (Some networkMagic))))"

definition claimGas :: "neon_wallet \<Rightarrow> neo_env \<Rightarrow> neo_signer option \<Rightarrow> jsval neo" where
  "claimGas w env fromAccount =
     wrap_unless {''SubmissionOutcomeUnknownError'', ''ValidationError''} ''Failed to claim GAS: ''
       (case fromAccount of
          None \<Rightarrow> fail_with ''Invalid account for claiming GAS: missing address''
        | Some account \<Rightarrow>
            if sg_address account = [] then fail_with ''Invalid account for claiming GAS: missing address''
            else if \<not> isValidNeoAddress env (sg_address account)
            then fail_with (''Invalid address format for claiming GAS: '' @ sg_address account)
            else bindN (readClaimableNeoBalance env (sg_address account)) (\<lambda>rawNeoBalance.
                 bindN (prepareClaimGasTransaction w env fromAccount (Some rawNeoBalance)) (\<lambda>prepared.
                 bindN (submitPreparedTransaction env prepared) (\<lambda>txid. retN (txid_answer txid)))))"

section \<open>The service and its wallets\<close>

text \<open>\<open>new NeoService(rpcUrl, network, options)\<close>; the defaults come from the configuration and the constants of the file.\<close>

record neo_options =
  no_rpcTimeoutMs :: "jsnum option"
  no_maxWaitMs :: "jsnum option"
  no_minPollMs :: "jsnum option"
  no_maxWaits :: "jsnum option"
  no_allowInsecureRpc :: "bool option"
  no_maxFeeGas :: "string option"

record neo_defaults =
  nd_rpcTimeoutMs :: jsnum
  nd_allowInsecureRpc :: bool
  nd_maxFeeGas :: string

definition or_else :: "'a option \<Rightarrow> 'a \<Rightarrow> 'a" where
  "or_else v d = (case v of None \<Rightarrow> d | Some x \<Rightarrow> x)"

definition positive_timeout :: "jsnum \<Rightarrow> int neo" where
  "positive_timeout v =
     (case v of
        NInt i \<Rightarrow> if \<not> isSafeInteger v \<or> i \<le> 0 then fail_with (''Invalid RPC timeout: '' @ int_str i @ ''. Must be a positive integer.'') else retN i
      | _ \<Rightarrow> fail_with (''Invalid RPC timeout: '' @ num_text v @ ''. Must be a positive integer.''))"

definition newNeoService ::
    "(string \<Rightarrow> url_parts option) \<Rightarrow> neo_defaults \<Rightarrow> neo_env \<Rightarrow> jsval \<Rightarrow> string \<Rightarrow> neo_options \<Rightarrow> neo_env neo" where
  "newNeoService parseURL cfg outside rpcUrl network opts =
     (let urls = toRpcUrlList rpcUrl in
      if urls = [] then fail_with ''RPC URL is required''
      else bindN (positive_timeout (or_else (no_rpcTimeoutMs opts) (nd_rpcTimeoutMs cfg))) (\<lambda>rpcTimeoutMs.
        bindN (wrapN ''Failed to initialize Neo RPC client: ''
          (eachN (\<lambda>url. helper (assertValidRpcUrl parseURL (or_else (no_allowInsecureRpc opts) (nd_allowInsecureRpc cfg)) url)) urls)) (\<lambda>_.
        if network \<notin> {''mainnet'', ''testnet''}
        then fail_with (''Invalid network: '' @ network @ ''. Must be one of: mainnet, testnet'')
        else bindN (neo_positive (wait_default (no_maxWaitMs opts) 120000) ''maxTransactionWaitMs'') (\<lambda>maxWait.
          bindN (neo_positive (wait_default (no_minPollMs opts) 250) ''minTransactionPollIntervalMs'') (\<lambda>minPoll.
          bindN (neo_positive (wait_default (no_maxWaits opts) 32) ''maxConcurrentTransactionWaits'') (\<lambda>maxWaits.
          bindN (helper (parseGasAmountToDatos (or_else (no_maxFeeGas opts) (nd_maxFeeGas cfg)))) (\<lambda>maxFee.
          retN (outside\<lparr>ne_network := network, ne_mismatchName := ''Error'', ne_rpcUrls := urls, ne_rpcTimeoutMs := rpcTimeoutMs, ne_maxWaitMs := maxWait,
            ne_minPollMs := minPoll, ne_maxWaits := nat maxWaits, ne_maxFeeDatos := maxFee\<rparr>))))))))"

definition neo_network :: "neo_env \<Rightarrow> string" where
  "neo_network env = ne_network env"

definition neo_rpc_urls :: "neo_env \<Rightarrow> string list" where
  "neo_rpc_urls env = ne_rpcUrls env"

record key_account =
  ka_address :: string
  ka_publicKey :: string
  ka_WIF :: string

record wallet_keys =
  wk_fresh :: key_account
  wk_encrypt :: "string \<Rightarrow> string \<Rightarrow> rpc_failure + string"
  wk_isNEP2 :: "string \<Rightarrow> bool"
  wk_decrypt :: "string \<Rightarrow> string \<Rightarrow> rpc_failure + string"
  wk_isWIF :: "string \<Rightarrow> bool"
  wk_isPrivateKey :: "string \<Rightarrow> bool"
  wk_account :: "string \<Rightarrow> rpc_failure + key_account"

definition hide_unless_invalid :: "string \<Rightarrow> 'a neo \<Rightarrow> 'a neo" where
  "hide_unless_invalid m n = catchN n (\<lambda>e. if f_name e = ''ValidationError'' then throwN e else fail_with m)"

definition neo_createWallet :: "wallet_keys \<Rightarrow> jsval \<Rightarrow> jsval neo" where
  "neo_createWallet k password =
     hide_unless_invalid ''Failed to create wallet''
       (bindN (helper (validatePassword password)) (\<lambda>p.
        bindN (liftN (wk_encrypt k (ka_WIF (wk_fresh k)) p)) (\<lambda>encrypted.
        retN (JObj [(''address'', JStr (ka_address (wk_fresh k))), (''publicKey'', JStr (ka_publicKey (wk_fresh k))),
                    (''encryptedPrivateKey'', JStr encrypted)]))))"

definition neo_importWallet :: "wallet_keys \<Rightarrow> string \<Rightarrow> string option \<Rightarrow> jsval neo" where
  "neo_importWallet k key password =
     (let locked = password \<notin> {None, Some []} in
      hide_unless_invalid (if locked then ''Failed to import wallet: invalid encrypted key or password''
                           else ''Failed to import wallet: invalid WIF or private key'')
        (bindN (if locked then
                  bindN (helper (validatePassword (JStr (the password)))) (\<lambda>p.
                  if \<not> wk_isNEP2 k key then fail_with ''Invalid encrypted wallet key''
                  else bindN (liftN (wk_decrypt k key p)) (\<lambda>privateKey. liftN (wk_account k privateKey)))
                else if \<not> (wk_isWIF k key \<or> wk_isPrivateKey k key) then fail_with ''Invalid WIF or private key''
                else liftN (wk_account k key)) (\<lambda>account.
         retN (JObj [(''address'', JStr (ka_address account)), (''publicKey'', JStr (ka_publicKey account))]))))"

section \<open>Every operation identifies the node\<close>

datatype neo_call =
    CInfo | CCount | CBlock jsval | CStateRoot jsnum
  | CTransaction string | CLog string | CUnclaimed string
  | CNep17 string "jsnum option" "jsnum option" | CNep11 string "jsnum option" "jsnum option"
  | CNep11Balances string | CBalance string
  | CWait "int option" string "jsnum option" "jsnum option" bool
  | CRead string string "jsval list" | CTest string string "jsval list" "jsval list"
  | CPrepareTransfer neo_signer string string string | CPrepareInvoke neo_signer string string "jsval list"
  | CPrepareClaim "neo_signer option" "string option" | CSubmit prepared_neo_transaction
  | CTransfer "neo_signer option" string string string "jsval list"
  | CInvoke "neo_signer option" string string "jsval list" "jsval list" | CClaim "neo_signer option"
  | CTransferFee string string string string | CInvokeFee string string string "jsval list"

definition ignoring :: "'a neo \<Rightarrow> unit neo" where
  "ignoring m = bindN m (\<lambda>_. retN ())"

primrec perform :: "neon_wallet \<Rightarrow> neo_env \<Rightarrow> neo_call \<Rightarrow> unit neo" where
  "perform w env CInfo = ignoring (getBlockchainInfo env)"
| "perform w env CCount = ignoring (getBlockCount env)"
| "perform w env (CBlock b) = ignoring (getBlock env b)"
| "perform w env (CStateRoot h) = ignoring (getStateRootValidation env h)"
| "perform w env (CTransaction t) = ignoring (getTransaction env t)"
| "perform w env (CLog t) = ignoring (getApplicationLog env t)"
| "perform w env (CUnclaimed a) = ignoring (getUnclaimedGas env a)"
| "perform w env (CNep17 a x y) = ignoring (getNep17Transfers env a x y)"
| "perform w env (CNep11 a x y) = ignoring (getNep11Transfers env a x y)"
| "perform w env (CNep11Balances a) = ignoring (getNep11Balances env a)"
| "perform w env (CBalance a) = ignoring (getBalance env a)"
| "perform w env (CWait c t x y l) = ignoring (waitForTransaction env c t x y l)"
| "perform w env (CRead h op args) = ignoring (invokeReadContract env h op args)"
| "perform w env (CTest h op ps ss) = ignoring (testInvoke env h op ps ss)"
| "perform w env (CPrepareTransfer f t a x) = ignoring (prepareTransferTransaction w env f t a x)"
| "perform w env (CPrepareInvoke f h op args) = ignoring (prepareInvokeTransaction w env f h op args)"
| "perform w env (CPrepareClaim f b) = ignoring (prepareClaimGasTransaction w env f b)"
| "perform w env (CSubmit p) = ignoring (submitPreparedTransaction env p)"
| "perform w env (CTransfer f t a x e) = ignoring (transferAssets w env f t a x e)"
| "perform w env (CInvoke f h op args e) = ignoring (invokeContract w env f h op args e)"
| "perform w env (CClaim f) = ignoring (claimGas w env f)"
| "perform w env (CTransferFee f t a x) = ignoring (calculateTransferFee w env f t a x)"
| "perform w env (CInvokeFee f h op args) = ignoring (calculateInvokeFee w env f h op args)"

text \<open>A life of the service: calls one after the other, with any pause between them.\<close>

fun serve :: "neon_wallet \<Rightarrow> neo_env \<Rightarrow> (nat \<times> neo_call) list \<Rightarrow> neo_state \<Rightarrow> neo_state" where
  "serve w env [] s = s"
| "serve w env ((pause, c) # cs) s = serve w env cs (snd (perform w env c (s\<lparr>ns_clock := ns_clock s + int pause\<rparr>)))"

definition fresh_state :: "int \<Rightarrow> neo_state" where
  "fresh_state now = \<lparr>ns_clock = now, ns_magic = None, ns_waits = 0, ns_log = []\<rparr>"

lemma asks_nowN [asks_intros]: "asks b env nowN"
  by (simp add: asks_def nowN_def)

lemma asks_before_deadline [asks_intros]: "asks True env m \<Longrightarrow> asks b env (before_deadline env a d m)"
  unfolding before_deadline_def by (intro asks_intros)

lemma asks_pause [asks_intros]: "asks b env (waitForPollInterval a d)"
  by (auto simp: asks_def waitForPollInterval_def Let_def split: option.splits)

lemma asks_attempt [asks_intros]: "asks b env (poll_attempt env a d l txid)"
  unfolding poll_attempt_def confirmed_details_def confirmed_log_def by (intro asks_intros asks_send)

lemma asks_round: "asks b env (poll_round env a d i l txid)"
  unfolding poll_round_def poll_failed_def poll_pause_def by (intro asks_intros)

lemma asks_poll_loop:
  "identified env s \<Longrightarrow> identified env (snd (poll_loop env a d t i l txid s)) \<and> (\<exists>log. ns_log (snd (poll_loop env a d t i l txid s)) = ns_log s @ log)"
proof (induction env a d t i l txid s rule: poll_loop.induct)
  case (1 env a d t i l txid s)
  obtain n u where rd: "poll_round env a d i l txid s = (n, u)" by force
  note u = asksD(1,2) [OF asks_round [of False] 1(2) _ rd, simplified]
  show ?case
  proof (cases "\<not> d < ns_clock s \<and> \<not> aborted_at a s \<and> n = Inr Poll_again")
    case True
    then have "poll_loop env a d t i l txid s = poll_loop env a d t i l txid u" by (simp add: poll_loop.simps [of env a d t i l txid s] rd)
    with 1(1) [OF _ _ rd [symmetric] _ _ u(1)] True u(2) show ?thesis by auto
  next
    case False
    then have "snd (poll_loop env a d t i l txid s) \<in> {s, u}"
      by (auto simp: poll_loop.simps [of env a d t i l txid s] rd split: sum.splits poll_next.splits)
    with 1(2) u show ?thesis by auto
  qed
qed

lemma identified_waits [simp]: "identified env (s\<lparr>ns_waits := n\<rparr>) = identified env s"
  by (simp add: identified_def)

lemma asks_wait_options [asks_intros]: "asks b env (validateTransactionWaitOptions e t i)"
  by (simp add: asks_def wait_options_state)

lemma asks_wait [asks_intros]: "asks b env (waitForTransaction env a txid t i l)"
  unfolding waitForTransaction_def
proof (intro asks_intros, unfold asks_def, intro allI impI)
  fix timeout interval s assume "identified env s \<and> (b \<longrightarrow> vouched env (ns_log s))"
  then have "identified env (s\<lparr>ns_waits := ns_waits s + 1\<rparr>)" by simp
  from asks_poll_loop [OF this] show "identified env (snd (if aborted_at a s then (Inl abort_failure, s)
       else if ne_maxWaits env \<le> ns_waits s then (Inl (failure ''RateLimitError'' ''Too many concurrent transaction wait requests''), s)
       else case pollForTransaction env a txid timeout interval l (s\<lparr>ns_waits := ns_waits s + 1\<rparr>) of
         (r, s') \<Rightarrow> (r, s'\<lparr>ns_waits := ns_waits s' - 1\<rparr>))) \<and>
    (\<exists>log. ns_log (snd (if aborted_at a s then (Inl abort_failure, s)
       else if ne_maxWaits env \<le> ns_waits s then (Inl (failure ''RateLimitError'' ''Too many concurrent transaction wait requests''), s)
       else case pollForTransaction env a txid timeout interval l (s\<lparr>ns_waits := ns_waits s + 1\<rparr>) of
         (r, s') \<Rightarrow> (r, s'\<lparr>ns_waits := ns_waits s' - 1\<rparr>))) = ns_log s @ log)"
    using \<open>identified env s \<and> _\<close> by (auto simp: pollForTransaction_def split: prod.splits) (metis snd_conv)+
qed

lemma asks_invalid [asks_intros]: "asks b env (invalid_argument m)"
  by (simp add: invalid_argument_def asks_intros)

lemma asks_scale [asks_intros]: "asks b env (scaleTransferAmount amount d)"
  unfolding scaleTransferAmount_def Let_def by (intro asks_intros)

lemma asks_asset_hash [asks_intros]: "asks b env (getAssetHash e t)"
  unfolding getAssetHash_def by (intro asks_intros)

lemma asks_decimals [asks_intros]: "asks b env (token_decimals env h)"
  unfolding token_decimals_def by (intro asks_intros)

text \<open>The preparation of a transaction asks the node directly: it follows the request for the version.\<close>

lemma asks_fees: "asks True env (script_fee w env t ss)" "asks True env (network_fee w env t)" "asks True env (prepare_fees w env acc sg t)"
proof -
  show sf: "asks True env (script_fee w env t ss)" for ss unfolding script_fee_def by (intro asks_intros asks_send)
  show nf: "asks True env (network_fee w env t)" unfolding network_fee_def by (intro asks_intros asks_send)
  show "asks True env (prepare_fees w env acc sg t)"
    unfolding prepare_fees_def fee_within_cap_def Let_def by (intro asks_intros asks_send sf nf)
qed

text \<open>\<open>known env m\<close>: a success of \<open>m\<close> leaves the node identified.\<close>

definition known_after :: "neo_env \<Rightarrow> 'a neo \<Rightarrow> bool" where
  "known_after env m \<longleftrightarrow> (\<forall>s v s'. identified env s \<and> m s = (Inr v, s') \<longrightarrow> vouched env (ns_log s'))"

lemma known_failing: "known_after env (fail_with m)"
  by (simp add: known_after_def fail_with_def throwN_def)

lemma known_magic: "known_after env (getNetworkMagic env)"
  unfolding known_after_def using getNetworkMagic_identifies by blast

lemma known_later: "asks False env m \<Longrightarrow> (\<And>a. known_after env (f a)) \<Longrightarrow> known_after env (bindN m f)"
  unfolding known_after_def bindN_Inr by (metis asksD(1))

lemma known_before: "asks False env m \<Longrightarrow> known_after env m \<Longrightarrow> (\<And>a. asks True env (f a)) \<Longrightarrow> known_after env (bindN m f)"
  unfolding known_after_def bindN_Inr by (metis asksD(1) asksD(3))

lemma known_if: "known_after env m \<Longrightarrow> known_after env m' \<Longrightarrow> known_after env (if c then m else m')"
  by simp

lemma asks_after_known:
  assumes "asks b env m" "known_after env m" "\<And>a. asks True env (f a)" shows "asks b env (bindN m f)"
  unfolding asks_def
proof (intro allI impI)
  fix s assume s: "identified env s \<and> (b \<longrightarrow> vouched env (ns_log s))"
  obtain r s1 where m: "m s = (r, s1)" by force
  note d = asksD(1,2) [OF assms(1) conjunct1 [OF s] _ m]
  show "identified env (snd (bindN m f s)) \<and> (\<exists>l. ns_log (snd (bindN m f s)) = ns_log s @ l)"
  proof (cases r)
    case (Inl e)
    with d s show ?thesis by (simp add: bindN_def m)
  next
    case (Inr a)
    with assms(2) s m have v: "vouched env (ns_log s1)" by (auto simp: known_after_def)
    obtain r2 s2 where f: "f a s1 = (r2, s2)" by force
    from d s have "identified env s1" by blast
    note e = asksD(1,2) [OF assms(3) this v f]
    with d s show ?thesis by (auto simp: bindN_def m Inr f)
  qed
qed

lemma asks_transfer_script [asks_intros]: "asks b env (buildNep17TransferScript w env x y asset amount)"
  unfolding buildNep17TransferScript_def by (intro asks_intros)

lemma known_transfer_script: "known_after env (buildNep17TransferScript w env x y asset amount)"
  unfolding buildNep17TransferScript_def
  by (intro known_if known_failing known_later [OF asks_option] known_before [OF asks_magic known_magic] asks_intros)

lemma asks_sign_prepared: "asks True env (sign_prepared w env acc t magic)"
  unfolding sign_prepared_def by (intro asks_intros asks_fees)

lemma asks_signed_known: "asks True env (prepareSignedTransaction w env acc t magic)"
  unfolding prepareSignedTransaction_def by (intro asks_intros asks_sign_prepared)

lemma asks_signed: "asks b env (prepareSignedTransaction w env acc t None)"
  unfolding prepareSignedTransaction_def option.case by (intro asks_if asks_invalid asks_after_magic asks_sign_prepared)

lemma asks_prepare_transfer [asks_intros]: "asks b env (prepareTransferTransaction w env acc y asset amount)"
  unfolding prepareTransferTransaction_def
  by (rule asks_after_known [OF asks_transfer_script known_transfer_script]) (intro asks_pair asks_signed_known)

lemma asks_prepare_invoke [asks_intros]: "asks b env (prepareInvokeTransaction w env acc h op args)"
  unfolding prepareInvokeTransaction_def by (intro asks_intros asks_signed)

lemma asks_submit [asks_intros]: "asks b env (submitPreparedTransaction env p)"
  unfolding submitPreparedTransaction_def by (intro asks_intros)

lemma asks_sends [asks_intros]:
  "asks b env (transferAssets w env acc y asset amount ext)" "asks b env (invokeContract w env acc h op args ext)"
  unfolding transferAssets_def invokeContract_def assertNoAdditionalTransactionAttributes_def by (intro asks_intros)+

lemma asks_estimate: "asks True env (estimate_fees w env t sg)"
  unfolding estimate_fees_def createFeeEstimate_def by (intro asks_intros asks_fees)

lemma asks_fee_reads [asks_intros]:
  "asks b env (calculateTransferFee w env x y asset amount)" "asks b env (calculateInvokeFee w env x h op args)"
proof -
  show "asks b env (calculateTransferFee w env x y asset amount)" unfolding calculateTransferFee_def
    by (intro asks_wrapN asks_after_known [OF asks_transfer_script known_transfer_script]) (intro asks_intros asks_estimate)
  show "asks b env (calculateInvokeFee w env x h op args)" unfolding calculateInvokeFee_def
    by (intro asks_wrap_unless asks_if asks_invalid asks_bindN [OF asks_contract_script] asks_bindN [OF asks_liftN] asks_after_magic asks_estimate)
qed

lemma asks_claimable [asks_intros]: "asks b env (readClaimableNeoBalance env a)"
  unfolding readClaimableNeoBalance_def by (intro asks_intros)

lemma asks_prepare_claim [asks_intros]: "asks b env (prepareClaimGasTransaction w env acc k)"
  unfolding prepareClaimGasTransaction_def
  by (intro asks_option asks_if asks_invalid asks_bindN asks_retN asks_claimable
      asks_after_known [OF asks_transfer_script known_transfer_script] asks_pair asks_signed_known)

lemma asks_claim [asks_intros]: "asks b env (claimGas w env acc)"
  unfolding claimGas_def by (intro asks_intros)

lemma asks_ignoring: "asks b env m \<Longrightarrow> asks b env (ignoring m)"
  by (simp add: ignoring_def asks_intros)

lemma asks_perform: "asks b env (perform w env c)"
  by (cases c) (simp_all add: asks_ignoring asks_intros)

text \<open>
  C37: a new service asks the node for its network before anything else, whatever is called, in whatever order, and whatever
  the node answers: each request but \<open>getversion\<close> comes after an answer with the magic of the configured network.
\<close>

theorem operations_identify_node:
  assumes "ns_log (serve w env calls (fresh_state now)) = before @ (q, r) # after" "q \<noteq> version_request"
  shows "\<exists>v magic. (version_request, Inr v) \<in> set before \<and> reported_magic v = Some magic
    \<and> NEO_NETWORK_MAGIC (ne_network env) = Some magic"
proof -
  have "identified env s \<Longrightarrow> identified env (serve w env calls s)" for s
  proof (induction w env calls s rule: serve.induct)
    case (2 w env pause c cs s)
    from 2(2) have "identified env (s\<lparr>ns_clock := ns_clock s + int pause\<rparr>)" by simp
    with asks_perform [of False env w c] have "identified env (snd (perform w env c (s\<lparr>ns_clock := ns_clock s + int pause\<rparr>)))"
      unfolding asks_def by blast
    with 2(1) show ?case by simp
  qed simp
  moreover have "identified env (fresh_state now)" by (simp add: identified_def fresh_state_def)
  ultimately have "identified env (serve w env calls (fresh_state now))" by blast
  with assms show ?thesis unfolding identified_def vouched_def by blast
qed

definition demo_wallet :: neon_wallet where
  "demo_wallet = \<lparr>nw_hash = (\<lambda>a. Inr a), nw_transferScript = (\<lambda>_ _ _ _. Inr ''11''), nw_sign = (\<lambda>_ _ _. Inr \<lparr>st_raw = ''aa'', st_hash = ''bb''\<rparr>),
     nw_count = (\<lambda>_. 100), nw_fromDecimal = (\<lambda>t. int (str_dec t)), nw_smartFee = (\<lambda>r. r), nw_maxLifespan = 5760\<rparr>"

lemma demo_count: "ns_log (serve demo_wallet demo_neo [(3, CCount)] (fresh_state 0)) =
    [(version_request, Inr (JObj [(''protocol'', JObj [(''network'', JNum (NInt 860833102))])]))] @ (GetBlockCount, Inr JNull) # []"
  by code_simp

lemma operations_identify_node_witness:
  "\<exists>v magic. (version_request, Inr v) \<in> {(version_request, Inr (JObj [(''protocol'', JObj [(''network'', JNum (NInt 860833102))])]))}
    \<and> reported_magic v = Some magic \<and> NEO_NETWORK_MAGIC (ne_network demo_neo) = Some magic"
proof -
  have "GetBlockCount \<noteq> version_request" by (simp add: version_request_def)
  from operations_identify_node [OF demo_count this] show ?thesis by simp
qed

section \<open>What a submission knows\<close>

lemma magic_log:
  assumes "getNetworkMagic env s = (r, s')" shows "\<exists>l. ns_log s' = ns_log s @ l \<and> fst ` set l \<subseteq> {version_request}"
proof (cases "ns_magic s")
  case (Some magic)
  with assms show ?thesis by (auto simp: getNetworkMagic_def)
next
  case None
  obtain r1 s1 where w: "within None (ne_rpcTimeoutMs env) (send env version_request) s = (r1, s1)" by force
  then have "ns_log s1 = ns_log s \<or> (\<exists>a. ns_log s1 = ns_log s @ [(version_request, a)])"
    by (auto simp: within_def Let_def split: if_splits prod.splits dest: send_log)
  with assms None w show ?thesis by (auto simp: getNetworkMagic_def bindN_def liftN_def split: sum.splits)
qed

text \<open>A request under a deadline: not sent, or sent once and then answered in time or given up.\<close>

lemma ask_log:
  assumes "ask env q s = (r, s')" "q \<noteq> version_request"
  shows "\<exists>l. ns_log s' = ns_log s @ l \<and> fst ` set l \<subseteq> {version_request} \<and> (\<exists>e. r = Inl e)
    \<or> (\<exists>a. ns_log s' = ns_log s @ l @ [(q, a)] \<and> fst ` set l \<subseteq> {version_request} \<and> (r = a \<or> (\<exists>e. r = Inl e \<and> is_deadline e)))"
proof -
  obtain m t where mg: "getNetworkMagic env s = (m, t)" by force
  obtain l where l: "ns_log t = ns_log s @ l" "fst ` set l \<subseteq> {version_request}" using magic_log [OF mg] by blast
  show ?thesis
  proof (cases m)
    case (Inl e)
    with assms mg l show ?thesis by (auto simp: ask_def with_deadline_def bindN_def)
  next
    case (Inr magic)
    with assms mg have w: "within None (ne_rpcTimeoutMs env) (send env q) t = (r, s')" by (auto simp: ask_def with_deadline_def bindN_def)
    obtain a u where sd: "send env q t = (a, u)" by force
    from w have "s' = t \<and> (\<exists>e. r = Inl e) \<or> ns_log s' = ns_log u \<and> (r = a \<or> (\<exists>e. r = Inl e \<and> is_deadline e))"
      by (auto simp: within_def sd Let_def is_deadline_def RpcDeadlineFailure_def split: if_splits)
    with l send_log [OF sd] show ?thesis by auto
  qed
qed

lemma submission_error_cases:
  "f_name (submission_error env txid e) = ''SubmissionOutcomeUnknownError''
    \<or> submission_error env txid e = e \<and> (isDefinitiveRpcRejection e \<or> f_name e = ''ValidationError'') \<and> \<not> is_deadline e"
  by (auto simp: submission_error_def outcome_unknown_def failure_def is_deadline_def)

lemma submit_run:
  assumes "submitPreparedTransaction env p s = (r, s')"
  obtains "s' = s" "\<exists>e. r = Inl e \<and> f_name e = ''ValidationError''"
  | r0 where "ask env (SendRawTransaction (pn_rawTransaction p)) s = (r0, s')"
      "r = (case r0 of Inl e \<Rightarrow> Inl (submission_error env (pn_txid p) e)
        | Inr v \<Rightarrow> if normalized_txid v \<noteq> to_lower (pn_txid p) then Inl (outcome_unknown (pn_txid p) Inconsistent_response) else Inr (pn_txid p))"
proof (cases "(pn_rawTransaction p = [] \<or> \<not> list_all is_hex (pn_rawTransaction p) \<or> odd (length (pn_rawTransaction p))) \<or> \<not> hex_0x 64 (pn_txid p)")
  case True
  with assms that(1) show ?thesis
    by (auto simp: submitPreparedTransaction_def invalid_argument_def throwN_def failure_def split: if_splits)
next
  case False
  obtain r0 t where ask: "ask env (SendRawTransaction (pn_rawTransaction p)) s = (r0, t)" by force
  have "submission_error env (pn_txid p) (outcome_unknown (pn_txid p) Inconsistent_response) = outcome_unknown (pn_txid p) Inconsistent_response"
    by (simp add: submission_error_def outcome_unknown_def failure_def)
  with assms False ask that(2) show ?thesis
    by (auto simp: submitPreparedTransaction_def catchN_def bindN_def throwN_def retN_def split: sum.splits if_splits)
qed

lemma filter_version: "fst ` set l \<subseteq> {version_request} \<Longrightarrow> filter (\<lambda>e. fst e \<noteq> version_request) l = []"
  by (auto simp: filter_empty_conv)

text \<open>
  C38: a submission sends the transaction at most once. A transaction identifier comes back only when the node answered with
  it; and an error other than \<open>SubmissionOutcomeUnknownError\<close> means that nothing was sent or that the node itself
  rejected the transaction with that error.
\<close>

theorem submission_outcome:
  assumes "submitPreparedTransaction env p s = (r, s')"
  shows "\<exists>new. ns_log s' = ns_log s @ new
    \<and> length (filter (\<lambda>e. fst e \<noteq> version_request) new) \<le> 1
    \<and> (\<forall>e \<in> set new. fst e \<in> {version_request, SendRawTransaction (pn_rawTransaction p)})
    \<and> (case r of
         Inr t \<Rightarrow> t = pn_txid p \<and> (\<exists>v. (SendRawTransaction (pn_rawTransaction p), Inr v) \<in> set new \<and> normalized_txid v = to_lower t)
       | Inl e \<Rightarrow> f_name e = ''SubmissionOutcomeUnknownError''
           \<or> (\<forall>a. (SendRawTransaction (pn_rawTransaction p), a) \<in> set new
                \<longrightarrow> a = Inl e \<and> (isDefinitiveRpcRejection e \<or> f_name e = ''ValidationError'')))"
  using assms
proof (cases rule: submit_run)
  case 1
  then show ?thesis by (auto intro!: exI [of _ "[]"])
next
  case (2 r0)
  let ?q = "SendRawTransaction (pn_rawTransaction p)"
  have q: "?q \<noteq> version_request" by (simp add: version_request_def)
  consider l e where "ns_log s' = ns_log s @ l" "fst ` set l \<subseteq> {version_request}" "r0 = Inl e"
    | l a where "ns_log s' = ns_log s @ l @ [(?q, a)]" "fst ` set l \<subseteq> {version_request}" "r0 = a \<or> (\<exists>e. r0 = Inl e \<and> is_deadline e)"
    using ask_log [OF 2(1) q] by blast
  then show ?thesis
  proof cases
    case (1 l e)
    with q have "(?q, a) \<notin> set l" for a by auto
    with 1 2(2) show ?thesis by (intro exI [of _ l]) (auto simp: filter_version)
  next
    case (2 l a)
    have sent: "(?q, b) \<in> set (l @ [(?q, a)]) \<longleftrightarrow> b = a" for b using 2(2) q by auto
    have one: "length (filter (\<lambda>e. fst e \<noteq> version_request) (l @ [(?q, a)])) \<le> 1" "\<forall>e \<in> set (l @ [(?q, a)]). fst e \<in> {version_request, ?q}"
      using 2(2) by (auto simp: filter_version)
    have "case r of Inr t \<Rightarrow> t = pn_txid p \<and> (\<exists>v. a = Inr v \<and> normalized_txid v = to_lower t)
       | Inl e \<Rightarrow> f_name e = ''SubmissionOutcomeUnknownError'' \<or> a = Inl e \<and> (isDefinitiveRpcRejection e \<or> f_name e = ''ValidationError'')"
    proof (cases r0)
      case (Inl e)
      with 2(3) \<open>r = _\<close> submission_error_cases [of env "pn_txid p" e] show ?thesis by auto
    next
      case (Inr v)
      with 2(3) \<open>r = _\<close> show ?thesis by (auto simp: outcome_unknown_def failure_def)
    qed
    then show ?thesis
      by (intro exI [of _ "l @ [(?q, a)]"] conjI one) (auto simp only: 2(1) append.assoc sent split: sum.splits)
  qed
qed

text \<open>A node that rejects a transaction with an RPC error.\<close>

definition demo_prepared :: prepared_neo_transaction where
  "demo_prepared = \<lparr>pn_rawTransaction = ''aa'', pn_txid = ''0x'' @ replicate 64 (CHR ''1''), pn_validUntilBlock = 9\<rparr>"

definition rejecting_neo :: neo_env where
  "rejecting_neo = demo_neo\<lparr>ne_node := (\<lambda>_ _ _. (Inl \<lparr>f_name = ''RpcError'', f_code = JNum (NInt (- 501)), f_message = ''rejected''\<rparr>, 3))\<rparr>"

lemma demo_rejected: "submitPreparedTransaction rejecting_neo demo_prepared demo_neo_state =
    (Inl \<lparr>f_name = ''RpcError'', f_code = JNum (NInt (- 501)), f_message = ''rejected''\<rparr>,
     demo_neo_state\<lparr>ns_clock := 3, ns_log := [(SendRawTransaction ''aa'', Inl \<lparr>f_name = ''RpcError'', f_code = JNum (NInt (- 501)), f_message = ''rejected''\<rparr>)]\<rparr>)"
  by code_simp

lemma submission_outcome_witness:
  "\<exists>new. ns_log demo_neo_state @ new = [(SendRawTransaction ''aa'', Inl \<lparr>f_name = ''RpcError'', f_code = JNum (NInt (- 501)), f_message = ''rejected''\<rparr>)]
    \<and> length (filter (\<lambda>e. fst e \<noteq> version_request) new) \<le> 1"
proof -
  from submission_outcome [OF demo_rejected] show ?thesis by (auto simp: eq_commute)
qed

end
