(* ===== verification/N3Index.thy ===== *)
theory N3Index
  imports NeoService Validation
begin

text \<open>
  src/contracts/n3index-client.ts: contract names and their metadata from the N3Index catalogue. An action keeps the clock, the
  names known to be missing, with the time until which they count as missing, and the requests sent. What the network does
  with a request is a parameter. The rows come from outside: nothing is assumed of their fields. Calls for the same name that
  overlap share one request; here calls follow each other.

  The main result is \<open>index_resolution_sound\<close>: a name leads to a contract only if the catalogue names that contract so and no other.
\<close>

section \<open>Requests\<close>

datatype index_request = Index_get string "(string \<times> string) list"

record index_state =
  is_clock :: int
  is_missing :: "(string \<times> int) list"
  is_log :: "index_request list"

record index_env =
  ix_fetch :: "int \<Rightarrow> index_request \<Rightarrow> exchange"
  ix_parseJSON :: "nat list \<Rightarrow> jsval option"
  ix_fetchTimeoutMs :: int
  ix_resolutionTimeoutMs :: int
  ix_negativeTtlMs :: int
  ix_negativeMax :: nat

record index_contract =
  ic_contractHash :: string
  ic_displayName :: jsval
  ic_symbol :: jsval
  ic_logoUrl :: jsval
  ic_source :: string

definition METADATA_CATALOG_LIMIT :: nat where "METADATA_CATALOG_LIMIT = 10000"

definition MAX_METADATA_RESPONSE_BYTES :: nat where "MAX_METADATA_RESPONSE_BYTES = 2 * 1024 * 1024"

definition METADATA_PATH :: string where "METADATA_PATH = ''/rest/v1/contract_metadata_cache''"

definition METADATA_COLUMNS :: string where "METADATA_COLUMNS = ''contract_hash,display_name,symbol,logo_url,network,source''"

text \<open>
  The request is given up after the timeout of a fetch or, for a resolution, what is left of its own. Messages are the fixed part.
\<close>

definition index_timed_out :: rpc_failure where
  "index_timed_out = plain_error ''N3Index request timed out for ''"

definition fetchJson :: "index_env \<Rightarrow> int option \<Rightarrow> string \<Rightarrow> (string \<times> string) list \<Rightarrow> (index_state, jsval) run" where
  "fetchJson env parentMs pathname params = (\<lambda>s.
     let q = Index_get pathname params; x = ix_fetch env (is_clock s) q; asked = s\<lparr>is_log := is_log s @ [q]\<rparr>;
         limit = (case parentMs of None \<Rightarrow> ix_fetchTimeoutMs env | Some t \<Rightarrow> min (ix_fetchTimeoutMs env) t) in
     if limit \<le> x_elapsed x then (Inl index_timed_out, asked\<lparr>is_clock := is_clock s + limit\<rparr>)
     else ((case x_fetch x of
              Inl e \<Rightarrow> Inl (if f_name e = ''AbortError'' then index_timed_out else e)
            | Inr response \<Rightarrow>
                if r_status response < 200 \<or> 299 < r_status response then Inl (plain_error ''N3Index request failed ('')
                else readBoundedJson (ix_parseJSON env) response MAX_METADATA_RESPONSE_BYTES ''N3Index''),
           asked\<lparr>is_clock := is_clock s + max 0 (x_elapsed x)\<rparr>))"

section \<open>Rows of the catalogue\<close>

definition type_failure :: "string \<Rightarrow> rpc_failure" where
  "type_failure m = failure ''TypeError'' m"

definition normalizeName :: "jsval \<Rightarrow> rpc_failure + string" where
  "normalizeName v =
     (case v of
        JStr t \<Rightarrow> Inr (to_lower (trim t))
      | _ \<Rightarrow> if truthy v then Inl (type_failure (''(value || '' @ [CHR 0x27, CHR 0x27] @ '').trim is not a function'')) else Inr [])"

definition row_matches :: "string \<Rightarrow> string \<Rightarrow> jsval \<Rightarrow> rpc_failure + bool" where
  "row_matches network name row =
     (if nullish row then Inl (member_error ''network'')
      else if member row ''network'' \<noteq> JStr network then Inr False
      else case normalizeName (member row ''display_name'') of
        Inl e \<Rightarrow> Inl e
      | Inr n \<Rightarrow> if n = name then Inr True
          else (case normalizeName (member row ''symbol'') of Inl e \<Rightarrow> Inl e | Inr m \<Rightarrow> Inr (m = name)))"

fun matching_rows :: "string \<Rightarrow> string \<Rightarrow> jsval list \<Rightarrow> rpc_failure + jsval list" where
  "matching_rows network name [] = Inr []"
| "matching_rows network name (row # rows) =
     (case row_matches network name row of
        Inl e \<Rightarrow> Inl e
      | Inr b \<Rightarrow>
          (case matching_rows network name rows of
             Inl e \<Rightarrow> Inl e
           | Inr found \<Rightarrow> Inr (if b then row # found else found)))"

text \<open>The map from hash to row: a hash keeps its first place and its last row.\<close>

fun rows_by_hash :: "(string \<times> jsval) list \<Rightarrow> jsval list \<Rightarrow> rpc_failure + (string \<times> jsval) list" where
  "rows_by_hash found [] = Inr found"
| "rows_by_hash found (row # rows) =
     (case validateScriptHash (member row ''contract_hash'') of
        Inl e \<Rightarrow> Inl (failure_of e)
      | Inr h \<Rightarrow> rows_by_hash (AList.update h row found) rows)"

definition or_undefined :: "jsval \<Rightarrow> jsval" where
  "or_undefined v = (if truthy v then v else JUndef)"

definition described_contract :: "string \<Rightarrow> jsval \<Rightarrow> index_contract" where
  "described_contract h row =
     \<lparr>ic_contractHash = h, ic_displayName = or_undefined (member row ''display_name''), ic_symbol = or_undefined (member row ''symbol''),
      ic_logoUrl = or_undefined (member row ''logo_url''), ic_source = ''contract_metadata_cache''\<rparr>"

definition catalogue_answer :: "string \<Rightarrow> string \<Rightarrow> jsval \<Rightarrow> rpc_failure + index_contract option" where
  "catalogue_answer network name answer =
     (case answer of
        JArr rows \<Rightarrow>
          (case matching_rows network name rows of
             Inl e \<Rightarrow> Inl e
           | Inr exact \<Rightarrow>
               (case rows_by_hash [] exact of
                  Inl e \<Rightarrow> Inl e
                | Inr found \<Rightarrow>
                    (case found of
                       [] \<Rightarrow> Inr None
                     | [(h, row)] \<Rightarrow> Inr (Some (described_contract h row))
                     | _ \<Rightarrow> Inl (failure ''ValidationError'' (''Contract name '' @ [CHR 0x22])))))
      | _ \<Rightarrow> Inl (type_failure ''metadataRows.filter is not a function''))"

section \<open>Resolution\<close>

definition resolveByNameUncached :: "index_env \<Rightarrow> string \<Rightarrow> string \<Rightarrow> (index_state, index_contract option) run" where
  "resolveByNameUncached env network name =
     bindN (fetchJson env (Some (ix_resolutionTimeoutMs env)) METADATA_PATH
       [(''network'', ''eq.'' @ network), (''limit'', dec_str METADATA_CATALOG_LIMIT), (''select'', METADATA_COLUMNS)]) (\<lambda>answer.
     liftN (catalogue_answer network name answer))"

definition resolveByNameWithDeadline :: "index_env \<Rightarrow> string \<Rightarrow> string \<Rightarrow> (index_state, index_contract option) run" where
  "resolveByNameWithDeadline env network name = (\<lambda>s.
     catchN (resolveByNameUncached env network name) (\<lambda>e s'.
       (Inl (if is_clock s + ix_resolutionTimeoutMs env \<le> is_clock s' then plain_error ''N3Index name resolution timed out after '' else e), s')) s)"

definition cacheNegativeResult :: "index_env \<Rightarrow> int \<Rightarrow> string \<Rightarrow> (string \<times> int) list \<Rightarrow> (string \<times> int) list" where
  "cacheNegativeResult env now key missing =
     (let others = filter (\<lambda>(k, expiry). now < expiry \<and> k \<noteq> key) missing in
      drop (Suc (length others) - ix_negativeMax env) others @ [(key, now + ix_negativeTtlMs env)])"

definition resolve_fresh :: "index_env \<Rightarrow> string \<Rightarrow> string \<Rightarrow> (index_state, index_contract option) run" where
  "resolve_fresh env network name =
     bindN (resolveByNameWithDeadline env network name) (\<lambda>found s.
       (Inr found,
        if found = None then s\<lparr>is_missing := cacheNegativeResult env (is_clock s) (network @ '':'' @ name) (is_missing s)\<rparr> else s))"

definition resolveByName :: "index_env \<Rightarrow> string \<Rightarrow> string \<Rightarrow> (index_state, index_contract option) run" where
  "resolveByName env network reference = (\<lambda>s.
     let name = to_lower (trim reference); key = network @ '':'' @ name in
     if name = [] then (Inr None, s)
     else case map_of (is_missing s) key of
       Some expiry \<Rightarrow>
         if is_clock s < expiry then (Inr None, s)
         else resolve_fresh env network name (s\<lparr>is_missing := filter (\<lambda>(k, e). k \<noteq> key) (is_missing s)\<rparr>)
     | None \<Rightarrow> resolve_fresh env network name s)"

definition metadata_of_hash :: "string \<Rightarrow> string \<Rightarrow> jsval \<Rightarrow> rpc_failure + index_contract option" where
  "metadata_of_hash network h answer =
     (if nullish answer then Inl (member_error ''0'')
      else let row = (case answer of JArr (r # rs) \<Rightarrow> r | _ \<Rightarrow> member answer ''0'') in
        if \<not> truthy row \<or> member row ''network'' \<noteq> JStr network then Inr None
        else case validateScriptHash (member row ''contract_hash'') of
          Inl e \<Rightarrow> Inl (failure_of e)
        | Inr h' \<Rightarrow> Inr (if h' = h then Some (described_contract h row) else None))"

definition getContractByHash :: "index_env \<Rightarrow> string \<Rightarrow> jsval \<Rightarrow> (index_state, index_contract option) run" where
  "getContractByHash env network contractHash =
     bindN (helper (validateScriptHash contractHash)) (\<lambda>h.
     bindN (fetchJson env None METADATA_PATH
       [(''network'', ''eq.'' @ network), (''contract_hash'', ''eq.'' @ h), (''select'', METADATA_COLUMNS), (''limit'', ''1'')]) (\<lambda>answer.
     liftN (metadata_of_hash network h answer)))"

definition positive_setting :: "string \<Rightarrow> jsnum option \<Rightarrow> int \<Rightarrow> int result" where
  "positive_setting name v d =
     (case v of
        None \<Rightarrow> Inr d
      | Some (NInt i) \<Rightarrow>
          if \<not> isSafeInteger (NInt i) \<or> i \<le> 0 then Inl (RangeError (name @ '' must be a positive integer'')) else Inr i
      | _ \<Rightarrow> Inl (RangeError (name @ '' must be a positive integer'')))"

text \<open>The constructor; a URL that does not parse throws as well.\<close>

definition newN3IndexClient ::
    "(string \<Rightarrow> url_parts option) \<Rightarrow> string \<Rightarrow> jsnum option \<Rightarrow> jsnum option \<Rightarrow> jsnum option \<Rightarrow> jsnum option \<Rightarrow> index_env \<Rightarrow> index_env result" where
  "newN3IndexClient parseURL baseUrl fetchMs resolutionMs ttlMs maxEntries outside =
     (case parseURL baseUrl of
        None \<Rightarrow> Inl (TypeError ''Invalid URL'')
      | Some u \<Rightarrow>
          if u_protocol u \<notin> {''http:'', ''https:''} \<or> u_username u \<noteq> [] \<or> u_password u \<noteq> []
          then Inl (GenericError ''N3Index base URL must be an HTTP/HTTPS URL without embedded credentials'')
          else bindR (positive_setting ''fetchTimeoutMs'' fetchMs 3000) (\<lambda>f.
               bindR (positive_setting ''resolutionTimeoutMs'' resolutionMs 3000) (\<lambda>r.
               bindR (positive_setting ''negativeCacheTtlMs'' ttlMs 60000) (\<lambda>t.
               bindR (positive_setting ''negativeCacheMaxEntries'' maxEntries 1024) (\<lambda>n.
               Inr (outside\<lparr>ix_fetchTimeoutMs := f, ix_resolutionTimeoutMs := r, ix_negativeTtlMs := t, ix_negativeMax := nat n\<rparr>))))))"

section \<open>A name leads to one contract\<close>

definition names_contract :: "string \<Rightarrow> string \<Rightarrow> jsval \<Rightarrow> bool" where
  "names_contract network name row \<longleftrightarrow>
     member row ''network'' = JStr network \<and> (normalizeName (member row ''display_name'') = Inr name \<or> normalizeName (member row ''symbol'') = Inr name)"

lemma row_matches_names: "row_matches network name row = Inr b \<Longrightarrow> b = names_contract network name row"
  by (auto simp: row_matches_def names_contract_def split: if_splits sum.splits)

lemma matching_rows_filter: "matching_rows network name rows = Inr found \<Longrightarrow> found = filter (names_contract network name) rows"
  by (induction rows arbitrary: found) (auto split: sum.splits if_splits dest: row_matches_names)

lemma update_entries:
  "fst ` set (AList.update h v l) = insert h (fst ` set l)"
  "e \<in> set (AList.update h v l) \<Longrightarrow> e \<in> set l \<or> e = (h, v)"
proof -
  show "fst ` set (AList.update h v l) = insert h (fst ` set l)"
    by (induction l) auto
  show "e \<in> set (AList.update h v l) \<Longrightarrow> e \<in> set l \<or> e = (h, v)"
  proof (induction l)
    case (Cons x l)
    then show ?case by (cases x; cases "fst x = h") auto
  qed simp
qed

declare rows_by_hash.simps [simp del]

lemma rows_by_hash_rows:
  "rows_by_hash found rows = Inr all \<Longrightarrow>
     fst ` set found \<subseteq> fst ` set all \<and> (\<forall>row \<in> set rows. \<exists>h. validateScriptHash (member row ''contract_hash'') = Inr h \<and> h \<in> fst ` set all)
     \<and> (\<forall>(h, row) \<in> set all. (h, row) \<in> set found \<or> row \<in> set rows \<and> validateScriptHash (member row ''contract_hash'') = Inr h)"
proof (induction found rows rule: rows_by_hash.induct)
  case (2 found row rows)
  from "2.prems" obtain h where h: "validateScriptHash (member row ''contract_hash'') = Inr h" and go: "rows_by_hash (AList.update h row found) rows = Inr all"
    unfolding rows_by_hash.simps by (cases "validateScriptHash (member row ''contract_hash'')") simp_all
  note ih = "2.IH" [OF h go]
  have "fst ` set found \<subseteq> fst ` set all" "h \<in> fst ` set all" using conjunct1 [OF ih] unfolding update_entries(1) by simp_all
  moreover have "(k, r) \<in> set found \<or> r \<in> set (row # rows) \<and> validateScriptHash (member r ''contract_hash'') = Inr k"
    if "(k, r) \<in> set all" for k r
  proof -
    from conjunct2 [OF conjunct2 [OF ih]] that consider "(k, r) \<in> set (AList.update h row found)"
      | "r \<in> set rows" "validateScriptHash (member r ''contract_hash'') = Inr k" by blast
    then show ?thesis using update_entries(2) [of "(k, r)" h row found] h by cases auto
  qed
  moreover note conjunct1 [OF conjunct2 [OF ih]]
  ultimately show ?case using h by auto
qed (simp add: rows_by_hash.simps)

lemma catalogue_sound:
  assumes "catalogue_answer network name answer = Inr (Some c)"
  shows "\<exists>rows. answer = JArr rows
    \<and> (\<exists>row \<in> set rows. names_contract network name row \<and> validateScriptHash (member row ''contract_hash'') = Inr (ic_contractHash c))
    \<and> (\<forall>row \<in> set rows. names_contract network name row \<longrightarrow> validateScriptHash (member row ''contract_hash'') = Inr (ic_contractHash c))"
proof -
  from assms obtain rows exact h row where rows: "answer = JArr rows" "matching_rows network name rows = Inr exact"
    and found: "rows_by_hash [] exact = Inr [(h, row)]" and c: "c = described_contract h row"
    by (auto simp: catalogue_answer_def split: jsval.splits sum.splits list.splits)
  have exact: "exact = filter (names_contract network name) rows" using rows(2) by (rule matching_rows_filter)
  note all = rows_by_hash_rows [OF found]
  have "validateScriptHash (member r ''contract_hash'') = Inr h" if "r \<in> set rows" "names_contract network name r" for r
    using all that exact by fastforce
  moreover from all have "row \<in> set exact" "validateScriptHash (member row ''contract_hash'') = Inr h" by auto
  ultimately show ?thesis using rows exact c by (auto simp: described_contract_def)
qed

definition catalogue_params :: "string \<Rightarrow> (string \<times> string) list" where
  "catalogue_params network = [(''network'', ''eq.'' @ network), (''limit'', dec_str METADATA_CATALOG_LIMIT), (''select'', METADATA_COLUMNS)]"

lemma run_results:
  "bindN m f s = (Inr b, s') \<Longrightarrow> \<exists>a s1. m s = (Inr a, s1) \<and> f a s1 = (Inr b, s')"
  "liftN r s = (Inr b, s') \<Longrightarrow> r = Inr b \<and> s' = s"
  by (simp_all add: bindN_def liftN_def split: prod.split_asm sum.split_asm)

lemma resolve_deadline_found:
  assumes "resolveByNameWithDeadline env network name t = (Inr x, s')"
  shows "resolveByNameUncached env network name t = (Inr x, s')"
  using assms unfolding resolveByNameWithDeadline_def catchN_def by (simp split: prod.split_asm sum.split_asm)

lemma resolve_fresh_found:
  assumes "resolve_fresh env network name t = (Inr (Some c), s')"
  obtains u answer where "fetchJson env (Some (ix_resolutionTimeoutMs env)) METADATA_PATH (catalogue_params network) t = (Inr answer, u)"
    "catalogue_answer network name answer = Inr (Some c)"
proof -
  from run_results(1) [OF assms [unfolded resolve_fresh_def]] obtain s1 where
    "resolveByNameWithDeadline env network name t = (Inr (Some c), s1)" by auto
  from run_results(1) [OF resolve_deadline_found [OF this, unfolded resolveByNameUncached_def, folded catalogue_params_def]]
  show thesis by (blast dest: run_results(2) intro: that)
qed

text \<open>
  C40: the contract a name leads to is in the catalogue of the network, as fetched for this very call, under that name as a display name or a symbol; and
  every row of the network with that name carries the same script hash. A name of two contracts leads to none.
\<close>

theorem index_resolution_sound:
  assumes "resolveByName env network reference s = (Inr (Some c), s')"
  shows "\<exists>t u rows. fetchJson env (Some (ix_resolutionTimeoutMs env)) METADATA_PATH (catalogue_params network) t = (Inr (JArr rows), u)
    \<and> (\<exists>row \<in> set rows. names_contract network (to_lower (trim reference)) row)
    \<and> (\<forall>row \<in> set rows. names_contract network (to_lower (trim reference)) row \<longrightarrow>
         validateScriptHash (member row ''contract_hash'') = Inr (ic_contractHash c))"
proof -
  from assms obtain t where "resolve_fresh env network (to_lower (trim reference)) t = (Inr (Some c), s')"
    unfolding resolveByName_def Let_def by (simp split: if_split_asm option.split_asm)
  then obtain u answer where f: "fetchJson env (Some (ix_resolutionTimeoutMs env)) METADATA_PATH (catalogue_params network) t = (Inr answer, u)"
    and c: "catalogue_answer network (to_lower (trim reference)) answer = Inr (Some c)"
    by (rule resolve_fresh_found)
  from catalogue_sound [OF c] obtain rows where rows: "answer = JArr rows"
    "\<exists>row \<in> set rows. names_contract network (to_lower (trim reference)) row"
    "\<forall>row \<in> set rows. names_contract network (to_lower (trim reference)) row \<longrightarrow>
       validateScriptHash (member row ''contract_hash'') = Inr (ic_contractHash c)" by blast
  show ?thesis by (rule exI [of _ t], rule exI [of _ u], rule exI [of _ rows]) (use f rows in simp)
qed

definition demo_index_row :: jsval where
  "demo_index_row = JObj [(''network'', JStr ''mainnet''), (''display_name'', JStr ''Flame''),
     (''contract_hash'', JStr (''0x'' @ replicate 40 (CHR ''1'')))]"

definition demo_index :: index_env where
  "demo_index = \<lparr>ix_fetch = (\<lambda>_ _. \<lparr>x_elapsed = 5, x_aborted = False,
       x_fetch = Inr \<lparr>r_status = 200, r_content_length = None, r_body = None, r_json = Inr (JArr [demo_index_row])\<rparr>\<rparr>),
     ix_parseJSON = (\<lambda>_. None), ix_fetchTimeoutMs = 3000, ix_resolutionTimeoutMs = 3000, ix_negativeTtlMs = 60000, ix_negativeMax = 1024\<rparr>"

definition demo_index_state :: index_state where
  "demo_index_state = \<lparr>is_clock = 0, is_missing = [], is_log = []\<rparr>"

lemma demo_catalogue:
  "catalogue_answer ''mainnet'' ''flame'' (JArr [demo_index_row]) = Inr (Some (described_contract (''0x'' @ replicate 40 (CHR ''1'')) demo_index_row))"
  by code_simp

lemma demo_name: "to_lower (trim '' flame'') = ''flame''"
  by code_simp

lemma demo_fetch:
  "fetchJson demo_index (Some (ix_resolutionTimeoutMs demo_index)) path params s
     = (Inr (JArr [demo_index_row]), s\<lparr>is_log := is_log s @ [Index_get path params], is_clock := is_clock s + 5\<rparr>)"
  by (simp add: fetchJson_def Let_def demo_index_def readBoundedJson_def MAX_METADATA_RESPONSE_BYTES_def maxSafeInteger_def)

lemma demo_resolved:
  "fst (resolveByName demo_index ''mainnet'' '' flame'' demo_index_state)
     = Inr (Some (described_contract (''0x'' @ replicate 40 (CHR ''1'')) demo_index_row))"
  unfolding resolveByName_def Let_def demo_name resolve_fresh_def resolveByNameWithDeadline_def resolveByNameUncached_def bindN_def catchN_def
    demo_fetch liftN_def
  by (simp add: demo_catalogue demo_index_state_def)

lemma index_resolution_sound_witness:
  "\<exists>rows row. row \<in> set rows \<and> names_contract ''mainnet'' ''flame'' row
    \<and> (\<exists>t u. fetchJson demo_index (Some (ix_resolutionTimeoutMs demo_index)) METADATA_PATH (catalogue_params ''mainnet'') t = (Inr (JArr rows), u))"
proof -
  obtain c s' where "resolveByName demo_index ''mainnet'' '' flame'' demo_index_state = (Inr (Some c), s')"
    using demo_resolved by (metis prod.collapse)
  from index_resolution_sound [OF this] obtain t u rows row where
    "fetchJson demo_index (Some (ix_resolutionTimeoutMs demo_index)) METADATA_PATH (catalogue_params ''mainnet'') t = (Inr (JArr rows), u)"
    "row \<in> set rows" "names_contract ''mainnet'' (to_lower (trim '' flame'')) row" by auto
  then show ?thesis unfolding demo_name by metis
qed

text \<open>The names known to be missing stay bounded.\<close>

lemma negative_cache_bounded:
  "0 < ix_negativeMax env \<Longrightarrow> length (cacheNegativeResult env now key missing) \<le> ix_negativeMax env"
  by (simp add: cacheNegativeResult_def Let_def)

lemma fetchJson_missing: "is_missing (snd (fetchJson env p path params s)) = is_missing s"
  by (simp add: fetchJson_def Let_def)

lemma resolve_missing: "is_missing (snd (resolveByNameWithDeadline env network name s)) = is_missing s"
  by (auto simp: resolveByNameWithDeadline_def resolveByNameUncached_def catchN_def bindN_def liftN_def split: prod.splits sum.splits)
     (metis fetchJson_missing snd_conv)+

lemma index_cache_bounded:
  assumes "0 < ix_negativeMax env" "length (is_missing s) \<le> ix_negativeMax env"
  shows "length (is_missing (snd (resolveByName env network reference s))) \<le> ix_negativeMax env"
proof -
  have fresh: "length (is_missing (snd (resolve_fresh env network name t))) \<le> ix_negativeMax env"
    if "length (is_missing t) \<le> ix_negativeMax env" for name t
    using that resolve_missing [of env network name t] negative_cache_bounded [OF assms(1)]
    by (auto simp: resolve_fresh_def bindN_def split: prod.splits sum.splits)
  have "length (is_missing (s\<lparr>is_missing := filter P (is_missing s)\<rparr>)) \<le> ix_negativeMax env" for P
    using le_trans [OF length_filter_le [of P "is_missing s"] assms(2)] by simp
  then show ?thesis using assms(2) fresh by (simp add: resolveByName_def Let_def split: option.split)
qed

end
