(* ===== verification/ContractService.thy ===== *)
theory ContractService
  imports NeoTransactions N3Index ContractParamSpec
begin

text \<open>
  src/contracts/contract-service.ts and src/contracts/contracts.ts: contracts by name, hash or address, calls that read them,
  signed calls and deployments. The state holds that of the node client, that of the catalogue client, and the two tables of
  names the service has learned. The list of curated contracts is empty in the source; the code that searches it is
  modelled for any list. NEF and manifest decoding and the deployment script belong to neon-js (\<open>contract_env\<close>).

  The main result is \<open>contract_write_explicit\<close>: what is signed goes to the very hash the caller named.
\<close>

section \<open>State\<close>

record contract_definition =
  cd_name :: string
  cd_description :: string
  cd_mainnet :: string
  cd_testnet :: "string option"
  cd_operations :: jsobj

definition FAMOUS_CONTRACTS :: "contract_definition list" where "FAMOUS_CONTRACTS = []"

record nef_file =
  nf_serialized :: string
  nf_checksum :: int

record contract_env =
  ce_neo :: neo_env
  ce_wallet :: neon_wallet
  ce_index :: "index_env option"
  ce_decodeNef :: "nat list \<Rightarrow> rpc_failure + nef_file"
  ce_manifestName :: "jsval \<Rightarrow> rpc_failure + string"
  ce_deployScript :: "nef_file \<Rightarrow> jsval \<Rightarrow> rpc_failure + string"
  ce_contractHash :: "string \<Rightarrow> int \<Rightarrow> string \<Rightarrow> rpc_failure + string"

record contract_state =
  cs_neo :: neo_state
  cs_index :: index_state
  cs_discovered :: "(string \<times> string) list"
  cs_remote :: "(string \<times> index_contract) list"

type_synonym 'a contracts = "(contract_state, 'a) run"

definition on_node :: "'a neo \<Rightarrow> 'a contracts" where
  "on_node m = (\<lambda>s. case m (cs_neo s) of (r, n) \<Rightarrow> (r, s\<lparr>cs_neo := n\<rparr>))"

text \<open>Both clients live by one clock.\<close>

definition on_index :: "(index_state, 'a) run \<Rightarrow> 'a contracts" where
  "on_index m = (\<lambda>s.
     case m ((cs_index s)\<lparr>is_clock := ns_clock (cs_neo s)\<rparr>) of
       (r, i) \<Rightarrow> (r, s\<lparr>cs_index := i, cs_neo := (cs_neo s)\<lparr>ns_clock := is_clock i\<rparr>\<rparr>))"

definition contract_error :: "string \<Rightarrow> 'a contracts" where
  "contract_error m = throwN (failure ''ContractError'' m)"

definition ce_network :: "contract_env \<Rightarrow> string" where
  "ce_network env = ne_network (ce_neo env)"

section \<open>Names, hashes and addresses\<close>

record contract_target =
  ct_reference :: string
  ct_scriptHash :: string
  ct_address :: "string option"
  ct_source :: string
  ct_known :: "contract_definition option"
  ct_remote :: "index_contract option"

definition network_hash :: "contract_env \<Rightarrow> contract_definition \<Rightarrow> string option" where
  "network_hash env c = (if ce_network env = ''mainnet'' then Some (cd_mainnet c) else cd_testnet c)"

fun known_by_hash :: "contract_env \<Rightarrow> string \<Rightarrow> contract_definition list \<Rightarrow> contract_definition option result" where
  "known_by_hash env h [] = Inr None"
| "known_by_hash env h (c # cs) =
     (case network_hash env c of
        None \<Rightarrow> known_by_hash env h cs
      | Some k \<Rightarrow> bindR (validateScriptHash (JStr k)) (\<lambda>v. if to_lower v = h then Inr (Some c) else known_by_hash env h cs))"

definition getKnownContractByHash :: "contract_env \<Rightarrow> string \<Rightarrow> contract_definition option result" where
  "getKnownContractByHash env scriptHash =
     bindR (validateScriptHash (JStr scriptHash)) (\<lambda>h. known_by_hash env (to_lower h) FAMOUS_CONTRACTS)"

definition getKnownContractByName :: "string \<Rightarrow> contract_definition option result" where
  "getKnownContractByName reference =
     bindR (validateContractName (JStr reference) (map cd_name FAMOUS_CONTRACTS)) (\<lambda>valid.
     Inr (find (\<lambda>c. to_lower (cd_name c) = to_lower valid) FAMOUS_CONTRACTS))"

definition address_of_hash :: "contract_env \<Rightarrow> string \<Rightarrow> string option" where
  "address_of_hash env h = tryGetAddressFromScriptHash (en_addressOf (ne_enrich (ce_neo env))) (Some h)"

definition address_valid :: "contract_env \<Rightarrow> jsval \<Rightarrow> string result" where
  "address_valid env v = validateAddress (en_isAddress (ne_enrich (ce_neo env))) (en_scriptHash (ne_enrich (ce_neo env))) v"

definition hash_of_account :: "contract_env \<Rightarrow> string \<Rightarrow> string option" where
  "hash_of_account env a = hash_of_address (ne_enrich (ce_neo env)) (Some a)"

definition local_target :: "contract_env \<Rightarrow> string \<Rightarrow> string \<Rightarrow> string option \<Rightarrow> string \<Rightarrow> contract_definition option \<Rightarrow> contract_target result" where
  "local_target env reference h address source known =
     bindR (validateScriptHash (JStr h)) (\<lambda>v.
     Inr \<lparr>ct_reference = reference, ct_scriptHash = v, ct_address = address, ct_source = source, ct_known = known, ct_remote = None\<rparr>)"

text \<open>The curated contract of a name; a validation error there only means that the name is none of theirs.\<close>

definition famous_target :: "contract_env \<Rightarrow> string \<Rightarrow> (js_error + contract_target option)" where
  "famous_target env reference =
     (case bindR (getKnownContractByName reference) (\<lambda>found.
        case found of
          None \<Rightarrow> Inr None
        | Some c \<Rightarrow>
            if network_hash env c \<in> {None, Some []}
            then Inl (GenericError (''Contract '' @ cd_name c @ '' is not available on ''))
            else bindR (validateScriptHash (JStr (the (network_hash env c)))) (\<lambda>h.
                 bindR (local_target env reference h (address_of_hash env h) ''known_name'' (Some c)) (\<lambda>t. Inr (Some t)))) of
        Inl (ValidationError m) \<Rightarrow> Inr None
      | r \<Rightarrow> r)"

definition unresolved :: "string \<Rightarrow> 'a contracts" where
  "unresolved reference =
     contract_error (''Unable to resolve contract reference '' @ quoted reference @ ''. Provide a known contract name, script hash, or Neo address.'')"

definition resolveContractTarget :: "contract_env \<Rightarrow> string \<Rightarrow> contract_target contracts" where
  "resolveContractTarget env contractReference =
     (let reference = trim contractReference in
      if reference = [] then invalid_argument ''Contract name, script hash, or Neo address is required''
      else case normalizeScriptHash (Some reference) of
        Some h \<Rightarrow> helper (bindR (getKnownContractByHash env h) (\<lambda>known.
          local_target env reference h (address_of_hash env h) (if known = None then ''script_hash'' else ''known_hash'') known))
      | None \<Rightarrow>
          (case (address_valid env (JStr reference), hash_of_account env reference) of
             (Inr a, Some h) \<Rightarrow> helper (bindR (getKnownContractByHash env h) (\<lambda>known.
               local_target env reference h (Some a) ''address'' known))
           | _ \<Rightarrow>
               (case famous_target env reference of
                  Inl e \<Rightarrow> contract_error (error_message e)
                | Inr (Some t) \<Rightarrow> retN t
                | Inr None \<Rightarrow> (\<lambda>s.
                    case map_of (cs_discovered s) (to_lower reference) of
                      Some h \<Rightarrow> if h = [] then unresolved reference s
                        else helper (local_target env reference h (address_of_hash env h) ''manifest_name'' None) s
                    | None \<Rightarrow> unresolved reference s))))"

definition remember_discovered :: "jsval \<Rightarrow> string \<Rightarrow> contract_state \<Rightarrow> contract_state" where
  "remember_discovered name h s =
     (case name of
        JStr n \<Rightarrow> if trim n = [] then s else s\<lparr>cs_discovered := AList.update (to_lower (trim n)) h (cs_discovered s)\<rparr>
      | _ \<Rightarrow> s)"

definition remember_remote :: "string \<Rightarrow> index_contract \<Rightarrow> contract_state \<Rightarrow> contract_state" where
  "remember_remote name md s =
     (if trim name = [] then s
      else remember_discovered (JStr name) (ic_contractHash md) (s\<lparr>cs_remote := AList.update (to_lower (trim name)) md (cs_remote s)\<rparr>))"

definition buildRemoteTarget :: "contract_env \<Rightarrow> string \<Rightarrow> index_contract \<Rightarrow> contract_target result" where
  "buildRemoteTarget env reference md =
     bindR (validateScriptHash (JStr (ic_contractHash md))) (\<lambda>h.
     bindR (getKnownContractByHash env (ic_contractHash md)) (\<lambda>known.
     Inr \<lparr>ct_reference = reference, ct_scriptHash = h, ct_address = address_of_hash env (ic_contractHash md),
          ct_source = (if ic_source md = ''contract_metadata_cache'' then ''n3index_metadata'' else ''n3index_contracts''),
          ct_known = known, ct_remote = Some md\<rparr>))"

definition resolveContractTargetAsync :: "contract_env \<Rightarrow> string \<Rightarrow> contract_target contracts" where
  "resolveContractTargetAsync env contractReference =
     catchN (resolveContractTarget env contractReference) (\<lambda>e.
       let reference = trim contractReference in
       if f_name e \<noteq> ''ContractError'' then throwN e
       else case ce_index env of
         None \<Rightarrow> throwN e
       | Some index \<Rightarrow>
           if reference = [] then throwN e
           else (\<lambda>s. case map_of (cs_remote s) (to_lower reference) of
             Some md \<Rightarrow> helper (buildRemoteTarget env reference md) s
           | None \<Rightarrow>
               bindN (on_index (resolveByName index (ce_network env) reference)) (\<lambda>found.
               case found of
                 None \<Rightarrow> throwN e
               | Some md \<Rightarrow> (\<lambda>s'. helper (buildRemoteTarget env reference md) (remember_remote reference md s'))) s))"

text \<open>A script hash, with the errors that are not the contract's own made one.\<close>

definition as_contract_error :: "string \<Rightarrow> 'a contracts \<Rightarrow> 'a contracts" where
  "as_contract_error prefix m =
     catchN m (\<lambda>e. if f_name e = ''ContractError'' then throwN e else contract_error (prefix @ f_message e))"

definition getContractScriptHash :: "contract_env \<Rightarrow> string \<Rightarrow> string contracts" where
  "getContractScriptHash env reference =
     as_contract_error (''Failed to get script hash for '' @ reference @ '': '')
       (bindN (resolveContractTarget env reference) (\<lambda>t. retN (ct_scriptHash t)))"

definition resolveContractScriptHash :: "contract_env \<Rightarrow> string \<Rightarrow> string contracts" where
  "resolveContractScriptHash env reference =
     as_contract_error (''Failed to resolve script hash for '' @ reference @ '': '')
       (bindN (resolveContractTargetAsync env reference) (\<lambda>t. retN (ct_scriptHash t)))"

definition getContract :: "contract_env \<Rightarrow> string \<Rightarrow> contract_definition contracts" where
  "getContract env contractNameOrHash =
     (let reference = trim contractNameOrHash in
      if reference = [] then invalid_argument ''Contract name or script hash is required''
      else if starts_with reference ''0x'' \<or> hex_bytes reference then
        bindN (helper (getKnownContractByHash env reference)) (\<lambda>found.
        case found of Some c \<Rightarrow> retN c
        | None \<Rightarrow> contract_error (''Contract with script hash '' @ reference @ '' not found on '' @ ce_network env))
      else bindN (helper (getKnownContractByName reference)) (\<lambda>found.
        case found of Some c \<Rightarrow> retN c | None \<Rightarrow> contract_error (''Contract '' @ trim reference @ '' not found'')))"

section \<open>Deployment status\<close>

definition missing_contract :: "rpc_failure \<Rightarrow> bool" where
  "missing_contract e \<longleftrightarrow>
     list_ex (includes_str (to_lower (f_message e)))
       [''unknown contract'', ''contract not found'', ''unknown entity'', ''unknown item'', ''not deployed'']"

definition getContractState :: "contract_env \<Rightarrow> string \<Rightarrow> jsval contracts" where
  "getContractState env h = on_node (ask (ce_neo env) (Execute ''getcontractstate'' [JStr h]))"

definition isContractDeployed :: "contract_env \<Rightarrow> string \<Rightarrow> bool contracts" where
  "isContractDeployed env reference =
     (if reference = [] then retN False
      else catchN (bindN (resolveContractTargetAsync env reference) (\<lambda>t.
                   bindN (getContractState env (ct_scriptHash t)) (\<lambda>_. retN True)))
             (\<lambda>e. if \<not> missing_contract e then throwN e else retN False))"

definition display_name :: "contract_target \<Rightarrow> jsval" where
  "display_name t = (case ct_remote t of None \<Rightarrow> JUndef | Some md \<Rightarrow> ic_displayName md)"

definition first_name :: "jsval list \<Rightarrow> jsval" where
  "first_name vs = (case dropWhile nullish vs of [] \<Rightarrow> JUndef | v # _ \<Rightarrow> v)"

definition text_or_undefined :: "string option \<Rightarrow> jsval" where
  "text_or_undefined v = (case v of None \<Rightarrow> JUndef | Some t \<Rightarrow> JStr t)"

definition known_name :: "contract_target \<Rightarrow> jsval" where
  "known_name t = text_or_undefined (map_option cd_name (ct_known t))"

definition assertContractDeployed :: "contract_env \<Rightarrow> string \<Rightarrow> unit contracts" where
  "assertContractDeployed env reference =
     bindN (resolveContractTargetAsync env reference) (\<lambda>t.
     bindN (isContractDeployed env reference) (\<lambda>deployed.
     if \<not> deployed then
       contract_error (''Contract '' @ js_String (first_name [display_name t, known_name t, text_or_undefined (ct_address t), JStr (ct_scriptHash t)])
         @ '' is not deployed on '' @ ce_network env)
     else retN ()))"

text \<open>The operations of a manifest; a member named \<open>__proto__\<close> becomes no own property.\<close>

definition manifest_parameter :: "jsval \<Rightarrow> jsval" where
  "manifest_parameter p =
     JObj [(''name'', case member p ''name'' of JStr n \<Rightarrow> JStr n | _ \<Rightarrow> JStr ''arg''),
           (''type'', case member p ''type'' of JStr n \<Rightarrow> JStr n | _ \<Rightarrow> JStr ''Any''), (''description'', JStr ''Manifest parameter'')]"

definition add_operation :: "jsobj \<Rightarrow> jsval \<Rightarrow> jsobj" where
  "add_operation acc entry =
     (let name = (case member entry ''name'' of JStr n \<Rightarrow> trim n | _ \<Rightarrow> []) in
      if name = [] \<or> name = ''__proto__'' then acc
      else AList.update name (JObj [(''name'', JStr name), (''description'', JStr ''Method discovered from on-chain contract manifest''),
             (''args'', case member entry ''parameters'' of JArr ps \<Rightarrow> JArr (map manifest_parameter ps) | _ \<Rightarrow> JUndef)]) acc)"

definition manifest_name :: "jsval \<Rightarrow> string" where
  "manifest_name contractState = (case member (member contractState ''manifest'') ''name'' of JStr n \<Rightarrow> trim n | _ \<Rightarrow> [])"

definition operation_summary :: "contract_env \<Rightarrow> jsobj \<Rightarrow> jsval \<Rightarrow> jsobj" where
  "operation_summary env ops name =
     [(''operations'', JObj ops), (''count'', JNum (NInt (int (length ops)))), (''contractName'', name),
      (''network'', JStr (ce_network env)), (''available'', JBool True)]"

definition buildOperationSummary :: "contract_env \<Rightarrow> contract_target \<Rightarrow> jsval \<Rightarrow> jsobj" where
  "buildOperationSummary env t contractState =
     (case ct_known t of
        Some c \<Rightarrow> operation_summary env (cd_operations c) (JStr (cd_name c))
      | None \<Rightarrow>
          let entries = (case member (member (member contractState ''manifest'') ''abi'') ''methods'' of JArr ms \<Rightarrow> ms | _ \<Rightarrow> []);
              own = manifest_name contractState in
          operation_summary env (fold (\<lambda>m acc. add_operation acc m) entries [])
            (if own \<noteq> [] then JStr own
             else first_name [display_name t, text_or_undefined (ct_address t), JStr (ct_scriptHash t)]))"

definition getContractOperations :: "contract_env \<Rightarrow> string \<Rightarrow> jsval contracts" where
  "getContractOperations env reference =
     catchN (bindN (resolveContractTarget env reference) (\<lambda>t. retN (JObj (buildOperationSummary env t JUndef)))) (\<lambda>e.
       if f_name e \<in> {''ContractError'', ''ValidationError''} then throwN e
       else contract_error (''Failed to get contract operations: '' @ f_message e))"

definition isContractAvailable :: "contract_env \<Rightarrow> string \<Rightarrow> bool contracts" where
  "isContractAvailable env reference =
     (if reference = [] then retN False
      else catchN (bindN (resolveContractTarget env reference) (\<lambda>t. retN (ct_scriptHash t \<noteq> []))) (\<lambda>_. retN False))"

definition index_metadata :: "contract_env \<Rightarrow> contract_target \<Rightarrow> contract_target contracts" where
  "index_metadata env t =
     (case (ct_remote t, ce_index env) of
        (None, Some index) \<Rightarrow>
          catchN (bindN (on_index (getContractByHash index (ce_network env) (JStr (ct_scriptHash t)))) (\<lambda>found.
                  retN (if found = None then t else t\<lparr>ct_remote := found\<rparr>))) (\<lambda>_. retN t)
      | _ \<Rightarrow> retN t)"

definition status_head :: "contract_env \<Rightarrow> contract_target \<Rightarrow> jsobj" where
  "status_head env t =
     [(''reference'', JStr (ct_reference t)), (''referenceType'', JStr (ct_source t)), (''scriptHash'', JStr (ct_scriptHash t)),
      (''address'', text_or_undefined (first_some (ct_address t) (address_of_hash env (ct_scriptHash t))))]"

definition status_details :: "contract_target \<Rightarrow> jsobj" where
  "status_details t =
     [(''symbol'', case ct_remote t of None \<Rightarrow> JUndef | Some md \<Rightarrow> ic_symbol md),
      (''logoUrl'', case ct_remote t of None \<Rightarrow> JUndef | Some md \<Rightarrow> ic_logoUrl md),
      (''description'', JStr (case ct_known t of Some c \<Rightarrow> cd_description c | None \<Rightarrow> ''Neo N3 smart contract at '' @ ct_scriptHash t))]"

definition deployed_status :: "contract_env \<Rightarrow> contract_target \<Rightarrow> jsval \<Rightarrow> jsval contracts" where
  "deployed_status env t contractState =
     (let own = manifest_name contractState; fallback = [text_or_undefined (ct_address t), JStr (ct_scriptHash t)];
          manifestName = (if own \<noteq> [] then JStr own else first_name (display_name t # known_name t # fallback));
          ops = buildOperationSummary env t contractState in
      (\<lambda>s. (Inr (JObj (status_head env t
          @ [(''name'', first_name [display_name t, known_name t, manifestName]), (''manifestName'', manifestName)]
          @ status_details t
          @ [(''deployed'', JBool True), (''status'', JStr ''deployed''), (''operationCount'', oget ops ''count''),
             (''operations'', oget ops ''operations''), (''network'', JStr (ce_network env)), (''contractState'', contractState)])),
         remember_discovered manifestName (ct_scriptHash t) s)))"

definition missing_status :: "contract_env \<Rightarrow> contract_target \<Rightarrow> rpc_failure \<Rightarrow> jsval" where
  "missing_status env t e =
     JObj (status_head env t
       @ [(''name'', first_name [display_name t, known_name t, text_or_undefined (ct_address t), JStr (ct_scriptHash t)])]
       @ status_details t
       @ [(''deployed'', JBool False), (''status'', JStr ''not_deployed''),
          (''operationCount'', JNum (NInt (case ct_known t of None \<Rightarrow> 0 | Some c \<Rightarrow> int (length (cd_operations c))))),
          (''operations'', JObj (case ct_known t of None \<Rightarrow> [] | Some c \<Rightarrow> cd_operations c)),
          (''network'', JStr (ce_network env)), (''error'', JStr (f_message e))])"

definition getContractStatus :: "contract_env \<Rightarrow> string \<Rightarrow> jsval contracts" where
  "getContractStatus env reference =
     bindN (resolveContractTargetAsync env reference) (\<lambda>t0.
     bindN (index_metadata env t0) (\<lambda>t.
     catchN (bindN (getContractState env (ct_scriptHash t)) (deployed_status env t)) (\<lambda>e.
       if \<not> missing_contract e then throwN e else retN (missing_status env t e))))"

definition getContractInfo :: "contract_env \<Rightarrow> string \<Rightarrow> jsval contracts" where
  "getContractInfo env reference =
     bindN (getContractStatus env reference) (\<lambda>status.
     let v = member status in
     retN (JObj ([(''name'', v ''name''), (''description'', v ''description''), (''scriptHash'', v ''scriptHash'')]
       @ (if truthy (v ''address'') then [(''address'', v ''address'')] else [])
       @ [(''operations'', JObj [(''operations'', v ''operations''), (''count'', v ''operationCount''), (''contractName'', v ''name''),
            (''network'', JStr (ce_network env)), (''available'', v ''deployed'')]),
          (''network'', JStr (ce_network env)), (''available'', v ''deployed''), (''status'', status)])))"

text \<open>The curated contracts one after the other; the code asks for all at once.\<close>

definition listed_contract :: "contract_env \<Rightarrow> contract_definition \<Rightarrow> jsval contracts" where
  "listed_contract env c =
     bindN (if network_hash env c \<in> {None, Some []} then retN False
            else catchN (bindN (getContractState env (the (network_hash env c))) (\<lambda>_. retN True))
                   (\<lambda>e. if \<not> missing_contract e then throwN e else retN False)) (\<lambda>available.
     retN (JObj [(''name'', JStr (cd_name c)), (''description'', JStr (cd_description c)), (''available'', JBool available),
                 (''operationCount'', JNum (NInt (int (length (cd_operations c))))), (''network'', JStr (ce_network env))]))"

definition listSupportedContracts :: "contract_env \<Rightarrow> jsval list contracts" where
  "listSupportedContracts env = eachN (listed_contract env) FAMOUS_CONTRACTS"

section \<open>Reading\<close>

definition service_failure :: "string \<Rightarrow> rpc_failure \<Rightarrow> 'a contracts" where
  "service_failure prefix e =
     (if f_name e \<in> {''ContractError'', ''ValidationError''} then throwN e
      else if includes_str (f_message e) ''ECONNREFUSED''
      then throwN (failure ''NetworkError'' (''Failed to connect to Neo N3 node: '' @ f_message e))
      else contract_error (prefix @ f_message e))"

definition formatted_arguments :: "contract_env \<Rightarrow> jsval list \<Rightarrow> formatted list contracts" where
  "formatted_arguments env args =
     helper (formatContractParameters (en_isAddress (ne_enrich (ce_neo env))) (en_scriptHash (ne_enrich (ce_neo env)))
       (ne_isPublicKey (ce_neo env)) (JArr args))"

definition valid_operation :: "contract_target \<Rightarrow> string \<Rightarrow> string contracts" where
  "valid_operation t operation =
     helper (validateContractOperation (JStr operation)
       (case ct_known t of None \<Rightarrow> []
        | Some c \<Rightarrow> concat (map (\<lambda>(k, v). case member v ''name'' of JStr n \<Rightarrow> [n] | _ \<Rightarrow> []) (cd_operations c))))"

definition function_call :: "contract_env \<Rightarrow> string \<Rightarrow> string \<Rightarrow> formatted list \<Rightarrow> jsval contracts" where
  "function_call env h operation params =
     catchN (on_node (ask (ce_neo env) (Execute ''invokefunction'' [JStr h, JStr operation, JArr (map to_js params)]))) (\<lambda>e.
       if \<not> isUnsupportedRpcMethodError e then throwN e
       else bindN (liftN (ne_createScript (ce_neo env) h operation params)) (\<lambda>script.
            on_node (ask (ce_neo env) (InvokeScript script []))))"

definition queryContract :: "contract_env \<Rightarrow> string \<Rightarrow> string \<Rightarrow> jsval list \<Rightarrow> jsval contracts" where
  "queryContract env reference operation args =
     catchN
       (bindN (formatted_arguments env args) (\<lambda>params.
        bindN (resolveContractTargetAsync env reference) (\<lambda>t.
        bindN (assertContractDeployed env reference) (\<lambda>_.
        bindN (valid_operation t operation) (\<lambda>op.
        bindN (function_call env (ct_scriptHash t) op params) (\<lambda>result.
        if \<not> truthy result \<or> member result ''state'' \<noteq> JStr ''HALT'' then
          contract_error (''Contract execution failed with VM state ''
            @ js_String (if truthy (member result ''state'') then member result ''state'' else JStr ''missing'') @ '': ''
            @ js_String (if truthy (member result ''exception'') then member result ''exception'' else JStr ''Unknown error''))
        else retN result))))))
       (service_failure (''Failed to query contract '' @ reference @ '': ''))"

definition contract_invokeReadContract :: "contract_env \<Rightarrow> string \<Rightarrow> string \<Rightarrow> jsval list \<Rightarrow> jsval contracts" where
  "contract_invokeReadContract env name operation args =
     catchN (queryContract env name operation args) (\<lambda>e.
       if f_name e \<in> {''SubmissionOutcomeUnknownError'', ''ContractError'', ''ValidationError''} then throwN e
       else contract_error (''Failed to invoke read contract '' @ name @ '': '' @ f_message e))"

section \<open>Signed calls\<close>

definition contract_signed :: "contract_env \<Rightarrow> neo_signer \<Rightarrow> string \<Rightarrow> prepared_neo_transaction neo" where
  "contract_signed env account script =
     bindN (getNetworkMagic (ce_neo env)) (sign_prepared (ce_wallet env) (ce_neo env) account script)"

definition contract_submission_error :: "neo_env \<Rightarrow> string \<Rightarrow> rpc_failure \<Rightarrow> rpc_failure" where
  "contract_submission_error env txid e =
     (if f_name e = ''SubmissionOutcomeUnknownError'' then e
      else if is_deadline e then outcome_unknown txid (Timed_out (ne_rpcTimeoutMs env))
      else if isDefinitiveRpcRejection e then e
      else outcome_unknown txid Transport_error)"

definition contract_submit :: "neo_env \<Rightarrow> prepared_neo_transaction \<Rightarrow> string neo" where
  "contract_submit env prepared =
     (if pn_rawTransaction prepared = [] \<or> \<not> list_all is_hex (pn_rawTransaction prepared) \<or> odd (length (pn_rawTransaction prepared))
      then invalid_argument ''Prepared transaction must contain even-length hexadecimal bytes''
      else catchN (bindN (ask env (SendRawTransaction (pn_rawTransaction prepared))) (\<lambda>submitted.
             if normalized_txid submitted \<noteq> to_lower (pn_txid prepared) then throwN (outcome_unknown (pn_txid prepared) Inconsistent_response)
             else retN (pn_txid prepared)))
           (\<lambda>e. throwN (contract_submission_error env (pn_txid prepared) e)))"

text \<open>A signed call takes a script hash or an address; no name.\<close>

definition explicit_hash :: "contract_env \<Rightarrow> string \<Rightarrow> string option" where
  "explicit_hash env reference =
     (case normalizeScriptHash (Some reference) of
        Some h \<Rightarrow> Some h
      | None \<Rightarrow> (case address_valid env (JStr reference) of Inl e \<Rightarrow> None | Inr a \<Rightarrow> hash_of_account env reference))"

definition signed_call :: "contract_env \<Rightarrow> neo_signer option \<Rightarrow> contract_target \<Rightarrow> string \<Rightarrow> jsval list \<Rightarrow> jsval list \<Rightarrow> string contracts" where
  "signed_call env fromAccount t operation args extra =
     (case fromAccount of
        None \<Rightarrow> contract_error ''Invalid account: missing address''
      | Some account \<Rightarrow>
          if sg_address account = [] then contract_error ''Invalid account: missing address''
          else bindN (helper (address_valid env (JStr (sg_address account)))) (\<lambda>_.
            if extra \<noteq> [] then invalid_argument ''Additional transaction attributes are not supported for contract invocations''
            else bindN (formatted_arguments env args) (\<lambda>params.
                 bindN (liftN (ne_createScript (ce_neo env) (ct_scriptHash t) operation params)) (\<lambda>script.
                 bindN (on_node (contract_signed env account script)) (\<lambda>prepared.
                 on_node (contract_submit (ce_neo env) prepared))))))"

definition contract_invoke :: "contract_env \<Rightarrow> neo_signer option \<Rightarrow> string \<Rightarrow> string \<Rightarrow> jsval list \<Rightarrow> jsval list \<Rightarrow> string contracts" where
  "contract_invoke env fromAccount reference operation args extra =
     catchN
       (case explicit_hash env reference of
          None \<Rightarrow> invalid_argument ''Signed contract writes require an explicit script hash or Neo address; name-based resolution is read-only.''
        | Some h \<Rightarrow>
            bindN (resolveContractTarget env h) (\<lambda>t.
            bindN (assertContractDeployed env h) (\<lambda>_.
            bindN (valid_operation t operation) (\<lambda>op. signed_call env fromAccount t op args extra))))
       (\<lambda>e. if f_name e = ''SubmissionOutcomeUnknownError'' then throwN e
            else service_failure (''Failed to invoke contract '' @ reference @ '': '') e)"

definition contract_invokeWriteContract :: "contract_env \<Rightarrow> neo_signer option \<Rightarrow> string \<Rightarrow> string \<Rightarrow> jsval list \<Rightarrow> jsval list \<Rightarrow> jsval contracts" where
  "contract_invokeWriteContract env fromAccount name operation args extra =
     catchN (bindN (contract_invoke env fromAccount name operation args extra) (\<lambda>txid. retN (txid_answer txid))) (\<lambda>e.
       if f_name e \<in> {''SubmissionOutcomeUnknownError'', ''ContractError''} then throwN e
       else contract_error (''Failed to invoke write contract '' @ name @ '': '' @ f_message e))"

section \<open>Deployment\<close>

definition invalid_nef :: "string \<Rightarrow> 'a contracts" where
  "invalid_nef m = throwN (failure ''ValidationError'' m)"

definition hex_octets :: "string \<Rightarrow> nat list" where
  "hex_octets t = map str_hex (byte_pairs t)"

definition nef_bytes :: "string \<Rightarrow> string \<Rightarrow> nat list option" where
  "nef_bytes encoding t =
     (if encoding = ''hex'' then (if odd (length t) \<or> \<not> list_all is_hex t then None else Some (hex_octets t))
      else if \<not> base64_pattern t then None
      else let bytes = buffer_from_base64 t in if bytes = [] \<or> base64_encode bytes \<noteq> t then None else Some bytes)"

definition parseEncodedNef :: "contract_env \<Rightarrow> jsval \<Rightarrow> nef_file contracts" where
  "parseEncodedNef env v =
     (case own_props v of
        None \<Rightarrow> invalid_nef ''Invalid NEF: expected an encoded NEF object''
      | Some o1 \<Rightarrow>
          (case (oget o1 ''encoding'', oget o1 ''data'') of
             (JStr encoding, JStr t) \<Rightarrow>
               if encoding \<notin> {''hex'', ''base64''} then invalid_nef (''Invalid NEF encoding: expected '' @ quoted ''hex'' @ '' or '' @ quoted ''base64'')
               else if t = [] then invalid_nef ''Invalid NEF data: expected a non-empty string''
               else if 2000000 < length t then invalid_nef ''Invalid NEF data: encoded artifact is too large''
               else (case nef_bytes encoding t of
                  None \<Rightarrow> invalid_nef (if encoding = ''hex'' then ''Invalid NEF data: expected an even-length hexadecimal string''
                                       else ''Invalid NEF data: expected canonical base64'')
                | Some bytes \<Rightarrow>
                    (case ce_decodeNef env bytes of
                       Inl e \<Rightarrow> invalid_nef (''Invalid serialized NEF: '' @ f_message e)
                     | Inr nef \<Rightarrow>
                         if to_lower (nf_serialized nef) \<noteq> toHex bytes
                         then invalid_nef ''Invalid serialized NEF: serialized NEF contains trailing or noncanonical bytes''
                         else retN nef))
           | (JStr encoding, _) \<Rightarrow>
               if encoding \<notin> {''hex'', ''base64''} then invalid_nef (''Invalid NEF encoding: expected '' @ quoted ''hex'' @ '' or '' @ quoted ''base64'')
               else invalid_nef ''Invalid NEF data: expected a non-empty string''
           | _ \<Rightarrow> invalid_nef (''Invalid NEF encoding: expected '' @ quoted ''hex'' @ '' or '' @ quoted ''base64'')))"

definition validateDeploymentArtifacts :: "contract_env \<Rightarrow> jsval \<Rightarrow> jsval \<Rightarrow> unit contracts" where
  "validateDeploymentArtifacts env encodedNef manifest =
     bindN (parseEncodedNef env encodedNef) (\<lambda>_.
     if own_props manifest = None then invalid_nef ''Invalid manifest: must be a non-empty object''
     else bindN (liftN (ce_manifestName env manifest)) (\<lambda>_. retN ()))"

definition prepareContractDeployment ::
    "contract_env \<Rightarrow> neo_signer option \<Rightarrow> jsval \<Rightarrow> jsval \<Rightarrow> (prepared_neo_transaction \<times> string \<times> string) contracts" where
  "prepareContractDeployment env account encodedNef manifest =
     bindN (parseEncodedNef env encodedNef) (\<lambda>nef.
     case account of
       None \<Rightarrow> invalid_nef ''A configured signing account is required for deployment''
     | Some acc \<Rightarrow>
         if sg_address acc = [] then invalid_nef ''A configured signing account is required for deployment''
         else if members_of manifest = None then invalid_nef ''Invalid manifest: must be a non-empty object''
         else bindN (liftN (ce_manifestName env manifest)) (\<lambda>name.
              bindN (liftN (ce_deployScript env nef manifest)) (\<lambda>script.
              bindN (liftN (nw_hash (ce_wallet env) (sg_address acc))) (\<lambda>sender.
              bindN (liftN (ce_contractHash env sender (nf_checksum nef) name)) (\<lambda>contractHash.
              bindN (on_node (contract_signed env acc script)) (\<lambda>prepared.
              retN (prepared, ''0x'' @ contractHash, sg_address acc)))))))"

definition deployContract :: "contract_env \<Rightarrow> neo_signer option \<Rightarrow> jsval \<Rightarrow> jsval \<Rightarrow> jsval contracts" where
  "deployContract env account encodedNef manifest =
     catchN
       (bindN (prepareContractDeployment env account encodedNef manifest) (\<lambda>(prepared, contractHash, address).
        bindN (on_node (contract_submit (ce_neo env) prepared)) (\<lambda>txid.
        retN (JObj [(''txid'', JStr txid), (''contractHash'', JStr contractHash), (''address'', JStr address),
                    (''network'', JStr (ce_network env))]))))
       (\<lambda>e. if f_name e = ''SubmissionOutcomeUnknownError'' then throwN e else service_failure ''Failed to deploy contract: '' e)"

text \<open>\<open>new ContractService(rpcUrl, network, options)\<close>; its own errors are network errors.\<close>

definition network_error :: "string \<Rightarrow> (unit, 'a) run" where
  "network_error m = throwN (failure ''NetworkError'' m)"

definition newContractService ::
    "(string \<Rightarrow> url_parts option) \<Rightarrow> neo_defaults \<Rightarrow> index_env result option \<Rightarrow> contract_env \<Rightarrow> jsval \<Rightarrow> string \<Rightarrow> neo_options \<Rightarrow> (unit, contract_env) run" where
  "newContractService parseURL cfg index outside rpcUrl network opts =
     (let urls = toRpcUrlList rpcUrl; timeout = or_else (no_rpcTimeoutMs opts) (nd_rpcTimeoutMs cfg) in
      if urls = [] then network_error ''RPC URL is required''
      else if network \<notin> {''mainnet'', ''testnet''}
      then network_error (''Invalid network: '' @ network @ ''. Must be one of: mainnet, testnet'')
      else case timeout of
        NInt ms \<Rightarrow>
          if \<not> isSafeInteger timeout \<or> ms \<le> 0
          then network_error (''Invalid RPC timeout: '' @ int_str ms @ ''. Must be a positive integer.'')
          else bindN (case index of None \<Rightarrow> retN None | Some r \<Rightarrow> bindN (helper r) (\<lambda>i. retN (Some i))) (\<lambda>client.
               bindN (helper (parseGasAmountToDatos (or_else (no_maxFeeGas opts) (nd_maxFeeGas cfg)))) (\<lambda>maxFee.
               bindN (catchN (eachN (\<lambda>url. helper (assertValidRpcUrl parseURL (or_else (no_allowInsecureRpc opts) (nd_allowInsecureRpc cfg)) url)) urls)
                        (\<lambda>e. network_error (''Failed to initialize Neo RPC client: '' @ f_message e))) (\<lambda>_.
               retN (outside\<lparr>ce_index := client, ce_neo := (ce_neo outside)\<lparr>ne_network := network, ne_mismatchName := ''NetworkError'',
                 ne_rpcUrls := urls, ne_rpcTimeoutMs := ms, ne_maxFeeDatos := maxFee\<rparr>\<rparr>))))
      | v \<Rightarrow> network_error (''Invalid RPC timeout: '' @ num_text v @ ''. Must be a positive integer.''))"

section \<open>What is signed goes where the caller said\<close>

lemma script_hash_valid:
  assumes "script_hash_form h"
  shows "trim h = h" "h \<noteq> []" "validateScriptHash (JStr h) = Inr h"
proof -
  obtain t where t: "h = ''0x'' @ t" "length t = 40" "list_all is_lower_hex t" using assms by (auto simp: script_hash_form_def lower_hash_def)
  then have "\<not> list_ex is_ws h" using lower_hex_not_ws by (auto simp: list_ex_iff list_all_iff is_ws_def cc_def)
  then show "trim h = h" by (rule trim_id)
  show "h \<noteq> []" by (simp add: t(1))
  have "list_all is_hex t" using t(3) by (auto simp: list_all_iff is_hex_def is_lower_hex_def)
  with t show "validateScriptHash (JStr h) = Inr h" by (simp add: validateScriptHash_def strip_0x_def starts_with_def)
qed

definition hash_target :: "contract_env \<Rightarrow> string \<Rightarrow> contract_target" where
  "hash_target env h = \<lparr>ct_reference = h, ct_scriptHash = h, ct_address = address_of_hash env h, ct_source = ''script_hash'',
     ct_known = None, ct_remote = None\<rparr>"

text \<open>A script hash resolves to itself, whatever names have been learned, and asks nobody.\<close>

lemma resolve_hash:
  assumes "script_hash_form h"
  shows "resolveContractTarget env h s = (Inr (hash_target env h), s)" "resolveContractTargetAsync env h s = (Inr (hash_target env h), s)"
proof -
  note v = script_hash_valid [OF assms]
  have "getKnownContractByHash env h = Inr None" using v(3) by (simp add: getKnownContractByHash_def FAMOUS_CONTRACTS_def)
  then show r: "resolveContractTarget env h s = (Inr (hash_target env h), s)"
    using v normalizeScriptHash_stable [OF assms]
    by (simp add: resolveContractTarget_def Let_def local_target_def helper_def retN_def hash_target_def)
  then show "resolveContractTargetAsync env h s = (Inr (hash_target env h), s)"
    by (simp add: resolveContractTargetAsync_def catchN_def)
qed

lemma explicit_hash_form: "explicit_hash env reference = Some h \<Longrightarrow> script_hash_form h"
  by (auto simp: explicit_hash_def hash_of_account_def hash_of_address_def split: option.splits sum.splits
      intro: normalizeScriptHash_form address_hash_form)

lemma on_node_run: "on_node m s = (r, s') \<longleftrightarrow> (\<exists>n. m (cs_neo s) = (r, n) \<and> s' = s\<lparr>cs_neo := n\<rparr>)"
  by (auto simp: on_node_def split: prod.splits)

lemma ask_answered:
  assumes "ask env q s = (Inr v, s')" "q \<noteq> version_request"
  shows "\<exists>l. ns_log s' = ns_log s @ l \<and> (q, Inr v) \<in> set l"
  using ask_log [OF assms] by auto

lemma deployed_hash:
  assumes h: "script_hash_form h" and ok: "assertContractDeployed env h s = (Inr (), s')"
  shows "\<exists>n l v. s' = s\<lparr>cs_neo := n\<rparr> \<and> ns_log n = ns_log (cs_neo s) @ l \<and> (Execute ''getcontractstate'' [JStr h], Inr v) \<in> set l"
proof -
  note r = resolve_hash [OF h]
  from ok have dep: "isContractDeployed env h s = (Inr True, s')"
    by (auto simp: assertContractDeployed_def bindN_Inr r contract_error_def throwN_def retN_def split: if_splits)
  then obtain v where "getContractState env h s = (Inr v, s')"
    using script_hash_valid(2) [OF h]
    by (auto simp: isContractDeployed_def catchN_def bindN_def r retN_def throwN_def hash_target_def split: prod.splits sum.splits if_splits)
  then obtain n where n: "ask (ce_neo env) (Execute ''getcontractstate'' [JStr h]) (cs_neo s) = (Inr v, n)" "s' = s\<lparr>cs_neo := n\<rparr>"
    by (auto simp: getContractState_def on_node_run)
  have "Execute ''getcontractstate'' [JStr h] \<noteq> version_request" by (simp add: version_request_def)
  from ask_answered [OF n(1) this] n(2) show ?thesis by blast
qed

lemma steady_more [steady_intros]:
  "steady (helper r)" "steady (invalid_argument m)" "steady (reply_members k v)"
  by (auto simp: helper_def invalid_argument_def reply_members_def steady_intros split: sum.split)

lemma steady_case [steady_intros]:
  "steady m \<Longrightarrow> (\<And>x. steady (f x)) \<Longrightarrow> steady (case v of None \<Rightarrow> m | Some x \<Rightarrow> f x)"
  by (cases v) simp_all

lemma steady_signed: "steady (contract_signed env account t)" "steady (contract_submit e p)"
proof -
  show "steady (contract_signed env account t)"
    unfolding contract_signed_def sign_prepared_def prepare_fees_def script_fee_def network_fee_def fee_within_cap_def Let_def
    by (intro steady_intros)
  show "steady (contract_submit e p)" unfolding contract_submit_def by (intro steady_intros)
qed

lemma contract_signed_Inr:
  assumes "contract_signed env account t s = (Inr p, s')"
  shows "\<exists>magic signer fees signed. nw_sign (ce_wallet env) account \<lparr>ut_script = t, ut_signer = signer, ut_fees = fees\<rparr> magic = Inr signed
    \<and> pn_rawTransaction p = st_raw signed"
  using assms unfolding contract_signed_def sign_prepared_def bindN_Inr retN_Inr by (auto simp: liftN_def) blast

lemma contract_submit_Inr:
  assumes "contract_submit e p s = (Inr txid, s')"
  shows "txid = pn_txid p \<and> (\<exists>l v. ns_log s' = ns_log s @ l \<and> (SendRawTransaction (pn_rawTransaction p), Inr v) \<in> set l \<and> normalized_txid v = to_lower txid)"
proof -
  let ?q = "SendRawTransaction (pn_rawTransaction p)"
  have q: "?q \<noteq> version_request" by (simp add: version_request_def)
  from assms obtain v where "ask e ?q s = (Inr v, s')" "normalized_txid v = to_lower (pn_txid p)" "txid = pn_txid p"
    by (auto simp: contract_submit_def invalid_argument_def catchN_def bindN_def throwN_def retN_def split: if_splits prod.splits sum.splits)
  with ask_answered [OF this(1) q] show ?thesis by auto
qed

text \<open>
  C39: a signed contract call that succeeds names a script hash or an address, never a name. It runs the named operation of exactly that
  contract, which the node had just confirmed; the names the service has learned and the catalogue play no part.
\<close>

theorem contract_write_explicit:
  assumes "contract_invoke env acc reference operation args ext s = (Inr txid, s')"
  shows "\<exists>h account params code magic signer fees signed l v w. explicit_hash env reference = Some h \<and> acc = Some account
    \<and> ne_createScript (ce_neo env) h (trim operation) params = Inr code
    \<and> nw_sign (ce_wallet env) account \<lparr>ut_script = code, ut_signer = signer, ut_fees = fees\<rparr> magic = Inr signed
    \<and> ns_log (cs_neo s') = ns_log (cs_neo s) @ l
    \<and> (Execute ''getcontractstate'' [JStr h], Inr v) \<in> set l \<and> (SendRawTransaction (st_raw signed), Inr w) \<in> set l
    \<and> s' = s\<lparr>cs_neo := cs_neo s'\<rparr>"
proof -
  from assms obtain h where h: "explicit_hash env reference = Some h"
    and run: "bindN (resolveContractTarget env h) (\<lambda>t. bindN (assertContractDeployed env h) (\<lambda>_.
            bindN (valid_operation t operation) (\<lambda>op. signed_call env acc t op args ext))) s = (Inr txid, s')"
    by (auto simp: contract_invoke_def catchN_def invalid_argument_def service_failure_def contract_error_def throwN_def
        split: option.splits prod.splits sum.splits if_splits)
  note form = explicit_hash_form [OF h]
  from run obtain s1 where dep: "assertContractDeployed env h s = (Inr (), s1)"
    and rest: "bindN (valid_operation (hash_target env h) operation) (\<lambda>op. signed_call env acc (hash_target env h) op args ext) s1 = (Inr txid, s')"
    unfolding bindN_Inr resolve_hash [OF form] by auto
  obtain n l1 v where n: "s1 = s\<lparr>cs_neo := n\<rparr>" "ns_log n = ns_log (cs_neo s) @ l1" "(Execute ''getcontractstate'' [JStr h], Inr v) \<in> set l1"
    using deployed_hash [OF form dep] by blast
  from rest have call: "signed_call env acc (hash_target env h) (trim operation) args ext s1 = (Inr txid, s')"
    by (auto simp: bindN_Inr valid_operation_def hash_target_def validateContractOperation_def helper_Inr split: if_splits)
  then obtain account params code p n2 n3 where acc: "acc = Some account"
    and code: "ne_createScript (ce_neo env) h (trim operation) params = Inr code"
    and sg: "contract_signed env account code n = (Inr p, n2)" and sub: "contract_submit (ce_neo env) p n2 = (Inr txid, n3)"
    and s': "s' = s\<lparr>cs_neo := n3\<rparr>"
    by (auto simp: signed_call_def contract_error_def bindN_Inr helper_Inr formatted_arguments_def liftN_def on_node_run hash_target_def n(1)
        split: option.splits if_splits)
  obtain l2 where l2: "ns_log n2 = ns_log n @ l2" using laterD(3) [OF steadyD [OF steady_signed(1) sg]] by blast
  obtain magic signer fees signed where sgn: "nw_sign (ce_wallet env) account \<lparr>ut_script = code, ut_signer = signer, ut_fees = fees\<rparr> magic = Inr signed"
    "pn_rawTransaction p = st_raw signed" using contract_signed_Inr [OF sg] by blast
  obtain l3 w where l3: "ns_log n3 = ns_log n2 @ l3" "(SendRawTransaction (st_raw signed), Inr w) \<in> set l3"
    using contract_submit_Inr [OF sub] sgn(2) by auto
  have "ns_log (cs_neo s') = ns_log (cs_neo s) @ (l1 @ l2 @ l3)" by (simp add: s' l3(1) l2 n(2))
  moreover have "(Execute ''getcontractstate'' [JStr h], Inr v) \<in> set (l1 @ l2 @ l3)" "(SendRawTransaction (st_raw signed), Inr w) \<in> set (l1 @ l2 @ l3)"
    using n(3) l3(2) by auto
  moreover have "s' = s\<lparr>cs_neo := cs_neo s'\<rparr>" by (simp add: s')
  ultimately show ?thesis using h acc code sgn(1) by blast
qed

definition demo_answer :: "rpc_request \<Rightarrow> rpc_reply" where
  "demo_answer q =
     (case q of
        GetBlockCount \<Rightarrow> Inr (JNum (NInt 100))
      | InvokeScript code signers \<Rightarrow> Inr (JObj [(''state'', JStr ''HALT''), (''gasconsumed'', JStr ''12'')])
      | CalculateNetworkFee code \<Rightarrow> Inr (JStr ''3'')
      | InvokeFunction h op args \<Rightarrow> Inr (JObj [(''state'', JStr ''HALT''), (''stack'', JArr [JObj [(''value'', JStr ''20'')]])])
      | SendRawTransaction raw \<Rightarrow> Inr (JStr ''bb'')
      | _ \<Rightarrow> Inr (JObj []))"

definition demo_contract_env :: contract_env where
  "demo_contract_env =
     \<lparr>ce_neo = demo_neo\<lparr>ne_node := (\<lambda>_ _ q. (demo_answer q, 2)),
        ne_enrich := demo_enrich\<lparr>en_isAddress := (\<lambda>_. True), en_scriptHash := (\<lambda>_. Some (replicate 40 (CHR ''a'')))\<rparr>\<rparr>,
      ce_wallet = demo_wallet, ce_index = None, ce_decodeNef = (\<lambda>_. Inr \<lparr>nf_serialized = [], nf_checksum = 0\<rparr>),
      ce_manifestName = (\<lambda>_. Inr []), ce_deployScript = (\<lambda>_ _. Inr []), ce_contractHash = (\<lambda>_ _ _. Inr [])\<rparr>"

definition demo_contract_state :: contract_state where
  "demo_contract_state =
     \<lparr>cs_neo = demo_neo_state, cs_index = \<lparr>is_clock = 0, is_missing = [], is_log = []\<rparr>, cs_discovered = [], cs_remote = []\<rparr>"

definition demo_hash :: string where "demo_hash = ''0x'' @ replicate 40 (CHR ''1'')"

definition demo_signer :: neo_signer where
  "demo_signer = \<lparr>sg_address = replicate 34 (CHR ''N''), sg_scriptHash = ''22''\<rparr>"

lemma demo_explicit: "explicit_hash demo_contract_env demo_hash = Some demo_hash"
  by code_simp

lemma demo_sender_valid: "address_valid demo_contract_env (JStr (sg_address demo_signer)) = Inr (sg_address demo_signer)"
  by code_simp

definition demo_neo1 :: neo_state where
  "demo_neo1 = demo_neo_state\<lparr>ns_clock := 2, ns_log := [(Execute ''getcontractstate'' [JStr demo_hash], Inr (JObj []))]\<rparr>"

lemma demo_deployed: "assertContractDeployed demo_contract_env demo_hash demo_contract_state = (Inr (), demo_contract_state\<lparr>cs_neo := demo_neo1\<rparr>)"
  using resolve_hash [OF explicit_hash_form [OF demo_explicit]] script_hash_valid(2) [OF explicit_hash_form [OF demo_explicit]]
  by (simp add: assertContractDeployed_def isContractDeployed_def getContractState_def catchN_def bindN_def retN_def on_node_def ask_def
      with_deadline_def getNetworkMagic_def within_def send_def demo_contract_state_def demo_neo_state_def demo_neo1_def demo_contract_env_def
      demo_neo_def demo_answer_def hash_target_def)

definition demo_paid :: prepared_neo_transaction where
  "demo_paid = \<lparr>pn_rawTransaction = ''aa'', pn_txid = ''0xbb'', pn_validUntilBlock = 5859\<rparr>"

lemma demo_signing: "fst (contract_signed demo_contract_env demo_signer ''11'' demo_neo1) = Inr demo_paid"
  by code_simp

lemma demo_texts: "is_hex (CHR ''a'')" "normalized_txid (JStr ''bb'') = ''0xbb''" "to_lower ''0xbb'' = ''0xbb''"
  by code_simp+

lemma demo_sent: "ns_magic t = Some 860833102 \<Longrightarrow> fst (contract_submit (ce_neo demo_contract_env) demo_paid t) = Inr ''0xbb''"
  by (simp add: contract_submit_def catchN_def bindN_def retN_def ask_def with_deadline_def getNetworkMagic_def within_def send_def
      demo_contract_env_def demo_neo_def demo_answer_def demo_paid_def demo_texts)

lemma demo_invoke: "fst (contract_invoke demo_contract_env (Some demo_signer) demo_hash ''mint'' [] [] demo_contract_state) = Inr ''0xbb''"
proof -
  note res = resolve_hash(1) [OF explicit_hash_form [OF demo_explicit]]
  obtain t where sg: "contract_signed demo_contract_env demo_signer ''11'' demo_neo1 = (Inr demo_paid, t)"
    using demo_signing by (metis prod.collapse)
  have "ns_magic t = Some 860833102"
    using laterD(4) [OF steadyD [OF steady_signed(1) sg]] by (simp add: demo_neo1_def demo_neo_state_def)
  then obtain u where sub: "contract_submit (ce_neo demo_contract_env) demo_paid t = (Inr ''0xbb'', u)"
    using demo_sent by (metis prod.collapse)
  have op: "valid_operation (hash_target demo_contract_env demo_hash) ''mint'' s = (Inr ''mint'', s)"
      "formatted_arguments demo_contract_env [] s = (Inr [], s)" "ne_createScript (ce_neo demo_contract_env) h ''mint'' [] = Inr ''11''" for s h
    by (simp_all add: valid_operation_def hash_target_def validateContractOperation_def helper_def retN_def trim_id formatted_arguments_def
        formatContractParameters_def demo_contract_env_def demo_neo_def is_ws_def cc_def)
  have "sg_address demo_signer \<noteq> []" by (simp add: demo_signer_def)
  with demo_explicit demo_sender_valid res demo_deployed op sg sub show ?thesis
    by (simp add: contract_invoke_def catchN_def bindN_def signed_call_def helper_def retN_def liftN_def on_node_def hash_target_def)
qed

lemma contract_write_explicit_witness:
  "\<exists>h params code. explicit_hash demo_contract_env demo_hash = Some h \<and> ne_createScript (ce_neo demo_contract_env) h ''mint'' params = Inr code"
proof -
  obtain s' where "contract_invoke demo_contract_env (Some demo_signer) demo_hash ''mint'' [] [] demo_contract_state = (Inr ''0xbb'', s')"
    using demo_invoke by (metis prod.collapse)
  from contract_write_explicit [OF this] have "\<exists>h params code. explicit_hash demo_contract_env demo_hash = Some h
    \<and> ne_createScript (ce_neo demo_contract_env) h (trim ''mint'') params = Inr code" by blast
  moreover have "trim ''mint'' = ''mint''" by code_simp
  ultimately show ?thesis by simp
qed

end
