(* ===== verification/BlockscoutCatalog.thy ===== *)
theory BlockscoutCatalog
  imports Allowlist
begin

text \<open>
  src/indexer/blockscout-catalog.ts: the registry of read-only Blockscout REST endpoints of
  Neo X, entry by entry, in the groups of the source.
\<close>

datatype x_path_type = X_evmAddress | X_evmHash | X_blockRef

datatype x_query_type = X_enum | X_string

type_synonym x_endpoint = "(x_path_type, x_query_type) endpoint"

definition x_ADDRESS_PARAM :: "string \<times> x_path_type" where "x_ADDRESS_PARAM = (''address'', X_evmAddress)"
definition x_HASH_PARAM :: "string \<times> x_path_type" where "x_HASH_PARAM = (''hash'', X_evmHash)"
definition x_BLOCK_PARAM :: "string \<times> x_path_type" where "x_BLOCK_PARAM = (''blockRef'', X_blockRef)"

definition x_q :: "x_query_type \<Rightarrow> x_query_type query_spec" where
  "x_q t = \<lparr> q_type = t, q_values = None, q_required = False \<rparr>"

definition ERC_TOKEN_TYPES :: "string list" where
  "ERC_TOKEN_TYPES = [''ERC-20'', ''ERC-721'', ''ERC-1155'']"

section \<open>The entries\<close>

definition x_chain_wide_lists :: "(string \<times> x_endpoint) list" where
  "x_chain_wide_lists = [
     (''list_blocks'', \<lparr> e_pathTemplate = ''blocks'', e_pathParam = None,
        e_queryParams = None,
        e_category = ''list'',
        e_summary = ''Recent Neo X blocks, newest first.'' \<rparr>),
     (''list_transactions'', \<lparr> e_pathTemplate = ''transactions'', e_pathParam = None,
        e_queryParams = Some [(''filter'', (x_q X_enum)\<lparr> q_values := Some [''pending'', ''validated''] \<rparr>)],
        e_category = ''list'',
        e_summary = ''Recent Neo X transactions, newest first (optionally filter pending/validated).'' \<rparr>),
     (''list_token_transfers'', \<lparr> e_pathTemplate = ''token-transfers'', e_pathParam = None,
        e_queryParams = None,
        e_category = ''list'',
        e_summary = ''Recent token transfers across the chain, newest first.'' \<rparr>),
     (''list_internal_transactions'', \<lparr> e_pathTemplate = ''internal-transactions'', e_pathParam = None,
        e_queryParams = None,
        e_category = ''list'',
        e_summary = ''Recent internal (contract-to-contract) transactions, newest first.'' \<rparr>),
     (''list_withdrawals'', \<lparr> e_pathTemplate = ''withdrawals'', e_pathParam = None,
        e_queryParams = None,
        e_category = ''list'',
        e_summary = ''Recent beacon-chain style withdrawals, newest first.'' \<rparr>),
     (''list_tokens'', \<lparr> e_pathTemplate = ''tokens'', e_pathParam = None,
        e_queryParams = Some [(''q'', x_q X_string), (''type'', (x_q X_enum)\<lparr> q_values := Some ERC_TOKEN_TYPES \<rparr>)],
        e_category = ''list'',
        e_summary = ''Token registry, optionally filtered by name query and/or token standard.'' \<rparr>),
     (''list_smart_contracts'', \<lparr> e_pathTemplate = ''smart-contracts'', e_pathParam = None,
        e_queryParams = Some [(''q'', x_q X_string)],
        e_category = ''list'',
        e_summary = ''Verified smart contracts, optionally filtered by a name/address query.'' \<rparr>),
     (''search'', \<lparr> e_pathTemplate = ''search'', e_pathParam = None,
        e_queryParams = Some [(''q'', (x_q X_string)\<lparr> q_required := True \<rparr>)],
        e_category = ''list'',
        e_summary = ''Global search across addresses, tokens, blocks, and transactions.'' \<rparr>),
     (''stats'', \<lparr> e_pathTemplate = ''stats'', e_pathParam = None,
        e_queryParams = None,
        e_category = ''list'',
        e_summary = ''Chain statistics (total blocks/txs, gas prices, market data).'' \<rparr>),
     (''main_page_transactions'', \<lparr> e_pathTemplate = ''main-page/transactions'', e_pathParam = None,
        e_queryParams = None,
        e_category = ''list'',
        e_summary = ''The latest transactions as shown on the explorer home page.'' \<rparr>),
     (''main_page_blocks'', \<lparr> e_pathTemplate = ''main-page/blocks'', e_pathParam = None,
        e_queryParams = None,
        e_category = ''list'',
        e_summary = ''The latest blocks as shown on the explorer home page.'' \<rparr>)]"

definition x_by_address :: "(string \<times> x_endpoint) list" where
  "x_by_address = [
     (''get_address'', \<lparr> e_pathTemplate = ''addresses/{address}'', e_pathParam = Some x_ADDRESS_PARAM,
        e_queryParams = None,
        e_category = ''address'',
        e_summary = ''Account/contract summary (balance, code flags, implementation) for an address.'' \<rparr>),
     (''get_address_counters'', \<lparr> e_pathTemplate = ''addresses/{address}/counters'', e_pathParam = Some x_ADDRESS_PARAM,
        e_queryParams = None,
        e_category = ''address'',
        e_summary = ''Aggregate counters (tx count, transfers, gas usage) for an address.'' \<rparr>),
     (''list_address_transactions'', \<lparr> e_pathTemplate = ''addresses/{address}/transactions'', e_pathParam = Some x_ADDRESS_PARAM,
        e_queryParams = Some [(''filter'', (x_q X_enum)\<lparr> q_values := Some [''to'', ''from''] \<rparr>)],
        e_category = ''address'',
        e_summary = ''Transactions involving an address, optionally filtered to sent (from) or received (to).'' \<rparr>),
     (''list_address_token_transfers'', \<lparr> e_pathTemplate = ''addresses/{address}/token-transfers'', e_pathParam = Some x_ADDRESS_PARAM,
        e_queryParams = Some [(''type'', (x_q X_enum)\<lparr> q_values := Some ERC_TOKEN_TYPES \<rparr>)],
        e_category = ''address'',
        e_summary = ''Token transfers involving an address, optionally filtered by token standard.'' \<rparr>),
     (''list_address_internal_transactions'', \<lparr> e_pathTemplate = ''addresses/{address}/internal-transactions'', e_pathParam = Some x_ADDRESS_PARAM,
        e_queryParams = None,
        e_category = ''address'',
        e_summary = ''Internal transactions involving an address, newest first.'' \<rparr>),
     (''list_address_logs'', \<lparr> e_pathTemplate = ''addresses/{address}/logs'', e_pathParam = Some x_ADDRESS_PARAM,
        e_queryParams = None,
        e_category = ''address'',
        e_summary = ''Event logs emitted by (or involving) an address, newest first.'' \<rparr>),
     (''list_address_token_balances'', \<lparr> e_pathTemplate = ''addresses/{address}/token-balances'', e_pathParam = Some x_ADDRESS_PARAM,
        e_queryParams = None,
        e_category = ''address'',
        e_summary = ''Current token balances held by an address.'' \<rparr>),
     (''list_address_withdrawals'', \<lparr> e_pathTemplate = ''addresses/{address}/withdrawals'', e_pathParam = Some x_ADDRESS_PARAM,
        e_queryParams = None,
        e_category = ''address'',
        e_summary = ''Withdrawals credited to an address, newest first.'' \<rparr>)]"

definition x_by_token :: "(string \<times> x_endpoint) list" where
  "x_by_token = [
     (''get_token'', \<lparr> e_pathTemplate = ''tokens/{address}'', e_pathParam = Some x_ADDRESS_PARAM,
        e_queryParams = None,
        e_category = ''token'',
        e_summary = ''Token metadata (name, symbol, decimals, supply, holder count) by contract address.'' \<rparr>),
     (''get_token_counters'', \<lparr> e_pathTemplate = ''tokens/{address}/counters'', e_pathParam = Some x_ADDRESS_PARAM,
        e_queryParams = None,
        e_category = ''token'',
        e_summary = ''Aggregate counters (transfers, holders) for a token contract.'' \<rparr>),
     (''list_token_holders'', \<lparr> e_pathTemplate = ''tokens/{address}/holders'', e_pathParam = Some x_ADDRESS_PARAM,
        e_queryParams = None,
        e_category = ''token'',
        e_summary = ''Holders (and balances) of a token contract.'' \<rparr>),
     (''list_token_transfers_of'', \<lparr> e_pathTemplate = ''tokens/{address}/transfers'', e_pathParam = Some x_ADDRESS_PARAM,
        e_queryParams = None,
        e_category = ''token'',
        e_summary = ''Transfers of a specific token contract, newest first.'' \<rparr>),
     (''list_token_instances'', \<lparr> e_pathTemplate = ''tokens/{address}/instances'', e_pathParam = Some x_ADDRESS_PARAM,
        e_queryParams = None,
        e_category = ''token'',
        e_summary = ''Minted NFT instances (token ids) of an ERC-721/1155 contract.'' \<rparr>)]"

definition x_by_transaction :: "(string \<times> x_endpoint) list" where
  "x_by_transaction = [
     (''get_transaction'', \<lparr> e_pathTemplate = ''transactions/{hash}'', e_pathParam = Some x_HASH_PARAM,
        e_queryParams = None,
        e_category = ''transaction'',
        e_summary = ''A single transaction (status, value, gas, decoded input) by its hash.'' \<rparr>),
     (''get_transaction_logs'', \<lparr> e_pathTemplate = ''transactions/{hash}/logs'', e_pathParam = Some x_HASH_PARAM,
        e_queryParams = None,
        e_category = ''transaction'',
        e_summary = ''Event logs emitted by a transaction.'' \<rparr>),
     (''get_transaction_internal_transactions'', \<lparr> e_pathTemplate = ''transactions/{hash}/internal-transactions'', e_pathParam = Some x_HASH_PARAM,
        e_queryParams = None,
        e_category = ''transaction'',
        e_summary = ''Internal transactions (traces) of a transaction.'' \<rparr>),
     (''get_transaction_token_transfers'', \<lparr> e_pathTemplate = ''transactions/{hash}/token-transfers'', e_pathParam = Some x_HASH_PARAM,
        e_queryParams = None,
        e_category = ''transaction'',
        e_summary = ''Token transfers that occurred within a transaction.'' \<rparr>),
     (''get_transaction_state_changes'', \<lparr> e_pathTemplate = ''transactions/{hash}/state-changes'', e_pathParam = Some x_HASH_PARAM,
        e_queryParams = None,
        e_category = ''transaction'',
        e_summary = ''Balance/state changes caused by a transaction.'' \<rparr>)]"

definition x_by_block :: "(string \<times> x_endpoint) list" where
  "x_by_block = [
     (''get_block'', \<lparr> e_pathTemplate = ''blocks/{blockRef}'', e_pathParam = Some x_BLOCK_PARAM,
        e_queryParams = None,
        e_category = ''block'',
        e_summary = ''A single block by height (number) or block hash.'' \<rparr>),
     (''list_block_transactions'', \<lparr> e_pathTemplate = ''blocks/{blockRef}/transactions'', e_pathParam = Some x_BLOCK_PARAM,
        e_queryParams = None,
        e_category = ''block'',
        e_summary = ''Transactions contained in a block (by height or hash).'' \<rparr>),
     (''list_block_withdrawals'', \<lparr> e_pathTemplate = ''blocks/{blockRef}/withdrawals'', e_pathParam = Some x_BLOCK_PARAM,
        e_queryParams = None,
        e_category = ''block'',
        e_summary = ''Withdrawals included in a block (by height or hash).'' \<rparr>)]"

definition x_smart_contract :: "(string \<times> x_endpoint) list" where
  "x_smart_contract = [
     (''get_smart_contract'', \<lparr> e_pathTemplate = ''smart-contracts/{address}'', e_pathParam = Some x_ADDRESS_PARAM,
        e_queryParams = None,
        e_category = ''contract'',
        e_summary = ''Verified source, ABI, and compiler settings for a smart contract.'' \<rparr>)]"

definition X_ENDPOINT_CATALOG :: "(string \<times> x_endpoint) list" where
  "X_ENDPOINT_CATALOG = x_chain_wide_lists @ x_by_address @ x_by_token @ x_by_transaction @ x_by_block @ x_smart_contract"

section \<open>Well-formedness\<close>

text \<open>
  A well-formed endpoint: its template has exactly the placeholder of its path parameter, and
  exactly the enum parameters list their values.
\<close>

definition x_endpoint_ok :: "x_endpoint \<Rightarrow> bool" where
  "x_endpoint_ok d \<longleftrightarrow> template_ok d \<and> distinct (declared_keys d) \<and>
     (case e_queryParams d of None \<Rightarrow> True | Some qs \<Rightarrow>
        list_all (\<lambda>(k, q). (q_type q = X_enum) = (q_values q \<noteq> None)) qs)"

lemma x_chain_wide_lists_ok: "list_all (\<lambda>(k, d). x_endpoint_ok d) x_chain_wide_lists"
  by code_simp

lemma x_by_address_ok: "list_all (\<lambda>(k, d). x_endpoint_ok d) x_by_address"
  by code_simp

lemma x_by_token_ok: "list_all (\<lambda>(k, d). x_endpoint_ok d) x_by_token"
  by code_simp

lemma x_by_transaction_ok: "list_all (\<lambda>(k, d). x_endpoint_ok d) x_by_transaction"
  by code_simp

lemma x_by_block_ok: "list_all (\<lambda>(k, d). x_endpoint_ok d) x_by_block"
  by code_simp

lemma x_smart_contract_ok: "list_all (\<lambda>(k, d). x_endpoint_ok d) x_smart_contract"
  by code_simp

lemma x_catalog_ok: "(k, d) \<in> set X_ENDPOINT_CATALOG \<Longrightarrow> x_endpoint_ok d"
  using x_chain_wide_lists_ok x_by_address_ok x_by_token_ok x_by_transaction_ok x_by_block_ok x_smart_contract_ok
  unfolding X_ENDPOINT_CATALOG_def by (auto simp only: list_all_iff set_append Un_iff split_paired_all)

lemma x_catalog_keys: "distinct (map fst X_ENDPOINT_CATALOG)"
  by code_simp

end
