(* ===== verification/BlockscoutGuard.thy ===== *)
theory BlockscoutGuard
  imports BlockscoutCatalog
begin

text \<open>
  src/indexer/blockscout-query-guard.ts: the guard of the generic Neo X query, the Blockscout
  counterpart of N3RestGuard. It interprets the same segment interface.
\<close>

section \<open>The guard\<close>

definition assertAllowedEndpoint :: "jsval \<Rightarrow> x_endpoint result" where
  "assertAllowedEndpoint v =
     (case v of
        JStr e \<Rightarrow>
          if e = [] then invalid ''Neo X query endpoint must be a non-empty string. Permitted endpoints: ''
          else (case map_of X_ENDPOINT_CATALOG e of
                  Some d \<Rightarrow> Inr d | None \<Rightarrow> invalid (''Neo X query endpoint '' @ [CHR 0x22]))
      | _ \<Rightarrow> invalid ''Neo X query endpoint must be a non-empty string. Permitted endpoints: '')"

text \<open>\<open>SAFE_PATH_SEGMENT\<close>\<close>

definition x_safe_segment :: "string \<Rightarrow> bool" where
  "x_safe_segment s \<longleftrightarrow>
     (starts_with s ''0x'' \<and> 2 < length s \<and> list_all is_lower_hex (drop 2 s)) \<or> all_digits s"

definition validateXPathSegment :: "x_path_type \<Rightarrow> jsval \<Rightarrow> string result" where
  "validateXPathSegment t v =
     (case t of
        X_evmAddress \<Rightarrow> validateEvmAddress v
      | X_evmHash \<Rightarrow> validateEvmHash v
      | X_blockRef \<Rightarrow> validateEvmBlockRef v)"

definition x_buildPath :: "x_endpoint \<Rightarrow> jsobj \<Rightarrow> string result" where
  "x_buildPath d source =
     resolve_path validateXPathSegment x_safe_segment ''Neo X endpoint path is not fully resolved: ''
       (e_pathTemplate d) (e_pathParam d) source"

definition x_validateQueryValue :: "string \<Rightarrow> x_query_type query_spec \<Rightarrow> jsval \<Rightarrow> jsval result" where
  "x_validateQueryValue key q v =
     (case q_type q of
        X_enum \<Rightarrow>
          (case v of
             JStr s \<Rightarrow> if s \<in> set (case q_values q of Some vs \<Rightarrow> vs | None \<Rightarrow> []) then Inr (JStr s)
                       else invalid (''Query parameter '' @ [CHR 0x22])
           | _ \<Rightarrow> invalid (''Query parameter '' @ [CHR 0x22]))
      | X_string \<Rightarrow>
          (case v of
             JStr s \<Rightarrow> bindR (sanitizeString v) (\<lambda>t.
               if length t < 1 \<or> 256 < length t then invalid (''Query parameter '' @ [CHR 0x22]) else Inr (JStr t))
           | _ \<Rightarrow> invalid (''Query parameter '' @ [CHR 0x22])))"

definition x_buildQueryParams :: "x_endpoint \<Rightarrow> jsobj \<Rightarrow> jsobj result" where
  "x_buildQueryParams d source =
     (case e_queryParams d of None \<Rightarrow> Inr [] | Some qs \<Rightarrow> collect_query x_validateQueryValue qs source)"

definition buildEndpointRequest :: "x_endpoint \<Rightarrow> jsval \<Rightarrow> (string \<times> jsobj) result" where
  "buildEndpointRequest d input =
     build_request x_buildPath x_buildQueryParams ''Neo X query params must be an object'' d input"

section \<open>Segments are safe\<close>

lemma x_safe_alnum: "x_safe_segment s \<Longrightarrow> s \<noteq> [] \<and> list_all is_alnum s"
  using hex_0x_alnum [of s] all_digits_alnum [of s] by (auto simp: x_safe_segment_def list_all_iff)

lemma evm_hex_safe:
  assumes "hex_0x n (with_0x s)" "0 < n"
  shows "x_safe_segment (to_lower (with_0x s))"
proof -
  have l: "hex_0x n (to_lower (with_0x s))" "to_lower (to_lower (with_0x s)) = to_lower (with_0x s)"
    using hex_0x_lower [OF assms(1)] by simp_all
  have "list_all is_lower_hex (drop 2 (to_lower (with_0x s)))"
    using to_lower_hex [of "drop 2 (with_0x s)"] assms(1) by (simp add: to_lower_def drop_map hex_0x_def)
  with l(1) assms(2) show ?thesis by (simp add: x_safe_segment_def hex_0x_def)
qed

lemma evm_hash_safe: "validateEvmHash v = Inr h \<Longrightarrow> x_safe_segment h"
  using evm_hex_safe [of 64] by (auto simp: validateEvmHash_def split: jsval.splits if_splits)

lemma evm_address_safe: "validateEvmAddress v = Inr h \<Longrightarrow> x_safe_segment h"
  using evm_hex_safe [of 40] by (auto simp: validateEvmAddress_def split: jsval.splits if_splits)

lemma x_validated_safe:
  assumes "validateXPathSegment t v = Inr s"
  shows "x_safe_segment s"
proof (cases t)
  case X_blockRef
  have digits: "x_safe_segment u" if "all_digits u" for u using that by (simp add: x_safe_segment_def)
  have num: "all_digits (int_str i)" if "0 \<le> i" for i using that by (simp add: int_str_def)
  from X_blockRef assms digits num show ?thesis
    by (auto simp: validateXPathSegment_def validateEvmBlockRef_def dest: evm_hash_safe
        split: jsval.splits jsnum.splits if_splits)
qed (use assms evm_address_safe evm_hash_safe in \<open>auto simp: validateXPathSegment_def\<close>)

interpretation x_guard: segment_guard validateXPathSegment x_safe_segment
  by unfold_locales (use x_validated_safe x_safe_alnum in blast)+

lemma assertAllowedEndpoint_in: "assertAllowedEndpoint v = Inr d \<Longrightarrow> \<exists>k. v = JStr k \<and> (k, d) \<in> set X_ENDPOINT_CATALOG"
  by (auto simp: assertAllowedEndpoint_def dest: map_of_SomeD split: jsval.splits option.splits if_splits)

lemma x_request_parts:
  assumes "buildEndpointRequest d input = Inr (path, params)"
  obtains source where "asPlainObject ''Neo X query params must be an object'' input = Inr source"
    and "fst ` set source \<subseteq> set (declared_keys d) \<union> {''network'', ''endpoint'', ''params''}"
    and "x_buildPath d source = Inr path" and "x_buildQueryParams d source = Inr params"
  using assms by (auto simp: buildEndpointRequest_def build_request_def result_simps reject_unknown_Inr)

section \<open>Properties\<close>

lemma x_query_value_shape:
  assumes "x_validateQueryValue k q v = Inr w" "(q_type q = X_enum) = (q_values q \<noteq> None)"
  shows "\<exists>s. w = JStr s \<and> (case q_values q of Some vs \<Rightarrow> s \<in> set vs | None \<Rightarrow> tag_free s \<and> length s \<le> 256)"
proof (cases "q_values q")
  case None
  with assms(2) have "q_type q = X_string" by (cases "q_type q") auto
  with assms(1) None obtain s where "sanitizeString v = Inr s" "length s \<le> 256" "w = JStr s"
    by (auto simp: x_validateQueryValue_def result_simps split: jsval.splits if_splits)
  with sanitize_free None show ?thesis by auto
next
  case (Some vs)
  with assms show ?thesis
    by (cases v) (auto simp: x_validateQueryValue_def split: if_splits)
qed

text \<open>
  A Neo X request stays on the route of a listed endpoint: its path is the template with
  at most one alphanumeric segment filled in, and every query parameter is a declared one,
  with a listed value where the endpoint lists values and a tag-free text of at most 256
  characters otherwise.
\<close>

lemma x_request_confined:
  assumes "assertAllowedEndpoint v = Inr d" "buildEndpointRequest d input = Inr (path, params)"
  shows "(path = e_pathTemplate d \<or> (\<exists>before key seg after. e_pathTemplate d = before @ placeholder key @ after
      \<and> path = before @ seg @ after \<and> seg \<noteq> [] \<and> list_all is_alnum seg))
    \<and> list_all path_char path \<and> count_list path CHR ''/'' = count_list (e_pathTemplate d) CHR ''/''
    \<and> (\<forall>(k, w) \<in> set params. \<exists>qs q s. e_queryParams d = Some qs \<and> (k, q) \<in> set qs \<and> w = JStr s
        \<and> (case q_values q of Some vs \<Rightarrow> s \<in> set vs | None \<Rightarrow> tag_free s \<and> length s \<le> 256))"
proof (intro conjI ballI, goal_cases)
  have xok: "x_endpoint_ok d" using assertAllowedEndpoint_in [OF assms(1)] x_catalog_ok by blast
  then have ok: "template_ok d" by (simp add: x_endpoint_ok_def)
  from assms(2) obtain source where b: "x_buildPath d source = Inr path" and q: "x_buildQueryParams d source = Inr params"
    by (rule x_request_parts)
  note shape = x_guard.resolve_path_shape [OF b [unfolded x_buildPath_def] ok]
  note plain = x_guard.resolve_path_plain [OF b [unfolded x_buildPath_def] ok]
  case 1
  show ?case
  proof (cases "e_pathParam d")
    case None
    with shape show ?thesis by simp
  next
    case (Some kt)
    obtain key t where "kt = (key, t)" by (cases kt)
    with Some shape show ?thesis by auto
  qed
  case 2
  show ?case using plain by simp
  case 3
  show ?case using plain by simp
  case (4 kw)
  obtain k w where kw: "kw = (k, w)" by (cases kw)
  from q 4 kw obtain qs where qs: "e_queryParams d = Some qs" "collect_query x_validateQueryValue qs source = Inr params"
    by (auto simp: x_buildQueryParams_def split: option.splits)
  from collect_query_in [OF qs(2), of k w] 4 kw obtain spec where spec: "(k, spec) \<in> set qs"
    "x_validateQueryValue k spec (oget source k) = Inr w" by blast
  have "(q_type spec = X_enum) = (q_values spec \<noteq> None)"
    using xok qs(1) spec(1) by (auto simp: x_endpoint_ok_def list_all_iff)
  from spec(2) this have "\<exists>s. w = JStr s \<and> (case q_values spec of Some vs \<Rightarrow> s \<in> set vs | None \<Rightarrow> tag_free s \<and> length s \<le> 256)"
    by (rule x_query_value_shape)
  with spec(1) qs(1) kw show ?case by auto
qed

lemma x_request_confined_witness:
  "list_all path_char (''addresses/0x'' @ replicate 40 CHR ''a'' @ ''/transactions'')"
proof -
  let ?d = "the (map_of X_ENDPOINT_CATALOG ''list_address_transactions'')"
  have d: "assertAllowedEndpoint (JStr ''list_address_transactions'') = Inr ?d" by code_simp
  have b: "buildEndpointRequest ?d (JObj [(''address'', JStr (replicate 40 CHR ''A'')), (''filter'', JStr ''to'')])
      = Inr (''addresses/0x'' @ replicate 40 CHR ''a'' @ ''/transactions'', [(''filter'', JStr ''to'')])" by code_simp
  from x_request_confined [OF d b] show ?thesis by blast
qed

end
