(* ===== verification/RestClients.thy ===== *)
theory RestClients
  imports NeoxRpc Traces BlockscoutGuard
begin

text \<open>
  The read clients of the explorers: src/contracts/n3index-rest-client.ts, blockscout-client.ts,
  blockscout-graphql-client.ts and indexer-rpc-client.ts. Each sends one request to an endpoint under a
  configured base URL. URL parsing is the parameter \<open>parseURL\<close>, the network is a function from the request
  to what \<open>fetch\<close> gave; request ids, timers and the draining of a 404 body are left out. A 404 answers
  with null. The URL is kept as the text handed to \<open>new URL\<close> and the query pairs set on it.

  The main lemmas: a request goes once to the configured base, as a GET or as a POST of a document
  (\<open>n3index_requests\<close>, \<open>blockscout_requests\<close>, \<open>graphql_requests\<close>, \<open>indexer_requests\<close>), and what
  is read of an answer is bounded (\<open>rest_answer_bounded\<close>).
\<close>

record upstream_request =
  u_verb :: string
  u_url :: string
  u_query :: "(string \<times> string) list"
  u_body :: jsval

record rest_exchange =
  rx_fetch :: "rpc_failure + response"
  rx_aborted :: bool

record rest_env =
  re_parseURL :: "string \<Rightarrow> url_parts option"
  re_parseJSON :: "nat list \<Rightarrow> jsval option"
  re_net :: "upstream_request \<Rightarrow> rest_exchange"
  re_n3indexBase :: string
  re_testnetEnabled :: bool
  re_mainnetExplorer :: string
  re_testnetExplorer :: string

type_synonym 'a fetched = "(upstream_request, 'a) traced"

section \<open>Shared by the clients\<close>

text \<open>\<open>String(raw || '').replace(/\/+$/, '')\<close> and the check of its parts.\<close>

definition configured_base :: "rest_env \<Rightarrow> string \<Rightarrow> string \<Rightarrow> string result" where
  "configured_base env message raw =
     (let base = strip_slashes raw in
      case re_parseURL env base of
        None \<Rightarrow> Inl (TypeError ''Invalid URL'')
      | Some u \<Rightarrow>
          if u_protocol u \<notin> {''http:'', ''https:''} \<or> u_username u \<noteq> [] \<or> u_password u \<noteq> []
          then invalid message else Inr base)"

definition clean_path :: "string \<Rightarrow> string" where
  "clean_path path = dropWhile (\<lambda>c. c = CHR ''/'') path"

definition query_pairs :: "jsobj \<Rightarrow> (string \<times> string) list" where
  "query_pairs params =
     map (\<lambda>(k, v). (k, js_String v)) (filter (\<lambda>(k, v). \<not> nullish v \<and> v \<noteq> JStr []) params)"

definition get_request :: "rest_env \<Rightarrow> string \<Rightarrow> jsobj \<Rightarrow> upstream_request result" where
  "get_request env url params =
     (case re_parseURL env url of
        None \<Rightarrow> Inl (TypeError ''Invalid URL'')
      | Some u \<Rightarrow> Inr \<lparr>u_verb = ''GET'', u_url = url, u_query = query_pairs params, u_body = JUndef\<rparr>)"

definition rest_failure :: "string \<Rightarrow> rest_exchange \<Rightarrow> rpc_failure \<Rightarrow> js_error" where
  "rest_failure label x e =
     NetworkError (if rx_aborted x \<or> f_name e = ''AbortError'' then label @ '' request timed out'' else f_message e)"

definition response_ok :: "response \<Rightarrow> bool" where
  "response_ok r \<longleftrightarrow> 200 \<le> r_status r \<and> r_status r \<le> 299"

definition rest_answer :: "rest_env \<Rightarrow> string \<Rightarrow> nat \<Rightarrow> bool \<Rightarrow> rest_exchange \<Rightarrow> jsval result" where
  "rest_answer env label maxBytes absent x =
     (case rx_fetch x of
        Inl e \<Rightarrow> Inl (rest_failure label x e)
      | Inr r \<Rightarrow>
          if absent \<and> r_status r = 404 then Inr JNull
          else if \<not> response_ok r then Inl (NetworkError (label @ '' responded '' @ dec_str (r_status r)))
          else (case readBoundedJson (re_parseJSON env) r maxBytes label of
                  Inl e \<Rightarrow> Inl (rest_failure label x e) | Inr v \<Rightarrow> Inr v))"

section \<open>Neo N3 index\<close>

definition MAX_N3INDEX_RESPONSE_BYTES :: nat where "MAX_N3INDEX_RESPONSE_BYTES = 4 * 1024 * 1024"

definition assertN3IndexNetwork :: "string \<Rightarrow> string result" where
  "assertN3IndexNetwork network =
     (if network \<noteq> ''mainnet'' \<and> network \<noteq> ''testnet'' then invalid ''Unsupported N3 indexer network: '' else Inr network)"

definition n3index_url :: "rest_env \<Rightarrow> string \<Rightarrow> string \<Rightarrow> string result" where
  "n3index_url env network path =
     bindR (configured_base env ''N3 indexer base URL must be an HTTP/HTTPS URL without embedded credentials'' (re_n3indexBase env)) (\<lambda>base.
     Inr (base @ ''/'' @ network @ ''/'' @ clean_path path))"

definition fetchN3Index :: "rest_env \<Rightarrow> string \<Rightarrow> string \<Rightarrow> jsobj \<Rightarrow> jsval fetched" where
  "fetchN3Index env network path params =
     liftH (assertN3IndexNetwork network) (\<lambda>_.
     liftH (n3index_url env network path) (\<lambda>url.
     liftH (get_request env url params) (\<lambda>rq.
     callH rq (rest_answer env ''N3 indexer'' MAX_N3INDEX_RESPONSE_BYTES True (re_net env rq)))))"

section \<open>Neo X explorer\<close>

definition MAX_BLOCKSCOUT_RESPONSE_BYTES :: nat where "MAX_BLOCKSCOUT_RESPONSE_BYTES = 4 * 1024 * 1024"

text \<open>The client's own \<open>resolveNeoxNetwork\<close>: an empty network is refused.\<close>

definition explorer_network :: "jsval \<Rightarrow> string result" where
  "explorer_network network =
     (let normalized = to_lower (trim (or_empty network)) in
      if normalized = ''neox-mainnet'' \<or> normalized = ''mainnet'' then Inr ''neox-mainnet''
      else if normalized = ''neox-testnet'' \<or> normalized = ''testnet'' then Inr ''neox-testnet''
      else invalid ''Invalid Neo X network: '')"

definition explorer_base :: "rest_env \<Rightarrow> string \<Rightarrow> string result" where
  "explorer_base env network =
     (if network = ''neox-testnet'' \<and> \<not> re_testnetEnabled env
      then invalid ''Neo X testnet explorer access is disabled (set NEOX_TESTNET_ENABLED=true to enable).''
      else configured_base env ''Neo X explorer base URL must be an HTTP/HTTPS URL without embedded credentials''
             (if network = ''neox-testnet'' then re_testnetExplorer env else re_mainnetExplorer env))"

definition fetchBlockscout :: "rest_env \<Rightarrow> string \<Rightarrow> string \<Rightarrow> jsobj \<Rightarrow> jsval fetched" where
  "fetchBlockscout env network path params =
     liftH (explorer_base env network) (\<lambda>base.
     liftH (get_request env (base @ ''/api/v2/'' @ clean_path path) params) (\<lambda>rq.
     callH rq (rest_answer env ''Neo X explorer'' MAX_BLOCKSCOUT_RESPONSE_BYTES True (re_net env rq))))"

section \<open>Neo X GraphQL\<close>

definition MAX_BLOCKSCOUT_GRAPHQL_RESPONSE_BYTES :: nat where "MAX_BLOCKSCOUT_GRAPHQL_RESPONSE_BYTES = 4 * 1024 * 1024"

definition MAX_ERROR_MESSAGE_LENGTH :: nat where "MAX_ERROR_MESSAGE_LENGTH = 500"

text \<open>The code unit U+2026 of the ellipsis is outside the model; three full stops stand for it.\<close>

definition formatGraphqlErrors :: "jsval list \<Rightarrow> string" where
  "formatGraphqlErrors errors =
     (let joined = join_with ''; '' (map (\<lambda>e. case member e ''message'' of JStr m \<Rightarrow> m | _ \<Rightarrow> ''unknown error'') errors) in
      if MAX_ERROR_MESSAGE_LENGTH < length joined then take MAX_ERROR_MESSAGE_LENGTH joined @ ''...'' else joined)"

definition graphql_result :: "jsval \<Rightarrow> jsval result" where
  "graphql_result parsed =
     (case (if truthy parsed then member parsed ''errors'' else JUndef) of
        JArr (e # es) \<Rightarrow> Inl (NetworkError (''Neo X explorer GraphQL error: '' @ formatGraphqlErrors (e # es)))
      | _ \<Rightarrow> Inr parsed)"

definition postBlockscoutGraphql :: "rest_env \<Rightarrow> string \<Rightarrow> string \<Rightarrow> jsval option \<Rightarrow> jsval fetched" where
  "postBlockscoutGraphql env network query variables =
     liftH (explorer_base env network) (\<lambda>base.
     let rq = \<lparr>u_verb = ''POST'', u_url = base @ ''/api/v1/graphql'', u_query = [],
               u_body = JObj ([(''query'', JStr query)] @ (case variables of None \<Rightarrow> [] | Some v \<Rightarrow> [(''variables'', v)]))\<rparr> in
     callH rq (bindR (rest_answer env ''Neo X explorer GraphQL'' MAX_BLOCKSCOUT_GRAPHQL_RESPONSE_BYTES False (re_net env rq)) graphql_result))"

section \<open>Indexer calls\<close>

definition MAX_INDEXER_RPC_RESPONSE_BYTES :: nat where "MAX_INDEXER_RPC_RESPONSE_BYTES = 4 * 1024 * 1024"
definition DEFAULT_INDEXER_RPC_TIMEOUT_MS :: int where "DEFAULT_INDEXER_RPC_TIMEOUT_MS = 8000"

definition assertSupportedNetwork :: "string \<Rightarrow> string result" where
  "assertSupportedNetwork network =
     (if network \<noteq> ''mainnet'' \<and> network \<noteq> ''testnet'' then invalid ''Unsupported indexer network: '' else Inr network)"

definition indexer_endpoint :: "rest_env \<Rightarrow> string \<Rightarrow> string result" where
  "indexer_endpoint env network =
     bindR (configured_base env ''Indexer base URL must be an HTTP/HTTPS URL without embedded credentials'' (re_n3indexBase env)) (\<lambda>base.
     Inr (base @ ''/'' @ network))"

text \<open>Errors other than a timeout go through unchanged: here those of the transport are plain errors.\<close>

definition indexer_failure :: "string \<Rightarrow> rest_exchange \<Rightarrow> rpc_failure \<Rightarrow> js_error" where
  "indexer_failure rpc x e =
     (if rx_aborted x \<or> f_name e = ''AbortError''
      then NetworkError (''Indexer RPC '' @ rpc @ '' timed out after '' @ int_str DEFAULT_INDEXER_RPC_TIMEOUT_MS @ ''ms'')
      else GenericError (f_message e))"

definition indexer_network_error :: "string \<Rightarrow> rest_exchange \<Rightarrow> string \<Rightarrow> js_error" where
  "indexer_network_error rpc x m =
     NetworkError (if rx_aborted x then ''Indexer RPC '' @ rpc @ '' timed out after '' @ int_str DEFAULT_INDEXER_RPC_TIMEOUT_MS @ ''ms'' else m)"

definition indexer_envelope :: "string \<Rightarrow> rest_exchange \<Rightarrow> jsval \<Rightarrow> jsval result" where
  "indexer_envelope rpc x envelope =
     (let failure = (if truthy envelope then member envelope ''error'' else JUndef) in
      if truthy failure
      then let code = member failure ''code''; message = member failure ''message'' in
        Inl (indexer_network_error rpc x (''Indexer RPC '' @ rpc @ '' error: ''
          @ (if nullish message then ''unknown error'' else js_String message)
          @ (if code \<noteq> JUndef then '' (code '' @ js_String code @ '')'' else [])))
      else Inr (if nullish envelope then JUndef else member envelope ''result''))"

definition indexer_answer :: "rest_env \<Rightarrow> string \<Rightarrow> rest_exchange \<Rightarrow> jsval result" where
  "indexer_answer env rpc x =
     (case rx_fetch x of
        Inl e \<Rightarrow> Inl (indexer_failure rpc x e)
      | Inr r \<Rightarrow>
          if \<not> response_ok r
          then Inl (indexer_network_error rpc x (''Indexer RPC '' @ rpc @ '' failed ('' @ dec_str (r_status r) @ '')''))
          else (case readBoundedJson (re_parseJSON env) r MAX_INDEXER_RPC_RESPONSE_BYTES ''Indexer RPC'' of
                  Inl e \<Rightarrow> Inl (indexer_failure rpc x e) | Inr v \<Rightarrow> indexer_envelope rpc x v))"

definition callIndexerRpc :: "rest_env \<Rightarrow> string \<Rightarrow> string \<Rightarrow> jsobj \<Rightarrow> jsval fetched" where
  "callIndexerRpc env network rpc params =
     liftH (assertSupportedNetwork network) (\<lambda>_.
     if rpc = [] then giveH (invalid ''Indexer RPC method must be a non-empty string'')
     else liftH (indexer_endpoint env network) (\<lambda>url.
       let rq = \<lparr>u_verb = ''POST'', u_url = url, u_query = [],
                 u_body = JObj [(''jsonrpc'', JStr ''2.0''), (''method'', JStr rpc), (''params'', JObj params)]\<rparr> in
       callH rq (indexer_answer env rpc (re_net env rq))))"

section \<open>Where requests go\<close>

definition trusted_base :: "rest_env \<Rightarrow> string \<Rightarrow> bool" where
  "trusted_base env base \<longleftrightarrow>
     (case re_parseURL env base of
        None \<Rightarrow> False | Some u \<Rightarrow> u_protocol u \<in> {''http:'', ''https:''} \<and> u_username u = [] \<and> u_password u = [])"

lemma configured_base_Inr: "configured_base env m raw = Inr base \<Longrightarrow> base = strip_slashes raw \<and> trusted_base env base"
  by (auto simp: configured_base_def trusted_base_def Let_def split: option.splits if_splits)

definition explorer_raw :: "rest_env \<Rightarrow> string \<Rightarrow> string" where
  "explorer_raw env network = strip_slashes (if network = ''neox-testnet'' then re_testnetExplorer env else re_mainnetExplorer env)"

lemma explorer_base_Inr:
  "explorer_base env network = Inr base \<Longrightarrow>
     base = explorer_raw env network \<and> trusted_base env base \<and> (network = ''neox-testnet'' \<longrightarrow> re_testnetEnabled env)"
  using configured_base_Inr by (fastforce simp: explorer_base_def explorer_raw_def split: if_splits)

text \<open>Where a client may send, as a specification: \<open>is_get\<close> distinguishes the two REST clients.\<close>

definition sent_to :: "upstream_request \<Rightarrow> string \<Rightarrow> string \<Rightarrow> bool" where
  "sent_to rq verb url \<longleftrightarrow> u_verb rq = verb \<and> u_url rq = url"

lemma n3index_requests:
  "rq \<in> set (fst (fetchN3Index env network path params)) \<Longrightarrow>
     (network = ''mainnet'' \<or> network = ''testnet'') \<and> trusted_base env (strip_slashes (re_n3indexBase env))
     \<and> sent_to rq ''GET'' (strip_slashes (re_n3indexBase env) @ ''/'' @ network @ ''/'' @ clean_path path) \<and> u_query rq = query_pairs params"
  by (auto simp: fetchN3Index_def liftH_def callH_def n3index_url_def assertN3IndexNetwork_def get_request_def sent_to_def result_simps
      split: sum.splits if_splits option.splits dest: configured_base_Inr)

lemma blockscout_requests:
  "rq \<in> set (fst (fetchBlockscout env network path params)) \<Longrightarrow>
     trusted_base env (explorer_raw env network) \<and> (network = ''neox-testnet'' \<longrightarrow> re_testnetEnabled env)
     \<and> sent_to rq ''GET'' (explorer_raw env network @ ''/api/v2/'' @ clean_path path) \<and> u_query rq = query_pairs params"
  by (auto simp: fetchBlockscout_def liftH_def callH_def get_request_def sent_to_def
      split: sum.splits option.splits dest: explorer_base_Inr)

lemma graphql_requests:
  "rq \<in> set (fst (postBlockscoutGraphql env network query variables)) \<Longrightarrow>
     trusted_base env (explorer_raw env network) \<and> (network = ''neox-testnet'' \<longrightarrow> re_testnetEnabled env)
     \<and> sent_to rq ''POST'' (explorer_raw env network @ ''/api/v1/graphql'')
     \<and> u_body rq = JObj ([(''query'', JStr query)] @ (case variables of None \<Rightarrow> [] | Some v \<Rightarrow> [(''variables'', v)]))"
  by (auto simp: postBlockscoutGraphql_def liftH_def callH_def sent_to_def Let_def split: sum.splits dest: explorer_base_Inr)

lemma indexer_requests:
  "rq \<in> set (fst (callIndexerRpc env network rpc params)) \<Longrightarrow>
     (network = ''mainnet'' \<or> network = ''testnet'') \<and> trusted_base env (strip_slashes (re_n3indexBase env))
     \<and> sent_to rq ''POST'' (strip_slashes (re_n3indexBase env) @ ''/'' @ network)
     \<and> u_body rq = JObj [(''jsonrpc'', JStr ''2.0''), (''method'', JStr rpc), (''params'', JObj params)]"
  by (auto simp: callIndexerRpc_def liftH_def callH_def giveH_def indexer_endpoint_def assertSupportedNetwork_def sent_to_def Let_def result_simps
      split: sum.splits if_splits dest: configured_base_Inr)

text \<open>A body that was read is no longer than the limit of its client.\<close>

lemma rest_answer_bounded:
  assumes "rest_answer env label maxBytes absent x = Inr v" and "rx_fetch x = Inr r" and "r_body r = Some stream" and "r_status r \<noteq> 404"
  shows "\<exists>bss. stream = map Chunk bss \<and> length (concat bss) \<le> maxBytes \<and> re_parseJSON env (concat bss) = Some v"
proof -
  have "readBoundedJson (re_parseJSON env) r maxBytes label = Inr v"
    using assms by (auto simp: rest_answer_def split: if_splits sum.splits)
  from bounded_body [OF this assms(3)] show ?thesis .
qed

end
