(* ===== verification/IndexerFind.thy ===== *)
theory IndexerFind
  imports Allowlist
begin

text \<open>
  src/indexer/indexer-collections.ts and src/indexer/indexer-find-guard.ts: the collections a
  caller may search and the guard that rebuilds a Mongo-shaped search request field by field.
  The main results: a rebuilt request uses only allowlisted fields, operators and bounds
  (\<open>find_request_vetted\<close>), and guarding it again gives itself (\<open>find_request_stable\<close>).
\<close>

section \<open>The collections\<close>

record collection_descriptor =
  c_rpcMethod :: string
  c_filterFields :: "string list"
  c_sortFields :: "string list"
  c_defaultLimit :: int
  c_maxLimit :: int
  c_summary :: string

definition DEFAULT_LIMIT :: int where "DEFAULT_LIMIT = 20"
definition MAX_LIMIT :: int where "MAX_LIMIT = 100"

definition COLLECTION_CATALOG :: "(string \<times> collection_descriptor) list" where
  "COLLECTION_CATALOG =
    [(''transactions'',
      \<lparr>c_rpcMethod = ''GetTransactionList'',
       c_filterFields = [''hash'', ''sender'', ''blockhash'', ''blockIndex''],
       c_sortFields = [''blockIndex'', ''blocktime''],
       c_defaultLimit = DEFAULT_LIMIT, c_maxLimit = MAX_LIMIT,
       c_summary = ''On-chain transactions. Filter by hash, sender, blockhash, or blockIndex; sort by blockIndex or blocktime.''\<rparr>),
     (''addresses'',
      \<lparr>c_rpcMethod = ''GetAddressList'', c_filterFields = [''address''], c_sortFields = [''firstusetime''],
       c_defaultLimit = DEFAULT_LIMIT, c_maxLimit = MAX_LIMIT,
       c_summary = ''Known accounts. Filter by address; sort by firstusetime.''\<rparr>),
     (''blocks'',
      \<lparr>c_rpcMethod = ''GetBlockInfoList'', c_filterFields = [''hash'', ''index''], c_sortFields = [''index''],
       c_defaultLimit = DEFAULT_LIMIT, c_maxLimit = MAX_LIMIT,
       c_summary = ''Blocks. Filter by hash or index (height); sort by index.''\<rparr>),
     (''contracts'',
      \<lparr>c_rpcMethod = ''GetContractList'', c_filterFields = [''hash''], c_sortFields = [''id''],
       c_defaultLimit = DEFAULT_LIMIT, c_maxLimit = MAX_LIMIT,
       c_summary = ''Deployed contracts. Filter by hash; sort by id.''\<rparr>),
     (''assets'',
      \<lparr>c_rpcMethod = ''GetAssetInfos'', c_filterFields = [''hash''], c_sortFields = [],
       c_defaultLimit = DEFAULT_LIMIT, c_maxLimit = MAX_LIMIT,
       c_summary = ''Token/asset registry. Filter by hash (contract script hash).''\<rparr>)]"

section \<open>The guard\<close>

definition COMPARISON_OPERATORS :: "string list" where
  "COMPARISON_OPERATORS = [''$gt'', ''$gte'', ''$lt'', ''$lte'']"

definition ALLOWED_OPERATORS :: "string list" where
  "ALLOWED_OPERATORS = COMPARISON_OPERATORS @ [''$in'', ''$exists'']"

definition DANGEROUS_KEYS :: "string list" where
  "DANGEROUS_KEYS = [''__proto__'', ''constructor'', ''prototype'']"

definition MAX_IN_ITEMS :: nat where "MAX_IN_ITEMS = 20"
definition MAX_SORT_KEYS :: nat where "MAX_SORT_KEYS = 5"
definition MAX_SCALAR_STRING_LENGTH :: nat where "MAX_SCALAR_STRING_LENGTH = 256"
definition MAX_SKIP :: int where "MAX_SKIP = 10000"

definition SORT_DIRECTIONS :: "(jsval \<times> int) list" where
  "SORT_DIRECTIONS =
     [(JNum (NInt 1), 1), (JNum (NInt (-1)), -1), (JStr ''1'', 1), (JStr ''-1'', -1),
      (JStr ''asc'', 1), (JStr ''ascending'', 1), (JStr ''desc'', -1), (JStr ''descending'', -1)]"

record find_request =
  Filter :: jsobj
  Sort :: "(string \<times> int) list"
  Limit :: int
  Skip :: int

definition assertAllowedCollection :: "jsval \<Rightarrow> collection_descriptor result" where
  "assertAllowedCollection v =
     (case v of
        JStr c \<Rightarrow>
          if c = [] then invalid ''Indexer find collection must be a non-empty string. Permitted collections: ''
          else (case map_of COLLECTION_CATALOG c of
                  Some d \<Rightarrow> Inr d | None \<Rightarrow> invalid (''Indexer find collection '' @ [CHR 0x22]))
      | _ \<Rightarrow> invalid ''Indexer find collection must be a non-empty string. Permitted collections: '')"

fun isScalar :: "jsval \<Rightarrow> bool" where
  "isScalar (JStr s) = True"
| "isScalar (JNum n) = isFinite n"
| "isScalar (JBool b) = True"
| "isScalar _ = False"

definition checkScalar :: "jsval \<Rightarrow> jsval result" where
  "checkScalar v =
     (case v of
        JStr s \<Rightarrow> if MAX_SCALAR_STRING_LENGTH < length s
                  then invalid (''Filter value for '' @ [CHR 0x22]) else Inr v
      | _ \<Rightarrow> Inr v)"

definition in_element :: "jsval \<Rightarrow> jsval result" where
  "in_element v =
     (if isScalar v then checkScalar v
      else invalid (''Operator '' @ [CHR 0x22] @ ''$in'' @ [CHR 0x22] @ '' on field '' @ [CHR 0x22]))"

definition validateOperatorOperand :: "string \<Rightarrow> jsval \<Rightarrow> jsval result" where
  "validateOperatorOperand op operand =
     (if op = ''$exists'' then
        (case operand of
           JBool b \<Rightarrow> Inr operand
         | _ \<Rightarrow> invalid (''Operator '' @ [CHR 0x22] @ ''$exists'' @ [CHR 0x22] @ '' on field '' @ [CHR 0x22]))
      else if op = ''$in'' then
        (case operand of
           JArr vs \<Rightarrow>
             if length vs < 1 \<or> MAX_IN_ITEMS < length vs
             then invalid (''Operator '' @ [CHR 0x22] @ ''$in'' @ [CHR 0x22] @ '' on field '' @ [CHR 0x22])
             else bindR (mapR in_element vs) (\<lambda>ws. Inr (JArr ws))
         | _ \<Rightarrow> invalid (''Operator '' @ [CHR 0x22] @ ''$in'' @ [CHR 0x22] @ '' on field '' @ [CHR 0x22]))
      else if op \<in> set COMPARISON_OPERATORS then
        (case operand of
           JNum n \<Rightarrow> if isFinite n then Inr operand else invalid (''Operator '' @ [CHR 0x22])
         | JStr s \<Rightarrow> checkScalar operand
         | _ \<Rightarrow> invalid (''Operator '' @ [CHR 0x22]))
      else invalid (''Operator '' @ [CHR 0x22]))"

definition operator_member :: "string \<times> jsval \<Rightarrow> (string \<times> jsval) result" where
  "operator_member m =
     (case m of (op, operand) \<Rightarrow>
        if op \<in> set DANGEROUS_KEYS then invalid (''Operator '' @ [CHR 0x22])
        else if \<not> starts_with op ''$'' \<or> op \<notin> set ALLOWED_OPERATORS then invalid (''Operator '' @ [CHR 0x22])
        else bindR (validateOperatorOperand op operand) (\<lambda>v. Inr (op, v)))"

definition validateOperatorObject :: "jsobj \<Rightarrow> jsval result" where
  "validateOperatorObject kvs =
     (if kvs = [] then invalid (''Filter value for '' @ [CHR 0x22])
      else bindR (mapR operator_member kvs) (\<lambda>ms. Inr (JObj ms)))"

definition validateFilterValue :: "jsval \<Rightarrow> jsval result" where
  "validateFilterValue v =
     (if isScalar v then checkScalar v
      else if nullish v then invalid (''Filter value for '' @ [CHR 0x22])
      else case v of
        JArr vs \<Rightarrow> invalid (''Filter value for '' @ [CHR 0x22])
      | JFun \<Rightarrow> invalid (''Filter value for '' @ [CHR 0x22])
      | JRegExp \<Rightarrow> invalid (''Filter value for '' @ [CHR 0x22])
      | _ \<Rightarrow> (case own_props v of
                Some kvs \<Rightarrow> validateOperatorObject kvs
              | None \<Rightarrow> invalid (''Filter value for '' @ [CHR 0x22])))"

definition filter_member :: "collection_descriptor \<Rightarrow> string \<times> jsval \<Rightarrow> (string \<times> jsval) result" where
  "filter_member d m =
     (case m of (key, v) \<Rightarrow>
        if key \<in> set DANGEROUS_KEYS then invalid (''Filter key '' @ [CHR 0x22])
        else if starts_with key ''$'' then invalid (''Filter operator '' @ [CHR 0x22])
        else if key \<notin> set (c_filterFields d) then invalid (''Field '' @ [CHR 0x22])
        else bindR (validateFilterValue v) (\<lambda>w. Inr (key, w)))"

definition buildFilter :: "collection_descriptor \<Rightarrow> jsval \<Rightarrow> jsobj result" where
  "buildFilter d flt =
     bindR (asPlainObject ''Indexer find filter must be an object'' flt) (mapR (filter_member d))"

definition normalizeDirection :: "jsval \<Rightarrow> int result" where
  "normalizeDirection v =
     (case map_of SORT_DIRECTIONS v of
        Some dir \<Rightarrow> Inr dir | None \<Rightarrow> invalid (''Sort direction for '' @ [CHR 0x22]))"

definition sort_member :: "collection_descriptor \<Rightarrow> string \<times> jsval \<Rightarrow> (string \<times> int) result" where
  "sort_member d m =
     (case m of (key, v) \<Rightarrow>
        if key \<in> set DANGEROUS_KEYS \<or> starts_with key ''$'' then invalid (''Sort key '' @ [CHR 0x22])
        else if key \<notin> set (c_sortFields d) then invalid (''Field '' @ [CHR 0x22])
        else bindR (normalizeDirection v) (\<lambda>dir. Inr (key, dir)))"

definition buildSort :: "collection_descriptor \<Rightarrow> jsval \<Rightarrow> (string \<times> int) list result" where
  "buildSort d srt =
     bindR (asPlainObject ''Indexer find sort must be an object'' srt) (\<lambda>kvs.
       if MAX_SORT_KEYS < length kvs then invalid ''Indexer find sort may reference at most ''
       else mapR (sort_member d) kvs)"

definition clampLimit :: "collection_descriptor \<Rightarrow> jsval \<Rightarrow> int result" where
  "clampLimit d limit =
     (if nullish limit then Inr (c_defaultLimit d)
      else bindR (validateInteger limit) (\<lambda>v. Inr (clamp 1 (c_maxLimit d) v)))"

definition clampSkip :: "jsval \<Rightarrow> int result" where
  "clampSkip skip =
     (if nullish skip then Inr 0 else bindR (validateInteger skip) (\<lambda>v. Inr (clamp 0 MAX_SKIP v)))"

definition validateFind :: "jsval \<Rightarrow> jsval \<Rightarrow> jsval \<Rightarrow> jsval \<Rightarrow> jsval \<Rightarrow> find_request result" where
  "validateFind collection flt srt limit skip =
     bindR (assertAllowedCollection collection) (\<lambda>d.
     bindR (buildFilter d flt) (\<lambda>f.
     bindR (buildSort d srt) (\<lambda>s.
     bindR (clampLimit d limit) (\<lambda>l.
     bindR (clampSkip skip) (\<lambda>k.
       Inr \<lparr>Filter = f, Sort = s, Limit = l, Skip = k\<rparr>)))))"

section \<open>What a vetted request looks like\<close>

text \<open>
  The policy, stated on the shape of the request alone: a scalar is a finite number, a boolean
  or a text of at most 256 characters; an operator takes the operand of its kind.
\<close>

fun scalar_ok :: "jsval \<Rightarrow> bool" where
  "scalar_ok (JStr s) = (length s \<le> 256)"
| "scalar_ok (JNum n) = isFinite n"
| "scalar_ok (JBool b) = True"
| "scalar_ok _ = False"

fun operator_ok :: "string \<times> jsval \<Rightarrow> bool" where
  "operator_ok (op, JArr vs) = (op = ''$in'' \<and> vs \<noteq> [] \<and> length vs \<le> 20 \<and> list_all scalar_ok vs)"
| "operator_ok (op, JBool b) = (op = ''$exists'')"
| "operator_ok (op, v) = (op \<in> {''$gt'', ''$gte'', ''$lt'', ''$lte''} \<and> scalar_ok v)"

fun filter_value_ok :: "jsval \<Rightarrow> bool" where
  "filter_value_ok (JObj ops) = (ops \<noteq> [] \<and> list_all operator_ok ops)"
| "filter_value_ok v = scalar_ok v"

lemma checkScalar_Inr: "isScalar v \<Longrightarrow> checkScalar v = Inr w \<longleftrightarrow> w = v \<and> scalar_ok v"
  by (cases v) (auto simp: checkScalar_def MAX_SCALAR_STRING_LENGTH_def)

lemma scalar_ok_isScalar: "scalar_ok v \<Longrightarrow> isScalar v"
  by (cases v) auto

lemma in_element_Inr: "in_element v = Inr w \<longleftrightarrow> w = v \<and> scalar_ok v"
  using scalar_ok_isScalar by (auto simp: in_element_def checkScalar_Inr)

lemma mapR_in_element: "mapR in_element vs = Inr ws \<longleftrightarrow> ws = vs \<and> list_all scalar_ok vs"
  by (induction vs arbitrary: ws) (auto simp: result_simps in_element_Inr)

lemmas operator_names = COMPARISON_OPERATORS_def ALLOWED_OPERATORS_def DANGEROUS_KEYS_def starts_with_def

lemma operand_Inr:
  "op \<in> set ALLOWED_OPERATORS \<Longrightarrow> validateOperatorOperand op v = Inr w \<longleftrightarrow> w = v \<and> operator_ok (op, v)"
  by (cases v)
    (auto simp: validateOperatorOperand_def operator_names checkScalar_Inr mapR_in_element result_simps
      MAX_IN_ITEMS_def Suc_le_eq not_less split: if_splits)

lemma operator_ok_allowed: "operator_ok (op, v) \<Longrightarrow> op \<in> set ALLOWED_OPERATORS"
  by (cases v) (auto simp: operator_names)

lemma allowed_names: "op \<in> set ALLOWED_OPERATORS \<Longrightarrow> starts_with op ''$'' \<and> op \<notin> set DANGEROUS_KEYS"
  by (auto simp: operator_names)

lemma operator_member_Inr: "operator_member m = Inr n \<longleftrightarrow> n = m \<and> operator_ok m"
proof (cases m)
  case (Pair op v)
  show ?thesis
  proof (cases "op \<in> set ALLOWED_OPERATORS")
    case True
    with allowed_names [OF this] Pair show ?thesis
      by (auto simp: operator_member_def operand_Inr result_simps)
  next
    case False
    with operator_ok_allowed Pair show ?thesis by (auto simp: operator_member_def)
  qed
qed

lemma mapR_operator_member: "mapR operator_member kvs = Inr ms \<longleftrightarrow> ms = kvs \<and> list_all operator_ok kvs"
  by (induction kvs arbitrary: ms) (auto simp: result_simps operator_member_Inr)

lemma filter_value_form: "validateFilterValue v = Inr w \<Longrightarrow> filter_value_ok w"
  by (cases v)
    (auto simp: validateFilterValue_def validateOperatorObject_def checkScalar_Inr mapR_operator_member
      result_simps split: if_splits)

lemma filter_value_fix: "filter_value_ok v \<Longrightarrow> validateFilterValue v = Inr v"
  by (cases v)
    (auto simp: validateFilterValue_def validateOperatorObject_def checkScalar_Inr mapR_operator_member
      result_simps)

definition policy_ok :: "collection_descriptor \<Rightarrow> bool" where
  "policy_ok d \<longleftrightarrow> 1 \<le> c_defaultLimit d \<and> c_defaultLimit d \<le> c_maxLimit d \<and> c_maxLimit d \<le> 100"

lemma collection_policy: "map_of COLLECTION_CATALOG key = Some d \<Longrightarrow> policy_ok d"
  by (drule map_of_SomeD) (auto simp: COLLECTION_CATALOG_def policy_ok_def DEFAULT_LIMIT_def MAX_LIMIT_def)

lemma assertAllowedCollection_Inr:
  "assertAllowedCollection c = Inr d \<longleftrightarrow> (\<exists>key. c = JStr key \<and> key \<noteq> [] \<and> map_of COLLECTION_CATALOG key = Some d)"
  by (cases c) (auto simp: assertAllowedCollection_def split: option.splits)

lemma filter_member_Inr:
  "filter_member d m = Inr n \<longleftrightarrow> fst n = fst m \<and> fst m \<in> set (c_filterFields d) \<and> fst m \<notin> set DANGEROUS_KEYS
     \<and> \<not> starts_with (fst m) ''$'' \<and> validateFilterValue (snd m) = Inr (snd n)"
  by (cases m; cases n) (auto simp: filter_member_def result_simps)

lemma sort_member_Inr:
  "sort_member d m = Inr n \<longleftrightarrow> fst n = fst m \<and> fst m \<in> set (c_sortFields d) \<and> fst m \<notin> set DANGEROUS_KEYS
     \<and> \<not> starts_with (fst m) ''$'' \<and> normalizeDirection (snd m) = Inr (snd n)"
  by (cases m; cases n) (auto simp: sort_member_def result_simps)

lemma direction_form: "normalizeDirection v = Inr dir \<Longrightarrow> dir \<in> {1, -1} \<and> normalizeDirection (JNum (NInt dir)) = Inr dir"
  by (auto simp: normalizeDirection_def SORT_DIRECTIONS_def split: option.splits if_splits)

lemma validateFind_Inr:
  "validateFind c f s l k = Inr r \<longleftrightarrow> (\<exists>d. assertAllowedCollection c = Inr d \<and> buildFilter d f = Inr (Filter r)
     \<and> buildSort d s = Inr (Sort r) \<and> clampLimit d l = Inr (Limit r) \<and> clampSkip k = Inr (Skip r))"
  by (cases r) (auto simp: validateFind_def result_simps)

lemma limit_form: "policy_ok d \<Longrightarrow> clampLimit d l = Inr n \<Longrightarrow> 1 \<le> n \<and> n \<le> c_maxLimit d"
  by (auto simp: clampLimit_def policy_ok_def clamp_def result_simps split: if_splits)

lemma skip_form: "clampSkip k = Inr n \<Longrightarrow> 0 \<le> n \<and> n \<le> 10000"
  by (auto simp: clampSkip_def clamp_def MAX_SKIP_def result_simps split: if_splits)

lemma validateInteger_fix: "0 \<le> n \<Longrightarrow> n \<le> 10000 \<Longrightarrow> validateInteger (JNum (NInt n)) = Inr n"
  by (simp add: validateInteger_def maxSafeInteger_def)

lemma limit_fix: "policy_ok d \<Longrightarrow> 1 \<le> n \<Longrightarrow> n \<le> c_maxLimit d \<Longrightarrow> clampLimit d (JNum (NInt n)) = Inr n"
  by (simp add: clampLimit_def validateInteger_fix policy_ok_def clamp_def)

lemma skip_fix: "0 \<le> n \<Longrightarrow> n \<le> 10000 \<Longrightarrow> clampSkip (JNum (NInt n)) = Inr n"
  by (simp add: clampSkip_def validateInteger_fix clamp_def MAX_SKIP_def)

lemma filter_form:
  assumes "buildFilter d f = Inr out"
  shows "list_all (\<lambda>(key, v). key \<in> set (c_filterFields d) \<and> filter_value_ok v) out \<and> buildFilter d (JObj out) = Inr out"
proof -
  from assms obtain kvs where m: "mapR (filter_member d) kvs = Inr out" by (auto simp: buildFilter_def result_simps)
  have member: "filter_member d x = Inr x \<and> fst x \<in> set (c_filterFields d) \<and> filter_value_ok (snd x)" if x: "x \<in> set out" for x
    using mapR_Inr_in [OF m x] filter_value_form filter_value_fix by (auto simp: filter_member_Inr)
  then have "mapR (filter_member d) out = Inr out"
    by (induction out) (auto simp: result_simps)
  with member show ?thesis by (auto simp: list_all_iff buildFilter_def asPlainObject_def)
qed

definition sort_obj :: "(string \<times> int) list \<Rightarrow> jsval" where
  "sort_obj s = JObj (map (\<lambda>(key, dir). (key, JNum (NInt dir))) s)"

lemma sort_form:
  assumes "buildSort d srt = Inr out"
  shows "list_all (\<lambda>(key, dir). key \<in> set (c_sortFields d) \<and> dir \<in> {1, -1}) out \<and> length out \<le> 5
    \<and> buildSort d (sort_obj out) = Inr out"
proof -
  from assms obtain kvs where m: "mapR (sort_member d) kvs = Inr out" and len: "length kvs \<le> 5"
    by (auto simp: buildSort_def result_simps MAX_SORT_KEYS_def not_less)
  have member: "sort_member d (fst x, JNum (NInt (snd x))) = Inr x \<and> fst x \<in> set (c_sortFields d) \<and> snd x \<in> {1, -1}"
    if x: "x \<in> set out" for x
    using mapR_Inr_in [OF m x] direction_form by (fastforce simp: sort_member_Inr)
  then have "mapR (sort_member d) (map (\<lambda>(key, dir). (key, JNum (NInt dir))) out) = Inr out"
    by (induction out) (auto simp: result_simps split: prod.splits)
  moreover have "length out \<le> 5" using mapR_Inr_length [OF m] len by simp
  moreover have "list_all (\<lambda>(key, dir). key \<in> set (c_sortFields d) \<and> dir \<in> {1, -1}) out"
    unfolding list_all_iff using member by fastforce
  ultimately show ?thesis by (simp add: buildSort_def sort_obj_def asPlainObject_def MAX_SORT_KEYS_def)
qed

section \<open>Properties\<close>

text \<open>
  Whatever a caller sends, a search request that leaves the guard names an allowlisted
  collection, filters and sorts only on the fields listed for it, carries only scalars of
  bounded size and the six allowed operators one level deep, and asks for a bounded window.
\<close>

lemma find_request_vetted:
  assumes "validateFind c f s l k = Inr r"
  shows "\<exists>key d. c = JStr key \<and> map_of COLLECTION_CATALOG key = Some d
    \<and> list_all (\<lambda>(key, v). key \<in> set (c_filterFields d) \<and> filter_value_ok v) (Filter r)
    \<and> list_all (\<lambda>(key, dir). key \<in> set (c_sortFields d) \<and> dir \<in> {1, -1}) (Sort r) \<and> length (Sort r) \<le> 5
    \<and> 1 \<le> Limit r \<and> Limit r \<le> 100 \<and> 0 \<le> Skip r \<and> Skip r \<le> 10000"
proof -
  from assms obtain key d where d: "c = JStr key" "map_of COLLECTION_CATALOG key = Some d"
    and parts: "buildFilter d f = Inr (Filter r)" "buildSort d s = Inr (Sort r)"
      "clampLimit d l = Inr (Limit r)" "clampSkip k = Inr (Skip r)"
    by (auto simp: validateFind_Inr assertAllowedCollection_Inr)
  have ok: "policy_ok d" using collection_policy d by blast
  then have "c_maxLimit d \<le> 100" by (simp add: policy_ok_def)
  with d filter_form [OF parts(1)] sort_form [OF parts(2)] limit_form [OF ok parts(3)] skip_form [OF parts(4)]
  show ?thesis by (intro exI [of _ key] exI [of _ d]) simp
qed

definition demo_filter :: jsval where
  "demo_filter = JObj [(''blockIndex'', JObj [(''$gte'', JNum (NInt 10)), (''$in'', JArr [JNum (NInt 12)])])]"

lemma find_request_vetted_witness:
  "1 \<le> Limit \<lparr>Filter = [(''blockIndex'', JObj [(''$gte'', JNum (NInt 10)), (''$in'', JArr [JNum (NInt 12)])])],
     Sort = [(''blocktime'', -1)], Limit = 100, Skip = 0\<rparr>"
proof -
  have "validateFind (JStr ''transactions'') demo_filter (JObj [(''blocktime'', JStr ''desc'')]) (JStr ''5000'') JNull
    = Inr \<lparr>Filter = [(''blockIndex'', JObj [(''$gte'', JNum (NInt 10)), (''$in'', JArr [JNum (NInt 12)])])],
        Sort = [(''blocktime'', -1)], Limit = 100, Skip = 0\<rparr>" by code_simp
  from find_request_vetted [OF this] show ?thesis by blast
qed

text \<open>
  Guarding a vetted request again returns the same request, so nothing the guard lets
  through depends on how the caller wrote it.
\<close>

lemma find_request_stable:
  assumes "validateFind c f s l k = Inr r"
  shows "validateFind c (JObj (Filter r)) (sort_obj (Sort r)) (JNum (NInt (Limit r))) (JNum (NInt (Skip r))) = Inr r"
proof -
  from assms obtain key d where c: "assertAllowedCollection c = Inr d" and d: "map_of COLLECTION_CATALOG key = Some d"
    and parts: "buildFilter d f = Inr (Filter r)" "buildSort d s = Inr (Sort r)"
      "clampLimit d l = Inr (Limit r)" "clampSkip k = Inr (Skip r)"
    by (auto simp: validateFind_Inr assertAllowedCollection_Inr)
  have ok: "policy_ok d" using collection_policy d by blast
  from limit_form [OF ok parts(3)] skip_form [OF parts(4)]
  have "clampLimit d (JNum (NInt (Limit r))) = Inr (Limit r)" "clampSkip (JNum (NInt (Skip r))) = Inr (Skip r)"
    by (simp_all add: limit_fix [OF ok] skip_fix)
  with c filter_form [OF parts(1)] sort_form [OF parts(2)] show ?thesis by (auto simp: validateFind_Inr)
qed

lemma find_request_stable_witness:
  "validateFind (JStr ''assets'') (JObj []) (sort_obj []) (JNum (NInt 20)) (JNum (NInt 0))
     = Inr \<lparr>Filter = [], Sort = [], Limit = 20, Skip = 0\<rparr>"
proof -
  have "validateFind (JStr ''assets'') JUndef JNull JUndef JUndef = Inr \<lparr>Filter = [], Sort = [], Limit = 20, Skip = 0\<rparr>"
    by code_simp
  from find_request_stable [OF this] show ?thesis by simp
qed

lemma mapR_Inl_from:
  "x \<in> set xs \<Longrightarrow> f x = Inl e \<Longrightarrow> (\<And>y e. f y = Inl e \<Longrightarrow> \<exists>m. e = ValidationError m)
     \<Longrightarrow> \<exists>m. mapR f xs = Inl (ValidationError m)"
proof (induction xs)
  case (Cons y ys)
  show ?case
  proof (cases "f y")
    case (Inl e')
    with Cons.prems(3) show ?thesis by auto
  next
    case (Inr b)
    with Cons show ?thesis by (auto simp: result_simps)
  qed
qed simp

lemma operand_Inl: "validateOperatorOperand op v = Inl e \<Longrightarrow> \<exists>m. e = ValidationError m"
proof -
  have el: "mapR in_element vs = Inl e \<Longrightarrow> \<exists>m. e = ValidationError m" for vs
    by (induction vs) (auto simp: in_element_def checkScalar_def result_simps split: if_splits jsval.splits)
  assume "validateOperatorOperand op v = Inl e"
  then show ?thesis
    by (cases v) (auto simp: validateOperatorOperand_def checkScalar_def result_simps dest: el split: if_splits)
qed

lemma filter_member_Inl: "filter_member d m = Inl e \<Longrightarrow> \<exists>t. e = ValidationError t"
proof -
  have ops: "mapR operator_member kvs = Inl e \<Longrightarrow> \<exists>t. e = ValidationError t" for kvs
    by (induction kvs) (auto simp: operator_member_def result_simps dest: operand_Inl split: if_splits)
  have "validateFilterValue v = Inl e \<Longrightarrow> \<exists>t. e = ValidationError t" for v
    by (cases v) (auto simp: validateFilterValue_def validateOperatorObject_def checkScalar_def result_simps
      dest: ops split: if_splits)
  then show "filter_member d m = Inl e \<Longrightarrow> \<exists>t. e = ValidationError t"
    by (cases m) (auto simp: filter_member_def result_simps split: if_splits)
qed

text \<open>
  A filter with a key outside the field list of its collection is refused with a
  validation error: a logical operator such as \<open>$or\<close> or \<open>$where\<close>, a nested path or a key of
  the object prototype never reaches the indexer.
\<close>

lemma find_rejects_field:
  assumes "map_of COLLECTION_CATALOG key = Some d" "key \<noteq> []" "(field, v) \<in> set kvs" "field \<notin> set (c_filterFields d)"
  shows "\<exists>m. validateFind (JStr key) (JObj kvs) s l k = Inl (ValidationError m)"
proof -
  have "\<exists>e. filter_member d (field, v) = Inl e" using assms(4) by (auto simp: filter_member_def)
  then obtain m where "mapR (filter_member d) kvs = Inl (ValidationError m)"
    using mapR_Inl_from [OF assms(3)] filter_member_Inl by metis
  then have "buildFilter d (JObj kvs) = Inl (ValidationError m)" by (simp add: buildFilter_def asPlainObject_def)
  moreover have "assertAllowedCollection (JStr key) = Inr d" using assms(1,2) by (simp add: assertAllowedCollection_Inr)
  ultimately show ?thesis by (simp add: validateFind_def)
qed

lemma find_rejects_field_witness:
  "\<exists>m. validateFind (JStr ''blocks'') (JObj [(''hash'', JStr ''0x1''), (''$or'', JArr [])]) JUndef JUndef JUndef
     = Inl (ValidationError m)"
proof -
  let ?d = "the (map_of COLLECTION_CATALOG ''blocks'')"
  have "map_of COLLECTION_CATALOG ''blocks'' = Some ?d" "''blocks'' \<noteq> []" "''$or'' \<notin> set (c_filterFields ?d)"
    by code_simp+
  from find_rejects_field [OF this(1,2) _ this(3)] show ?thesis by simp
qed

end
