(* ===== verification/N3RestCatalog.thy ===== *)
theory N3RestCatalog
  imports Allowlist
begin

text \<open>
  src/indexer/n3-rest-catalog.ts: the registry of read-only n3index REST endpoints, entry by
  entry, in the groups of the source.
\<close>

datatype n3_path_type = N3_n3Address | N3_scriptHash | N3_txid | N3_blockRef

datatype n3_query_type = N3_int | N3_string | N3_txids

type_synonym n3_endpoint = "(n3_path_type, n3_query_type) endpoint"

definition n3_ADDRESS_PARAM :: "string \<times> n3_path_type" where "n3_ADDRESS_PARAM = (''address'', N3_n3Address)"
definition n3_HASH_PARAM :: "string \<times> n3_path_type" where "n3_HASH_PARAM = (''hash'', N3_scriptHash)"
definition n3_TXID_PARAM :: "string \<times> n3_path_type" where "n3_TXID_PARAM = (''txid'', N3_txid)"
definition n3_BLOCK_PARAM :: "string \<times> n3_path_type" where "n3_BLOCK_PARAM = (''blockRef'', N3_blockRef)"

definition n3_q :: "n3_query_type \<Rightarrow> n3_query_type query_spec" where
  "n3_q t = \<lparr> q_type = t, q_values = None, q_required = False \<rparr>"

definition n3_pagination :: "(string \<times> n3_query_type query_spec) list" where
  "n3_pagination = [(''limit'', n3_q N3_int), (''offset'', n3_q N3_int)]"

section \<open>The entries\<close>

definition n3_chain_wide_summary_lists :: "(string \<times> n3_endpoint) list" where
  "n3_chain_wide_summary_lists = [
     (''network_summary'', \<lparr> e_pathTemplate = ''summary'', e_pathParam = None,
        e_queryParams = None,
        e_category = ''summary'',
        e_summary = ''Chain-wide summary (height, totals, headline stats) for the network.'' \<rparr>),
     (''list_blocks'', \<lparr> e_pathTemplate = ''blocks'', e_pathParam = None,
        e_queryParams = Some n3_pagination,
        e_category = ''block'',
        e_summary = ''Recent Neo N3 blocks, newest first.'' \<rparr>),
     (''list_transactions'', \<lparr> e_pathTemplate = ''transactions'', e_pathParam = None,
        e_queryParams = Some n3_pagination,
        e_category = ''transaction'',
        e_summary = ''Recent Neo N3 transactions, newest first.'' \<rparr>),
     (''list_tokens'', \<lparr> e_pathTemplate = ''tokens'', e_pathParam = None,
        e_queryParams = Some n3_pagination,
        e_category = ''token'',
        e_summary = ''Token registry (NEP-17 / NEP-11), newest/most-active first.'' \<rparr>),
     (''list_contracts'', \<lparr> e_pathTemplate = ''contracts'', e_pathParam = None,
        e_queryParams = Some n3_pagination,
        e_category = ''contract'',
        e_summary = ''Deployed contract registry, newest first.'' \<rparr>),
     (''list_candidate_voters'', \<lparr> e_pathTemplate = ''governance/voters'', e_pathParam = None,
        e_queryParams = Some (n3_pagination @ [(''candidate'', (n3_q N3_string)\<lparr> q_required := True \<rparr>)]),
        e_category = ''governance'',
        e_summary = (''Governance voters for one candidate, by that candidate'' @ [CHR 0x27] @ ''s 33-byte compressed public key (66 hex chars).'') \<rparr>),
     (''list_validators'', \<lparr> e_pathTemplate = ''metadata/validators'', e_pathParam = None,
        e_queryParams = Some [(''limit'', n3_q N3_int)],
        e_category = ''governance'',
        e_summary = ''Consensus validators and governance candidates with their public keys and addresses. Use a public key from here as the `candidate` for list_candidate_voters.'' \<rparr>),
     (''analytics_daily'', \<lparr> e_pathTemplate = ''analytics/daily'', e_pathParam = None,
        e_queryParams = Some n3_pagination,
        e_category = ''analytics'',
        e_summary = ''Daily on-chain analytics series (transactions, addresses, transfers per day).'' \<rparr>),
     (''search'', \<lparr> e_pathTemplate = ''search'', e_pathParam = None,
        e_queryParams = Some [(''q'', (n3_q N3_string)\<lparr> q_required := True \<rparr>)],
        e_category = ''search'',
        e_summary = ''Global search across blocks, transactions, addresses, tokens, and contracts.'' \<rparr>),
     (''network_status'', \<lparr> e_pathTemplate = ''status'', e_pathParam = None,
        e_queryParams = None,
        e_category = ''summary'',
        e_summary = ''Indexer health: whether it is ready, the last indexed block vs the chain tip, and the lag between them.'' \<rparr>),
     (''analyze_consensus_health'', \<lparr> e_pathTemplate = ''consensus/health'', e_pathParam = None,
        e_queryParams = Some [(''lookback'', n3_q N3_int), (''streak_threshold'', n3_q N3_int), (''duration_threshold_s'', n3_q N3_int), (''max_data_age_s'', n3_q N3_int), (''max_clock_skew_s'', n3_q N3_int)],
        e_category = ''summary'',
        e_summary = ''Deterministic Neo dBFT consensus health: expected-primary misses, view-change streaks, actual producers, data freshness, validator metadata provenance, and an evidence-bound narrative summary.'' \<rparr>)]"

definition n3_naming_metadata :: "(string \<times> n3_endpoint) list" where
  "n3_naming_metadata = [
     (''list_nns_domains'', \<lparr> e_pathTemplate = ''nns/domains'', e_pathParam = None,
        e_queryParams = Some n3_pagination,
        e_category = ''address'',
        e_summary = ''Registered NNS domain names and the addresses they resolve to.'' \<rparr>),
     (''list_address_labels'', \<lparr> e_pathTemplate = ''metadata/addresses'', e_pathParam = None,
        e_queryParams = Some [(''limit'', n3_q N3_int), (''addresses'', n3_q N3_string)],
        e_category = ''address'',
        e_summary = ''Known-address labels (exchange, project, and service names). Optionally filter to specific addresses with a comma-separated `addresses` list.'' \<rparr>),
     (''list_contract_labels'', \<lparr> e_pathTemplate = ''metadata/contracts'', e_pathParam = None,
        e_queryParams = Some [(''limit'', n3_q N3_int), (''hashes'', n3_q N3_string)],
        e_category = ''contract'',
        e_summary = ''Known-contract labels (display name, symbol, logo, source). Optionally filter to specific script hashes with a comma-separated `hashes` list.'' \<rparr>)]"

definition n3_by_block :: "(string \<times> n3_endpoint) list" where
  "n3_by_block = [
     (''get_block'', \<lparr> e_pathTemplate = ''blocks/{blockRef}'', e_pathParam = Some n3_BLOCK_PARAM,
        e_queryParams = None,
        e_category = ''block'',
        e_summary = ''A single block by height (index) or block hash.'' \<rparr>)]"

definition n3_by_transaction :: "(string \<times> n3_endpoint) list" where
  "n3_by_transaction = [
     (''get_transaction'', \<lparr> e_pathTemplate = ''transactions/{txid}'', e_pathParam = Some n3_TXID_PARAM,
        e_queryParams = None,
        e_category = ''transaction'',
        e_summary = ''A single transaction (signers, witnesses, system/network fees) by its hash.'' \<rparr>),
     (''analyze_transaction'', \<lparr> e_pathTemplate = ''transactions/{txid}/analysis'', e_pathParam = Some n3_TXID_PARAM,
        e_queryParams = None,
        e_category = ''transaction'',
        e_summary = ''Deterministic transaction analysis with stable evidence IDs, exact GAS fees, grouped fund flows, evidence-backed participant identities, conservative VM failure classification, code-based findings, and bounded events.'' \<rparr>),
     (''investigate_transactions'', \<lparr> e_pathTemplate = ''investigations/transactions'', e_pathParam = None,
        e_queryParams = Some [(''txids'', (n3_q N3_txids)\<lparr> q_required := True \<rparr>)],
        e_category = ''transaction'',
        e_summary = ''Bounded multi-transaction investigation with a stable evidence-set ID, chronological timeline, observed asset-transfer relationships, exact amounts, and explicit sampling boundaries.'' \<rparr>)]"

definition n3_by_account :: "(string \<times> n3_endpoint) list" where
  "n3_by_account = [
     (''get_address_summary'', \<lparr> e_pathTemplate = ''accounts/{address}'', e_pathParam = Some n3_ADDRESS_PARAM,
        e_queryParams = None,
        e_category = ''address'',
        e_summary = ''Account summary (first/last seen, balances count, activity) for an address.'' \<rparr>),
     (''analyze_address'', \<lparr> e_pathTemplate = ''accounts/{address}/intelligence'', e_pathParam = Some n3_ADDRESS_PARAM,
        e_queryParams = Some [(''sample'', n3_q N3_int), (''limit'', n3_q N3_int)],
        e_category = ''address'',
        e_summary = ''Evidence-backed account identity, bounded transfer relationships, co-signers, contract interactions, behavior signals, confidence, and sample boundaries.'' \<rparr>),
     (''analyze_account_graph'', \<lparr> e_pathTemplate = ''accounts/{address}/graph'', e_pathParam = Some n3_ADDRESS_PARAM,
        e_queryParams = Some [(''limit'', n3_q N3_int)],
        e_category = ''address'',
        e_summary = ''Versioned full-history observed transfer graph with ranked counterparties, exact per-asset flows, curated identity metadata, and explicit materialization coverage boundaries.'' \<rparr>),
     (''analyze_address_connection'', \<lparr> e_pathTemplate = ''accounts/{address}/connection'', e_pathParam = Some n3_ADDRESS_PARAM,
        e_queryParams = Some [(''target'', (n3_q N3_string)\<lparr> q_required := True \<rparr>), (''sample'', n3_q N3_int), (''limit'', n3_q N3_int)],
        e_category = ''address'',
        e_summary = ''Bounded evidence connecting two accounts through direct transfers, co-signed transactions, or shared counterparties. A negative result is not exhaustive.'' \<rparr>),
     (''list_address_balances'', \<lparr> e_pathTemplate = ''accounts/{address}/balances'', e_pathParam = Some n3_ADDRESS_PARAM,
        e_queryParams = Some n3_pagination,
        e_category = ''address'',
        e_summary = ''Current token balances held by an address.'' \<rparr>),
     (''list_address_transactions'', \<lparr> e_pathTemplate = ''accounts/{address}/transactions'', e_pathParam = Some n3_ADDRESS_PARAM,
        e_queryParams = Some n3_pagination,
        e_category = ''address'',
        e_summary = ''Transactions involving an address, newest first.'' \<rparr>),
     (''list_address_transfers'', \<lparr> e_pathTemplate = ''accounts/{address}/transfers'', e_pathParam = Some n3_ADDRESS_PARAM,
        e_queryParams = Some n3_pagination,
        e_category = ''address'',
        e_summary = ''Token transfers involving an address, newest first.'' \<rparr>)]"

definition n3_by_token :: "(string \<times> n3_endpoint) list" where
  "n3_by_token = [
     (''get_token'', \<lparr> e_pathTemplate = ''tokens/{hash}'', e_pathParam = Some n3_HASH_PARAM,
        e_queryParams = None,
        e_category = ''token'',
        e_summary = ''Token metadata (symbol, decimals, supply, holder count) by script hash.'' \<rparr>),
     (''list_token_holders'', \<lparr> e_pathTemplate = ''tokens/{hash}/holders'', e_pathParam = Some n3_HASH_PARAM,
        e_queryParams = Some n3_pagination,
        e_category = ''token'',
        e_summary = ''Holders (and balances) of a token contract by script hash.'' \<rparr>)]"

definition n3_by_contract :: "(string \<times> n3_endpoint) list" where
  "n3_by_contract = [
     (''get_contract'', \<lparr> e_pathTemplate = ''contracts/{hash}'', e_pathParam = Some n3_HASH_PARAM,
        e_queryParams = None,
        e_category = ''contract'',
        e_summary = ''Contract manifest / metadata by script hash.'' \<rparr>),
     (''analyze_contract'', \<lparr> e_pathTemplate = ''contracts/{hash}/analysis'', e_pathParam = Some n3_HASH_PARAM,
        e_queryParams = None,
        e_category = ''contract'',
        e_summary = ''Deterministic contract analysis with stable evidence IDs for ABI methods, events, manifest permissions and trusts, NEF call tokens, update state, declared source metadata, and conservative code-based findings.'' \<rparr>),
     (''analyze_contract_upgrades'', \<lparr> e_pathTemplate = ''contracts/{hash}/upgrades'', e_pathParam = Some n3_HASH_PARAM,
        e_queryParams = None,
        e_category = ''contract'',
        e_summary = ''Immutable contract-version artifacts, historical coverage, and deterministic ABI compatibility changes. Storage compatibility is reported as unknown, never inferred.'' \<rparr>),
     (''get_contract_source_verification'', \<lparr> e_pathTemplate = ''contracts/{hash}/source-verification'', e_pathParam = Some n3_HASH_PARAM,
        e_queryParams = None,
        e_category = ''contract'',
        e_summary = ''Reproducible source records for immutable contract versions, including exact source bundle, compiler settings, manifest, NEF, binary, and script hashes. Historical verification never verifies a newer current version.'' \<rparr>),
     (''inspect_contract_code'', \<lparr> e_pathTemplate = ''contracts/{hash}/opcodes'', e_pathParam = Some n3_HASH_PARAM,
        e_queryParams = Some n3_pagination,
        e_category = ''contract'',
        e_summary = ''Paginated deterministic NeoVM disassembly with stable opcode evidence IDs, ABI method ownership, bounded operands, syscall names, and static control-flow targets.'' \<rparr>),
     (''list_contract_calls'', \<lparr> e_pathTemplate = ''contracts/{hash}/calls'', e_pathParam = Some n3_HASH_PARAM,
        e_queryParams = Some n3_pagination,
        e_category = ''contract'',
        e_summary = ''Recent invocations of a contract by script hash, newest first.'' \<rparr>),
     (''list_contract_notifications'', \<lparr> e_pathTemplate = ''contracts/{hash}/notifications'', e_pathParam = Some n3_HASH_PARAM,
        e_queryParams = Some n3_pagination,
        e_category = ''contract'',
        e_summary = ''Recent notifications (events) emitted by a contract, newest first.'' \<rparr>),
     (''list_contract_events'', \<lparr> e_pathTemplate = ''contracts/{hash}/events'', e_pathParam = Some n3_HASH_PARAM,
        e_queryParams = Some (n3_pagination @ [(''event_name'', n3_q N3_string), (''tx_hash'', n3_q N3_string), (''block_height'', n3_q N3_int)]),
        e_category = ''contract'',
        e_summary = ''Decoded events emitted by a contract, filterable by event name, transaction hash, or block height.'' \<rparr>)]"

definition N3_REST_CATALOG :: "(string \<times> n3_endpoint) list" where
  "N3_REST_CATALOG = n3_chain_wide_summary_lists @ n3_naming_metadata @ n3_by_block @ n3_by_transaction @ n3_by_account @ n3_by_token @ n3_by_contract"

text \<open>
  \<open>renderN3EndpointSignatures\<close>: each endpoint as \<open>key(param, param)\<close>.
\<close>

definition renderN3EndpointSignatures :: string where
  "renderN3EndpointSignatures = join_with '', ''
     (map (\<lambda>(key, d). key @ ''('' @ join_with '', '' (declared_keys d) @ '')'') N3_REST_CATALOG)"

section \<open>Well-formedness\<close>

text \<open>
  A well-formed endpoint: its template has exactly the placeholder of its path parameter, and
  a page bound is always an integer parameter.
\<close>

definition n3_endpoint_ok :: "n3_endpoint \<Rightarrow> bool" where
  "n3_endpoint_ok d \<longleftrightarrow> template_ok d \<and> distinct (declared_keys d) \<and>
     (case e_queryParams d of None \<Rightarrow> True | Some qs \<Rightarrow>
        list_all (\<lambda>(k, q). k \<in> {''limit'', ''offset''} \<longrightarrow> q_type q = N3_int) qs)"

lemma n3_chain_wide_summary_lists_ok: "list_all (\<lambda>(k, d). n3_endpoint_ok d) n3_chain_wide_summary_lists"
  by code_simp

lemma n3_naming_metadata_ok: "list_all (\<lambda>(k, d). n3_endpoint_ok d) n3_naming_metadata"
  by code_simp

lemma n3_by_block_ok: "list_all (\<lambda>(k, d). n3_endpoint_ok d) n3_by_block"
  by code_simp

lemma n3_by_transaction_ok: "list_all (\<lambda>(k, d). n3_endpoint_ok d) n3_by_transaction"
  by code_simp

lemma n3_by_account_ok: "list_all (\<lambda>(k, d). n3_endpoint_ok d) n3_by_account"
  by code_simp

lemma n3_by_token_ok: "list_all (\<lambda>(k, d). n3_endpoint_ok d) n3_by_token"
  by code_simp

lemma n3_by_contract_ok: "list_all (\<lambda>(k, d). n3_endpoint_ok d) n3_by_contract"
  by code_simp

lemma n3_catalog_ok: "(k, d) \<in> set N3_REST_CATALOG \<Longrightarrow> n3_endpoint_ok d"
  using n3_chain_wide_summary_lists_ok n3_naming_metadata_ok n3_by_block_ok n3_by_transaction_ok n3_by_account_ok n3_by_token_ok n3_by_contract_ok
  unfolding N3_REST_CATALOG_def by (auto simp only: list_all_iff set_append Un_iff split_paired_all)

lemma n3_catalog_keys: "distinct (map fst N3_REST_CATALOG)"
  by code_simp

end
