(* ===== verification/N3RestGuard.thy ===== *)
theory N3RestGuard
  imports N3RestCatalog
begin

text \<open>
  src/indexer/n3-rest-guard.ts: the guard of the Neo N3 analytical tools, a pure function of
  the endpoint registry. A request is a fixed path template with at most one validated
  segment, and query parameters from the endpoint's own list. \<open>ia\<close> and \<open>sh\<close> are the neon-js
  functions that \<open>validateAddress\<close> takes as parameters.
\<close>

section \<open>The guard\<close>

definition assertAllowedN3Endpoint :: "jsval \<Rightarrow> n3_endpoint result" where
  "assertAllowedN3Endpoint v =
     (case v of
        JStr e \<Rightarrow>
          if e = [] then invalid ''Neo N3 query endpoint must be a non-empty string. Permitted endpoints: ''
          else (case map_of N3_REST_CATALOG e of
                  Some d \<Rightarrow> Inr d | None \<Rightarrow> invalid (''Neo N3 query endpoint '' @ [CHR 0x22]))
      | _ \<Rightarrow> invalid ''Neo N3 query endpoint must be a non-empty string. Permitted endpoints: '')"

text \<open>\<open>SAFE_PATH_SEGMENT\<close>\<close>

definition n3_safe_segment :: "string \<Rightarrow> bool" where
  "n3_safe_segment s \<longleftrightarrow>
     (starts_with s ''0x'' \<and> 2 < length s \<and> list_all is_hex (drop 2 s)) \<or> all_digits s \<or> alnum34 s"

definition validateN3BlockRef :: "jsval \<Rightarrow> string result" where
  "validateN3BlockRef v =
     (case v of
        JNum n \<Rightarrow> bindR (validateInteger v) (\<lambda>i. Inr (int_str i))
      | JStr s \<Rightarrow>
          if s = [] then invalid ''Block reference must be a non-empty string or number''
          else if all_digits (trim s) then bindR (validateInteger (JStr (trim s))) (\<lambda>i. Inr (int_str i))
          else validateHash (JStr (trim s))
      | _ \<Rightarrow> invalid ''Block reference must be a non-empty string or number'')"

definition validateN3PathSegment ::
    "(string \<Rightarrow> bool) \<Rightarrow> (string \<Rightarrow> string option) \<Rightarrow> n3_path_type \<Rightarrow> jsval \<Rightarrow> string result" where
  "validateN3PathSegment ia sh t v =
     (case t of
        N3_n3Address \<Rightarrow> validateAddress ia sh v
      | N3_scriptHash \<Rightarrow> validateScriptHash v
      | N3_txid \<Rightarrow> validateHash v
      | N3_blockRef \<Rightarrow> validateN3BlockRef v)"

definition n3_buildPath ::
    "(string \<Rightarrow> bool) \<Rightarrow> (string \<Rightarrow> string option) \<Rightarrow> n3_endpoint \<Rightarrow> jsobj \<Rightarrow> string result" where
  "n3_buildPath ia sh d source =
     resolve_path (validateN3PathSegment ia sh) n3_safe_segment ''Neo N3 endpoint path is not fully resolved: ''
       (e_pathTemplate d) (e_pathParam d) source"

definition query_msg :: string where
  "query_msg = ''Query parameter '' @ [CHR 0x22]"

definition clampInteger :: "string \<Rightarrow> int \<Rightarrow> int" where
  "clampInteger key n = (if key = ''limit'' then min n 100 else if key = ''offset'' then min n 10000 else n)"

text \<open>The comma-separated parts of the given texts, trimmed, empty ones dropped.\<close>

definition txid_parts :: "jsval list \<Rightarrow> string list result" where
  "txid_parts vs =
     bindR (mapR (\<lambda>v. case v of
         JStr s \<Rightarrow> Inr (filter (\<lambda>h. h \<noteq> []) (map trim (split_on CHR '','' s)))
       | _ \<Rightarrow> invalid query_msg) vs)
     (\<lambda>parts. Inr (concat parts))"

definition canonical_txid :: "string \<Rightarrow> string result" where
  "canonical_txid h =
     bindR (validateHash (JStr (if starts_with (to_lower h) ''0x'' then ''0x'' @ drop 2 h else h)))
       (\<lambda>x. Inr (to_lower x))"

definition validate_txids :: "jsval \<Rightarrow> string result" where
  "validate_txids v =
     bindR (txid_parts (case v of JArr vs \<Rightarrow> vs | _ \<Rightarrow> [v])) (\<lambda>hashes.
     if length hashes < 1 \<or> 12 < length hashes then invalid query_msg
     else bindR (mapR canonical_txid hashes) (\<lambda>hs. Inr (join_with '','' (sort (remdups hs)))))"

definition n3_validateQueryValue :: "string \<Rightarrow> n3_query_type query_spec \<Rightarrow> jsval \<Rightarrow> jsval result" where
  "n3_validateQueryValue key q v =
     (case q_type q of
        N3_int \<Rightarrow>
          (case v of
             JNum n \<Rightarrow> bindR (validateInteger v) (\<lambda>i. Inr (JNum (NInt (clampInteger key i))))
           | JStr s \<Rightarrow> bindR (validateInteger v) (\<lambda>i. Inr (JNum (NInt (clampInteger key i))))
           | _ \<Rightarrow> invalid query_msg)
      | N3_txids \<Rightarrow> bindR (validate_txids v) (\<lambda>t. Inr (JStr t))
      | N3_string \<Rightarrow>
          (case v of
             JStr s \<Rightarrow> bindR (sanitizeString v) (\<lambda>t.
               if length t < 1 \<or> 256 < length t then invalid query_msg else Inr (JStr t))
           | _ \<Rightarrow> invalid query_msg))"

definition n3_buildQueryParams :: "n3_endpoint \<Rightarrow> jsobj \<Rightarrow> jsobj result" where
  "n3_buildQueryParams d source =
     (case e_queryParams d of None \<Rightarrow> Inr [] | Some qs \<Rightarrow> collect_query n3_validateQueryValue qs source)"

definition buildN3EndpointRequest ::
    "(string \<Rightarrow> bool) \<Rightarrow> (string \<Rightarrow> string option) \<Rightarrow> n3_endpoint \<Rightarrow> jsval \<Rightarrow> (string \<times> jsobj) result" where
  "buildN3EndpointRequest ia sh d input =
     build_request (n3_buildPath ia sh) n3_buildQueryParams ''Neo N3 query params must be an object'' d input"

section \<open>Segments are safe\<close>

lemma n3_safe_alnum: "n3_safe_segment s \<Longrightarrow> s \<noteq> [] \<and> list_all is_alnum s"
  using hex_0x_alnum all_digits_alnum by (auto simp: n3_safe_segment_def alnum34_def)

lemma validateInteger_text: "validateInteger v = Inr i \<Longrightarrow> all_digits (int_str i)"
  by (auto simp: validateInteger_def int_str_def split: jsval.splits jsnum.splits if_splits)

lemma hash_safe: "validateHash v = Inr h \<Longrightarrow> n3_safe_segment h" "validateScriptHash v = Inr h \<Longrightarrow> n3_safe_segment h"
  by (auto simp: validateHash_def validateScriptHash_def n3_safe_segment_def starts_with_def split: jsval.splits if_splits)

lemma n3_validated_safe:
  assumes "validateN3PathSegment ia sh t v = Inr s"
  shows "n3_safe_segment s"
proof (cases t)
  case N3_n3Address
  with assms have "alnum34 s"
    by (auto simp: validateN3PathSegment_def validateAddress_def split: jsval.splits if_splits)
  then show ?thesis by (simp add: n3_safe_segment_def)
next
  case N3_blockRef
  with assms show ?thesis
    by (auto simp: validateN3PathSegment_def validateN3BlockRef_def result_simps n3_safe_segment_def [of "int_str _"]
        intro: hash_safe dest: validateInteger_text split: jsval.splits if_splits)
qed (use assms hash_safe in \<open>auto simp: validateN3PathSegment_def\<close>)

interpretation n3_guard: segment_guard "validateN3PathSegment ia sh" n3_safe_segment for ia sh
  by unfold_locales (use n3_validated_safe n3_safe_alnum in blast)+

lemma assertAllowedN3_in: "assertAllowedN3Endpoint v = Inr d \<Longrightarrow> \<exists>k. v = JStr k \<and> (k, d) \<in> set N3_REST_CATALOG"
  by (auto simp: assertAllowedN3Endpoint_def dest: map_of_SomeD split: jsval.splits option.splits if_splits)

lemma n3_request_parts:
  assumes "buildN3EndpointRequest ia sh d input = Inr (path, params)"
  obtains source where "asPlainObject ''Neo N3 query params must be an object'' input = Inr source"
    and "fst ` set source \<subseteq> set (declared_keys d) \<union> {''network'', ''endpoint'', ''params''}"
    and "n3_buildPath ia sh d source = Inr path" and "n3_buildQueryParams d source = Inr params"
  using assms by (auto simp: buildN3EndpointRequest_def build_request_def result_simps reject_unknown_Inr)


section \<open>Query values\<close>

lemma canonical_txid_form: "canonical_txid h = Inr x \<Longrightarrow> hex_0x 64 x \<and> to_lower x = x"
  using hex_0x_lower [of 64]
  by (auto simp: canonical_txid_def result_simps validateHash_def hex_0x_def starts_with_def
      split: jsval.splits if_splits)

lemma hex_0x_no_comma: "hex_0x n s \<Longrightarrow> CHR '','' \<notin> set s \<and> \<not> list_ex is_ws s \<and> s \<noteq> []"
proof -
  assume "hex_0x n s"
  then have "s \<noteq> [] \<and> list_all is_alnum s" by (intro hex_0x_alnum) (simp_all add: hex_0x_def)
  then show ?thesis
    by (auto simp: list_all_iff list_ex_iff is_alnum_def is_alpha_def is_digit_def is_ws_def cc_def)
qed

lemma canonical_txid_fix: "hex_0x 64 x \<Longrightarrow> to_lower x = x \<Longrightarrow> canonical_txid x = Inr x"
proof -
  assume x: "hex_0x 64 x" "to_lower x = x"
  have "x = ''0x'' @ drop 2 x" using x(1) starts_withD [of x "''0x''"] by (simp add: hex_0x_def numeral_2_eq_2)
  moreover have "validateHash (JStr x) = Inr (''0x'' @ drop 2 x)"
    using x(1) by (auto simp: validateHash_def strip_0x_def hex_0x_def)
  ultimately show ?thesis using x by (simp add: canonical_txid_def hex_0x_def)
qed

lemma mapR_fix: "(\<And>x. x \<in> set xs \<Longrightarrow> f x = Inr x) \<Longrightarrow> mapR f xs = Inr xs"
  by (induction xs) auto

lemma mapR_length_ge: "mapR f xs = Inr ys \<Longrightarrow> length (remdups ys) \<le> length xs"
  using mapR_Inr_length [of f xs ys] length_remdups_leq [of ys] by simp

text \<open>
  An investigation is sent as a canonical set: one to twelve transaction hashes, each in
  lower-case \<open>0x\<close> form, without repetition, in order, separated by commas. Validating the
  text again changes nothing, so the order and form of the caller's hashes do not matter.
\<close>

lemma n3_txids_canonical:
  assumes "validate_txids v = Inr t"
  shows "\<exists>hs. t = join_with '','' hs \<and> sorted hs \<and> distinct hs \<and> 1 \<le> length hs \<and> length hs \<le> 12
    \<and> list_all (hex_0x 64) hs \<and> list_all (\<lambda>h. to_lower h = h) hs \<and> validate_txids (JStr t) = Inr t"
proof -
  from assms obtain hashes hs where m: "mapR canonical_txid hashes = Inr hs"
    and len: "hashes \<noteq> []" "length hashes \<le> 12" and t: "t = join_with '','' (sort (remdups hs))"
    by (auto simp: validate_txids_def result_simps not_less split: if_splits)
  let ?s = "sort (remdups hs)"
  have form: "hex_0x 64 x \<and> to_lower x = x" if "x \<in> set ?s" for x
    using mapR_Inr_in [OF m, of x] canonical_txid_form that by auto
  have "hs \<noteq> []" using mapR_Inr_length [OF m] len by auto
  then have ne: "?s \<noteq> []" by (metis set_sort set_remdups set_empty)
  have le: "length ?s \<le> 12" using mapR_length_ge [OF m] len by simp
  have "split_on CHR '','' t = ?s"
    unfolding t using form hex_0x_no_comma ne by (intro split_join) blast+
  moreover have "map trim ?s = ?s" using form hex_0x_no_comma by (intro map_idI) (blast intro: trim_id)
  moreover have "filter (\<lambda>h. h \<noteq> []) ?s = ?s" using form hex_0x_no_comma by (auto simp: filter_id_conv)
  ultimately have "txid_parts [JStr t] = Inr ?s" by (simp add: txid_parts_def)
  moreover have "mapR canonical_txid ?s = Inr ?s" using form canonical_txid_fix by (intro mapR_fix) blast
  ultimately have "validate_txids (JStr t) = Inr (join_with '','' (sort (remdups ?s)))"
    using le ne by (simp add: validate_txids_def Suc_le_eq not_less)
  then have "validate_txids (JStr t) = Inr t" by (simp add: t distinct_remdups_id sorted_sort_id)
  then show ?thesis using t form le ne
    by (intro exI [of _ ?s]) (auto simp: list_all_iff Suc_le_eq)
qed

lemma n3_query_value_bounds:
  assumes "n3_validateQueryValue key q v = Inr (JNum (NInt n))"
  shows "0 \<le> n \<and> (key = ''limit'' \<longrightarrow> n \<le> 100) \<and> (key = ''offset'' \<longrightarrow> n \<le> 10000)"
proof -
  from assms obtain i where "validateInteger v = Inr i" "n = clampInteger key i"
    by (auto simp: n3_validateQueryValue_def result_simps split: n3_query_type.splits jsval.splits if_splits)
  then show ?thesis by (auto simp: clampInteger_def validateInteger_def split: jsval.splits jsnum.splits if_splits)
qed

section \<open>Properties\<close>

text \<open>
  C11: no server-side request forgery. The path of every request is the template of a listed
  endpoint with at most one segment filled in, by letters and digits only; it has as many
  separators as the template and no character that could leave the route.
\<close>

theorem n3_request_confined:
  assumes "assertAllowedN3Endpoint v = Inr d" "buildN3EndpointRequest ia sh d input = Inr (path, params)"
  shows "(path = e_pathTemplate d \<or> (\<exists>before key seg after. e_pathTemplate d = before @ placeholder key @ after
      \<and> path = before @ seg @ after \<and> seg \<noteq> [] \<and> list_all is_alnum seg))
    \<and> list_all path_char path \<and> count_list path CHR ''/'' = count_list (e_pathTemplate d) CHR ''/''"
proof -
  have ok: "template_ok d"
    using assertAllowedN3_in [OF assms(1)] n3_catalog_ok by (auto simp: n3_endpoint_ok_def)
  from assms(2) obtain source where b: "n3_buildPath ia sh d source = Inr path" by (rule n3_request_parts)
  note shape = n3_guard.resolve_path_shape [OF b [unfolded n3_buildPath_def] ok]
  note plain = n3_guard.resolve_path_plain [OF b [unfolded n3_buildPath_def] ok]
  show ?thesis
  proof (cases "e_pathParam d")
    case None
    with shape plain show ?thesis by simp
  next
    case (Some kt)
    obtain key t where "kt = (key, t)" by (cases kt)
    with Some shape plain show ?thesis by auto
  qed
qed

definition demo_endpoint :: n3_endpoint where
  "demo_endpoint = the (map_of N3_REST_CATALOG ''list_token_holders'')"

definition demo_request :: jsval where
  "demo_request = JObj [(''hash'', JStr (replicate 40 CHR ''A'')), (''limit'', JNum (NInt 5000))]"

lemma demo_endpoint_allowed: "assertAllowedN3Endpoint (JStr ''list_token_holders'') = Inr demo_endpoint"
  by code_simp

lemma demo_request_built:
  "buildN3EndpointRequest (\<lambda>_. False) (\<lambda>_. None) demo_endpoint demo_request =
     Inr (''tokens/0x'' @ replicate 40 CHR ''A'' @ ''/holders'', [(''limit'', JNum (NInt 100))])"
  by code_simp

lemma n3_request_confined_witness:
  "list_all path_char (''tokens/0x'' @ replicate 40 CHR ''A'' @ ''/holders'')"
  using n3_request_confined [OF demo_endpoint_allowed demo_request_built] by blast

text \<open>
  The query parameters of a request are declared by the endpoint, no other key of the
  caller was present, and a limit is at most 100, an offset at most 10000.
\<close>

lemma n3_query_declared:
  assumes "assertAllowedN3Endpoint v = Inr d" "buildN3EndpointRequest ia sh d input = Inr (path, params)"
    and "own_props input = Some kvs" "\<not> nullish input"
  shows "fst ` set kvs \<subseteq> set (declared_keys d) \<union> {''network'', ''endpoint'', ''params''}
    \<and> (\<forall>(k, w) \<in> set params. k \<in> set (declared_keys d) \<and> k \<in> fst ` set kvs
        \<and> (k = ''limit'' \<longrightarrow> (\<exists>n. w = JNum (NInt n) \<and> 0 \<le> n \<and> n \<le> 100))
        \<and> (k = ''offset'' \<longrightarrow> (\<exists>n. w = JNum (NInt n) \<and> 0 \<le> n \<and> n \<le> 10000)))"
proof -
  have ok: "n3_endpoint_ok d" using assertAllowedN3_in [OF assms(1)] n3_catalog_ok by blast
  from assms(2) obtain source where src: "asPlainObject ''Neo N3 query params must be an object'' input = Inr source"
    and keys: "fst ` set source \<subseteq> set (declared_keys d) \<union> {''network'', ''endpoint'', ''params''}"
    and q: "n3_buildQueryParams d source = Inr params" by (rule n3_request_parts)
  have kvs: "source = kvs" using src assms(3,4) by (simp add: asPlainObject_def)
  have "k \<in> set (declared_keys d) \<and> k \<in> fst ` set kvs
        \<and> (k = ''limit'' \<longrightarrow> (\<exists>n. w = JNum (NInt n) \<and> 0 \<le> n \<and> n \<le> 100))
        \<and> (k = ''offset'' \<longrightarrow> (\<exists>n. w = JNum (NInt n) \<and> 0 \<le> n \<and> n \<le> 10000))" if "(k, w) \<in> set params" for k w
  proof -
    from q that obtain qs where qs: "e_queryParams d = Some qs" "collect_query n3_validateQueryValue qs source = Inr params"
      by (auto simp: n3_buildQueryParams_def split: option.splits)
    from collect_query_in [OF qs(2) that] obtain spec where spec: "(k, spec) \<in> set qs" "\<not> nullish (oget source k)"
      "n3_validateQueryValue k spec (oget source k) = Inr w" by blast
    have "k \<in> set (declared_keys d)" using spec(1) qs(1) by (force simp: declared_keys_def)
    moreover have "k \<in> fst ` set kvs" using spec(2) oget_notin [of k kvs] kvs by force
    moreover have "\<exists>n. w = JNum (NInt n)" if "k \<in> {''limit'', ''offset''}"
    proof -
      have "q_type spec = N3_int" using ok qs(1) spec(1) that by (auto simp: n3_endpoint_ok_def list_all_iff)
      with spec(3) show ?thesis by (auto simp: n3_validateQueryValue_def result_simps split: jsval.splits)
    qed
    ultimately show ?thesis using spec(3) n3_query_value_bounds by blast
  qed
  with keys kvs show ?thesis by blast
qed

lemma n3_query_declared_witness:
  "{''hash'', ''limit''} \<subseteq> set (declared_keys demo_endpoint) \<union> {''network'', ''endpoint'', ''params''}"
proof -
  have "own_props demo_request = Some [(''hash'', JStr (replicate 40 CHR ''A'')), (''limit'', JNum (NInt 5000))]"
    "\<not> nullish demo_request" by (simp_all add: demo_request_def)
  from n3_query_declared [OF demo_endpoint_allowed demo_request_built this] show ?thesis by simp
qed

lemma n3_txids_canonical_witness:
  "\<exists>hs. ''0x'' @ replicate 64 CHR ''a'' @ '',0x'' @ replicate 64 CHR ''b'' = join_with '','' hs \<and> sorted hs \<and> length hs \<le> 12"
proof -
  have "validate_txids (JArr [JStr (replicate 64 CHR ''B''), JStr (''0X'' @ replicate 64 CHR ''a'' @ '' , 0x'' @ replicate 64 CHR ''b'')])
      = Inr (''0x'' @ replicate 64 CHR ''a'' @ '',0x'' @ replicate 64 CHR ''b'')" by code_simp
  from n3_txids_canonical [OF this] show ?thesis by blast
qed

end
