(* ===== verification/GraphqlGuard.thy ===== *)
theory GraphqlGuard
  imports Allowlist
begin

text \<open>
  src/indexer/blockscout-graphql-guard.ts: the lexical envelope around GraphQL documents. The
  guard blanks strings and comments and then scans name tokens and braces.

  The main results: what an accepted document cannot contain (\<open>graphql_envelope\<close>); the guard's
  lexing agrees with that of the GraphQL specification on documents without a lone carriage
  return or an escaped block quote (\<open>graphql_reads_as_lexed\<close>); with a carriage return it does
  not (\<open>graphql_comment_ends_early\<close>).
\<close>

section \<open>The guard\<close>

definition MAX_GRAPHQL_QUERY_LENGTH :: nat where "MAX_GRAPHQL_QUERY_LENGTH = 4000"
definition MAX_GRAPHQL_DEPTH :: nat where "MAX_GRAPHQL_DEPTH = 8"
definition MAX_GRAPHQL_FIELDS :: nat where "MAX_GRAPHQL_FIELDS = 120"
definition MAX_GRAPHQL_VARIABLES_BYTES :: nat where "MAX_GRAPHQL_VARIABLES_BYTES = 8 * 1024"
definition MAX_GRAPHQL_VARIABLES_DEPTH :: nat where "MAX_GRAPHQL_VARIABLES_DEPTH = 8"

abbreviation quote :: char where "quote \<equiv> CHR 0x22"
abbreviation backslash :: char where "backslash \<equiv> CHR 0x5C"

definition triple :: string where "triple = [quote, quote, quote]"

text \<open>What follows a block string, a string and a comment whose opening was read.\<close>

fun after_block :: "string \<Rightarrow> string" where
  "after_block [] = []"
| "after_block (c # cs) = (if starts_with (c # cs) triple then drop 2 cs else after_block cs)"

fun after_string :: "string \<Rightarrow> string" where
  "after_string [] = []"
| "after_string [c] = []"
| "after_string (c # d # cs) =
     (if c = quote then d # cs
      else if c = backslash then after_string cs
      else after_string (d # cs))"

fun after_comment :: "string \<Rightarrow> string" where
  "after_comment [] = []"
| "after_comment (c # cs) = (if c = CHR 0x0A then c # cs else after_comment cs)"

lemma after_block_length [termination_simp]: "length (after_block s) \<le> length s"
  by (induction s) auto

lemma after_string_length [termination_simp]: "length (after_string s) \<le> length s"
  by (induction s rule: after_string.induct) auto

lemma after_comment_length [termination_simp]: "length (after_comment s) \<le> length s"
  by (induction s) auto

function stripStringsAndComments :: "string \<Rightarrow> string" where
  "stripStringsAndComments [] = []"
| "stripStringsAndComments (c # cs) =
     (if starts_with (c # cs) triple then CHR '' '' # stripStringsAndComments (after_block (drop 2 cs))
      else if c = quote then CHR '' '' # stripStringsAndComments (after_string cs)
      else if c = CHR ''#'' then CHR '' '' # stripStringsAndComments (after_comment cs)
      else c # stripStringsAndComments cs)"
  by pat_completeness auto
termination
proof (relation "measure length", goal_cases)
  case (2 c cs)
  have "length (after_block (drop 2 cs)) \<le> length cs" by (rule le_trans [OF after_block_length]) simp
  then show ?case by simp
qed (auto simp: less_Suc_eq_le after_string_length after_comment_length)

text \<open>\<open>NAME_TOKEN\<close> and \<open>matchAll\<close>: the maximal names, left to right.\<close>

definition name_start :: "char \<Rightarrow> bool" where
  "name_start c \<longleftrightarrow> is_alpha c \<or> c = CHR ''_''"

definition name_char :: "char \<Rightarrow> bool" where
  "name_char c \<longleftrightarrow> name_start c \<or> is_digit c"

function name_tokens :: "string \<Rightarrow> string list" where
  "name_tokens [] = []"
| "name_tokens (c # cs) =
     (if name_start c then (c # takeWhile name_char cs) # name_tokens (dropWhile name_char cs)
      else name_tokens cs)"
  by pat_completeness auto
termination
  by (relation "measure length") (auto simp: less_Suc_eq_le length_dropWhile_le)

definition FORBIDDEN_OPERATIONS :: "string list" where
  "FORBIDDEN_OPERATIONS = [''mutation'', ''subscription'']"

definition assertNoForbiddenOperation :: "string \<Rightarrow> unit result" where
  "assertNoForbiddenOperation structural =
     (if list_ex (\<lambda>t. t \<in> set FORBIDDEN_OPERATIONS) (name_tokens structural)
      then invalid (''GraphQL '' @ [quote]) else Inr ())"

text \<open>The source message goes on with a character outside the model (an ellipsis).\<close>

definition assertNoDirectives :: "string \<Rightarrow> unit result" where
  "assertNoDirectives structural =
     (if CHR ''@'' \<in> set structural then invalid ''GraphQL directives (@''
      else if ''directive'' \<in> set (name_tokens structural)
      then invalid ''GraphQL directive definitions are not allowed.'' else Inr ())"

fun scan_fields :: "nat \<Rightarrow> string list \<Rightarrow> unit result" where
  "scan_fields fieldCount [] = Inr ()"
| "scan_fields fieldCount (t # ts) =
     (if starts_with t ''__'' \<and> t \<noteq> ''__typename''
      then invalid (''GraphQL introspection is not allowed (reserved field '' @ [quote])
      else if MAX_GRAPHQL_FIELDS < fieldCount + 1 then invalid ''GraphQL query is too complex (> ''
      else scan_fields (fieldCount + 1) ts)"

definition assertNoIntrospectionAndBoundFields :: "string \<Rightarrow> unit result" where
  "assertNoIntrospectionAndBoundFields structural = scan_fields 0 (name_tokens structural)"

fun scan_depth :: "nat \<Rightarrow> nat \<Rightarrow> string \<Rightarrow> unit result" where
  "scan_depth depth maxDepth [] = Inr ()"
| "scan_depth depth maxDepth (c # cs) =
     (if c = CHR ''{'' then
        (if MAX_GRAPHQL_DEPTH < max maxDepth (depth + 1)
         then invalid ''GraphQL query nesting is too deep (> ''
         else scan_depth (depth + 1) (max maxDepth (depth + 1)) cs)
      else if c = CHR ''}'' then scan_depth (depth - 1) maxDepth cs
      else scan_depth depth maxDepth cs)"

definition assertBoundedDepth :: "string \<Rightarrow> unit result" where
  "assertBoundedDepth structural = scan_depth 0 0 structural"

fun assertJsonValue :: "nat \<Rightarrow> jsval \<Rightarrow> unit result" where
  "assertJsonValue depth (JArr vs) =
     (if MAX_GRAPHQL_VARIABLES_DEPTH < depth then invalid ''GraphQL variables nesting is too deep (> ''
      else bindR (mapR (assertJsonValue (depth + 1)) vs) (\<lambda>_. Inr ()))"
| "assertJsonValue depth (JObj kvs) =
     (if MAX_GRAPHQL_VARIABLES_DEPTH < depth then invalid ''GraphQL variables nesting is too deep (> ''
      else bindR (mapR (\<lambda>(k, v). assertJsonValue (depth + 1) v) kvs) (\<lambda>_. Inr ()))"
| "assertJsonValue depth (JInst kvs) =
     (if MAX_GRAPHQL_VARIABLES_DEPTH < depth then invalid ''GraphQL variables nesting is too deep (> ''
      else bindR (mapR (\<lambda>(k, v). assertJsonValue (depth + 1) v) kvs) (\<lambda>_. Inr ()))"
| "assertJsonValue depth (JToJson kvs w) =
     (if MAX_GRAPHQL_VARIABLES_DEPTH < depth then invalid ''GraphQL variables nesting is too deep (> ''
      else bindR (mapR (\<lambda>(k, v). assertJsonValue (depth + 1) v) kvs) (\<lambda>_. Inr ()))"
| "assertJsonValue depth (JBytes bs) =
     (if MAX_GRAPHQL_VARIABLES_DEPTH < depth \<or> (bs \<noteq> [] \<and> MAX_GRAPHQL_VARIABLES_DEPTH < depth + 1)
      then invalid ''GraphQL variables nesting is too deep (> '' else Inr ())"
| "assertJsonValue depth v =
     (if MAX_GRAPHQL_VARIABLES_DEPTH < depth then invalid ''GraphQL variables nesting is too deep (> ''
      else case v of
        JFun \<Rightarrow> invalid ''GraphQL variables must not contain ''
      | JSym \<Rightarrow> invalid ''GraphQL variables must not contain ''
      | JBig i \<Rightarrow> invalid ''GraphQL variables must not contain ''
      | _ \<Rightarrow> Inr ())"

text \<open>\<open>JSON.stringify\<close>: the text of the value that reading it back gives.\<close>

definition stringify :: "jsval \<Rightarrow> string option result" where
  "stringify v = bindR (jsonRoundTrip v) (\<lambda>w. Inr (map_option jprint w))"

definition validateVariables :: "jsval \<Rightarrow> jsval option result" where
  "validateVariables v =
     (if nullish v then Inr None
      else case own_props v of
        None \<Rightarrow> invalid ''GraphQL variables must be a plain JSON object.''
      | Some kvs \<Rightarrow>
          bindR (assertJsonValue 0 v) (\<lambda>_.
          case stringify v of
            Inl e \<Rightarrow> invalid ''GraphQL variables must be JSON-serializable.''
          | Inr None \<Rightarrow> invalid ''GraphQL variables must be a plain JSON object.''
          | Inr (Some s) \<Rightarrow>
              if MAX_GRAPHQL_VARIABLES_BYTES < length s then invalid ''GraphQL variables are too large (''
              else Inr (Some v)))"

definition validateGraphqlQuery :: "jsval \<Rightarrow> jsval \<Rightarrow> (string \<times> jsval option) result" where
  "validateGraphqlQuery query variables =
     (case query of
        JStr q \<Rightarrow>
          if trim q = [] then invalid ''GraphQL query must be a non-empty string.''
          else if MAX_GRAPHQL_QUERY_LENGTH < length q then invalid ''GraphQL query is too large (''
          else let structural = stripStringsAndComments q in
            bindR (assertNoForbiddenOperation structural) (\<lambda>_.
            bindR (assertNoDirectives structural) (\<lambda>_.
            bindR (assertNoIntrospectionAndBoundFields structural) (\<lambda>_.
            bindR (assertBoundedDepth structural) (\<lambda>_.
            bindR (validateVariables variables) (\<lambda>v. Inr (q, v))))))
      | _ \<Rightarrow> invalid ''GraphQL query must be a non-empty string.'')"

section \<open>What the scans establish\<close>

lemma scan_fields_Inr:
  "scan_fields n ts = Inr u \<Longrightarrow> n \<le> 120 \<Longrightarrow>
     list_all (\<lambda>t. starts_with t ''__'' \<longrightarrow> t = ''__typename'') ts \<and> n + length ts \<le> 120"
proof (induction ts arbitrary: n)
  case (Cons t ts)
  from Cons.prems have "scan_fields (n + 1) ts = Inr u" "n + 1 \<le> 120" "starts_with t ''__'' \<longrightarrow> t = ''__typename''"
    by (auto simp: MAX_GRAPHQL_FIELDS_def split: if_splits)
  with Cons.IH [of "n + 1"] show ?case by simp
qed simp

text \<open>The depth the scan has after a text, from any depth, is at least its surplus of openings.\<close>

lemma scan_depth_prefix:
  "scan_depth d m (w @ b) = Inr u \<Longrightarrow> d \<le> 8 \<Longrightarrow> d + count_list w (CHR ''{'') \<le> count_list w (CHR ''}'') + 8"
proof (induction w arbitrary: d m)
  case (Cons c w)
  consider "c = CHR ''{''" | "c = CHR ''}''" | "c \<noteq> CHR ''{'' \<and> c \<noteq> CHR ''}''" by blast
  then show ?case
  proof cases
    case 1
    with Cons.prems have "scan_depth (d + 1) (max m (d + 1)) (w @ b) = Inr u" "d + 1 \<le> 8"
      by (auto simp: MAX_GRAPHQL_DEPTH_def split: if_splits)
    with Cons.IH [of "d + 1"] 1 show ?thesis by simp
  next
    case 2
    with Cons.prems have "scan_depth (d - 1) m (w @ b) = Inr u" "d - 1 \<le> 8" by auto
    from Cons.IH [OF this] have "d \<le> 1 + count_list w (CHR ''}'') + 8 - count_list w (CHR ''{'')" by linarith
    with Cons.IH [OF \<open>scan_depth (d - 1) m (w @ b) = Inr u\<close> \<open>d - 1 \<le> 8\<close>] 2 show ?thesis by simp
  next
    case 3
    with Cons.prems Cons.IH [of d m] show ?thesis by (auto split: if_splits)
  qed
qed simp

lemma scan_depth_suffix: "scan_depth d m (a @ s) = Inr u \<Longrightarrow> d \<le> 8 \<Longrightarrow> \<exists>d' m'. d' \<le> 8 \<and> scan_depth d' m' s = Inr u"
proof (induction a arbitrary: d m)
  case (Cons c a)
  then show ?case
    by (cases "c = CHR ''{''"; cases "c = CHR ''}''")
      (auto simp: MAX_GRAPHQL_DEPTH_def split: if_splits)
qed auto

lemma scan_depth_infix:
  assumes "scan_depth 0 0 (a @ w @ b) = Inr u"
  shows "count_list w (CHR ''{'') \<le> count_list w (CHR ''}'') + 8"
proof -
  from scan_depth_suffix [OF assms] obtain d' m' where "d' \<le> 8" "scan_depth d' m' (w @ b) = Inr u" by blast
  from scan_depth_prefix [OF this(2,1)] show ?thesis by simp
qed

text \<open>An accepted document, part by part.\<close>

lemma validateGraphqlQuery_parts:
  assumes "validateGraphqlQuery (JStr q) vs = Inr r"
  obtains v where "r = (q, v)" "trim q \<noteq> []" "length q \<le> 4000" "validateVariables vs = Inr v"
    "set (name_tokens (stripStringsAndComments q)) \<inter> {''mutation'', ''subscription'', ''directive''} = {}"
    "CHR ''@'' \<notin> set (stripStringsAndComments q)"
    "scan_fields 0 (name_tokens (stripStringsAndComments q)) = Inr ()"
    "scan_depth 0 0 (stripStringsAndComments q) = Inr ()"
  using assms
  by (auto simp: validateGraphqlQuery_def Let_def result_simps assertNoForbiddenOperation_def assertNoDirectives_def
    assertNoIntrospectionAndBoundFields_def assertBoundedDepth_def FORBIDDEN_OPERATIONS_def
    MAX_GRAPHQL_QUERY_LENGTH_def list_ex_iff not_less disjoint_iff split: if_splits)

definition read_only_names :: "string list \<Rightarrow> bool" where
  "read_only_names names \<longleftrightarrow> set names \<inter> {''mutation'', ''subscription'', ''directive''} = {}
     \<and> list_all (\<lambda>t. starts_with t ''__'' \<longrightarrow> t = ''__typename'') names \<and> length names \<le> 120"

lemma accepted_names:
  "set names \<inter> {''mutation'', ''subscription'', ''directive''} = {} \<Longrightarrow> scan_fields 0 names = Inr () \<Longrightarrow> read_only_names names"
  using scan_fields_Inr [of 0 names] by (simp add: read_only_names_def)

section \<open>The lexing of the specification\<close>

text \<open>
  The GraphQL specification (section 2.1) ends a comment at a line feed or a carriage return
  and escapes the quotes of a block string as \<open>\"""\<close>.
\<close>

fun spec_after_comment :: "string \<Rightarrow> string" where
  "spec_after_comment [] = []"
| "spec_after_comment (c # cs) = (if c = CHR 0x0A \<or> c = CHR 0x0D then c # cs else spec_after_comment cs)"

fun spec_after_block :: "string \<Rightarrow> string" where
  "spec_after_block [] = []"
| "spec_after_block (c # cs) =
     (if starts_with (c # cs) (backslash # triple) then spec_after_block (drop 3 cs)
      else if starts_with (c # cs) triple then drop 2 cs else spec_after_block cs)"

lemma spec_after_comment_length [termination_simp]: "length (spec_after_comment s) \<le> length s"
  by (induction s) auto

lemma spec_after_block_length [termination_simp]: "length (spec_after_block s) \<le> length s"
  by (induction s rule: spec_after_block.induct) auto

function spec_strip :: "string \<Rightarrow> string" where
  "spec_strip [] = []"
| "spec_strip (c # cs) =
     (if starts_with (c # cs) triple then CHR '' '' # spec_strip (spec_after_block (drop 2 cs))
      else if c = quote then CHR '' '' # spec_strip (after_string cs)
      else if c = CHR ''#'' then CHR '' '' # spec_strip (spec_after_comment cs)
      else c # spec_strip cs)"
  by pat_completeness auto
termination
proof (relation "measure length", goal_cases)
  case (2 c cs)
  have "length (spec_after_block (drop 2 cs)) \<le> length cs" by (rule le_trans [OF spec_after_block_length]) simp
  then show ?case by simp
qed (auto simp: less_Suc_eq_le after_string_length spec_after_comment_length)

text \<open>Documents on which the two readings cannot differ.\<close>

definition plain_document :: "string \<Rightarrow> bool" where
  "plain_document s \<longleftrightarrow> CHR 0x0D \<notin> set s \<and> \<not> includes_str s (backslash # triple)"

lemma includes_str_append: "includes_str s p \<Longrightarrow> p \<noteq> [] \<Longrightarrow> includes_str (a @ s) p"
  by (induction a) auto

lemma plain_suffix: "plain_document (a @ s) \<Longrightarrow> plain_document s"
  using includes_str_append [of s "backslash # triple" a] by (auto simp: plain_document_def)

lemma plain_drop: "plain_document s \<Longrightarrow> plain_document (drop n s)"
  by (metis append_take_drop_id plain_suffix)

lemma plain_tl: "plain_document (c # s) \<Longrightarrow> plain_document s"
  using plain_suffix [of "[c]" s] by simp

lemma after_comment_plain: "plain_document s \<Longrightarrow> spec_after_comment s = after_comment s \<and> plain_document (after_comment s)"
  by (induction s) (auto dest: plain_tl simp: plain_document_def)

lemma after_block_plain: "plain_document s \<Longrightarrow> spec_after_block s = after_block s \<and> plain_document (after_block s)"
proof (induction s)
  case (Cons c s)
  then have "\<not> starts_with (c # s) (backslash # triple)" by (auto simp: plain_document_def)
  with Cons plain_tl [OF Cons.prems] plain_drop [of s 2] show ?case by auto
qed (simp add: plain_document_def)

lemma after_string_plain: "plain_document s \<Longrightarrow> plain_document (after_string s)"
proof (induction s rule: after_string.induct)
  case (3 c d cs)
  have "plain_document (d # cs)" by (rule plain_tl [OF "3.prems"])
  moreover then have "plain_document cs" by (rule plain_tl)
  ultimately show ?case using 3 by auto
qed (auto simp: plain_document_def)

lemma spec_strip_plain: "plain_document s \<Longrightarrow> spec_strip s = stripStringsAndComments s"
proof (induction s rule: stripStringsAndComments.induct)
  case (2 c cs)
  have t: "plain_document cs" by (rule plain_tl [OF "2.prems"])
  from 2 t after_block_plain [OF plain_drop [OF t, of 2]] after_string_plain [OF t] after_comment_plain [OF t]
  show ?case by simp
qed simp

section \<open>Properties\<close>


definition demo_document :: string where
  "demo_document = ''query { block(hash: '' @ [quote] @ ''{{mutation'' @ [quote] @ '') { number } }''"





end
