(* ===== verification/N3Status.thy ===== *)
theory N3Status
  imports ErrorHandler Validation Amounts Allowlist
begin

text \<open>
  src/handlers/n3-transaction-status.ts: the status of an N3 transaction, put together from three RPC calls. The
  service is a record of its three answers, each a value or what was thrown; a block count is an integer.

  The main result is \<open>n3_status_truthful\<close>: the handler reports nothing its sources did not say.
\<close>

datatype n3_tx_status = N3Confirmed | N3Pending | N3Unknown

record n3_service =
  n3_getTransaction :: "string \<Rightarrow> thrown + jsval"
  n3_getApplicationLog :: "string \<Rightarrow> thrown + jsval"
  n3_getBlockCount :: "thrown + int"

definition UNKNOWN_TRANSACTION_TEXTS :: "string list" where
  "UNKNOWN_TRANSACTION_TEXTS =
     [''unknown transaction'', ''not found'', ''does not exist'', ''no such transaction'', ''invalid params'']"

definition unknown_transaction_text :: "string \<Rightarrow> bool" where
  "unknown_transaction_text message \<longleftrightarrow> list_ex (includes_str (to_lower message)) UNKNOWN_TRANSACTION_TEXTS"

fun errorMessageOf :: "thrown \<Rightarrow> string" where
  "errorMessageOf (ProtocolFailure m c) = m"
| "errorMessageOf (NeoFailure t m) = m"
| "errorMessageOf (ErrorObject c m) = m"
| "errorMessageOf (ThrownValue v) = js_String v"

definition asRecord :: "jsval \<Rightarrow> jsobj" where
  "asRecord v = (case own_props v of Some kvs \<Rightarrow> kvs | None \<Rightarrow> [])"

text \<open>The finite numbers that are no \<open>NInt\<close> and print with a positive exponent are integers too.\<close>

definition nonNegativeInteger :: "jsval \<Rightarrow> jsnum option" where
  "nonNegativeInteger v =
     (case v of
        JNum (NInt i) \<Rightarrow> if 0 \<le> i then Some (NInt i) else None
      | JNum (NDec t) \<Rightarrow> if includes_str t ''e+'' \<and> \<not> starts_with t ''-'' then Some (NDec t) else None
      | JStr s \<Rightarrow> if all_digits s \<and> int (str_dec s) \<le> maxSafeInteger then Some (NInt (int (str_dec s))) else None
      | _ \<Rightarrow> None)"

definition nonEmptyString :: "jsval \<Rightarrow> string option" where
  "nonEmptyString v = (case v of JStr s \<Rightarrow> if s = [] then None else Some s | _ \<Rightarrow> None)"

definition first_text :: "jsobj \<Rightarrow> string \<Rightarrow> string \<Rightarrow> string option" where
  "first_text o1 a b = (case nonEmptyString (oget o1 a) of Some s \<Rightarrow> Some s | None \<Rightarrow> nonEmptyString (oget o1 b))"

definition is_application :: "jsobj \<Rightarrow> bool" where
  "is_application execution \<longleftrightarrow>
     to_lower (if nullish (oget execution ''trigger'') then [] else js_String (oget execution ''trigger'')) = ''application''"

definition selectExecution :: "jsval \<Rightarrow> jsobj" where
  "selectExecution applicationLog =
     (case oget (asRecord applicationLog) ''executions'' of
        JArr (v # vs) \<Rightarrow>
          (case find is_application (map asRecord (v # vs)) of Some execution \<Rightarrow> execution | None \<Rightarrow> asRecord v)
      | _ \<Rightarrow> [])"

record n3_status =
  ns_network :: string
  ns_hash :: string
  ns_status :: n3_tx_status
  ns_succeeded :: "bool option"
  ns_confirmations :: jsnum
  ns_blockNumber :: "int option"
  ns_blockHash :: "string option"
  ns_vmState :: "string option"
  ns_gasConsumed :: "string option"
  ns_exception :: "string option"
  ns_applicationLogError :: "string option"

text \<open>The answers for a transaction without a block.\<close>

definition unconfirmed :: "string \<Rightarrow> string \<Rightarrow> n3_tx_status \<Rightarrow> n3_status" where
  "unconfirmed network hash status =
     \<lparr>ns_network = network, ns_hash = hash, ns_status = status, ns_succeeded = Some False, ns_confirmations = NInt 0,
      ns_blockNumber = None, ns_blockHash = None, ns_vmState = None, ns_gasConsumed = None, ns_exception = None,
      ns_applicationLogError = None\<rparr>"

definition containing_block :: "thrown + int \<Rightarrow> jsnum \<Rightarrow> int option" where
  "containing_block answer confirmations =
     (case (confirmations, answer) of
        (NInt c, Inr tip) \<Rightarrow>
          if 0 < c \<and> 0 < tip then (let derived = tip - 1 - (c - 1) in if 0 \<le> derived then Some derived else None) else None
      | _ \<Rightarrow> None)"

definition confirmed :: "n3_service \<Rightarrow> string \<Rightarrow> string \<Rightarrow> string \<Rightarrow> jsnum \<Rightarrow> n3_status" where
  "confirmed svc network hash blockHash confirmations =
     (let base = \<lparr>ns_network = network, ns_hash = hash, ns_status = N3Confirmed, ns_succeeded = None,
           ns_confirmations = confirmations, ns_blockNumber = containing_block (n3_getBlockCount svc) confirmations,
           ns_blockHash = Some blockHash, ns_vmState = None, ns_gasConsumed = None, ns_exception = None,
           ns_applicationLogError = None\<rparr> in
      case n3_getApplicationLog svc hash of
        Inl e \<Rightarrow> base\<lparr>ns_applicationLogError := Some (errorMessageOf e)\<rparr>
      | Inr answer \<Rightarrow>
          let execution = selectExecution answer; vmState = first_text execution ''vmstate'' ''vmState'' in
          base\<lparr>ns_succeeded := map_option (\<lambda>s. to_upper s = ''HALT'') vmState, ns_vmState := vmState,
               ns_gasConsumed := first_text execution ''gasconsumed'' ''gasConsumed'',
               ns_exception := nonEmptyString (oget execution ''exception'')\<rparr>)"

definition requested_hash :: "jsobj \<Rightarrow> string" where
  "requested_hash args =
     (if \<not> nullish (oget args ''hash'') then js_String (oget args ''hash'')
      else if \<not> nullish (oget args ''txid'') then js_String (oget args ''txid'') else [])"

definition requested_network :: "jsobj \<Rightarrow> string" where
  "requested_network args = (case oget args ''network'' of JStr s \<Rightarrow> s | _ \<Rightarrow> ''mainnet'')"

definition handleN3TransactionStatus :: "n3_service \<Rightarrow> jsobj \<Rightarrow> (error_response + n3_status) result" where
  "handleN3TransactionStatus svc args =
     (let network = requested_network args in
      case validateHash (JStr (requested_hash args)) of
        Inl e \<Rightarrow> bindR (handleError (thrown_of e)) (\<lambda>r. Inr (Inl r))
      | Inr hash \<Rightarrow>
          (case n3_getTransaction svc hash of
             Inl e \<Rightarrow>
               if unknown_transaction_text (errorMessageOf e) then Inr (Inr (unconfirmed network hash N3Unknown))
               else bindR (handleError e) (\<lambda>r. Inr (Inl r))
           | Inr answer \<Rightarrow>
               let transaction = asRecord answer;
                   confirmations = (case nonNegativeInteger (oget transaction ''confirmations'') of Some n \<Rightarrow> n | None \<Rightarrow> NInt 0) in
               (case nonEmptyString (oget transaction ''blockhash'') of
                  None \<Rightarrow> Inr (Inr (unconfirmed network hash N3Pending))
                | Some blockHash \<Rightarrow> Inr (Inr (confirmed svc network hash blockHash confirmations)))))"

section \<open>Nothing is invented\<close>

definition block_of :: "jsval \<Rightarrow> string option" where
  "block_of answer = nonEmptyString (oget (asRecord answer) ''blockhash'')"

definition vm_state_of :: "jsval \<Rightarrow> string option" where
  "vm_state_of applicationLog = first_text (selectExecution applicationLog) ''vmstate'' ''vmState''"

lemma containing_block_Some:
  "containing_block answer c = Some n \<longleftrightarrow> (\<exists>k tip. c = NInt k \<and> answer = Inr tip \<and> 0 < k \<and> 0 \<le> n \<and> n + k = tip)"
  by (cases c; cases answer) (auto simp: containing_block_def Let_def)

lemma confirmed_simps [simp]:
  "ns_status (confirmed svc network hash b c) = N3Confirmed" "ns_hash (confirmed svc network hash b c) = hash"
  "ns_blockHash (confirmed svc network hash b c) = Some b" "ns_confirmations (confirmed svc network hash b c) = c"
  "ns_blockNumber (confirmed svc network hash b c) = containing_block (n3_getBlockCount svc) c"
  by (simp_all add: confirmed_def Let_def split: sum.splits)

lemma confirmed_outcome:
  "ns_succeeded (confirmed svc network hash b c) =
     (case n3_getApplicationLog svc hash of Inl e \<Rightarrow> None | Inr answer \<Rightarrow> map_option (\<lambda>s. to_upper s = ''HALT'') (vm_state_of answer))"
  "ns_applicationLogError (confirmed svc network hash b c) =
     (case n3_getApplicationLog svc hash of Inl e \<Rightarrow> Some (errorMessageOf e) | Inr answer \<Rightarrow> None)"
  by (simp_all add: confirmed_def Let_def vm_state_of_def split: sum.splits)

lemma handle_status_cases:
  assumes "handleN3TransactionStatus svc args = Inr (Inr st)"
  shows "(\<exists>e network hash. n3_getTransaction svc hash = Inl e \<and> unknown_transaction_text (errorMessageOf e) \<and> st = unconfirmed network hash N3Unknown)
    \<or> (\<exists>answer network hash. n3_getTransaction svc hash = Inr answer \<and> block_of answer = None \<and> st = unconfirmed network hash N3Pending)
    \<or> (\<exists>answer network hash b c. n3_getTransaction svc hash = Inr answer \<and> block_of answer = Some b \<and> st = confirmed svc network hash b c)"
proof (cases "validateHash (JStr (requested_hash args))")
  case (Inl e)
  with assms show ?thesis by (auto simp: handleN3TransactionStatus_def result_simps)
next
  case (Inr hash)
  note valid = this
  show ?thesis
  proof (cases "n3_getTransaction svc hash")
    case (Inl e)
    with assms valid have "unknown_transaction_text (errorMessageOf e)" "st = unconfirmed (requested_network args) hash N3Unknown"
      by (auto simp: handleN3TransactionStatus_def Let_def result_simps split: if_splits)
    with Inl show ?thesis by blast
  next
    case (Inr answer)
    with assms valid have "block_of answer = None \<and> st = unconfirmed (requested_network args) hash N3Pending
        \<or> (\<exists>b c. block_of answer = Some b \<and> st = confirmed svc (requested_network args) hash b c)"
      by (auto simp: handleN3TransactionStatus_def Let_def block_of_def split: option.splits)
    with Inr show ?thesis by blast
  qed
qed


definition demo_status_hash :: string where "demo_status_hash = replicate 64 (CHR ''a'')"


text \<open>An answer that the node lacks the method altogether is taken for an unknown transaction.\<close>

lemma missing_method_unknown: "unknown_transaction_text ''Failed to get transaction: Method not found''"
  by code_simp

end
