(* ===== verification/Effects.thy ===== *)
theory Effects
  imports Prelude
begin

text \<open>
  Stateful code: an action takes the state and returns an outcome with the new state. An
  outcome is a value, a thrown error, or a crash: the process dies, so no handler runs and
  only what the state says is durable survives. \<open>catchA\<close> is \<open>try\<close>/\<open>catch\<close>: it sees
  thrown errors, never a crash.
\<close>

datatype 'a outcome = Ret 'a | Throw js_error | Crash

type_synonym ('s, 'a) act = "'s \<Rightarrow> 'a outcome \<times> 's"

definition retA :: "'a \<Rightarrow> ('s, 'a) act" where
  "retA a = (\<lambda>s. (Ret a, s))"

definition throwA :: "js_error \<Rightarrow> ('s, 'a) act" where
  "throwA e = (\<lambda>s. (Throw e, s))"

definition bindA :: "('s, 'a) act \<Rightarrow> ('a \<Rightarrow> ('s, 'b) act) \<Rightarrow> ('s, 'b) act" where
  "bindA m f = (\<lambda>s. case m s of (Ret a, s') \<Rightarrow> f a s' | (Throw e, s') \<Rightarrow> (Throw e, s') | (Crash, s') \<Rightarrow> (Crash, s'))"

definition catchA :: "('s, 'a) act \<Rightarrow> (js_error \<Rightarrow> ('s, 'a) act) \<Rightarrow> ('s, 'a) act" where
  "catchA m h = (\<lambda>s. case m s of (Throw e, s') \<Rightarrow> h e s' | r \<Rightarrow> r)"

definition liftA :: "'a result \<Rightarrow> ('s, 'a) act" where
  "liftA r = (case r of Inl e \<Rightarrow> throwA e | Inr a \<Rightarrow> retA a)"

definition readA :: "('s \<Rightarrow> 'a result) \<Rightarrow> ('s, 'a) act" where
  "readA f = (\<lambda>s. liftA (f s) s)"

named_theorems act_simps \<open>evaluation of actions\<close>

lemma retA_apply [simp, act_simps]: "retA a s = (Ret a, s)"
  by (simp add: retA_def)

lemma throwA_apply [simp, act_simps]: "throwA e s = (Throw e, s)"
  by (simp add: throwA_def)

lemma bindA_apply [act_simps]:
  "bindA m f s = (case m s of (Ret a, s') \<Rightarrow> f a s' | (Throw e, s') \<Rightarrow> (Throw e, s') | (Crash, s') \<Rightarrow> (Crash, s'))"
  by (simp add: bindA_def)

lemma catchA_apply [act_simps]: "catchA m h s = (case m s of (Throw e, s') \<Rightarrow> h e s' | r \<Rightarrow> r)"
  by (simp add: catchA_def)

lemma liftA_simps [simp, act_simps]: "liftA (Inl e) = throwA e" "liftA (Inr a) = retA a"
  by (simp_all add: liftA_def)

lemma readA_apply [act_simps]: "readA f s = (case f s of Inl e \<Rightarrow> (Throw e, s) | Inr a \<Rightarrow> (Ret a, s))"
  by (simp add: readA_def split: sum.splits)

lemma bindA_Ret: "bindA m f s = (Ret b, t) \<longleftrightarrow> (\<exists>a s'. m s = (Ret a, s') \<and> f a s' = (Ret b, t))"
  by (auto simp: bindA_def split: prod.splits outcome.splits)

lemma liftA_state [simp]: "snd (liftA r s) = s"
  by (cases r) simp_all

lemma readA_state [simp]: "snd (readA f s) = s"
  by (simp add: readA_def)

end
