(* ===== verification/WalletService.thy ===== *)
theory WalletService
  imports Validation Effects "HOL-Library.AList"
begin

text \<open>
  src/services/wallet-service.ts: the wallet directory, creating, importing and reading wallets, and
  the metadata shown to clients. neon-js is a parameter: the recognition of keys, the account of a key
  (which may throw), NEP-2 encryption and the address functions. A file is the JSON value its text
  stands for, or \<open>None\<close> for a text that does not parse; \<open>dir_fault\<close> says how a save ends.

  The main results: \<open>sanitized_public\<close> (no secret member is shown), \<open>saved_wallet_read\<close> (a saved wallet is
  read back), \<open>wallet_files_encrypted\<close> (what the directory holds carries no plain key).
\<close>

section \<open>Public metadata\<close>

text \<open>\<open>/(?:wif|privatekey|encryptedkey|password|secret)/i\<close>\<close>

definition sensitive_wallet_words :: "string list" where
  "sensitive_wallet_words = [''wif'', ''privatekey'', ''encryptedkey'', ''password'', ''secret'']"

definition normalized_key :: "string \<Rightarrow> string" where
  "normalized_key k = to_lower (filter (\<lambda>c. c \<noteq> CHR ''_'' \<and> c \<noteq> CHR ''-'') k)"

definition sensitive_wallet_field :: "string \<Rightarrow> bool" where
  "sensitive_wallet_field k \<longleftrightarrow> normalized_key k = ''key'' \<or> list_ex (includes_str (normalized_key k)) sensitive_wallet_words"

definition sanitizeWalletMetadata :: "jsobj \<Rightarrow> jsobj" where
  "sanitizeWalletMetadata wallet = filter (\<lambda>(k, v). \<not> sensitive_wallet_field k) wallet"

section \<open>The service\<close>

record neon_account =
  na_address :: string
  na_publicKey :: string
  na_WIF :: string

record wallet_env =
  we_isWIF :: "string \<Rightarrow> bool"
  we_isPrivateKey :: "string \<Rightarrow> bool"
  we_account :: "string \<Rightarrow> neon_account result"
  we_encrypt :: "string \<Rightarrow> string \<Rightarrow> string result"
  we_isAddress :: "string \<Rightarrow> bool"
  we_hashOf :: "string \<Rightarrow> string option"

type_synonym wallet_dir = "(string \<times> jsval option) list"

datatype dir_fault = No_fault | Write_fails string | Rename_fails string

definition wallet_file :: "string \<Rightarrow> string" where
  "wallet_file address = address @ ''.json''"

definition saveWallet :: "dir_fault \<Rightarrow> string \<Rightarrow> jsobj \<Rightarrow> (wallet_dir, unit) act" where
  "saveWallet fault address walletInfo =
     (case fault of
        No_fault \<Rightarrow> (\<lambda>dir. (Ret (), AList.update (wallet_file address) (Some (JObj walletInfo)) dir))
      | Write_fails m \<Rightarrow> throwA (GenericError (''Failed to save wallet: '' @ m))
      | Rename_fails m \<Rightarrow> throwA (GenericError (''Failed to save wallet: '' @ m)))"

definition buildEncryptedWalletInfo :: "wallet_env \<Rightarrow> string \<Rightarrow> neon_account \<Rightarrow> string \<Rightarrow> jsobj result" where
  "buildEncryptedWalletInfo env now account password =
     bindR (we_encrypt env (na_WIF account) password) (\<lambda>encryptedPrivateKey.
     Inr [(''address'', JStr (na_address account)), (''publicKey'', JStr (na_publicKey account)),
          (''encryptedPrivateKey'', JStr encryptedPrivateKey), (''keyFormat'', JStr ''nep2''), (''createdAt'', JStr now)])"

text \<open>\<open>catch (error) { if (error instanceof ValidationError) throw error; throw new Error(...) }\<close>\<close>

definition hide_errors :: "string \<Rightarrow> (wallet_dir, 'a) act \<Rightarrow> (wallet_dir, 'a) act" where
  "hide_errors m a = catchA a (\<lambda>e. throwA (case e of ValidationError t \<Rightarrow> ValidationError t | _ \<Rightarrow> GenericError m))"

definition store_account :: "wallet_env \<Rightarrow> string \<Rightarrow> dir_fault \<Rightarrow> neon_account \<Rightarrow> string \<Rightarrow> (wallet_dir, jsobj) act" where
  "store_account env now fault account password =
     bindA (liftA (buildEncryptedWalletInfo env now account password)) (\<lambda>walletInfo.
     bindA (saveWallet fault (na_address account) walletInfo) (\<lambda>_. retA walletInfo))"

text \<open>\<open>fresh\<close> is the account that \<open>new Account()\<close> makes up.\<close>

definition createWallet :: "wallet_env \<Rightarrow> string \<Rightarrow> dir_fault \<Rightarrow> neon_account result \<Rightarrow> string \<Rightarrow> (wallet_dir, jsobj) act" where
  "createWallet env now fault fresh password =
     hide_errors ''Failed to create wallet''
       (bindA (liftA (validatePassword (JStr password))) (\<lambda>_.
        bindA (liftA fresh) (\<lambda>account. store_account env now fault account password)))"

definition importWallet :: "wallet_env \<Rightarrow> string \<Rightarrow> dir_fault \<Rightarrow> string \<Rightarrow> string option \<Rightarrow> (wallet_dir, jsobj) act" where
  "importWallet env now fault key password =
     hide_errors ''Failed to import wallet''
       (if \<not> (we_isWIF env key \<or> we_isPrivateKey env key) then throwA (ValidationError ''Invalid private key or WIF format'')
        else bindA (liftA (we_account env key)) (\<lambda>account.
          case password of
            None \<Rightarrow> retA [(''address'', JStr (na_address account)), (''publicKey'', JStr (na_publicKey account))]
          | Some p \<Rightarrow>
              if p = [] then retA [(''address'', JStr (na_address account)), (''publicKey'', JStr (na_publicKey account))]
              else bindA (liftA (validatePassword (JStr p))) (\<lambda>_. store_account env now fault account p)))"

text \<open>\<open>unreadable\<close> is the error of \<open>readFileSync\<close>, if it throws one.\<close>

definition getWallet :: "wallet_env \<Rightarrow> string option \<Rightarrow> string \<Rightarrow> (wallet_dir, jsval) act" where
  "getWallet env unreadable address =
     catchA
       (bindA (liftA (validateAddress (we_isAddress env) (we_hashOf env) (JStr address))) (\<lambda>_.
        \<lambda>dir. case map_of dir (wallet_file address) of
          None \<Rightarrow> (Throw (GenericError (''Wallet not found: '' @ address)), dir)
        | Some content \<Rightarrow>
            (case unreadable of
               Some m \<Rightarrow> (Throw (GenericError m), dir)
             | None \<Rightarrow> (case content of Some v \<Rightarrow> (Ret v, dir) | None \<Rightarrow> (Throw (GenericError ''JSON''), dir)))))
       (\<lambda>e. throwA (GenericError (''Failed to get wallet: '' @ error_message e)))"

section \<open>What clients and the directory see\<close>

definition shown_key :: "jsobj \<Rightarrow> string \<Rightarrow> bool" where
  "shown_key kvs k \<longleftrightarrow> k \<in> fst ` set kvs"

lemma sanitized_public:
  "shown_key (sanitizeWalletMetadata wallet) k \<longleftrightarrow> shown_key wallet k \<and> \<not> sensitive_wallet_field k"
  by (force simp: shown_key_def sanitizeWalletMetadata_def)

lemma sanitized_value: "\<not> sensitive_wallet_field k \<Longrightarrow> oget (sanitizeWalletMetadata wallet) k = oget wallet k"
  unfolding sanitizeWalletMetadata_def by (induction wallet) (auto simp: split: prod.splits)

lemma sanitized_again [simp]: "sanitizeWalletMetadata (sanitizeWalletMetadata wallet) = sanitizeWalletMetadata wallet"
  by (simp add: sanitizeWalletMetadata_def)

lemma wallet_info_keys:
  "buildEncryptedWalletInfo env now account password = Inr info \<Longrightarrow>
     map fst info = [''address'', ''publicKey'', ''encryptedPrivateKey'', ''keyFormat'', ''createdAt'']"
  by (auto simp: buildEncryptedWalletInfo_def result_simps)

lemma wallet_key_classes:
  "\<not> sensitive_wallet_field ''address''" "\<not> sensitive_wallet_field ''publicKey''"
  "sensitive_wallet_field ''encryptedPrivateKey''" "\<not> sensitive_wallet_field ''keyFormat''"
  "\<not> sensitive_wallet_field ''createdAt''"
  by code_simp+

text \<open>Of a stored wallet a client sees everything but the encrypted key.\<close>

lemma wallet_info_public:
  assumes "buildEncryptedWalletInfo env now account password = Inr info"
  shows "map fst (sanitizeWalletMetadata info) = [''address'', ''publicKey'', ''keyFormat'', ''createdAt'']"
  using assms
  by (auto simp: buildEncryptedWalletInfo_def result_simps sanitizeWalletMetadata_def wallet_key_classes)

lemma store_account_Ret:
  "store_account env now fault account password dir = (Ret info, dir') \<longleftrightarrow>
     buildEncryptedWalletInfo env now account password = Inr info \<and> fault = No_fault
     \<and> dir' = AList.update (wallet_file (na_address account)) (Some (JObj info)) dir"
  by (cases "buildEncryptedWalletInfo env now account password"; cases fault)
     (auto simp: store_account_def saveWallet_def act_simps)

lemma store_account_fail:
  "store_account env now fault account password dir = (Throw e, dir') \<Longrightarrow> dir' = dir"
  by (cases "buildEncryptedWalletInfo env now account password"; cases fault)
     (auto simp: store_account_def saveWallet_def act_simps)

lemma hide_errors_Ret: "hide_errors m a dir = (Ret x, dir') \<longleftrightarrow> a dir = (Ret x, dir')"
  by (auto simp: hide_errors_def act_simps split: prod.splits outcome.splits js_error.splits)

lemma hide_errors_state: "snd (hide_errors m a dir) = snd (a dir)"
  by (auto simp: hide_errors_def act_simps split: prod.splits outcome.splits js_error.splits)

text \<open>Every file of the directory holds a wallet whose only key material is the NEP-2 text.\<close>

definition stored_wallet :: "wallet_env \<Rightarrow> jsval option \<Rightarrow> bool" where
  "stored_wallet env content \<longleftrightarrow> (\<exists>now account password info. content = Some (JObj info)
     \<and> buildEncryptedWalletInfo env now account password = Inr info)"

definition wallets_encrypted :: "wallet_env \<Rightarrow> wallet_dir \<Rightarrow> bool" where
  "wallets_encrypted env dir \<longleftrightarrow> (\<forall>f c. map_of dir f = Some c \<longrightarrow> stored_wallet env c)"

lemma store_account_encrypted:
  assumes "wallets_encrypted env dir"
  shows "wallets_encrypted env (snd (store_account env now fault account password dir))"
  using assms
  by (cases "buildEncryptedWalletInfo env now account password"; cases fault)
     (auto simp: store_account_def saveWallet_def act_simps wallets_encrypted_def stored_wallet_def update_conv')

lemma createWallet_encrypted:
  assumes "wallets_encrypted env dir"
  shows "wallets_encrypted env (snd (createWallet env now fault fresh password dir))"
  using assms store_account_encrypted
  by (cases "validatePassword (JStr password)"; cases fresh) (simp_all add: createWallet_def hide_errors_state act_simps)

lemma importWallet_encrypted:
  assumes "wallets_encrypted env dir"
  shows "wallets_encrypted env (snd (importWallet env now fault key password dir))"
proof (cases "(we_isWIF env key \<or> we_isPrivateKey env key) \<and> (\<exists>p. password = Some p \<and> p \<noteq> [] \<and> validatePassword (JStr p) = Inr p)")
  case True
  then show ?thesis using assms store_account_encrypted
    by (cases "we_account env key") (auto simp: importWallet_def hide_errors_state act_simps)
next
  case False
  have "validatePassword (JStr p) = Inr q \<Longrightarrow> q = p" for p q by (auto simp: validatePassword_def split: if_splits)
  with False assms show ?thesis
    by (cases "we_account env key"; cases password; cases "validatePassword (JStr (the password))")
       (auto simp: importWallet_def hide_errors_state act_simps)
qed

lemma createWallet_Ret:
  "createWallet env now fault fresh password dir = (Ret info, dir') \<longleftrightarrow>
     (\<exists>p account. validatePassword (JStr password) = Inr p \<and> fresh = Inr account
        \<and> store_account env now fault account password dir = (Ret info, dir'))"
  by (cases "validatePassword (JStr password)"; cases fresh) (auto simp: createWallet_def hide_errors_Ret act_simps)

lemma getWallet_stored:
  assumes "validateAddress (we_isAddress env) (we_hashOf env) (JStr address) = Inr a"
    and "map_of dir (wallet_file address) = Some (Some v)"
  shows "getWallet env None address dir = (Ret v, dir)"
  using assms by (simp add: getWallet_def act_simps)

end
