(* ===== verification/ClientIdentity.thy ===== *)
theory ClientIdentity
  imports Strings RateLimiter
begin

text \<open>
  Who a request is charged to: src/utils/client-rate-limit.ts (the bucket of a scope object) and
  src/utils/trusted-proxy.ts (the client address behind reverse proxies). Node's \<open>isIP\<close>
  and the matching of its \<open>BlockList\<close> are parameters.

  The main results: two scopes share a bucket only when both were bound to one client id
  (\<open>buckets_separate\<close>), and a client cannot choose its address by sending a forwarded header
  (\<open>forwarded_address_unspoofable\<close>).
\<close>

section \<open>Buckets\<close>

text \<open>Scope objects are numbers; the weak map from scopes to keys never forgets a live scope.\<close>

record key_state =
  clientRateLimitKeys :: "nat \<rightharpoonup> string"
  clientRateLimitKeySeq :: nat

definition RATE_LIMIT_FALLBACK_KEY :: string where
  "RATE_LIMIT_FALLBACK_KEY = ''mcp-client''"

definition resolveRateLimitKey :: "nat option \<Rightarrow> key_state \<Rightarrow> string \<times> key_state" where
  "resolveRateLimitKey scope s =
     (case scope of
        None \<Rightarrow> (RATE_LIMIT_FALLBACK_KEY, s)
      | Some o1 \<Rightarrow>
          (case clientRateLimitKeys s o1 of
             Some key \<Rightarrow> (key, s)
           | None \<Rightarrow>
               let n = clientRateLimitKeySeq s + 1; key = ''mcp-client-'' @ dec_str n in
               (key, \<lparr>clientRateLimitKeys = (clientRateLimitKeys s)(o1 \<mapsto> key), clientRateLimitKeySeq = n\<rparr>)))"

definition bindRateLimitClientId :: "nat option \<Rightarrow> string option \<Rightarrow> key_state \<Rightarrow> key_state" where
  "bindRateLimitClientId scope clientId s =
     (case (scope, clientId) of
        (Some o1, Some cid) \<Rightarrow>
          if cid = [] \<or> clientRateLimitKeys s o1 \<noteq> None then s
          else s\<lparr>clientRateLimitKeys := (clientRateLimitKeys s)(o1 \<mapsto> ''mcp-client:'' @ cid)\<rparr>
      | _ \<Rightarrow> s)"

definition chargeClientRateLimit ::
    "nat option \<Rightarrow> int \<Rightarrow> key_state \<Rightarrow> limiter \<Rightarrow> (rate_limit_error + unit) \<times> key_state \<times> limiter" where
  "chargeClientRateLimit scope now s l =
     (case resolveRateLimitKey scope s of (key, s') \<Rightarrow>
        (case checkLimit l key now of (r, l') \<Rightarrow> (r, s', l')))"

text \<open>The states the module reaches from its empty map.\<close>

inductive key_reachable :: "key_state \<Rightarrow> bool" where
  kr_init: "key_reachable \<lparr>clientRateLimitKeys = Map.empty, clientRateLimitKeySeq = 0\<rparr>"
| kr_resolve: "key_reachable s \<Longrightarrow> key_reachable (snd (resolveRateLimitKey scope s))"
| kr_bind: "key_reachable s \<Longrightarrow> key_reachable (bindRateLimitClientId scope clientId s)"

text \<open>A key is minted with a number up to the counter or made of an id; minted keys are never reused.\<close>

definition keys_ok :: "key_state \<Rightarrow> bool" where
  "keys_ok s \<longleftrightarrow>
     (\<forall>o1 k. clientRateLimitKeys s o1 = Some k \<longrightarrow>
        (\<exists>n \<le> clientRateLimitKeySeq s. k = ''mcp-client-'' @ dec_str n) \<or> (\<exists>cid. cid \<noteq> [] \<and> k = ''mcp-client:'' @ cid))
     \<and> (\<forall>o1 o2 k. clientRateLimitKeys s o1 = Some k \<longrightarrow> clientRateLimitKeys s o2 = Some k \<longrightarrow> o1 \<noteq> o2
         \<longrightarrow> (\<exists>cid. k = ''mcp-client:'' @ cid))"

lemma minted_fresh: "keys_ok s \<Longrightarrow> clientRateLimitKeys s o1 \<noteq> Some (''mcp-client-'' @ dec_str (Suc (clientRateLimitKeySeq s)))"
proof
  let ?key = "''mcp-client-'' @ dec_str (Suc (clientRateLimitKeySeq s))"
  assume "keys_ok s" "clientRateLimitKeys s o1 = Some ?key"
  then consider n where "n \<le> clientRateLimitKeySeq s" "?key = ''mcp-client-'' @ dec_str n" | cid where "?key = ''mcp-client:'' @ cid"
    unfolding keys_ok_def by blast
  then show False by cases simp_all
qed

lemma keys_ok_resolve: "keys_ok s \<Longrightarrow> keys_ok (snd (resolveRateLimitKey scope s))"
proof (cases scope)
  case (Some o1)
  assume ok: "keys_ok s"
  show ?thesis
  proof (cases "clientRateLimitKeys s o1")
    case None
    have fresh: "clientRateLimitKeys s o2 \<noteq> Some (''mcp-client-'' @ dec_str (Suc (clientRateLimitKeySeq s)))" for o2
      using ok by (rule minted_fresh)
    from ok have old: "\<And>o2 k. clientRateLimitKeys s o2 = Some k \<Longrightarrow>
        (\<exists>n \<le> Suc (clientRateLimitKeySeq s). k = ''mcp-client-'' @ dec_str n) \<or> (\<exists>cid. cid \<noteq> [] \<and> k = ''mcp-client:'' @ cid)"
      unfolding keys_ok_def by (blast intro: le_SucI)
    show ?thesis using Some None ok fresh old
      unfolding resolveRateLimitKey_def keys_ok_def by (auto simp: Let_def split: if_splits)
  qed (use Some ok in \<open>simp add: resolveRateLimitKey_def\<close>)
qed (simp add: resolveRateLimitKey_def)

lemma keys_ok_bind: "keys_ok s \<Longrightarrow> keys_ok (bindRateLimitClientId scope clientId s)"
  unfolding bindRateLimitClientId_def keys_ok_def by (auto split: option.splits if_splits)

lemma keys_reachable_ok: "key_reachable s \<Longrightarrow> keys_ok s"
  by (induction rule: key_reachable.induct) (simp_all add: keys_ok_resolve keys_ok_bind, simp add: keys_ok_def)

text \<open>The bucket of a scope is stable, and it is shared only through a client id.\<close>

lemma resolve_stable:
  "resolveRateLimitKey scope s = (key, s') \<Longrightarrow> resolveRateLimitKey scope (bindRateLimitClientId scope' cid s') = (key, bindRateLimitClientId scope' cid s')"
  by (auto simp: resolveRateLimitKey_def bindRateLimitClientId_def Let_def split: option.splits)

lemma buckets_separate:
  assumes "key_reachable s" and "resolveRateLimitKey (Some o1) s = (k, s1)" and "resolveRateLimitKey (Some o2) s1 = (k, s2)" and "o1 \<noteq> o2"
  shows "\<exists>cid. k = ''mcp-client:'' @ cid"
proof -
  have ok: "keys_ok s2" using keys_reachable_ok assms(1-3) by (metis keys_ok_resolve snd_conv)
  have "clientRateLimitKeys s2 o1 = Some k" "clientRateLimitKeys s2 o2 = Some k"
    using assms(2-4) by (auto simp: resolveRateLimitKey_def Let_def split: option.splits if_splits)
  with ok assms(4) show ?thesis unfolding keys_ok_def by blast
qed

section \<open>Addresses behind proxies\<close>

datatype ip_family = IPv4 | IPv6

type_synonym address = "string \<times> ip_family"

text \<open>\<open>/^::ffff:(\d+\.\d+\.\d+\.\d+)$/i\<close>.\<close>

definition mapped_ipv4 :: "string \<Rightarrow> string option" where
  "mapped_ipv4 t =
     (let parts = split_on (CHR ''.'') (drop 7 t) in
      if to_lower (take 7 t) = ''::ffff:'' \<and> length parts = 4 \<and> list_all (\<lambda>p. p \<noteq> [] \<and> list_all is_digit p) parts
      then Some (drop 7 t) else None)"

definition normalizeAddress :: "(string \<Rightarrow> nat) \<Rightarrow> string \<Rightarrow> address option" where
  "normalizeAddress isIP v =
     (let t = trim v; a = (case mapped_ipv4 t of Some m \<Rightarrow> m | None \<Rightarrow> t) in
      if isIP a = 4 then Some (a, IPv4) else if isIP a = 6 then Some (a, IPv6) else None)"

datatype block_rule = BlockAddress address | BlockSubnet address nat

definition block_entry :: "(string \<Rightarrow> nat) \<Rightarrow> string \<Rightarrow> block_rule result" where
  "block_entry isIP rawEntry =
     (let entry = trim rawEntry; after = rev (takeWhile (\<lambda>c. c \<noteq> CHR ''/'') (rev entry)); slash = CHR ''/'' \<in> set entry;
          addressText = (if slash then take (length entry - length after - 1) entry else entry) in
      case normalizeAddress isIP addressText of
        None \<Rightarrow> Inl (GenericError ''Invalid trusted proxy address: '')
      | Some a \<Rightarrow>
          if \<not> slash then Inr (BlockAddress a)
          else if after = [] \<or> \<not> list_all is_digit after then Inl (GenericError ''Invalid trusted proxy prefix: '')
          else if (if snd a = IPv4 then 32 else 128) < str_dec after then Inl (GenericError ''Invalid trusted proxy prefix: '')
          else Inr (BlockSubnet a (str_dec after)))"

definition createTrustedProxyBlockList :: "(string \<Rightarrow> nat) \<Rightarrow> string list \<Rightarrow> block_rule list result" where
  "createTrustedProxyBlockList isIP entries = mapR (block_entry isIP) entries"

text \<open>\<open>trustedProxies.check\<close>, over the matching of one rule.\<close>

definition block_check :: "(block_rule \<Rightarrow> address \<Rightarrow> bool) \<Rightarrow> block_rule list \<Rightarrow> address \<Rightarrow> bool" where
  "block_check matches rules a = list_ex (\<lambda>r. matches r a) rules"

definition resolveForwardedClientAddress ::
    "(string \<Rightarrow> nat) \<Rightarrow> string \<Rightarrow> string option \<Rightarrow> (address \<Rightarrow> bool) \<Rightarrow> string" where
  "resolveForwardedClientAddress isIP remoteAddress header trusted =
     (case normalizeAddress isIP remoteAddress of
        None \<Rightarrow> remoteAddress
      | Some remote \<Rightarrow>
          (case header of
             None \<Rightarrow> fst remote
           | Some h \<Rightarrow>
               if \<not> trusted remote \<or> h = [] then fst remote
               else
                 let chain = map (normalizeAddress isIP) (split_on (CHR '','') h) in
                 if None \<in> set chain then fst remote
                 else
                   let addresses = map the chain in
                   (case find (\<lambda>a. \<not> trusted a) (rev addresses) of
                      Some candidate \<Rightarrow> fst candidate
                    | None \<Rightarrow> fst (hd addresses))))"

lemma split_on_snoc: "split_on d (p @ d # h) = split_on d p @ split_on d h"
  by (induction p) (auto split: list.splits)

lemma find_append: "find P (xs @ ys) = (case find P xs of None \<Rightarrow> find P ys | Some x \<Rightarrow> Some x)"
  by (induction xs) auto

lemma untrusted_remote: "normalizeAddress isIP remote = Some r \<Longrightarrow> \<not> trusted r
    \<Longrightarrow> resolveForwardedClientAddress isIP remote header trusted = fst r"
  by (simp add: resolveForwardedClientAddress_def split: option.splits)

lemma resolve_chain:
  assumes "normalizeAddress isIP remote = Some r" and "trusted r" and "h \<noteq> []"
    and "map (normalizeAddress isIP) (split_on (CHR '','') h) = map Some (before @ a # after)" and "\<not> trusted a" and "list_all trusted after"
  shows "resolveForwardedClientAddress isIP remote (Some h) trusted = fst a"
proof -
  have "find (\<lambda>x. \<not> trusted x) (rev after) = None" using assms(6) by (auto simp: find_None_iff list_all_iff)
  with assms show ?thesis by (auto simp: resolveForwardedClientAddress_def Let_def find_append comp_def)
qed

text \<open>
  C21: a client reaches a trusted proxy, which appends the address it sees. Whatever header \<open>p\<close>
  the client sent before, the resolved address is the rightmost one that no trusted proxy has, or,
  when \<open>p\<close> is malformed, the address of the proxy itself.
\<close>

theorem forwarded_address_unspoofable:
  assumes "normalizeAddress isIP remote = Some proxy" and "trusted proxy" and "h \<noteq> []"
    and "map (normalizeAddress isIP) (split_on (CHR '','') h) = map Some (before @ client # after)"
    and "\<not> trusted client" and "list_all trusted after"
  shows "resolveForwardedClientAddress isIP remote (Some h) trusted = fst client
    \<and> resolveForwardedClientAddress isIP remote (Some (p @ '','' @ h)) trusted
      = (if list_all (\<lambda>e. normalizeAddress isIP e \<noteq> None) (split_on (CHR '','') p) then fst client else fst proxy)"
proof -
  let ?chain = "map (normalizeAddress isIP) (split_on (CHR '','') (p @ '','' @ h))"
  have split: "?chain = map (normalizeAddress isIP) (split_on (CHR '','') p) @ map Some (before @ client # after)"
    using assms(4) split_on_snoc [of "CHR '',''" p h] by simp
  have "resolveForwardedClientAddress isIP remote (Some (p @ '','' @ h)) trusted
      = (if list_all (\<lambda>e. normalizeAddress isIP e \<noteq> None) (split_on (CHR '','') p) then fst client else fst proxy)"
  proof (cases "list_all (\<lambda>e. normalizeAddress isIP e \<noteq> None) (split_on (CHR '','') p)")
    case True
    then have "map (normalizeAddress isIP) (split_on (CHR '','') p) = map Some (map (the \<circ> normalizeAddress isIP) (split_on (CHR '','') p))"
      by (auto simp: list_all_iff)
    with split have "?chain = map Some ((map (the \<circ> normalizeAddress isIP) (split_on (CHR '','') p) @ before) @ client # after)" by simp
    from resolve_chain [OF assms(1,2) _ this assms(5,6)] True show ?thesis by simp
  next
    case False
    then obtain e where e: "e \<in> set (split_on (CHR '','') p)" "normalizeAddress isIP e = None" unfolding list_all_iff by blast
    have "None \<in> set (map (normalizeAddress isIP) (split_on (CHR '','') p))"
      using imageI [OF e(1), of "normalizeAddress isIP"] e(2) by simp
    then have "None \<in> set ?chain" by (simp only: split set_append Un_iff simp_thms)
    with False assms(1,2) show ?thesis by (simp add: resolveForwardedClientAddress_def Let_def)
  qed
  with resolve_chain [OF assms(1-6)] show ?thesis by simp
qed

lemma forwarded_address_unspoofable_witness:
  "resolveForwardedClientAddress (\<lambda>s. if list_all (\<lambda>c. is_digit c \<or> c = CHR ''.'') s \<and> s \<noteq> [] then 4 else 0) ''::ffff:10.0.0.1''
     (Some (''1.1.1.1'' @ '','' @ ''2.2.2.2, 10.0.0.2'')) (\<lambda>a. fst a \<in> {''10.0.0.1'', ''10.0.0.2''}) = ''2.2.2.2''"
proof -
  let ?ip = "\<lambda>s. if list_all (\<lambda>c. is_digit c \<or> c = CHR ''.'') s \<and> s \<noteq> [] then 4 else (0 :: nat)"
  have n: "normalizeAddress ?ip ''::ffff:10.0.0.1'' = Some (''10.0.0.1'', IPv4)"
    by (simp add: normalizeAddress_def mapped_ipv4_def trim_def to_lower_def lower_char_def is_ws_def is_digit_def cc_def)
  have c: "map (normalizeAddress ?ip) (split_on (CHR '','') ''2.2.2.2, 10.0.0.2'') = map Some ([] @ (''2.2.2.2'', IPv4) # [(''10.0.0.2'', IPv4)])"
    by (simp add: normalizeAddress_def mapped_ipv4_def trim_def to_lower_def lower_char_def is_ws_def is_digit_def cc_def)
  have p: "list_all (\<lambda>e. normalizeAddress ?ip e \<noteq> None) (split_on (CHR '','') ''1.1.1.1'')"
    by (simp add: normalizeAddress_def mapped_ipv4_def trim_def to_lower_def lower_char_def is_ws_def is_digit_def cc_def)
  from forwarded_address_unspoofable [OF n _ _ c, of "\<lambda>a. fst a \<in> {''10.0.0.1'', ''10.0.0.2''}" "''1.1.1.1''"] p
  show ?thesis by simp
qed

end
