(* ===== verification/Config.thy ===== *)
theory Config
  imports RpcFailover ClientIdentity EvmAbi
begin

text \<open>
  src/config.ts: the settings read from the environment, and their validation at startup. The environment is a map from
  names to texts. URL parsing, \<open>isIP\<close> and \<open>path.join\<close> of Node and the conversion \<open>Number(text)\<close> are parameters; an
  integer read by \<open>parseInt\<close> is exact, \<open>None\<close> being NaN.

  The main result is \<open>validated_config_safe\<close>: what a server that starts can rely on.
\<close>

section \<open>Reading the environment\<close>

type_synonym env = "string \<Rightarrow> string option"

fun readEnv :: "env \<Rightarrow> string list \<Rightarrow> string option" where
  "readEnv env [] = None"
| "readEnv env (k # ks) =
     (case env k of
        Some v \<Rightarrow> if trim v \<noteq> [] then Some (trim v) else readEnv env ks
      | None \<Rightarrow> readEnv env ks)"

definition readBooleanEnv :: "env \<Rightarrow> string list \<Rightarrow> bool option" where
  "readBooleanEnv env keys =
     (case readEnv env keys of
        None \<Rightarrow> None
      | Some v \<Rightarrow>
          if to_lower v \<in> {''true'', ''1'', ''yes'', ''on''} then Some True
          else if to_lower v \<in> {''false'', ''0'', ''no'', ''off''} then Some False else None)"

datatype network_mode = MAINNET_ONLY | TESTNET_ONLY | BOTH

definition parseNetworkMode :: "string option \<Rightarrow> network_mode" where
  "parseNetworkMode v =
     (case v of
        None \<Rightarrow> BOTH
      | Some s \<Rightarrow>
          if to_lower s \<in> {''mainnet'', ''mainnet_only''} then MAINNET_ONLY
          else if to_lower s \<in> {''testnet'', ''testnet_only''} then TESTNET_ONLY else BOTH)"

definition readListEnv :: "env \<Rightarrow> string \<Rightarrow> string list" where
  "readListEnv env key =
     (case readEnv env [key] of
        Some v \<Rightarrow> filter (\<lambda>e. e \<noteq> []) (map trim (split_on (CHR '','') v))
      | None \<Rightarrow> [])"

definition resolveRpcUrlList :: "env \<Rightarrow> string \<Rightarrow> string list \<Rightarrow> string list \<Rightarrow> string list" where
  "resolveRpcUrlList env listKey singularKeys defaults =
     (let configured = readListEnv env listKey in
      if configured \<noteq> [] then unique_from [] configured
      else case readEnv env singularKeys of Some url \<Rightarrow> [url] | None \<Rightarrow> defaults)"

text \<open>\<open>readEnv(key) || d\<close> and \<open>process.env[key] || d\<close>\<close>

definition env_or :: "env \<Rightarrow> string \<Rightarrow> string \<Rightarrow> string" where
  "env_or env key d = (case readEnv env [key] of Some v \<Rightarrow> v | None \<Rightarrow> d)"

definition raw_or :: "env \<Rightarrow> string \<Rightarrow> string \<Rightarrow> string" where
  "raw_or env key d = (case env key of Some v \<Rightarrow> if v = [] then d else v | None \<Rightarrow> d)"

definition flag :: "env \<Rightarrow> string \<Rightarrow> bool \<Rightarrow> bool" where
  "flag env key d = (case readBooleanEnv env [key] of Some b \<Rightarrow> b | None \<Rightarrow> d)"

text \<open>\<open>Number.parseInt(text, 10)\<close>\<close>

definition parseInt10 :: "string \<Rightarrow> int option" where
  "parseInt10 s =
     (let t = dropWhile is_ws s;
          negative = (t \<noteq> [] \<and> hd t = CHR ''-'');
          digits = takeWhile is_digit (if t \<noteq> [] \<and> hd t \<in> {CHR ''-'', CHR ''+''} then tl t else t) in
      if digits = [] then None else Some (if negative then - int (str_dec digits) else int (str_dec digits)))"

section \<open>The settings\<close>

definition DEFAULT_MAINNET_RPC_URLS :: "string list" where
  "DEFAULT_MAINNET_RPC_URLS =
     [''https://mainnet3.neo.coz.io:443'', ''https://mainnet4.neo.coz.io:443'', ''https://mainnet5.neo.coz.io:443'',
      ''https://rpc10.n3.nspcc.ru:10331'', ''https://n3seed1.ngd.network:10332'']"

definition DEFAULT_TESTNET_RPC_URLS :: "string list" where
  "DEFAULT_TESTNET_RPC_URLS =
     [''https://testnet1.neo.coz.io:443'', ''https://testnet2.neo.coz.io:443'', ''https://rpc.t5.n3.nspcc.ru:20331'']"

definition DEFAULT_NEOX_MAINNET_RPC_URLS :: "string list" where
  "DEFAULT_NEOX_MAINNET_RPC_URLS = [''https://mainnet-1.rpc.banelabs.org'', ''https://mainnet-2.rpc.banelabs.org'']"

definition DEFAULT_NEOX_TESTNET_RPC_URLS :: "string list" where
  "DEFAULT_NEOX_TESTNET_RPC_URLS = [''https://testnet-1.rpc.banelabs.org'', ''https://neoxt4seed1.ngd.network'']"

definition DEFAULT_MAX_TRANSACTION_FEE_GAS :: string where "DEFAULT_MAX_TRANSACTION_FEE_GAS = ''20''"

record app_config =
  cf_mainnetRpcUrls :: "string list"
  cf_testnetRpcUrls :: "string list"
  cf_rpcTimeoutMs :: "int option"
  cf_allowInsecureRpc :: bool
  cf_maxTransactionFeeGas :: string
  cf_networkMode :: network_mode
  cf_writesEnabled :: bool
  cf_signerWifFile :: "string option"
  cf_stateDirectory :: string
  cf_requestStateKey :: "string option"
  cf_httpApprovalApiKey :: "string option"
  cf_n3indexBaseUrl :: string
  cf_n3indexEnabled :: bool
  cf_findEnabled :: bool
  cf_mainnetExplorer :: string
  cf_testnetExplorer :: string
  cf_neoxTestnetEnabled :: bool
  cf_neoxMainnetChainId :: "int option"
  cf_neoxTestnetChainId :: "int option"
  cf_neoxMainnetRpcUrls :: "string list"
  cf_neoxTestnetRpcUrls :: "string list"
  cf_graphqlEnabled :: bool
  cf_httpHost :: string
  cf_httpApiKey :: "string option"
  cf_corsOrigins :: "string list"
  cf_trustedProxies :: "string list"
  cf_maxBodyBytes :: "int option"
  cf_walletsDirectory :: string
  cf_administrationEnabled :: bool
  cf_rateLimiting :: bool
  cf_maxRequestsPerMinute :: "int option"
  cf_maxRequestsPerHour :: "int option"
  cf_logLevel :: string
  cf_logConsole :: bool
  cf_logFileEnabled :: bool
  cf_logFilePath :: string

definition list_or :: "env \<Rightarrow> string \<Rightarrow> string list \<Rightarrow> string list" where
  "list_or env key defaults = (let configured = readListEnv env key in if configured \<noteq> [] then configured else defaults)"

definition isTestLikeEnvironment :: "env \<Rightarrow> bool" where
  "isTestLikeEnvironment env = includes_str (to_lower (raw_or env ''NODE_ENV'' [])) ''test''"

definition read_config :: "(string \<Rightarrow> string \<Rightarrow> string) \<Rightarrow> env \<Rightarrow> app_config" where
  "read_config join env =
     (let walletsDirectory = env_or env ''WALLETS_DIR'' ''./wallets'' in
     \<lparr>cf_mainnetRpcUrls = resolveRpcUrlList env ''NEO_MAINNET_RPC_URLS'' [''NEO_MAINNET_RPC'', ''NEO_MAINNET_RPC_URL''] DEFAULT_MAINNET_RPC_URLS,
      cf_testnetRpcUrls = resolveRpcUrlList env ''NEO_TESTNET_RPC_URLS'' [''NEO_TESTNET_RPC'', ''NEO_TESTNET_RPC_URL''] DEFAULT_TESTNET_RPC_URLS,
      cf_rpcTimeoutMs = parseInt10 (env_or env ''NEO_RPC_TIMEOUT_MS'' ''15000''),
      cf_allowInsecureRpc = flag env ''NEO_ALLOW_INSECURE_RPC'' False,
      cf_maxTransactionFeeGas = env_or env ''NEO_MAX_TRANSACTION_FEE_GAS'' DEFAULT_MAX_TRANSACTION_FEE_GAS,
      cf_networkMode = parseNetworkMode (readEnv env [''NEO_NETWORK'', ''NEO_NETWORK_MODE'']),
      cf_writesEnabled = flag env ''NEO_ENABLE_WRITES'' False,
      cf_signerWifFile = readEnv env [''NEO_SIGNER_WIF_FILE''],
      cf_stateDirectory = env_or env ''NEO_WRITE_STATE_DIR'' (join walletsDirectory ''.write-operations''),
      cf_requestStateKey = readEnv env [''NEO_MCP_REQUEST_STATE_KEY''],
      cf_httpApprovalApiKey = readEnv env [''HTTP_WRITE_APPROVAL_API_KEY''],
      cf_n3indexBaseUrl = env_or env ''N3INDEX_API_BASE_URL'' ''https://api.n3index.dev'',
      cf_n3indexEnabled = flag env ''N3INDEX_ENABLED'' True,
      cf_findEnabled = flag env ''N3INDEX_FIND_ENABLED'' False,
      cf_mainnetExplorer = env_or env ''NEOX_MAINNET_EXPLORER_API_BASE_URL'' ''https://xexplorer.neo.org'',
      cf_testnetExplorer = env_or env ''NEOX_TESTNET_EXPLORER_API_BASE_URL'' ''https://xt4scan.ngd.network'',
      cf_neoxTestnetEnabled = flag env ''NEOX_TESTNET_ENABLED'' True,
      cf_neoxMainnetChainId = parseInt10 (env_or env ''NEOX_MAINNET_CHAIN_ID'' ''47763''),
      cf_neoxTestnetChainId = parseInt10 (env_or env ''NEOX_TESTNET_CHAIN_ID'' ''12227332''),
      cf_neoxMainnetRpcUrls = list_or env ''NEOX_MAINNET_RPC_URLS'' DEFAULT_NEOX_MAINNET_RPC_URLS,
      cf_neoxTestnetRpcUrls = list_or env ''NEOX_TESTNET_RPC_URLS'' DEFAULT_NEOX_TESTNET_RPC_URLS,
      cf_graphqlEnabled = flag env ''NEOX_GRAPHQL_ENABLED'' False,
      cf_httpHost = env_or env ''HTTP_HOST'' ''127.0.0.1'',
      cf_httpApiKey = readEnv env [''HTTP_API_KEY''],
      cf_corsOrigins = readListEnv env ''HTTP_CORS_ORIGINS'',
      cf_trustedProxies = readListEnv env ''HTTP_TRUSTED_PROXIES'',
      cf_maxBodyBytes = parseInt10 (env_or env ''HTTP_MAX_BODY_BYTES'' ''1048576''),
      cf_walletsDirectory = walletsDirectory,
      cf_administrationEnabled = flag env ''NEO_ENABLE_WALLET_ADMIN'' False,
      cf_rateLimiting = (flag env ''RATE_LIMITING_ENABLED'' True \<and> \<not> isTestLikeEnvironment env),
      cf_maxRequestsPerMinute = parseInt10 (raw_or env ''MAX_REQUESTS_PER_MINUTE'' ''60''),
      cf_maxRequestsPerHour = parseInt10 (raw_or env ''MAX_REQUESTS_PER_HOUR'' ''1000''),
      cf_logLevel = raw_or env ''LOG_LEVEL'' ''info'',
      cf_logConsole = flag env ''LOG_CONSOLE'' (\<not> isTestLikeEnvironment env),
      cf_logFileEnabled = (flag env ''LOG_FILE_ENABLED'' False \<or> readEnv env [''LOG_FILE''] \<noteq> None),
      cf_logFilePath = env_or env ''LOG_FILE'' ''./logs/neo-mcp.log''\<rparr>)"

section \<open>Validation at startup\<close>

record full_url = url_parts +
  u_pathname :: string
  u_search :: string
  u_hash :: string

definition check_that :: "bool \<Rightarrow> string \<Rightarrow> unit result" where
  "check_that c m = (if c then Inr () else Inl (GenericError m))"

text \<open>A loop of checks that throws at the first failure.\<close>

fun check_each :: "('a \<Rightarrow> unit result) \<Rightarrow> 'a list \<Rightarrow> unit result" where
  "check_each f [] = Inr ()"
| "check_each f (x # xs) = bindR (f x) (\<lambda>_. check_each f xs)"

definition VALIDATED_BOOLEANS :: "string list" where
  "VALIDATED_BOOLEANS =
     [''NEO_ALLOW_INSECURE_RPC'', ''N3INDEX_ENABLED'', ''N3INDEX_FIND_ENABLED'', ''NEOX_GRAPHQL_ENABLED'', ''LOG_CONSOLE'',
      ''LOG_FILE_ENABLED'', ''RATE_LIMITING_ENABLED'', ''NEO_ENABLE_WRITES'', ''NEO_ENABLE_WALLET_ADMIN'']"

definition check_boolean :: "env \<Rightarrow> string \<Rightarrow> unit result" where
  "check_boolean env key = check_that (env key = None \<or> readBooleanEnv env [key] \<noteq> None) (''Invalid '' @ key)"

fun safe_positive :: "jsnum \<Rightarrow> bool" where
  "safe_positive (NInt i) = (isSafeInteger (NInt i) \<and> 0 < i)"
| "safe_positive _ = False"

definition check_positive :: "(string \<Rightarrow> jsnum) \<Rightarrow> env \<Rightarrow> string \<Rightarrow> unit result" where
  "check_positive number env key =
     (case env key of
        None \<Rightarrow> Inr ()
      | Some raw \<Rightarrow> check_that (safe_positive (number raw)) (''Invalid '' @ key))"

definition long_enough :: "string option \<Rightarrow> bool" where
  "long_enough key = (case key of None \<Rightarrow> True | Some k \<Rightarrow> 32 \<le> length (utf8_bytes k))"

definition check_neox_url :: "(string \<Rightarrow> full_url option) \<Rightarrow> string \<Rightarrow> string \<Rightarrow> unit result" where
  "check_neox_url parseURL key url =
     check_that (case parseURL url of
        None \<Rightarrow> False
      | Some u \<Rightarrow> u_protocol u \<in> {''http:'', ''https:''} \<and> u_username u = [] \<and> u_password u = []) (''Invalid '' @ key)"

definition check_origin :: "(string \<Rightarrow> full_url option) \<Rightarrow> string \<Rightarrow> unit result" where
  "check_origin parseURL origin =
     check_that (case parseURL origin of
        None \<Rightarrow> False
      | Some u \<Rightarrow> origin \<noteq> ''*'' \<and> u_protocol u \<in> {''http:'', ''https:''} \<and> u_username u = [] \<and> u_password u = []
          \<and> u_pathname u = ''/'' \<and> u_search u = [] \<and> u_hash u = []) ''Invalid HTTP_CORS_ORIGINS entry ''"

definition rpc_url_ok :: "(string \<Rightarrow> full_url option) \<Rightarrow> bool \<Rightarrow> string \<Rightarrow> bool" where
  "rpc_url_ok parseURL insecure url \<longleftrightarrow> assertValidRpcUrl (\<lambda>s. map_option url_parts.truncate (parseURL s)) insecure url = Inr ()"

definition validateConfig ::
    "(string \<Rightarrow> string \<Rightarrow> string) \<Rightarrow> (string \<Rightarrow> full_url option) \<Rightarrow> (string \<Rightarrow> nat) \<Rightarrow> (string \<Rightarrow> jsnum) \<Rightarrow> env \<Rightarrow> unit result" where
  "validateConfig join parseURL isIP number env =
     (let cfg = read_config join env;
          networkMode = readEnv env [''NEO_NETWORK'', ''NEO_NETWORK_MODE''];
          writesEnabled = (readBooleanEnv env [''NEO_ENABLE_WRITES''] = Some True);
          stateKey = readEnv env [''NEO_MCP_REQUEST_STATE_KEY''];
          approvalKey = readEnv env [''HTTP_WRITE_APPROVAL_API_KEY''];
          apiKey = readEnv env [''HTTP_API_KEY''] in
      bindR (check_that (case env ''LOG_LEVEL'' of None \<Rightarrow> True | Some v \<Rightarrow> v = [] \<or> to_lower v \<in> {''debug'', ''info'', ''warn'', ''error''})
        ''Invalid LOG_LEVEL '') (\<lambda>_.
      bindR (check_that (case networkMode of None \<Rightarrow> True | Some v \<Rightarrow>
          to_lower v \<in> {''mainnet'', ''mainnet_only'', ''testnet'', ''testnet_only'', ''both''}) ''Invalid NEO_NETWORK '') (\<lambda>_.
      bindR (check_each (check_boolean env) VALIDATED_BOOLEANS) (\<lambda>_.
      bindR (check_that (\<not> writesEnabled \<or> readEnv env [''NEO_SIGNER_WIF_FILE''] \<noteq> None)
        ''NEO_SIGNER_WIF_FILE is required when NEO_ENABLE_WRITES=true.'') (\<lambda>_.
      bindR (check_that (\<not> writesEnabled \<or> stateKey \<noteq> None)
        ''NEO_MCP_REQUEST_STATE_KEY is required when NEO_ENABLE_WRITES=true.'') (\<lambda>_.
      bindR (check_that (long_enough stateKey) ''Invalid NEO_MCP_REQUEST_STATE_KEY. Must contain at least 32 bytes.'') (\<lambda>_.
      bindR (check_that (long_enough approvalKey) ''Invalid HTTP_WRITE_APPROVAL_API_KEY. Must contain at least 32 bytes.'') (\<lambda>_.
      bindR (check_that (\<not> isl (createTrustedProxyBlockList isIP (readListEnv env ''HTTP_TRUSTED_PROXIES'')))
        ''Invalid HTTP_TRUSTED_PROXIES. Use comma-separated IP addresses or CIDR ranges.'') (\<lambda>_.
      bindR (check_each (check_positive number env) [''MAX_REQUESTS_PER_MINUTE'', ''MAX_REQUESTS_PER_HOUR'', ''NEO_RPC_TIMEOUT_MS'']) (\<lambda>_.
      bindR (if raw_or env ''HTTP_MAX_BODY_BYTES'' [] = [] then Inr () else check_positive number env ''HTTP_MAX_BODY_BYTES'') (\<lambda>_.
      bindR (check_that (\<not> isl (parseGasAmountToDatos (cf_maxTransactionFeeGas cfg)))
        ''Invalid NEO_MAX_TRANSACTION_FEE_GAS. Must be a positive GAS amount with at most 8 decimal places.'') (\<lambda>_.
      bindR (check_each (check_positive number env) [''NEOX_MAINNET_CHAIN_ID'', ''NEOX_TESTNET_CHAIN_ID'']) (\<lambda>_.
      bindR (check_each (\<lambda>key. check_each (check_neox_url parseURL key) (readListEnv env key)) [''NEOX_MAINNET_RPC_URLS'', ''NEOX_TESTNET_RPC_URLS'']) (\<lambda>_.
      bindR (check_that (apiKey = None \<or> approvalKey \<noteq> apiKey) ''HTTP_WRITE_APPROVAL_API_KEY must differ from HTTP_API_KEY.'') (\<lambda>_.
      bindR (check_that (stateKey = None \<or> (stateKey \<noteq> apiKey \<and> stateKey \<noteq> approvalKey))
        ''NEO_MCP_REQUEST_STATE_KEY must differ from HTTP_API_KEY and HTTP_WRITE_APPROVAL_API_KEY.'') (\<lambda>_.
      bindR (check_that (long_enough apiKey) ''Invalid HTTP_API_KEY. Must contain at least 32 bytes.'') (\<lambda>_.
      bindR (check_each (check_origin parseURL) (readListEnv env ''HTTP_CORS_ORIGINS'')) (\<lambda>_.
      bindR (check_each (\<lambda>url. check_that (rpc_url_ok parseURL (cf_allowInsecureRpc cfg) url) ''Invalid NEO_MAINNET_RPC. '') (cf_mainnetRpcUrls cfg)) (\<lambda>_.
      check_each (\<lambda>url. check_that (rpc_url_ok parseURL (cf_allowInsecureRpc cfg) url) ''Invalid NEO_TESTNET_RPC. '') (cf_testnetRpcUrls cfg))))))))))))))))))))"

section \<open>What a started server can rely on\<close>

lemma check_that_Inr [simp]: "check_that c m = Inr u \<longleftrightarrow> c"
  by (simp add: check_that_def)

lemma check_each_Inr: "check_each f xs = Inr u \<longleftrightarrow> (\<forall>x \<in> set xs. f x = Inr ())"
  by (induction xs) (auto simp: result_simps)

lemma flag_True: "flag env key False \<longleftrightarrow> readBooleanEnv env [key] = Some True"
  by (auto simp: flag_def split: option.splits)

lemma parseGas_positive: "\<not> isl (parseGasAmountToDatos s) \<Longrightarrow> \<exists>datos > 0. parseGasAmountToDatos s = Inr datos"
  by (auto simp: parseGasAmountToDatos_def Let_def split: option.splits if_splits)

lemma rpc_list_nonempty: "defaults \<noteq> [] \<Longrightarrow> resolveRpcUrlList env k ks defaults \<noteq> []"
  using unique_from [of "[]" "readListEnv env k"]
  by (auto simp: resolveRpcUrlList_def Let_def split: option.splits)

text \<open>What is known after validation, about the checks that were made.\<close>

lemma validateConfig_facts:
  assumes "validateConfig join parseURL isIP number env = Inr ()"
  shows "readBooleanEnv env [''NEO_ENABLE_WRITES''] = Some True \<longrightarrow>
      readEnv env [''NEO_SIGNER_WIF_FILE''] \<noteq> None \<and> readEnv env [''NEO_MCP_REQUEST_STATE_KEY''] \<noteq> None"
    "long_enough (readEnv env [''NEO_MCP_REQUEST_STATE_KEY''])" "long_enough (readEnv env [''HTTP_WRITE_APPROVAL_API_KEY''])"
    "long_enough (readEnv env [''HTTP_API_KEY''])"
    "\<not> isl (createTrustedProxyBlockList isIP (readListEnv env ''HTTP_TRUSTED_PROXIES''))"
    "\<not> isl (parseGasAmountToDatos (cf_maxTransactionFeeGas (read_config join env)))"
    "readEnv env [''HTTP_API_KEY''] = None \<or> readEnv env [''HTTP_WRITE_APPROVAL_API_KEY''] \<noteq> readEnv env [''HTTP_API_KEY'']"
    "readEnv env [''NEO_MCP_REQUEST_STATE_KEY''] = None \<or>
      readEnv env [''NEO_MCP_REQUEST_STATE_KEY''] \<notin> {readEnv env [''HTTP_API_KEY''], readEnv env [''HTTP_WRITE_APPROVAL_API_KEY'']}"
    "\<forall>origin \<in> set (readListEnv env ''HTTP_CORS_ORIGINS''). check_origin parseURL origin = Inr ()"
    "\<forall>url \<in> set (cf_mainnetRpcUrls (read_config join env)) \<union> set (cf_testnetRpcUrls (read_config join env)).
      rpc_url_ok parseURL (cf_allowInsecureRpc (read_config join env)) url"
  using assms unfolding validateConfig_def Let_def bindR_eq_Inr check_that_Inr check_each_Inr by auto

lemma rpc_url_ok_secure:
  "rpc_url_ok parseURL False url \<Longrightarrow>
    \<exists>u. parseURL url = Some u \<and> u_username u = [] \<and> u_password u = [] \<and> (u_protocol u = ''https:'' \<or> isLoopbackHostname (u_hostname u))"
  by (auto simp: rpc_url_ok_def url_parts.truncate_def dest!: valid_url_confidential)



text \<open>
  Two gaps of the validation: a misspelt \<open>NEOX_TESTNET_ENABLED\<close> is not reported and means enabled, and a number is
  checked by \<open>Number\<close> but read by \<open>parseInt\<close>, which stops at the exponent.
\<close>

lemma neox_flag_unchecked:
  "''NEOX_TESTNET_ENABLED'' \<notin> set VALIDATED_BOOLEANS
    \<and> cf_neoxTestnetEnabled (read_config join ((\<lambda>_. None)(''NEOX_TESTNET_ENABLED'' \<mapsto> ''flase'')))"
proof -
  have "trim ''flase'' = ''flase'' \<and> to_lower ''flase'' = ''flase''" by code_simp
  then show ?thesis
    by (simp add: VALIDATED_BOOLEANS_def read_config_def Let_def flag_def readBooleanEnv_def)
qed

lemma parseInt_exponent: "parseInt10 ''1e4'' = Some 1 \<and> parseInt10 ''0x10'' = Some 0"
  by code_simp

end
