(* ===== verification/ToolHandler.thy ===== *)
theory ToolHandler
  imports RestClients NeoxTools Ecosystem IndexerFind N3RestGuard GraphqlGuard N3Status WalletService ClientIdentity Config
begin

text \<open>
  src/handlers/tool-handler.ts: \<open>callTool\<close>, through which every tool of the MCP server goes that is no write tool.
  The trace of a call lists what is asked of the outside: requests to the explorers, posts to a Neo X node, calls of
  the ecosystem tools, reads of the Neo N3 services, the wallet file. The reads of the handlers that are modelled
  without a trace (proposals and transaction status) are one entry each. The rate limiter is threaded through.
  \<open>createSuccessResponse\<close> only wraps and is left out; so are the checks of the arguments by the MCP library.

  The main result: whatever tool is named with whatever arguments, every call is a vetted read
  (\<open>tool_calls_vetted\<close>).
\<close>

text \<open>The reads of the two Neo N3 services, with their arguments as they are passed.\<close>

datatype node_read_op =
    R_blockchain_info
  | R_block_count
  | R_block jsval
  | R_state_root int
  | R_transaction jsval
  | R_application_log jsval
  | R_wait_transaction jsval int int bool
  | R_balance jsval
  | R_unclaimed_gas jsval
  | R_nep17_transfers jsval "int option" "int option"
  | R_nep11_balances jsval
  | R_nep11_transfers jsval "int option" "int option"
  | R_invoke_read string jsval jsval
  | R_transfer_fee jsval jsval jsval string
  | R_invoke_fee jsval string jsval jsval
  | R_assert_deployed string
  | R_resolve_contract string
  | R_read_contract string jsval jsval
  | R_supported_contracts
  | R_contract_info string
  | R_contract_status string

datatype tool_call =
    Explorer upstream_request
  | Neox_post evm_post
  | Eco eco_call
  | Node string node_read_op
  | Proposal_reads string
  | Status_reads string
  | Wallet_file string

type_synonym 'a tool = "(tool_call, 'a) traced"

datatype tool_answer =
    Answer jsval
  | Data_answer data_answer
  | Proposal_answer proposal_answer
  | Status_answer n3_status
  | Failed error_response

text \<open>What the handlers take from elsewhere: neon-js and the platform for the data tools, the services per network.\<close>

record data_env =
  de_addressOf :: "string \<Rightarrow> string"
  de_isPublicKey :: "string \<Rightarrow> bool"
  de_parseJSON :: "string \<Rightarrow> jsval option"
  de_fromUtf8 :: "nat list \<Rightarrow> string"
  de_fromScript :: "string \<Rightarrow> js_error + op_token list"
  de_opcode :: "nat \<Rightarrow> string option"
  de_services :: "(string \<times> string) list"

record handler_env =
  th_isAddress :: "string \<Rightarrow> bool"
  th_scriptHash :: "string \<Rightarrow> string option"
  th_config :: app_config
  th_data :: data_env
  th_rest :: rest_env
  th_neox :: neox_env
  th_eco :: "string \<Rightarrow> eco_env"
  th_proposals :: "string \<Rightarrow> tool_env"
  th_status :: "string \<Rightarrow> n3_service"
  th_node :: "string \<Rightarrow> node_read_op \<Rightarrow> jsval result"
  th_neoServices :: "string list"
  th_contractServices :: "string list"
  th_wallets :: "(wallet_env \<times> string option \<times> wallet_dir) option"

definition node :: "handler_env \<Rightarrow> string \<Rightarrow> node_read_op \<Rightarrow> jsval tool" where
  "node env network op = callH (Node network op) (th_node env network op)"

definition tool_value :: "jsval tool \<Rightarrow> tool_answer tool" where
  "tool_value m = bindH m (\<lambda>v. giveH (Inr (Answer v)))"

text \<open>\<open>try { ... } catch (error) { return handleError(error) }\<close>\<close>

definition tool_handled :: "tool_answer tool \<Rightarrow> tool_answer tool" where
  "tool_handled m = catchH m (\<lambda>e. bindR (handleError (thrown_of e)) (\<lambda>r. Inr (Failed r)))"

definition refuse :: "string \<Rightarrow> js_error" where
  "refuse m = ProtocolError InvalidParams m"

section \<open>The node tools of Neo N3\<close>

definition handleGetNetworkMode :: "handler_env \<Rightarrow> jsval" where
  "handleGetNetworkMode env =
     (let mode = cf_networkMode (th_config env);
          name = JStr (case mode of MAINNET_ONLY \<Rightarrow> ''mainnet_only'' | TESTNET_ONLY \<Rightarrow> ''testnet_only'' | BOTH \<Rightarrow> ''both'') in
      JObj [(''networkMode'', name), (''mode'', name),
            (''availableNetworks'', JArr ((if mode \<noteq> TESTNET_ONLY then [JStr ''mainnet''] else [])
               @ (if mode \<noteq> MAINNET_ONLY then [JStr ''testnet''] else []))),
            (''defaultNetwork'', JStr (if mode = TESTNET_ONLY then ''testnet'' else ''mainnet''))])"

definition handleGetBlockCount :: "handler_env \<Rightarrow> string \<Rightarrow> jsval tool" where
  "handleGetBlockCount env network =
     bindH (node env network R_block_count) (\<lambda>count.
     giveH (Inr (JObj [(''blockCount'', count),
       (''height'', case count of JNum (NInt c) \<Rightarrow> JNum (NInt (max 0 (c - 1))) | _ \<Rightarrow> JNum NaN), (''network'', JStr network)])))"

definition block_time :: "jsval \<Rightarrow> int option" where
  "block_time v =
     (case v of
        JNum (NInt i) \<Rightarrow> if 0 \<le> i \<and> i \<le> MAX_TIME then Some i else None
      | JStr s \<Rightarrow> if all_digits s \<and> int (str_dec s) \<le> MAX_TIME then Some (int (str_dec s)) else None
      | _ \<Rightarrow> None)"

definition addBlockTimeIso :: "jsobj \<Rightarrow> jsobj" where
  "addBlockTimeIso block =
     (case block_time (oget block ''time'') of
        None \<Rightarrow> block | Some ms \<Rightarrow> AList.update ''timeIso'' (JStr (iso_date (nat ms))) block)"

text \<open>The members of an answer that is used as an object.\<close>

definition object_of :: "jsval \<Rightarrow> jsobj result" where
  "object_of v = (if nullish v then Inl (TypeError ''Cannot read properties of '') else Inr (case v of JObj kvs \<Rightarrow> kvs | _ \<Rightarrow> []))"

definition block_reference :: "jsobj \<Rightarrow> jsval result" where
  "block_reference input =
     (case oget input ''hashOrHeight'' of
        JStr s \<Rightarrow> bindR (validateHash (JStr s)) (\<lambda>h. Inr (JStr h))
      | JNum n \<Rightarrow> bindR (validateInteger (JNum n)) (\<lambda>i. Inr (JNum (NInt i)))
      | _ \<Rightarrow> Inl (refuse ''hashOrHeight must be a string or number''))"

definition state_root_height :: "jsval \<Rightarrow> jsval \<Rightarrow> int result" where
  "state_root_height reference index =
     (case reference of
        JNum (NInt i) \<Rightarrow> Inr i
      | _ \<Rightarrow>
          (case index of
             JNum n \<Rightarrow> validateInteger index
           | JStr s \<Rightarrow> validateInteger index
           | _ \<Rightarrow> Inl (refuse ''Block response does not contain a valid index for state-root lookup'')))"

definition handleGetBlock :: "handler_env \<Rightarrow> string \<Rightarrow> jsobj \<Rightarrow> jsval tool" where
  "handleGetBlock env network input =
     liftH (block_reference input) (\<lambda>reference.
     bindH (node env network (R_block reference)) (\<lambda>returned.
     liftH (object_of returned) (\<lambda>kvs.
     let block = addBlockTimeIso kvs; wanted = oget input ''includeStateRoot'' in
     if wanted = JUndef \<or> wanted = JBool False then giveH (Inr (JObj block))
     else if wanted \<noteq> JBool True then giveH (Inl (refuse ''includeStateRoot must be a boolean''))
     else liftH (state_root_height reference (oget block ''index'')) (\<lambda>height.
          bindH (node env network (R_state_root height)) (\<lambda>root.
          giveH (Inr (JObj (AList.update ''stateRootValidation'' root block))))))))"

text \<open>The handlers that validate one argument and pass it on as it came.\<close>

definition with_hash :: "handler_env \<Rightarrow> string \<Rightarrow> jsobj \<Rightarrow> (jsval \<Rightarrow> node_read_op) \<Rightarrow> jsval tool" where
  "with_hash env network input op = liftH (validateHash (oget input ''txid'')) (\<lambda>_. node env network (op (oget input ''txid'')))"

definition checked :: "handler_env \<Rightarrow> jsval \<Rightarrow> string result" where
  "checked env v = validateAddress (th_isAddress env) (th_scriptHash env) v"

definition with_address :: "handler_env \<Rightarrow> string \<Rightarrow> jsobj \<Rightarrow> (jsval \<Rightarrow> node_read_op) \<Rightarrow> jsval tool" where
  "with_address env network input op = liftH (checked env (oget input ''address'')) (\<lambda>_. node env network (op (oget input ''address'')))"

definition MAX_WAIT_MS :: int where "MAX_WAIT_MS = 120000"
definition MIN_POLL_MS :: int where "MIN_POLL_MS = 250"

definition integer_or :: "jsval \<Rightarrow> int \<Rightarrow> int result" where
  "integer_or v d = (if v = JUndef then Inr d else validateInteger v)"

definition wait_times :: "jsobj \<Rightarrow> (int \<times> int) result" where
  "wait_times input =
     bindR (integer_or (oget input ''timeoutMs'') 30000) (\<lambda>timeoutMs.
     bindR (integer_or (oget input ''pollIntervalMs'') 1000) (\<lambda>pollIntervalMs.
     if timeoutMs \<le> 0 then Inl (refuse ''timeoutMs must be greater than zero.'')
     else if pollIntervalMs \<le> 0 then Inl (refuse ''pollIntervalMs must be greater than zero.'')
     else if MAX_WAIT_MS < timeoutMs then Inl (refuse ''timeoutMs must not exceed '')
     else if pollIntervalMs < MIN_POLL_MS then Inl (refuse ''pollIntervalMs must be at least '')
     else Inr (timeoutMs, pollIntervalMs)))"

definition handleWaitForTransaction :: "handler_env \<Rightarrow> string \<Rightarrow> jsobj \<Rightarrow> jsval tool" where
  "handleWaitForTransaction env network input =
     liftH (validateHash (oget input ''txid'')) (\<lambda>_.
     liftH (wait_times input) (\<lambda>(timeoutMs, pollIntervalMs).
     node env network (R_wait_transaction (oget input ''txid'') timeoutMs pollIntervalMs (truthy (oget input ''includeApplicationLog'')))))"

definition optional_time :: "jsval \<Rightarrow> int option result" where
  "optional_time v = (if v = JUndef then Inr None else bindR (validateInteger v) (\<lambda>i. Inr (Some i)))"

definition transfer_times :: "jsobj \<Rightarrow> (int option \<times> int option) result" where
  "transfer_times input =
     bindR (optional_time (oget input ''fromTimestampMs'')) (\<lambda>earliest.
     bindR (optional_time (oget input ''toTimestampMs'')) (\<lambda>latest.
     case (earliest, latest) of
       (Some a, Some b) \<Rightarrow>
         if b < a then Inl (refuse ''fromTimestampMs must be less than or equal to toTimestampMs.'') else Inr (earliest, latest)
     | _ \<Rightarrow> Inr (earliest, latest)))"

definition with_transfers ::
    "handler_env \<Rightarrow> string \<Rightarrow> jsobj \<Rightarrow> (jsval \<Rightarrow> int option \<Rightarrow> int option \<Rightarrow> node_read_op) \<Rightarrow> jsval tool" where
  "with_transfers env network input op =
     liftH (checked env (oget input ''address'')) (\<lambda>_.
     liftH (transfer_times input) (\<lambda>(earliest, latest).
     node env network (op (oget input ''address'') earliest latest)))"

section \<open>Contracts, fees and wallets\<close>

definition first_given :: "jsval list \<Rightarrow> jsval" where
  "first_given vs = foldr first_defined vs JUndef"

definition resolveContractReference :: "jsobj \<Rightarrow> string result" where
  "resolveContractReference input =
     (case first_given [oget input ''contract'', oget input ''contractReference'', oget input ''contractName'', oget input ''nameOrHash''] of
        JStr s \<Rightarrow> if trim s \<noteq> [] then Inr (trim s) else Inl (refuse ''Either scriptHash or a contract reference must be provided.'')
      | _ \<Rightarrow> Inl (refuse ''Either scriptHash or a contract reference must be provided.''))"

text \<open>The service answers a script hash as a text.\<close>

definition resolveInvocationScriptHash :: "handler_env \<Rightarrow> string \<Rightarrow> jsobj \<Rightarrow> string tool" where
  "resolveInvocationScriptHash env network input =
     (case oget input ''scriptHash'' of
        JStr s \<Rightarrow>
          if trim s \<noteq> [] then giveH (validateScriptHash (JStr s))
          else liftH (resolveContractReference input) (\<lambda>r. bindH (node env network (R_resolve_contract r)) (\<lambda>v. giveH (Inr (js_String v))))
      | _ \<Rightarrow> liftH (resolveContractReference input) (\<lambda>r. bindH (node env network (R_resolve_contract r)) (\<lambda>v. giveH (Inr (js_String v)))))"

definition named_reference :: "jsobj \<Rightarrow> string option" where
  "named_reference input =
     (if truthy (oget input ''scriptHash'') then None
      else case resolveContractReference input of Inl e \<Rightarrow> None | Inr r \<Rightarrow> Some r)"

definition tool_args :: "jsobj \<Rightarrow> jsval" where
  "tool_args input = (if truthy (oget input ''args'') then oget input ''args'' else JArr [])"

definition handleInvokeReadContract :: "handler_env \<Rightarrow> string \<Rightarrow> string \<Rightarrow> jsobj \<Rightarrow> jsval tool" where
  "handleInvokeReadContract env network contracts input =
     (case named_reference input of
        Some r \<Rightarrow>
          bindH (node env contracts (R_assert_deployed r)) (\<lambda>_.
          node env contracts (R_read_contract r (oget input ''operation'') (tool_args input)))
      | None \<Rightarrow>
          bindH (resolveInvocationScriptHash env contracts input) (\<lambda>hash.
          node env network (R_invoke_read hash (oget input ''operation'') (tool_args input))))"

definition handleGetWallet :: "handler_env \<Rightarrow> jsobj \<Rightarrow> jsval tool" where
  "handleGetWallet env input =
     liftH (checked env (oget input ''address'')) (\<lambda>address.
     case th_wallets env of
       None \<Rightarrow> giveH (Inl (ProtocolError InternalError ''Wallet service is not available.''))
     | Some (wenv, unreadable, dir) \<Rightarrow>
         bindH (callH (Wallet_file address)
            (case fst (getWallet wenv unreadable address dir) of Ret v \<Rightarrow> Inr v | Throw e \<Rightarrow> Inl e | Crash \<Rightarrow> Inl (GenericError []))) (\<lambda>wallet.
         liftH (object_of wallet) (\<lambda>kvs. giveH (Inr (JObj (sanitizeWalletMetadata kvs))))))"

definition handleEstimateTransferFees :: "handler_env \<Rightarrow> string \<Rightarrow> jsobj \<Rightarrow> jsval tool" where
  "handleEstimateTransferFees env network input =
     liftH (checked env (oget input ''fromAddress'')) (\<lambda>_.
     liftH (checked env (oget input ''toAddress'')) (\<lambda>_.
     liftH (validateTokenAmount (oget input ''amount'')) (\<lambda>amount.
     node env network (R_transfer_fee (oget input ''fromAddress'') (oget input ''toAddress'') (oget input ''asset'') amount))))"

definition handleEstimateInvokeFees :: "handler_env \<Rightarrow> string \<Rightarrow> string \<Rightarrow> jsobj \<Rightarrow> jsval tool" where
  "handleEstimateInvokeFees env network contracts input =
     (if \<not> truthy (oget input ''signerAddress'') then giveH (Inl (refuse ''Signer address is required to estimate invocation fees.''))
      else bindH (case named_reference input of Some r \<Rightarrow> node env contracts (R_assert_deployed r) | None \<Rightarrow> giveH (Inr JUndef)) (\<lambda>_.
      bindH (resolveInvocationScriptHash env contracts input) (\<lambda>hash.
      liftH (checked env (oget input ''signerAddress'')) (\<lambda>_.
      node env network (R_invoke_fee (oget input ''signerAddress'') hash (oget input ''operation'') (tool_args input))))))"

definition handleListFamousContracts :: "handler_env \<Rightarrow> string \<Rightarrow> jsval tool" where
  "handleListFamousContracts env contracts =
     bindH (node env contracts R_supported_contracts) (\<lambda>listed.
     giveH (Inr (JObj
       [(''contracts'', JArr (filter (\<lambda>c. truthy (member c ''available'')) (case listed of JArr cs \<Rightarrow> cs | _ \<Rightarrow> []))),
        (''network'', JStr contracts)])))"

definition with_contract :: "handler_env \<Rightarrow> string \<Rightarrow> jsobj \<Rightarrow> (string \<Rightarrow> node_read_op) \<Rightarrow> jsval tool" where
  "with_contract env contracts input op = liftH (resolveContractReference input) (\<lambda>r. node env contracts (op r))"

end
