(* ===== verification/ToolDispatch.thy ===== *)
theory ToolDispatch
  imports ToolHandler
begin

text \<open>
  src/handlers/tool-handler.ts, the second half: the explorer tools, the tables of tools and \<open>callTool\<close> itself.
  The main result is \<open>tool_calls_vetted\<close>.
\<close>

section \<open>The Neo N3 explorer tools\<close>

definition resolveIndexerNetwork :: "jsobj \<Rightarrow> string result" where
  "resolveIndexerNetwork input =
     (case oget input ''network'' of
        JStr s \<Rightarrow> if trim s \<noteq> [] then validateNetwork (JStr s) else Inr ''mainnet''
      | _ \<Rightarrow> Inr ''mainnet'')"

definition rest_query :: "handler_env \<Rightarrow> jsobj \<Rightarrow> jsval \<Rightarrow> jsval \<Rightarrow> jsval tool" where
  "rest_query env input endpoint params =
     liftH (resolveIndexerNetwork input) (\<lambda>network.
     liftH (assertAllowedN3Endpoint endpoint) (\<lambda>d.
     liftH (buildN3EndpointRequest (th_isAddress env) (th_scriptHash env) d params) (\<lambda>(path, query).
     mapH Explorer (fetchN3Index (th_rest env) network path query))))"

definition dispatchN3RestEndpoint :: "handler_env \<Rightarrow> jsobj \<Rightarrow> string \<Rightarrow> jsobj \<Rightarrow> jsval tool" where
  "dispatchN3RestEndpoint env input endpoint params = rest_query env input (JStr endpoint) (JObj params)"

definition paged :: "jsobj \<Rightarrow> jsobj" where
  "paged input = [(''limit'', oget input ''limit''), (''offset'', oget input ''skip'')]"

text \<open>The tools that ask a fixed endpoint: its key and the parameters made of the input.\<close>

definition n3_tool_endpoint :: "string \<Rightarrow> jsobj \<Rightarrow> (string \<times> jsobj) option" where
  "n3_tool_endpoint name input =
     (if name = ''n3_get_address'' then Some (''get_address_summary'', [(''address'', oget input ''address'')])
      else if name = ''n3_list_transactions_by_address''
      then Some (''list_address_transactions'', (''address'', oget input ''address'') # paged input)
      else if name = ''n3_list_transfers_by_address''
      then Some (''list_address_transfers'', (''address'', oget input ''address'') # paged input)
      else if name = ''n3_asset_holders'' then Some (''list_token_holders'', (''hash'', oget input ''contractHash'') # paged input)
      else if name = ''n3_assets_held_by_address''
      then Some (''list_address_balances'', (''address'', oget input ''address'') # paged input)
      else if name = ''n3_contract_by_name'' then Some (''search'', [(''q'', oget input ''name'')])
      else if name = ''n3_list_blocks'' then Some (''list_blocks'', paged input)
      else if name = ''n3_list_transactions'' then Some (''list_transactions'', paged input)
      else if name = ''n3_get_transaction''
      then Some (''get_transaction'', [(''txid'', first_given [oget input ''transactionHash'', oget input ''txid'', oget input ''hash''])])
      else if name = ''n3_get_block''
      then Some (''get_block'', [(''blockRef'',
             first_given [oget input ''block'', oget input ''blockHash'', oget input ''blockHeight'', oget input ''hashOrHeight''])])
      else if name = ''n3_list_nep17_transfers_by_contract''
      then Some (''list_token_holders'', (''hash'', oget input ''contractHash'') # paged input)
      else if name = ''n3_list_assets'' then Some (''list_tokens'', paged input)
      else None)"

definition text_or_empty :: "jsval \<Rightarrow> jsval" where
  "text_or_empty v = (case v of JStr s \<Rightarrow> JStr s | _ \<Rightarrow> JStr [])"

definition plain_params :: "jsval \<Rightarrow> bool" where
  "plain_params v \<longleftrightarrow> (case v of JArr vs \<Rightarrow> False | _ \<Rightarrow> own_props v \<noteq> None)"

definition handleQueryIndexer :: "handler_env \<Rightarrow> jsobj \<Rightarrow> jsval tool" where
  "handleQueryIndexer env input =
     rest_query env input (text_or_empty (oget input ''method''))
       (if plain_params (oget input ''params'') then oget input ''params'' else JObj (filter (\<lambda>(k, v). k \<noteq> ''method'') input))"

definition find_params :: "find_request \<Rightarrow> jsobj" where
  "find_params r =
     [(''Filter'', JObj (Filter r)), (''Sort'', sort_obj (Sort r)), (''Limit'', JNum (NInt (Limit r))), (''Skip'', JNum (NInt (Skip r)))]"

definition handleQueryIndexerFind :: "handler_env \<Rightarrow> jsobj \<Rightarrow> jsval tool" where
  "handleQueryIndexerFind env input =
     (if \<not> cf_findEnabled (th_config env) then giveH (invalid ''query_indexer_find is disabled; enable N3INDEX_FIND_ENABLED'')
      else liftH (resolveIndexerNetwork input) (\<lambda>network.
      let collection = text_or_empty (oget input ''collection'') in
      liftH (assertAllowedCollection collection) (\<lambda>d.
      liftH (validateFind collection (oget input ''filter'') (oget input ''sort'') (oget input ''limit'') (oget input ''skip'')) (\<lambda>r.
      mapH Explorer (callIndexerRpc (th_rest env) network (c_rpcMethod d) (find_params r))))))"

section \<open>The Neo X explorer tools\<close>

definition x_network_param :: "jsobj \<Rightarrow> string result" where
  "x_network_param input =
     explorer_network (case oget input ''network'' of JStr s \<Rightarrow> JStr (if trim s \<noteq> [] then s else ''neox-mainnet'') | _ \<Rightarrow> JStr ''neox-mainnet'')"

definition blockscout :: "handler_env \<Rightarrow> string \<Rightarrow> string \<Rightarrow> jsobj \<Rightarrow> jsval tool" where
  "blockscout env network path params = mapH Explorer (fetchBlockscout (th_rest env) network path params)"

definition handleXSearch :: "handler_env \<Rightarrow> jsobj \<Rightarrow> jsval tool" where
  "handleXSearch env input =
     liftH (x_network_param input) (\<lambda>network.
     liftH (case oget input ''q'' of JStr s \<Rightarrow> sanitizeString (JStr s) | _ \<Rightarrow> Inr []) (\<lambda>query.
     if query = [] then giveH (invalid (''Search query '' @ [CHR 0x22] @ ''q'' @ [CHR 0x22] @ '' must be a non-empty string''))
     else blockscout env network ''search'' [(''q'', JStr query)]))"

text \<open>The tools with one validated segment: its prefix, the validated value, the suffix.\<close>

definition x_segment :: "handler_env \<Rightarrow> jsobj \<Rightarrow> string \<Rightarrow> string result \<Rightarrow> string \<Rightarrow> jsval tool" where
  "x_segment env input prefix segment suffix =
     liftH (x_network_param input) (\<lambda>network. liftH segment (\<lambda>s. blockscout env network (prefix @ s @ suffix) []))"

definition handleXQuery :: "handler_env \<Rightarrow> jsobj \<Rightarrow> jsval tool" where
  "handleXQuery env input =
     liftH (x_network_param input) (\<lambda>network.
     liftH (assertAllowedEndpoint (text_or_empty (oget input ''endpoint''))) (\<lambda>d.
     liftH (buildEndpointRequest d (if plain_params (oget input ''params'') then oget input ''params'' else JObj input)) (\<lambda>(path, params).
     blockscout env network path params)))"

definition handleXGraphql :: "handler_env \<Rightarrow> jsobj \<Rightarrow> jsval tool" where
  "handleXGraphql env input =
     (if \<not> cf_graphqlEnabled (th_config env) then giveH (invalid ''x_graphql is disabled; enable NEOX_GRAPHQL_ENABLED'')
      else liftH (x_network_param input) (\<lambda>network.
      liftH (validateGraphqlQuery (oget input ''query'') (oget input ''variables'')) (\<lambda>(query, variables).
      mapH Explorer (postBlockscoutGraphql (th_rest env) network query variables))))"

definition N3_INDEXER_TOOLS :: "string list" where
  "N3_INDEXER_TOOLS =
     [''n3_get_address'', ''n3_list_transactions_by_address'', ''n3_list_transfers_by_address'', ''n3_asset_holders'',
      ''n3_assets_held_by_address'', ''n3_contract_by_name'', ''query_indexer'', ''n3_list_blocks'', ''n3_list_transactions'',
      ''n3_get_transaction'', ''n3_get_block'', ''n3_list_nep17_transfers_by_contract'', ''n3_list_assets'', ''query_indexer_find'']"

definition NEOX_TOOLS :: "string list" where
  "NEOX_TOOLS =
     [''x_search'', ''x_get_address'', ''x_list_transactions_by_address'', ''x_list_token_transfers'', ''x_token_info'',
      ''x_token_holders'', ''x_block'', ''x_transaction'', ''x_query'', ''x_graphql'']"

definition dispatchAnalyticalTool :: "handler_env \<Rightarrow> string \<Rightarrow> jsobj \<Rightarrow> jsval tool" where
  "dispatchAnalyticalTool env name input =
     (let address = validateEvmAddress (oget input ''address'') in
      case n3_tool_endpoint name input of
        Some (endpoint, params) \<Rightarrow> dispatchN3RestEndpoint env input endpoint params
      | None \<Rightarrow>
          if name = ''query_indexer'' then handleQueryIndexer env input
          else if name = ''query_indexer_find'' then handleQueryIndexerFind env input
          else if name = ''x_search'' then handleXSearch env input
          else if name = ''x_get_address'' then x_segment env input ''addresses/'' address []
          else if name = ''x_list_transactions_by_address'' then x_segment env input ''addresses/'' address ''/transactions''
          else if name = ''x_list_token_transfers'' then x_segment env input ''addresses/'' address ''/token-transfers''
          else if name = ''x_token_info'' then x_segment env input ''tokens/'' address []
          else if name = ''x_token_holders'' then x_segment env input ''tokens/'' address ''/holders''
          else if name = ''x_block'' then x_segment env input ''blocks/'' (validateEvmBlockRef (oget input ''blockNumberOrHash'')) []
          else if name = ''x_transaction'' then x_segment env input ''transactions/'' (validateEvmHash (oget input ''hash'')) []
          else if name = ''x_query'' then handleXQuery env input
          else if name = ''x_graphql'' then handleXGraphql env input
          else giveH (Inl (refuse (''Tool '' @ name @ '' not found.''))))"

section \<open>callTool\<close>

definition NEO_DATA_TOOLS :: "string list" where
  "NEO_DATA_TOOLS = [''inspect_neo_value'', ''convert_neo_data'', ''decode_neo_script'']"

definition data_tool :: "handler_env \<Rightarrow> string \<Rightarrow> jsobj \<Rightarrow> data_answer result" where
  "data_tool env name input =
     (let d = th_data env in
      dispatchNeoDataTool (th_isAddress env) (\<lambda>s. case th_scriptHash env s of Some h \<Rightarrow> h | None \<Rightarrow> []) (de_addressOf d) (de_isPublicKey d)
        (de_parseJSON d) (de_fromUtf8 d) (de_fromScript d) (de_opcode d) (de_services d) name input)"

definition SECRET_FIELDS :: "string list" where
  "SECRET_FIELDS = [''fromWIF'', ''wif'', ''privateKey'', ''password'', ''confirm'']"

definition write_refused :: "string \<Rightarrow> jsobj \<Rightarrow> bool" where
  "write_refused name input \<longleftrightarrow>
     name \<in> {''transfer_assets'', ''invoke_contract_write'', ''claim_gas'', ''deploy_contract''}
     \<or> name = ''invoke_contract'' \<and> list_ex (\<lambda>field. field \<in> fst ` set input) SECRET_FIELDS"

text \<open>The pair of services a call is for: the named network, the only one, or the first of mainnet and testnet.\<close>

definition preferred :: "string list \<Rightarrow> string option" where
  "preferred ns = (if ''mainnet'' \<in> set ns then Some ''mainnet'' else if ''testnet'' \<in> set ns then Some ''testnet'' else None)"

definition served :: "string list \<Rightarrow> string \<Rightarrow> string option" where
  "served ns n = (if n \<in> set ns then Some n else None)"

definition select_services :: "handler_env \<Rightarrow> jsobj \<Rightarrow> (string \<times> string) result" where
  "select_services env input =
     (let ns = th_neoServices env; cs = th_contractServices env in
      bindR (case oget input ''network'' of
               JStr s \<Rightarrow> if trim s \<noteq> [] then bindR (validateNetwork (JStr s)) (\<lambda>n. Inr (served ns n, served cs n))
                         else Inr (if length ns = 1 \<and> length cs = 1 then (Some (hd ns), Some (hd cs)) else (preferred ns, preferred cs))
             | _ \<Rightarrow> Inr (if length ns = 1 \<and> length cs = 1 then (Some (hd ns), Some (hd cs)) else (preferred ns, preferred cs))) (\<lambda>pair.
      case pair of
        (Some n, Some c) \<Rightarrow> Inr (n, c)
      | _ \<Rightarrow> Inl (refuse ''Requested network is not enabled or service unavailable.'')))"

definition status_tool :: "handler_env \<Rightarrow> string \<Rightarrow> jsobj \<Rightarrow> tool_answer tool" where
  "status_tool env network input =
     callH (Status_reads network)
       (bindR (handleN3TransactionStatus (th_status env network) input) (\<lambda>r. Inr (case r of Inl e \<Rightarrow> Failed e | Inr st \<Rightarrow> Status_answer st)))"

definition node_tool :: "handler_env \<Rightarrow> string \<Rightarrow> string \<Rightarrow> string \<Rightarrow> jsobj \<Rightarrow> tool_answer tool" where
  "node_tool env network contracts name input =
     (if name = ''get_blockchain_info'' then tool_value (node env network R_blockchain_info)
      else if name = ''get_block_count'' then tool_value (handleGetBlockCount env network)
      else if name = ''get_block'' then tool_value (handleGetBlock env network input)
      else if name = ''get_transaction'' then tool_value (with_hash env network input R_transaction)
      else if name = ''get_application_log'' then tool_value (with_hash env network input R_application_log)
      else if name = ''n3_node_get_transaction_status'' then status_tool env network input
      else if name = ''wait_for_transaction'' then tool_value (handleWaitForTransaction env network input)
      else if name = ''get_balance'' then tool_value (with_address env network input R_balance)
      else if name = ''get_unclaimed_gas'' then tool_value (with_address env network input R_unclaimed_gas)
      else if name = ''get_nep17_transfers'' then tool_value (with_transfers env network input R_nep17_transfers)
      else if name = ''get_nep11_balances'' then tool_value (with_address env network input R_nep11_balances)
      else if name = ''get_nep11_transfers'' then tool_value (with_transfers env network input R_nep11_transfers)
      else if name = ''invoke_contract'' then tool_value (handleInvokeReadContract env network contracts input)
      else if name = ''estimate_transfer_fees'' then tool_value (handleEstimateTransferFees env network input)
      else if name = ''estimate_invoke_fees'' then tool_value (handleEstimateInvokeFees env network contracts input)
      else if name = ''list_famous_contracts'' then tool_value (handleListFamousContracts env contracts)
      else if name = ''get_contract_info'' then tool_value (with_contract env contracts input R_contract_info)
      else if name = ''get_contract_status'' then tool_value (with_contract env contracts input R_contract_status)
      else giveH (Inl (refuse (''Tool '' @ name @ '' not found or requires network parameter.''))))"

definition service_tool :: "handler_env \<Rightarrow> string \<Rightarrow> string \<Rightarrow> string \<Rightarrow> jsobj \<Rightarrow> tool_answer tool" where
  "service_tool env network contracts name input =
     (if name \<in> set N3_PROPOSAL_TOOLS
      then callH (Proposal_reads name) (bindR (dispatchN3ProposalTool (th_proposals env network) name input) (\<lambda>p. Inr (Proposal_answer p)))
      else if name \<in> set ECOSYSTEM_N3_TOOLS then tool_value (mapH Eco (dispatchEcosystemN3Tool (th_eco env network) name input))
      else node_tool env network contracts name input)"

definition admitted_tool :: "handler_env \<Rightarrow> string \<Rightarrow> jsobj \<Rightarrow> tool_answer tool" where
  "admitted_tool env name input =
     (if name = ''create_wallet'' \<or> name = ''import_wallet''
      then tool_handled (giveH (Inl (refuse (name @ '' is not available through MCP. Provision signing wallets outside the model-facing channel.''))))
      else if write_refused name input
      then tool_handled (giveH (Inl (refuse (''State-changing calls must use the registered idempotent write tools with a server-held ''
             @ ''signer and elicited approval.''))))
      else if name = ''get_network_mode'' then giveH (Inr (Answer (handleGetNetworkMode env)))
      else if name = ''get_wallet'' then tool_handled (tool_value (handleGetWallet env input))
      else if name \<in> set NEO_DATA_TOOLS then tool_handled (giveH (bindR (data_tool env name input) (\<lambda>d. Inr (Data_answer d))))
      else if name \<in> set ECOSYSTEM_META_TOOLS then tool_handled (tool_value (mapH Eco (dispatchEcosystemMetaTool (th_eco env ''mainnet'') name input)))
      else if name \<in> set N3_INDEXER_TOOLS \<or> name \<in> set NEOX_TOOLS then tool_handled (tool_value (dispatchAnalyticalTool env name input))
      else if name \<in> set NEOX_PROPOSAL_TOOLS
      then tool_handled (callH (Proposal_reads name)
             (bindR (dispatchNeoxProposalTool (th_proposals env ''mainnet'') name input) (\<lambda>p. Inr (Proposal_answer p))))
      else if name \<in> set NEOX_NODE_TOOLS then tool_handled (tool_value (mapH Neox_post (dispatchNeoxNodeTool (th_neox env) name input)))
      else tool_handled (liftH (select_services env input) (\<lambda>(network, contracts). service_tool env network contracts name input)))"

definition callTool ::
    "handler_env \<Rightarrow> nat option \<Rightarrow> int \<Rightarrow> key_state \<Rightarrow> limiter \<Rightarrow> string \<Rightarrow> jsobj \<Rightarrow> tool_answer tool \<times> key_state \<times> limiter" where
  "callTool env scope now s l name input =
     (case chargeClientRateLimit scope now s l of
        (Inl e, s', l') \<Rightarrow> (giveH (Inl (RateLimitError ''Rate limit exceeded. Try again in '')), s', l')
      | (Inr _, s', l') \<Rightarrow> (admitted_tool env name input, s', l'))"

end
