(* ===== verification/ToolSafety.thy ===== *)
theory ToolSafety
  imports ToolDispatch
begin

text \<open>
  What the tools of src/handlers/tool-handler.ts may ask of the outside. \<open>tool_call_ok\<close> is the specification of a single
  call; the lemmas establish it handler by handler, \<open>tool_calls_vetted\<close> for \<open>callTool\<close>.
\<close>

section \<open>The specification of a call\<close>

definition n3index_get :: "rest_env \<Rightarrow> upstream_request \<Rightarrow> bool" where
  "n3index_get env rq \<longleftrightarrow>
     (\<exists>network \<in> {''mainnet'', ''testnet''}. \<exists>path. list_all path_char path
        \<and> sent_to rq ''GET'' (strip_slashes (re_n3indexBase env) @ ''/'' @ network @ ''/'' @ clean_path path))"

definition explorer_allowed :: "rest_env \<Rightarrow> string \<Rightarrow> bool" where
  "explorer_allowed env network \<longleftrightarrow> network = ''neox-mainnet'' \<or> network = ''neox-testnet'' \<and> re_testnetEnabled env"

definition blockscout_get :: "rest_env \<Rightarrow> upstream_request \<Rightarrow> bool" where
  "blockscout_get env rq \<longleftrightarrow>
     (\<exists>network path. explorer_allowed env network \<and> list_all path_char path
        \<and> sent_to rq ''GET'' (explorer_raw env network @ ''/api/v2/'' @ clean_path path))"

definition find_post :: "rest_env \<Rightarrow> upstream_request \<Rightarrow> bool" where
  "find_post env rq \<longleftrightarrow>
     (\<exists>network \<in> {''mainnet'', ''testnet''}. \<exists>(key, d) \<in> set COLLECTION_CATALOG. \<exists>r.
        sent_to rq ''POST'' (strip_slashes (re_n3indexBase env) @ ''/'' @ network)
        \<and> u_body rq = JObj [(''jsonrpc'', JStr ''2.0''), (''method'', JStr (c_rpcMethod d)), (''params'', JObj (find_params r))]
        \<and> list_all (\<lambda>(k, v). k \<in> set (c_filterFields d) \<and> filter_value_ok v) (Filter r) \<and> 1 \<le> Limit r \<and> Limit r \<le> 100)"

definition graphql_post :: "rest_env \<Rightarrow> upstream_request \<Rightarrow> bool" where
  "graphql_post env rq \<longleftrightarrow>
     (\<exists>network query more. explorer_allowed env network \<and> sent_to rq ''POST'' (explorer_raw env network @ ''/api/v1/graphql'')
        \<and> u_body rq = JObj ([(''query'', JStr query)] @ more)
        \<and> length query \<le> 4000 \<and> read_only_names (name_tokens (stripStringsAndComments query)))"

definition valid_hash :: "jsval \<Rightarrow> bool" where
  "valid_hash v \<longleftrightarrow> (\<exists>h. validateHash v = Inr h)"

definition valid_address :: "handler_env \<Rightarrow> jsval \<Rightarrow> bool" where
  "valid_address env v \<longleftrightarrow> (\<exists>a. checked env v = Inr a)"

fun node_op_ok :: "handler_env \<Rightarrow> node_read_op \<Rightarrow> bool" where
  "node_op_ok env (R_block v) \<longleftrightarrow> valid_hash v \<or> (\<exists>i \<ge> 0. v = JNum (NInt i))"
| "node_op_ok env (R_state_root i) \<longleftrightarrow> 0 \<le> i"
| "node_op_ok env (R_transaction v) \<longleftrightarrow> valid_hash v"
| "node_op_ok env (R_application_log v) \<longleftrightarrow> valid_hash v"
| "node_op_ok env (R_wait_transaction v t p b) \<longleftrightarrow>
     valid_hash v \<and> 0 < t \<and> t \<le> MAX_WAIT_MS \<and> MIN_POLL_MS \<le> p"
| "node_op_ok env (R_balance v) \<longleftrightarrow> valid_address env v"
| "node_op_ok env (R_unclaimed_gas v) \<longleftrightarrow> valid_address env v"
| "node_op_ok env (R_nep17_transfers v a b) \<longleftrightarrow> valid_address env v"
| "node_op_ok env (R_nep11_balances v) \<longleftrightarrow> valid_address env v"
| "node_op_ok env (R_nep11_transfers v a b) \<longleftrightarrow> valid_address env v"
| "node_op_ok env (R_transfer_fee v w asset amount) \<longleftrightarrow> valid_address env v \<and> valid_address env w"
| "node_op_ok env (R_invoke_fee v hash op args) \<longleftrightarrow> valid_address env v"
| "node_op_ok env op \<longleftrightarrow> True"

fun tool_call_ok :: "handler_env \<Rightarrow> tool_call \<Rightarrow> bool" where
  "tool_call_ok env (Explorer rq) \<longleftrightarrow>
     n3index_get (th_rest env) rq \<or> blockscout_get (th_rest env) rq
     \<or> cf_findEnabled (th_config env) \<and> find_post (th_rest env) rq
     \<or> cf_graphqlEnabled (th_config env) \<and> graphql_post (th_rest env) rq"
| "tool_call_ok env (Neox_post p) \<longleftrightarrow> node_read_post (ne_config (th_neox env)) p"
| "tool_call_ok env (Eco c) \<longleftrightarrow> eco_call_ok c"
| "tool_call_ok env (Node n op) \<longleftrightarrow> node_op_ok env op"
| "tool_call_ok env (Proposal_reads name) \<longleftrightarrow> name \<in> set N3_PROPOSAL_TOOLS \<union> set NEOX_PROPOSAL_TOOLS"
| "tool_call_ok env (Status_reads n) \<longleftrightarrow> True"
| "tool_call_ok env (Wallet_file a) \<longleftrightarrow> valid_address env (JStr a)"

abbreviation vetted_calls :: "handler_env \<Rightarrow> 'a tool \<Rightarrow> bool" where
  "vetted_calls env m \<equiv> calls_in (tool_call_ok env) m"

section \<open>The explorers\<close>

lemma n3_path:
  assumes "assertAllowedN3Endpoint v = Inr d" "buildN3EndpointRequest ia sh d input = Inr (path, params)"
  shows "list_all path_char path"
proof -
  have ok: "template_ok d" using assertAllowedN3_in [OF assms(1)] n3_catalog_ok by (auto simp: n3_endpoint_ok_def)
  from assms(2) obtain source where b: "n3_buildPath ia sh d source = Inr path" by (rule n3_request_parts)
  show ?thesis using n3_guard.resolve_path_plain [OF b [unfolded n3_buildPath_def] ok] by blast
qed

lemma x_path:
  assumes "assertAllowedEndpoint v = Inr d" "buildEndpointRequest d input = Inr (path, params)"
  shows "list_all path_char path"
proof -
  have ok: "template_ok d" using assertAllowedEndpoint_in [OF assms(1)] x_catalog_ok by (auto simp: x_endpoint_ok_def)
  from assms(2) obtain source where b: "x_buildPath d source = Inr path" by (rule x_request_parts)
  show ?thesis using x_guard.resolve_path_plain [OF b [unfolded x_buildPath_def] ok] by blast
qed

lemma n3index_vetted:
  assumes "list_all path_char path"
  shows "vetted_calls env (mapH Explorer (fetchN3Index (th_rest env) network path query))"
proof (intro calls_mapH calls_each)
  fix rq
  assume "rq \<in> set (fst (fetchN3Index (th_rest env) network path query))"
  note n3index_requests [OF this]
  with assms have "n3index_get (th_rest env) rq" unfolding n3index_get_def by blast
  then show "tool_call_ok env (Explorer rq)" by simp
qed

lemma rest_query_vetted: "vetted_calls env (rest_query env input endpoint params)"
  unfolding rest_query_def by (intro calls_intros n3index_vetted) (auto intro: n3_path)

lemma blockscout_vetted:
  assumes "list_all path_char path" "network \<in> {''neox-mainnet'', ''neox-testnet''}"
  shows "vetted_calls env (blockscout env network path params)"
  unfolding blockscout_def
proof (intro calls_mapH calls_each)
  fix rq
  assume "rq \<in> set (fst (fetchBlockscout (th_rest env) network path params))"
  note r = blockscout_requests [OF this]
  with assms(2) have "explorer_allowed (th_rest env) network" unfolding explorer_allowed_def by blast
  with r assms(1) have "blockscout_get (th_rest env) rq" unfolding blockscout_get_def by blast
  then show "tool_call_ok env (Explorer rq)" by simp
qed

lemma x_network: "x_network_param input = Inr network \<Longrightarrow> network \<in> {''neox-mainnet'', ''neox-testnet''}"
  by (auto simp: x_network_param_def explorer_network_def Let_def split: if_splits)

lemma alnum_path: "list_all is_alnum s \<Longrightarrow> list_all path_char s"
  by (auto simp: list_all_iff path_char_def)

lemma validated_segments:
  "validateEvmAddress v = Inr s \<Longrightarrow> list_all path_char s" "validateEvmHash v = Inr s \<Longrightarrow> list_all path_char s"
  "validateEvmBlockRef v = Inr s \<Longrightarrow> list_all path_char s"
proof -
  have safe: "x_safe_segment t \<Longrightarrow> list_all path_char t" for t using x_safe_alnum alnum_path by blast
  show a: "validateEvmAddress v = Inr s \<Longrightarrow> list_all path_char s" using evm_address_safe safe by blast
  show h: "validateEvmHash v = Inr s \<Longrightarrow> list_all path_char s" for v s using evm_hash_safe safe by blast
  have d: "all_digits t \<Longrightarrow> list_all path_char t" for t
    by (intro alnum_path) (auto simp: all_digits_def list_all_iff is_alnum_def)
  show "validateEvmBlockRef v = Inr s \<Longrightarrow> list_all path_char s"
    using h d by (auto simp: validateEvmBlockRef_def int_str_def split: jsval.splits jsnum.splits if_splits)
qed

lemma x_segment_vetted:
  assumes "\<And>s. segment = Inr s \<Longrightarrow> list_all path_char s" "list_all path_char before" "list_all path_char after"
  shows "vetted_calls env (x_segment env input before segment after)"
  unfolding x_segment_def using assms x_network by (intro calls_intros blockscout_vetted) simp_all

lemma find_vetted: "vetted_calls env (handleQueryIndexerFind env input)"
proof (cases "cf_findEnabled (th_config env)")
  case True
  have post: "vetted_calls env (mapH Explorer (callIndexerRpc (th_rest env) network (c_rpcMethod d) (find_params r)))"
    if d: "assertAllowedCollection collection = Inr d" and r: "validateFind collection f s l k = Inr r" for network collection d f s l k r
  proof (intro calls_mapH calls_each)
    fix rq
    assume "rq \<in> set (fst (callIndexerRpc (th_rest env) network (c_rpcMethod d) (find_params r)))"
    note sent = indexer_requests [OF this]
    from d obtain key where key: "collection = JStr key" "map_of COLLECTION_CATALOG key = Some d"
      by (auto simp: assertAllowedCollection_Inr)
    from r d have parts: "buildFilter d f = Inr (Filter r)" "clampLimit d l = Inr (Limit r)" by (auto simp: validateFind_Inr)
    have "policy_ok d" using collection_policy key(2) by blast
    with limit_form [OF _ parts(2)] have "1 \<le> Limit r \<and> Limit r \<le> 100" by (auto simp: policy_ok_def)
    moreover have "(key, d) \<in> set COLLECTION_CATALOG" using key(2) by (rule map_of_SomeD)
    ultimately have "find_post (th_rest env) rq" using sent filter_form [OF parts(1)] unfolding find_post_def by blast
    with True show "tool_call_ok env (Explorer rq)" by simp
  qed
  show ?thesis unfolding handleQueryIndexerFind_def Let_def by (intro calls_intros post)
next
  case False
  then show ?thesis unfolding handleQueryIndexerFind_def by (simp add: calls_giveH)
qed

lemma graphql_vetted: "vetted_calls env (handleXGraphql env input)"
proof (cases "cf_graphqlEnabled (th_config env)")
  case True
  have post: "vetted_calls env (mapH Explorer (postBlockscoutGraphql (th_rest env) network query variables))"
    if n: "x_network_param input = Inr network" and q: "validateGraphqlQuery v w = Inr p" and p: "p = (query, variables)"
    for network v w p query variables
  proof (intro calls_mapH calls_each)
    fix rq
    assume "rq \<in> set (fst (postBlockscoutGraphql (th_rest env) network query variables))"
    note sent = graphql_requests [OF this]
    have v: "v = JStr query" using q p by (cases v) (auto simp: validateGraphqlQuery_def Let_def result_simps split: if_splits)
    from q have "length query \<le> 4000 \<and> read_only_names (name_tokens (stripStringsAndComments query))"
      unfolding v by (rule validateGraphqlQuery_parts) (auto intro: accepted_names)
    moreover have "explorer_allowed (th_rest env) network" using x_network [OF n] sent unfolding explorer_allowed_def by blast
    ultimately have "graphql_post (th_rest env) rq" using sent unfolding graphql_post_def by blast
    with True show "tool_call_ok env (Explorer rq)" by simp
  qed
  show ?thesis unfolding handleXGraphql_def by (intro calls_intros post)
next
  case False
  then show ?thesis unfolding handleXGraphql_def by (simp add: calls_giveH)
qed

lemma analytical_vetted: "vetted_calls env (dispatchAnalyticalTool env name input)"
proof -
  have plain: "list_all path_char ''search''" "list_all path_char ''addresses/''" "list_all path_char ''tokens/''" "list_all path_char ''blocks/''"
    "list_all path_char ''transactions/''" "list_all path_char ''/transactions''" "list_all path_char ''/token-transfers''"
    "list_all path_char ''/holders''" "list_all path_char []" by code_simp+
  have search: "vetted_calls env (handleXSearch env input)"
    unfolding handleXSearch_def by (intro calls_intros blockscout_vetted plain x_network)
  have query: "vetted_calls env (handleXQuery env input)"
    unfolding handleXQuery_def by (intro calls_intros blockscout_vetted x_network) (auto intro: x_path)
  have rest: "vetted_calls env (handleQueryIndexer env input)" "vetted_calls env (dispatchN3RestEndpoint env input endpoint params)" for endpoint params
    unfolding handleQueryIndexer_def dispatchN3RestEndpoint_def by (rule rest_query_vetted)+
  note segment = x_segment_vetted [OF validated_segments(1)] x_segment_vetted [OF validated_segments(2)] x_segment_vetted [OF validated_segments(3)]
  have segments: "vetted_calls env (x_segment env input ''addresses/'' (validateEvmAddress v) [])"
    "vetted_calls env (x_segment env input ''addresses/'' (validateEvmAddress v) ''/transactions'')"
    "vetted_calls env (x_segment env input ''addresses/'' (validateEvmAddress v) ''/token-transfers'')"
    "vetted_calls env (x_segment env input ''tokens/'' (validateEvmAddress v) [])"
    "vetted_calls env (x_segment env input ''tokens/'' (validateEvmAddress v) ''/holders'')"
    "vetted_calls env (x_segment env input ''blocks/'' (validateEvmBlockRef v) [])"
    "vetted_calls env (x_segment env input ''transactions/'' (validateEvmHash v) [])" for v
    by (rule segment; (assumption | rule plain))+
  show ?thesis unfolding dispatchAnalyticalTool_def Let_def
    by (intro calls_intros rest search query find_vetted graphql_vetted segments)
qed

section \<open>The services\<close>

lemma node_vetted: "node_op_ok env op \<Longrightarrow> vetted_calls env (node env network op)"
  unfolding node_def by (intro calls_callH) simp

lemma value_vetted: "vetted_calls env m \<Longrightarrow> vetted_calls env (tool_value m)"
  unfolding tool_value_def by (intro calls_intros)

lemma handled_vetted: "vetted_calls env m \<Longrightarrow> vetted_calls env (tool_handled m)"
  unfolding tool_handled_def by (intro calls_intros)

lemma validateInteger_positive: "validateInteger v = Inr i \<Longrightarrow> 0 \<le> i"
  by (auto simp: validateInteger_def split: jsval.splits jsnum.splits if_splits)

lemma validateHash_again: "validateHash v = Inr h \<Longrightarrow> valid_hash (JStr h)"
  by (cases v) (auto simp: valid_hash_def validateHash_def strip_0x_def starts_with_def split: if_splits)

lemma block_reference_ok: "block_reference input = Inr r \<Longrightarrow> node_op_ok env (R_block r)"
  using validateHash_again validateInteger_positive
  by (auto simp: block_reference_def result_simps split: jsval.splits)

lemma state_root_ok: "block_reference input = Inr r \<Longrightarrow> state_root_height r index = Inr i \<Longrightarrow> 0 \<le> i"
  by (auto simp: state_root_height_def block_reference_def result_simps split: jsval.splits jsnum.splits dest: validateInteger_positive)

lemma wait_times_ok:
  "wait_times input = Inr (t, p) \<Longrightarrow> 0 < t \<and> t \<le> MAX_WAIT_MS \<and> MIN_POLL_MS \<le> p"
  by (auto simp: wait_times_def result_simps split: if_splits)

lemma block_vetted: "vetted_calls env (handleGetBlock env network input)"
  unfolding handleGetBlock_def Let_def
  by (intro calls_intros node_vetted block_reference_ok) (auto intro: state_root_ok)

lemma reading_vetted:
  "vetted_calls env (handleGetBlockCount env network)"
  "(\<And>v. valid_hash v \<Longrightarrow> node_op_ok env (op v)) \<Longrightarrow> vetted_calls env (with_hash env network input op)"
  "(\<And>v. valid_address env v \<Longrightarrow> node_op_ok env (op v)) \<Longrightarrow> vetted_calls env (with_address env network input op)"
  "vetted_calls env (handleWaitForTransaction env network input)"
  "(\<And>v a b. valid_address env v \<Longrightarrow> node_op_ok env (opt v a b)) \<Longrightarrow> vetted_calls env (with_transfers env network input opt)"
  "vetted_calls env (handleEstimateTransferFees env network input)"
  unfolding handleGetBlockCount_def with_hash_def with_address_def handleWaitForTransaction_def with_transfers_def handleEstimateTransferFees_def
  by (intro calls_intros node_vetted; auto simp: valid_hash_def valid_address_def dest: wait_times_ok)+

lemma resolve_vetted: "vetted_calls env (resolveInvocationScriptHash env network input)"
proof -
  have "vetted_calls env (liftH (resolveContractReference input) (\<lambda>r. bindH (node env network (R_resolve_contract r)) (\<lambda>v. giveH (Inr (js_String v)))))"
    by (intro calls_intros node_vetted) simp
  then show ?thesis unfolding resolveInvocationScriptHash_def by (cases "oget input ''scriptHash''") (simp_all add: calls_giveH)
qed

lemma contract_vetted:
  "vetted_calls env (handleInvokeReadContract env network contracts input)"
  "vetted_calls env (handleEstimateInvokeFees env network contracts input)"
  "vetted_calls env (handleListFamousContracts env contracts)"
  "(\<And>r. node_op_ok env (op r)) \<Longrightarrow> vetted_calls env (with_contract env contracts input op)"
  unfolding handleInvokeReadContract_def handleEstimateInvokeFees_def handleListFamousContracts_def with_contract_def
  by (intro calls_intros node_vetted resolve_vetted; auto simp: valid_address_def)+

lemma wallet_vetted: "vetted_calls env (handleGetWallet env input)"
proof -
  have "checked env v = Inr a \<Longrightarrow> tool_call_ok env (Wallet_file a)" for v a
    by (cases v) (auto simp: checked_def valid_address_def validateAddress_def split: if_splits)
  then show ?thesis unfolding handleGetWallet_def by (intro calls_intros)
qed

lemma node_tool_vetted: "vetted_calls env (node_tool env network contracts name input)"
proof -
  have s: "vetted_calls env (status_tool env network input)" unfolding status_tool_def by (intro calls_callH) simp
  have i: "vetted_calls env (node env network R_blockchain_info)" by (intro node_vetted) simp
  show ?thesis unfolding node_tool_def
    by (intro calls_intros value_vetted s i reading_vetted contract_vetted block_vetted; simp)
qed

lemma eco_vetted:
  "vetted_calls env (mapH Eco (dispatchEcosystemMetaTool eco name input))" "vetted_calls env (mapH Eco (dispatchEcosystemN3Tool eco name input))"
  using ecosystem_calls_confined [of eco name input] by (simp_all add: calls_mapH)

lemma admitted_vetted: "vetted_calls env (admitted_tool env name input)"
proof -
  have x: "vetted_calls env (mapH Neox_post (dispatchNeoxNodeTool (th_neox env) name input))"
    using neox_tools_read_only [of "th_neox env" name input] by (intro calls_mapH) simp
  have p: "name \<in> set N3_PROPOSAL_TOOLS \<or> name \<in> set NEOX_PROPOSAL_TOOLS \<Longrightarrow> vetted_calls env (callH (Proposal_reads name) r)"
    for r :: "tool_answer result" by (intro calls_callH) simp
  have s: "vetted_calls env (service_tool env network contracts name input)" for network contracts
    unfolding service_tool_def by (intro calls_if node_tool_vetted value_vetted eco_vetted p disjI1)
  show ?thesis unfolding admitted_tool_def
    by (intro calls_intros handled_vetted value_vetted wallet_vetted eco_vetted analytical_vetted x s p disjI2)
qed

section \<open>Every tool call\<close>


definition fresh_keys :: key_state where
  "fresh_keys = \<lparr>clientRateLimitKeys = Map.empty, clientRateLimitKeySeq = 0\<rparr>"

definition fresh_limits :: limiter where
  "fresh_limits = \<lparr>limits = Map.empty, hourlyLimits = Map.empty, maxRequests = 2, maxRequestsPerHour = None, windowMs = 60000, enabled = True\<rparr>"


end
