(* ===== verification/Registry.thy ===== *)
theory Registry
  imports ToolSafety
begin

text \<open>
  src/registry/tool-registry.ts: the table of the public tools and \<open>resolveRoute\<close>, which turns a public tool and a chain
  into the name and the arguments \<open>callTool\<close> dispatches on. The schemas (\<open>inputSchema\<close>) and the descriptions belong to the MCP
  library's checks and are left out; the table is otherwise the source's, entry by entry, in its groups.

  The main result is \<open>registry_routes_sound\<close>.
\<close>

definition CHAINS :: "string list" where "CHAINS = [''n3'', ''neox'']"

record route_spec =
  rt_internalName :: string
  rt_requiresServices :: bool
  rt_requiresWallet :: bool
  rt_mapArgs :: "(jsobj \<Rightarrow> jsobj result) option"

record tool_spec =
  sp_name :: string
  sp_chains :: "string list"
  sp_routes :: "(string \<times> route_spec) list"

record tool_route =
  tr_publicName :: string
  tr_internalName :: string
  tr_chain :: "string option"
  tr_args :: jsobj
  tr_requiresServices :: bool
  tr_requiresWallet :: bool

definition route :: "string \<Rightarrow> bool \<Rightarrow> bool \<Rightarrow> (jsobj \<Rightarrow> jsobj result) option \<Rightarrow> route_spec" where
  "route name services wallet f =
     \<lparr>rt_internalName = name, rt_requiresServices = services, rt_requiresWallet = wallet, rt_mapArgs = f\<rparr>"

section \<open>Argument helpers\<close>

definition obj_delete :: "string \<Rightarrow> jsobj \<Rightarrow> jsobj" where
  "obj_delete k a = filter (\<lambda>(k', v). k' \<noteq> k) a"

text \<open>\<open>o[k] = v\<close> on an own property keeps its place, a new one goes to the end.\<close>

definition obj_put :: "string \<Rightarrow> jsval \<Rightarrow> jsobj \<Rightarrow> jsobj" where
  "obj_put k v a = (if k \<in> fst ` set a then map (\<lambda>(k', w). (k', if k' = k then v else w)) a else a @ [(k, v)])"

definition pick :: "jsobj \<Rightarrow> string list \<Rightarrow> jsobj" where
  "pick args ks = map (\<lambda>k. (k, oget args k)) (filter (\<lambda>k. oget args k \<noteq> JUndef) ks)"

definition rename_key :: "jsobj \<Rightarrow> string \<Rightarrow> string \<Rightarrow> jsobj" where
  "rename_key args old new =
     (if old \<in> fst ` set args
      then obj_delete old (if oget args old = JUndef then args else obj_put new (oget args old) args)
      else args)"

definition neoxNetwork :: "jsobj \<Rightarrow> jsobj result" where
  "neoxNetwork args =
     (let network = oget args ''network'' in
      if network = JUndef then Inr (obj_delete ''network'' args)
      else if network = JStr ''mainnet'' \<or> network = JStr ''neox-mainnet'' then Inr (obj_put ''network'' (JStr ''neox-mainnet'') args)
      else if network = JStr ''testnet'' \<or> network = JStr ''neox-testnet'' then Inr (obj_put ''network'' (JStr ''neox-testnet'') args)
      else invalid (''Invalid network '' @ [CHR 0x22]))"

definition passNetwork :: "jsobj \<Rightarrow> jsobj result" where
  "passNetwork args =
     (let network = oget args ''network'' in
      if network = JUndef then Inr (obj_delete ''network'' args)
      else if network \<noteq> JStr ''mainnet'' \<and> network \<noteq> JStr ''testnet'' then invalid (''Invalid network '' @ [CHR 0x22])
      else Inr args)"

definition dropPagination :: "jsobj \<Rightarrow> jsobj" where
  "dropPagination args = obj_delete ''skip'' (obj_delete ''limit'' args)"

definition n3Args :: "jsobj \<Rightarrow> jsobj result" where
  "n3Args args = passNetwork args"

definition xExplorerArgs :: "string list \<Rightarrow> jsobj \<Rightarrow> jsobj result" where
  "xExplorerArgs ks args = neoxNetwork (dropPagination (pick args (ks @ [''network''])))"

text \<open>The object literal of the routes to \<open>query_indexer\<close>: a fixed method, its parameters, the network.\<close>

definition indexer_args :: "string \<Rightarrow> jsobj \<Rightarrow> jsobj \<Rightarrow> jsobj result" where
  "indexer_args endpoint params args =
     bindR (n3Args (pick args [''network''])) (\<lambda>n. Inr ([(''method'', JStr endpoint), (''params'', JObj params)] @ n))"

section \<open>The table\<close>

text \<open>The three mappers that are no composition of the helpers.\<close>

definition special_get_block_neox :: "jsobj \<Rightarrow> jsobj result" where
  "special_get_block_neox args =
     (if oget args ''includeStateRoot'' = JBool True then invalid ''get_block includeStateRoot is supported only on Neo N3''
      else passNetwork (rename_key (pick args [''hashOrHeight'', ''includeTransactions'', ''network'']) ''hashOrHeight'' ''blockHashOrHeight''))"

definition special_get_contract_info_neox :: "jsobj \<Rightarrow> jsobj result" where
  "special_get_contract_info_neox args =
     (if oget args ''network'' = JStr ''testnet''
      then invalid (''get_contract_info on chain '' @ [CHR 0x22] @ ''neox'' @ [CHR 0x22] @ '' is mainnet only; testnet explorer metadata is unavailable.'')
      else case first_given [oget args ''address'', oget args ''contract''] of
        JStr s \<Rightarrow>
          if trim s = [] then invalid (''get_contract_info on chain '' @ [CHR 0x22] @ ''neox'' @ [CHR 0x22] @ '' requires a 0x contract address.'')
          else Inr [(''endpoint'', JStr ''get_smart_contract''), (''params'', JObj [(''address'', JStr (trim s))])]
      | _ \<Rightarrow> invalid (''get_contract_info on chain '' @ [CHR 0x22] @ ''neox'' @ [CHR 0x22] @ '' requires a 0x contract address.''))"

definition special_explorer_search_n3 :: "jsobj \<Rightarrow> jsobj result" where
  "special_explorer_search_n3 args =
     (if oget args ''network'' = JStr ''testnet''
      then invalid (''explorer_search on chain '' @ [CHR 0x22] @ ''n3'' @ [CHR 0x22] @ '' is mainnet only; use node tools for testnet lookups.'')
      else case oget args ''q'' of
        JStr q \<Rightarrow>
          if trim q = [] then invalid (''explorer_search requires a non-empty '' @ [CHR 0x22] @ ''q'' @ [CHR 0x22] @ '' query string.'')
          else Inr [(''method'', JStr ''search''), (''params'', JObj [(''q'', JStr (trim q))])]
      | _ \<Rightarrow> invalid (''explorer_search requires a non-empty '' @ [CHR 0x22] @ ''q'' @ [CHR 0x22] @ '' query string.''))"

definition meta_specs :: "tool_spec list" where
  "meta_specs =
  [\<lparr>sp_name = ''get_network_mode'', sp_chains = [], sp_routes =
      [(''meta'', route ''get_network_mode'' False False
        None)]\<rparr>,
   \<lparr>sp_name = ''get_wallet'', sp_chains = [], sp_routes =
      [(''meta'', route ''get_wallet'' False True
        (Some (\<lambda>args. Inr (pick args [''address'']))))]\<rparr>,
   \<lparr>sp_name = ''inspect_neo_value'', sp_chains = [], sp_routes =
      [(''meta'', route ''inspect_neo_value'' False False
        (Some (\<lambda>args. Inr (pick args [''value'']))))]\<rparr>,
   \<lparr>sp_name = ''convert_neo_data'', sp_chains = [], sp_routes =
      [(''meta'', route ''convert_neo_data'' False False
        (Some (\<lambda>args. Inr (pick args [''value'', ''inputFormat'', ''outputFormat'']))))]\<rparr>,
   \<lparr>sp_name = ''get_neo_service_info'', sp_chains = [], sp_routes =
      [(''meta'', route ''get_neo_service_info'' False False
        (Some (\<lambda>args. passNetwork (pick args [''service'', ''network'']))))]\<rparr>]"

definition node_specs :: "tool_spec list" where
  "node_specs =
  [\<lparr>sp_name = ''get_chain_info'', sp_chains = CHAINS, sp_routes =
      [(''n3'', route ''get_blockchain_info'' True False
        (Some (\<lambda>args. n3Args (pick args [''network''])))),
       (''neox'', route ''x_node_get_chain_info'' False False
        (Some (\<lambda>args. passNetwork (pick args [''network'']))))]\<rparr>,
   \<lparr>sp_name = ''get_block_height'', sp_chains = CHAINS, sp_routes =
      [(''n3'', route ''get_block_count'' True False
        (Some (\<lambda>args. n3Args (pick args [''network''])))),
       (''neox'', route ''x_node_get_block_height'' False False
        (Some (\<lambda>args. passNetwork (pick args [''network'']))))]\<rparr>,
   \<lparr>sp_name = ''get_block'', sp_chains = CHAINS, sp_routes =
      [(''n3'', route ''get_block'' True False
        (Some (\<lambda>args. n3Args (pick args [''hashOrHeight'', ''includeStateRoot'', ''network''])))),
       (''neox'', route ''x_node_get_block'' False False
        (Some special_get_block_neox))]\<rparr>,
   \<lparr>sp_name = ''get_transaction'', sp_chains = CHAINS, sp_routes =
      [(''n3'', route ''get_transaction'' True False
        (Some (\<lambda>args. n3Args (rename_key (pick args [''hash'', ''network'']) ''hash'' ''txid'')))),
       (''neox'', route ''x_node_get_transaction'' False False
        (Some (\<lambda>args. passNetwork (pick args [''hash'', ''network'']))))]\<rparr>,
   \<lparr>sp_name = ''get_transaction_status'', sp_chains = CHAINS, sp_routes =
      [(''n3'', route ''n3_node_get_transaction_status'' True False
        (Some (\<lambda>args. n3Args (pick args [''hash'', ''network''])))),
       (''neox'', route ''x_node_get_transaction_status'' False False
        (Some (\<lambda>args. passNetwork (pick args [''hash'', ''network'']))))]\<rparr>,
   \<lparr>sp_name = ''get_balance'', sp_chains = CHAINS, sp_routes =
      [(''n3'', route ''get_balance'' True False
        (Some (\<lambda>args. n3Args (pick args [''address'', ''network''])))),
       (''neox'', route ''x_node_get_balance'' False False
        (Some (\<lambda>args. passNetwork (pick args [''address'', ''network'']))))]\<rparr>,
   \<lparr>sp_name = ''call_contract'', sp_chains = CHAINS, sp_routes =
      [(''n3'', route ''invoke_contract'' True False
        (Some (\<lambda>args. n3Args (pick args [''contract'', ''scriptHash'', ''operation'', ''args'', ''network''])))),
       (''neox'', route ''x_node_call_contract'' False False
        (Some (\<lambda>args. passNetwork (pick args [''contract'', ''data'', ''functionSignature'', ''args'', ''from'', ''network'']))))]\<rparr>,
   \<lparr>sp_name = ''get_contract_info'', sp_chains = CHAINS, sp_routes =
      [(''n3'', route ''get_contract_info'' True False
        (Some (\<lambda>args. n3Args (pick args [''contract'', ''network''])))),
       (''neox'', route ''x_query'' False False
        (Some special_get_contract_info_neox))]\<rparr>]"

definition n3_specs :: "tool_spec list" where
  "n3_specs =
  [\<lparr>sp_name = ''get_application_log'', sp_chains = [''n3''], sp_routes =
      [(''n3'', route ''get_application_log'' True False
        (Some (\<lambda>args. n3Args (rename_key (pick args [''hash'', ''network'']) ''hash'' ''txid''))))]\<rparr>,
   \<lparr>sp_name = ''wait_for_transaction'', sp_chains = [''n3''], sp_routes =
      [(''n3'', route ''wait_for_transaction'' True False
        (Some (\<lambda>args. n3Args (rename_key (pick args [''hash'', ''timeoutMs'', ''pollIntervalMs'', ''includeApplicationLog'', ''network'']) ''hash'' ''txid''))))]\<rparr>,
   \<lparr>sp_name = ''get_unclaimed_gas'', sp_chains = [''n3''], sp_routes =
      [(''n3'', route ''get_unclaimed_gas'' True False
        (Some (\<lambda>args. n3Args (pick args [''address'', ''network'']))))]\<rparr>,
   \<lparr>sp_name = ''decode_neo_script'', sp_chains = [''n3''], sp_routes =
      [(''n3'', route ''decode_neo_script'' False False
        (Some (\<lambda>args. Inr (pick args [''script'', ''inputFormat'']))))]\<rparr>,
   \<lparr>sp_name = ''query_nns'', sp_chains = [''n3''], sp_routes =
      [(''n3'', route ''query_nns'' True False
        (Some (\<lambda>args. n3Args (pick args [''domain'', ''recordType'', ''network'']))))]\<rparr>,
   \<lparr>sp_name = ''query_neofs'', sp_chains = [''n3''], sp_routes =
      [(''n3'', route ''query_neofs'' False False
        (Some (\<lambda>args. Inr (pick args [''network'', ''operation'', ''containerId'', ''objectId'', ''address'']))))]\<rparr>,
   \<lparr>sp_name = ''get_oracle_info'', sp_chains = [''n3''], sp_routes =
      [(''n3'', route ''get_oracle_info'' True False
        (Some (\<lambda>args. n3Args (pick args [''network'']))))]\<rparr>,
   \<lparr>sp_name = ''get_nep17_transfers'', sp_chains = [''n3''], sp_routes =
      [(''n3'', route ''get_nep17_transfers'' True False
        (Some (\<lambda>args. n3Args (pick args [''address'', ''fromTimestampMs'', ''toTimestampMs'', ''network'']))))]\<rparr>,
   \<lparr>sp_name = ''get_nep11_balances'', sp_chains = [''n3''], sp_routes =
      [(''n3'', route ''get_nep11_balances'' True False
        (Some (\<lambda>args. n3Args (pick args [''address'', ''network'']))))]\<rparr>,
   \<lparr>sp_name = ''get_nep11_transfers'', sp_chains = [''n3''], sp_routes =
      [(''n3'', route ''get_nep11_transfers'' True False
        (Some (\<lambda>args. n3Args (pick args [''address'', ''fromTimestampMs'', ''toTimestampMs'', ''network'']))))]\<rparr>,
   \<lparr>sp_name = ''get_contract_status'', sp_chains = [''n3''], sp_routes =
      [(''n3'', route ''get_contract_status'' True False
        (Some (\<lambda>args. n3Args (pick args [''contract'', ''contractName'', ''network'']))))]\<rparr>,
   \<lparr>sp_name = ''list_famous_contracts'', sp_chains = [''n3''], sp_routes =
      [(''n3'', route ''list_famous_contracts'' True False
        (Some (\<lambda>args. n3Args (pick args [''network'']))))]\<rparr>,
   \<lparr>sp_name = ''estimate_transfer_fees'', sp_chains = [''n3''], sp_routes =
      [(''n3'', route ''estimate_transfer_fees'' True False
        (Some (\<lambda>args. n3Args (rename_key (rename_key (pick args [''from'', ''to'', ''asset'', ''amount'', ''network'']) ''from'' ''fromAddress'') ''to'' ''toAddress''))))]\<rparr>,
   \<lparr>sp_name = ''estimate_invoke_fees'', sp_chains = [''n3''], sp_routes =
      [(''n3'', route ''estimate_invoke_fees'' True False
        (Some (\<lambda>args. n3Args (rename_key (pick args [''from'', ''contract'', ''scriptHash'', ''operation'', ''args'', ''network'']) ''from'' ''signerAddress''))))]\<rparr>]"

definition construct_specs :: "tool_spec list" where
  "construct_specs =
  [\<lparr>sp_name = ''simulate_call'', sp_chains = CHAINS, sp_routes =
      [(''n3'', route ''n3_test_invoke'' True False
        (Some (\<lambda>args. n3Args (pick args [''scriptHash'', ''operation'', ''args'', ''signers'', ''network''])))),
       (''neox'', route ''x_simulate_call'' False False
        (Some (\<lambda>args. neoxNetwork (pick args [''to'', ''data'', ''from'', ''value'', ''network'']))))]\<rparr>,
   \<lparr>sp_name = ''build_transfer'', sp_chains = CHAINS, sp_routes =
      [(''n3'', route ''n3_build_transfer'' True False
        (Some (\<lambda>args. n3Args (pick args [''from'', ''to'', ''asset'', ''amount'', ''decimals'', ''network''])))),
       (''neox'', route ''x_build_transfer'' False False
        (Some (\<lambda>args. neoxNetwork (pick args [''from'', ''to'', ''amountWei'', ''network'']))))]\<rparr>,
   \<lparr>sp_name = ''build_contract_call'', sp_chains = CHAINS, sp_routes =
      [(''n3'', route ''n3_build_invoke'' True False
        (Some (\<lambda>args. n3Args (pick args [''from'', ''scriptHash'', ''operation'', ''args'', ''signers'', ''network''])))),
       (''neox'', route ''x_build_contract_call'' False False
        (Some (\<lambda>args. neoxNetwork (pick args [''from'', ''to'', ''data'', ''functionSignature'', ''args'', ''valueWei'', ''network'']))))]\<rparr>,
   \<lparr>sp_name = ''build_vote'', sp_chains = [''n3''], sp_routes =
      [(''n3'', route ''n3_build_vote'' True False
        (Some (\<lambda>args. n3Args (pick args [''from'', ''candidate'', ''network'']))))]\<rparr>,
   \<lparr>sp_name = ''build_nns_operation'', sp_chains = [''n3''], sp_routes =
      [(''n3'', route ''n3_build_nns_operation'' True False
        (Some (\<lambda>args. n3Args (pick args [''from'', ''action'', ''domain'', ''years'', ''recordType'', ''data'', ''to'', ''network'']))))]\<rparr>]"

definition analysis_specs :: "tool_spec list" where
  "analysis_specs =
  [\<lparr>sp_name = ''explorer_get_address'', sp_chains = CHAINS, sp_routes =
      [(''n3'', route ''n3_get_address'' False False
        (Some (\<lambda>args. n3Args (pick args [''address'', ''network''])))),
       (''neox'', route ''x_get_address'' False False
        (Some (xExplorerArgs [''address''])))]\<rparr>,
   \<lparr>sp_name = ''analyze_address'', sp_chains = [''n3''], sp_routes =
      [(''n3'', route ''query_indexer'' False False
        (Some (\<lambda>args. indexer_args ''analyze_address'' (pick args [''address'', ''sample'', ''limit'']) args)))]\<rparr>,
   \<lparr>sp_name = ''analyze_address_connection'', sp_chains = [''n3''], sp_routes =
      [(''n3'', route ''query_indexer'' False False
        (Some (\<lambda>args. indexer_args ''analyze_address_connection'' ([(''address'', oget args ''source''), (''target'', oget args ''target'')] @ pick args [''sample'', ''limit'']) args)))]\<rparr>,
   \<lparr>sp_name = ''analyze_account_graph'', sp_chains = [''n3''], sp_routes =
      [(''n3'', route ''query_indexer'' False False
        (Some (\<lambda>args. indexer_args ''analyze_account_graph'' (pick args [''address'', ''limit'']) args)))]\<rparr>,
   \<lparr>sp_name = ''analyze_consensus_health'', sp_chains = [''n3''], sp_routes =
      [(''n3'', route ''query_indexer'' False False
        (Some (\<lambda>args. indexer_args ''analyze_consensus_health'' (pick args [''lookback'', ''streak_threshold'', ''duration_threshold_s'', ''max_data_age_s'', ''max_clock_skew_s'']) args)))]\<rparr>,
   \<lparr>sp_name = ''analyze_transaction'', sp_chains = [''n3''], sp_routes =
      [(''n3'', route ''query_indexer'' False False
        (Some (\<lambda>args. indexer_args ''analyze_transaction'' (pick args [''txid'']) args)))]\<rparr>,
   \<lparr>sp_name = ''investigate_transactions'', sp_chains = [''n3''], sp_routes =
      [(''n3'', route ''query_indexer'' False False
        (Some (\<lambda>args. indexer_args ''investigate_transactions'' ([(''txids'', oget args ''txids'')]) args)))]\<rparr>,
   \<lparr>sp_name = ''analyze_contract'', sp_chains = [''n3''], sp_routes =
      [(''n3'', route ''query_indexer'' False False
        (Some (\<lambda>args. indexer_args ''analyze_contract'' ([(''hash'', oget args ''contractHash'')]) args)))]\<rparr>,
   \<lparr>sp_name = ''inspect_contract_code'', sp_chains = [''n3''], sp_routes =
      [(''n3'', route ''query_indexer'' False False
        (Some (\<lambda>args. indexer_args ''inspect_contract_code'' ([(''hash'', oget args ''contractHash'')] @ rename_key (pick args [''limit'', ''skip'']) ''skip'' ''offset'') args)))]\<rparr>,
   \<lparr>sp_name = ''analyze_contract_upgrades'', sp_chains = [''n3''], sp_routes =
      [(''n3'', route ''query_indexer'' False False
        (Some (\<lambda>args. indexer_args ''analyze_contract_upgrades'' ([(''hash'', oget args ''contractHash'')]) args)))]\<rparr>,
   \<lparr>sp_name = ''get_contract_source_verification'', sp_chains = [''n3''], sp_routes =
      [(''n3'', route ''query_indexer'' False False
        (Some (\<lambda>args. indexer_args ''get_contract_source_verification'' ([(''hash'', oget args ''contractHash'')]) args)))]\<rparr>]"

definition explorer_specs :: "tool_spec list" where
  "explorer_specs =
  [\<lparr>sp_name = ''explorer_list_address_transactions'', sp_chains = CHAINS, sp_routes =
      [(''n3'', route ''n3_list_transactions_by_address'' False False
        (Some (\<lambda>args. n3Args (pick args [''address'', ''limit'', ''skip'', ''network''])))),
       (''neox'', route ''x_list_transactions_by_address'' False False
        (Some (xExplorerArgs [''address''])))]\<rparr>,
   \<lparr>sp_name = ''explorer_list_address_transfers'', sp_chains = CHAINS, sp_routes =
      [(''n3'', route ''n3_list_transfers_by_address'' False False
        (Some (\<lambda>args. n3Args (pick args [''address'', ''limit'', ''skip'', ''network''])))),
       (''neox'', route ''x_list_token_transfers'' False False
        (Some (xExplorerArgs [''address''])))]\<rparr>,
   \<lparr>sp_name = ''explorer_list_address_assets'', sp_chains = [''n3''], sp_routes =
      [(''n3'', route ''n3_assets_held_by_address'' False False
        (Some (\<lambda>args. n3Args (pick args [''address'', ''limit'', ''skip'', ''network'']))))]\<rparr>,
   \<lparr>sp_name = ''explorer_list_token_holders'', sp_chains = CHAINS, sp_routes =
      [(''n3'', route ''n3_asset_holders'' False False
        (Some (\<lambda>args. n3Args (pick args [''contractHash'', ''limit'', ''skip'', ''network''])))),
       (''neox'', route ''x_token_holders'' False False
        (Some (\<lambda>args. neoxNetwork (rename_key (dropPagination (pick args [''contractHash'', ''network''])) ''contractHash'' ''address''))))]\<rparr>,
   \<lparr>sp_name = ''explorer_search'', sp_chains = CHAINS, sp_routes =
      [(''n3'', route ''query_indexer'' False False
        (Some special_explorer_search_n3)),
       (''neox'', route ''x_search'' False False
        (Some (xExplorerArgs [''q''])))]\<rparr>,
   \<lparr>sp_name = ''query_explorer'', sp_chains = CHAINS, sp_routes =
      [(''n3'', route ''query_indexer'' False False
        (Some (\<lambda>args. bindR (n3Args (pick args [''endpoint'', ''params'', ''network''])) (\<lambda>a. Inr (rename_key a ''endpoint'' ''method''))))),
       (''neox'', route ''x_query'' False False
        (Some (\<lambda>args. neoxNetwork (pick args [''endpoint'', ''params'', ''network'']))))]\<rparr>,
   \<lparr>sp_name = ''query_explorer_find'', sp_chains = [''n3''], sp_routes =
      [(''n3'', route ''query_indexer_find'' False False
        (Some (\<lambda>args. Inr (pick args [''collection'', ''filter'', ''sort'', ''limit'', ''skip'']))))]\<rparr>,
   \<lparr>sp_name = ''query_explorer_graphql'', sp_chains = [''neox''], sp_routes =
      [(''neox'', route ''x_graphql'' False False
        (Some (\<lambda>args. Inr (pick args [''query'', ''variables'']))))]\<rparr>]"

definition SPECS :: "tool_spec list" where
  "SPECS = meta_specs @ node_specs @ n3_specs @ construct_specs @ analysis_specs @ explorer_specs"

section \<open>Resolution\<close>

definition publicToolNames :: "string list" where "publicToolNames = map sp_name SPECS"

definition isPublicTool :: "string \<Rightarrow> bool" where "isPublicTool name \<longleftrightarrow> name \<in> set publicToolNames"

text \<open>
  \<open>PUBLIC_TOOLS[name]\<close>: the table is a plain object, so a name of \<open>Object.prototype\<close> finds a value without \<open>chains\<close> there and the
  next access to \<open>chains\<close> throws.
\<close>

definition find_spec :: "string \<Rightarrow> string \<Rightarrow> tool_spec result" where
  "find_spec trouble name =
     (case find (\<lambda>s. sp_name s = name) SPECS of
        Some s \<Rightarrow> Inr s
      | None \<Rightarrow> if name \<in> set object_prototype_keys then Inl (TypeError trouble) else invalid (''Unknown tool '' @ [CHR 0x22]))"

definition supportedChains :: "string \<Rightarrow> string list result" where
  "supportedChains name = bindR (find_spec ''spec.chains is not iterable'' name) (\<lambda>spec. Inr (sp_chains spec))"

definition resolveChain :: "tool_spec \<Rightarrow> jsobj \<Rightarrow> string option result" where
  "resolveChain spec args =
     (let requested = oget args ''chain'' in
      case sp_chains spec of
        [] \<Rightarrow> Inr None
      | [only] \<Rightarrow> if requested \<noteq> JUndef \<and> requested \<noteq> JStr only then invalid (''Tool '' @ [CHR 0x22]) else Inr (Some only)
      | cs \<Rightarrow> (case requested of
            JStr c \<Rightarrow> if c = [] then invalid (''Tool '' @ [CHR 0x22])
                      else if c \<notin> set cs then invalid (''Tool '' @ [CHR 0x22]) else Inr (Some c)
          | _ \<Rightarrow> invalid (''Tool '' @ [CHR 0x22])))"

definition apply_route :: "route_spec \<Rightarrow> jsobj \<Rightarrow> jsobj result" where
  "apply_route rt args = (case rt_mapArgs rt of None \<Rightarrow> Inr args | Some f \<Rightarrow> f args)"

definition resolveRoute :: "string \<Rightarrow> jsobj \<Rightarrow> tool_route result" where
  "resolveRoute name args =
     bindR (find_spec (''Cannot read properties of undefined (reading '' @ [CHR 0x27] @ ''length'' @ [CHR 0x27] @ '')'') name) (\<lambda>spec.
     bindR (resolveChain spec args) (\<lambda>chain.
     case map_of (sp_routes spec) (case chain of Some c \<Rightarrow> c | None \<Rightarrow> ''meta'') of
       None \<Rightarrow> invalid (''Tool '' @ [CHR 0x22])
     | Some rt \<Rightarrow>
         bindR (apply_route rt (obj_delete ''chain'' args)) (\<lambda>mapped.
         Inr \<lparr>tr_publicName = name, tr_internalName = rt_internalName rt, tr_chain = chain, tr_args = mapped,
              tr_requiresServices = rt_requiresServices rt, tr_requiresWallet = rt_requiresWallet rt\<rparr>)))"

section \<open>What the routes may carry\<close>

text \<open>The tools \<open>callTool\<close> dispatches on, with and without the Neo N3 services.\<close>

definition NODE_TOOLS :: "string list" where
  "NODE_TOOLS =
     [''get_blockchain_info'', ''get_block_count'', ''get_block'', ''get_transaction'', ''get_application_log'', ''n3_node_get_transaction_status'',
      ''wait_for_transaction'', ''get_balance'', ''get_unclaimed_gas'', ''get_nep17_transfers'', ''get_nep11_balances'', ''get_nep11_transfers'',
      ''invoke_contract'', ''estimate_transfer_fees'', ''estimate_invoke_fees'', ''list_famous_contracts'', ''get_contract_info'', ''get_contract_status'']"

definition SERVICE_TOOLS :: "string list" where
  "SERVICE_TOOLS = N3_PROPOSAL_TOOLS @ ECOSYSTEM_N3_TOOLS @ NODE_TOOLS"

definition LOCAL_TOOLS :: "string list" where
  "LOCAL_TOOLS = [''get_network_mode'', ''get_wallet''] @ NEO_DATA_TOOLS @ ECOSYSTEM_META_TOOLS @ N3_INDEXER_TOOLS @ NEOX_TOOLS
     @ NEOX_PROPOSAL_TOOLS @ NEOX_NODE_TOOLS"

definition okeys :: "jsobj \<Rightarrow> string set" where "okeys a = fst ` set a"

definition safe_keys :: "jsobj \<Rightarrow> bool" where
  "safe_keys a \<longleftrightarrow> okeys a \<inter> set SECRET_FIELDS = {}"

definition public_network :: "jsobj \<Rightarrow> bool" where
  "public_network a \<longleftrightarrow> oget a ''network'' \<in> {JUndef, JStr ''mainnet'', JStr ''testnet'', JStr ''neox-mainnet'', JStr ''neox-testnet''}"

definition mapper_safe :: "(jsobj \<Rightarrow> jsobj result) \<Rightarrow> bool" where
  "mapper_safe f \<longleftrightarrow> (\<forall>args a. f args = Inr a \<longrightarrow> safe_keys a)"

definition mapper_ok :: "(jsobj \<Rightarrow> jsobj result) \<Rightarrow> bool" where
  "mapper_ok f \<longleftrightarrow> (\<forall>args a. f args = Inr a \<longrightarrow> safe_keys a \<and> public_network a)"

definition indexer_declared :: "jsobj \<Rightarrow> bool" where
  "indexer_declared a \<longleftrightarrow>
     (\<exists>m d ps. oget a ''method'' = JStr m \<and> map_of N3_REST_CATALOG m = Some d \<and> oget a ''params'' = JObj ps
        \<and> okeys ps \<subseteq> set (declared_keys d))"

lemma obj_delete_keys: "okeys (obj_delete k a) = okeys a - {k}"
  by (force simp: obj_delete_def okeys_def)

lemma obj_put_keys: "okeys (obj_put k v a) = insert k (okeys a)"
  by (force simp: obj_put_def okeys_def)

lemma oget_delete [simp]: "oget (obj_delete k a) j = (if j = k then JUndef else oget a j)"
  by (induction a) (auto simp: obj_delete_def oget_def)

lemma okeys_simps [simp]: "okeys [] = {}" "okeys ((k, v) # a) = insert k (okeys a)"
  by (simp_all add: okeys_def)

lemma oget_replaced: "oget (map (\<lambda>(k', w). (k', if k' = k then v else w)) a) j = (if j = k \<and> k \<in> okeys a then v else oget a j)"
  by (induction a) auto

lemma oget_append: "oget (a @ [(k, v)]) j = (if j \<in> okeys a then oget a j else if j = k then v else JUndef)"
  by (induction a) auto

lemma oget_put [simp]: "oget (obj_put k v a) j = (if j = k then v else oget a j)"
  using oget_notin [of j a] by (simp add: obj_put_def oget_replaced oget_append okeys_def)

lemma oget_rename: "j \<notin> {old, new} \<Longrightarrow> oget (rename_key a old new) j = oget a j"
  by (simp add: rename_key_def)

lemma pick_keys: "okeys (pick args ks) \<subseteq> set ks"
  by (auto simp: pick_def okeys_def)

lemma rename_keys: "old \<noteq> new \<Longrightarrow> okeys (rename_key a old new) \<subseteq> insert new (okeys a - {old})"
  by (simp add: rename_key_def obj_delete_keys obj_put_keys) (auto simp: okeys_def)

lemma safe_pick: "list_all (\<lambda>k. k \<notin> set SECRET_FIELDS) ks \<Longrightarrow> safe_keys (pick args ks)"
  using pick_keys [of args ks] by (auto simp: safe_keys_def list_all_iff)

lemma safe_rename: "safe_keys a \<Longrightarrow> old \<noteq> new \<Longrightarrow> new \<notin> set SECRET_FIELDS \<Longrightarrow> safe_keys (rename_key a old new)"
  using rename_keys [of old new a] unfolding safe_keys_def by blast

lemma safe_drop: "safe_keys a \<Longrightarrow> safe_keys (dropPagination a)"
  unfolding safe_keys_def dropPagination_def obj_delete_keys by blast

lemma network_public: "''network'' \<notin> set SECRET_FIELDS" by (simp add: SECRET_FIELDS_def)

lemma passNetwork_kept: "passNetwork a = Inr b \<Longrightarrow> safe_keys a \<Longrightarrow> safe_keys b \<and> public_network b"
  unfolding passNetwork_def Let_def safe_keys_def public_network_def
  by (auto simp: obj_delete_keys result_simps split: if_splits)

lemma neoxNetwork_kept: "neoxNetwork a = Inr b \<Longrightarrow> safe_keys a \<Longrightarrow> safe_keys b \<and> public_network b"
  using network_public unfolding neoxNetwork_def Let_def safe_keys_def public_network_def
  by (auto simp: obj_delete_keys obj_put_keys result_simps split: if_splits)

lemma mapper_pass: "(\<And>args. safe_keys (f args)) \<Longrightarrow> mapper_ok (\<lambda>args. passNetwork (f args))"
  by (auto simp: mapper_ok_def dest: passNetwork_kept)

lemma mapper_neox: "(\<And>args. safe_keys (f args)) \<Longrightarrow> mapper_ok (\<lambda>args. neoxNetwork (f args))"
  by (auto simp: mapper_ok_def dest: neoxNetwork_kept)

lemma mapper_explorer: "list_all (\<lambda>k. k \<notin> set SECRET_FIELDS) ks \<Longrightarrow> mapper_ok (xExplorerArgs ks)"
  unfolding xExplorerArgs_def by (intro mapper_neox safe_drop safe_pick) (simp add: network_public)

lemma mapper_pick:
  assumes "list_all (\<lambda>k. k \<notin> set SECRET_FIELDS) ks" "''network'' \<notin> set ks"
  shows "mapper_ok (\<lambda>args. Inr (pick args ks))"
proof -
  have "oget (pick args ks) ''network'' = JUndef" for args
    using assms(2) pick_keys [of args ks] by (intro oget_notin) (auto simp: okeys_def)
  then show ?thesis using safe_pick [OF assms(1)] by (simp add: mapper_ok_def public_network_def)
qed

lemma mapper_rename:
  assumes "mapper_ok f" "old \<noteq> new" "old \<noteq> ''network''" "new \<noteq> ''network''" "new \<notin> set SECRET_FIELDS"
  shows "mapper_ok (\<lambda>args. bindR (f args) (\<lambda>a. Inr (rename_key a old new)))"
proof -
  have "public_network (rename_key a old new)" if "public_network a" for a
    using that assms(3,4) oget_rename [of "''network''" old new a] by (simp add: public_network_def)
  with assms(1,2,5) show ?thesis unfolding mapper_ok_def by (fastforce simp: result_simps intro: safe_rename)
qed

lemma mapper_indexer: "mapper_ok (\<lambda>args. indexer_args endpoint (f args) args)"
proof -
  have "safe_keys ([(''method'', JStr endpoint), (''params'', JObj ps)] @ n) \<and> public_network ([(''method'', JStr endpoint), (''params'', JObj ps)] @ n)"
    if "safe_keys n" "public_network n" for ps n
    using that by (simp add: safe_keys_def public_network_def SECRET_FIELDS_def)
  then show ?thesis
    using mapper_pass [of "\<lambda>args. pick args [''network'']"] safe_pick [of "[''network'']"] network_public
    unfolding mapper_ok_def indexer_args_def n3Args_def by (fastforce simp: result_simps)
qed

lemma mapper_special:
  "mapper_ok special_get_block_neox" "mapper_ok special_get_contract_info_neox" "mapper_ok special_explorer_search_n3"
proof -
  let ?renamed = "\<lambda>args. rename_key (pick args [''hashOrHeight'', ''includeTransactions'', ''network'']) ''hashOrHeight'' ''blockHashOrHeight''"
  have "mapper_ok (\<lambda>args. passNetwork (?renamed args))"
    by (intro mapper_pass safe_rename safe_pick) (simp_all add: SECRET_FIELDS_def)
  then show "mapper_ok special_get_block_neox"
    unfolding mapper_ok_def special_get_block_neox_def by (auto simp: result_simps split: if_splits)
  show "mapper_ok special_get_contract_info_neox" "mapper_ok special_explorer_search_n3"
    by (auto simp: mapper_ok_def special_get_contract_info_neox_def special_explorer_search_n3_def safe_keys_def public_network_def
        SECRET_FIELDS_def result_simps split: jsval.splits if_splits)
qed

text \<open>Every entry of the table: the tool it names is one \<open>callTool\<close> knows, it asks for the services it needs, its mapper is sound.\<close>

definition route_known :: "route_spec \<Rightarrow> bool" where
  "route_known rt \<longleftrightarrow>
     (if rt_requiresServices rt then rt_internalName rt \<in> set SERVICE_TOOLS else rt_internalName rt \<in> set LOCAL_TOOLS)
     \<and> (rt_requiresWallet rt \<longleftrightarrow> rt_internalName rt = ''get_wallet'')"

definition spec_known :: "tool_spec \<Rightarrow> bool" where
  "spec_known spec \<longleftrightarrow>
     list_all (\<lambda>(c, rt). route_known rt) (sp_routes spec) \<and> map fst (sp_routes spec) = (if sp_chains spec = [] then [''meta''] else sp_chains spec)"

definition route_maps :: "route_spec \<Rightarrow> bool" where
  "route_maps rt \<longleftrightarrow>
     (case rt_mapArgs rt of
        None \<Rightarrow> rt_internalName rt = ''get_network_mode''
      | Some f \<Rightarrow> if rt_internalName rt = ''query_neofs'' then mapper_safe f else mapper_ok f)"

lemma specs_known: "list_all spec_known SPECS"
  by code_simp

lemma mapper_picked: "list_all (\<lambda>k. k \<notin> set SECRET_FIELDS) ks \<Longrightarrow> mapper_safe (\<lambda>args. Inr (pick args ks))"
  by (simp add: mapper_safe_def safe_pick)

lemmas mapper_rules = mapper_pass mapper_neox mapper_explorer mapper_pick mapper_rename mapper_indexer mapper_special mapper_picked
  safe_pick safe_rename safe_drop

lemma route_maps_simps [simp]:
  "route_maps (route name services wallet (Some f)) \<longleftrightarrow> (if name = ''query_neofs'' then mapper_safe f else mapper_ok f)"
  "route_maps (route name services wallet None) \<longleftrightarrow> name = ''get_network_mode''"
  by (simp_all add: route_maps_def route_def)

definition spec_maps :: "tool_spec \<Rightarrow> bool" where
  "spec_maps spec \<longleftrightarrow> list_all (\<lambda>(c, rt). route_maps rt) (sp_routes spec)"

lemma specs_maps: "list_all spec_maps SPECS"
  unfolding SPECS_def meta_specs_def node_specs_def n3_specs_def construct_specs_def analysis_specs_def explorer_specs_def n3Args_def
  by (simp add: spec_maps_def) (intro conjI mapper_rules; simp add: SECRET_FIELDS_def)

text \<open>The endpoints the table asks for by name, with the parameters it may give them.\<close>

definition indexer_endpoints :: "(string \<times> string list) list" where
  "indexer_endpoints =
     [(''analyze_address'', [''address'', ''sample'', ''limit'']),
      (''analyze_address_connection'', [''address'', ''target'', ''sample'', ''limit'']),
      (''analyze_account_graph'', [''address'', ''limit'']),
      (''analyze_consensus_health'', [''lookback'', ''streak_threshold'', ''duration_threshold_s'', ''max_data_age_s'', ''max_clock_skew_s'']),
      (''analyze_transaction'', [''txid'']),
      (''investigate_transactions'', [''txids'']),
      (''analyze_contract'', [''hash'']),
      (''inspect_contract_code'', [''hash'', ''limit'', ''offset'']),
      (''analyze_contract_upgrades'', [''hash'']),
      (''get_contract_source_verification'', [''hash'']),
      (''search'', [''q''])]"

definition endpoint_covers :: "string \<Rightarrow> string list \<Rightarrow> bool" where
  "endpoint_covers m ks \<longleftrightarrow>
     (case map_of N3_REST_CATALOG m of None \<Rightarrow> False | Some d \<Rightarrow> list_all (\<lambda>k. k \<in> set (declared_keys d)) ks)"

lemma endpoints_cover: "list_all (\<lambda>(m, ks). endpoint_covers m ks) indexer_endpoints"
  by code_simp

definition mapper_declared :: "(jsobj \<Rightarrow> jsobj result) \<Rightarrow> bool" where
  "mapper_declared f \<longleftrightarrow> (\<forall>args a. f args = Inr a \<longrightarrow> indexer_declared a)"

lemma declared_entry:
  assumes "(m, ks) \<in> set indexer_endpoints" "okeys ps \<subseteq> set ks" "oget a ''method'' = JStr m" "oget a ''params'' = JObj ps"
  shows "indexer_declared a"
  using endpoints_cover assms unfolding indexer_declared_def list_all_iff
  by (fastforce simp: endpoint_covers_def list_all_iff split: option.splits)

lemma mapper_indexer_declared:
  assumes "(m, ks) \<in> set indexer_endpoints" "\<And>args. okeys (f args) \<subseteq> set ks"
  shows "mapper_declared (\<lambda>args. indexer_args m (f args) args)"
  using declared_entry [OF assms] by (auto simp: mapper_declared_def indexer_args_def result_simps)

lemma mapper_search_declared: "mapper_declared special_explorer_search_n3"
proof -
  have "indexer_declared [(''method'', JStr ''search''), (''params'', JObj [(''q'', v)])]" for v
    by (rule declared_entry [of "''search''" "[''q'']" "[(''q'', v)]"]) (simp_all add: indexer_endpoints_def)
  then show ?thesis
    by (auto simp: mapper_declared_def special_explorer_search_n3_def result_simps split: jsval.splits if_splits)
qed

definition spec_declared :: "tool_spec \<Rightarrow> bool" where
  "spec_declared spec \<longleftrightarrow>
     list_all (\<lambda>(c, rt). rt_internalName rt = ''query_indexer'' \<and> sp_name spec \<noteq> ''query_explorer''
       \<longrightarrow> (\<exists>f. rt_mapArgs rt = Some f \<and> mapper_declared f)) (sp_routes spec)"

lemma appended_keys: "okeys (a @ b) = okeys a \<union> okeys b"
  by (auto simp: okeys_def)

lemma renamed_window: "okeys (rename_key (pick args [''limit'', ''skip'']) ''skip'' ''offset'') \<subseteq> {''limit'', ''offset''}"
  using rename_keys [of "''skip''" "''offset''" "pick args [''limit'', ''skip'']"] pick_keys [of args "[''limit'', ''skip'']"] by auto

lemma picked_keys: "set ks \<subseteq> K \<Longrightarrow> okeys (pick args ks) \<subseteq> K"
  using pick_keys [of args ks] by blast

lemma specs_declared: "list_all spec_declared SPECS"
  unfolding SPECS_def meta_specs_def node_specs_def n3_specs_def construct_specs_def analysis_specs_def explorer_specs_def
  by (simp add: spec_declared_def route_def mapper_search_declared)
    (intro conjI mapper_indexer_declared; (simp add: indexer_endpoints_def; fail)?;
      simp add: appended_keys picked_keys renamed_window subset_trans [OF renamed_window])

lemma tables_disjoint: "list_all (\<lambda>n. n \<notin> set SERVICE_TOOLS) LOCAL_TOOLS"
  by code_simp

lemma tables_vetted:
  "list_all (\<lambda>n. n \<notin> {''transfer_assets'', ''invoke_contract_write'', ''claim_gas'', ''deploy_contract'', ''create_wallet'', ''import_wallet''})
     (LOCAL_TOOLS @ SERVICE_TOOLS)"
  by code_simp

lemma public_names_distinct: "distinct publicToolNames"
  by code_simp

lemma resolveRoute_Inr:
  assumes "resolveRoute name args = Inr r"
  obtains spec chain c rt where "spec \<in> set SPECS" "sp_name spec = name" "resolveChain spec args = Inr chain" "(c, rt) \<in> set (sp_routes spec)"
    "apply_route rt (obj_delete ''chain'' args) = Inr (tr_args r)"
    "r = \<lparr>tr_publicName = name, tr_internalName = rt_internalName rt, tr_chain = chain, tr_args = tr_args r,
          tr_requiresServices = rt_requiresServices rt, tr_requiresWallet = rt_requiresWallet rt\<rparr>"
proof -
  from assms obtain spec chain rt a where found: "find (\<lambda>s. sp_name s = name) SPECS = Some spec" and chain: "resolveChain spec args = Inr chain"
    and rt: "map_of (sp_routes spec) (case chain of Some c \<Rightarrow> c | None \<Rightarrow> ''meta'') = Some rt"
    and a: "apply_route rt (obj_delete ''chain'' args) = Inr a"
    and r: "r = \<lparr>tr_publicName = name, tr_internalName = rt_internalName rt, tr_chain = chain, tr_args = a,
          tr_requiresServices = rt_requiresServices rt, tr_requiresWallet = rt_requiresWallet rt\<rparr>"
    unfolding resolveRoute_def find_spec_def by (auto simp: result_simps split: option.splits if_splits)
  from found have "spec \<in> set SPECS" "sp_name spec = name" by (auto simp: find_Some_iff)
  with chain map_of_SomeD [OF rt] a r show thesis by (intro that) simp_all
qed

lemma resolved_route:
  assumes "resolveRoute name args = Inr r"
  shows "isPublicTool name
    \<and> (if tr_requiresServices r then tr_internalName r \<in> set SERVICE_TOOLS else tr_internalName r \<in> set LOCAL_TOOLS - set SERVICE_TOOLS)
    \<and> (tr_requiresWallet r \<longleftrightarrow> tr_internalName r = ''get_wallet'')
    \<and> \<not> write_refused (tr_internalName r) (tr_args r) \<and> tr_internalName r \<notin> {''create_wallet'', ''import_wallet''}
    \<and> (tr_internalName r \<noteq> ''get_network_mode'' \<longrightarrow> safe_keys (tr_args r))
    \<and> (tr_internalName r \<notin> {''get_network_mode'', ''query_neofs''} \<longrightarrow> public_network (tr_args r))
    \<and> (tr_internalName r = ''query_indexer'' \<and> name \<noteq> ''query_explorer'' \<longrightarrow> indexer_declared (tr_args r))"
proof -
  from assms obtain spec chain c rt where spec: "spec \<in> set SPECS" "sp_name spec = name" and rt: "(c, rt) \<in> set (sp_routes spec)"
    and mapped: "apply_route rt (obj_delete ''chain'' args) = Inr (tr_args r)"
    and r: "r = \<lparr>tr_publicName = name, tr_internalName = rt_internalName rt, tr_chain = chain, tr_args = tr_args r,
          tr_requiresServices = rt_requiresServices rt, tr_requiresWallet = rt_requiresWallet rt\<rparr>"
    by (rule resolveRoute_Inr)
  have name: "tr_internalName r = rt_internalName rt" by (subst r) simp
  have flags: "tr_requiresServices r = rt_requiresServices rt" "tr_requiresWallet r = rt_requiresWallet rt" by (subst r, simp)+
  have known: "route_known rt" "route_maps rt" using specs_known specs_maps spec(1) rt
    by (fastforce simp: list_all_iff spec_known_def spec_maps_def)+
  have safe: "safe_keys (tr_args r)" if "tr_internalName r \<noteq> ''get_network_mode''"
    using known(2) mapped that by (auto simp: route_maps_def apply_route_def name mapper_safe_def mapper_ok_def split: option.splits if_splits)
  have table: "tr_internalName r \<in> set (LOCAL_TOOLS @ SERVICE_TOOLS)" using known(1) by (auto simp: route_known_def name split: if_splits)
  then have listed: "tr_internalName r \<notin> {''transfer_assets'', ''invoke_contract_write'', ''claim_gas'', ''deploy_contract'',
      ''create_wallet'', ''import_wallet''}" using tables_vetted unfolding list_all_iff by blast
  moreover have "\<not> write_refused (tr_internalName r) (tr_args r)"
    using listed safe by (simp add: write_refused_def safe_keys_def list_ex_iff flip: okeys_def) auto
  moreover have "public_network (tr_args r)" if "tr_internalName r \<notin> {''get_network_mode'', ''query_neofs''}"
    using known(2) mapped that by (auto simp: route_maps_def apply_route_def name mapper_ok_def split: option.splits if_splits)
  moreover have "indexer_declared (tr_args r)" if "tr_internalName r = ''query_indexer'' \<and> name \<noteq> ''query_explorer''"
    using specs_declared spec rt mapped that
    by (fastforce simp: list_all_iff spec_declared_def mapper_declared_def apply_route_def name)
  moreover have "isPublicTool name" using spec by (auto simp: isPublicTool_def publicToolNames_def)
  ultimately show ?thesis using known(1) safe tables_disjoint by (auto simp: route_known_def name flags list_all_iff)
qed



end
