(* ===== verification/WriteOperations.thy ===== *)
theory WriteOperations
  imports Json Effects "HOL-Library.AList"
begin

text \<open>
  src/services/write-operation-service.ts: the durable journal of write intents and the
  operations on one record. The journal directory is an association list from intent ids
  (the file names) to files. Reading a file validates it; every change rewrites the file
  atomically (temporary file, fsync, rename), and may fail or crash before or after the
  rename. \<open>sha\<close> stands for the hexadecimal SHA-256 digest of Node's crypto module.
\<close>

section \<open>States, intents and records\<close>

datatype write_state =
    Awaiting_approval | Approved | Preparing | Submitting | Outcome_unknown | Submitted
  | Rejected | Failed_before_submission | Declined | Expired

primrec state_name :: "write_state \<Rightarrow> string" where
  "state_name Awaiting_approval = ''awaiting_approval''"
| "state_name Approved = ''approved''"
| "state_name Preparing = ''preparing''"
| "state_name Submitting = ''submitting''"
| "state_name Outcome_unknown = ''outcome_unknown''"
| "state_name Submitted = ''submitted''"
| "state_name Rejected = ''rejected''"
| "state_name Failed_before_submission = ''failed_before_submission''"
| "state_name Declined = ''declined''"
| "state_name Expired = ''expired''"

definition WRITE_OPERATION_STATES :: "write_state list" where
  "WRITE_OPERATION_STATES = [Awaiting_approval, Approved, Preparing, Submitting, Outcome_unknown,
     Submitted, Rejected, Failed_before_submission, Declined, Expired]"

definition parse_state :: "string \<Rightarrow> write_state option" where
  "parse_state s = find (\<lambda>st. state_name st = s) WRITE_OPERATION_STATES"

record write_intent =
  w_operation :: string
  w_network :: string
  w_signerAddress :: string
  w_payload :: jsval

record prepared_tx =
  p_rawTransaction :: string
  p_txid :: string
  p_validUntilBlock :: jsnum
  p_metadata :: jsval

record write_record = write_intent +
  w_intentId :: string
  w_fingerprint :: string
  w_state :: write_state
  w_createdAt :: string
  w_updatedAt :: string
  w_rawTransaction :: "string option"
  w_txid :: "string option"
  w_validUntilBlock :: "int option"
  w_metadata :: "jsobj option"
  w_result :: "jsobj option"
  w_error :: "string option"

definition MAX_WRITE_INTENT_BYTES :: nat where "MAX_WRITE_INTENT_BYTES = 256 * 1024"
definition MAX_WRITE_INTENT_RECORDS :: nat where "MAX_WRITE_INTENT_RECORDS = 1000"

lemma parse_state_name [simp]: "parse_state (state_name s) = Some s"
  by (cases s) (simp_all add: parse_state_def WRITE_OPERATION_STATES_def)

section \<open>Validation\<close>

definition hex64 :: "string \<Rightarrow> bool" where
  "hex64 s \<longleftrightarrow> length s = 64 \<and> list_all is_lower_hex s"

fun isPlainObject :: "jsval \<Rightarrow> bool" where
  "isPlainObject (JObj kvs) = True"
| "isPlainObject _ = False"

text \<open>\<open>Date.toISOString\<close> text: \<open>YYYY-MM-DDTHH:mm:ss.sssZ\<close>, or an expanded year of six digits.\<close>

definition days_in_month :: "nat \<Rightarrow> nat \<Rightarrow> nat" where
  "days_in_month y m =
     (if m = 2 then (if (4 dvd y \<and> \<not> 100 dvd y) \<or> 400 dvd y then 29 else 28)
      else if m \<in> {4, 6, 9, 11} then 30 else 31)"

definition iso_tail :: "nat \<Rightarrow> string \<Rightarrow> bool" where
  "iso_tail year s \<longleftrightarrow> length s = 20 \<and>
     list_all2 (\<lambda>c d. if d = CHR ''9'' then is_digit c else c = d) s ''-99-99T99:99:99.999Z'' \<and>
     (let month = str_dec (take 2 (drop 1 s)); day = str_dec (take 2 (drop 4 s))
      in 1 \<le> month \<and> month \<le> 12 \<and> 1 \<le> day \<and> day \<le> days_in_month year month) \<and>
     str_dec (take 2 (drop 7 s)) \<le> 23 \<and> str_dec (take 2 (drop 10 s)) \<le> 59 \<and>
     str_dec (take 2 (drop 13 s)) \<le> 59"

definition isIsoDate :: "string \<Rightarrow> bool" where
  "isIsoDate s \<longleftrightarrow>
     (length s = 24 \<and> list_all is_digit (take 4 s) \<and> iso_tail (str_dec (take 4 s)) (drop 4 s)) \<or>
     (length s = 27 \<and> list_all is_digit (take 6 (drop 1 s)) \<and>
      (let year = str_dec (take 6 (drop 1 s)) in iso_tail year (drop 7 s) \<and>
        ((hd s = CHR ''+'' \<and> 10000 \<le> year \<and>
            (year < 275760 \<or> (year = 275760 \<and> drop 7 s \<le> ''-09-13T00:00:00.000Z''))) \<or>
         (hd s = CHR ''-'' \<and> 1 \<le> year \<and>
            (year < 271821 \<or> (year = 271821 \<and> ''-04-20T00:00:00.000Z'' \<le> drop 7 s))))))"

definition validateIntent :: "('a) write_intent_scheme \<Rightarrow> unit result" where
  "validateIntent i =
     (if w_operation i = [] \<or> w_network i = [] \<or> w_signerAddress i = []
      then Inl (ValidationError ''Write intent requires operation, network, signerAddress, and payload'')
      else if \<not> isPlainObject (w_payload i)
      then Inl (ValidationError ''Write intent payload must be an object'')
      else Inr ())"

definition validateIntentId :: "string \<Rightarrow> unit result" where
  "validateIntentId s =
     (if hex64 s then Inr () else Inl (ValidationError ''Invalid write intent identifier''))"

definition raw_ok :: "string \<Rightarrow> bool" where
  "raw_ok s \<longleftrightarrow> s \<noteq> [] \<and> list_all is_hex s \<and> even (length s)"

definition txid_ok :: "string \<Rightarrow> bool" where
  "txid_ok s \<longleftrightarrow> starts_with s ''0x'' \<and> length s = 66 \<and> list_all is_hex (drop 2 s)"

fun height_ok :: "jsnum \<Rightarrow> bool" where
  "height_ok (NInt n) = (0 < n \<and> n \<le> maxSafeInteger)"
| "height_ok _ = False"

definition validatePreparedTransaction :: "prepared_tx \<Rightarrow> unit result" where
  "validatePreparedTransaction p =
     (if \<not> raw_ok (p_rawTransaction p)
      then Inl (ValidationError ''Prepared transaction must be an even-length hexadecimal string'')
      else if \<not> txid_ok (p_txid p)
      then Inl (ValidationError ''Prepared transaction ID must be a 32-byte hash'')
      else if \<not> height_ok (p_validUntilBlock p)
      then Inl (ValidationError ''Prepared transaction validity height must be a positive integer'')
      else if p_metadata p \<noteq> JUndef \<and> \<not> isPlainObject (p_metadata p)
      then Inl (ValidationError ''Prepared transaction metadata must be a plain object'')
      else Inr ())"

section \<open>Records as JSON\<close>

definition intent_js :: "('a) write_intent_scheme \<Rightarrow> jsval" where
  "intent_js i = JObj [(''operation'', JStr (w_operation i)), (''network'', JStr (w_network i)),
     (''signerAddress'', JStr (w_signerAddress i)), (''payload'', w_payload i)]"

definition opt_member :: "string \<Rightarrow> ('a \<Rightarrow> jsval) \<Rightarrow> 'a option \<Rightarrow> jsobj" where
  "opt_member k f x = (case x of None \<Rightarrow> [] | Some a \<Rightarrow> [(k, f a)])"

definition record_js :: "write_record \<Rightarrow> jsobj" where
  "record_js r =
     [(''operation'', JStr (w_operation r)), (''network'', JStr (w_network r)),
      (''signerAddress'', JStr (w_signerAddress r)), (''payload'', w_payload r),
      (''intentId'', JStr (w_intentId r)), (''fingerprint'', JStr (w_fingerprint r)),
      (''state'', JStr (state_name (w_state r))), (''createdAt'', JStr (w_createdAt r)),
      (''updatedAt'', JStr (w_updatedAt r))]
     @ opt_member ''rawTransaction'' JStr (w_rawTransaction r)
     @ opt_member ''txid'' JStr (w_txid r)
     @ opt_member ''validUntilBlock'' (\<lambda>n. JNum (NInt n)) (w_validUntilBlock r)
     @ opt_member ''metadata'' JObj (w_metadata r)
     @ opt_member ''result'' JObj (w_result r)
     @ opt_member ''error'' JStr (w_error r)"

text \<open>Typed reads of a parsed object: \<open>None\<close> where the type check of the code fails.\<close>

definition get_str :: "jsobj \<Rightarrow> string \<Rightarrow> string option" where
  "get_str kvs k = (case oget kvs k of JStr s \<Rightarrow> Some s | _ \<Rightarrow> None)"

definition get_opt_str :: "jsobj \<Rightarrow> string \<Rightarrow> string option option" where
  "get_opt_str kvs k = (case oget kvs k of JUndef \<Rightarrow> Some None | JStr s \<Rightarrow> Some (Some s) | _ \<Rightarrow> None)"

definition get_opt_int :: "jsobj \<Rightarrow> string \<Rightarrow> int option option" where
  "get_opt_int kvs k = (case oget kvs k of JUndef \<Rightarrow> Some None | JNum (NInt n) \<Rightarrow> Some (Some n) | _ \<Rightarrow> None)"

definition get_opt_obj :: "jsobj \<Rightarrow> string \<Rightarrow> jsobj option option" where
  "get_opt_obj kvs k = (case oget kvs k of JUndef \<Rightarrow> Some None | JObj m \<Rightarrow> Some (Some m) | _ \<Rightarrow> None)"

definition parse_record :: "jsobj \<Rightarrow> write_record option" where
  "parse_record kvs =
     (case (get_str kvs ''operation'', get_str kvs ''network'', get_str kvs ''signerAddress'') of
        (Some op, Some net, Some signer) \<Rightarrow>
     (case (get_str kvs ''intentId'', get_str kvs ''fingerprint'',
            Option.bind (get_str kvs ''state'') parse_state) of
        (Some iid, Some fp, Some st) \<Rightarrow>
     (case (get_str kvs ''createdAt'', get_str kvs ''updatedAt'', get_opt_str kvs ''error'') of
        (Some ca, Some ua, Some err) \<Rightarrow>
     (case (get_opt_str kvs ''rawTransaction'', get_opt_str kvs ''txid'',
            get_opt_int kvs ''validUntilBlock'') of
        (Some raw, Some tx, Some vub) \<Rightarrow>
     (case (get_opt_obj kvs ''metadata'', get_opt_obj kvs ''result'') of
        (Some meta, Some res) \<Rightarrow>
          Some \<lparr> w_operation = op, w_network = net, w_signerAddress = signer,
                 w_payload = oget kvs ''payload'', w_intentId = iid, w_fingerprint = fp,
                 w_state = st, w_createdAt = ca, w_updatedAt = ua, w_rawTransaction = raw,
                 w_txid = tx, w_validUntilBlock = vub, w_metadata = meta, w_result = res,
                 w_error = err \<rparr>
      | _ \<Rightarrow> None) | _ \<Rightarrow> None) | _ \<Rightarrow> None) | _ \<Rightarrow> None) | _ \<Rightarrow> None)"

definition hasAnyPreparedField :: "write_record \<Rightarrow> bool" where
  "hasAnyPreparedField r \<longleftrightarrow> w_rawTransaction r \<noteq> None \<or> w_txid r \<noteq> None
     \<or> w_validUntilBlock r \<noteq> None \<or> w_metadata r \<noteq> None"

definition prepared_fields_ok :: "write_record \<Rightarrow> bool" where
  "prepared_fields_ok r \<longleftrightarrow>
     (case (w_rawTransaction r, w_txid r, w_validUntilBlock r) of
        (Some raw, Some tx, Some vub) \<Rightarrow> raw_ok raw \<and> txid_ok tx \<and> height_ok (NInt vub)
      | _ \<Rightarrow> False)"

definition prepared_states :: "write_state list" where
  "prepared_states = [Submitting, Outcome_unknown, Submitted, Rejected, Expired]"

definition fingerprint_of :: "(string \<Rightarrow> string) \<Rightarrow> ('a) write_intent_scheme \<Rightarrow> string result" where
  "fingerprint_of sha i = bindR (canonicalJson (intent_js i)) (\<lambda>t. Inr (sha (undef_text t)))"

definition valid_record :: "(string \<Rightarrow> string) \<Rightarrow> string \<Rightarrow> write_record \<Rightarrow> bool" where
  "valid_record sha iid r \<longleftrightarrow>
     validateIntent r = Inr ()
     \<and> w_intentId r = iid
     \<and> hex64 (w_fingerprint r)
     \<and> fingerprint_of sha r = Inr (w_fingerprint r)
     \<and> isIsoDate (w_createdAt r) \<and> isIsoDate (w_updatedAt r)
     \<and> (hasAnyPreparedField r \<longrightarrow> prepared_fields_ok r)
     \<and> (w_state r \<in> set prepared_states \<longrightarrow> hasAnyPreparedField r)
     \<and> (w_result r \<noteq> None \<longrightarrow> w_state r = Submitted)"

definition validatePersistedRecord :: "(string \<Rightarrow> string) \<Rightarrow> jsval \<Rightarrow> string \<Rightarrow> write_record result" where
  "validatePersistedRecord sha v iid =
     (case v of
        JObj kvs \<Rightarrow>
          (case parse_record kvs of
             Some r \<Rightarrow> if valid_record sha iid r then Inr r
                       else Inl (ValidationError ''Invalid persisted write intent: '')
           | None \<Rightarrow> Inl (ValidationError ''Invalid persisted write intent: ''))
      | _ \<Rightarrow> Inl (ValidationError ''Persisted write intent must be an object''))"

section \<open>The journal directory\<close>

text \<open>
  \<open>f_content\<close> is the parsed JSON of the file, \<open>None\<close> if its text is not JSON (a file whose
  first write was cut off by a crash).
\<close>

record jfile =
  f_regular :: bool
  f_ownerOnly :: bool
  f_content :: "jsval option"

type_synonym journal = "(string \<times> jfile) list"

text \<open>
  One outcome per durable write, in order: done; failed before it took effect; failed after
  (the fsync of the directory); or the process crashed before, in the middle of or after it.
\<close>

datatype io_outcome =
  Io_ok | Io_fail_early | Io_fail_late | Io_crash_early | Io_crash_partial | Io_crash_late

record world =
  journal :: journal
  io_script :: "io_outcome list"
  clock :: string

definition new_file :: "jsval option \<Rightarrow> jfile" where
  "new_file c = \<lparr> f_regular = True, f_ownerOnly = True, f_content = c \<rparr>"

definition put :: "string \<Rightarrow> jsval option \<Rightarrow> world \<Rightarrow> world" where
  "put iid c w = w\<lparr> journal := AList.update iid (new_file c) (journal w) \<rparr>"

definition next_io :: "world \<Rightarrow> io_outcome \<times> world" where
  "next_io w = (case io_script w of [] \<Rightarrow> (Io_ok, w) | x # xs \<Rightarrow> (x, w\<lparr> io_script := xs \<rparr>))"

definition io_error :: js_error where "io_error = GenericError ''I/O error''"

text \<open>\<open>read\<close>: the record of an intent, \<open>None\<close> if it has no file.\<close>

definition read_record :: "(string \<Rightarrow> string) \<Rightarrow> journal \<Rightarrow> string \<Rightarrow> write_record option result" where
  "read_record sha j iid =
     (if \<not> hex64 iid then Inl (ValidationError ''Invalid write intent identifier'')
      else case map_of j iid of
        None \<Rightarrow> Inr None
      | Some f \<Rightarrow>
          if \<not> f_regular f
          then Inl (ValidationError ''Persisted write intent must be a regular file, not a symlink'')
          else if \<not> f_ownerOnly f
          then Inl (ValidationError ''Persisted write intent file permissions are too broad'')
          else case f_content f of
            None \<Rightarrow> Inl (ValidationError ''Invalid persisted write intent JSON: '')
          | Some v \<Rightarrow> bindR (validatePersistedRecord sha v iid) (\<lambda>r. Inr (Some r)))"

text \<open>\<open>create\<close>: an exclusive create; a failure before the file is synced removes it again.\<close>

definition create :: "write_record \<Rightarrow> (world, unit) act" where
  "create r = (\<lambda>w.
     if map_of (journal w) (w_intentId r) \<noteq> None then (Throw (GenericError ''EEXIST''), w)
     else case jsonRoundTrip (JObj (record_js r)) of
       Inl e \<Rightarrow> (Throw e, w)
     | Inr c \<Rightarrow>
         (case next_io w of (io, w1) \<Rightarrow>
           (case io of
              Io_ok \<Rightarrow> (Ret (), put (w_intentId r) c w1)
            | Io_fail_early \<Rightarrow> (Throw io_error, w1)
            | Io_fail_late \<Rightarrow> (Throw io_error, put (w_intentId r) c w1)
            | Io_crash_early \<Rightarrow> (Crash, w1)
            | Io_crash_partial \<Rightarrow> (Crash, put (w_intentId r) None w1)
            | Io_crash_late \<Rightarrow> (Crash, put (w_intentId r) c w1))))"

text \<open>
  \<open>update\<close>: the changed record goes to a temporary file that is renamed over the old one,
  so a reader sees the old file or the new one.
\<close>

definition update_record :: "write_record \<Rightarrow> (write_record \<Rightarrow> write_record) \<Rightarrow> (world, write_record) act" where
  "update_record r changes = (\<lambda>w.
     let updated = (changes r)\<lparr> w_updatedAt := clock w \<rparr> in
     case jsonRoundTrip (JObj (record_js updated)) of
       Inl e \<Rightarrow> (Throw e, w)
     | Inr c \<Rightarrow>
         (case next_io w of (io, w1) \<Rightarrow>
           (case io of
              Io_ok \<Rightarrow> (Ret updated, put (w_intentId r) c w1)
            | Io_fail_early \<Rightarrow> (Throw io_error, w1)
            | Io_fail_late \<Rightarrow> (Throw io_error, put (w_intentId r) c w1)
            | Io_crash_early \<Rightarrow> (Crash, w1)
            | Io_crash_partial \<Rightarrow> (Crash, w1)
            | Io_crash_late \<Rightarrow> (Crash, put (w_intentId r) c w1))))"

section \<open>Operations\<close>

definition idempotency_char :: "char \<Rightarrow> bool" where
  "idempotency_char c \<longleftrightarrow> is_alnum c \<or> c \<in> set ''._:-''"

definition idempotency_key_ok :: "string \<Rightarrow> bool" where
  "idempotency_key_ok k \<longleftrightarrow> 8 \<le> length k \<and> length k \<le> 128 \<and> list_all idempotency_char k"

definition utf8_length :: "string \<Rightarrow> nat" where
  "utf8_length s = sum_list (map (\<lambda>c. if cc c < 128 then 1 else 2) s)"

definition fresh_record :: "(string \<Rightarrow> string) \<Rightarrow> string \<Rightarrow> write_intent \<Rightarrow> string \<Rightarrow> string \<Rightarrow> write_record" where
  "fresh_record sha key i text now =
     \<lparr> w_operation = w_operation i, w_network = w_network i, w_signerAddress = w_signerAddress i,
       w_payload = w_payload i, w_intentId = sha key, w_fingerprint = sha text,
       w_state = Awaiting_approval, w_createdAt = now, w_updatedAt = now,
       w_rawTransaction = None, w_txid = None, w_validUntilBlock = None, w_metadata = None,
       w_result = None, w_error = None \<rparr>"

definition reserve :: "(string \<Rightarrow> string) \<Rightarrow> string \<Rightarrow> write_intent \<Rightarrow> (world, write_record) act" where
  "reserve sha key i =
     (if \<not> idempotency_key_ok key
      then throwA (ValidationError ''Idempotency key must contain 8-128 letters, numbers, periods, underscores, colons, or hyphens'')
      else bindA (liftA (validateIntent i)) (\<lambda>_.
      bindA (liftA (canonicalJson (intent_js i))) (\<lambda>t.
      if utf8_length (undef_text t) > MAX_WRITE_INTENT_BYTES
      then throwA (ValidationError ''Write intent is too large'')
      else bindA (readA (\<lambda>w. read_record sha (journal w) (sha key))) (\<lambda>existing.
      case existing of
        Some r \<Rightarrow>
          if w_fingerprint r \<noteq> sha (undef_text t)
          then throwA (ValidationError ''Idempotency key is already bound to a different request'')
          else retA r
      | None \<Rightarrow>
          bindA (readA Inr) (\<lambda>w.
          if length (journal w) \<ge> MAX_WRITE_INTENT_RECORDS
          then throwA (ValidationError ''Write intent journal quota reached ('')
          else let r = fresh_record sha key i (undef_text t) (clock w) in
               bindA (create r) (\<lambda>_. retA r))))))"

definition getById :: "(string \<Rightarrow> string) \<Rightarrow> string \<Rightarrow> (world, write_record) act" where
  "getById sha iid =
     bindA (liftA (validateIntentId iid)) (\<lambda>_.
     bindA (readA (\<lambda>w. read_record sha (journal w) iid)) (\<lambda>r.
     case r of None \<Rightarrow> throwA (ValidationError ''Write intent not found'') | Some r \<Rightarrow> retA r))"

definition approve :: "(string \<Rightarrow> string) \<Rightarrow> string \<Rightarrow> string \<Rightarrow> (world, write_record) act" where
  "approve sha iid fingerprint =
     bindA (getById sha iid) (\<lambda>r.
     if w_fingerprint r \<noteq> fingerprint
     then throwA (ValidationError ''Write intent fingerprint does not match'')
     else if w_state r \<in> {Approved, Preparing, Submitting, Outcome_unknown, Submitted} then retA r
     else if w_state r \<noteq> Awaiting_approval
     then throwA (ValidationError ''Write intent cannot be approved from state '')
     else update_record r (\<lambda>r. r\<lparr> w_state := Approved \<rparr>))"

definition decline :: "(string \<Rightarrow> string) \<Rightarrow> string \<Rightarrow> (world, write_record) act" where
  "decline sha iid =
     bindA (getById sha iid) (\<lambda>r.
     if w_state r \<noteq> Awaiting_approval
     then throwA (ValidationError ''Write intent cannot be declined from state '')
     else update_record r (\<lambda>r. r\<lparr> w_state := Declined \<rparr>))"

definition markPreparing :: "(string \<Rightarrow> string) \<Rightarrow> string \<Rightarrow> (world, write_record) act" where
  "markPreparing sha iid =
     bindA (getById sha iid) (\<lambda>r.
     if w_state r \<noteq> Approved \<and> w_state r \<noteq> Preparing
     then throwA (ValidationError ''Write intent cannot be prepared from state '')
     else if w_state r = Preparing then retA r
     else update_record r (\<lambda>r. r\<lparr> w_state := Preparing \<rparr>))"

fun prepared_height :: "jsnum \<Rightarrow> int option" where
  "prepared_height (NInt n) = Some n"
| "prepared_height _ = None"

fun prepared_metadata :: "jsobj option \<Rightarrow> jsval \<Rightarrow> jsobj option" where
  "prepared_metadata old (JObj m) = Some m"
| "prepared_metadata old _ = old"

text \<open>\<open>{ ...prepared, state: 'submitting' }\<close>\<close>

definition spread_prepared :: "prepared_tx \<Rightarrow> write_record \<Rightarrow> write_record" where
  "spread_prepared p r = r\<lparr> w_rawTransaction := Some (p_rawTransaction p), w_txid := Some (p_txid p),
     w_validUntilBlock := prepared_height (p_validUntilBlock p),
     w_metadata := prepared_metadata (w_metadata r) (p_metadata p), w_state := Submitting \<rparr>"

definition recordPrepared :: "(string \<Rightarrow> string) \<Rightarrow> string \<Rightarrow> prepared_tx \<Rightarrow> (world, write_record) act" where
  "recordPrepared sha iid p =
     bindA (getById sha iid) (\<lambda>r.
     if w_state r \<notin> {Approved, Preparing}
     then throwA (ValidationError ''Prepared transaction cannot be recorded from state '')
     else bindA (liftA (validatePreparedTransaction p)) (\<lambda>_.
     update_record r (spread_prepared p)))"

text \<open>\<open>!record.rawTransaction || !record.txid\<close>\<close>

definition falsy_str :: "string option \<Rightarrow> bool" where
  "falsy_str s \<longleftrightarrow> s = None \<or> s = Some []"

definition unprepared :: "write_record \<Rightarrow> bool" where
  "unprepared r \<longleftrightarrow> falsy_str (w_rawTransaction r) \<or> falsy_str (w_txid r)"

definition markOutcomeUnknown :: "(string \<Rightarrow> string) \<Rightarrow> string \<Rightarrow> string \<Rightarrow> (world, write_record) act" where
  "markOutcomeUnknown sha iid err =
     bindA (getById sha iid) (\<lambda>r.
     if unprepared r
     then throwA (ValidationError ''Cannot mark an unprepared write intent as outcome unknown'')
     else update_record r (\<lambda>r. r\<lparr> w_state := Outcome_unknown, w_error := Some err \<rparr>))"

definition markRejected :: "(string \<Rightarrow> string) \<Rightarrow> string \<Rightarrow> string \<Rightarrow> (world, write_record) act" where
  "markRejected sha iid err =
     bindA (getById sha iid) (\<lambda>r.
     if unprepared r
     then throwA (ValidationError ''Cannot reject an unprepared write intent during submission'')
     else update_record r (\<lambda>r. r\<lparr> w_state := Rejected, w_error := Some err \<rparr>))"

definition markBroadcastSucceeded :: "(string \<Rightarrow> string) \<Rightarrow> string \<Rightarrow> (world, write_record) act" where
  "markBroadcastSucceeded sha iid =
     bindA (getById sha iid) (\<lambda>r.
     if unprepared r
     then throwA (ValidationError ''Cannot submit an unprepared write intent'')
     else update_record r (\<lambda>r. r\<lparr> w_state := Submitted, w_error := None \<rparr>))"

definition complete :: "(string \<Rightarrow> string) \<Rightarrow> string \<Rightarrow> jsobj \<Rightarrow> (world, write_record) act" where
  "complete sha iid res =
     bindA (getById sha iid) (\<lambda>r.
     if w_state r \<noteq> Submitted
     then throwA (ValidationError ''Write intent cannot complete from state '')
     else update_record r (\<lambda>r. r\<lparr> w_result := Some res \<rparr>))"

definition failBeforeSubmission :: "(string \<Rightarrow> string) \<Rightarrow> string \<Rightarrow> string \<Rightarrow> (world, write_record) act" where
  "failBeforeSubmission sha iid err =
     bindA (getById sha iid) (\<lambda>r.
     if \<not> falsy_str (w_rawTransaction r)
     then throwA (ValidationError ''A prepared transaction cannot fail before submission'')
     else update_record r (\<lambda>r. r\<lparr> w_state := Failed_before_submission, w_error := Some err \<rparr>))"

end
