(* ===== verification/WriteRecords.thy ===== *)
theory WriteRecords
  imports WriteOperations
begin

text \<open>
  Facts about journal records: a record is read back as it was written
  (\<open>validate_record_js\<close>), and what a durable write does to the journal. The interface
  \<open>record_store\<close> states the laws the execution proofs rest on; the journal directory of
  WriteOperations provides them.
\<close>

section \<open>Reading back a written record\<close>

lemma oget_opt_member [simp]:
  "oget (opt_member k f x @ kvs) k' =
     (if k = k' then (case x of None \<Rightarrow> oget kvs k' | Some a \<Rightarrow> f a) else oget kvs k')"
  by (auto simp: opt_member_def split: option.splits)

lemma oget_opt_member_last [simp]:
  "oget (opt_member k f x) k' = (if k = k' then (case x of None \<Rightarrow> JUndef | Some a \<Rightarrow> f a) else JUndef)"
  using oget_opt_member [of k f x "[]" k'] by (simp split: option.splits)

lemma record_js_strings:
  "get_str (record_js r) ''operation'' = Some (w_operation r)"
  "get_str (record_js r) ''network'' = Some (w_network r)"
  "get_str (record_js r) ''signerAddress'' = Some (w_signerAddress r)"
  "oget (record_js r) ''payload'' = w_payload r"
  "get_str (record_js r) ''intentId'' = Some (w_intentId r)"
  "get_str (record_js r) ''fingerprint'' = Some (w_fingerprint r)"
  "get_str (record_js r) ''state'' = Some (state_name (w_state r))"
  "get_str (record_js r) ''createdAt'' = Some (w_createdAt r)"
  "get_str (record_js r) ''updatedAt'' = Some (w_updatedAt r)"
  by (simp_all add: record_js_def get_str_def)

lemma record_js_options:
  "get_opt_str (record_js r) ''rawTransaction'' = Some (w_rawTransaction r)"
  "get_opt_str (record_js r) ''txid'' = Some (w_txid r)"
  "get_opt_int (record_js r) ''validUntilBlock'' = Some (w_validUntilBlock r)"
  "get_opt_obj (record_js r) ''metadata'' = Some (w_metadata r)"
  "get_opt_obj (record_js r) ''result'' = Some (w_result r)"
  "get_opt_str (record_js r) ''error'' = Some (w_error r)"
  by (simp_all add: record_js_def get_opt_str_def get_opt_int_def get_opt_obj_def split: option.splits)

lemma parse_record_js: "parse_record (record_js r) = Some r"
  by (simp add: parse_record_def record_js_strings record_js_options)

lemma validate_record_js:
  "validatePersistedRecord sha (JObj (record_js r)) iid =
     (if valid_record sha iid r then Inr r else Inl (ValidationError ''Invalid persisted write intent: ''))"
  by (simp add: validatePersistedRecord_def parse_record_js)

text \<open>A record all of whose values have a JSON text.\<close>

definition record_clean :: "write_record \<Rightarrow> bool" where
  "record_clean r \<longleftrightarrow> json_clean (w_payload r)
     \<and> (\<forall>n. w_validUntilBlock r = Some n \<longrightarrow> \<bar>n\<bar> < 10 ^ 21)
     \<and> (\<forall>m. w_metadata r = Some m \<longrightarrow> json_clean (JObj m))
     \<and> (\<forall>m. w_result r = Some m \<longrightarrow> json_clean (JObj m))"

lemma opt_member_keys [simp]: "fst ` set (opt_member k f x) = (if x = None then {} else {k})"
  by (auto simp: opt_member_def split: option.splits)

lemma opt_member_distinct [simp]: "distinct (map fst (opt_member k f x))"
  by (auto simp: opt_member_def split: option.splits)

lemma opt_member_all [simp]: "list_all P (opt_member k f x) \<longleftrightarrow> (\<forall>a. x = Some a \<longrightarrow> P (k, f a))"
  by (auto simp: opt_member_def split: option.splits)

lemma record_js_distinct: "distinct (map fst (record_js r))"
  by (simp add: record_js_def)

lemma json_clean_record_js: "json_clean (JObj (record_js r)) \<longleftrightarrow> record_clean r"
  using record_js_distinct [of r] by (simp add: record_js_def record_clean_def)

lemma roundtrip_record_js:
  "record_clean r \<Longrightarrow> jsonRoundTrip (JObj (record_js r)) = Inr (Some (JObj (record_js r)))"
  by (rule jsonRoundTrip_clean) (simp only: json_clean_record_js)

section \<open>The journal\<close>

definition clean_journal :: "journal \<Rightarrow> bool" where
  "clean_journal j \<longleftrightarrow> distinct (map fst j) \<and>
     (\<forall>iid f v. map_of j iid = Some f \<longrightarrow> f_content f = Some v \<longrightarrow> json_clean v)"

definition save_record :: "string \<Rightarrow> write_record \<Rightarrow> journal \<Rightarrow> journal" where
  "save_record iid r j = AList.update iid (new_file (Some (JObj (record_js r)))) j"

definition storable :: "(string \<Rightarrow> string) \<Rightarrow> string \<Rightarrow> write_record \<Rightarrow> bool" where
  "storable sha iid r \<longleftrightarrow> hex64 iid \<and> valid_record sha iid r \<and> record_clean r"

lemma read_save_same: "storable sha iid r \<Longrightarrow> read_record sha (save_record iid r j) iid = Inr (Some r)"
  by (simp add: read_record_def save_record_def storable_def new_file_def update_conv' validate_record_js)

lemma read_save_other: "iid' \<noteq> iid \<Longrightarrow> read_record sha (save_record iid r j) iid' = read_record sha j iid'"
  by (simp add: read_record_def save_record_def update_conv')

lemma clean_save: "clean_journal j \<Longrightarrow> record_clean r \<Longrightarrow> clean_journal (save_record iid r j)"
  by (auto simp: clean_journal_def save_record_def update_conv' new_file_def distinct_update
      json_clean_record_js split: if_splits simp del: json_clean.simps)

lemma read_record_SomeD:
  assumes "read_record sha j iid = Inr (Some r)"
  shows "hex64 iid" "valid_record sha iid r"
    "\<exists>f kvs. map_of j iid = Some f \<and> f_content f = Some (JObj kvs) \<and> parse_record kvs = Some r"
  using assms
  by (auto simp: read_record_def validatePersistedRecord_def result_simps split: if_splits option.splits jsval.splits)

lemma oget_clean: "json_clean (JObj kvs) \<Longrightarrow> oget kvs k = v \<Longrightarrow> v \<noteq> JUndef \<Longrightarrow> json_clean v"
  by (auto simp: oget_def list_all_iff split: option.splits dest!: map_of_SomeD)

lemma get_opt_obj_clean:
  "get_opt_obj kvs k = Some (Some m) \<Longrightarrow> json_clean (JObj kvs) \<Longrightarrow> json_clean (JObj m)"
  using oget_clean [of kvs k "JObj m"]
  by (auto simp: get_opt_obj_def split: jsval.splits simp del: json_clean.simps)

lemma get_opt_int_clean:
  "get_opt_int kvs k = Some (Some n) \<Longrightarrow> json_clean (JObj kvs) \<Longrightarrow> \<bar>n\<bar> < 10 ^ 21"
  using oget_clean [of kvs k "JNum (NInt n)"]
  by (auto simp: get_opt_int_def split: jsval.splits jsnum.splits)

lemma parse_record_clean:
  assumes "parse_record kvs = Some r" "json_clean (JObj kvs)" "isPlainObject (w_payload r)"
  shows "record_clean r"
proof -
  from assms(1) have "w_payload r = oget kvs ''payload''"
    and "get_opt_int kvs ''validUntilBlock'' = Some (w_validUntilBlock r)"
    and "get_opt_obj kvs ''metadata'' = Some (w_metadata r)"
    and "get_opt_obj kvs ''result'' = Some (w_result r)"
    by (auto simp: parse_record_def split: option.splits)
  moreover from this(1) assms(3) have "oget kvs ''payload'' \<noteq> JUndef" by auto
  ultimately show ?thesis
    using assms(2) unfolding record_clean_def
    by (metis get_opt_int_clean get_opt_obj_clean oget_clean)
qed

lemma read_record_clean:
  assumes "clean_journal j" "read_record sha j iid = Inr (Some r)"
  shows "record_clean r"
proof -
  from read_record_SomeD [OF assms(2)] obtain f kvs
    where f: "map_of j iid = Some f" "f_content f = Some (JObj kvs)" and p: "parse_record kvs = Some r"
      and v: "valid_record sha iid r" by blast
  from assms(1) f have "json_clean (JObj kvs)" unfolding clean_journal_def by blast
  moreover from v have "isPlainObject (w_payload r)"
    by (auto simp: valid_record_def validateIntent_def split: if_splits)
  ultimately show ?thesis using p parse_record_clean by blast
qed

lemma read_record_storable:
  "clean_journal j \<Longrightarrow> read_record sha j iid = Inr (Some r) \<Longrightarrow> storable sha iid r \<and> w_intentId r = iid"
  using read_record_SomeD [of sha j iid r] read_record_clean [of j sha iid r]
  by (auto simp: storable_def valid_record_def)

section \<open>What a durable write does\<close>

lemma next_io_journal [simp]: "next_io w = (io, w') \<Longrightarrow> journal w' = journal w \<and> clock w' = clock w"
  by (auto simp: next_io_def split: list.splits)

lemma put_fields [simp]: "clock (put iid c w) = clock w" "io_script (put iid c w) = io_script w"
  by (simp_all add: put_def)

lemma put_saves: "journal (put iid (Some (JObj (record_js r))) w) = save_record iid r (journal w)"
  by (simp add: put_def save_record_def)

text \<open>
  A rewrite of a record with a storable one leaves either the old or the new record; it
  returns normally only with the new one in place.
\<close>

lemma update_record_cases:
  assumes "update_record r changes w = (out, w')"
    and "storable sha (w_intentId r) ((changes r)\<lparr> w_updatedAt := clock w \<rparr>)"
  obtains (saved) "journal w' = save_record (w_intentId r) ((changes r)\<lparr> w_updatedAt := clock w \<rparr>) (journal w)"
      "out = Ret ((changes r)\<lparr> w_updatedAt := clock w \<rparr>) \<or> out = Throw io_error \<or> out = Crash"
      "clock w' = clock w"
  | (lost) "journal w' = journal w" "out = Throw io_error \<or> out = Crash" "clock w' = clock w"
proof -
  let ?r1 = "(changes r)\<lparr> w_updatedAt := clock w \<rparr>"
  have rt: "jsonRoundTrip (JObj (record_js ?r1)) = Inr (Some (JObj (record_js ?r1)))"
    using assms(2) by (intro roundtrip_record_js) (simp add: storable_def)
  obtain io w1 where io: "next_io w = (io, w1)" by (cases "next_io w")
  show thesis
    using assms(1) io rt put_saves [of "w_intentId r" ?r1 w1]
    by (cases io) (auto simp: update_record_def Let_def intro: saved lost simp del: jsonRoundTrip.simps)
qed

lemma getById_eq:
  "getById sha iid w =
     (case read_record sha (journal w) iid of
        Inl e \<Rightarrow> (Throw e, w)
      | Inr None \<Rightarrow> (Throw (ValidationError ''Write intent not found''), w)
      | Inr (Some r) \<Rightarrow> (Ret r, w))"
  by (auto simp: getById_def validateIntentId_def read_record_def act_simps split: sum.splits option.splits)

lemma getById_Some: "read_record sha (journal w) iid = Inr (Some r) \<Longrightarrow> getById sha iid w = (Ret r, w)"
  by (simp add: getById_eq)

lemma getById_Ret: "getById sha iid w = (Ret r, w') \<longleftrightarrow> w' = w \<and> read_record sha (journal w) iid = Inr (Some r)"
  by (auto simp: getById_eq split: sum.splits option.splits)

section \<open>The store interface\<close>

text \<open>
  What the proofs about executions assume of the journal: a saved record is what the next
  read finds, other intents are not affected, and a readable record can be saved again.
\<close>

locale record_store =
  fixes lookup :: "'j \<Rightarrow> string \<Rightarrow> write_record option result"
    and save :: "string \<Rightarrow> write_record \<Rightarrow> 'j \<Rightarrow> 'j"
    and storable_at :: "string \<Rightarrow> write_record \<Rightarrow> bool"
    and inv :: "'j \<Rightarrow> bool"
  assumes lookup_save_same: "storable_at i r \<Longrightarrow> lookup (save i r j) i = Inr (Some r)"
    and lookup_save_other: "i' \<noteq> i \<Longrightarrow> lookup (save i r j) i' = lookup j i'"
    and inv_save: "inv j \<Longrightarrow> storable_at i r \<Longrightarrow> inv (save i r j)"
    and lookup_storable: "inv j \<Longrightarrow> lookup j i = Inr (Some r) \<Longrightarrow> storable_at i r"
begin

text \<open>
  One intent's record moves by a relation \<open>T\<close>: the journal is unchanged, or the record
  found is replaced by a storable \<open>T\<close>-successor.
\<close>

definition moves :: "(write_record \<Rightarrow> write_record \<Rightarrow> bool) \<Rightarrow> string \<Rightarrow> 'j \<Rightarrow> 'j \<Rightarrow> bool" where
  "moves T i j j' \<longleftrightarrow>
     (\<exists>r r'. lookup j i = Inr (Some r) \<and> T r r' \<and> storable_at i r' \<and> j' = save i r' j)"

lemma moves_inv: "moves T i j j' \<Longrightarrow> inv j \<Longrightarrow> inv j'"
  by (auto simp: moves_def inv_save)

lemma moves_other: "moves T i j j' \<Longrightarrow> i' \<noteq> i \<Longrightarrow> lookup j' i' = lookup j i'"
  by (auto simp: moves_def lookup_save_other)

lemma moves_same:
  "moves T i j j' \<Longrightarrow> \<exists>r r'. lookup j i = Inr (Some r) \<and> T r r' \<and> lookup j' i = Inr (Some r')"
  by (auto simp: moves_def lookup_save_same)

lemma moves_star_inv: "(moves T i)\<^sup>*\<^sup>* j j' \<Longrightarrow> inv j \<Longrightarrow> inv j'"
  by (induction rule: rtranclp_induct) (auto intro: moves_inv)

lemma moves_star_other: "(moves T i)\<^sup>*\<^sup>* j j' \<Longrightarrow> i' \<noteq> i \<Longrightarrow> lookup j' i' = lookup j i'"
  by (induction rule: rtranclp_induct) (auto simp: moves_other)

lemma moves_star_same:
  assumes "(moves T i)\<^sup>*\<^sup>* j j'"
  shows "lookup j' i = lookup j i \<or>
    (\<exists>r r'. lookup j i = Inr (Some r) \<and> lookup j' i = Inr (Some r') \<and> T\<^sup>+\<^sup>+ r r')"
  using assms
proof (induction rule: rtranclp_induct)
  case base
  then show ?case by simp
next
  case (step j1 j2)
  from moves_same [OF step.hyps(2)] obtain r r'
    where rr: "lookup j1 i = Inr (Some r)" "T r r'" "lookup j2 i = Inr (Some r')" by blast
  from step.IH show ?case
  proof
    assume "lookup j1 i = lookup j i"
    with rr show ?thesis by (metis tranclp.r_into_trancl)
  next
    assume "\<exists>r r'. lookup j i = Inr (Some r) \<and> lookup j1 i = Inr (Some r') \<and> T\<^sup>+\<^sup>+ r r'"
    with rr show ?thesis by (auto intro: tranclp.trancl_into_trancl)
  qed
qed

lemma move_once:
  "lookup j i = Inr (Some r) \<Longrightarrow> T r r' \<Longrightarrow> storable_at i r' \<Longrightarrow> (moves T i)\<^sup>*\<^sup>* j (save i r' j)"
  by (rule r_into_rtranclp) (auto simp: moves_def)

end

interpretation store: record_store "read_record sha" save_record "storable sha" clean_journal for sha
proof unfold_locales
  show "storable sha i r \<Longrightarrow> read_record sha (save_record i r j) i = Inr (Some r)" for i r j
    by (rule read_save_same)
  show "i' \<noteq> i \<Longrightarrow> read_record sha (save_record i r j) i' = read_record sha j i'" for i i' r j
    by (rule read_save_other)
  show "clean_journal j \<Longrightarrow> storable sha i r \<Longrightarrow> clean_journal (save_record i r j)" for i r j
    by (rule clean_save) (simp_all add: storable_def)
  show "clean_journal j \<Longrightarrow> read_record sha j i = Inr (Some r) \<Longrightarrow> storable sha i r" for i r j
    using read_record_storable by blast
qed

end
