(* ===== verification/WriteExecution.thy ===== *)
theory WriteExecution
  imports WriteRecords
begin

text \<open>
  \<open>WriteOperationService.execute\<close>. The async function is cut at its awaits: each segment
  runs to the next awaited callback without interruption and says which callback it waits
  for (\<open>Suspend\<close>), or ends (\<open>Finished\<close>, or a thrown error). \<open>execute\<close> composes the
  segments with the callbacks' answers, as one uninterrupted call runs them.
\<close>

datatype exec_pc =
    Await_prepare
  | Await_reconcile prepared_tx
  | Await_expired prepared_tx
  | Await_submit prepared_tx

datatype exec_next = Suspend exec_pc | Finished jsobj

definition meta_js :: "jsobj option \<Rightarrow> jsval" where
  "meta_js m = (case m of None \<Rightarrow> JUndef | Some kvs \<Rightarrow> JObj kvs)"

text \<open>The \<open>PreparedTransaction\<close> rebuilt from the record.\<close>

definition prepared_of :: "write_record \<Rightarrow> prepared_tx" where
  "prepared_of r = \<lparr> p_rawTransaction = the (w_rawTransaction r), p_txid = the (w_txid r),
     p_validUntilBlock = NInt (the (w_validUntilBlock r)), p_metadata = meta_js (w_metadata r) \<rparr>"

definition needs_preparation :: "write_record \<Rightarrow> bool" where
  "needs_preparation r \<longleftrightarrow> falsy_str (w_rawTransaction r) \<or> falsy_str (w_txid r)
     \<or> w_validUntilBlock r = None \<or> w_validUntilBlock r = Some 0"

definition exec_continue :: "write_record \<Rightarrow> bool \<Rightarrow> (world, exec_next) act" where
  "exec_continue r preparedThisExecution =
     retA (Suspend
       (if \<not> preparedThisExecution \<and> (w_state r = Outcome_unknown \<or> w_state r = Submitting)
        then Await_reconcile (prepared_of r) else Await_submit (prepared_of r)))"

definition fail_preparation :: "(string \<Rightarrow> string) \<Rightarrow> string \<Rightarrow> js_error \<Rightarrow> (world, 'a) act" where
  "fail_preparation sha iid e =
     bindA (failBeforeSubmission sha iid (error_message e)) (\<lambda>_. throwA e)"

definition terminal_error :: "write_record \<Rightarrow> js_error" where
  "terminal_error r = ValidationError
     (if falsy_str (w_error r) then ''Write intent is terminal in state '' else the (w_error r))"

definition exec_start :: "(string \<Rightarrow> string) \<Rightarrow> (string \<Rightarrow> jsval \<Rightarrow> jsobj) \<Rightarrow> string \<Rightarrow> (world, exec_next) act" where
  "exec_start sha build iid =
     bindA (getById sha iid) (\<lambda>r.
     if w_state r = Submitted \<and> w_result r \<noteq> None then retA (Finished (the (w_result r)))
     else if w_state r = Submitted
     then let res = build (the (w_txid r)) (meta_js (w_metadata r)) in
          bindA (complete sha iid res) (\<lambda>_. retA (Finished res))
     else if w_state r \<in> {Declined, Expired, Rejected, Failed_before_submission}
     then throwA (terminal_error r)
     else if w_state r = Awaiting_approval
     then throwA (ValidationError ''Write intent has not been approved'')
     else if needs_preparation r
     then catchA (bindA (markPreparing sha iid) (\<lambda>_. retA (Suspend Await_prepare)))
            (fail_preparation sha iid)
     else exec_continue r False)"

definition exec_on_prepared :: "(string \<Rightarrow> string) \<Rightarrow> string \<Rightarrow> prepared_tx result \<Rightarrow> (world, exec_next) act" where
  "exec_on_prepared sha iid answer =
     bindA (catchA (bindA (liftA answer) (recordPrepared sha iid)) (fail_preparation sha iid))
       (\<lambda>r. exec_continue r True)"

definition exec_finish :: "(string \<Rightarrow> string) \<Rightarrow> (string \<Rightarrow> jsval \<Rightarrow> jsobj) \<Rightarrow> string \<Rightarrow> prepared_tx \<Rightarrow> (world, exec_next) act" where
  "exec_finish sha build iid p =
     bindA (markBroadcastSucceeded sha iid) (\<lambda>_.
     let res = build (p_txid p) (p_metadata p) in
     bindA (complete sha iid res) (\<lambda>_. retA (Finished res)))"

definition exec_on_reconciled :: "(string \<Rightarrow> string) \<Rightarrow> (string \<Rightarrow> jsval \<Rightarrow> jsobj) \<Rightarrow> string \<Rightarrow> prepared_tx \<Rightarrow> bool result \<Rightarrow> (world, exec_next) act" where
  "exec_on_reconciled sha build iid p answer =
     bindA (liftA answer) (\<lambda>found.
     if found then exec_finish sha build iid p else retA (Suspend (Await_expired p)))"

definition exec_on_expired :: "(string \<Rightarrow> string) \<Rightarrow> string \<Rightarrow> prepared_tx \<Rightarrow> bool result \<Rightarrow> (world, exec_next) act" where
  "exec_on_expired sha iid p answer =
     bindA (liftA answer) (\<lambda>expired.
     if expired
     then bindA (getById sha iid) (\<lambda>r.
          bindA (update_record r (\<lambda>r. r\<lparr> w_state := Expired,
                   w_error := Some ''Prepared transaction expired before it could be observed on-chain'' \<rparr>))
            (\<lambda>_. throwA (ValidationError ''Prepared transaction expired; use a new idempotency key'')))
     else retA (Suspend (Await_submit p)))"

fun submission_unknown :: "js_error \<Rightarrow> bool" where
  "submission_unknown (SubmissionOutcomeUnknownError t) = True"
| "submission_unknown _ = False"

definition settle_failure :: "(string \<Rightarrow> string) \<Rightarrow> string \<Rightarrow> js_error \<Rightarrow> (world, 'a) act" where
  "settle_failure sha iid e =
     bindA (if submission_unknown e then markOutcomeUnknown sha iid (error_message e)
            else markRejected sha iid (error_message e))
       (\<lambda>_. throwA e)"

definition exec_on_submitted :: "(string \<Rightarrow> string) \<Rightarrow> (string \<Rightarrow> jsval \<Rightarrow> jsobj) \<Rightarrow> string \<Rightarrow> prepared_tx \<Rightarrow> string result \<Rightarrow> (world, exec_next) act" where
  "exec_on_submitted sha build iid p answer =
     bindA (catchA
              (bindA (liftA answer) (\<lambda>submittedTxid.
               if to_lower submittedTxid \<noteq> to_lower (p_txid p)
               then throwA (SubmissionOutcomeUnknownError (p_txid p)) else retA ()))
              (settle_failure sha iid))
       (\<lambda>_. exec_finish sha build iid p)"

section \<open>One uninterrupted execution\<close>

record callbacks =
  cb_prepare :: "prepared_tx result"
  cb_submit :: "prepared_tx \<Rightarrow> string result"
  cb_reconcile :: "string \<Rightarrow> bool result"
  cb_isExpired :: "jsnum \<Rightarrow> bool result"
  cb_buildResult :: "string \<Rightarrow> jsval \<Rightarrow> jsobj"

fun pc_rank :: "exec_next \<Rightarrow> nat" where
  "pc_rank (Suspend Await_prepare) = 2"
| "pc_rank (Suspend (Await_reconcile p)) = 3"
| "pc_rank (Suspend (Await_expired p)) = 2"
| "pc_rank (Suspend (Await_submit p)) = 1"
| "pc_rank (Finished res) = 0"

text \<open>One resumption: the awaited callback answers and the next segment runs.\<close>

fun exec_resume :: "(string \<Rightarrow> string) \<Rightarrow> callbacks \<Rightarrow> string \<Rightarrow> exec_pc \<Rightarrow> (world, exec_next) act" where
  "exec_resume sha cb iid Await_prepare = exec_on_prepared sha iid (cb_prepare cb)"
| "exec_resume sha cb iid (Await_reconcile p) =
     exec_on_reconciled sha (cb_buildResult cb) iid p (cb_reconcile cb (p_txid p))"
| "exec_resume sha cb iid (Await_expired p) =
     exec_on_expired sha iid p (cb_isExpired cb (p_validUntilBlock p))"
| "exec_resume sha cb iid (Await_submit p) =
     exec_on_submitted sha (cb_buildResult cb) iid p (cb_submit cb p)"

text \<open>At most three resumptions: reconcile, expiry, submission.\<close>

fun exec_drive :: "nat \<Rightarrow> (string \<Rightarrow> string) \<Rightarrow> callbacks \<Rightarrow> string \<Rightarrow> exec_next \<Rightarrow> (world, exec_next) act" where
  "exec_drive n sha cb iid (Finished res) = retA (Finished res)"
| "exec_drive 0 sha cb iid (Suspend pc) = retA (Suspend pc)"
| "exec_drive (Suc n) sha cb iid (Suspend pc) =
     bindA (exec_resume sha cb iid pc) (exec_drive n sha cb iid)"

definition execute :: "(string \<Rightarrow> string) \<Rightarrow> callbacks \<Rightarrow> string \<Rightarrow> (world, exec_next) act" where
  "execute sha cb iid =
     bindA (exec_start sha (cb_buildResult cb) iid) (exec_drive 3 sha cb iid)"

end
