(* ===== verification/ExclusiveQueue.thy ===== *)
theory ExclusiveQueue
  imports Prelude
begin

text \<open>
  \<open>WriteOperationService.runExclusive\<close>: executions of one intent run one after the other, by
  a chain of promises per intent id. A call is a ticket. Its \<open>previous\<close> is the promise found
  under the id in \<open>activeOperations\<close> (\<open>None\<close> for \<open>Promise.resolve()\<close>), its \<open>current\<close> is resolved
  when the call is over, and its \<open>queued\<close> promise, stored under the id, resolves after both.
\<close>

datatype call_status = Waiting | Running | Over

record lock_state =
  next_ticket :: nat
  ticket_id :: "nat \<Rightarrow> string"
  previous :: "nat \<Rightarrow> nat option"
  status :: "nat \<Rightarrow> call_status"
  activeOperations :: "string \<Rightarrow> nat option"

definition lock_init :: lock_state where
  "lock_init = \<lparr> next_ticket = 0, ticket_id = (\<lambda>_. []), previous = (\<lambda>_. None),
     status = (\<lambda>_. Waiting), activeOperations = (\<lambda>_. None) \<rparr>"

text \<open>\<open>queued\<close> of a ticket has resolved: its call is over and so is the chain before it.\<close>

fun queue_settled :: "lock_state \<Rightarrow> nat \<Rightarrow> bool" where
  "queue_settled s t \<longleftrightarrow> status s t = Over \<and>
     (case previous s t of None \<Rightarrow> True | Some p \<Rightarrow> if p < t then queue_settled s p else False)"

declare queue_settled.simps [simp del]

definition may_start :: "lock_state \<Rightarrow> nat \<Rightarrow> bool" where
  "may_start s t \<longleftrightarrow> t < next_ticket s \<and> status s t = Waiting \<and>
     (case previous s t of None \<Rightarrow> True | Some p \<Rightarrow> queue_settled s p)"

text \<open>Entering: read the tail, become the tail.\<close>

definition enter :: "string \<Rightarrow> lock_state \<Rightarrow> lock_state" where
  "enter iid s = (let t = next_ticket s in
     s\<lparr> next_ticket := Suc t,
        ticket_id := (ticket_id s)(t := iid),
        previous := (previous s)(t := activeOperations s iid),
        status := (status s)(t := Waiting),
        activeOperations := (activeOperations s)(iid := Some t) \<rparr>)"

definition begin_run :: "nat \<Rightarrow> lock_state \<Rightarrow> lock_state" where
  "begin_run t s = s\<lparr> status := (status s)(t := Running) \<rparr>"

text \<open>Leaving (the \<open>finally\<close> block): resolve \<open>current\<close>, and drop the tail if it is still ours.\<close>

definition leave :: "nat \<Rightarrow> lock_state \<Rightarrow> lock_state" where
  "leave t s = (let iid = ticket_id s t in
     s\<lparr> status := (status s)(t := Over),
        activeOperations := (if activeOperations s iid = Some t
          then (activeOperations s)(iid := None) else activeOperations s) \<rparr>)"

inductive lock_step :: "lock_state \<Rightarrow> lock_state \<Rightarrow> bool" where
  ls_enter: "lock_step s (enter iid s)"
| ls_begin: "may_start s t \<Longrightarrow> lock_step s (begin_run t s)"
| ls_leave: "t < next_ticket s \<Longrightarrow> status s t = Running \<Longrightarrow> lock_step s (leave t s)"

inductive lock_reachable :: "lock_state \<Rightarrow> bool" where
  lr_init: "lock_reachable lock_init"
| lr_step: "lock_reachable s \<Longrightarrow> lock_step s s' \<Longrightarrow> lock_reachable s'"

section \<open>The chain invariant\<close>

text \<open>\<open>u\<close> is a ticket before \<open>t\<close> for the same intent.\<close>

definition earlier :: "lock_state \<Rightarrow> nat \<Rightarrow> nat \<Rightarrow> bool" where
  "earlier s u t \<longleftrightarrow> u < t \<and> ticket_id s u = ticket_id s t"

definition chain_ok :: "lock_state \<Rightarrow> nat \<Rightarrow> bool" where
  "chain_ok s t \<longleftrightarrow>
     (case previous s t of
        None \<Rightarrow> (\<forall>u. earlier s u t \<longrightarrow> status s u = Over)
      | Some p \<Rightarrow> earlier s p t \<and> (\<forall>u. earlier s u t \<longrightarrow> u \<le> p)) \<and>
     (status s t \<noteq> Waiting \<longrightarrow> (\<forall>u. earlier s u t \<longrightarrow> status s u = Over))"

definition tail_ok :: "lock_state \<Rightarrow> string \<Rightarrow> bool" where
  "tail_ok s iid \<longleftrightarrow>
     (case activeOperations s iid of
        None \<Rightarrow> (\<forall>u < next_ticket s. ticket_id s u = iid \<longrightarrow> status s u = Over)
      | Some t \<Rightarrow> t < next_ticket s \<and> ticket_id s t = iid \<and>
          (\<forall>u < next_ticket s. ticket_id s u = iid \<longrightarrow> u \<le> t))"

definition lock_inv :: "lock_state \<Rightarrow> bool" where
  "lock_inv s \<longleftrightarrow> (\<forall>t < next_ticket s. chain_ok s t) \<and> (\<forall>iid. tail_ok s iid)"

lemma settled_earlier_over:
  "lock_inv s \<Longrightarrow> t < next_ticket s \<Longrightarrow> queue_settled s t \<Longrightarrow> earlier s u t \<Longrightarrow> status s u = Over"
proof (induction t rule: less_induct)
  case (less t)
  then have ok: "chain_ok s t" by (simp add: lock_inv_def)
  show ?case
  proof (cases "previous s t")
    case None
    with ok less.prems show ?thesis by (simp add: chain_ok_def)
  next
    case (Some p)
    with ok less.prems have p: "earlier s p t" "u \<le> p" by (auto simp: chain_ok_def)
    from less.prems(3) Some have sp: "queue_settled s p"
      by (simp add: queue_settled.simps [of s t] split: if_splits)
    show ?thesis
    proof (cases "u = p")
      case True
      with sp show ?thesis by (simp add: queue_settled.simps [of s p])
    next
      case False
      with p less.prems have "earlier s u p" by (auto simp: earlier_def)
      with less.IH [of p] less.prems p sp show ?thesis by (auto simp: earlier_def)
    qed
  qed
qed

lemma may_start_earlier_over:
  assumes "lock_inv s" "may_start s t" "earlier s u t"
  shows "status s u = Over"
proof -
  from assms have ok: "chain_ok s t" by (simp add: lock_inv_def may_start_def)
  show ?thesis
  proof (cases "previous s t")
    case None
    with ok assms show ?thesis by (simp add: chain_ok_def)
  next
    case (Some p)
    with ok assms have p: "earlier s p t" "u \<le> p" "queue_settled s p" "p < next_ticket s"
      by (auto simp: chain_ok_def may_start_def earlier_def)
    show ?thesis
    proof (cases "u = p")
      case True
      with p show ?thesis by (simp add: queue_settled.simps [of s p])
    next
      case False
      with p assms have "earlier s u p" by (auto simp: earlier_def)
      with p assms show ?thesis using settled_earlier_over by blast
    qed
  qed
qed

lemma lock_inv_init: "lock_inv lock_init"
  by (simp add: lock_inv_def lock_init_def tail_ok_def)

lemma lock_inv_enter:
  assumes "lock_inv s"
  shows "lock_inv (enter iid s)"
proof -
  let ?t = "next_ticket s" and ?s = "enter iid s"
  have old: "earlier ?s u t \<longleftrightarrow> earlier s u t" if "t < ?t" for u t
    using that by (auto simp: earlier_def enter_def Let_def)
  have "chain_ok ?s t" if "t < ?t" for t
  proof -
    have "chain_ok s t" using assms that by (simp add: lock_inv_def)
    moreover have "status ?s u = status s u" if "u \<noteq> ?t" for u using that by (simp add: enter_def Let_def)
    ultimately show ?thesis
      using that old [OF that] by (auto simp: chain_ok_def enter_def Let_def earlier_def split: option.splits)
  qed
  moreover have "chain_ok ?s ?t"
  proof -
    have "tail_ok s iid" using assms by (simp add: lock_inv_def)
    then show ?thesis by (auto simp: chain_ok_def tail_ok_def earlier_def enter_def Let_def split: option.splits)
  qed
  moreover have "tail_ok ?s i" for i
  proof -
    have "tail_ok s i" using assms by (simp add: lock_inv_def)
    then show ?thesis by (auto simp: tail_ok_def enter_def Let_def less_Suc_eq split: option.splits)
  qed
  ultimately show ?thesis by (auto simp: lock_inv_def enter_def Let_def less_Suc_eq)
qed

lemma lock_inv_begin:
  assumes "lock_inv s" "may_start s t"
  shows "lock_inv (begin_run t s)"
proof -
  have wt: "status s t = Waiting" using assms(2) by (simp add: may_start_def)
  then have over: "status s u = Over \<Longrightarrow> status (begin_run t s) u = Over" for u
    by (auto simp: begin_run_def)
  have "chain_ok (begin_run t s) t'" if "t' < next_ticket s" for t'
  proof -
    have "chain_ok s t'" using assms(1) that by (simp add: lock_inv_def)
    then show ?thesis
      using wt may_start_earlier_over [OF assms]
      by (auto simp: chain_ok_def earlier_def begin_run_def split: option.splits if_splits)
  qed
  moreover have "tail_ok (begin_run t s) i" for i
  proof -
    have "tail_ok s i" using assms(1) by (simp add: lock_inv_def)
    then show ?thesis using over assms(2)
      by (auto simp: tail_ok_def begin_run_def may_start_def split: option.splits)
  qed
  ultimately show ?thesis by (simp add: lock_inv_def begin_run_def)
qed

lemma lock_inv_leave:
  assumes "lock_inv s" "t < next_ticket s" "status s t = Running"
  shows "lock_inv (leave t s)"
proof -
  have "chain_ok (leave t s) t'" if "t' < next_ticket s" for t'
  proof -
    have "chain_ok s t'" "chain_ok s t" using assms that by (auto simp: lock_inv_def)
    then show ?thesis using assms(3)
      by (auto simp: chain_ok_def earlier_def leave_def Let_def split: option.splits if_splits)
  qed
  moreover have "tail_ok (leave t s) i" for i
  proof -
    have tail: "tail_ok s i" and chain: "chain_ok s t" using assms by (auto simp: lock_inv_def)
    show ?thesis
    proof (cases "activeOperations s (ticket_id s t) = Some t \<and> i = ticket_id s t")
      case True
      with tail have last: "\<forall>u < next_ticket s. ticket_id s u = i \<longrightarrow> u \<le> t" by (simp add: tail_ok_def)
      with True chain assms(3) show ?thesis
        by (auto simp: tail_ok_def leave_def Let_def chain_ok_def earlier_def le_less)
    next
      case False
      with tail show ?thesis by (auto simp: tail_ok_def leave_def Let_def split: option.splits)
    qed
  qed
  ultimately show ?thesis by (simp add: lock_inv_def leave_def Let_def)
qed

lemma lock_step_inv: "lock_step s s' \<Longrightarrow> lock_inv s \<Longrightarrow> lock_inv s'"
  by (induction rule: lock_step.induct) (auto intro: lock_inv_enter lock_inv_begin lock_inv_leave)

lemma lock_reachable_inv: "lock_reachable s \<Longrightarrow> lock_inv s"
  by (induction rule: lock_reachable.induct) (auto intro: lock_inv_init lock_step_inv)

section \<open>Mutual exclusion and progress\<close>

lemma running_earlier_over:
  "lock_inv s \<Longrightarrow> t < next_ticket s \<Longrightarrow> status s t = Running \<Longrightarrow> earlier s u t \<Longrightarrow> status s u = Over"
  by (auto simp: lock_inv_def chain_ok_def)

lemma lock_inv_exclusive:
  assumes "lock_inv s" "t < next_ticket s" "u < next_ticket s" "ticket_id s t = ticket_id s u"
    and "status s t = Running" "status s u = Running"
  shows "t = u"
  using running_earlier_over [OF assms(1,2,5), of u] running_earlier_over [OF assms(1,3,6), of t] assms
  by (auto simp: earlier_def not_less_iff_gr_or_eq dest: linorder_neqE_nat)

text \<open>A waiting call starts as soon as the calls before it are over: no wake-up is lost.\<close>

lemma over_chain_settled:
  "lock_inv s \<Longrightarrow> t < next_ticket s \<Longrightarrow> status s t = Over \<Longrightarrow> \<forall>u. earlier s u t \<longrightarrow> status s u = Over \<Longrightarrow>
   queue_settled s t"
proof (induction t rule: less_induct)
  case (less t)
  then have ok: "chain_ok s t" by (simp add: lock_inv_def)
  show ?case
  proof (cases "previous s t")
    case None
    with less.prems show ?thesis by (simp add: queue_settled.simps [of s t])
  next
    case (Some p)
    with ok have p: "earlier s p t" by (simp add: chain_ok_def)
    with less.prems have "queue_settled s p"
      by (intro less.IH) (auto simp: earlier_def)
    with Some p less.prems show ?thesis by (simp add: queue_settled.simps [of s t] earlier_def)
  qed
qed

lemma lock_inv_progress:
  assumes "lock_inv s" "t < next_ticket s" "status s t = Waiting"
    and "\<forall>u. earlier s u t \<longrightarrow> status s u = Over"
  shows "may_start s t"
proof (cases "previous s t")
  case None
  with assms show ?thesis by (simp add: may_start_def)
next
  case (Some p)
  with assms have p: "earlier s p t" by (auto simp: lock_inv_def chain_ok_def)
  with assms have "queue_settled s p" by (intro over_chain_settled) (auto simp: earlier_def)
  with Some assms show ?thesis by (simp add: may_start_def)
qed

end
