(* ===== verification/WriteSafety.thy ===== *)
theory WriteSafety
  imports WriteExecution ExclusiveQueue
begin

text \<open>
  What a segment of \<open>execute\<close> does to the journal, whatever the callbacks answer and whichever
  writes fail: the record moves along the edges of the state machine, and a suspended
  execution waits with a transaction that is on disk (\<open>start_sound\<close>, \<open>resume_sound\<close>).
\<close>

section \<open>How an execution may change a record\<close>

definition same_request :: "write_record \<Rightarrow> write_record \<Rightarrow> bool" where
  "same_request r r' \<longleftrightarrow> w_operation r' = w_operation r \<and> w_network r' = w_network r
     \<and> w_signerAddress r' = w_signerAddress r \<and> w_payload r' = w_payload r
     \<and> w_intentId r' = w_intentId r \<and> w_fingerprint r' = w_fingerprint r
     \<and> w_createdAt r' = w_createdAt r"

definition same_prepared :: "write_record \<Rightarrow> write_record \<Rightarrow> bool" where
  "same_prepared r r' \<longleftrightarrow> w_rawTransaction r' = w_rawTransaction r \<and> w_txid r' = w_txid r
     \<and> w_validUntilBlock r' = w_validUntilBlock r \<and> w_metadata r' = w_metadata r"

definition exec_edge :: "write_record \<Rightarrow> write_record \<Rightarrow> bool" where
  "exec_edge r r' \<longleftrightarrow> same_request r r' \<and>
     (w_state r \<in> {Approved, Preparing} \<and> w_rawTransaction r = None \<and>
        (w_state r' \<in> {Preparing, Failed_before_submission} \<and> same_prepared r r'
         \<or> w_state r' = Submitting \<and> w_rawTransaction r' \<noteq> None)
      \<or> w_state r \<in> {Submitting, Outcome_unknown} \<and> same_prepared r r'
        \<and> w_state r' \<in> {Submitted, Outcome_unknown, Rejected, Expired}
      \<or> w_state r = Submitted \<and> w_state r' = Submitted \<and> same_prepared r r')"

text \<open>Only a record in one of the prepared states carries a transaction.\<close>

definition unprepared_ok :: "write_record \<Rightarrow> bool" where
  "unprepared_ok r \<longleftrightarrow> (w_state r \<notin> set prepared_states \<longrightarrow> w_rawTransaction r = None)"

lemma same_request_fingerprint: "same_request r r' \<Longrightarrow> fingerprint_of sha r' = fingerprint_of sha r"
  by (simp add: same_request_def fingerprint_of_def intent_js_def)

lemma same_request_intent: "same_request r r' \<Longrightarrow> validateIntent r' = validateIntent r"
  by (simp add: same_request_def validateIntent_def)

lemma storable_change:
  assumes "storable sha iid r" "same_request r r'" "isIsoDate (w_updatedAt r')"
    and "hasAnyPreparedField r' \<longrightarrow> prepared_fields_ok r'"
    and "w_state r' \<in> set prepared_states \<longrightarrow> hasAnyPreparedField r'"
    and "w_result r' \<noteq> None \<longrightarrow> w_state r' = Submitted"
    and "\<forall>n. w_validUntilBlock r' = Some n \<longrightarrow> \<bar>n\<bar> < 10 ^ 21"
    and "\<forall>m. w_metadata r' = Some m \<longrightarrow> json_clean (JObj m)"
    and "\<forall>m. w_result r' = Some m \<longrightarrow> json_clean (JObj m)"
  shows "storable sha iid r'"
  using assms same_request_fingerprint [OF assms(2), of sha] same_request_intent [OF assms(2)]
  by (simp add: storable_def valid_record_def record_clean_def same_request_def)

lemma storable_same_prepared:
  assumes "storable sha iid r" "same_request r r'" "same_prepared r r'" "isIsoDate (w_updatedAt r')"
    and "w_state r' \<in> set prepared_states \<longrightarrow> w_state r \<in> set prepared_states"
    and "w_result r' \<noteq> None \<longrightarrow> w_state r' = Submitted"
    and "\<forall>m. w_result r' = Some m \<longrightarrow> json_clean (JObj m)"
  shows "storable sha iid r'"
proof (rule storable_change [OF assms(1,2,4)])
  show "hasAnyPreparedField r' \<longrightarrow> prepared_fields_ok r'"
    and "w_state r' \<in> set prepared_states \<longrightarrow> hasAnyPreparedField r'"
    using assms(1,3,5)
    by (simp_all add: storable_def valid_record_def same_prepared_def hasAnyPreparedField_def prepared_fields_ok_def)
  show "\<forall>n. w_validUntilBlock r' = Some n \<longrightarrow> \<bar>n\<bar> < 10 ^ 21"
    and "\<forall>m. w_metadata r' = Some m \<longrightarrow> json_clean (JObj m)"
    using assms(1,3) by (simp_all add: storable_def record_clean_def same_prepared_def)
qed (use assms in auto)

lemma storable_prepared:
  assumes "storable sha iid r" "w_state r \<in> set prepared_states"
  shows "\<exists>raw tx vub. w_rawTransaction r = Some raw \<and> w_txid r = Some tx \<and> w_validUntilBlock r = Some vub
     \<and> raw_ok raw \<and> txid_ok tx \<and> height_ok (NInt vub)"
  using assms by (auto simp: storable_def valid_record_def prepared_fields_ok_def split: option.splits)

lemma storable_not_unprepared:
  "storable sha iid r \<Longrightarrow> w_state r \<in> set prepared_states \<Longrightarrow> \<not> unprepared r \<and> \<not> needs_preparation r"
  using storable_prepared [of sha iid r]
  by (auto simp: unprepared_def needs_preparation_def falsy_str_def raw_ok_def txid_ok_def starts_with_def)

lemma storable_no_result: "storable sha iid r \<Longrightarrow> w_state r \<noteq> Submitted \<Longrightarrow> w_result r = None"
  by (auto simp: storable_def valid_record_def)

section \<open>One write of an execution\<close>

text \<open>
  The setting of every segment: a clean journal, a valid clock, the record that the next
  read finds.
\<close>

definition seg_pre :: "(string \<Rightarrow> string) \<Rightarrow> string \<Rightarrow> write_record \<Rightarrow> world \<Rightarrow> bool" where
  "seg_pre sha iid r w \<longleftrightarrow> clean_journal (journal w) \<and> isIsoDate (clock w)
     \<and> read_record sha (journal w) iid = Inr (Some r)"

lemma seg_pre_getById: "seg_pre sha iid r w \<Longrightarrow> getById sha iid w = (Ret r, w)"
  by (simp add: seg_pre_def getById_Some)

lemma seg_pre_storable: "seg_pre sha iid r w \<Longrightarrow> storable sha iid r \<and> w_intentId r = iid"
  unfolding seg_pre_def using read_record_storable by blast

text \<open>
  A write along an edge: the journal moves by at most that edge, and the record found
  afterwards is the old one or the new one.
\<close>

lemma seg_update:
  assumes pre: "seg_pre sha iid r w"
    and upd: "update_record r changes w = (out, w')"
    and st: "storable sha iid ((changes r)\<lparr> w_updatedAt := clock w \<rparr>)" (is "storable sha iid ?r1")
    and edge: "T r ((changes r)\<lparr> w_updatedAt := clock w \<rparr>)"
  shows "(store.moves sha T iid)\<^sup>*\<^sup>* (journal w) (journal w')
    \<and> (seg_pre sha iid ?r1 w' \<and> (out = Ret ?r1 \<or> out = Throw io_error \<or> out = Crash)
       \<or> seg_pre sha iid r w' \<and> (out = Throw io_error \<or> out = Crash))"
proof -
  from seg_pre_storable [OF pre] have id: "w_intentId r = iid" by simp
  from st id have st': "storable sha (w_intentId r) ?r1" by simp
  show ?thesis
    using upd st'
  proof (cases rule: update_record_cases)
    case saved
    with pre st id have "seg_pre sha iid ?r1 w'"
      by (simp add: seg_pre_def read_save_same store.inv_save)
    with saved pre st edge id show ?thesis
      using store.move_once [of sha "journal w" iid r T ?r1] by (auto simp: seg_pre_def)
  next
    case lost
    with pre show ?thesis by (auto simp: seg_pre_def)
  qed
qed

section \<open>The segments of an execution\<close>

definition in_flight :: "(string \<Rightarrow> string) \<Rightarrow> journal \<Rightarrow> string \<Rightarrow> prepared_tx \<Rightarrow> bool" where
  "in_flight sha j iid p \<longleftrightarrow>
     (\<exists>r. read_record sha j iid = Inr (Some r) \<and> w_state r \<in> {Submitting, Outcome_unknown} \<and> prepared_of r = p)"

text \<open>What the journal says while an execution is suspended.\<close>

fun pc_ok :: "(string \<Rightarrow> string) \<Rightarrow> journal \<Rightarrow> string \<Rightarrow> exec_pc \<Rightarrow> bool" where
  "pc_ok sha j iid Await_prepare =
     (\<exists>r. read_record sha j iid = Inr (Some r) \<and> w_state r = Preparing \<and> w_rawTransaction r = None)"
| "pc_ok sha j iid (Await_reconcile p) = in_flight sha j iid p"
| "pc_ok sha j iid (Await_expired p) = in_flight sha j iid p"
| "pc_ok sha j iid (Await_submit p) = in_flight sha j iid p"

abbreviation exec_moves :: "(string \<Rightarrow> string) \<Rightarrow> string \<Rightarrow> journal \<Rightarrow> journal \<Rightarrow> bool" where
  "exec_moves sha iid \<equiv> (store.moves sha exec_edge iid)\<^sup>*\<^sup>*"

text \<open>The journal moved along edges, and the segment did not return / returned soundly.\<close>

definition moved_failed :: "(string \<Rightarrow> string) \<Rightarrow> string \<Rightarrow> journal \<Rightarrow> 'a outcome \<times> world \<Rightarrow> bool" where
  "moved_failed sha iid j res \<longleftrightarrow> exec_moves sha iid j (journal (snd res)) \<and> (\<forall>a. fst res \<noteq> Ret a)"

definition seg_sound :: "(string \<Rightarrow> string) \<Rightarrow> string \<Rightarrow> journal \<Rightarrow> exec_next outcome \<times> world \<Rightarrow> bool" where
  "seg_sound sha iid j res \<longleftrightarrow> exec_moves sha iid j (journal (snd res))
     \<and> (\<forall>pc. fst res = Ret (Suspend pc) \<longrightarrow> pc_ok sha (journal (snd res)) iid pc)"

lemma moved_failed_sound: "moved_failed sha iid j res \<Longrightarrow> seg_sound sha iid j res"
  by (auto simp: moved_failed_def seg_sound_def)

lemma moved_failed_trans:
  "exec_moves sha iid j j' \<Longrightarrow> moved_failed sha iid j' res \<Longrightarrow> moved_failed sha iid j res"
  by (auto simp: moved_failed_def)

lemma moved_failed_Throw: "exec_moves sha iid j (journal w) \<Longrightarrow> moved_failed sha iid j (Throw e, w)"
  and moved_failed_Crash: "exec_moves sha iid j (journal w) \<Longrightarrow> moved_failed sha iid j (Crash, w)"
  by (simp_all add: moved_failed_def)

text \<open>An action that always ends in a throw, after one write along an edge.\<close>

lemma update_then_throw:
  assumes "seg_pre sha iid r w" "storable sha iid ((changes r)\<lparr> w_updatedAt := clock w \<rparr>)"
    and "exec_edge r ((changes r)\<lparr> w_updatedAt := clock w \<rparr>)"
  shows "moved_failed sha iid (journal w) (bindA (update_record r changes) (\<lambda>_. throwA e) w)"
proof -
  obtain out w' where "update_record r changes w = (out, w')" by (cases "update_record r changes w")
  with seg_update [OF assms(1) this assms(2), of exec_edge] assms(3) show ?thesis
    by (auto simp: moved_failed_def act_simps)
qed


text \<open>What each operation is on the record that is found.\<close>

lemma op_on_record:
  assumes "seg_pre sha iid r w"
  shows "falsy_str (w_rawTransaction r) \<Longrightarrow> failBeforeSubmission sha iid m w =
      update_record r (\<lambda>r. r\<lparr> w_state := Failed_before_submission, w_error := Some m \<rparr>) w"
    and "\<not> falsy_str (w_rawTransaction r) \<Longrightarrow> failBeforeSubmission sha iid m w =
      (Throw (ValidationError ''A prepared transaction cannot fail before submission''), w)"
    and "w_state r = Approved \<Longrightarrow> markPreparing sha iid w = update_record r (\<lambda>r. r\<lparr> w_state := Preparing \<rparr>) w"
    and "w_state r = Preparing \<Longrightarrow> markPreparing sha iid w = (Ret r, w)"
    and "\<not> unprepared r \<Longrightarrow> markOutcomeUnknown sha iid m w =
      update_record r (\<lambda>r. r\<lparr> w_state := Outcome_unknown, w_error := Some m \<rparr>) w"
    and "\<not> unprepared r \<Longrightarrow> markRejected sha iid m w =
      update_record r (\<lambda>r. r\<lparr> w_state := Rejected, w_error := Some m \<rparr>) w"
    and "\<not> unprepared r \<Longrightarrow> markBroadcastSucceeded sha iid w =
      update_record r (\<lambda>r. r\<lparr> w_state := Submitted, w_error := None \<rparr>) w"
    and "w_state r = Submitted \<Longrightarrow> complete sha iid res w =
      update_record r (\<lambda>r. r\<lparr> w_result := Some res \<rparr>) w"
  using seg_pre_getById [OF assms]
  by (simp_all add: failBeforeSubmission_def markPreparing_def markOutcomeUnknown_def markRejected_def
      markBroadcastSucceeded_def complete_def bindA_apply)


text \<open>The three shapes of rewrite: a new state with a new error, a new state, a result.\<close>

lemma storable_restate:
  assumes "storable sha iid r" "isIsoDate now" "w_state r \<noteq> Submitted"
    and "st \<in> set prepared_states \<longrightarrow> w_state r \<in> set prepared_states"
  shows "storable sha iid (r\<lparr> w_state := st, w_error := e, w_updatedAt := now \<rparr>)"
    and "storable sha iid (r\<lparr> w_state := st, w_updatedAt := now \<rparr>)"
  by (rule storable_same_prepared [OF assms(1)],
      use assms(2-4) storable_no_result [OF assms(1,3)] in \<open>simp_all add: same_request_def same_prepared_def\<close>)+

lemma storable_with_result:
  assumes "storable sha iid r" "isIsoDate now" "w_state r = Submitted" "json_clean (JObj res)"
  shows "storable sha iid (r\<lparr> w_result := Some res, w_updatedAt := now \<rparr>)"
  by (rule storable_same_prepared [OF assms(1)],
      use assms(2-4) in \<open>simp_all add: same_request_def same_prepared_def del: json_clean.simps\<close>)

lemma edge_restate:
  "w_state r \<in> {Approved, Preparing} \<Longrightarrow> w_rawTransaction r = None \<Longrightarrow> st \<in> {Preparing, Failed_before_submission} \<Longrightarrow>
   exec_edge r (r\<lparr> w_state := st, w_error := e, w_updatedAt := now \<rparr>) \<and> exec_edge r (r\<lparr> w_state := st, w_updatedAt := now \<rparr>)"
  "w_state r \<in> {Submitting, Outcome_unknown} \<Longrightarrow> st \<in> {Submitted, Outcome_unknown, Rejected, Expired} \<Longrightarrow>
   exec_edge r (r\<lparr> w_state := st, w_error := e, w_updatedAt := now \<rparr>)"
  "w_state r = Submitted \<Longrightarrow> exec_edge r (r\<lparr> w_result := res, w_updatedAt := now \<rparr>)"
  by (auto simp: exec_edge_def same_request_def same_prepared_def)

lemma seg_pre_clock: "seg_pre sha iid r w \<Longrightarrow> isIsoDate (clock w)"
  by (simp add: seg_pre_def)

lemma fail_preparation_moves:
  assumes pre: "seg_pre sha iid r w" and r: "w_state r \<in> {Approved, Preparing}" "w_rawTransaction r = None"
  shows "moved_failed sha iid (journal w) (fail_preparation sha iid e w)"
proof -
  let ?f = "\<lambda>r. r\<lparr> w_state := Failed_before_submission, w_error := Some (error_message e) \<rparr>"
  have "storable sha iid ((?f r)\<lparr> w_updatedAt := clock w \<rparr>)"
    using seg_pre_storable [OF pre] seg_pre_clock [OF pre] r
    by (intro storable_restate) (auto simp: prepared_states_def)
  then have "moved_failed sha iid (journal w) (bindA (update_record r ?f) (\<lambda>_. throwA e) w)"
    using edge_restate(1) [OF r, of Failed_before_submission] by (intro update_then_throw [OF pre]) simp_all
  then show ?thesis
    using op_on_record(1) [OF pre] r by (simp add: fail_preparation_def bindA_apply falsy_str_def)
qed

lemma fail_preparation_prepared:
  "seg_pre sha iid r w \<Longrightarrow> \<not> falsy_str (w_rawTransaction r) \<Longrightarrow>
   fail_preparation sha iid e w = (Throw (ValidationError ''A prepared transaction cannot fail before submission''), w)"
  by (simp add: fail_preparation_def bindA_apply op_on_record)


lemma seg_sound_trans: "exec_moves sha iid j j' \<Longrightarrow> seg_sound sha iid j' res \<Longrightarrow> seg_sound sha iid j res"
  by (auto simp: seg_sound_def)

lemma seg_sound_stay:
  "(\<And>pc. out = Ret (Suspend pc) \<Longrightarrow> pc_ok sha (journal w) iid pc) \<Longrightarrow> seg_sound sha iid (journal w) (out, w)"
  by (simp add: seg_sound_def)

text \<open>One write along an edge, then a continuation that is sound from the new record.\<close>

lemma update_then_sound:
  assumes pre: "seg_pre sha iid r w" and st: "storable sha iid ((changes r)\<lparr> w_updatedAt := clock w \<rparr>)" 
    and edge: "exec_edge r ((changes r)\<lparr> w_updatedAt := clock w \<rparr>)"
    and k: "\<And>w'. seg_pre sha iid ((changes r)\<lparr> w_updatedAt := clock w \<rparr>) w' \<Longrightarrow> seg_sound sha iid (journal w') (k ((changes r)\<lparr> w_updatedAt := clock w \<rparr>) w')"
  shows "seg_sound sha iid (journal w) (bindA (update_record r changes) k w)"
proof -
  let ?r1 = "(changes r)\<lparr> w_updatedAt := clock w \<rparr>"
  obtain out w' where upd: "update_record r changes w = (out, w')" by (cases "update_record r changes w")
  from seg_update [where T = exec_edge, OF pre upd st edge]
  have m: "exec_moves sha iid (journal w) (journal w')" and
    out: "seg_pre sha iid ?r1 w' \<and> (out = Ret ?r1 \<or> out = Throw io_error \<or> out = Crash)
      \<or> seg_pre sha iid r w' \<and> (out = Throw io_error \<or> out = Crash)" by auto
  from out show ?thesis
  proof
    assume "seg_pre sha iid r w' \<and> (out = Throw io_error \<or> out = Crash)"
    with upd m show ?thesis by (auto simp: bindA_apply seg_sound_def)
  next
    assume "seg_pre sha iid ?r1 w' \<and> (out = Ret ?r1 \<or> out = Throw io_error \<or> out = Crash)"
    then show ?thesis
      using upd m seg_sound_trans [OF m k] by (auto simp: bindA_apply seg_sound_def)
  qed
qed

text \<open>Recording the result, and recording the broadcast before it.\<close>

lemma complete_sound:
  assumes pre: "seg_pre sha iid r w" and r: "w_state r = Submitted" and res: "json_clean (JObj res)"
  shows "seg_sound sha iid (journal w) (bindA (complete sha iid res) (\<lambda>_. retA (Finished res)) w)"
proof -
  have "seg_sound sha iid (journal w)
      (bindA (update_record r (\<lambda>r. r\<lparr> w_result := Some res \<rparr>)) (\<lambda>_. retA (Finished res)) w)"
    using seg_pre_storable [OF pre] seg_pre_clock [OF pre] r res
    by (intro update_then_sound [OF pre] storable_with_result edge_restate)
      (simp_all add: seg_sound_def del: json_clean.simps)
  then show ?thesis using op_on_record(8) [OF pre r] by (simp add: bindA_apply)
qed

lemma finish_sound:
  assumes pre: "seg_pre sha iid r w" and r: "w_state r \<in> {Submitting, Outcome_unknown}"
    and res: "\<And>t m. json_clean (JObj (build t m))"
  shows "seg_sound sha iid (journal w) (exec_finish sha build iid p w)"
proof -
  have st: "storable sha iid r" using seg_pre_storable [OF pre] by simp
  with r have "\<not> unprepared r" using storable_not_unprepared [of sha iid r] by (auto simp: prepared_states_def)
  moreover have "seg_sound sha iid (journal w)
      (bindA (update_record r (\<lambda>r. r\<lparr> w_state := Submitted, w_error := None \<rparr>))
        (\<lambda>_. bindA (complete sha iid (build (p_txid p) (p_metadata p)))
          (\<lambda>_. retA (Finished (build (p_txid p) (p_metadata p))))) w)"
    using st seg_pre_clock [OF pre] r res
    by (intro update_then_sound [OF pre] storable_restate edge_restate complete_sound)
      (auto simp: prepared_states_def simp del: json_clean.simps)
  ultimately show ?thesis
    using op_on_record(7) [OF pre] by (simp add: exec_finish_def bindA_apply Let_def)
qed

lemma settle_moves:
  assumes pre: "seg_pre sha iid r w" and r: "w_state r \<in> {Submitting, Outcome_unknown}"
  shows "moved_failed sha iid (journal w) (settle_failure sha iid e w :: 'x outcome \<times> world)"
proof -
  have st: "storable sha iid r" using seg_pre_storable [OF pre] by simp
  with r have np: "\<not> unprepared r" using storable_not_unprepared [of sha iid r] by (auto simp: prepared_states_def)
  have "moved_failed sha iid (journal w)
      (bindA (update_record r (\<lambda>r. r\<lparr> w_state := s, w_error := Some m \<rparr>)) (\<lambda>_. throwA e) w
        :: 'x outcome \<times> world)"
    if "s \<in> {Outcome_unknown, Rejected}" for s m
    using st seg_pre_clock [OF pre] r that
    by (intro update_then_throw [OF pre] storable_restate edge_restate) (auto simp: prepared_states_def)
  then show ?thesis
    using op_on_record(5,6) [OF pre np] by (simp add: settle_failure_def bindA_apply)
qed


lemma moved_failed_bind: "moved_failed sha iid j (m w) \<Longrightarrow> seg_sound sha iid j (bindA m f w)"
  by (auto simp: moved_failed_def seg_sound_def bindA_apply split: prod.splits outcome.splits)

text \<open>The record an execution is suspended at.\<close>

lemma in_flightE:
  assumes "in_flight sha (journal w) iid p" "clean_journal (journal w)" "isIsoDate (clock w)"
  obtains r where "seg_pre sha iid r w" "w_state r \<in> {Submitting, Outcome_unknown}" "prepared_of r = p"
  using assms by (auto simp: in_flight_def seg_pre_def)

lemma on_reconciled_sound:
  assumes "in_flight sha (journal w) iid p" "clean_journal (journal w)" "isIsoDate (clock w)"
    and "\<And>t m. json_clean (JObj (build t m))"
  shows "seg_sound sha iid (journal w) (exec_on_reconciled sha build iid p answer w)"
proof -
  obtain r where "seg_pre sha iid r w" "w_state r \<in> {Submitting, Outcome_unknown}"
    using assms(1-3) by (rule in_flightE)
  then have "seg_sound sha iid (journal w) (exec_finish sha build iid p w)"
    using assms(4) by (rule finish_sound)
  then show ?thesis using assms(1)
    by (cases answer) (auto simp: exec_on_reconciled_def bindA_apply intro!: seg_sound_stay)
qed

lemma on_expired_sound:
  assumes "in_flight sha (journal w) iid p" "clean_journal (journal w)" "isIsoDate (clock w)"
  shows "seg_sound sha iid (journal w) (exec_on_expired sha iid p answer w)"
proof -
  obtain r where pre: "seg_pre sha iid r w" and r: "w_state r \<in> {Submitting, Outcome_unknown}"
    using assms by (rule in_flightE)
  let ?f = "\<lambda>r. r\<lparr> w_state := Expired,
    w_error := Some ''Prepared transaction expired before it could be observed on-chain'' \<rparr>"
  have "moved_failed sha iid (journal w) (bindA (update_record r ?f)
      (\<lambda>_. throwA (ValidationError ''Prepared transaction expired; use a new idempotency key'')) w
      :: exec_next outcome \<times> world)"
    using seg_pre_storable [OF pre] seg_pre_clock [OF pre] r
    by (intro update_then_throw [OF pre] storable_restate edge_restate) (auto simp: prepared_states_def)
  then have "seg_sound sha iid (journal w) (bindA (update_record r ?f)
      (\<lambda>_. throwA (ValidationError ''Prepared transaction expired; use a new idempotency key'')) w)"
    by (rule moved_failed_sound)
  then show ?thesis using assms(1) seg_pre_getById [OF pre]
    by (cases answer) (auto simp: exec_on_expired_def bindA_apply intro!: seg_sound_stay)
qed

lemma on_submitted_sound:
  assumes "in_flight sha (journal w) iid p" "clean_journal (journal w)" "isIsoDate (clock w)"
    and "\<And>t m. json_clean (JObj (build t m))"
  shows "seg_sound sha iid (journal w) (exec_on_submitted sha build iid p answer w)"
proof -
  obtain r where pre: "seg_pre sha iid r w" and r: "w_state r \<in> {Submitting, Outcome_unknown}"
    using assms(1-3) by (rule in_flightE)
  have settle: "moved_failed sha iid (journal w) (settle_failure sha iid e w :: unit outcome \<times> world)" for e
    using pre r by (rule settle_moves)
  have failed: "seg_sound sha iid (journal w) (bindA (settle_failure sha iid e) (\<lambda>_::unit. exec_finish sha build iid p) w)" for e
    using settle by (rule moved_failed_bind)
  have ok: "seg_sound sha iid (journal w) (exec_finish sha build iid p w)"
    using pre r assms(4) by (rule finish_sound)
  show ?thesis
  proof (cases answer)
    case (Inl e)
    with failed [of e] show ?thesis by (simp add: exec_on_submitted_def bindA_apply catchA_apply)
  next
    case (Inr t)
    with failed [of "SubmissionOutcomeUnknownError (p_txid p)"] ok show ?thesis
      by (simp add: exec_on_submitted_def bindA_apply catchA_apply)
  qed
qed


text \<open>Recording the prepared transaction: the write that precedes every submission.\<close>

definition meta_ok :: "jsval \<Rightarrow> bool" where
  "meta_ok v \<longleftrightarrow> v = JUndef \<or> json_clean v"

lemma validatePrepared_ok:
  "validatePreparedTransaction p = Inr () \<Longrightarrow>
   raw_ok (p_rawTransaction p) \<and> txid_ok (p_txid p) \<and> (\<exists>n. p_validUntilBlock p = NInt n \<and> 0 < n \<and> n \<le> maxSafeInteger)
   \<and> (p_metadata p = JUndef \<or> isPlainObject (p_metadata p))"
  by (cases "p_validUntilBlock p") (auto simp: validatePreparedTransaction_def split: if_splits)

lemma storable_spread:
  assumes st: "storable sha iid r" and r: "w_state r \<in> {Approved, Preparing}" "w_rawTransaction r = None"
    and v: "validatePreparedTransaction p = Inr ()" and m: "meta_ok (p_metadata p)" and now: "isIsoDate now"
  shows "storable sha iid ((spread_prepared p r)\<lparr> w_updatedAt := now \<rparr>)"
    and "exec_edge r ((spread_prepared p r)\<lparr> w_updatedAt := now \<rparr>)"
    and "\<not> falsy_str (w_rawTransaction (spread_prepared p r))"
proof -
  from validatePrepared_ok [OF v] obtain n where p: "raw_ok (p_rawTransaction p)" "txid_ok (p_txid p)"
    "p_validUntilBlock p = NInt n" "0 < n" "n \<le> maxSafeInteger" by blast
  have fields: "w_rawTransaction (spread_prepared p r) = Some (p_rawTransaction p)"
    "w_txid (spread_prepared p r) = Some (p_txid p)" "w_validUntilBlock (spread_prepared p r) = Some n"
    "w_metadata (spread_prepared p r) = prepared_metadata (w_metadata r) (p_metadata p)"
    "w_state (spread_prepared p r) = Submitting" "w_result (spread_prepared p r) = w_result r"
    using p(3) by (simp_all add: spread_prepared_def)
  have req: "same_request r ((spread_prepared p r)\<lparr> w_updatedAt := now \<rparr>)"
    by (simp add: same_request_def spread_prepared_def)
  have meta: "json_clean (JObj k)" if "prepared_metadata (w_metadata r) (p_metadata p) = Some k" for k
    using that m st by (cases "p_metadata p") (auto simp: meta_ok_def storable_def record_clean_def simp del: json_clean.simps)
  show "storable sha iid ((spread_prepared p r)\<lparr> w_updatedAt := now \<rparr>)"
    using p(1,2,4,5) now r storable_no_result [OF st] meta
    by (intro storable_change [OF st req])
      (auto simp: fields hasAnyPreparedField_def prepared_fields_ok_def maxSafeInteger_def simp del: json_clean.simps)
  show "exec_edge r ((spread_prepared p r)\<lparr> w_updatedAt := now \<rparr>)"
    using req r fields by (simp add: exec_edge_def)
  show "\<not> falsy_str (w_rawTransaction (spread_prepared p r))"
    using p(1) by (simp add: fields falsy_str_def raw_ok_def)
qed

lemma recordPrepared_eq:
  assumes "seg_pre sha iid r w" "w_state r \<in> {Approved, Preparing}"
  shows "recordPrepared sha iid p w =
    (case validatePreparedTransaction p of Inl e \<Rightarrow> (Throw e, w) | Inr u \<Rightarrow> update_record r (spread_prepared p) w)"
  using assms seg_pre_getById [OF assms(1)]
  by (auto simp: recordPrepared_def bindA_apply split: sum.splits)

lemma continue_sound:
  assumes "seg_pre sha iid r w" "w_state r \<in> {Submitting, Outcome_unknown}"
  shows "seg_sound sha iid (journal w) (exec_continue r b w)"
  using assms by (auto simp: exec_continue_def seg_pre_def in_flight_def intro!: seg_sound_stay)


lemma on_prepared_sound:
  assumes pc: "pc_ok sha (journal w) iid Await_prepare" and cl: "clean_journal (journal w)" "isIsoDate (clock w)"
    and m: "\<And>p. answer = Inr p \<Longrightarrow> meta_ok (p_metadata p)"
  shows "seg_sound sha iid (journal w) (exec_on_prepared sha iid answer w)"
proof -
  from pc cl obtain r where pre: "seg_pre sha iid r w" and r: "w_state r = Preparing" "w_rawTransaction r = None"
    by (auto simp: seg_pre_def)
  then have r': "w_state r \<in> {Approved, Preparing}" by simp
  have failed: "seg_sound sha iid (journal w) (bindA (fail_preparation sha iid e) (\<lambda>r. exec_continue r True) w')"
    if "seg_pre sha iid r w'" "exec_moves sha iid (journal w) (journal w')" for e w'
    by (rule moved_failed_bind, rule moved_failed_trans [OF that(2)], rule fail_preparation_moves [OF that(1) r' r(2)])
  show ?thesis
  proof (cases answer)
    case (Inl e)
    with failed [OF pre, of e] show ?thesis by (simp add: exec_on_prepared_def bindA_apply catchA_apply)
  next
    case (Inr p)
    show ?thesis
    proof (cases "validatePreparedTransaction p")
      case (Inl e)
      with Inr failed [OF pre, of e] show ?thesis
        by (simp add: exec_on_prepared_def bindA_apply catchA_apply recordPrepared_eq [OF pre r'])
    next
      case v: (Inr u)
      let ?r1 = "(spread_prepared p r)\<lparr> w_updatedAt := clock w \<rparr>"
      have st: "storable sha iid ?r1" and edge: "exec_edge r ?r1" and raw: "\<not> falsy_str (w_rawTransaction ?r1)"
        using storable_spread [of sha iid r p "clock w"] seg_pre_storable [OF pre] r' r(2) v m [OF Inr] cl(2) by simp_all
      obtain out w' where upd: "update_record r (spread_prepared p) w = (out, w')"
        by (cases "update_record r (spread_prepared p) w")
      have run: "exec_on_prepared sha iid answer w =
          bindA (catchA (update_record r (spread_prepared p)) (fail_preparation sha iid)) (\<lambda>r. exec_continue r True) w"
        using Inr v by (simp add: exec_on_prepared_def bindA_apply catchA_apply recordPrepared_eq [OF pre r'])
      from seg_update [where T = exec_edge, OF pre upd st edge]
      have mv: "exec_moves sha iid (journal w) (journal w')"
        and cases: "seg_pre sha iid ?r1 w' \<and> (out = Ret ?r1 \<or> out = Throw io_error \<or> out = Crash)
          \<or> seg_pre sha iid r w' \<and> (out = Throw io_error \<or> out = Crash)" by auto
      from cases show ?thesis
      proof
        assume new: "seg_pre sha iid ?r1 w' \<and> (out = Ret ?r1 \<or> out = Throw io_error \<or> out = Crash)"
        have "w_state ?r1 = Submitting" by (simp add: spread_prepared_def)
        then have "seg_sound sha iid (journal w) (exec_continue ?r1 True w')"
          using new by (intro seg_sound_trans [OF mv continue_sound]) auto
        with new raw mv upd show ?thesis
          by (auto simp: run bindA_apply catchA_apply fail_preparation_prepared seg_sound_def)
      next
        assume "seg_pre sha iid r w' \<and> (out = Throw io_error \<or> out = Crash)"
        with failed [of w' io_error] mv upd show ?thesis
          by (auto simp: run bindA_apply catchA_apply seg_sound_def)
      qed
    qed
  qed
qed

lemma start_sound:
  assumes cl: "clean_journal (journal w)" "isIsoDate (clock w)"
    and un: "\<And>r. read_record sha (journal w) iid = Inr (Some r) \<Longrightarrow> unprepared_ok r"
    and res: "\<And>t m. json_clean (JObj (build t m))"
  shows "seg_sound sha iid (journal w) (exec_start sha build iid w)"
proof (cases "\<exists>r. read_record sha (journal w) iid = Inr (Some r)")
  case False
  then have "\<forall>a. fst (getById sha iid w) \<noteq> Ret a" "snd (getById sha iid w) = w"
    by (auto simp: getById_eq split: sum.splits option.splits)
  then show ?thesis by (auto simp: exec_start_def bindA_apply seg_sound_def split: prod.splits outcome.splits)
next
  case True
  then obtain r where pre: "seg_pre sha iid r w" and ur: "unprepared_ok r" using cl un by (auto simp: seg_pre_def)
  have st: "storable sha iid r" using seg_pre_storable [OF pre] by simp
  consider (submitted) "w_state r = Submitted" | (dead) "w_state r \<in> {Declined, Expired, Rejected, Failed_before_submission, Awaiting_approval}"
    | (flight) "w_state r \<in> {Submitting, Outcome_unknown}" | (prep) "w_state r \<in> {Approved, Preparing}"
    by (cases "w_state r") auto
  then show ?thesis
  proof cases
    case submitted
    then show ?thesis using complete_sound [OF pre submitted res] seg_pre_getById [OF pre]
      by (cases "w_result r") (auto simp: exec_start_def bindA_apply Let_def intro!: seg_sound_stay)
  next
    case dead
    then show ?thesis using seg_pre_getById [OF pre]
      by (auto simp: exec_start_def bindA_apply intro!: seg_sound_stay)
  next
    case flight
    then have "\<not> needs_preparation r" using storable_not_unprepared [OF st] by (auto simp: prepared_states_def)
    with flight have "exec_start sha build iid w = exec_continue r False w"
      using seg_pre_getById [OF pre] by (auto simp: exec_start_def bindA_apply)
    then show ?thesis using continue_sound [OF pre flight] by simp
  next
    case prep
    then have raw: "w_rawTransaction r = None" using ur by (auto simp: unprepared_ok_def prepared_states_def)
    have failed: "seg_sound sha iid (journal w) (fail_preparation sha iid e w')"
      if "seg_pre sha iid r' w'" "w_state r' \<in> {Approved, Preparing}" "w_rawTransaction r' = None"
        "exec_moves sha iid (journal w) (journal w')" for e r' w'
      by (rule moved_failed_sound, rule moved_failed_trans [OF that(4)], rule fail_preparation_moves [OF that(1-3)])
    have start: "exec_start sha build iid w =
        catchA (bindA (markPreparing sha iid) (\<lambda>_. retA (Suspend Await_prepare))) (fail_preparation sha iid) w"
      using prep raw seg_pre_getById [OF pre]
      by (auto simp: exec_start_def bindA_apply needs_preparation_def falsy_str_def)
    show ?thesis
    proof (cases "w_state r = Preparing")
      case True
      then show ?thesis using pre raw op_on_record(4) [OF pre True]
        by (auto simp: start catchA_apply bindA_apply seg_pre_def intro!: seg_sound_stay)
    next
      case False
      with prep have ap: "w_state r = Approved" by simp
      let ?f = "\<lambda>r. r\<lparr> w_state := Preparing \<rparr>"
      let ?r1 = "(?f r)\<lparr> w_updatedAt := clock w \<rparr>"
      have st1: "storable sha iid ?r1" using st cl(2) ap by (intro storable_restate) (simp_all add: prepared_states_def)
      have edge: "exec_edge r ?r1" using edge_restate(1) [OF prep raw, of Preparing] by simp
      obtain out w' where upd: "update_record r ?f w = (out, w')" by (cases "update_record r ?f w")
      from seg_update [where T = exec_edge, OF pre upd st1 edge]
      have mv: "exec_moves sha iid (journal w) (journal w')"
        and cases: "seg_pre sha iid ?r1 w' \<and> (out = Ret ?r1 \<or> out = Throw io_error \<or> out = Crash)
          \<or> seg_pre sha iid r w' \<and> (out = Throw io_error \<or> out = Crash)" by auto
      have mp: "markPreparing sha iid w = (out, w')" using op_on_record(3) [OF pre ap] upd by simp
      from cases show ?thesis
      proof
        assume new: "seg_pre sha iid ?r1 w' \<and> (out = Ret ?r1 \<or> out = Throw io_error \<or> out = Crash)"
        then have "pc_ok sha (journal w') iid Await_prepare" using raw by (auto simp: seg_pre_def)
        with new mv failed [of ?r1 w' io_error] raw show ?thesis
          by (auto simp: start catchA_apply bindA_apply mp seg_sound_def)
      next
        assume "seg_pre sha iid r w' \<and> (out = Throw io_error \<or> out = Crash)"
        with mv failed [of r w' io_error] prep raw show ?thesis
          by (auto simp: start catchA_apply bindA_apply mp seg_sound_def)
      qed
    qed
  qed
qed

text \<open>What the callbacks may answer: transactions and results that have a JSON text.\<close>

definition callbacks_ok :: "callbacks \<Rightarrow> bool" where
  "callbacks_ok cb \<longleftrightarrow> (\<forall>p. cb_prepare cb = Inr p \<longrightarrow> meta_ok (p_metadata p))
     \<and> (\<forall>t m. json_clean (JObj (cb_buildResult cb t m)))"

lemma resume_sound:
  assumes "pc_ok sha (journal w) iid pc" "clean_journal (journal w)" "isIsoDate (clock w)" "callbacks_ok cb"
  shows "seg_sound sha iid (journal w) (exec_resume sha cb iid pc w)"
proof -
  have res: "json_clean (JObj (cb_buildResult cb t m))" for t m
    using assms(4) by (simp add: callbacks_ok_def del: json_clean.simps)
  show ?thesis
  proof (cases pc)
    case Await_prepare
    then show ?thesis using assms on_prepared_sound [of sha w iid "cb_prepare cb"] by (simp add: callbacks_ok_def)
  next
    case (Await_reconcile p)
    with assms on_reconciled_sound [OF _ assms(2,3) res] show ?thesis by simp
  next
    case (Await_expired p)
    with assms on_expired_sound [OF _ assms(2,3)] show ?thesis by simp
  next
    case (Await_submit p)
    with assms on_submitted_sound [OF _ assms(2,3) res] show ?thesis by simp
  qed
qed

end
