(* ===== verification/WriteCompletion.thy ===== *)
theory WriteCompletion
  imports WriteSafety
begin

text \<open>
  The write service when nothing goes wrong: what \<open>reserve\<close>, \<open>approve\<close> and each segment of an
  execution return and leave in the journal when every write succeeds, and the whole run of
  \<open>execute\<close> from an approved intent.
\<close>

definition quiet :: "world \<Rightarrow> bool" where
  "quiet w \<longleftrightarrow> io_script w = []"

definition saved :: "string \<Rightarrow> write_record \<Rightarrow> world \<Rightarrow> world" where
  "saved iid r w = w\<lparr> journal := save_record iid r (journal w) \<rparr>"

lemma saved_simps [simp]:
  "journal (saved iid r w) = save_record iid r (journal w)" "clock (saved iid r w) = clock w"
  "quiet (saved iid r w) = quiet w" "io_script (saved iid r w) = io_script w"
  by (simp_all add: saved_def quiet_def)

lemma saved_pre: "seg_pre sha iid r w \<Longrightarrow> storable sha iid r' \<Longrightarrow> seg_pre sha iid r' (saved iid r' w)"
  by (simp add: seg_pre_def read_save_same store.inv_save)

lemma put_saved: "put iid (Some (JObj (record_js r))) w = saved iid r w"
  by (simp add: put_def saved_def save_record_def)

lemma update_record_quiet:
  assumes "seg_pre sha iid r w" "quiet w" "storable sha iid ((changes r)\<lparr> w_updatedAt := clock w \<rparr>)"
  shows "update_record r changes w = (Ret ((changes r)\<lparr> w_updatedAt := clock w \<rparr>), saved iid ((changes r)\<lparr> w_updatedAt := clock w \<rparr>) w)"
proof -
  let ?r1 = "(changes r)\<lparr> w_updatedAt := clock w \<rparr>"
  have "jsonRoundTrip (JObj (record_js ?r1)) = Inr (Some (JObj (record_js ?r1)))"
    using assms(3) by (intro roundtrip_record_js) (simp add: storable_def)
  moreover have "w_intentId r = iid" using seg_pre_storable [OF assms(1)] by simp
  ultimately show ?thesis
    using assms(2) by (simp add: update_record_def Let_def quiet_def next_io_def put_saved del: jsonRoundTrip.simps)
qed

lemma fresh_storable:
  assumes "\<And>x. hex64 (sha x)" "isIsoDate now" "validateIntent i = Inr ()" "canonicalJson (intent_js i) = Inr t"
    and "json_clean (w_payload i)"
  shows "storable sha (sha key) (fresh_record sha key i (undef_text t) now)"
proof -
  let ?r = "fresh_record sha key i (undef_text t) now"
  have "validateIntent ?r = Inr ()" "intent_js ?r = intent_js i"
    using assms(3) by (auto simp: fresh_record_def validateIntent_def intent_js_def split: if_splits)
  then show ?thesis using assms(1,2,4,5)
    by (simp add: storable_def valid_record_def fingerprint_of_def)
      (simp add: fresh_record_def hasAnyPreparedField_def prepared_states_def record_clean_def)
qed

lemma absent_read: "hex64 iid \<Longrightarrow> map_of j iid = None \<Longrightarrow> read_record sha j iid = Inr None"
  by (simp add: read_record_def)

lemma reserve_quiet:
  assumes key: "idempotency_key_ok key" and i: "validateIntent i = Inr ()" "json_clean (w_payload i)"
    and t: "canonicalJson (intent_js i) = Inr (Some t)" "utf8_length t \<le> MAX_WRITE_INTENT_BYTES"
    and sha: "\<And>x. hex64 (sha x)" and w: "map_of (journal w) (sha key) = None" "length (journal w) < MAX_WRITE_INTENT_RECORDS"
    and q: "quiet w" "isIsoDate (clock w)" "clean_journal (journal w)"
  defines "r \<equiv> fresh_record sha key i t (clock w)"
  shows "reserve sha key i w = (Ret r, saved (sha key) r w) \<and> seg_pre sha (sha key) r (saved (sha key) r w)"
proof -
  have st: "storable sha (sha key) r"
    using fresh_storable [of sha "clock w" i "Some t" key] sha q(2) i t by (simp add: r_def undef_text_def)
  have absent: "read_record sha (journal w) (sha key) = Inr None"
    using sha w(1) by (intro absent_read)
  have "jsonRoundTrip (JObj (record_js r)) = Inr (Some (JObj (record_js r)))"
    using st by (intro roundtrip_record_js) (simp add: storable_def)
  moreover have "w_intentId r = sha key" by (simp add: r_def fresh_record_def)
  ultimately have "create r w = (Ret (), saved (sha key) r w)"
    using w(1) q(1) by (simp add: create_def quiet_def next_io_def put_saved del: jsonRoundTrip.simps)
  then show ?thesis
    using key i(1) t w(2) absent st q(2,3)
    by (simp add: reserve_def bindA_apply readA_apply Let_def r_def undef_text_def seg_pre_def read_save_same store.inv_save)
qed

lemma approve_quiet:
  assumes pre: "seg_pre sha iid r w" and q: "quiet w" and r: "w_state r = Awaiting_approval"
  defines "r1 \<equiv> r\<lparr> w_state := Approved, w_updatedAt := clock w \<rparr>"
  shows "approve sha iid (w_fingerprint r) w = (Ret r1, saved iid r1 w) \<and> seg_pre sha iid r1 (saved iid r1 w)"
proof -
  have st: "storable sha iid r1"
    unfolding r1_def using seg_pre_storable [OF pre] seg_pre_clock [OF pre] r
    by (intro storable_restate) (auto simp: prepared_states_def)
  with saved_pre [OF pre st] update_record_quiet [OF pre q, of "\<lambda>r. r\<lparr> w_state := Approved \<rparr>"] r show ?thesis
    by (simp add: approve_def bindA_apply seg_pre_getById [OF pre] r1_def)
qed

lemma start_quiet:
  assumes pre: "seg_pre sha iid r w" and q: "quiet w" and r: "w_state r = Approved" "w_rawTransaction r = None"
  defines "r1 \<equiv> r\<lparr> w_state := Preparing, w_updatedAt := clock w \<rparr>"
  shows "exec_start sha build iid w = (Ret (Suspend Await_prepare), saved iid r1 w) \<and> seg_pre sha iid r1 (saved iid r1 w)"
proof -
  have st: "storable sha iid r1"
    unfolding r1_def using seg_pre_storable [OF pre] seg_pre_clock [OF pre] r
    by (intro storable_restate) (auto simp: prepared_states_def)
  have "markPreparing sha iid w = (Ret r1, saved iid r1 w)"
    using op_on_record(3) [OF pre r(1)] update_record_quiet [OF pre q, of "\<lambda>r. r\<lparr> w_state := Preparing \<rparr>"] st
    by (simp add: r1_def)
  with saved_pre [OF pre st] r show ?thesis
    by (simp add: exec_start_def bindA_apply catchA_apply seg_pre_getById [OF pre] needs_preparation_def falsy_str_def)
qed

lemma prepared_of_spread:
  assumes "validatePreparedTransaction p = Inr ()" "isPlainObject (p_metadata p)"
  shows "prepared_of ((spread_prepared p r)\<lparr> w_updatedAt := now \<rparr>) = p"
  using validatePrepared_ok [OF assms(1)] assms(2)
  by (cases "p_metadata p") (auto simp: prepared_of_def spread_prepared_def meta_js_def)

lemma on_prepared_quiet:
  assumes pre: "seg_pre sha iid r w" and q: "quiet w" and r: "w_state r = Preparing" "w_rawTransaction r = None"
    and p: "validatePreparedTransaction p = Inr ()" "isPlainObject (p_metadata p)" "json_clean (p_metadata p)"
  defines "r1 \<equiv> (spread_prepared p r)\<lparr> w_updatedAt := clock w \<rparr>"
  shows "exec_on_prepared sha iid (Inr p) w = (Ret (Suspend (Await_submit p)), saved iid r1 w)
    \<and> seg_pre sha iid r1 (saved iid r1 w)"
proof -
  have st: "storable sha iid r1"
    unfolding r1_def using seg_pre_storable [OF pre] seg_pre_clock [OF pre] r p
    by (intro storable_spread) (auto simp: meta_ok_def)
  have r': "w_state r \<in> {Approved, Preparing}" using r by simp
  have "recordPrepared sha iid p w = (Ret r1, saved iid r1 w)"
    using recordPrepared_eq [OF pre r'] p(1) update_record_quiet [OF pre q, of "spread_prepared p"] st
    by (simp add: r1_def)
  moreover have "prepared_of r1 = p" unfolding r1_def using p(1,2) by (rule prepared_of_spread)
  ultimately show ?thesis
    using saved_pre [OF pre st] by (simp add: exec_on_prepared_def bindA_apply catchA_apply exec_continue_def)
qed

lemma finish_quiet:
  assumes pre: "seg_pre sha iid r w" and q: "quiet w" and r: "w_state r \<in> {Submitting, Outcome_unknown}"
    and res: "json_clean (JObj (build (p_txid p) (p_metadata p)))"
  defines "r1 \<equiv> r\<lparr> w_state := Submitted, w_error := None, w_updatedAt := clock w \<rparr>"
  defines "r2 \<equiv> r1\<lparr> w_result := Some (build (p_txid p) (p_metadata p)), w_updatedAt := clock w \<rparr>"
  shows "exec_finish sha build iid p w = (Ret (Finished (build (p_txid p) (p_metadata p))), saved iid r2 (saved iid r1 w))
    \<and> seg_pre sha iid r2 (saved iid r2 (saved iid r1 w))"
proof -
  have str: "storable sha iid r" using seg_pre_storable [OF pre] by simp
  then have np: "\<not> unprepared r" using r storable_not_unprepared [of sha iid r] by (auto simp: prepared_states_def)
  have st1: "storable sha iid r1"
    unfolding r1_def using str seg_pre_clock [OF pre] r by (intro storable_restate) (auto simp: prepared_states_def)
  have pre1: "seg_pre sha iid r1 (saved iid r1 w)" using pre st1 by (rule saved_pre)
  have s1: "w_state r1 = Submitted" by (simp add: r1_def)
  have st2: "storable sha iid r2"
    unfolding r2_def using st1 seg_pre_clock [OF pre] s1 res by (rule storable_with_result)
  have "markBroadcastSucceeded sha iid w = (Ret r1, saved iid r1 w)"
    using op_on_record(7) [OF pre np] update_record_quiet [OF pre q, of "\<lambda>r. r\<lparr> w_state := Submitted, w_error := None \<rparr>"] st1
    by (simp add: r1_def)
  moreover have "complete sha iid (build (p_txid p) (p_metadata p)) (saved iid r1 w) = (Ret r2, saved iid r2 (saved iid r1 w))"
    using op_on_record(8) [OF pre1 s1] st2 q
      update_record_quiet [OF pre1, of "\<lambda>r. r\<lparr> w_result := Some (build (p_txid p) (p_metadata p)) \<rparr>"]
    by (simp add: r2_def)
  ultimately show ?thesis using saved_pre [OF pre1 st2] by (simp add: exec_finish_def bindA_apply Let_def)
qed

lemma on_submitted_quiet:
  "to_lower t = to_lower (p_txid p) \<Longrightarrow> exec_on_submitted sha build iid p (Inr t) w = exec_finish sha build iid p w"
  by (simp add: exec_on_submitted_def bindA_apply catchA_apply)


section \<open>The run of an execution ends\<close>

lemma exec_continue_rank: "exec_continue r b w = (Ret n, w') \<Longrightarrow> pc_rank n \<le> (if b then 1 else 3)"
  by (auto simp: exec_continue_def)

lemma exec_finish_rank: "exec_finish sha build iid p w = (Ret n, w') \<Longrightarrow> pc_rank n = 0"
  by (auto simp: exec_finish_def bindA_Ret Let_def)

lemma fail_preparation_throws: "fail_preparation sha iid e w \<noteq> (Ret a, w')"
  by (auto simp: fail_preparation_def bindA_apply split: prod.splits outcome.splits)

lemma exec_start_rank:
  assumes "exec_start sha build iid w = (Ret n, w')"
  shows "pc_rank n \<le> 3"
proof -
  let ?prep = "catchA (bindA (markPreparing sha iid) (\<lambda>_. retA (Suspend Await_prepare))) (fail_preparation sha iid)"
  have prep: "pc_rank n = 2" if "?prep w1 = (Ret n, w')" for w1
    using that by (auto simp: catchA_apply bindA_apply fail_preparation_throws split: prod.splits outcome.splits)
  obtain r where r: "getById sha iid w = (Ret r, w)"
    using assms by (auto simp: exec_start_def bindA_Ret getById_Ret)
  consider (fin) res where "n = Finished res" | (cont) "exec_continue r False w = (Ret n, w')" | (prep) "?prep w = (Ret n, w')"
    using assms r by (auto simp: exec_start_def bindA_Ret Let_def bindA_apply [of "getById sha iid"] split: if_splits)
  then show ?thesis using prep exec_continue_rank [of r False w n w'] by cases auto
qed

text \<open>Each resumption gets closer to the end.\<close>

lemma exec_resume_rank:
  assumes "exec_resume sha cb iid pc w = (Ret n, w')"
  shows "pc_rank n < pc_rank (Suspend pc)"
proof (cases pc)
  case Await_prepare
  with assms obtain r w1 where "exec_continue r True w1 = (Ret n, w')"
    by (auto simp: exec_on_prepared_def bindA_Ret)
  with Await_prepare exec_continue_rank [of r True w1 n w'] show ?thesis by simp
next
  case (Await_reconcile p)
  with assms exec_finish_rank [of sha "cb_buildResult cb" iid p] show ?thesis
    by (auto simp: exec_on_reconciled_def bindA_Ret split: if_splits)
next
  case (Await_expired p)
  with assms show ?thesis
    by (auto simp: exec_on_expired_def bindA_Ret split: if_splits)
next
  case (Await_submit p)
  with assms exec_finish_rank [of sha "cb_buildResult cb" iid p] show ?thesis
    by (auto simp: exec_on_submitted_def bindA_Ret)
qed

lemma exec_drive_finishes: "pc_rank n \<le> k \<Longrightarrow> exec_drive k sha cb iid n w = (Ret m, w') \<Longrightarrow> \<exists>res. m = Finished res"
proof (induction k arbitrary: n w)
  case 0
  then show ?case by (cases n rule: pc_rank.cases) auto
next
  case (Suc k)
  show ?case
  proof (cases n)
    case (Suspend pc)
    with Suc.prems obtain n1 w1 where "exec_resume sha cb iid pc w = (Ret n1, w1)"
      and d: "exec_drive k sha cb iid n1 w1 = (Ret m, w')" by (auto simp: bindA_Ret)
    with exec_resume_rank [of sha cb iid pc w n1 w1] Suspend Suc.prems(1) have "pc_rank n1 \<le> k" by simp
    then show ?thesis using Suc.IH d by blast
  next
    case (Finished res)
    with Suc.prems show ?thesis by auto
  qed
qed

end
