(* ===== verification/WriteService.thy ===== *)
theory WriteService
  imports WriteCompletion
begin

text \<open>
  The write service as a whole: any interleaving of \<open>reserve\<close>, \<open>approve\<close>, \<open>decline\<close> and the
  segments of executions, with failing writes, crashes and restarts. A ghost log, newest
  entry first, records each call of \<open>approve\<close> and each call of \<open>callbacks.submit\<close>. The
  invariant ties the log, the suspended executions and the journal together.
\<close>

section \<open>The machine\<close>

datatype ghost = G_approve string string | G_submit string string

record sys =
  s_journal :: journal
  s_lock :: lock_state
  s_pc :: "nat \<Rightarrow> exec_pc option"
  s_log :: "ghost list"

definition sys_init :: sys where
  "sys_init = \<lparr> s_journal = [], s_lock = lock_init, s_pc = (\<lambda>_. None), s_log = [] \<rparr>"

text \<open>A new process: the promise chains and suspended executions are gone, the files stay.\<close>

definition restart :: "sys \<Rightarrow> sys" where
  "restart s = s\<lparr> s_lock := lock_init, s_pc := (\<lambda>_. None) \<rparr>"

definition world_of :: "sys \<Rightarrow> io_outcome list \<Rightarrow> string \<Rightarrow> world" where
  "world_of s io now = \<lparr> journal = s_journal s, io_script = io, clock = now \<rparr>"

definition after_call :: "sys \<Rightarrow> 'a outcome \<times> world \<Rightarrow> sys" where
  "after_call s res = (let s1 = s\<lparr> s_journal := journal (snd res) \<rparr> in
     case fst res of Crash \<Rightarrow> restart s1 | _ \<Rightarrow> s1)"

definition call_log :: "string \<Rightarrow> exec_pc \<Rightarrow> ghost list" where
  "call_log iid pc = (case pc of Await_submit p \<Rightarrow> [G_submit iid (p_rawTransaction p)] | _ \<Rightarrow> [])"

text \<open>The end of a segment of ticket \<open>t\<close>: the next callback is called, or the lock is left.\<close>

definition after_segment :: "nat \<Rightarrow> sys \<Rightarrow> exec_next outcome \<times> world \<Rightarrow> sys" where
  "after_segment t s res = (let s1 = s\<lparr> s_journal := journal (snd res) \<rparr> in
     case fst res of
       Ret (Suspend pc) \<Rightarrow>
         s1\<lparr> s_pc := (s_pc s1)(t := Some pc), s_log := call_log (ticket_id (s_lock s) t) pc @ s_log s1 \<rparr>
     | Ret (Finished v) \<Rightarrow> s1\<lparr> s_pc := (s_pc s1)(t := None), s_lock := leave t (s_lock s1) \<rparr>
     | Throw e \<Rightarrow> s1\<lparr> s_pc := (s_pc s1)(t := None), s_lock := leave t (s_lock s1) \<rparr>
     | Crash \<Rightarrow> restart s1)"

definition segment_begin :: "(string \<Rightarrow> string) \<Rightarrow> callbacks \<Rightarrow> io_outcome list \<Rightarrow> string \<Rightarrow> nat \<Rightarrow> sys \<Rightarrow> sys" where
  "segment_begin sha cb io now t s =
     after_segment t (s\<lparr> s_lock := begin_run t (s_lock s) \<rparr>)
       (exec_start sha (cb_buildResult cb) (ticket_id (s_lock s) t) (world_of s io now))"

definition segment_resume :: "(string \<Rightarrow> string) \<Rightarrow> callbacks \<Rightarrow> io_outcome list \<Rightarrow> string \<Rightarrow> nat \<Rightarrow> exec_pc \<Rightarrow> sys \<Rightarrow> sys" where
  "segment_resume sha cb io now t pc s =
     after_segment t s (exec_resume sha cb (ticket_id (s_lock s) t) pc (world_of s io now))"

definition call_approve :: "(string \<Rightarrow> string) \<Rightarrow> string \<Rightarrow> string \<Rightarrow> io_outcome list \<Rightarrow> string \<Rightarrow> sys \<Rightarrow> sys" where
  "call_approve sha iid fp io now s =
     after_call (s\<lparr> s_log := G_approve iid fp # s_log s \<rparr>) (approve sha iid fp (world_of s io now))"

inductive svc_step :: "(string \<Rightarrow> string) \<Rightarrow> sys \<Rightarrow> sys \<Rightarrow> bool" for sha where
  svc_reserve: "isIsoDate now \<Longrightarrow> json_clean (w_payload i) \<Longrightarrow>
     svc_step sha s (after_call s (reserve sha key i (world_of s io now)))"
| svc_approve: "isIsoDate now \<Longrightarrow> svc_step sha s (call_approve sha iid fp io now s)"
| svc_decline: "isIsoDate now \<Longrightarrow> svc_step sha s (after_call s (decline sha iid (world_of s io now)))"
| svc_request: "hex64 iid \<Longrightarrow> svc_step sha s (s\<lparr> s_lock := enter iid (s_lock s) \<rparr>)"
| svc_begin: "isIsoDate now \<Longrightarrow> callbacks_ok cb \<Longrightarrow> may_start (s_lock s) t \<Longrightarrow>
     svc_step sha s (segment_begin sha cb io now t s)"
| svc_resume: "isIsoDate now \<Longrightarrow> callbacks_ok cb \<Longrightarrow> s_pc s t = Some pc \<Longrightarrow>
     svc_step sha s (segment_resume sha cb io now t pc s)"
| svc_crash: "svc_step sha s (restart s)"

inductive svc_reachable :: "(string \<Rightarrow> string) \<Rightarrow> sys \<Rightarrow> bool" for sha where
  svc_init: "svc_reachable sha sys_init"
| svc_next: "svc_reachable sha s \<Longrightarrow> svc_step sha s s' \<Longrightarrow> svc_reachable sha s'"

section \<open>The life of a record\<close>

text \<open>The edges of \<open>approve\<close> and \<open>decline\<close>.\<close>

definition review_edge :: "write_record \<Rightarrow> write_record \<Rightarrow> bool" where
  "review_edge r r' \<longleftrightarrow> w_state r = Awaiting_approval \<and> w_state r' \<in> {Approved, Declined}
     \<and> same_request r r' \<and> same_prepared r r'"

definition evolves :: "write_record \<Rightarrow> write_record \<Rightarrow> bool" where
  "evolves r r' \<longleftrightarrow> same_request r r' \<and> (unprepared_ok r \<longrightarrow> unprepared_ok r')
     \<and> (w_state r \<in> set prepared_states \<longrightarrow> w_state r' \<in> set prepared_states \<and> same_prepared r r')
     \<and> (w_state r \<in> {Declined, Rejected, Failed_before_submission, Expired} \<longrightarrow> r' = r)"

lemma evolves_refl [simp]: "evolves r r"
  by (simp add: evolves_def same_request_def same_prepared_def)

lemma evolves_trans: "evolves r r' \<Longrightarrow> evolves r' r'' \<Longrightarrow> evolves r r''"
  by (auto simp: evolves_def same_request_def same_prepared_def)

lemma exec_edge_evolves:
  "exec_edge r r' \<Longrightarrow> evolves r r' \<and> w_state r \<notin> {Awaiting_approval, Declined} \<and> w_state r' \<notin> {Awaiting_approval, Declined}"
  by (auto simp: exec_edge_def evolves_def unprepared_ok_def same_prepared_def prepared_states_def)

lemma exec_edges_evolve:
  "exec_edge\<^sup>+\<^sup>+ r r' \<Longrightarrow> evolves r r' \<and> w_state r \<notin> {Awaiting_approval, Declined} \<and> w_state r' \<notin> {Awaiting_approval, Declined}"
  by (induction rule: tranclp_induct) (use exec_edge_evolves evolves_trans in blast)+

lemma review_edge_evolves: "review_edge r r' \<Longrightarrow> evolves r r'"
  by (auto simp: review_edge_def evolves_def unprepared_ok_def same_prepared_def prepared_states_def)

text \<open>
  What a step may do to the journal: readable records stay readable and evolve; a record
  that appears is awaiting approval; only a listed set of intents may leave the review states.
\<close>

definition journal_evolves :: "(string \<Rightarrow> string) \<Rightarrow> (string \<Rightarrow> write_record \<Rightarrow> bool) \<Rightarrow> journal \<Rightarrow> journal \<Rightarrow> bool" where
  "journal_evolves sha appr j j' \<longleftrightarrow>
     (\<forall>iid r. read_record sha j iid = Inr (Some r) \<longrightarrow>
        (\<exists>r'. read_record sha j' iid = Inr (Some r') \<and> evolves r r')) \<and>
     (\<forall>iid r'. read_record sha j' iid = Inr (Some r') \<longrightarrow>
        (\<exists>r. read_record sha j iid = Inr (Some r) \<and>
            (w_state r' \<in> {Awaiting_approval, Declined} \<or> w_state r \<notin> {Awaiting_approval, Declined} \<or> appr iid r'))
        \<or> w_state r' = Awaiting_approval \<and> w_rawTransaction r' = None)"

lemma journal_evolves_refl [simp]: "journal_evolves sha appr j j"
  unfolding journal_evolves_def by (metis evolves_refl)


text \<open>Reviews and reservations leave every record alone that is past approval.\<close>

definition calm :: "(string \<Rightarrow> string) \<Rightarrow> journal \<Rightarrow> journal \<Rightarrow> bool" where
  "calm sha j j' \<longleftrightarrow> (\<forall>iid r. read_record sha j iid = Inr (Some r) \<longrightarrow> w_state r \<noteq> Awaiting_approval \<longrightarrow>
     read_record sha j' iid = Inr (Some r))"

lemma calm_refl [simp]: "calm sha j j"
  by (simp add: calm_def)

lemma exec_moves_evolve:
  assumes "exec_moves sha iid j j'"
  shows "journal_evolves sha appr j j'"
proof -
  have other: "read_record sha j' i = read_record sha j i" if "i \<noteq> iid" for i
    using store.moves_star_other [OF assms that] .
  from store.moves_star_same [OF assms] show ?thesis
  proof
    assume "read_record sha j' iid = read_record sha j iid"
    with other have "read_record sha j' i = read_record sha j i" for i by (cases "i = iid") simp_all
    then show ?thesis unfolding journal_evolves_def by (metis evolves_refl)
  next
    assume "\<exists>r r'. read_record sha j iid = Inr (Some r) \<and> read_record sha j' iid = Inr (Some r') \<and> exec_edge\<^sup>+\<^sup>+ r r'"
    then obtain r r' where rr: "read_record sha j iid = Inr (Some r)" "read_record sha j' iid = Inr (Some r')"
      and "exec_edge\<^sup>+\<^sup>+ r r'" by blast
    with exec_edges_evolve [of r r'] have ev: "evolves r r'" and nr: "w_state r \<notin> {Awaiting_approval, Declined}" by auto
    have fwd: "\<exists>x'. read_record sha j' i = Inr (Some x') \<and> evolves x x'" if "read_record sha j i = Inr (Some x)" for i x
      using that rr ev other [of i] by (cases "i = iid") auto
    have bwd: "\<exists>x. read_record sha j i = Inr (Some x) \<and>
        (w_state x' \<in> {Awaiting_approval, Declined} \<or> w_state x \<notin> {Awaiting_approval, Declined} \<or> appr i x')"
      if "read_record sha j' i = Inr (Some x')" for i x'
      using that rr nr other [of i] by (cases "i = iid") auto
    show ?thesis unfolding journal_evolves_def using fwd bwd by blast
  qed
qed

text \<open>One saved review.\<close>

lemma review_saved:
  assumes "read_record sha j iid = Inr (Some r)" "review_edge r r'" "storable sha iid r'"
    and "w_state r' = Approved \<Longrightarrow> appr iid r'"
  shows "journal_evolves sha appr j (save_record iid r' j) \<and> calm sha j (save_record iid r' j)"
proof -
  have same: "read_record sha (save_record iid r' j) iid = Inr (Some r')" using assms(3) by (rule read_save_same)
  have other: "read_record sha (save_record iid r' j) i = read_record sha j i" if "i \<noteq> iid" for i
    using read_save_other [OF that] .
  have st: "w_state r = Awaiting_approval" "w_state r' \<in> {Approved, Declined}"
    using assms(2) by (auto simp: review_edge_def)
  have fwd: "\<exists>x'. read_record sha (save_record iid r' j) i = Inr (Some x') \<and> evolves x x'"
    if "read_record sha j i = Inr (Some x)" for i x
    using that assms(1) review_edge_evolves [OF assms(2)] same other [of i] by (cases "i = iid") auto
  have bwd: "\<exists>x. read_record sha j i = Inr (Some x) \<and>
      (w_state x' \<in> {Awaiting_approval, Declined} \<or> w_state x \<notin> {Awaiting_approval, Declined} \<or> appr i x')"
    if "read_record sha (save_record iid r' j) i = Inr (Some x')" for i x'
    using that assms(1,4) st same other [of i] by (cases "i = iid") auto
  have "calm sha j (save_record iid r' j)"
    using assms(1) st same other unfolding calm_def by (metis Inr_inject option.inject)
  with fwd bwd show ?thesis unfolding journal_evolves_def by blast
qed

definition review_sound :: "(string \<Rightarrow> string) \<Rightarrow> (string \<Rightarrow> write_record \<Rightarrow> bool) \<Rightarrow> journal \<Rightarrow> journal \<Rightarrow> bool" where
  "review_sound sha appr j j' \<longleftrightarrow> clean_journal j' \<and> journal_evolves sha appr j j' \<and> calm sha j j'"

lemma review_sound_refl: "clean_journal j \<Longrightarrow> review_sound sha appr j j"
  by (simp add: review_sound_def)

lemma review_update:
  assumes pre: "seg_pre sha iid r w" and r: "w_state r = Awaiting_approval" and st: "s \<in> {Approved, Declined}"
    and appr: "s = Approved \<Longrightarrow> appr iid (r\<lparr> w_state := s, w_updatedAt := clock w \<rparr>)"
  shows "review_sound sha appr (journal w) (journal (snd (update_record r (\<lambda>r. r\<lparr> w_state := s \<rparr>) w)))"
proof -
  let ?r1 = "r\<lparr> w_state := s, w_updatedAt := clock w \<rparr>"
  obtain out w' where upd: "update_record r (\<lambda>r. r\<lparr> w_state := s \<rparr>) w = (out, w')"
    by (cases "update_record r (\<lambda>r. r\<lparr> w_state := s \<rparr>) w")
  have id: "w_intentId r = iid" and stor: "storable sha iid r" using seg_pre_storable [OF pre] by auto
  have new: "storable sha iid ?r1"
    using stor seg_pre_clock [OF pre] r st by (intro storable_restate) (auto simp: prepared_states_def)
  have edge: "review_edge r ?r1"
    using r st by (auto simp: review_edge_def same_request_def same_prepared_def)
  have j: "clean_journal (journal w)" "read_record sha (journal w) iid = Inr (Some r)"
    using pre by (simp_all add: seg_pre_def)
  from new id have "storable sha (w_intentId r) ((r\<lparr> w_state := s \<rparr>)\<lparr> w_updatedAt := clock w \<rparr>)" by simp
  with upd show ?thesis
  proof (cases rule: update_record_cases)
    case saved
    with id have "journal w' = save_record iid ?r1 (journal w)" by simp
    then show ?thesis using review_saved [OF j(2) edge new] appr clean_save [OF j(1)] new upd
      by (auto simp: review_sound_def storable_def)
  next
    case lost
    then show ?thesis using upd j by (simp add: review_sound_refl)
  qed
qed


lemma approve_sound:
  assumes cl: "clean_journal (journal w)" "isIsoDate (clock w)"
  shows "review_sound sha (\<lambda>i r. i = iid \<and> w_fingerprint r = fp) (journal w) (journal (snd (approve sha iid fp w)))"
proof (cases "\<exists>r. read_record sha (journal w) iid = Inr (Some r)")
  case False
  then show ?thesis using cl
    by (auto simp: approve_def bindA_apply getById_eq review_sound_refl split: sum.splits option.splits)
next
  case True
  then obtain r where pre: "seg_pre sha iid r w" using cl by (auto simp: seg_pre_def)
  show ?thesis
  proof (cases "w_fingerprint r = fp \<and> w_state r = Awaiting_approval")
    case True
    with review_update [OF pre, of Approved "\<lambda>i r. i = iid \<and> w_fingerprint r = fp"] show ?thesis
      by (simp add: approve_def bindA_apply seg_pre_getById [OF pre])
  next
    case False
    then show ?thesis using cl by (auto simp: approve_def bindA_apply seg_pre_getById [OF pre] review_sound_refl)
  qed
qed

lemma decline_sound:
  assumes cl: "clean_journal (journal w)" "isIsoDate (clock w)"
  shows "review_sound sha appr (journal w) (journal (snd (decline sha iid w)))"
proof (cases "\<exists>r. read_record sha (journal w) iid = Inr (Some r)")
  case False
  then show ?thesis using cl
    by (auto simp: decline_def bindA_apply getById_eq review_sound_refl split: sum.splits option.splits)
next
  case True
  then obtain r where pre: "seg_pre sha iid r w" using cl by (auto simp: seg_pre_def)
  then show ?thesis using cl review_update [OF pre, of Declined appr]
    by (cases "w_state r = Awaiting_approval")
      (auto simp: decline_def bindA_apply seg_pre_getById [OF pre] review_sound_refl)
qed

text \<open>A reservation adds at most one record, awaiting approval.\<close>

lemma create_journal:
  assumes "storable sha (w_intentId r) r"
  shows "journal (snd (create r w)) = journal w
    \<or> map_of (journal w) (w_intentId r) = None \<and>
      (journal (snd (create r w)) = save_record (w_intentId r) r (journal w)
       \<or> journal (snd (create r w)) = AList.update (w_intentId r) (new_file None) (journal w))"
proof -
  have rt: "jsonRoundTrip (JObj (record_js r)) = Inr (Some (JObj (record_js r)))"
    using assms by (intro roundtrip_record_js) (simp add: storable_def)
  obtain io w1 where io: "next_io w = (io, w1)" by (cases "next_io w")
  then show ?thesis using rt put_saves [of "w_intentId r" r w1] next_io_journal [OF io]
    by (cases io) (auto simp: create_def put_def simp del: jsonRoundTrip.simps)
qed

lemma create_sound:
  assumes st: "storable sha (w_intentId r) r" and cl: "clean_journal (journal w)"
    and r: "w_state r = Awaiting_approval" "w_rawTransaction r = None"
  shows "review_sound sha appr (journal w) (journal (snd (create r w)))"
  using create_journal [OF st, of w]
proof (elim disjE conjE)
  assume "journal (snd (create r w)) = journal w"
  with cl show ?thesis by (simp add: review_sound_refl)
next
  let ?j = "save_record (w_intentId r) r (journal w)"
  assume none: "map_of (journal w) (w_intentId r) = None" and j: "journal (snd (create r w)) = ?j"
  have absent: "read_record sha (journal w) (w_intentId r) = Inr None"
    using none st by (intro absent_read) (simp_all add: storable_def)
  have same: "read_record sha ?j (w_intentId r) = Inr (Some r)" using st by (rule read_save_same)
  have other: "read_record sha ?j i = read_record sha (journal w) i" if "i \<noteq> w_intentId r" for i
    using read_save_other [OF that] .
  have keep: "read_record sha ?j i = Inr (Some x)" if "read_record sha (journal w) i = Inr (Some x)" for i x
    using that absent other [of i] by (cases "i = w_intentId r") auto
  have new: "read_record sha (journal w) i = Inr (Some x) \<or> x = r" if "read_record sha ?j i = Inr (Some x)" for i x
    using that same other [of i] by (cases "i = w_intentId r") auto
  have "clean_journal ?j" using st cl by (simp add: clean_save storable_def)
  moreover have "journal_evolves sha appr (journal w) ?j"
    unfolding journal_evolves_def using keep new r evolves_refl by blast
  ultimately show ?thesis using keep j by (simp add: review_sound_def calm_def)
next
  let ?j = "AList.update (w_intentId r) (new_file None) (journal w)"
  assume none: "map_of (journal w) (w_intentId r) = None" and j: "journal (snd (create r w)) = ?j"
  have hex: "hex64 (w_intentId r)" using st by (simp add: storable_def)
  have absent: "read_record sha (journal w) (w_intentId r) = Inr None"
    using none hex by (rule absent_read [rotated])
  have same: "\<forall>x. read_record sha ?j (w_intentId r) \<noteq> Inr (Some x)"
    by (simp add: read_record_def update_conv' new_file_def)
  have other: "read_record sha ?j i = read_record sha (journal w) i" if "i \<noteq> w_intentId r" for i
    using that by (simp add: read_record_def update_conv')
  have iff: "read_record sha ?j i = Inr (Some x) \<longleftrightarrow> read_record sha (journal w) i = Inr (Some x)" for i x
    using absent same other [of i] by (cases "i = w_intentId r") auto
  have "clean_journal ?j" using cl
    by (auto simp: clean_journal_def update_conv' new_file_def distinct_update split: if_splits simp del: json_clean.simps)
  moreover have "journal_evolves sha appr (journal w) ?j"
    unfolding journal_evolves_def using iff evolves_refl by blast
  ultimately show ?thesis using iff j by (simp add: review_sound_def calm_def)
qed

lemma reserve_sound:
  assumes sha: "\<And>x. hex64 (sha x)" and cl: "clean_journal (journal w)" "isIsoDate (clock w)" "json_clean (w_payload i)"
  shows "review_sound sha appr (journal w) (journal (snd (reserve sha key i w)))"
proof -
  have made: "review_sound sha appr (journal w) (journal (snd (create (fresh_record sha key i (undef_text t) (clock w)) w)))"
    if "validateIntent i = Inr ()" "canonicalJson (intent_js i) = Inr t" for t
    using fresh_storable [OF sha cl(2) that cl(3)] cl(1)
    by (intro create_sound) (simp_all add: fresh_record_def)
  show ?thesis using cl(1) made
    by (auto simp: reserve_def bindA_apply readA_apply liftA_def Let_def review_sound_refl
        split: sum.splits option.splits prod.splits outcome.splits)
qed


section \<open>The invariant\<close>

definition live_ok :: "(string \<Rightarrow> string) \<Rightarrow> sys \<Rightarrow> bool" where
  "live_ok sha s \<longleftrightarrow> (\<forall>t pc. s_pc s t = Some pc \<longrightarrow> t < next_ticket (s_lock s) \<and> status (s_lock s) t = Running
     \<and> pc_ok sha (s_journal s) (ticket_id (s_lock s) t) pc)"

definition records_ok :: "(string \<Rightarrow> string) \<Rightarrow> journal \<Rightarrow> ghost list \<Rightarrow> bool" where
  "records_ok sha j log \<longleftrightarrow> (\<forall>iid r. read_record sha j iid = Inr (Some r) \<longrightarrow> unprepared_ok r \<and>
     (w_state r \<notin> {Awaiting_approval, Declined} \<longrightarrow> G_approve iid (w_fingerprint r) \<in> set log))"

text \<open>Each submission in the log: its bytes are on disk, and an approval came before it.\<close>

definition submitted_ok :: "(string \<Rightarrow> string) \<Rightarrow> journal \<Rightarrow> ghost list \<Rightarrow> bool" where
  "submitted_ok sha j log \<longleftrightarrow> (\<forall>later iid raw before. log = later @ G_submit iid raw # before \<longrightarrow>
     (\<exists>r. read_record sha j iid = Inr (Some r) \<and> w_state r \<in> set prepared_states
        \<and> w_rawTransaction r = Some raw \<and> G_approve iid (w_fingerprint r) \<in> set before))"

definition sys_inv :: "(string \<Rightarrow> string) \<Rightarrow> sys \<Rightarrow> bool" where
  "sys_inv sha s \<longleftrightarrow> clean_journal (s_journal s) \<and> lock_inv (s_lock s) \<and> live_ok sha s \<and> records_ok sha (s_journal s) (s_log s)
     \<and> submitted_ok sha (s_journal s) (s_log s)"

lemma submitted_ok_Nil [simp]: "submitted_ok sha j []"
  by (simp add: submitted_ok_def)

lemma submitted_ok_evolves:
  assumes "submitted_ok sha j log" "journal_evolves sha appr j j'"
  shows "submitted_ok sha j' log"
  unfolding submitted_ok_def
proof (intro allI impI)
  fix later iid raw before
  assume "log = later @ G_submit iid raw # before"
  with assms(1) obtain r where r: "read_record sha j iid = Inr (Some r)" "w_state r \<in> set prepared_states"
    "w_rawTransaction r = Some raw" "G_approve iid (w_fingerprint r) \<in> set before"
    unfolding submitted_ok_def by blast
  with assms(2) obtain r' where "read_record sha j' iid = Inr (Some r')" "evolves r r'"
    unfolding journal_evolves_def by blast
  with r show "\<exists>r. read_record sha j' iid = Inr (Some r) \<and> w_state r \<in> set prepared_states
      \<and> w_rawTransaction r = Some raw \<and> G_approve iid (w_fingerprint r) \<in> set before"
    by (auto simp: evolves_def same_request_def same_prepared_def)
qed

lemma submitted_ok_approve: "submitted_ok sha j (G_approve i fp # log) \<longleftrightarrow> submitted_ok sha j log"
  unfolding submitted_ok_def by (auto simp: Cons_eq_append_conv)

lemma submitted_ok_submit:
  assumes "submitted_ok sha j log" "read_record sha j iid = Inr (Some r)" "w_state r \<in> set prepared_states"
    "w_rawTransaction r = Some raw" "G_approve iid (w_fingerprint r) \<in> set log"
  shows "submitted_ok sha j (G_submit iid raw # log)"
  using assms unfolding submitted_ok_def by (fastforce simp: Cons_eq_append_conv)

lemma records_ok_evolves:
  assumes "records_ok sha j old" "journal_evolves sha appr j j'"
    and log: "set old \<subseteq> set log" "\<And>i r. appr i r \<Longrightarrow> G_approve i (w_fingerprint r) \<in> set log"
  shows "records_ok sha j' log"
  unfolding records_ok_def
proof (intro allI impI)
  fix iid r'
  assume r': "read_record sha j' iid = Inr (Some r')"
  show "unprepared_ok r' \<and> (w_state r' \<notin> {Awaiting_approval, Declined} \<longrightarrow> G_approve iid (w_fingerprint r') \<in> set log)"
  proof (cases "w_state r' = Awaiting_approval \<and> w_rawTransaction r' = None")
    case True
    then show ?thesis by (simp add: unprepared_ok_def)
  next
    case False
    with assms(2) r' obtain r where r: "read_record sha j iid = Inr (Some r)"
      and st: "w_state r' \<in> {Awaiting_approval, Declined} \<or> w_state r \<notin> {Awaiting_approval, Declined} \<or> appr iid r'"
      unfolding journal_evolves_def by blast
    from assms(2) r r' have ev: "evolves r r'" unfolding journal_evolves_def by fastforce
    from assms(1) r have "unprepared_ok r" "w_state r \<notin> {Awaiting_approval, Declined} \<longrightarrow> G_approve iid (w_fingerprint r) \<in> set old"
      unfolding records_ok_def by blast+
    with ev st log(1) log(2) [of iid r'] show ?thesis
      by (auto simp: evolves_def same_request_fingerprint same_request_def)
  qed
qed

lemma pc_ok_cong: "read_record sha j iid = read_record sha j' iid \<Longrightarrow> pc_ok sha j iid pc = pc_ok sha j' iid pc"
  by (cases pc) (simp_all add: in_flight_def)

lemma pc_ok_record:
  "pc_ok sha j iid pc \<Longrightarrow> \<exists>r. read_record sha j iid = Inr (Some r) \<and> w_state r \<in> {Preparing, Submitting, Outcome_unknown}"
  by (cases pc) (auto simp: in_flight_def)

lemma pc_ok_calm: "calm sha j j' \<Longrightarrow> pc_ok sha j iid pc \<Longrightarrow> pc_ok sha j' iid pc"
  using pc_ok_record [of sha j iid pc] pc_ok_cong [of sha j iid j' pc] by (force simp: calm_def)

lemma sys_inv_init: "sys_inv sha sys_init"
  by (simp add: sys_inv_def sys_init_def clean_journal_def lock_inv_init live_ok_def records_ok_def read_record_def)

lemma sys_inv_restart: "sys_inv sha s \<Longrightarrow> sys_inv sha (restart s)"
  by (simp add: sys_inv_def restart_def lock_inv_init live_ok_def records_ok_def)

lemma sys_inv_after_call:
  assumes inv: "sys_inv sha s" and rs: "review_sound sha appr (s_journal s) (journal (snd res))"
    and log: "\<And>i r. appr i r \<Longrightarrow> G_approve i (w_fingerprint r) \<in> set (s_log s)"
  shows "sys_inv sha (after_call s res)"
proof -
  let ?s1 = "s\<lparr> s_journal := journal (snd res) \<rparr>"
  have ev: "journal_evolves sha appr (s_journal s) (journal (snd res))" and calm: "calm sha (s_journal s) (journal (snd res))"
    and cl: "clean_journal (journal (snd res))" using rs by (simp_all add: review_sound_def)
  have "records_ok sha (s_journal s) (s_log s)" using inv by (simp add: sys_inv_def)
  then have "records_ok sha (journal (snd res)) (s_log s)"
    using ev subset_refl log by (rule records_ok_evolves)
  moreover have "live_ok sha ?s1" using inv pc_ok_calm [OF calm] by (simp add: sys_inv_def live_ok_def)
  ultimately have "sys_inv sha ?s1" using inv cl submitted_ok_evolves [OF _ ev] by (simp add: sys_inv_def)
  then show ?thesis by (auto simp: after_call_def Let_def sys_inv_restart split: outcome.split)
qed

lemma sys_inv_log_approve: "sys_inv sha s \<Longrightarrow> sys_inv sha (s\<lparr> s_log := G_approve iid fp # s_log s \<rparr>)"
  by (auto simp: sys_inv_def live_ok_def records_ok_def submitted_ok_approve)


lemma seg_sound_other:
  "seg_sound sha iid j res \<Longrightarrow> i \<noteq> iid \<Longrightarrow> read_record sha (journal (snd res)) i = read_record sha j i"
  by (auto simp: seg_sound_def store.moves_star_other)

lemma live_other:
  assumes "sys_inv sha s" "t < next_ticket (s_lock s)" "status (s_lock s) t = Running"
    and "s_pc s u = Some pc" "u \<noteq> t" "seg_sound sha (ticket_id (s_lock s) t) (s_journal s) res"
  shows "u < next_ticket (s_lock s) \<and> status (s_lock s) u = Running
    \<and> pc_ok sha (journal (snd res)) (ticket_id (s_lock s) u) pc"
proof -
  from assms have u: "u < next_ticket (s_lock s)" "status (s_lock s) u = Running"
    "pc_ok sha (s_journal s) (ticket_id (s_lock s) u) pc" and "lock_inv (s_lock s)"
    by (auto simp: sys_inv_def live_ok_def)
  with assms(2,3,5) have "ticket_id (s_lock s) u \<noteq> ticket_id (s_lock s) t"
    using lock_inv_exclusive by metis
  with u seg_sound_other [OF assms(6)] show ?thesis by (metis pc_ok_cong)
qed

text \<open>The journal part of the invariant after a segment.\<close>

lemma segment_journal:
  assumes "sys_inv sha s" "seg_sound sha iid (s_journal s) res"
  shows "clean_journal (journal (snd res)) \<and> records_ok sha (journal (snd res)) (s_log s)
    \<and> submitted_ok sha (journal (snd res)) (s_log s)"
proof -
  have mv: "exec_moves sha iid (s_journal s) (journal (snd res))" using assms(2) by (simp add: seg_sound_def)
  have ev: "journal_evolves sha (\<lambda>_ _. False) (s_journal s) (journal (snd res))" using mv by (rule exec_moves_evolve)
  have "records_ok sha (journal (snd res)) (s_log s)"
    using assms(1) by (intro records_ok_evolves [OF _ ev subset_refl]) (simp_all add: sys_inv_def)
  with store.moves_star_inv [OF mv] submitted_ok_evolves [OF _ ev] assms(1) show ?thesis
    by (simp add: sys_inv_def)
qed

lemma in_flight_submission:
  assumes "clean_journal j" "records_ok sha j log" "submitted_ok sha j log" "in_flight sha j iid p"
  shows "submitted_ok sha j (G_submit iid (p_rawTransaction p) # log)"
proof -
  from assms(4) obtain r where r: "read_record sha j iid = Inr (Some r)" "w_state r \<in> {Submitting, Outcome_unknown}"
    "prepared_of r = p" by (auto simp: in_flight_def)
  then have st: "w_state r \<in> set prepared_states" by (auto simp: prepared_states_def)
  with r assms(1) have "w_rawTransaction r = Some (p_rawTransaction p)"
    using storable_prepared [of sha iid r] read_record_storable by (fastforce simp: prepared_of_def)
  moreover have "G_approve iid (w_fingerprint r) \<in> set log"
    using assms(2) r(1,2) unfolding records_ok_def by (metis (no_types) insert_iff empty_iff write_state.distinct)
  ultimately show ?thesis using submitted_ok_submit [OF assms(3) r(1) st] by blast
qed

lemma records_ok_log: "records_ok sha j log \<Longrightarrow> set log \<subseteq> set log' \<Longrightarrow> records_ok sha j log'"
  unfolding records_ok_def by blast

lemma sys_inv_after_segment:
  assumes inv: "sys_inv sha s" and t: "t < next_ticket (s_lock s)" "status (s_lock s) t = Running"
    and ss: "seg_sound sha (ticket_id (s_lock s) t) (s_journal s) res"
  shows "sys_inv sha (after_segment t s res)"
proof -
  let ?iid = "ticket_id (s_lock s) t" and ?j = "journal (snd res)"
  have j: "clean_journal ?j" "records_ok sha ?j (s_log s)" "submitted_ok sha ?j (s_log s)"
    using segment_journal [OF inv ss] by simp_all
  note other = live_other [OF inv t _ _ ss]
  have lock: "lock_inv (s_lock s)" using inv by (simp add: sys_inv_def)
  have left: "sys_inv sha (s\<lparr> s_journal := ?j, s_pc := (s_pc s)(t := None), s_lock := leave t (s_lock s) \<rparr>)"
    using j lock_inv_leave [OF lock t] other
    by (auto simp: sys_inv_def live_ok_def leave_def Let_def)
  have crash: "sys_inv sha (restart (s\<lparr> s_journal := ?j \<rparr>))"
    using j by (simp add: sys_inv_def restart_def lock_inv_init live_ok_def)
  have susp: "sys_inv sha (s\<lparr> s_journal := ?j, s_pc := (s_pc s)(t := Some pc), s_log := call_log ?iid pc @ s_log s \<rparr>)"
    if pc: "pc_ok sha ?j ?iid pc" for pc
  proof -
    have "submitted_ok sha ?j (call_log ?iid pc @ s_log s)"
      using pc j in_flight_submission [OF j] by (cases pc) (simp_all add: call_log_def)
    moreover have "records_ok sha ?j (call_log ?iid pc @ s_log s)" using records_ok_log [OF j(2)] by simp
    ultimately show ?thesis using j lock pc t other by (auto simp: sys_inv_def live_ok_def)
  qed
  show ?thesis using left crash susp ss
    by (cases "fst res") (auto simp: after_segment_def Let_def seg_sound_def split: exec_next.splits)
qed

lemma sys_inv_begin_run:
  assumes inv: "sys_inv sha s" and t: "may_start (s_lock s) t"
  shows "sys_inv sha (s\<lparr> s_lock := begin_run t (s_lock s) \<rparr>)"
  using inv t lock_inv_begin [of "s_lock s" t]
  by (auto simp: sys_inv_def live_ok_def begin_run_def may_start_def)

lemma enter_earlier:
  "t < next_ticket l \<Longrightarrow> t < next_ticket (enter iid l) \<and> status (enter iid l) t = status l t
     \<and> ticket_id (enter iid l) t = ticket_id l t"
  by (simp add: enter_def Let_def)

lemma sys_inv_request:
  assumes inv: "sys_inv sha s"
  shows "sys_inv sha (s\<lparr> s_lock := enter iid (s_lock s) \<rparr>)"
proof -
  have "live_ok sha (s\<lparr> s_lock := enter iid (s_lock s) \<rparr>)"
    using inv enter_earlier [of _ "s_lock s" iid] by (simp add: sys_inv_def live_ok_def)
  then show ?thesis using inv lock_inv_enter [of "s_lock s" iid] by (simp add: sys_inv_def)
qed

lemma svc_step_inv:
  assumes step: "svc_step sha s s'" and sha: "\<And>x. hex64 (sha x)" and inv: "sys_inv sha s"
  shows "sys_inv sha s'"
  using step inv
proof (induction rule: svc_step.induct)
  case (svc_reserve now i s key io)
  then show ?case
    using reserve_sound [of sha "world_of s io now" i "\<lambda>_ _. False" key, OF sha]
    by (intro sys_inv_after_call [where appr = "\<lambda>_ _. False"]) (simp_all add: sys_inv_def world_of_def)
next
  case (svc_approve now s iid fp io)
  then show ?case unfolding call_approve_def
    using approve_sound [of "world_of s io now" sha iid fp] sys_inv_log_approve
    by (intro sys_inv_after_call [where appr = "\<lambda>i r. i = iid \<and> w_fingerprint r = fp"])
      (auto simp: sys_inv_def world_of_def)
next
  case (svc_decline now s iid io)
  then show ?case
    using decline_sound [of "world_of s io now" sha "\<lambda>_ _. False" iid]
    by (intro sys_inv_after_call [where appr = "\<lambda>_ _. False"]) (simp_all add: sys_inv_def world_of_def)
next
  case (svc_request iid s)
  then show ?case using sys_inv_request by blast
next
  case (svc_begin now cb s t io)
  then have "seg_sound sha (ticket_id (s_lock s) t) (s_journal s)
      (exec_start sha (cb_buildResult cb) (ticket_id (s_lock s) t) (world_of s io now))"
    using start_sound [of "world_of s io now" sha "ticket_id (s_lock s) t" "cb_buildResult cb"]
    by (auto simp: sys_inv_def world_of_def records_ok_def callbacks_ok_def simp del: json_clean.simps)
  with svc_begin show ?case unfolding segment_begin_def
    by (intro sys_inv_after_segment sys_inv_begin_run) (auto simp: begin_run_def may_start_def)
next
  case (svc_resume now cb s t pc io)
  then have live: "t < next_ticket (s_lock s)" "status (s_lock s) t = Running"
    "pc_ok sha (s_journal s) (ticket_id (s_lock s) t) pc" by (auto simp: sys_inv_def live_ok_def)
  with svc_resume have "seg_sound sha (ticket_id (s_lock s) t) (s_journal s)
      (exec_resume sha cb (ticket_id (s_lock s) t) pc (world_of s io now))"
    using resume_sound [of sha "world_of s io now" "ticket_id (s_lock s) t" pc cb]
    by (simp add: sys_inv_def world_of_def)
  with svc_resume live show ?case unfolding segment_resume_def by (intro sys_inv_after_segment)
next
  case (svc_crash s)
  then show ?case by (rule sys_inv_restart)
qed

lemma svc_reachable_inv:
  assumes "svc_reachable sha s" "\<And>x. hex64 (sha x)"
  shows "sys_inv sha s"
  using assms by (induction rule: svc_reachable.induct) (auto intro: sys_inv_init svc_step_inv)


lemma svc_step_evolves:
  assumes step: "svc_step sha s s'" and sha: "\<And>x. hex64 (sha x)" and inv: "sys_inv sha s"
  shows "\<exists>appr. journal_evolves sha appr (s_journal s) (s_journal s')"
proof -
  have call: "s_journal (after_call s0 res) = journal (snd res)" for s0 and res :: "'b outcome \<times> world"
    by (auto simp: after_call_def Let_def restart_def split: outcome.split)
  have seg: "s_journal (after_segment t s0 res) = journal (snd res)" for t s0 res
    by (auto simp: after_segment_def Let_def restart_def split: outcome.split exec_next.split)
  from step inv show ?thesis
  proof (induction rule: svc_step.induct)
    case (svc_reserve now i s key io)
    then show ?case using reserve_sound [of sha "world_of s io now" i _ key, OF sha]
      by (auto simp: call sys_inv_def world_of_def review_sound_def)
  next
    case (svc_approve now s iid fp io)
    then show ?case using approve_sound [of "world_of s io now" sha iid fp]
      by (auto simp: call_approve_def call sys_inv_def world_of_def review_sound_def)
  next
    case (svc_decline now s iid io)
    then show ?case using decline_sound [of "world_of s io now" sha _ iid]
      by (auto simp: call sys_inv_def world_of_def review_sound_def)
  next
    case (svc_request iid s)
    then show ?case using journal_evolves_refl by auto
  next
    case (svc_begin now cb s t io)
    then have "seg_sound sha (ticket_id (s_lock s) t) (s_journal s)
        (exec_start sha (cb_buildResult cb) (ticket_id (s_lock s) t) (world_of s io now))"
      using start_sound [of "world_of s io now" sha "ticket_id (s_lock s) t" "cb_buildResult cb"]
      by (auto simp: sys_inv_def world_of_def records_ok_def callbacks_ok_def simp del: json_clean.simps)
    then show ?case unfolding segment_begin_def seg seg_sound_def using exec_moves_evolve by blast
  next
    case (svc_resume now cb s t pc io)
    then have "seg_sound sha (ticket_id (s_lock s) t) (s_journal s)
        (exec_resume sha cb (ticket_id (s_lock s) t) pc (world_of s io now))"
      using resume_sound [of sha "world_of s io now" "ticket_id (s_lock s) t" pc cb]
      by (auto simp: sys_inv_def world_of_def live_ok_def)
    then show ?case unfolding segment_resume_def seg seg_sound_def using exec_moves_evolve by blast
  next
    case (svc_crash s)
    then show ?case using journal_evolves_refl by (auto simp: restart_def)
  qed
qed


end
