(* ===== verification/WriteGuarantees.thy ===== *)
theory WriteGuarantees
  imports WriteService
begin

text \<open>
  What the write service promises, stated over the reachable states of WriteService, with a
  concrete run that reserves, approves and submits an intent.
\<close>

section \<open>A run of the service\<close>

definition demo_sha :: "string \<Rightarrow> string" where
  "demo_sha s = replicate 64 CHR ''a''"

definition demo_id :: string where
  "demo_id = replicate 64 CHR ''a''"

definition demo_intent :: write_intent where
  "demo_intent = \<lparr> w_operation = ''transfer_assets'', w_network = ''testnet'', w_signerAddress = ''NXV7'',
     w_payload = JObj [(''amount'', JStr ''5'')] \<rparr>"

definition demo_text :: string where
  "demo_text = (case canonicalJson (intent_js demo_intent) of Inr (Some t) \<Rightarrow> t | _ \<Rightarrow> [])"

definition demo_tx :: prepared_tx where
  "demo_tx = \<lparr> p_rawTransaction = ''00ff'', p_txid = ''0x'' @ replicate 64 CHR ''b'',
     p_validUntilBlock = NInt 100, p_metadata = JObj [] \<rparr>"

definition demo_callbacks :: callbacks where
  "demo_callbacks = \<lparr> cb_prepare = Inr demo_tx, cb_submit = (\<lambda>p. Inr (p_txid p)), cb_reconcile = (\<lambda>_. Inr False),
     cb_isExpired = (\<lambda>_. Inr False), cb_buildResult = (\<lambda>t m. [(''ok'', JBool True)]) \<rparr>"

definition demo_now :: string where
  "demo_now = ''2026-01-02T03:04:05.678Z''"

definition demo_reserved :: sys where
  "demo_reserved = after_call sys_init (reserve demo_sha ''key-0001'' demo_intent (world_of sys_init [] demo_now))"

definition demo_approved :: sys where
  "demo_approved = call_approve demo_sha demo_id demo_id [] demo_now demo_reserved"

definition demo_requested :: sys where
  "demo_requested = demo_approved\<lparr> s_lock := enter demo_id (s_lock demo_approved) \<rparr>"

definition demo_begun :: sys where
  "demo_begun = segment_begin demo_sha demo_callbacks [] demo_now 0 demo_requested"

definition demo_submitting :: sys where
  "demo_submitting = segment_resume demo_sha demo_callbacks [] demo_now 0 Await_prepare demo_begun"

lemma demo_sha_id: "demo_sha x = demo_id"
  by (simp add: demo_sha_def demo_id_def)

lemma demo_hex: "hex64 demo_id" "hex64 (demo_sha x)"
  unfolding demo_sha_id by code_simp+

lemma demo_date: "isIsoDate demo_now"
  by code_simp

lemma demo_valid: "validatePreparedTransaction demo_tx = Inr ()" "isPlainObject (p_metadata demo_tx)"
  "json_clean (p_metadata demo_tx)" "json_clean (w_payload demo_intent)" "callbacks_ok demo_callbacks"
  "validateIntent demo_intent = Inr ()" "idempotency_key_ok ''key-0001''"
proof -
  show "validatePreparedTransaction demo_tx = Inr ()" "validateIntent demo_intent = Inr ()" "idempotency_key_ok ''key-0001''"
    by code_simp+
qed (simp_all add: demo_tx_def demo_intent_def callbacks_ok_def demo_callbacks_def meta_ok_def)

lemma demo_canonical: "canonicalJson (intent_js demo_intent) = Inr (Some demo_text)" "utf8_length demo_text \<le> MAX_WRITE_INTENT_BYTES"
proof -
  show "canonicalJson (intent_js demo_intent) = Inr (Some demo_text)" by code_simp
  have "length demo_text \<le> 150" by code_simp
  moreover have "utf8_length t \<le> 2 * length t" for t by (induction t) (simp_all add: utf8_length_def)
  from this [of demo_text] have "utf8_length demo_text \<le> 2 * length demo_text" .
  ultimately show "utf8_length demo_text \<le> MAX_WRITE_INTENT_BYTES" by (simp add: MAX_WRITE_INTENT_BYTES_def)
qed

lemma after_call_saved:
  "after_call s (Ret a, saved iid r (world_of s io now)) = s\<lparr> s_journal := save_record iid r (s_journal s) \<rparr>"
  by (simp add: after_call_def world_of_def)

abbreviation demo_r0 :: write_record where
  "demo_r0 \<equiv> fresh_record demo_sha ''key-0001'' demo_intent demo_text demo_now"

abbreviation demo_r1 :: write_record where
  "demo_r1 \<equiv> demo_r0\<lparr> w_state := Approved, w_updatedAt := demo_now \<rparr>"

abbreviation demo_r2 :: write_record where
  "demo_r2 \<equiv> demo_r1\<lparr> w_state := Preparing, w_updatedAt := demo_now \<rparr>"

abbreviation demo_r3 :: write_record where
  "demo_r3 \<equiv> (spread_prepared demo_tx demo_r2)\<lparr> w_updatedAt := demo_now \<rparr>"

text \<open>The record found in a quiet world made from a state.\<close>

lemma seg_pre_world:
  "seg_pre sha iid r (saved iid r (world_of s [] now)) \<Longrightarrow> s_journal s' = save_record iid r (s_journal s) \<Longrightarrow>
   seg_pre sha iid r (world_of s' [] now) \<and> quiet (world_of s' [] now)"
  by (simp add: seg_pre_def world_of_def quiet_def)

lemma demo_reserved_eq:
  "s_journal demo_reserved = save_record demo_id demo_r0 [] \<and> s_pc demo_reserved = (\<lambda>_. None)
   \<and> s_log demo_reserved = [] \<and> s_lock demo_reserved = lock_init
   \<and> seg_pre demo_sha demo_id demo_r0 (world_of demo_reserved [] demo_now) \<and> quiet (world_of demo_reserved [] demo_now)"
proof -
  let ?w = "world_of sys_init [] demo_now"
  have "reserve demo_sha ''key-0001'' demo_intent ?w = (Ret demo_r0, saved demo_id demo_r0 ?w)
      \<and> seg_pre demo_sha demo_id demo_r0 (saved demo_id demo_r0 ?w)"
    using reserve_quiet [of "''key-0001''" demo_intent demo_text demo_sha ?w] demo_valid demo_canonical demo_hex demo_date
    by (simp add: demo_sha_id world_of_def sys_init_def quiet_def clean_journal_def MAX_WRITE_INTENT_RECORDS_def)
  then show ?thesis using seg_pre_world [of demo_sha demo_id demo_r0 sys_init demo_now demo_reserved]
    by (simp add: demo_reserved_def after_call_saved) (simp add: sys_init_def)
qed


lemma demo_approved_eq:
  "s_journal demo_approved = save_record demo_id demo_r1 (s_journal demo_reserved) \<and> s_pc demo_approved = (\<lambda>_. None)
   \<and> s_log demo_approved = [G_approve demo_id demo_id] \<and> s_lock demo_approved = lock_init
   \<and> seg_pre demo_sha demo_id demo_r1 (world_of demo_approved [] demo_now) \<and> quiet (world_of demo_approved [] demo_now)"
proof -
  let ?w = "world_of demo_reserved [] demo_now" and ?s = "demo_reserved\<lparr> s_log := [G_approve demo_id demo_id] \<rparr>"
  have pre: "seg_pre demo_sha demo_id demo_r0 ?w" "quiet ?w" and log: "s_log demo_reserved = []"
    using demo_reserved_eq by simp_all
  have clock: "clock ?w = demo_now" by (simp add: world_of_def)
  have w: "?w = world_of ?s [] demo_now" by (simp add: world_of_def)
  have r: "w_state demo_r0 = Awaiting_approval" "w_fingerprint demo_r0 = demo_id"
    by (simp_all add: fresh_record_def demo_sha_id)
  have "approve demo_sha demo_id demo_id ?w = (Ret demo_r1, saved demo_id demo_r1 ?w)
      \<and> seg_pre demo_sha demo_id demo_r1 (saved demo_id demo_r1 ?w)"
    using approve_quiet [OF pre r(1)] unfolding r(2) clock .
  note ap = this
  then have ap_eq: "demo_approved = ?s\<lparr> s_journal := save_record demo_id demo_r1 (s_journal ?s) \<rparr>"
    using after_call_saved [of ?s demo_r1 demo_id demo_r1 "[]" demo_now] log
    unfolding demo_approved_def call_approve_def w by simp
  have eq: "s_journal demo_approved = save_record demo_id demo_r1 (s_journal demo_reserved)
    \<and> s_pc demo_approved = (\<lambda>_. None) \<and> s_log demo_approved = [G_approve demo_id demo_id] \<and> s_lock demo_approved = lock_init"
    unfolding ap_eq using demo_reserved_eq by simp
  with seg_pre_world ap show ?thesis by blast
qed

lemma demo_requested_eq:
  "s_journal demo_requested = s_journal demo_approved \<and> s_pc demo_requested = (\<lambda>_. None)
   \<and> s_log demo_requested = [G_approve demo_id demo_id] \<and> s_lock demo_requested = enter demo_id lock_init
   \<and> seg_pre demo_sha demo_id demo_r1 (world_of demo_requested [] demo_now) \<and> quiet (world_of demo_requested [] demo_now)"
proof -
  have "world_of demo_requested [] demo_now = world_of demo_approved [] demo_now"
    by (simp add: world_of_def demo_requested_def)
  then show ?thesis using demo_approved_eq by (simp add: demo_requested_def)
qed

lemma demo_begun_eq:
  "s_journal demo_begun = save_record demo_id demo_r2 (s_journal demo_requested) \<and> s_pc demo_begun = [0 \<mapsto> Await_prepare]
   \<and> s_log demo_begun = [G_approve demo_id demo_id] \<and> s_lock demo_begun = begin_run 0 (enter demo_id lock_init)
   \<and> seg_pre demo_sha demo_id demo_r2 (world_of demo_begun [] demo_now) \<and> quiet (world_of demo_begun [] demo_now)"
proof -
  let ?w = "world_of demo_requested [] demo_now"
  have pre: "seg_pre demo_sha demo_id demo_r1 ?w" "quiet ?w" using demo_requested_eq by simp_all
  have clock: "clock ?w = demo_now" by (simp add: world_of_def)
  have r: "w_state demo_r1 = Approved" "w_rawTransaction demo_r1 = None" by (simp_all add: fresh_record_def)
  have ex: "exec_start demo_sha (cb_buildResult demo_callbacks) demo_id ?w = (Ret (Suspend Await_prepare), saved demo_id demo_r2 ?w)"
    "seg_pre demo_sha demo_id demo_r2 (saved demo_id demo_r2 ?w)"
    using start_quiet [OF pre r] unfolding clock by auto
  have "ticket_id (s_lock demo_requested) 0 = demo_id" using demo_requested_eq by (simp add: enter_def lock_init_def Let_def)
  then have eq: "s_journal demo_begun = save_record demo_id demo_r2 (s_journal demo_requested) \<and> s_pc demo_begun = [0 \<mapsto> Await_prepare]
    \<and> s_log demo_begun = [G_approve demo_id demo_id] \<and> s_lock demo_begun = begin_run 0 (enter demo_id lock_init)"
    using ex(1) demo_requested_eq
    by (simp add: demo_begun_def segment_begin_def after_segment_def call_log_def Let_def) (simp add: world_of_def)
  with seg_pre_world [OF ex(2)] show ?thesis by blast
qed

lemma demo_submitting_eq:
  "s_pc demo_submitting = [0 \<mapsto> Await_submit demo_tx]
   \<and> s_log demo_submitting = [G_submit demo_id ''00ff'', G_approve demo_id demo_id]
   \<and> s_lock demo_submitting = begin_run 0 (enter demo_id lock_init)
   \<and> seg_pre demo_sha demo_id demo_r3 (world_of demo_submitting [] demo_now)"
proof -
  let ?w = "world_of demo_begun [] demo_now"
  have pre: "seg_pre demo_sha demo_id demo_r2 ?w" "quiet ?w" using demo_begun_eq by simp_all
  have clock: "clock ?w = demo_now" by (simp add: world_of_def)
  have r: "w_state demo_r2 = Preparing" "w_rawTransaction demo_r2 = None" by (simp_all add: fresh_record_def)
  have ex: "exec_on_prepared demo_sha demo_id (Inr demo_tx) ?w = (Ret (Suspend (Await_submit demo_tx)), saved demo_id demo_r3 ?w)"
    "seg_pre demo_sha demo_id demo_r3 (saved demo_id demo_r3 ?w)"
    using on_prepared_quiet [OF pre r demo_valid(1,2,3)] unfolding clock by auto
  have "ticket_id (s_lock demo_begun) 0 = demo_id" "cb_prepare demo_callbacks = Inr demo_tx"
    using demo_begun_eq by (simp_all add: begin_run_def enter_def lock_init_def Let_def demo_callbacks_def)
  then have eq: "s_journal demo_submitting = save_record demo_id demo_r3 (s_journal demo_begun)
    \<and> s_pc demo_submitting = [0 \<mapsto> Await_submit demo_tx]
    \<and> s_log demo_submitting = [G_submit demo_id (p_rawTransaction demo_tx), G_approve demo_id demo_id]
    \<and> s_lock demo_submitting = begin_run 0 (enter demo_id lock_init)"
    using ex(1) demo_begun_eq
    by (simp add: demo_submitting_def segment_resume_def after_segment_def call_log_def Let_def) (simp add: world_of_def)
  with seg_pre_world [OF ex(2)] show ?thesis by (simp add: demo_tx_def)
qed

lemma demo_reachable: "svc_reachable demo_sha demo_submitting"
proof -
  have 1: "svc_step demo_sha sys_init demo_reserved"
    unfolding demo_reserved_def using demo_date demo_valid(4) by (rule svc_reserve)
  have 2: "svc_step demo_sha demo_reserved demo_approved"
    unfolding demo_approved_def using demo_date by (rule svc_approve)
  have 3: "svc_step demo_sha demo_approved demo_requested"
    unfolding demo_requested_def using demo_hex(1) by (rule svc_request)
  have "may_start (s_lock demo_requested) 0"
    using demo_requested_eq by (simp add: may_start_def enter_def lock_init_def Let_def)
  then have 4: "svc_step demo_sha demo_requested demo_begun"
    unfolding demo_begun_def using demo_date demo_valid(5) by (intro svc_begin)
  have "s_pc demo_begun 0 = Some Await_prepare" using demo_begun_eq by simp
  then have 5: "svc_step demo_sha demo_begun demo_submitting"
    unfolding demo_submitting_def using demo_date demo_valid(5) by (intro svc_resume)
  show ?thesis using svc_next [OF svc_next [OF svc_next [OF svc_next [OF svc_next [OF svc_init 1] 2] 3] 4] 5] .
qed


section \<open>Guarantees\<close>

lemma reachable_submission:
  assumes "svc_reachable sha s" "\<And>x. hex64 (sha x)" "G_submit iid raw \<in> set (s_log s)"
  shows "\<exists>r. read_record sha (s_journal s) iid = Inr (Some r) \<and> w_rawTransaction r = Some raw"
proof -
  from assms(3) obtain later before where "s_log s = later @ G_submit iid raw # before" by (meson split_list)
  with svc_reachable_inv [OF assms(1,2)] show ?thesis unfolding sys_inv_def submitted_ok_def by blast
qed

text \<open>
  C1: at most one transaction is ever submitted for an intent. Over any interleaving of
  calls, with failing writes, crashes and restarts, two submissions of one intent carry the
  same bytes, so a retry cannot pay twice.
\<close>

theorem one_transaction_per_intent:
  assumes "svc_reachable sha s" "\<And>x. hex64 (sha x)"
    and "G_submit iid raw \<in> set (s_log s)" "G_submit iid raw' \<in> set (s_log s)"
  shows "raw = raw'"
  using reachable_submission [OF assms(1-3)] reachable_submission [OF assms(1,2,4)] by auto

lemma one_transaction_per_intent_witness:
  "{raw. G_submit demo_id raw \<in> set (s_log demo_submitting)} = {''00ff''}"
  using one_transaction_per_intent [OF demo_reachable demo_hex(2), of demo_id _ "''00ff''"] demo_submitting_eq by auto

text \<open>
  C2: write-ahead and approval. When a transaction is submitted, its bytes are in the journal,
  in a record whose fingerprint is the digest of its request, and \<open>approve\<close> was called for
  that intent with that fingerprint before.
\<close>

theorem submission_approved_and_journaled:
  assumes "svc_reachable sha s" "\<And>x. hex64 (sha x)" "s_log s = later @ G_submit iid raw # before"
  shows "\<exists>r. read_record sha (s_journal s) iid = Inr (Some r)
    \<and> w_state r \<in> {Submitting, Outcome_unknown, Submitted, Rejected, Expired} \<and> w_rawTransaction r = Some raw
    \<and> fingerprint_of sha r = Inr (w_fingerprint r) \<and> G_approve iid (w_fingerprint r) \<in> set before"
proof -
  have inv: "sys_inv sha s" using assms(1,2) by (rule svc_reachable_inv)
  with assms(3) obtain r where r: "read_record sha (s_journal s) iid = Inr (Some r)" "w_state r \<in> set prepared_states"
    "w_rawTransaction r = Some raw" "G_approve iid (w_fingerprint r) \<in> set before"
    unfolding sys_inv_def submitted_ok_def by blast
  moreover have "fingerprint_of sha r = Inr (w_fingerprint r)"
    using r(1) inv read_record_storable [of "s_journal s" sha iid r] by (simp add: sys_inv_def storable_def valid_record_def)
  ultimately show ?thesis by (auto simp: prepared_states_def)
qed

lemma submission_approved_and_journaled_witness:
  "\<exists>r. read_record demo_sha (s_journal demo_submitting) demo_id = Inr (Some r) \<and> w_rawTransaction r = Some ''00ff''"
proof -
  have "s_log demo_submitting = [] @ G_submit demo_id ''00ff'' # [G_approve demo_id demo_id]"
    using demo_submitting_eq by simp
  from submission_approved_and_journaled [OF demo_reachable demo_hex(2) this] show ?thesis by blast
qed

text \<open>C5: two executions that are running for the same intent are the same execution.\<close>

theorem executions_exclusive:
  assumes "svc_reachable sha s" "\<And>x. hex64 (sha x)"
    and "s_pc s t = Some pc" "s_pc s u = Some pc'" "ticket_id (s_lock s) t = ticket_id (s_lock s) u"
  shows "t = u"
proof -
  have inv: "sys_inv sha s" using assms(1,2) by (rule svc_reachable_inv)
  with assms(3,4) have "status (s_lock s) t = Running" "status (s_lock s) u = Running"
    "t < next_ticket (s_lock s)" "u < next_ticket (s_lock s)" by (auto simp: sys_inv_def live_ok_def)
  with inv assms(5) show ?thesis using lock_inv_exclusive by (auto simp: sys_inv_def)
qed

lemma executions_exclusive_witness:
  "{t. s_pc demo_submitting t \<noteq> None \<and>
     ticket_id (s_lock demo_submitting) t = ticket_id (s_lock demo_submitting) 0} = {0}"
proof -
  have pc: "s_pc demo_submitting 0 = Some (Await_submit demo_tx)" using demo_submitting_eq by simp
  moreover have "t = 0" if "s_pc demo_submitting t = Some pc'"
    "ticket_id (s_lock demo_submitting) t = ticket_id (s_lock demo_submitting) 0" for t pc'
    using executions_exclusive [OF demo_reachable demo_hex(2) that(1) pc that(2)] .
  ultimately show ?thesis by blast
qed

text \<open>
  C3: a record is never lost and its request never changes: whatever step the service takes,
  a readable record stays readable with the same request and fingerprint; once prepared it
  keeps its transaction; once declined, rejected, expired or failed it is final.
\<close>

theorem records_persist:
  assumes "svc_reachable sha s" "svc_step sha s s'" "\<And>x. hex64 (sha x)"
    and "read_record sha (s_journal s) iid = Inr (Some r)"
  shows "\<exists>r'. read_record sha (s_journal s') iid = Inr (Some r') \<and> intent_js r' = intent_js r
    \<and> w_fingerprint r' = w_fingerprint r \<and> w_createdAt r' = w_createdAt r
    \<and> (w_state r \<in> {Submitting, Outcome_unknown, Submitted, Rejected, Expired} \<longrightarrow>
         w_rawTransaction r' = w_rawTransaction r \<and> w_txid r' = w_txid r)
    \<and> (w_state r \<in> {Declined, Rejected, Failed_before_submission, Expired} \<longrightarrow> r' = r)"
proof -
  have "sys_inv sha s" using assms(1,3) by (rule svc_reachable_inv)
  with svc_step_evolves [OF assms(2,3)] obtain appr where "journal_evolves sha appr (s_journal s) (s_journal s')" by blast
  with assms(4) obtain r' where "read_record sha (s_journal s') iid = Inr (Some r')" "evolves r r'"
    unfolding journal_evolves_def by blast
  then show ?thesis
    by (intro exI [of _ r']) (auto simp: evolves_def same_request_def same_prepared_def intent_js_def prepared_states_def)
qed

lemma records_persist_witness:
  "\<exists>r'. read_record demo_sha (s_journal (restart demo_submitting)) demo_id = Inr (Some r')
     \<and> w_rawTransaction r' = Some ''00ff''"
proof -
  have st: "svc_step demo_sha demo_submitting (restart demo_submitting)" by (rule svc_crash)
  have "w_state demo_r3 = Submitting" "w_rawTransaction demo_r3 = Some ''00ff''"
    by (simp_all add: spread_prepared_def demo_tx_def)
  moreover have "read_record demo_sha (s_journal demo_submitting) demo_id = Inr (Some demo_r3)"
    using demo_submitting_eq by (simp add: seg_pre_def world_of_def)
  ultimately obtain r where r: "read_record demo_sha (s_journal demo_submitting) demo_id = Inr (Some r)"
    and st3: "w_state r = Submitting" "w_rawTransaction r = Some ''00ff''" by blast
  from records_persist [OF demo_reachable st demo_hex(2) r] obtain r' where
    "read_record demo_sha (s_journal (restart demo_submitting)) demo_id = Inr (Some r')"
    "w_state r \<in> {Submitting, Outcome_unknown, Submitted, Rejected, Expired} \<longrightarrow> w_rawTransaction r' = w_rawTransaction r"
    by blast
  with st3 show ?thesis by simp
qed


text \<open>
  C4: an approved intent, with every write durable, a valid prepared transaction and a
  submission that answers with its txid (in any letter case): \<open>execute\<close> returns the result
  built from the transaction, and the record on disk is submitted, with the transaction and
  the result, for the request that was approved.
\<close>

theorem execute_completes:
  assumes rec: "clean_journal (journal w)" "isIsoDate (clock w)" "read_record sha (journal w) iid = Inr (Some r)"
    and r: "w_state r = Approved" "w_rawTransaction r = None" and q: "io_script w = []"
    and p: "cb_prepare cb = Inr p" "validatePreparedTransaction p = Inr ()" "isPlainObject (p_metadata p)" "json_clean (p_metadata p)"
    and t: "cb_submit cb p = Inr t" "to_lower t = to_lower (p_txid p)"
    and res: "json_clean (JObj (cb_buildResult cb (p_txid p) (p_metadata p)))"
  shows "\<exists>w' r'. execute sha cb iid w = (Ret (Finished (cb_buildResult cb (p_txid p) (p_metadata p))), w')
    \<and> read_record sha (journal w') iid = Inr (Some r') \<and> w_state r' = Submitted
    \<and> w_result r' = Some (cb_buildResult cb (p_txid p) (p_metadata p))
    \<and> w_rawTransaction r' = Some (p_rawTransaction p) \<and> w_txid r' = Some (p_txid p)
    \<and> w_payload r' = w_payload r \<and> w_fingerprint r' = w_fingerprint r"
proof -
  have pre: "seg_pre sha iid r w" and q': "quiet w" using rec q by (simp_all add: seg_pre_def quiet_def)
  let ?r1 = "r\<lparr> w_state := Preparing, w_updatedAt := clock w \<rparr>"
  let ?w1 = "saved iid ?r1 w"
  have 1: "exec_start sha (cb_buildResult cb) iid w = (Ret (Suspend Await_prepare), ?w1)" "seg_pre sha iid ?r1 ?w1"
    using start_quiet [OF pre q' r] by simp_all
  let ?r2 = "(spread_prepared p ?r1)\<lparr> w_updatedAt := clock ?w1 \<rparr>"
  let ?w2 = "saved iid ?r2 ?w1"
  have 2: "exec_on_prepared sha iid (Inr p) ?w1 = (Ret (Suspend (Await_submit p)), ?w2)" "seg_pre sha iid ?r2 ?w2"
    using on_prepared_quiet [OF 1(2) _ _ _ p(2-4)] q' r by simp_all
  have s2: "w_state ?r2 \<in> {Submitting, Outcome_unknown}" by (simp add: spread_prepared_def)
  obtain r3 w3 where 3: "exec_finish sha (cb_buildResult cb) iid p ?w2 =
      (Ret (Finished (cb_buildResult cb (p_txid p) (p_metadata p))), w3)" "seg_pre sha iid r3 w3"
    "w_state r3 = Submitted" "w_result r3 = Some (cb_buildResult cb (p_txid p) (p_metadata p))"
    "w_rawTransaction r3 = Some (p_rawTransaction p)" "w_txid r3 = Some (p_txid p)" "w_payload r3 = w_payload r"
    "w_fingerprint r3 = w_fingerprint r"
    using finish_quiet [where build = "cb_buildResult cb" and p = p, OF 2(2) _ s2 res] q'
    by (auto simp: spread_prepared_def)
  have "execute sha cb iid w = (Ret (Finished (cb_buildResult cb (p_txid p) (p_metadata p))), w3)"
    using 1(1) 2(1) 3(1) p(1) t by (simp add: execute_def bindA_apply numeral_3_eq_3 on_submitted_quiet)
  with 3 show ?thesis by (auto simp: seg_pre_def)
qed

lemma execute_completes_witness:
  "\<exists>w'. execute demo_sha demo_callbacks demo_id (world_of demo_approved [] demo_now) = (Ret (Finished [(''ok'', JBool True)]), w')"
proof -
  let ?w = "world_of demo_approved [] demo_now"
  have w: "clean_journal (journal ?w)" "isIsoDate (clock ?w)" "read_record demo_sha (journal ?w) demo_id = Inr (Some demo_r1)"
    "io_script ?w = []" using demo_approved_eq by (simp_all add: seg_pre_def quiet_def)
  have r: "w_state demo_r1 = Approved" "w_rawTransaction demo_r1 = None" by (simp_all add: fresh_record_def)
  have cb: "cb_prepare demo_callbacks = Inr demo_tx" "cb_submit demo_callbacks demo_tx = Inr (p_txid demo_tx)"
    and res: "cb_buildResult demo_callbacks (p_txid demo_tx) (p_metadata demo_tx) = [(''ok'', JBool True)]"
    by (simp_all add: demo_callbacks_def)
  have "json_clean (JObj (cb_buildResult demo_callbacks (p_txid demo_tx) (p_metadata demo_tx)))" by (simp add: res)
  from execute_completes [OF w(1-3) r w(4) cb(1) demo_valid(1-3) cb(2) refl this] show ?thesis
    unfolding res by blast
qed

text \<open>Executing a completed intent again returns the recorded result; no callback can change it.\<close>

lemma execute_replays:
  "read_record sha (journal w) iid = Inr (Some r) \<Longrightarrow> w_state r = Submitted \<Longrightarrow> w_result r = Some res \<Longrightarrow>
   execute sha cb iid w = (Ret (Finished res), w)"
  by (simp add: execute_def exec_start_def bindA_apply getById_Some numeral_3_eq_3)

lemma demo_completed:
  "\<exists>r (w::world). read_record demo_sha (journal w) demo_id = Inr (Some r) \<and> w_state r = Submitted \<and> w_result r = Some [(''ok'', JBool True)]"
proof -
  let ?w = "world_of demo_submitting [] demo_now"
  have pre: "seg_pre demo_sha demo_id demo_r3 ?w" using demo_submitting_eq by simp
  have st: "w_state demo_r3 \<in> {Submitting, Outcome_unknown}" by (simp add: spread_prepared_def)
  have q: "quiet ?w" by (simp add: world_of_def quiet_def)
  have res: "json_clean (JObj [(''ok'', JBool True)])" by simp
  note fin = finish_quiet [where build = "\<lambda>_ _. [(''ok'', JBool True)]" and p = demo_tx, OF pre q st res]
  have "\<exists>r w. seg_pre demo_sha demo_id r w \<and> w_state r = Submitted \<and> w_result r = Some [(''ok'', JBool True)]"
    by (rule exI, rule exI, rule conjI, rule conjunct2 [OF fin]) simp
  then show ?thesis unfolding seg_pre_def by blast
qed

lemma execute_replays_witness:
  "\<exists>w. execute demo_sha demo_callbacks demo_id w = (Ret (Finished [(''ok'', JBool True)]), w)"
  using demo_completed execute_replays by metis

text \<open>
  Executing an intent that is not approved, declined, or over throws and changes nothing,
  whatever the callbacks would answer.
\<close>

lemma execute_refuses:
  "read_record sha (journal w) iid = Inr (Some r) \<Longrightarrow>
   w_state r \<in> {Awaiting_approval, Declined, Expired, Rejected, Failed_before_submission} \<Longrightarrow>
   \<exists>e. execute sha cb iid w = (Throw (ValidationError e), w)"
  by (auto simp: execute_def exec_start_def bindA_apply getById_Some terminal_error_def)

lemma execute_refuses_witness:
  "\<exists>e. execute demo_sha demo_callbacks demo_id (world_of demo_reserved [] demo_now)
     = (Throw (ValidationError e), world_of demo_reserved [] demo_now)"
proof -
  have "read_record demo_sha (journal (world_of demo_reserved [] demo_now)) demo_id = Inr (Some demo_r0)"
    using demo_reserved_eq by (simp add: seg_pre_def)
  from execute_refuses [OF this] show ?thesis by (simp add: fresh_record_def)
qed

lemma reserve_saved:
  assumes res: "reserve sha key i w = (Ret r, w')"
    and w: "clean_journal (journal w)" "isIsoDate (clock w)" "json_clean (w_payload i)" "\<And>x. hex64 (sha x)"
  shows "read_record sha (journal w') (sha key) = Inr (Some r)"
    and "reserve sha key i w' = (Ret r, w')"
    and "idempotency_key_ok key"
proof -
  have key: "idempotency_key_ok key" using res by (auto simp: reserve_def split: if_splits)
  obtain t where v: "validateIntent i = Inr ()" and t: "canonicalJson (intent_js i) = Inr t"
    using res key by (auto simp: reserve_def bindA_Ret liftA_def split: sum.splits)
  have size: "\<not> MAX_WRITE_INTENT_BYTES < utf8_length (undef_text t)"
    using res key v t by (auto simp: reserve_def bindA_Ret)
  let ?r = "fresh_record sha key i (undef_text t) (clock w)"
  have st: "storable sha (sha key) ?r" using fresh_storable [of sha "clock w" i t key] w v t by simp
  have saved: "read_record sha (journal w') (sha key) = Inr (Some r) \<and> w_fingerprint r = sha (undef_text t)"
  proof (cases "read_record sha (journal w) (sha key)")
    case (Inl e)
    with res key v t size show ?thesis by (auto simp: reserve_def bindA_Ret readA_apply)
  next
    case (Inr ro)
    show ?thesis
    proof (cases ro)
      case (Some r0)
      with res key v t size Inr show ?thesis by (auto simp: reserve_def bindA_Ret readA_apply split: if_splits)
    next
      case None
      with res key v t size Inr have c: "create ?r w = (Ret (), w')" and r: "r = ?r"
        by (auto simp: reserve_def bindA_Ret readA_apply Let_def split: if_splits)
      have rt: "jsonRoundTrip (JObj (record_js ?r)) = Inr (Some (JObj (record_js ?r)))"
        using st by (intro roundtrip_record_js) (simp add: storable_def)
      have "w_intentId ?r = sha key" by (simp add: fresh_record_def)
      then have "journal w' = save_record (sha key) ?r (journal w)"
        using c rt put_saves [of "sha key" ?r]
        by (auto simp: create_def split: if_splits prod.splits io_outcome.splits simp del: jsonRoundTrip.simps)
      with r st show ?thesis by (simp add: read_save_same fresh_record_def)
    qed
  qed
  then show "read_record sha (journal w') (sha key) = Inr (Some r)" by simp
  show "reserve sha key i w' = (Ret r, w')" using key v t size saved by (simp add: reserve_def bindA_apply readA_apply)
  show "idempotency_key_ok key" by (rule key)
qed

text \<open>
  C6: a reservation is idempotent. Once a key is reserved, reserving it again for a request
  with the same canonical text returns the record on disk and writes nothing; for any other
  request it is refused, as long as the digests of the two texts differ.
\<close>

theorem reserve_idempotent:
  assumes res: "reserve sha key i w = (Ret r, w')"
    and w: "clean_journal (journal w)" "isIsoDate (clock w)" "json_clean (w_payload i)" "\<And>x. hex64 (sha x)"
    and i': "validateIntent i' = Inr ()" "canonicalJson (intent_js i') = Inr t'"
      "utf8_length (undef_text t') \<le> MAX_WRITE_INTENT_BYTES"
  shows "reserve sha key i' w' =
    (if sha (undef_text t') = w_fingerprint r then Ret r
     else Throw (ValidationError ''Idempotency key is already bound to a different request''), w')"
  using reserve_saved [OF res w] i' by (simp add: reserve_def bindA_apply readA_apply)

lemma reserve_idempotent_witness:
  "reserve demo_sha ''key-0001'' demo_intent (saved demo_id demo_r0 (world_of sys_init [] demo_now))
     = (Ret demo_r0, saved demo_id demo_r0 (world_of sys_init [] demo_now))"
proof -
  let ?w = "world_of sys_init [] demo_now"
  have w: "clean_journal (journal ?w)" "isIsoDate (clock ?w)"
    using demo_date by (simp_all add: world_of_def sys_init_def clean_journal_def)
  have res: "reserve demo_sha ''key-0001'' demo_intent ?w = (Ret demo_r0, saved demo_id demo_r0 ?w)"
    using reserve_quiet [of "''key-0001''" demo_intent demo_text demo_sha ?w] demo_valid demo_canonical demo_hex demo_date
    by (simp add: demo_sha_id world_of_def sys_init_def quiet_def clean_journal_def MAX_WRITE_INTENT_RECORDS_def)
  have t: "utf8_length (undef_text (Some demo_text)) \<le> MAX_WRITE_INTENT_BYTES"
    using demo_canonical(2) by (simp add: undef_text_def)
  have "demo_sha (undef_text (Some demo_text)) = w_fingerprint demo_r0" by (simp add: fresh_record_def demo_sha_id)
  with reserve_idempotent [OF res w demo_valid(4) demo_hex(2) demo_valid(6) demo_canonical(1) t]
  show ?thesis by (simp only: if_True simp_thms)
qed



lemma jsort_intent:
  "jsort (intent_js i) = JObj [(''network'', JStr (w_network i)), (''operation'', JStr (w_operation i)),
     (''payload'', jsort (w_payload i)), (''signerAddress'', JStr (w_signerAddress i))]"
  by (simp add: intent_js_def)

lemma json_clean_intent: "json_clean (w_payload i) \<Longrightarrow> json_clean (intent_js i)"
  by (simp add: intent_js_def)

text \<open>
  C7: the text behind a fingerprint identifies the request: two requests have the same
  canonical text exactly if they agree on the operation, the network, the signer and, up to
  the order of object keys, the payload.
\<close>

theorem canonical_text_identifies_request:
  assumes "json_clean (w_payload i)" "json_clean (w_payload i')"
  shows "canonicalJson (intent_js i) = canonicalJson (intent_js i') \<longleftrightarrow>
    w_operation i = w_operation i' \<and> w_network i = w_network i' \<and> w_signerAddress i = w_signerAddress i'
    \<and> jsort (w_payload i) = jsort (w_payload i')"
  using canonicalJson_iff [OF json_clean_intent json_clean_intent, OF assms]
  by (auto simp only: jsort_intent jsval.inject list.inject prod.inject simp_thms)

lemma canonical_text_identifies_request_witness:
  "canonicalJson (intent_js (demo_intent\<lparr> w_payload := JObj [(''a'', JNull), (''b'', JBool True)] \<rparr>)) =
   canonicalJson (intent_js (demo_intent\<lparr> w_payload := JObj [(''b'', JBool True), (''a'', JNull)] \<rparr>))"
proof -
  have "json_clean (w_payload (demo_intent\<lparr> w_payload := JObj [(''a'', JNull), (''b'', JBool True)] \<rparr>))"
    "json_clean (w_payload (demo_intent\<lparr> w_payload := JObj [(''b'', JBool True), (''a'', JNull)] \<rparr>))" by simp_all
  from canonical_text_identifies_request [OF this] show ?thesis by simp
qed

text \<open>
  C10: no execution is lost in the queue: a waiting call may start as soon as every earlier
  call for the same intent is over, whatever happened in between.
\<close>

theorem queue_progress:
  assumes "lock_reachable s" "t < next_ticket s" "status s t = Waiting"
    and "\<And>u. u < t \<Longrightarrow> ticket_id s u = ticket_id s t \<Longrightarrow> status s u = Over"
  shows "may_start s t"
  using lock_inv_progress [OF lock_reachable_inv [OF assms(1)] assms(2,3)] assms(4) by (simp add: earlier_def)

lemma queue_progress_witness: "may_start (leave 0 (begin_run 0 (enter ''i'' (enter ''i'' lock_init)))) 1"
proof (rule queue_progress)
  have 1: "lock_reachable (enter ''i'' (enter ''i'' lock_init))"
    by (rule lr_step [OF lr_step [OF lr_init ls_enter] ls_enter])
  have "may_start (enter ''i'' (enter ''i'' lock_init)) 0" by (simp add: may_start_def enter_def lock_init_def)
  then have 2: "lock_reachable (begin_run 0 (enter ''i'' (enter ''i'' lock_init)))" by (rule lr_step [OF 1 ls_begin])
  show "lock_reachable (leave 0 (begin_run 0 (enter ''i'' (enter ''i'' lock_init))))"
    by (rule lr_step [OF 2 ls_leave]) (simp_all add: begin_run_def enter_def lock_init_def)
qed (auto simp: leave_def begin_run_def enter_def lock_init_def Let_def)

end
