(* ===== verification/WriteCoordinator.thy ===== *)
theory WriteCoordinator
  imports WriteGuarantees Validation Allowlist
begin

text \<open>
  src/services/write-coordinator.ts over the write service: a request is vetted before it is
  reserved, and an approved intent is turned into one call of the transaction services. The account
  check is \<open>getAccount\<close> of src/services/signer-provider.ts. \<open>ia\<close> and \<open>sh\<close> are the address functions of
  neon-js, as in Validation; the Neo and contract services are the functions of a record.

  The main results: what the coordinator does is something the write service does, and every intent
  it stores can be prepared (\<open>coordinator_vets_intents\<close>).
\<close>

section \<open>Requests\<close>

definition requireString :: "jsval \<Rightarrow> string \<Rightarrow> string result" where
  "requireString v name =
     (case v of
        JStr s \<Rightarrow> if trim s = [] then invalid (name @ '' must be a non-empty string'') else Inr (trim s)
      | _ \<Rightarrow> invalid (name @ '' must be a non-empty string''))"

definition requireArray :: "jsval \<Rightarrow> string \<Rightarrow> jsval list result" where
  "requireArray v name =
     (case v of
        JUndef \<Rightarrow> Inr []
      | JArr vs \<Rightarrow> Inr vs
      | _ \<Rightarrow> invalid (name @ '' must be an array''))"

definition requireRecord :: "jsval \<Rightarrow> string \<Rightarrow> jsobj result" where
  "requireRecord v name =
     (case own_props v of Some kvs \<Rightarrow> Inr kvs | None \<Rightarrow> invalid (name @ '' must be an object''))"

definition requireEncodedNef :: "jsval \<Rightarrow> (string \<times> string) result" where
  "requireEncodedNef v =
     bindR (requireRecord v ''nef'') (\<lambda>nef.
     case (oget nef ''encoding'', oget nef ''data'') of
       (JStr encoding, JStr d) \<Rightarrow>
         if encoding \<in> {''hex'', ''base64''} \<and> d \<noteq> [] then Inr (encoding, d)
         else invalid ''nef requires encoding ''
     | _ \<Rightarrow> invalid ''nef requires encoding '')"

definition coordinator_networks :: "string list" where
  "coordinator_networks = [''mainnet'', ''testnet'']"

definition coordinator_operations :: "string list" where
  "coordinator_operations = [''transfer_assets'', ''invoke_contract_write'', ''claim_gas'', ''deploy_contract'']"

definition validatePayload :: "(string \<Rightarrow> bool) \<Rightarrow> (string \<Rightarrow> string option) \<Rightarrow> string \<Rightarrow> jsobj \<Rightarrow> unit result" where
  "validatePayload ia sh operation payload =
     (if operation = ''transfer_assets'' then
        bindR (requireString (oget payload ''toAddress'') ''toAddress'') (\<lambda>to.
        bindR (validateAddress ia sh (JStr to)) (\<lambda>_.
        bindR (requireString (oget payload ''asset'') ''asset'') (\<lambda>_.
        bindR (validateTokenAmount (oget payload ''amount'')) (\<lambda>_. Inr ()))))
      else if operation = ''invoke_contract_write'' then
        bindR (requireString (oget payload ''scriptHash'') ''scriptHash'') (\<lambda>h.
        bindR (validateScriptHash (JStr h)) (\<lambda>_.
        bindR (requireString (oget payload ''operation'') ''operation'') (\<lambda>_.
        bindR (requireArray (oget payload ''args'') ''args'') (\<lambda>_. Inr ()))))
      else if operation = ''claim_gas'' then
        (if payload \<noteq> [] then invalid ''claim_gas payload must be empty'' else Inr ())
      else
        bindR (requireEncodedNef (oget payload ''nef'')) (\<lambda>_.
        bindR (requireRecord (oget payload ''manifest'') ''manifest'') (\<lambda>_. Inr ())))"

record write_request =
  q_operation :: string
  q_network :: string
  q_payload :: jsval

definition validateRequest :: "(string \<Rightarrow> bool) \<Rightarrow> (string \<Rightarrow> string option) \<Rightarrow> write_request \<Rightarrow> unit result" where
  "validateRequest ia sh q =
     (if q_network q \<notin> set coordinator_networks then invalid ''Write request requires an explicit mainnet or testnet network''
      else if q_operation q \<notin> set coordinator_operations then invalid ''Unsupported write operation: ''
      else bindR (requireRecord (q_payload q) ''payload'') (validatePayload ia sh (q_operation q)))"

definition request_intent :: "string \<Rightarrow> write_request \<Rightarrow> write_intent" where
  "request_intent signer q =
     \<lparr>w_operation = q_operation q, w_network = q_network q, w_signerAddress = signer, w_payload = q_payload q\<rparr>"

definition coordinator_reserve ::
    "(string \<Rightarrow> string) \<Rightarrow> (string \<Rightarrow> bool) \<Rightarrow> (string \<Rightarrow> string option) \<Rightarrow> string \<Rightarrow> string \<Rightarrow> write_request \<Rightarrow> (world, write_record) act" where
  "coordinator_reserve sha ia sh signer key q =
     bindA (liftA (validateRequest ia sh q)) (\<lambda>_. reserve sha key (request_intent signer q))"

section \<open>Execution\<close>

text \<open>\<open>getAccount\<close>: the one account the signer provider holds is named by its address.\<close>

definition getAccount :: "string \<Rightarrow> string \<Rightarrow> string result" where
  "getAccount signer requested =
     (if requested \<noteq> signer then invalid ''Requested signer does not match the configured signer address ''
      else Inr signer)"

record services =
  neo_network :: string
  contract_network :: string
  prepareTransfer :: "string \<Rightarrow> string \<Rightarrow> string \<Rightarrow> string \<Rightarrow> prepared_tx result"
  assertContractDeployed :: "string \<Rightarrow> unit result"
  prepareInvoke :: "string \<Rightarrow> string \<Rightarrow> string \<Rightarrow> jsval list \<Rightarrow> prepared_tx result"
  prepareClaimGas :: "string \<Rightarrow> prepared_tx result"
  prepareDeployment :: "string \<Rightarrow> string \<times> string \<Rightarrow> jsobj \<Rightarrow> (prepared_tx \<times> string \<times> string) result"
  neo_submit :: "prepared_tx \<Rightarrow> string result"
  contract_submit :: "prepared_tx \<Rightarrow> string result"
  getTransaction :: "string \<Rightarrow> unit result"
  getBlockCount :: "int result"

definition payload_props :: "write_record \<Rightarrow> jsobj" where
  "payload_props r = (case own_props (w_payload r) of Some kvs \<Rightarrow> kvs | None \<Rightarrow> [])"

definition coordinator_prepare ::
    "(string \<Rightarrow> bool) \<Rightarrow> (string \<Rightarrow> string option) \<Rightarrow> services \<Rightarrow> string \<Rightarrow> write_record \<Rightarrow> prepared_tx result" where
  "coordinator_prepare ia sh svc account intent =
     (let payload = payload_props intent in
      if w_operation intent = ''transfer_assets'' then
        bindR (requireString (oget payload ''toAddress'') ''toAddress'') (\<lambda>to.
        bindR (validateAddress ia sh (JStr to)) (\<lambda>addr.
        bindR (requireString (oget payload ''asset'') ''asset'') (\<lambda>asset.
        bindR (validateTokenAmount (oget payload ''amount'')) (\<lambda>amount.
        prepareTransfer svc account addr asset amount))))
      else if w_operation intent = ''invoke_contract_write'' then
        bindR (requireString (oget payload ''scriptHash'') ''scriptHash'') (\<lambda>h.
        bindR (validateScriptHash (JStr h)) (\<lambda>scriptHash.
        bindR (assertContractDeployed svc scriptHash) (\<lambda>_.
        bindR (requireString (oget payload ''operation'') ''operation'') (\<lambda>operation.
        bindR (requireArray (oget payload ''args'') ''args'') (\<lambda>args.
        prepareInvoke svc account scriptHash operation args)))))
      else if w_operation intent = ''claim_gas'' then prepareClaimGas svc account
      else if w_operation intent = ''deploy_contract'' then
        bindR (requireEncodedNef (oget payload ''nef'')) (\<lambda>nef.
        bindR (requireRecord (oget payload ''manifest'') ''manifest'') (\<lambda>manifest.
        bindR (prepareDeployment svc account nef manifest) (\<lambda>(transaction, contractHash, address).
        Inr (transaction\<lparr>p_metadata := JObj [(''contractHash'', JStr contractHash), (''address'', JStr address)]\<rparr>))))
      else invalid ''Unsupported write operation: '')"

text \<open>\<open>/unknown transaction|not found|unknown item|unknown entity/i\<close>\<close>

definition unknown_transaction :: "string \<Rightarrow> bool" where
  "unknown_transaction message \<longleftrightarrow>
     list_ex (includes_str (to_lower message)) [''unknown transaction'', ''not found'', ''unknown item'', ''unknown entity'']"

definition coordinator_reconcile :: "services \<Rightarrow> string \<Rightarrow> bool result" where
  "coordinator_reconcile svc txid =
     (case getTransaction svc txid of
        Inr _ \<Rightarrow> Inr True
      | Inl e \<Rightarrow> if unknown_transaction (error_message e) then Inr False else Inl e)"

definition coordinator_isExpired :: "services \<Rightarrow> jsnum \<Rightarrow> bool result" where
  "coordinator_isExpired svc validUntilBlock =
     bindR (getBlockCount svc) (\<lambda>count. Inr (case validUntilBlock of NInt n \<Rightarrow> n < count | _ \<Rightarrow> False))"

text \<open>\<open>{ txid, operation, network, signerAddress, ...metadata }\<close>\<close>

definition coordinator_result :: "write_record \<Rightarrow> string \<Rightarrow> jsval \<Rightarrow> jsobj" where
  "coordinator_result intent txid metadata =
     fold (\<lambda>(k, v) o1. AList.update k v o1) (case own_props metadata of Some kvs \<Rightarrow> kvs | None \<Rightarrow> [])
       [(''txid'', JStr txid), (''operation'', JStr (w_operation intent)), (''network'', JStr (w_network intent)),
        (''signerAddress'', JStr (w_signerAddress intent))]"

definition coordinator_callbacks ::
    "(string \<Rightarrow> bool) \<Rightarrow> (string \<Rightarrow> string option) \<Rightarrow> services \<Rightarrow> string \<Rightarrow> write_record \<Rightarrow> callbacks" where
  "coordinator_callbacks ia sh svc account intent =
     \<lparr>cb_prepare = coordinator_prepare ia sh svc account intent,
      cb_submit = (if w_operation intent = ''deploy_contract'' then contract_submit svc else neo_submit svc),
      cb_reconcile = coordinator_reconcile svc,
      cb_isExpired = coordinator_isExpired svc,
      cb_buildResult = coordinator_result intent\<rparr>"

text \<open>The part of \<open>execute\<close> before the call of the write service: the snapshot of the intent and the account.\<close>

definition coordinator_admit :: "(string \<Rightarrow> string) \<Rightarrow> string \<Rightarrow> services \<Rightarrow> string \<Rightarrow> (world, write_record \<times> string) act" where
  "coordinator_admit sha signer svc iid =
     bindA (getById sha iid) (\<lambda>intent.
     if neo_network svc \<noteq> w_network intent \<or> contract_network svc \<noteq> w_network intent
     then throwA (ValidationError ''Write intent network '')
     else bindA (liftA (getAccount signer (w_signerAddress intent))) (\<lambda>account. retA (intent, account)))"

definition coordinator_execute ::
    "(string \<Rightarrow> string) \<Rightarrow> (string \<Rightarrow> bool) \<Rightarrow> (string \<Rightarrow> string option) \<Rightarrow> string \<Rightarrow> services \<Rightarrow> string \<Rightarrow> (world, exec_next) act" where
  "coordinator_execute sha ia sh signer svc iid =
     bindA (coordinator_admit sha signer svc iid) (\<lambda>(intent, account).
     execute sha (coordinator_callbacks ia sh svc account intent) iid)"

section \<open>What a vetted intent prepares\<close>

datatype service_call =
    Transfer_call string string string
  | Invoke_call string string "jsval list"
  | Claim_call
  | Deploy_call "string \<times> string" jsobj

text \<open>The call of the transaction services a payload stands for, as a specification.\<close>

definition intended_call :: "string \<Rightarrow> jsobj \<Rightarrow> service_call option" where
  "intended_call operation payload =
     (if operation = ''transfer_assets'' then
        (case (oget payload ''toAddress'', oget payload ''asset'', oget payload ''amount'') of
           (JStr to, JStr asset, JStr amount) \<Rightarrow> Some (Transfer_call (trim to) (trim asset) amount) | _ \<Rightarrow> None)
      else if operation = ''invoke_contract_write'' then
        (case (oget payload ''scriptHash'', oget payload ''operation'', oget payload ''args'') of
           (JStr h, JStr op, JArr vs) \<Rightarrow> Some (Invoke_call (''0x'' @ strip_0x (trim h)) (trim op) vs)
         | (JStr h, JStr op, JUndef) \<Rightarrow> Some (Invoke_call (''0x'' @ strip_0x (trim h)) (trim op) [])
         | _ \<Rightarrow> None)
      else if operation = ''claim_gas'' then Some Claim_call
      else if operation = ''deploy_contract'' then
        (case (own_props (oget payload ''nef''), own_props (oget payload ''manifest'')) of
           (Some nef, Some manifest) \<Rightarrow>
             (case (oget nef ''encoding'', oget nef ''data'') of
                (JStr encoding, JStr d) \<Rightarrow> Some (Deploy_call (encoding, d) manifest) | _ \<Rightarrow> None)
         | _ \<Rightarrow> None)
      else None)"

fun run_call :: "services \<Rightarrow> string \<Rightarrow> service_call \<Rightarrow> prepared_tx result" where
  "run_call svc account (Transfer_call to asset amount) = prepareTransfer svc account to asset amount"
| "run_call svc account (Invoke_call h operation args) =
     bindR (assertContractDeployed svc h) (\<lambda>_. prepareInvoke svc account h operation args)"
| "run_call svc account Claim_call = prepareClaimGas svc account"
| "run_call svc account (Deploy_call nef manifest) =
     bindR (prepareDeployment svc account nef manifest) (\<lambda>(transaction, contractHash, address).
     Inr (transaction\<lparr>p_metadata := JObj [(''contractHash'', JStr contractHash), (''address'', JStr address)]\<rparr>))"

definition vetted :: "(string \<Rightarrow> bool) \<Rightarrow> (string \<Rightarrow> string option) \<Rightarrow> string \<Rightarrow> write_record \<Rightarrow> bool" where
  "vetted ia sh signer r \<longleftrightarrow> w_signerAddress r = signer
     \<and> validateRequest ia sh \<lparr>q_operation = w_operation r, q_network = w_network r, q_payload = w_payload r\<rparr> = Inr ()"

lemma requireString_Inr: "requireString v name = Inr t \<longleftrightarrow> (\<exists>s. v = JStr s \<and> trim s \<noteq> [] \<and> t = trim s)"
  by (auto simp: requireString_def split: jsval.splits)

lemma requireArray_Inr: "requireArray v name = Inr vs \<longleftrightarrow> v = JUndef \<and> vs = [] \<or> v = JArr vs"
  by (auto simp: requireArray_def split: jsval.splits)

lemma requireRecord_Inr: "requireRecord v name = Inr kvs \<longleftrightarrow> own_props v = Some kvs"
  by (auto simp: requireRecord_def split: option.splits)

lemma requireEncodedNef_Inr:
  "requireEncodedNef v = Inr nef \<Longrightarrow>
    \<exists>kvs. own_props v = Some kvs \<and> oget kvs ''encoding'' = JStr (fst nef) \<and> oget kvs ''data'' = JStr (snd nef)"
proof -
  assume a: "requireEncodedNef v = Inr nef"
  then obtain kvs where kvs: "own_props v = Some kvs" by (auto simp: requireEncodedNef_def result_simps requireRecord_Inr)
  with a show ?thesis
    by (cases "oget kvs ''encoding''"; cases "oget kvs ''data''")
      (auto simp: requireEncodedNef_def requireRecord_def split: if_splits)
qed

lemma validateAddress_same: "validateAddress ia sh (JStr s) = Inr a \<Longrightarrow> a = s"
  by (auto simp: validateAddress_def split: if_splits)

lemma validateTokenAmount_same: "validateTokenAmount v = Inr a \<Longrightarrow> v = JStr a"
  by (auto simp: validateTokenAmount_def split: jsval.splits if_splits)

lemma validateScriptHash_same: "validateScriptHash (JStr h) = Inr x \<Longrightarrow> x = ''0x'' @ strip_0x h"
  by (auto simp: validateScriptHash_def split: if_splits)

lemma vetted_prepares:
  assumes "vetted ia sh signer r"
  shows "\<exists>c. intended_call (w_operation r) (payload_props r) = Some c
    \<and> (\<forall>svc account. coordinator_prepare ia sh svc account r = run_call svc account c)"
proof -
  from assms have op: "w_operation r \<in> set coordinator_operations"
    by (auto simp: vetted_def validateRequest_def split: if_splits)
  from assms have v: "validatePayload ia sh (w_operation r) (payload_props r) = Inr ()"
    by (auto simp: vetted_def validateRequest_def payload_props_def result_simps requireRecord_Inr split: if_splits)
  from op consider "w_operation r = ''transfer_assets''" | "w_operation r = ''invoke_contract_write''" | "w_operation r = ''claim_gas''"
    | "w_operation r = ''deploy_contract''" by (auto simp: coordinator_operations_def)
  then show ?thesis
  proof cases
    case 1
    with v obtain to a asset amount where
      "oget (payload_props r) ''toAddress'' = JStr to" "trim to \<noteq> []" "validateAddress ia sh (JStr (trim to)) = Inr a"
      "oget (payload_props r) ''asset'' = JStr asset" "trim asset \<noteq> []" "validateTokenAmount (oget (payload_props r) ''amount'') = Inr amount"
      by (auto simp: validatePayload_def result_simps requireString_Inr)
    with 1 validateAddress_same [of ia sh "trim to" a] validateTokenAmount_same [of "oget (payload_props r) ''amount''" amount] show ?thesis
      by (simp add: coordinator_prepare_def intended_call_def requireString_def)
  next
    case 2
    with v obtain h x operation args where
      "oget (payload_props r) ''scriptHash'' = JStr h" "trim h \<noteq> []" "validateScriptHash (JStr (trim h)) = Inr x"
      "oget (payload_props r) ''operation'' = JStr operation" "trim operation \<noteq> []"
      "oget (payload_props r) ''args'' = JUndef \<and> args = [] \<or> oget (payload_props r) ''args'' = JArr args"
      by (auto simp: validatePayload_def result_simps requireString_Inr requireArray_Inr)
    with 2 validateScriptHash_same [of "trim h" x] show ?thesis
      by (auto simp: coordinator_prepare_def intended_call_def requireString_def requireArray_def)
  next
    case 3
    then show ?thesis by (simp add: coordinator_prepare_def intended_call_def)
  next
    case 4
    with v obtain nef m where "requireEncodedNef (oget (payload_props r) ''nef'') = Inr nef"
      "own_props (oget (payload_props r) ''manifest'') = Some m"
      by (auto simp: validatePayload_def result_simps requireRecord_Inr)
    with 4 requireEncodedNef_Inr [of "oget (payload_props r) ''nef''" nef] show ?thesis
      by (auto simp: coordinator_prepare_def intended_call_def requireRecord_def)
  qed
qed

lemma vetted_signer: "vetted ia sh signer r \<Longrightarrow> w_signerAddress r = signer \<and> w_network r \<in> {''mainnet'', ''testnet''}"
  by (auto simp: vetted_def validateRequest_def coordinator_networks_def split: if_splits)

section \<open>The coordinator as a machine\<close>

text \<open>
  The steps of the write service as the coordinator takes them: a reservation is vetted, an execution
  starts after \<open>coordinator_admit\<close>, whose answer the callbacks of its ticket are built from.
\<close>

type_synonym coord_sys = "sys \<times> (nat \<Rightarrow> write_record \<times> string)"

inductive coord_step ::
    "(string \<Rightarrow> string) \<Rightarrow> (string \<Rightarrow> bool) \<Rightarrow> (string \<Rightarrow> string option) \<Rightarrow> string \<Rightarrow> coord_sys \<Rightarrow> coord_sys \<Rightarrow> bool"
  for sha ia sh signer where
  co_reserve: "isIsoDate now \<Longrightarrow> json_clean (q_payload q) \<Longrightarrow>
     coord_step sha ia sh signer (s, c) (after_call s (coordinator_reserve sha ia sh signer key q (world_of s io now)), c)"
| co_approve: "isIsoDate now \<Longrightarrow> coord_step sha ia sh signer (s, c) (call_approve sha iid fp io now s, c)"
| co_decline: "isIsoDate now \<Longrightarrow> coord_step sha ia sh signer (s, c) (after_call s (decline sha iid (world_of s io now)), c)"
| co_execute: "coordinator_admit sha signer svc iid (world_of s io now) = (Ret (intent, account), w) \<Longrightarrow>
     coord_step sha ia sh signer (s, c)
       (s\<lparr> s_lock := enter iid (s_lock s) \<rparr>, c(next_ticket (s_lock s) := (intent, account)))"
| co_begin: "isIsoDate now \<Longrightarrow> cb = coordinator_callbacks ia sh svc (snd (c t)) (fst (c t)) \<Longrightarrow> callbacks_ok cb \<Longrightarrow>
     may_start (s_lock s) t \<Longrightarrow> coord_step sha ia sh signer (s, c) (segment_begin sha cb io now t s, c)"
| co_resume: "isIsoDate now \<Longrightarrow> cb = coordinator_callbacks ia sh svc (snd (c t)) (fst (c t)) \<Longrightarrow> callbacks_ok cb \<Longrightarrow>
     s_pc s t = Some pc \<Longrightarrow> coord_step sha ia sh signer (s, c) (segment_resume sha cb io now t pc s, c)"
| co_crash: "coord_step sha ia sh signer (s, c) (restart s, c)"

inductive coord_reachable ::
    "(string \<Rightarrow> string) \<Rightarrow> (string \<Rightarrow> bool) \<Rightarrow> (string \<Rightarrow> string option) \<Rightarrow> string \<Rightarrow> coord_sys \<Rightarrow> bool"
  for sha ia sh signer where
  co_init: "coord_reachable sha ia sh signer (sys_init, c)"
| co_next: "coord_reachable sha ia sh signer s \<Longrightarrow> coord_step sha ia sh signer s s' \<Longrightarrow> coord_reachable sha ia sh signer s'"

lemma reserve_cases:
  "coordinator_reserve sha ia sh signer key q w = (case validateRequest ia sh q of
     Inl e \<Rightarrow> (Throw e, w) | Inr _ \<Rightarrow> reserve sha key (request_intent signer q) w)"
  by (auto simp: coordinator_reserve_def bindA_apply liftA_def split: sum.splits)

lemma after_call_same: "after_call s (Throw e, world_of s io now) = s"
  by (simp add: after_call_def world_of_def)

text \<open>Each step of the coordinator is a step of the service, or changes nothing of it.\<close>

lemma coord_step_svc: "coord_step sha ia sh signer p p' \<Longrightarrow> svc_step sha (fst p) (fst p') \<or> fst p' = fst p"
proof (induction rule: coord_step.induct)
  case (co_reserve now q s c key io)
  then show ?case
  proof (cases "validateRequest ia sh q")
    case (Inr u)
    have "json_clean (w_payload (request_intent signer q))" using co_reserve by (simp add: request_intent_def)
    with Inr co_reserve show ?thesis by (simp add: reserve_cases svc_reserve)
  qed (simp add: reserve_cases after_call_same)
next
  case (co_execute svc iid s io now intent account w c)
  then have "hex64 iid"
    by (auto simp: coordinator_admit_def bindA_Ret getById_Ret read_record_def split: if_splits)
  then show ?case by (simp add: svc_request)
qed (auto intro: svc_step.intros)

lemma coord_reachable_svc: "coord_reachable sha ia sh signer p \<Longrightarrow> svc_reachable sha (fst p)"
  by (induction rule: coord_reachable.induct) (use coord_step_svc svc_init svc_next in \<open>fastforce+\<close>)

section \<open>Every stored intent is vetted\<close>

definition all_vetted :: "(string \<Rightarrow> string) \<Rightarrow> (string \<Rightarrow> bool) \<Rightarrow> (string \<Rightarrow> string option) \<Rightarrow> string \<Rightarrow> journal \<Rightarrow> bool" where
  "all_vetted sha ia sh signer j \<longleftrightarrow> (\<forall>iid r. read_record sha j iid = Inr (Some r) \<longrightarrow> vetted ia sh signer r)"

text \<open>A journal of which every readable record has a predecessor with the same request.\<close>

definition no_new_request :: "(string \<Rightarrow> string) \<Rightarrow> journal \<Rightarrow> journal \<Rightarrow> bool" where
  "no_new_request sha j j' \<longleftrightarrow> (\<forall>iid r'. read_record sha j' iid = Inr (Some r') \<longrightarrow>
     (\<exists>r. read_record sha j iid = Inr (Some r) \<and> same_request r r'))"

lemma same_request_refl [simp]: "same_request r r"
  by (simp add: same_request_def)

lemma no_new_refl [simp]: "no_new_request sha j j"
  by (auto simp: no_new_request_def intro: same_request_refl)

lemma vetted_same: "vetted ia sh signer r \<Longrightarrow> same_request r r' \<Longrightarrow> vetted ia sh signer r'"
  by (simp add: vetted_def same_request_def)

lemma all_vetted_no_new: "all_vetted sha ia sh signer j \<Longrightarrow> no_new_request sha j j' \<Longrightarrow> all_vetted sha ia sh signer j'"
  unfolding all_vetted_def no_new_request_def using vetted_same by blast

lemma exec_moves_no_new:
  assumes "exec_moves sha iid j j'"
  shows "no_new_request sha j j'"
  unfolding no_new_request_def
proof (intro allI impI)
  fix i r' assume r': "read_record sha j' i = Inr (Some r')"
  show "\<exists>r. read_record sha j i = Inr (Some r) \<and> same_request r r'"
  proof (cases "i = iid")
    case False
    have "read_record sha j i = Inr (Some r')" using store.moves_star_other [OF assms False] r' by simp
    then show ?thesis using same_request_refl by blast
  next
    case True
    from store.moves_star_same [OF assms] show ?thesis
    proof
      assume "read_record sha j' iid = read_record sha j iid"
      with True r' same_request_refl show ?thesis by auto
    next
      assume "\<exists>r r'. read_record sha j iid = Inr (Some r) \<and> read_record sha j' iid = Inr (Some r') \<and> exec_edge\<^sup>+\<^sup>+ r r'"
      with True r' exec_edges_evolve show ?thesis by (fastforce simp: evolves_def)
    qed
  qed
qed

lemma update_state_no_new:
  assumes pre: "seg_pre sha iid r w" and r: "w_state r = Awaiting_approval" and st: "s \<in> {Approved, Declined}"
  shows "no_new_request sha (journal w) (journal (snd (update_record r (\<lambda>r. r\<lparr> w_state := s \<rparr>) w)))"
proof -
  let ?r1 = "r\<lparr> w_state := s, w_updatedAt := clock w \<rparr>"
  obtain out w' where upd: "update_record r (\<lambda>r. r\<lparr> w_state := s \<rparr>) w = (out, w')"
    by (cases "update_record r (\<lambda>r. r\<lparr> w_state := s \<rparr>) w")
  have id: "w_intentId r = iid" and stor: "storable sha iid r" using seg_pre_storable [OF pre] by auto
  have new: "storable sha iid ?r1"
    using stor seg_pre_clock [OF pre] r st by (intro storable_restate) (auto simp: prepared_states_def)
  have old: "read_record sha (journal w) iid = Inr (Some r)" using pre by (simp add: seg_pre_def)
  from new id have "storable sha (w_intentId r) ((r\<lparr> w_state := s \<rparr>)\<lparr> w_updatedAt := clock w \<rparr>)" by simp
  with upd show ?thesis
  proof (cases rule: update_record_cases)
    case saved
    then have j: "journal w' = save_record iid ?r1 (journal w)" using id by simp
    have same: "same_request r ?r1" by (simp add: same_request_def)
    have "\<exists>x. read_record sha (journal w) i = Inr (Some x) \<and> same_request x x'"
      if "read_record sha (save_record iid ?r1 (journal w)) i = Inr (Some x')" for i x'
    proof (cases "i = iid")
      case True
      with that read_save_same [OF new, of "journal w"] old same show ?thesis by auto
    next
      case False
      with that read_save_other [OF False, of sha ?r1 "journal w"] same_request_refl show ?thesis by auto
    qed
    with j upd show ?thesis by (simp add: no_new_request_def)
  next
    case lost
    with upd show ?thesis by simp
  qed
qed

lemma approve_no_new:
  assumes "clean_journal (journal w)" "isIsoDate (clock w)"
  shows "no_new_request sha (journal w) (journal (snd (approve sha iid fp w)))"
proof (cases "\<exists>r. read_record sha (journal w) iid = Inr (Some r)")
  case False
  then show ?thesis by (auto simp: approve_def bindA_apply getById_eq split: sum.splits option.splits)
next
  case True
  with assms obtain r where pre: "seg_pre sha iid r w" by (auto simp: seg_pre_def)
  show ?thesis using update_state_no_new [OF pre, of Approved]
    by (auto simp: approve_def bindA_apply seg_pre_getById [OF pre])
qed

lemma decline_no_new:
  assumes "clean_journal (journal w)" "isIsoDate (clock w)"
  shows "no_new_request sha (journal w) (journal (snd (decline sha iid w)))"
proof (cases "\<exists>r. read_record sha (journal w) iid = Inr (Some r)")
  case False
  then show ?thesis by (auto simp: decline_def bindA_apply getById_eq split: sum.splits option.splits)
next
  case True
  with assms obtain r where pre: "seg_pre sha iid r w" by (auto simp: seg_pre_def)
  show ?thesis using update_state_no_new [OF pre, of Declined]
    by (auto simp: decline_def bindA_apply seg_pre_getById [OF pre])
qed

lemma create_vetted:
  assumes "storable sha (w_intentId r) r" "vetted ia sh signer r" "all_vetted sha ia sh signer (journal w)"
  shows "all_vetted sha ia sh signer (journal (snd (create r w)))"
  using create_journal [OF assms(1), of w]
proof (elim disjE conjE)
  assume "journal (snd (create r w)) = journal w"
  with assms(3) show ?thesis by simp
next
  assume j: "journal (snd (create r w)) = save_record (w_intentId r) r (journal w)"
  have "vetted ia sh signer x" if "read_record sha (save_record (w_intentId r) r (journal w)) i = Inr (Some x)" for i x
  proof (cases "i = w_intentId r")
    case True
    with that read_save_same [OF assms(1), of "journal w"] assms(2) show ?thesis by simp
  next
    case False
    with that read_save_other [OF False, of sha r "journal w"] assms(3) show ?thesis by (auto simp: all_vetted_def)
  qed
  with j show ?thesis by (simp add: all_vetted_def)
next
  assume j: "journal (snd (create r w)) = AList.update (w_intentId r) (new_file None) (journal w)"
  have "read_record sha (journal w) i = Inr (Some x)"
    if "read_record sha (AList.update (w_intentId r) (new_file None) (journal w)) i = Inr (Some x)" for i x
    using that by (auto simp: read_record_def update_conv' new_file_def split: if_splits option.splits)
  with j assms(3) show ?thesis by (auto simp: all_vetted_def)
qed

lemma coordinator_reserve_vetted:
  assumes sha: "\<And>x. hex64 (sha x)" and w: "isIsoDate (clock w)" "json_clean (q_payload q)" "all_vetted sha ia sh signer (journal w)"
  shows "all_vetted sha ia sh signer (journal (snd (coordinator_reserve sha ia sh signer key q w)))"
proof (cases "validateRequest ia sh q")
  case (Inl e)
  with w show ?thesis by (simp add: reserve_cases)
next
  case (Inr u)
  let ?i = "request_intent signer q"
  have made: "all_vetted sha ia sh signer (journal (snd (create (fresh_record sha key ?i (undef_text t) (clock w)) w)))"
    if "validateIntent ?i = Inr ()" "canonicalJson (intent_js ?i) = Inr t" for t
  proof -
    have "storable sha (sha key) (fresh_record sha key ?i (undef_text t) (clock w))"
      using fresh_storable [OF sha w(1) that] w(2) by (simp add: request_intent_def)
    moreover have "vetted ia sh signer (fresh_record sha key ?i (undef_text t) (clock w))"
      using Inr by (cases q) (simp add: fresh_record_def vetted_def request_intent_def)
    ultimately show ?thesis using w(3) by (intro create_vetted) (simp_all add: fresh_record_def)
  qed
  show ?thesis using Inr w(3) made
    by (auto simp: reserve_cases reserve_def bindA_apply readA_apply liftA_def Let_def split: sum.splits option.splits prod.splits outcome.splits)
qed

lemma coord_step_vetted:
  assumes step: "coord_step sha ia sh signer p p'" and sha: "\<And>x. hex64 (sha x)"
    and inv: "sys_inv sha (fst p)" "all_vetted sha ia sh signer (s_journal (fst p))"
  shows "all_vetted sha ia sh signer (s_journal (fst p'))"
proof -
  have call: "s_journal (after_call s0 res) = journal (snd res)" for s0 and res :: "'b outcome \<times> world"
    by (auto simp: after_call_def Let_def restart_def split: outcome.split)
  have seg: "s_journal (after_segment t s0 res) = journal (snd res)" for t s0 res
    by (auto simp: after_segment_def Let_def restart_def split: outcome.split exec_next.split)
  from step inv show ?thesis
  proof (induction rule: coord_step.induct)
    case (co_reserve now q s c key io)
    then show ?case using coordinator_reserve_vetted [of sha "world_of s io now" q ia sh signer key, OF sha]
      by (auto simp: call world_of_def)
  next
    case (co_approve now s c iid fp io)
    then show ?case using approve_no_new [of "world_of s io now" sha iid fp]
      by (auto simp: call_approve_def call sys_inv_def world_of_def intro: all_vetted_no_new)
  next
    case (co_decline now s c iid io)
    then show ?case using decline_no_new [of "world_of s io now" sha iid]
      by (auto simp: call sys_inv_def world_of_def intro: all_vetted_no_new)
  next
    case (co_execute svc iid s io now intent account w c)
    then show ?case by simp
  next
    case (co_begin now cb svc c t s io)
    then have "seg_sound sha (ticket_id (s_lock s) t) (s_journal s)
        (exec_start sha (cb_buildResult cb) (ticket_id (s_lock s) t) (world_of s io now))"
      using start_sound [of "world_of s io now" sha "ticket_id (s_lock s) t" "cb_buildResult cb"]
      by (auto simp: sys_inv_def world_of_def records_ok_def callbacks_ok_def simp del: json_clean.simps)
    then have "no_new_request sha (s_journal s) (s_journal (segment_begin sha cb io now t s))"
      unfolding segment_begin_def seg seg_sound_def using exec_moves_no_new by blast
    with co_begin show ?case by (auto intro: all_vetted_no_new)
  next
    case (co_resume now cb svc c t s pc io)
    then have "seg_sound sha (ticket_id (s_lock s) t) (s_journal s)
        (exec_resume sha cb (ticket_id (s_lock s) t) pc (world_of s io now))"
      using resume_sound [of sha "world_of s io now" "ticket_id (s_lock s) t" pc cb]
      by (auto simp: sys_inv_def world_of_def live_ok_def)
    then have "no_new_request sha (s_journal s) (s_journal (segment_resume sha cb io now t pc s))"
      unfolding segment_resume_def seg seg_sound_def using exec_moves_no_new by blast
    with co_resume show ?case by (auto intro: all_vetted_no_new)
  next
    case (co_crash s c)
    then show ?case by (simp add: restart_def)
  qed
qed

lemma coord_reachable_vetted:
  assumes "coord_reachable sha ia sh signer p" "\<And>x. hex64 (sha x)"
  shows "all_vetted sha ia sh signer (s_journal (fst p))"
  using assms
proof (induction rule: coord_reachable.induct)
  case (co_init c)
  then show ?case by (auto simp: all_vetted_def sys_init_def read_record_def split: if_splits)
next
  case (co_next p p')
  then show ?case using coord_step_vetted svc_reachable_inv coord_reachable_svc by blast
qed

text \<open>
  Whatever the coordinator does, with failing writes, crashes and restarts, is a run of the
  write service, so its guarantees hold; and every intent in the journal names the configured signer and
  stands for one call of the transaction services, which is the call preparation makes.
\<close>

lemma coordinator_vets_intents:
  assumes "coord_reachable sha ia sh signer (s, c)" "\<And>x. hex64 (sha x)"
  shows "svc_reachable sha s \<and>
    (\<forall>iid r. read_record sha (s_journal s) iid = Inr (Some r) \<longrightarrow>
       w_signerAddress r = signer \<and> w_network r \<in> {''mainnet'', ''testnet''} \<and>
       (\<exists>call. intended_call (w_operation r) (payload_props r) = Some call
         \<and> (\<forall>svc account. coordinator_prepare ia sh svc account r = run_call svc account call)))"
proof -
  have v: "vetted ia sh signer r" if "read_record sha (s_journal s) iid = Inr (Some r)" for iid r
    using coord_reachable_vetted [OF assms] that by (auto simp: all_vetted_def)
  show ?thesis using coord_reachable_svc [OF assms(1)] v vetted_signer vetted_prepares by simp blast
qed

definition demo_claim :: write_request where
  "demo_claim = \<lparr>q_operation = ''claim_gas'', q_network = ''testnet'', q_payload = JObj []\<rparr>"

definition demo_claim_text :: string where
  "demo_claim_text = (case canonicalJson (intent_js (request_intent ''NXV7'' demo_claim)) of Inr (Some t) \<Rightarrow> t | _ \<Rightarrow> [])"

definition demo_claim_record :: write_record where
  "demo_claim_record = fresh_record demo_sha ''key-0001'' (request_intent ''NXV7'' demo_claim) demo_claim_text demo_now"

lemma demo_claim_reserved:
  shows "coordinator_reserve demo_sha (\<lambda>_. True) (\<lambda>_. None) ''NXV7'' ''key-0001'' demo_claim (world_of sys_init [] demo_now)
      = (Ret demo_claim_record, saved demo_id demo_claim_record (world_of sys_init [] demo_now))"
    and "read_record demo_sha (journal (saved demo_id demo_claim_record (world_of sys_init [] demo_now))) demo_id = Inr (Some demo_claim_record)"
proof -
  let ?i = "request_intent ''NXV7'' demo_claim" and ?w = "world_of sys_init [] demo_now"
  have t: "canonicalJson (intent_js ?i) = Inr (Some demo_claim_text)" "length demo_claim_text \<le> 150" by code_simp+
  have "utf8_length u \<le> 2 * length u" for u by (induction u) (simp_all add: utf8_length_def)
  from this [of demo_claim_text] t(2) have "utf8_length demo_claim_text \<le> MAX_WRITE_INTENT_BYTES" by (simp add: MAX_WRITE_INTENT_BYTES_def)
  moreover have "idempotency_key_ok ''key-0001''" "validateIntent ?i = Inr ()" by code_simp+
  moreover have "json_clean (w_payload ?i)" by (simp add: request_intent_def demo_claim_def)
  ultimately have res: "reserve demo_sha ''key-0001'' ?i ?w = (Ret demo_claim_record, saved demo_id demo_claim_record ?w)"
    and read: "read_record demo_sha (journal (saved demo_id demo_claim_record ?w)) demo_id = Inr (Some demo_claim_record)"
    using reserve_quiet [of "''key-0001''" ?i demo_claim_text demo_sha ?w] t(1) demo_hex demo_date
    by (simp_all add: demo_sha_id world_of_def sys_init_def quiet_def clean_journal_def MAX_WRITE_INTENT_RECORDS_def demo_claim_record_def seg_pre_def)
  have "validateRequest (\<lambda>_. True) (\<lambda>_. None) demo_claim = Inr ()" by code_simp
  with res show "coordinator_reserve demo_sha (\<lambda>_. True) (\<lambda>_. None) ''NXV7'' ''key-0001'' demo_claim ?w
      = (Ret demo_claim_record, saved demo_id demo_claim_record ?w)"
    by (simp add: reserve_cases)
  show "read_record demo_sha (journal (saved demo_id demo_claim_record ?w)) demo_id = Inr (Some demo_claim_record)" by (rule read)
qed

lemma coordinator_vets_intents_witness:
  "\<exists>s c r. read_record demo_sha (s_journal s) demo_id = Inr (Some r) \<and> svc_reachable demo_sha s \<and> w_signerAddress r = ''NXV7''
     \<and> (\<forall>svc. coordinator_prepare (\<lambda>_. True) (\<lambda>_. None) svc ''NXV7'' r = prepareClaimGas svc ''NXV7'')"
proof -
  let ?w = "world_of sys_init [] demo_now"
  define s where "s = after_call sys_init (coordinator_reserve demo_sha (\<lambda>_. True) (\<lambda>_. None) ''NXV7'' ''key-0001'' demo_claim ?w)"
  have j: "s_journal s = journal (saved demo_id demo_claim_record ?w)"
    using demo_claim_reserved(1) by (simp add: s_def after_call_def)
  have "json_clean (q_payload demo_claim)" by (simp add: demo_claim_def)
  with demo_date have "coord_reachable demo_sha (\<lambda>_. True) (\<lambda>_. None) ''NXV7'' (s, c)" for c
    unfolding s_def by (rule co_next [OF co_init co_reserve])
  from coordinator_vets_intents [OF this demo_hex(2)] demo_claim_reserved(2) j have
    "svc_reachable demo_sha s" "w_signerAddress demo_claim_record = ''NXV7''" by auto
  moreover have "coordinator_prepare (\<lambda>_. True) (\<lambda>_. None) svc ''NXV7'' demo_claim_record = prepareClaimGas svc ''NXV7''" for svc
    by (simp add: coordinator_prepare_def demo_claim_record_def fresh_record_def request_intent_def demo_claim_def)
  ultimately show ?thesis using demo_claim_reserved(2) j by (intro exI [of _ s]) auto
qed

end
