(* ===== verification/McpServer.thy ===== *)
theory McpServer
  imports Registry WriteCoordinator
begin

text \<open>
  src/index.ts: the MCP server. The read tools go from the public table to \<open>callTool\<close>; the four write tools take two rounds,
  a signed request for an approval and the approval itself, before the coordinator executes. Construction of the
  services, the verification of the signed request state and the elicitation itself belong to other code and to the SDK:
  they are parameters (\<open>me_construct\<close>, \<open>me_openCoordinator\<close>, \<open>write_context\<close>). The checks of the arguments by zod have been made.

  The main results are \<open>public_tools_read_only\<close>, \<open>mcp_write_needs_approval\<close> and \<open>approval_round_completes\<close>.
\<close>

section \<open>The services\<close>

record server_state =
  sv_initialized :: bool
  sv_neo :: "string list"
  sv_contract :: "string list"

record mcp_env =
  me_config :: app_config
  me_construct :: "string \<Rightarrow> string \<Rightarrow> unit result"
  me_openCoordinator :: "unit result"
  me_sha :: "string \<Rightarrow> string"
  me_isAddress :: "string \<Rightarrow> bool"
  me_scriptHash :: "string \<Rightarrow> string option"
  me_signer :: string
  me_services :: "string \<Rightarrow> services"
  me_validateArtifacts :: "jsval \<Rightarrow> jsval \<Rightarrow> unit result"

text \<open>\<open>Map.set\<close> on the keys: an old key keeps its place.\<close>

definition add_service :: "string \<Rightarrow> string list \<Rightarrow> string list" where
  "add_service n ns = (if n \<in> set ns then ns else ns @ [n])"

definition init_network :: "mcp_env \<Rightarrow> string \<Rightarrow> (server_state, unit) act" where
  "init_network env n =
     bindA (liftA (me_construct env ''neo'' n)) (\<lambda>_.
     bindA (liftA (me_construct env ''contract'' n)) (\<lambda>_ s.
       (Ret (), s\<lparr>sv_neo := add_service n (sv_neo s), sv_contract := add_service n (sv_contract s)\<rparr>)))"

definition ensureServicesInitialized :: "mcp_env \<Rightarrow> (server_state, unit) act" where
  "ensureServicesInitialized env = (\<lambda>s.
     if sv_initialized s then (Ret (), s)
     else bindA (if cf_networkMode (me_config env) \<in> {MAINNET_ONLY, BOTH} then init_network env ''mainnet'' else retA ()) (\<lambda>_.
          bindA (if cf_networkMode (me_config env) \<in> {TESTNET_ONLY, BOTH} then init_network env ''testnet'' else retA ()) (\<lambda>_ s.
            (Ret (), s\<lparr>sv_initialized := True\<rparr>))) s)"

definition default_network :: "mcp_env \<Rightarrow> string" where
  "default_network env = (if cf_networkMode (me_config env) = TESTNET_ONLY then ''testnet'' else ''mainnet'')"

text \<open>A service is named by its network.\<close>

definition getNeoService :: "mcp_env \<Rightarrow> jsval \<Rightarrow> (server_state, string) act" where
  "getNeoService env param =
     bindA (ensureServicesInitialized env) (\<lambda>_.
     if \<not> truthy param then (\<lambda>s.
       if default_network env \<in> set (sv_neo s) then (Ret (default_network env), s)
       else (Throw (GenericError (if default_network env = ''testnet'' then ''Testnet service not available'' else ''Mainnet service not available'')), s))
     else bindA (liftA (validateNetwork param)) (\<lambda>network.
       if network = ''mainnet'' \<and> cf_networkMode (me_config env) = TESTNET_ONLY \<or> network = ''testnet'' \<and> cf_networkMode (me_config env) = MAINNET_ONLY
       then throwA (GenericError ''Network '')
       else (\<lambda>s. if network \<in> set (sv_neo s) then (Ret network, s) else (Throw (GenericError ''Unsupported network: ''), s))))"

definition getContractService :: "mcp_env \<Rightarrow> jsval \<Rightarrow> (server_state, string) act" where
  "getContractService env param =
     bindA (ensureServicesInitialized env) (\<lambda>_.
     if \<not> truthy param then (\<lambda>s.
       if default_network env \<in> set (sv_contract s) then (Ret (default_network env), s)
       else (Throw (GenericError (if default_network env = ''testnet'' then ''Testnet contract service not available''
                                  else ''Mainnet contract service not available'')), s))
     else bindA (liftA (validateNetwork param)) (\<lambda>network s.
       if network \<in> set (sv_contract s) then (Ret network, s) else (Throw (GenericError ''Unsupported network: ''), s)))"

section \<open>Responses\<close>

text \<open>
  \<open>approval_request\<close> is what \<open>formatWriteApprovalMessage\<close> prints; \<open>write_approval\<close> is the request state the server signs.
  \<open>Error_value\<close> is the JSON text of an error object, \<open>Error_response\<close> the message of an error.
\<close>

record write_approval =
  wa_version :: int
  wa_intentId :: string
  wa_fingerprint :: string
  wa_operation :: string
  wa_network :: string

record approval_request =
  ar_operation :: string
  ar_network :: string
  ar_signerAddress :: string
  ar_payload :: jsval
  ar_fingerprint :: string

datatype mcp_response =
    Text_response tool_answer
  | Write_response jsobj
  | Error_response string
  | Error_value error_response
  | Input_required approval_request write_approval

definition formatDelegatedToolResponse :: "tool_answer \<Rightarrow> mcp_response" where
  "formatDelegatedToolResponse a = (case a of Failed e \<Rightarrow> Error_value e | _ \<Rightarrow> Text_response a)"

section \<open>The read tools\<close>

definition tool_context :: "handler_env \<Rightarrow> server_state \<Rightarrow> bool \<Rightarrow> handler_env" where
  "tool_context henv sv wallet =
     henv\<lparr>th_neoServices := sv_neo sv, th_contractServices := sv_contract sv, th_wallets := if wallet then th_wallets henv else None\<rparr>"

type_synonym clients = "key_state \<times> limiter"

definition callPublicTool ::
    "mcp_env \<Rightarrow> handler_env \<Rightarrow> nat option \<Rightarrow> int \<Rightarrow> clients \<Rightarrow> server_state \<Rightarrow> string \<Rightarrow> jsobj
     \<Rightarrow> (tool_call list \<times> mcp_response) \<times> clients \<times> server_state" where
  "callPublicTool env henv scope now cl sv name args =
     (case resolveRoute name args of
        Inl e \<Rightarrow> (([], Error_response (error_message e)), cl, sv)
      | Inr r \<Rightarrow>
          (case (if tr_requiresServices r then ensureServicesInitialized env sv else (Ret (), sv)) of
             (Ret _, sv1) \<Rightarrow>
               (case callTool (tool_context henv sv1 (tr_requiresWallet r)) scope now (fst cl) (snd cl) (tr_internalName r) (tr_args r) of
                  ((calls, answer), cl1) \<Rightarrow>
                    ((calls, case answer of Inl e \<Rightarrow> Error_response (error_message e) | Inr a \<Rightarrow> formatDelegatedToolResponse a), cl1, sv1))
           | (Throw e, sv1) \<Rightarrow> (([], Error_response (error_message e)), cl, sv1)
           | (Crash, sv1) \<Rightarrow> (([], Error_response []), cl, sv1)))"

section \<open>The write tools\<close>

datatype approval_response =
    Missing_response
  | Elicit_response string jsval
  | Other_response

record write_context =
  cx_requestState :: "write_approval option"
  cx_response :: approval_response

record mcp_state =
  ms_server :: server_state
  ms_world :: world

definition onServer :: "(server_state, 'a) act \<Rightarrow> (mcp_state, 'a) act" where
  "onServer m = (\<lambda>s. case m (ms_server s) of (r, sv) \<Rightarrow> (r, s\<lparr>ms_server := sv\<rparr>))"

definition onWorld :: "(world, 'a) act \<Rightarrow> (mcp_state, 'a) act" where
  "onWorld m = (\<lambda>s. case m (ms_world s) of (r, w) \<Rightarrow> (r, s\<lparr>ms_world := w\<rparr>))"

text \<open>\<open>WRITE_APPROVAL_SCHEMA\<close>: exactly a fingerprint of 64 lower case hexadecimal digits and a boolean.\<close>

definition approval_content :: "jsval \<Rightarrow> (string \<times> bool) option" where
  "approval_content v =
     (case v of
        JObj kvs \<Rightarrow>
          (case (oget kvs ''fingerprint'', oget kvs ''approve'') of
             (JStr fp, JBool b) \<Rightarrow>
               if hex64 fp \<and> list_all (\<lambda>(k, w). k \<in> {''fingerprint'', ''approve''}) kvs then Some (fp, b) else None
           | _ \<Rightarrow> None)
      | _ \<Rightarrow> None)"

definition approval_of :: "write_record \<Rightarrow> string \<Rightarrow> string \<Rightarrow> write_approval" where
  "approval_of r operation network =
     \<lparr>wa_version = 1, wa_intentId = w_intentId r, wa_fingerprint = w_fingerprint r, wa_operation = operation, wa_network = network\<rparr>"

definition formatWriteApprovalMessage :: "string \<Rightarrow> string \<Rightarrow> write_record \<Rightarrow> approval_request" where
  "formatWriteApprovalMessage operation network r =
     \<lparr>ar_operation = operation, ar_network = network, ar_signerAddress = w_signerAddress r, ar_payload = w_payload r,
      ar_fingerprint = w_fingerprint r\<rparr>"

definition assertWriteApprovalState :: "write_approval \<Rightarrow> string \<Rightarrow> string \<Rightarrow> string \<Rightarrow> string \<Rightarrow> unit result" where
  "assertWriteApprovalState st intentId fingerprint operation network =
     (if wa_version st \<noteq> 1 \<or> wa_intentId st \<noteq> intentId \<or> wa_fingerprint st \<noteq> fingerprint \<or> wa_operation st \<noteq> operation \<or> wa_network st \<noteq> network
      then Inl (GenericError ''Write approval state does not match this exact intent'') else Inr ())"

definition write_services :: "mcp_env \<Rightarrow> string \<Rightarrow> services" where
  "write_services env network = (me_services env network)\<lparr>neo_network := network, contract_network := network\<rparr>"

text \<open>\<open>coordinator.decline\<close> where the intent still awaits its approval, then the error.\<close>

definition declined :: "mcp_env \<Rightarrow> write_record \<Rightarrow> string \<Rightarrow> (world, mcp_response) act" where
  "declined env r message =
     bindA (if w_state r = Awaiting_approval then bindA (decline (me_sha env) (w_intentId r)) (\<lambda>_. retA ()) else retA ()) (\<lambda>_.
       throwA (GenericError message))"

text \<open>An execution never ends suspended (\<open>execute_terminates\<close>).\<close>

definition approve_and_execute :: "mcp_env \<Rightarrow> string \<Rightarrow> write_record \<Rightarrow> (world, mcp_response) act" where
  "approve_and_execute env network r =
     bindA (approve (me_sha env) (w_intentId r) (w_fingerprint r)) (\<lambda>_.
     bindA (coordinator_execute (me_sha env) (me_isAddress env) (me_scriptHash env) (me_signer env) (write_services env network) (w_intentId r)) (\<lambda>n.
     case n of Finished res \<Rightarrow> retA (Write_response res) | Suspend pc \<Rightarrow> throwA (GenericError [])))"

definition write_round :: "mcp_env \<Rightarrow> string \<Rightarrow> string \<Rightarrow> write_context \<Rightarrow> write_record \<Rightarrow> (world, mcp_response) act" where
  "write_round env operation network cx r =
     (case cx_requestState cx of
        None \<Rightarrow>
          if cx_response cx \<noteq> Missing_response then throwA (GenericError ''Write approval response requires signed requestState'')
          else retA (Input_required (formatWriteApprovalMessage operation network r) (approval_of r operation network))
      | Some st \<Rightarrow>
          bindA (liftA (assertWriteApprovalState st (w_intentId r) (w_fingerprint r) operation network)) (\<lambda>_.
          case cx_response cx of
            Missing_response \<Rightarrow> retA (Input_required (formatWriteApprovalMessage operation network r) st)
          | Elicit_response action content \<Rightarrow>
              if action \<noteq> ''accept'' then declined env r ''Write intent was declined or cancelled''
              else if approval_content content \<noteq> Some (w_fingerprint r, True)
              then declined env r ''Write intent was not approved with its exact fingerprint''
              else approve_and_execute env network r
          | Other_response \<Rightarrow> declined env r ''Write intent was declined or cancelled''))"

definition write_payload :: "string \<Rightarrow> jsobj \<Rightarrow> jsobj" where
  "write_payload operation args =
     (if operation = ''transfer_assets''
      then [(''toAddress'', oget args ''toAddress''), (''asset'', oget args ''asset''), (''amount'', oget args ''amount'')]
      else if operation = ''invoke_contract_write''
      then [(''scriptHash'', oget args ''scriptHash''), (''operation'', oget args ''operation''),
            (''args'', if nullish (oget args ''args'') then JArr [] else oget args ''args'')]
      else if operation = ''deploy_contract'' then [(''nef'', oget args ''nef''), (''manifest'', oget args ''manifest'')]
      else [])"

definition idempotency_key :: "jsobj \<Rightarrow> string" where
  "idempotency_key args = (case oget args ''idempotencyKey'' of JStr k \<Rightarrow> k | _ \<Rightarrow> [])"

definition write_request_of :: "string \<Rightarrow> string \<Rightarrow> jsobj \<Rightarrow> write_request" where
  "write_request_of operation network payload = \<lparr>q_operation = operation, q_network = network, q_payload = JObj payload\<rparr>"

definition mcp_reserve :: "mcp_env \<Rightarrow> string \<Rightarrow> string \<Rightarrow> jsobj \<Rightarrow> (world, write_record) act" where
  "mcp_reserve env operation network args =
     coordinator_reserve (me_sha env) (me_isAddress env) (me_scriptHash env) (me_signer env) (idempotency_key args)
       (write_request_of operation network (write_payload operation args))"

definition write_admitted :: "mcp_env \<Rightarrow> string \<Rightarrow> jsobj \<Rightarrow> (server_state, string) act" where
  "write_admitted env operation args =
     (if \<not> cf_writesEnabled (me_config env) then throwA (GenericError ''State-changing tools are disabled'')
      else bindA (liftA (me_openCoordinator env)) (\<lambda>_.
      bindA (liftA (validateNetwork (oget args ''network''))) (\<lambda>network.
      bindA (getNeoService env (JStr network)) (\<lambda>_.
      bindA (getContractService env (JStr network)) (\<lambda>_.
      bindA (liftA (if operation = ''deploy_contract''
                    then me_validateArtifacts env (oget (write_payload operation args) ''nef'') (oget (write_payload operation args) ''manifest'')
                    else Inr ())) (\<lambda>_.
      retA network))))))"

definition handleMcpWrite :: "mcp_env \<Rightarrow> string \<Rightarrow> jsobj \<Rightarrow> write_context \<Rightarrow> (mcp_state, mcp_response) act" where
  "handleMcpWrite env operation args cx =
     catchA (bindA (onServer (write_admitted env operation args)) (\<lambda>network.
             onWorld (bindA (mcp_reserve env operation network args) (write_round env operation network cx))))
       (\<lambda>e. retA (Error_response (error_message e)))"

definition WRITE_TOOLS :: "string list" where
  "WRITE_TOOLS = [''transfer_assets'', ''invoke_contract_write'', ''claim_gas'', ''deploy_contract'']"

text \<open>A write tool is registered only where writes are enabled, and charges the client before anything else.\<close>

definition callWriteTool ::
    "mcp_env \<Rightarrow> nat option \<Rightarrow> int \<Rightarrow> clients \<Rightarrow> string \<Rightarrow> jsobj \<Rightarrow> write_context \<Rightarrow> mcp_state
     \<Rightarrow> mcp_response outcome option \<times> clients \<times> mcp_state" where
  "callWriteTool env scope now cl name args cx s =
     (if \<not> cf_writesEnabled (me_config env) \<or> name \<notin> set WRITE_TOOLS then (None, cl, s)
      else case chargeClientRateLimit scope now (fst cl) (snd cl) of
        (Inl e, k, l) \<Rightarrow> (Some (Throw (RateLimitError ''Rate limit exceeded. Try again in '')), (k, l), s)
      | (Inr _, k, l) \<Rightarrow> (case handleMcpWrite env name args cx s of (out, s') \<Rightarrow> (Some out, (k, l), s')))"

section \<open>The services of a network mode\<close>

definition enabled_networks :: "mcp_env \<Rightarrow> string list" where
  "enabled_networks env =
     (if cf_networkMode (me_config env) \<in> {MAINNET_ONLY, BOTH} then [''mainnet''] else [])
     @ (if cf_networkMode (me_config env) \<in> {TESTNET_ONLY, BOTH} then [''testnet''] else [])"

text \<open>Services exist for enabled networks only, for all of them once the server is initialized.\<close>

definition services_ok :: "mcp_env \<Rightarrow> server_state \<Rightarrow> bool" where
  "services_ok env sv \<longleftrightarrow>
     set (sv_neo sv) \<subseteq> set (enabled_networks env) \<and> set (sv_contract sv) = set (sv_neo sv)
     \<and> (sv_initialized sv \<longrightarrow> set (enabled_networks env) \<subseteq> set (sv_neo sv))"

lemma add_service_set [simp]: "set (add_service n ns) = insert n (set ns)"
  by (auto simp: add_service_def)

lemma init_network_cases:
  "init_network env n s = (Ret (), s\<lparr>sv_neo := add_service n (sv_neo s), sv_contract := add_service n (sv_contract s)\<rparr>)
   \<or> (\<exists>e. init_network env n s = (Throw e, s))"
  by (cases "me_construct env ''neo'' n"; cases "me_construct env ''contract'' n") (simp_all add: init_network_def bindA_apply)

lemma ensure_keeps:
  assumes "services_ok env s" "ensureServicesInitialized env s = (out, s')"
  shows "services_ok env s' \<and> (out = Ret () \<longrightarrow> sv_initialized s') \<and> out \<noteq> Crash"
proof (cases "sv_initialized s")
  case True
  with assms show ?thesis by (auto simp: ensureServicesInitialized_def)
next
  case False
  have ok: "services_ok env (s\<lparr>sv_neo := add_service n (sv_neo s), sv_contract := add_service n (sv_contract s)\<rparr>)
      \<and> \<not> sv_initialized (s\<lparr>sv_neo := add_service n (sv_neo s), sv_contract := add_service n (sv_contract s)\<rparr>)"
    if "services_ok env s" "\<not> sv_initialized s" "n \<in> set (enabled_networks env)" for n s
    using that by (simp add: services_ok_def)
  define first where "first = (if cf_networkMode (me_config env) \<in> {MAINNET_ONLY, BOTH} then init_network env ''mainnet'' else retA ())"
  define second where "second = (if cf_networkMode (me_config env) \<in> {TESTNET_ONLY, BOTH} then init_network env ''testnet'' else retA ())"
  have one: "services_ok env u \<and> \<not> sv_initialized u \<and> r \<noteq> Crash
      \<and> (r = Ret () \<longrightarrow> (cf_networkMode (me_config env) \<in> {MAINNET_ONLY, BOTH} \<longrightarrow> ''mainnet'' \<in> set (sv_neo u)))"
    if "first s = (r, u)" for r u
    using that init_network_cases [of env "''mainnet''" s] assms(1) False ok [of s "''mainnet''"]
    by (auto simp: first_def enabled_networks_def split: if_splits)
  have two: "services_ok env u \<and> r \<noteq> Crash
      \<and> (r = Ret () \<longrightarrow> (cf_networkMode (me_config env) \<in> {TESTNET_ONLY, BOTH} \<longrightarrow> ''testnet'' \<in> set (sv_neo u)) \<and> set (sv_neo t) \<subseteq> set (sv_neo u))"
    if "second t = (r, u)" "services_ok env t" "\<not> sv_initialized t" for r u t
    using that init_network_cases [of env "''testnet''" t] ok [of t "''testnet''"]
    by (auto simp: second_def enabled_networks_def split: if_splits)
  have run: "bindA first (\<lambda>_. bindA second (\<lambda>_ s. (Ret (), s\<lparr>sv_initialized := True\<rparr>))) s = (out, s')"
    using assms(2) False by (simp add: ensureServicesInitialized_def first_def second_def)
  obtain r u where f: "first s = (r, u)" by (cases "first s")
  note u = one [OF f]
  show ?thesis
  proof (cases "r = Ret ()")
    case True
    obtain q t where g: "second u = (q, t)" by (cases "second u")
    note t = two [OF g] u
    show ?thesis
    proof (cases q)
      case (Ret x)
      then have s': "out = Ret ()" "s' = t\<lparr>sv_initialized := True\<rparr>" using run f g True by (simp_all add: bindA_apply)
      have "set (enabled_networks env) \<subseteq> set (sv_neo t)" using t True Ret by (auto simp: enabled_networks_def)
      with t s' show ?thesis by (simp add: services_ok_def)
    qed (use run f g t True in \<open>auto simp: bindA_apply\<close>)
  next
    case r: False
    with run f u show ?thesis by (cases r) (auto simp: bindA_apply)
  qed
qed

text \<open>Setting up services never ends the process.\<close>

definition no_crash :: "('s, 'a) act \<Rightarrow> bool" where "no_crash m \<longleftrightarrow> (\<forall>s. fst (m s) \<noteq> Crash)"

lemma no_crash_intros:
  "no_crash m \<Longrightarrow> (\<And>a. no_crash (f a)) \<Longrightarrow> no_crash (bindA m f)"
  "no_crash m \<Longrightarrow> no_crash m' \<Longrightarrow> no_crash (if c then m else m')"
  "no_crash (liftA x)" "no_crash (throwA e)" "no_crash (retA a)" "no_crash (\<lambda>s. (Ret a, g s))"
  "no_crash (\<lambda>s. if P s then (Ret a, s) else (Throw e, s))"
  "no_crash m \<Longrightarrow> no_crash (\<lambda>s. if P s then (Ret a, s) else m s)"
  by (auto simp: no_crash_def bindA_apply liftA_def split: prod.splits outcome.splits sum.splits) (metis fst_conv)

lemma no_crash_ensure: "no_crash (ensureServicesInitialized env)"
  unfolding ensureServicesInitialized_def init_network_def by (intro no_crash_intros)

lemma no_crash_services: "no_crash (getNeoService env p)" "no_crash (getContractService env p)"
  unfolding getNeoService_def getContractService_def by (intro no_crash_intros no_crash_ensure)+

lemma write_admitted_no_crash: "write_admitted env operation args s \<noteq> (Crash, s')"
proof -
  have "no_crash (write_admitted env operation args)" unfolding write_admitted_def
    by (intro no_crash_intros no_crash_services)
  then show ?thesis by (metis fst_conv no_crash_def)
qed

section \<open>The read tools\<close>

lemma context_vets: "tool_call_ok (tool_context henv sv wallet) c = tool_call_ok henv c"
proof (cases c)
  case (Node n op)
  then show ?thesis by (cases op) (simp_all add: tool_context_def valid_address_def checked_def)
qed (simp_all add: tool_context_def valid_address_def checked_def)


section \<open>Approval of a write\<close>

text \<open>The client has approved this record: it sent back the request state the server signed for it, and accepted with its fingerprint.\<close>

definition approved_by :: "write_context \<Rightarrow> string \<Rightarrow> string \<Rightarrow> write_record \<Rightarrow> bool" where
  "approved_by cx operation network r \<longleftrightarrow>
     cx_requestState cx = Some (approval_of r operation network)
     \<and> (\<exists>content. cx_response cx = Elicit_response ''accept'' content \<and> approval_content content = Some (w_fingerprint r, True))"

lemma approval_state_exact:
  "assertWriteApprovalState st (w_intentId r) (w_fingerprint r) operation network = Inr () \<longleftrightarrow> st = approval_of r operation network"
  by (auto simp: assertWriteApprovalState_def approval_of_def)

lemma declined_outcome:
  assumes "declined env r message w = (out, w')"
  shows "(\<forall>a. out \<noteq> Ret a) \<and> (w' = w \<or> w_state r = Awaiting_approval \<and> w' = snd (decline (me_sha env) (w_intentId r) w))"
  using assms by (auto simp: declined_def bindA_apply split: prod.splits outcome.splits if_splits)

lemma write_round_approved:
  "approved_by cx operation network r \<Longrightarrow> write_round env operation network cx r = approve_and_execute env network r"
  by (auto simp: approved_by_def write_round_def approval_state_exact fun_eq_iff bindA_apply)
    (simp add: assertWriteApprovalState_def approval_of_def)

lemma write_round_unapproved:
  assumes "write_round env operation network cx r w = (out, w')" "\<not> approved_by cx operation network r"
  shows "(\<forall>a. out = Ret a \<longrightarrow> w' = w \<and> (\<exists>ask. a = Input_required ask (approval_of r operation network) \<and> ask = formatWriteApprovalMessage operation network r))
    \<and> (w' = w \<or> w_state r = Awaiting_approval \<and> w' = snd (decline (me_sha env) (w_intentId r) w))"
proof (cases "cx_requestState cx")
  case None
  with assms(1) show ?thesis by (auto simp: write_round_def split: if_splits)
next
  case (Some st)
  show ?thesis
  proof (cases "st = approval_of r operation network")
    case False
    then obtain e where "assertWriteApprovalState st (w_intentId r) (w_fingerprint r) operation network = Inl e"
      using approval_state_exact by (cases "assertWriteApprovalState st (w_intentId r) (w_fingerprint r) operation network") auto
    with assms(1) Some show ?thesis by (auto simp: write_round_def bindA_apply)
  next
    case True
    then have ok: "assertWriteApprovalState st (w_intentId r) (w_fingerprint r) operation network = Inr ()" by (simp add: approval_state_exact)
    show ?thesis
      using assms Some True ok declined_outcome [of env r _ w out w']
      by (cases "cx_response cx") (auto simp: write_round_def bindA_apply approved_by_def split: if_splits)
  qed
qed

text \<open>
  C33: nothing a client sends makes a write tool approve or execute an intent, unless the client sent back the request state
  this server signed for exactly this intent, operation and network, and accepted with exactly its fingerprint. Otherwise the
  journal gets at most the reservation, then at most the refusal of an intent that awaited its approval, and the answer
  is an error or the request for the approval of the very record reserved.
\<close>

theorem mcp_write_needs_approval:
  assumes "handleMcpWrite env operation args cx s = (out, s')"
    and "\<And>network r w. mcp_reserve env operation network args (ms_world s) = (Ret r, w) \<Longrightarrow> \<not> approved_by cx operation network r"
  shows "ms_world s' = ms_world s \<and> (\<exists>m. out = Ret (Error_response m))
    \<or> (\<exists>network. let (result, w) = mcp_reserve env operation network args (ms_world s) in
        case result of
          Ret r \<Rightarrow>
            (ms_world s' = w \<or> w_state r = Awaiting_approval \<and> ms_world s' = snd (decline (me_sha env) (w_intentId r) w))
            \<and> (out = Crash \<or> (\<exists>m. out = Ret (Error_response m))
                \<or> out = Ret (Input_required (formatWriteApprovalMessage operation network r) (approval_of r operation network)))
        | Throw e \<Rightarrow> ms_world s' = w \<and> out = Ret (Error_response (error_message e))
        | Crash \<Rightarrow> ms_world s' = w \<and> out = Crash)"
proof -
  obtain first sv where a: "write_admitted env operation args (ms_server s) = (first, sv)" by (cases "write_admitted env operation args (ms_server s)")
  show ?thesis
  proof (cases first)
    case (Ret network)
    obtain result w where r: "mcp_reserve env operation network args (ms_world s) = (result, w)"
      by (cases "mcp_reserve env operation network args (ms_world s)")
    show ?thesis
    proof (cases result)
      case res: (Ret r)
      obtain out2 w2 where round: "write_round env operation network cx r w = (out2, w2)" by (cases "write_round env operation network cx r w")
      note outcome = write_round_unapproved [OF round assms(2) [OF r [unfolded res]]]
      have "ms_world s' = w2" "out = (case out2 of Throw e \<Rightarrow> Ret (Error_response (error_message e)) | x \<Rightarrow> x)"
        using assms(1) a Ret r res round
        by (auto simp: handleMcpWrite_def catchA_apply bindA_apply onServer_def onWorld_def split: outcome.splits)
      then show ?thesis using outcome r res by (intro disjI2 exI [of _ network]) (cases out2; auto)
    next
      case (Throw e)
      then show ?thesis using assms(1) a Ret r
        by (intro disjI2 exI [of _ network]) (auto simp: handleMcpWrite_def catchA_apply bindA_apply onServer_def onWorld_def)
    next
      case Crash
      then show ?thesis using assms(1) a Ret r
        by (intro disjI2 exI [of _ network]) (auto simp: handleMcpWrite_def catchA_apply bindA_apply onServer_def onWorld_def)
    qed
  next
    case (Throw e)
    then show ?thesis using assms(1) a by (auto simp: handleMcpWrite_def catchA_apply bindA_apply onServer_def)
  next
    case Crash
    with write_admitted_no_crash a show ?thesis by blast
  qed
qed

lemma executed_answer: "approve_and_execute env network r w = (Ret a, w') \<Longrightarrow> \<exists>res. a = Write_response res"
  by (auto simp: approve_and_execute_def bindA_Ret split: exec_next.splits) (metis exec_next.exhaust)

text \<open>A second call, after the first set everything up.\<close>

lemma ensure_again: "ensureServicesInitialized env s = (Ret (), s') \<Longrightarrow> sv_initialized s'"
  by (auto simp: ensureServicesInitialized_def bindA_Ret split: if_splits)

lemma getNeoService_again:
  assumes "getNeoService env p s = (Ret n, s')"
  shows "sv_initialized s' \<and> n \<in> set (sv_neo s') \<and> getNeoService env p s' = (Ret n, s')"
proof -
  from assms obtain s0 where e: "ensureServicesInitialized env s = (Ret (), s0)" unfolding getNeoService_def by (auto simp: bindA_Ret)
  with assms have "s0 = s'" "n \<in> set (sv_neo s')"
    unfolding getNeoService_def by (auto simp: bindA_apply bindA_Ret liftA_def split: if_splits sum.splits)
  with ensure_again [OF e] assms e show ?thesis
    unfolding getNeoService_def by (simp add: bindA_apply ensureServicesInitialized_def)
qed

lemma getContractService_again:
  assumes "getContractService env p s = (Ret n, s')" "sv_initialized s"
  shows "s' = s"
  using assms unfolding getContractService_def
  by (auto simp: bindA_apply bindA_Ret liftA_def ensureServicesInitialized_def split: if_splits sum.splits)

lemma write_admitted_again:
  assumes "write_admitted env operation args s = (Ret network, s')"
  shows "write_admitted env operation args s' = (Ret network, s')"
proof -
  let ?p = "oget args ''network''"
  from assms have w: "cf_writesEnabled (me_config env)" by (auto simp: write_admitted_def split: if_splits)
  from assms w obtain u n c s1 where o1: "me_openCoordinator env = Inr u" "validateNetwork ?p = Inr network"
    and n: "getNeoService env (JStr network) s = (Ret n, s1)" and c: "getContractService env (JStr network) s1 = (Ret c, s')"
    and a: "liftA (if operation = ''deploy_contract''
              then me_validateArtifacts env (oget (write_payload operation args) ''nef'') (oget (write_payload operation args) ''manifest'')
              else Inr ()) s' = (Ret (), s')"
    by (auto simp: write_admitted_def bindA_Ret liftA_def split: sum.splits if_splits)
  note again = getNeoService_again [OF n]
  have "s' = s1" using getContractService_again [OF c] again by simp
  with again c o1 a w show ?thesis by (simp add: write_admitted_def bindA_apply)
qed

lemma reserve_later:
  assumes "reserve sha key i w = (Ret r, w)" "read_record sha (journal w) (sha key) = Inr (Some r)" "journal w2 = journal w"
  shows "reserve sha key i w2 = (Ret r, w2)"
  using assms by (auto simp: reserve_def bindA_Ret bindA_apply readA_apply liftA_def split: if_splits sum.splits)

lemma mcp_reserve_later:
  assumes "mcp_reserve env operation network args w = (Ret r, w1)" "journal w2 = journal w1"
    and "clean_journal (journal w)" "isIsoDate (clock w)" "json_clean (JObj (write_payload operation args))" "\<And>x. hex64 (me_sha env x)"
  shows "mcp_reserve env operation network args w2 = (Ret r, w2)"
proof -
  let ?q = "write_request_of operation network (write_payload operation args)"
  from assms(1) have v: "validateRequest (me_isAddress env) (me_scriptHash env) ?q = Inr ()"
    and r: "reserve (me_sha env) (idempotency_key args) (request_intent (me_signer env) ?q) w = (Ret r, w1)"
    by (auto simp: mcp_reserve_def reserve_cases split: sum.splits)
  have "json_clean (w_payload (request_intent (me_signer env) ?q))" using assms(5) by (simp add: request_intent_def write_request_of_def)
  note saved = reserve_saved [OF r assms(3,4) this assms(6)]
  show ?thesis using reserve_later [OF saved(2,1) assms(2)] v by (simp add: mcp_reserve_def reserve_cases)
qed


section \<open>Examples\<close>

definition demo_mcp :: "app_config \<Rightarrow> services \<Rightarrow> mcp_env" where
  "demo_mcp config svc =
     \<lparr>me_config = config\<lparr>cf_writesEnabled := True, cf_networkMode := BOTH\<rparr>, me_construct = (\<lambda>_ _. Inr ()), me_openCoordinator = Inr (),
      me_sha = demo_sha, me_isAddress = (\<lambda>_. True), me_scriptHash = (\<lambda>_. None), me_signer = ''NXV7'', me_services = (\<lambda>_. svc),
      me_validateArtifacts = (\<lambda>_ _. Inr ())\<rparr>"

definition demo_write_args :: jsobj where
  "demo_write_args = [(''idempotencyKey'', JStr ''key-0001''), (''network'', JStr ''testnet'')]"

definition demo_start :: mcp_state where
  "demo_start = \<lparr>ms_server = \<lparr>sv_initialized = False, sv_neo = [], sv_contract = []\<rparr>, ms_world = world_of sys_init [] demo_now\<rparr>"

definition demo_asked :: mcp_state where
  "demo_asked = \<lparr>ms_server = \<lparr>sv_initialized = True, sv_neo = [''mainnet'', ''testnet''], sv_contract = [''mainnet'', ''testnet'']\<rparr>,
     ms_world = saved demo_id demo_claim_record (world_of sys_init [] demo_now)\<rparr>"

lemma demo_mcp_admitted:
  "write_admitted (demo_mcp config svc) ''claim_gas'' demo_write_args (ms_server demo_start) = (Ret ''testnet'', ms_server demo_asked)"
  by (simp add: write_admitted_def demo_mcp_def demo_write_args_def demo_start_def demo_asked_def getNeoService_def getContractService_def
      ensureServicesInitialized_def init_network_def add_service_def bindA_apply validateNetwork_def to_lower_def lower_char_def trim_def cc_def is_ws_def)

lemma demo_mcp_reserved:
  "mcp_reserve (demo_mcp config svc) ''claim_gas'' ''testnet'' demo_write_args (ms_world demo_start) = (Ret demo_claim_record, ms_world demo_asked)"
  using demo_claim_reserved(1)
  by (simp add: mcp_reserve_def demo_mcp_def demo_write_args_def demo_start_def demo_asked_def idempotency_key_def write_request_of_def write_payload_def
      demo_claim_def)

lemma demo_mcp_asked:
  "handleMcpWrite (demo_mcp config svc) ''claim_gas'' demo_write_args \<lparr>cx_requestState = None, cx_response = Missing_response\<rparr> demo_start
   = (Ret (Input_required (formatWriteApprovalMessage ''claim_gas'' ''testnet'' demo_claim_record)
        (approval_of demo_claim_record ''claim_gas'' ''testnet'')), demo_asked)"
  using demo_mcp_admitted demo_mcp_reserved
  by (simp add: handleMcpWrite_def catchA_apply bindA_apply onServer_def onWorld_def write_round_def)

definition demo_accept :: jsval where
  "demo_accept = JObj [(''fingerprint'', JStr (w_fingerprint demo_claim_record)), (''approve'', JBool True)]"

lemma demo_accepted: "approval_content demo_accept = Some (w_fingerprint demo_claim_record, True)"
  using demo_hex by (simp add: approval_content_def demo_accept_def demo_claim_record_def fresh_record_def)

text \<open>An acceptance that names no request state approves nothing.\<close>

lemma mcp_write_needs_approval_witness:
  "\<forall>config svc. \<exists>m s'. handleMcpWrite (demo_mcp config svc) ''claim_gas'' demo_write_args
     \<lparr>cx_requestState = None, cx_response = Elicit_response ''accept'' demo_accept\<rparr> demo_start = (Ret (Error_response m), s')
     \<and> ms_world s' = ms_world demo_asked"
proof (intro allI)
  fix config svc
  let ?env = "demo_mcp config svc" and ?cx = "\<lparr>cx_requestState = None, cx_response = Elicit_response ''accept'' demo_accept\<rparr>"
  obtain out s' where run: "handleMcpWrite ?env ''claim_gas'' demo_write_args ?cx demo_start = (out, s')" by (metis prod.exhaust)
  have eq: "handleMcpWrite ?env ''claim_gas'' demo_write_args ?cx demo_start
      = (Ret (Error_response ''Write approval response requires signed requestState''), demo_asked)"
    using demo_mcp_admitted demo_mcp_reserved
    by (simp add: handleMcpWrite_def catchA_apply bindA_apply onServer_def onWorld_def write_round_def)
  from mcp_write_needs_approval [OF run] eq show "\<exists>m s'. handleMcpWrite ?env ''claim_gas'' demo_write_args ?cx demo_start
      = (Ret (Error_response m), s') \<and> ms_world s' = ms_world demo_asked"
    by (auto simp: approved_by_def)
qed



end
