(* ===== verification/Resources.thy ===== *)
theory Resources
  imports McpServer
begin

text \<open>
  src/handlers/resource-handler.ts: the resources of the MCP server, three snapshots of the network and the block template. Each read
  charges the client's bucket first; the reply is the node's answer as JSON.
\<close>

datatype resource = Network_status | Mainnet_status | Testnet_status | Block_at jsval

definition registered_resources :: "network_mode \<Rightarrow> string list" where
  "registered_resources mode =
     [''neo-network-status'']
     @ (if mode \<in> {MAINNET_ONLY, BOTH} then [''neo-mainnet-status''] else [])
     @ (if mode \<in> {TESTNET_ONLY, BOTH} then [''neo-testnet-status''] else [])
     @ [''neo-block'']"

fun resource_name :: "resource \<Rightarrow> string" where
  "resource_name Network_status = ''neo-network-status''"
| "resource_name Mainnet_status = ''neo-mainnet-status''"
| "resource_name Testnet_status = ''neo-testnet-status''"
| "resource_name (Block_at height) = ''neo-block''"

fun resource_network :: "resource \<Rightarrow> jsval" where
  "resource_network Mainnet_status = JStr ''mainnet''"
| "resource_network Testnet_status = JStr ''testnet''"
| "resource_network res = JUndef"

text \<open>\<open>Array.isArray(height) ? height[0] : height\<close>\<close>

definition height_param :: "jsval \<Rightarrow> jsval" where
  "height_param v = (case v of JArr (h # hs) \<Rightarrow> h | JArr [] \<Rightarrow> JUndef | _ \<Rightarrow> v)"

definition resource_calls :: "handler_env \<Rightarrow> string \<Rightarrow> resource \<Rightarrow> jsval tool" where
  "resource_calls henv network res =
     (case res of
        Block_at height \<Rightarrow> liftH (validateInteger (height_param height)) (\<lambda>i. node henv network (R_block (JNum (NInt i))))
      | _ \<Rightarrow> node henv network R_blockchain_info)"

definition readResource ::
    "mcp_env \<Rightarrow> handler_env \<Rightarrow> nat option \<Rightarrow> int \<Rightarrow> clients \<Rightarrow> server_state \<Rightarrow> resource \<Rightarrow> jsval tool \<times> clients \<times> server_state" where
  "readResource env henv scope now cl sv res =
     (case chargeClientRateLimit scope now (fst cl) (snd cl) of
        (Inl e, k, l) \<Rightarrow> (giveH (Inl (RateLimitError ''Rate limit exceeded. Try again in '')), (k, l), sv)
      | (Inr _, k, l) \<Rightarrow>
          (case getNeoService env (resource_network res) sv of
             (Ret network, sv1) \<Rightarrow> (resource_calls henv network res, (k, l), sv1)
           | (Throw e, sv1) \<Rightarrow> (giveH (Inl e), (k, l), sv1)
           | (Crash, sv1) \<Rightarrow> (giveH (Inl (GenericError [])), (k, l), sv1)))"

definition resource_call_ok :: "mcp_env \<Rightarrow> tool_call \<Rightarrow> bool" where
  "resource_call_ok env c \<longleftrightarrow>
     (\<exists>network \<in> set (enabled_networks env). c = Node network R_blockchain_info \<or> (\<exists>i \<ge> 0. c = Node network (R_block (JNum (NInt i)))))"

lemma getNeoService_enabled:
  assumes "services_ok env s" "getNeoService env p s = (Ret n, s')"
  shows "n \<in> set (enabled_networks env) \<and> services_ok env s'"
proof -
  from assms(2) obtain s0 where e: "ensureServicesInitialized env s = (Ret (), s0)" unfolding getNeoService_def by (auto simp: bindA_Ret)
  with assms(2) have "s0 = s'" "n \<in> set (sv_neo s')"
    unfolding getNeoService_def by (auto simp: bindA_apply bindA_Ret liftA_def split: if_splits sum.splits)
  with ensure_keeps [OF assms(1) e] show ?thesis by (auto simp: services_ok_def)
qed

text \<open>A resource read asks only an enabled network, for its state or a block of non-negative height.\<close>

lemma resource_reads_confined:
  assumes "services_ok env sv"
  shows "list_all (resource_call_ok env) (fst (fst (readResource env henv scope now cl sv res)))"
proof -
  have "list_all (resource_call_ok env) (fst (resource_calls henv network res))" if "network \<in> set (enabled_networks env)" for network
    using that validateInteger_positive
    by (cases res) (auto simp: resource_calls_def node_def liftH_def callH_def giveH_def resource_call_ok_def split: sum.splits)
  then show ?thesis using getNeoService_enabled [OF assms]
    by (auto simp: readResource_def giveH_def split: prod.splits sum.splits outcome.splits)
qed

end
