(* ===== verification/HttpServer.thy ===== *)
theory HttpServer
  imports WriteCoordinator KnownAccounts RateLimiter ClientIdentity Config
begin

text \<open>
  src/http-server.ts, first part: the options of the server, what it reads from a request, the
  guards every request passes, the body, and the checks of single values. The routes are in
  HttpRoutes.

  The record \<open>http_env\<close> holds what the code takes from outside: the URL parser (path and query, or
  \<open>None\<close> when it throws), \<open>decodeURIComponent\<close>, \<open>JSON.parse\<close> on the bytes of a body, SHA-256, \<open>isIP\<close>
  and the block list of Node, and the address functions of neon-js. Log lines are left out.
\<close>

record http_env =
  he_parseUrl :: "string \<Rightarrow> (string \<times> (string \<Rightarrow> string option)) option"
  he_decode :: "string \<Rightarrow> string option"
  he_parseJson :: "nat list \<Rightarrow> jsval option"
  he_sha :: "string \<Rightarrow> string"
  he_isIP :: "string \<Rightarrow> nat"
  he_matches :: "block_rule \<Rightarrow> address \<Rightarrow> bool"
  he_isAddress :: "string \<Rightarrow> bool"
  he_scriptHashOf :: "string \<Rightarrow> string option"
  he_origin :: "string \<Rightarrow> string option"

section \<open>Options\<close>

text \<open>What the caller passes; an absent option is \<open>None\<close>.\<close>

record http_options =
  ho_host :: "string option"
  ho_apiKey :: "string option"
  ho_corsOrigins :: "string list option"
  ho_trustedProxies :: "string list option"
  ho_maxBodyBytes :: "jsnum option"
  ho_requestTimeoutMs :: "jsnum option"
  ho_headersTimeoutMs :: "jsnum option"
  ho_keepAliveTimeoutMs :: "jsnum option"
  ho_shutdownGraceMs :: "jsnum option"
  ho_healthCacheTtlMs :: "jsnum option"
  ho_writesEnabled :: "bool option"
  ho_walletAdministrationEnabled :: "bool option"
  ho_writeApprovalApiKey :: "string option"
  ho_writeCoordinator :: bool

text \<open>What the server keeps of them.\<close>

record http_server =
  hs_host :: string
  hs_apiKey :: "string option"
  hs_corsOrigins :: "string list"
  hs_trustedProxies :: "block_rule list"
  hs_maxBodyBytes :: int
  hs_requestTimeoutMs :: int
  hs_headersTimeoutMs :: int
  hs_keepAliveTimeoutMs :: int
  hs_shutdownGraceMs :: int
  hs_healthCacheTtlMs :: int
  hs_writesEnabled :: bool
  hs_walletAdministrationEnabled :: bool
  hs_writeApprovalApiKey :: "string option"
  hs_writeCoordinator :: bool

definition requirePositiveInteger :: "jsnum \<Rightarrow> string \<Rightarrow> int result" where
  "requirePositiveInteger v name =
     (case v of
        NInt i \<Rightarrow> if isSafeInteger v \<and> 0 < i then Inr i else Inl (GenericError (name @ '' must be a positive safe integer''))
      | _ \<Rightarrow> Inl (GenericError (name @ '' must be a positive safe integer'')))"

definition is_loopback :: "string \<Rightarrow> bool" where
  "is_loopback host \<longleftrightarrow> to_lower host \<in> {''localhost'', ''127.0.0.1'', ''::1'', ''[::1]''}"

text \<open>\<open>!options.apiKey\<close> holds for an absent and for an empty key.\<close>

definition no_text :: "string option \<Rightarrow> bool" where
  "no_text v \<longleftrightarrow> v = None \<or> v = Some []"

definition check_keys :: "string \<Rightarrow> http_options \<Rightarrow> unit result" where
  "check_keys host p =
     bindR (check_that (is_loopback host \<or> \<not> no_text (ho_apiKey p)) ''An API key is required when binding to a non-loopback host'') (\<lambda>_.
     bindR (check_that (long_enough (ho_apiKey p)) ''The API key must contain at least 32 bytes'') (\<lambda>_.
     bindR (check_that (long_enough (ho_writeApprovalApiKey p)) ''The write approval API key must contain at least 32 bytes'') (\<lambda>_.
     bindR (check_that (ho_writesEnabled p \<noteq> Some True \<or> ho_writeCoordinator p)
              ''A write coordinator is required when state-changing operations are enabled'') (\<lambda>_.
     bindR (check_that (ho_writesEnabled p \<noteq> Some True \<or> \<not> no_text (ho_writeApprovalApiKey p))
              ''A write approval API key is required when state-changing operations are enabled'') (\<lambda>_.
     check_that (no_text (ho_apiKey p) \<or> ho_writeApprovalApiKey p \<noteq> ho_apiKey p)
       ''The write approval API key must differ from the request API key'')))))"

definition or_default :: "'a \<Rightarrow> 'a option \<Rightarrow> 'a" where
  "or_default d v = (case v of None \<Rightarrow> d | Some a \<Rightarrow> a)"

definition new_http_server :: "http_env \<Rightarrow> http_options \<Rightarrow> http_server result" where
  "new_http_server env p =
     (let host = (case ho_host p of None \<Rightarrow> ''127.0.0.1'' | Some h \<Rightarrow> if trim h = [] then ''127.0.0.1'' else trim h) in
      bindR (check_keys host p) (\<lambda>_.
      bindR (requirePositiveInteger (or_default (NInt (1024 * 1024)) (ho_maxBodyBytes p)) ''maxBodyBytes'') (\<lambda>body.
      bindR (requirePositiveInteger (or_default (NInt 30000) (ho_requestTimeoutMs p)) ''requestTimeoutMs'') (\<lambda>request.
      bindR (requirePositiveInteger (or_default (NInt 10000) (ho_headersTimeoutMs p)) ''headersTimeoutMs'') (\<lambda>headers.
      bindR (requirePositiveInteger (or_default (NInt 5000) (ho_keepAliveTimeoutMs p)) ''keepAliveTimeoutMs'') (\<lambda>alive.
      bindR (requirePositiveInteger (or_default (NInt 10000) (ho_shutdownGraceMs p)) ''shutdownGraceMs'') (\<lambda>grace.
      bindR (requirePositiveInteger (or_default (NInt 5000) (ho_healthCacheTtlMs p)) ''healthCacheTtlMs'') (\<lambda>ttl.
      bindR (check_that (headers \<le> request) ''headersTimeoutMs must not exceed requestTimeoutMs'') (\<lambda>_.
      bindR (createTrustedProxyBlockList (he_isIP env) (or_default [] (ho_trustedProxies p))) (\<lambda>proxies.
      Inr \<lparr>hs_host = host, hs_apiKey = ho_apiKey p,
           hs_corsOrigins = map (\<lambda>t. or_default t (he_origin env t)) (or_default [] (ho_corsOrigins p)),
           hs_trustedProxies = proxies, hs_maxBodyBytes = body, hs_requestTimeoutMs = request,
           hs_headersTimeoutMs = headers, hs_keepAliveTimeoutMs = alive, hs_shutdownGraceMs = grace,
           hs_healthCacheTtlMs = ttl, hs_writesEnabled = or_default False (ho_writesEnabled p),
           hs_walletAdministrationEnabled = or_default False (ho_walletAdministrationEnabled p),
           hs_writeApprovalApiKey = ho_writeApprovalApiKey p, hs_writeCoordinator = ho_writeCoordinator p\<rparr>))))))))))"

section \<open>Requests and replies\<close>

text \<open>
  Header lines come in order with names in lower case. Node drops the repetitions of some headers and
  joins those of all others the server reads with a comma, so \<open>req.headers\<close> never has an array for them.
\<close>

record http_request =
  hr_method :: string
  hr_url :: string
  hr_headers :: "(string \<times> string) list"
  hr_contentLength :: "nat option"
  hr_remoteAddress :: "string option"
  hr_chunks :: "nat list list"
  hr_streamError :: "js_error option"

definition single_headers :: "string list" where
  "single_headers = [''authorization'', ''content-type'']"

definition req_header :: "http_request \<Rightarrow> string \<Rightarrow> string option" where
  "req_header req name =
     (case map snd (filter (\<lambda>h. fst h = name) (hr_headers req)) of
        [] \<Rightarrow> None
      | v # vs \<Rightarrow> Some (if name \<in> set single_headers then v else join_with '', '' (v # vs)))"

datatype reply_body = Empty_body | Json_body jsval | Text_body string

record http_reply =
  rp_status :: nat
  rp_headers :: "(string \<times> string) list"
  rp_body :: reply_body

definition json_reply :: "nat \<Rightarrow> (string \<times> string) list \<Rightarrow> jsobj \<Rightarrow> http_reply" where
  "json_reply code hs kvs = \<lparr>rp_status = code, rp_headers = hs @ [(''Content-Type'', ''application/json'')], rp_body = Json_body (JObj kvs)\<rparr>"

definition error_json :: "string \<Rightarrow> jsobj" where
  "error_json m = [(''error'', JStr m)]"

definition response_headers :: "http_server \<Rightarrow> http_request \<Rightarrow> (string \<times> string) list" where
  "response_headers srv req =
     [(''Cache-Control'', ''no-store''), (''X-Content-Type-Options'', ''nosniff'')]
     @ (case req_header req ''origin'' of
          None \<Rightarrow> []
        | Some origin \<Rightarrow>
            if origin \<noteq> [] \<and> origin \<in> set (hs_corsOrigins srv)
            then [(''Access-Control-Allow-Origin'', origin), (''Access-Control-Allow-Methods'', ''GET, POST, PUT, OPTIONS''),
                  (''Access-Control-Allow-Headers'', ''Authorization, Content-Type, Idempotency-Key''), (''Vary'', ''Origin'')]
            else [])"

section \<open>Guards\<close>

definition path_segments :: "string \<Rightarrow> string list" where
  "path_segments path = split_on (CHR ''/'') path"

definition hex64_id :: "string \<Rightarrow> bool" where
  "hex64_id s \<longleftrightarrow> length s = 64 \<and> list_all is_lower_hex s"

definition is_public_probe :: "string \<Rightarrow> string \<Rightarrow> bool" where
  "is_public_probe verb path \<longleftrightarrow> verb = ''GET'' \<and> (path = ''/live'' \<or> path = ''/health'')"

text \<open>\<open>/^\/api\/write-intents\/[0-9a-f]{64}\/approve$/\<close> and \<open>/^\/api\/write-intents\/[^/]+(?:\/approve)?$/\<close>\<close>

definition is_approval_route :: "string \<Rightarrow> string \<Rightarrow> bool" where
  "is_approval_route verb path \<longleftrightarrow> verb = ''POST'' \<and>
     (case path_segments path of
        [r, a, b, iid, c] \<Rightarrow> r = [] \<and> a = ''api'' \<and> b = ''write-intents'' \<and> hex64_id iid \<and> c = ''approve''
      | _ \<Rightarrow> False)"

definition intent_path :: "string \<Rightarrow> bool" where
  "intent_path path \<longleftrightarrow>
     (case path_segments path of
        [r, a, b, iid] \<Rightarrow> r = [] \<and> a = ''api'' \<and> b = ''write-intents'' \<and> iid \<noteq> []
      | [r, a, b, iid, c] \<Rightarrow> r = [] \<and> a = ''api'' \<and> b = ''write-intents'' \<and> iid \<noteq> [] \<and> c = ''approve''
      | _ \<Rightarrow> False)"

definition write_paths :: "string list" where
  "write_paths = [''/api/transfers'', ''/api/accounts/claim-gas'', ''/api/contracts/deploy'', ''/api/contracts/invoke/write'']"

definition is_write_route :: "string \<Rightarrow> string \<Rightarrow> bool" where
  "is_write_route verb path \<longleftrightarrow> (verb = ''POST'' \<and> path \<in> set write_paths) \<or> intent_path path"

definition is_wallet_administration_route :: "string \<Rightarrow> string \<Rightarrow> bool" where
  "is_wallet_administration_route verb path \<longleftrightarrow> verb = ''POST'' \<and> (path = ''/api/wallets'' \<or> path = ''/api/wallets/import'')"

text \<open>\<open>/^Bearer (.+)$/i\<close>; \<open>.\<close> is not a line end.\<close>

definition bearer_token :: "string \<Rightarrow> string option" where
  "bearer_token authorization =
     (let token = drop 7 authorization in
      if to_lower (take 7 authorization) = ''bearer '' \<and> token \<noteq> [] \<and> list_all (\<lambda>c. cc c \<noteq> 10 \<and> cc c \<noteq> 13) token
      then Some token else None)"

definition presents_key :: "http_env \<Rightarrow> http_request \<Rightarrow> string \<Rightarrow> bool" where
  "presents_key env req key =
     (case req_header req ''authorization'' of
        None \<Rightarrow> False
      | Some a \<Rightarrow> (case bearer_token a of None \<Rightarrow> False | Some token \<Rightarrow> he_sha env key = he_sha env token))"

definition isAuthorized :: "http_env \<Rightarrow> http_server \<Rightarrow> http_request \<Rightarrow> string \<Rightarrow> bool" where
  "isAuthorized env srv req path =
     (if is_public_probe (hr_method req) path then True
      else
        let approval = is_approval_route (hr_method req) path;
            expected = (if approval then hs_writeApprovalApiKey srv else hs_apiKey srv) in
        case expected of
          None \<Rightarrow> \<not> approval
        | Some key \<Rightarrow> if key = [] then \<not> approval else presents_key env req key)"

definition getClientAddress :: "http_env \<Rightarrow> http_server \<Rightarrow> http_request \<Rightarrow> string" where
  "getClientAddress env srv req =
     resolveForwardedClientAddress (he_isIP env)
       (case hr_remoteAddress req of None \<Rightarrow> ''unknown'' | Some a \<Rightarrow> if a = [] then ''unknown'' else a)
       (req_header req ''x-forwarded-for'') (block_check (he_matches env) (hs_trustedProxies srv))"

section \<open>The body\<close>

text \<open>The chunks as they arrive: too many bytes end the reading, and so does an error of the stream.\<close>

fun read_body_chunks :: "int \<Rightarrow> nat list list \<Rightarrow> js_error option \<Rightarrow> nat list \<Rightarrow> nat list result" where
  "read_body_chunks limit [] failure received = (case failure of Some e \<Rightarrow> Inl e | None \<Rightarrow> Inr received)"
| "read_body_chunks limit (chunk # rest) failure received =
     (if limit < int (length (received @ chunk)) then Inl (HttpRequestError 413 ''Request body exceeds '')
      else read_body_chunks limit rest failure (received @ chunk))"

definition media_type :: "string \<Rightarrow> string" where
  "media_type contentType = to_lower (trim (hd (split_on (CHR '';'') contentType)))"

definition no_content_type :: "http_request \<Rightarrow> bool" where
  "no_content_type req = no_text (req_header req ''content-type'')"

definition parse_body_text :: "http_env \<Rightarrow> http_request \<Rightarrow> nat list \<Rightarrow> jsobj result" where
  "parse_body_text env req bytes =
     (if bytes = [] then Inr []
      else if no_content_type req then Inl (HttpRequestError 415 ''Content-Type must be application/json'')
      else case he_parseJson env bytes of
             None \<Rightarrow> Inl (HttpRequestError 400 ''Request body must contain valid JSON'')
           | Some (JObj kvs) \<Rightarrow> Inr kvs
           | Some v \<Rightarrow> Inl (HttpRequestError 400 ''Request body must be a JSON object''))"

definition parseRequestBody :: "http_env \<Rightarrow> http_server \<Rightarrow> http_request \<Rightarrow> jsobj result" where
  "parseRequestBody env srv req =
     (if (case req_header req ''content-type'' of None \<Rightarrow> False | Some t \<Rightarrow> t \<noteq> [] \<and> media_type t \<noteq> ''application/json'')
      then Inl (HttpRequestError 415 ''Content-Type must be application/json'')
      else if (case hr_contentLength req of None \<Rightarrow> False | Some n \<Rightarrow> hs_maxBodyBytes srv < int n)
      then Inl (HttpRequestError 413 ''Request body exceeds '')
      else bindR (read_body_chunks (hs_maxBodyBytes srv) (hr_chunks req) (hr_streamError req) []) (parse_body_text env req))"

section \<open>Single values\<close>

definition bad_request :: "string \<Rightarrow> 'a result" where
  "bad_request m = Inl (HttpRequestError 400 m)"

definition requireNonEmptyString :: "jsval \<Rightarrow> string \<Rightarrow> string result" where
  "requireNonEmptyString v name =
     (case v of
        JStr s \<Rightarrow> if trim s = [] then bad_request (name @ '' must be a non-empty string'') else Inr s
      | _ \<Rightarrow> bad_request (name @ '' must be a non-empty string''))"

definition requireAmount :: "jsval \<Rightarrow> string result" where
  "requireAmount v = (case validateTokenAmount v of Inl e \<Rightarrow> bad_request (error_message e) | Inr a \<Rightarrow> Inr a)"

definition requireJsonArray :: "jsval \<Rightarrow> string \<Rightarrow> jsval list result" where
  "requireJsonArray v name = (case v of JArr vs \<Rightarrow> Inr vs | _ \<Rightarrow> bad_request (name @ '' must be an array''))"

definition requireJsonRecord :: "jsval \<Rightarrow> string \<Rightarrow> jsval result" where
  "requireJsonRecord v name =
     (case own_props v of None \<Rightarrow> bad_request (name @ '' must be an object'') | Some kvs \<Rightarrow> Inr v)"

definition requireNef :: "jsval \<Rightarrow> (string \<times> string) result" where
  "requireNef v =
     bindR (requireJsonRecord v ''nef'') (\<lambda>value.
     let nef = (case own_props value of None \<Rightarrow> [] | Some kvs \<Rightarrow> kvs) in
     if oget nef ''encoding'' \<noteq> JStr ''hex'' \<and> oget nef ''encoding'' \<noteq> JStr ''base64''
     then bad_request (''nef.encoding must be '' @ quoted ''hex'' @ '' or '' @ quoted ''base64'')
     else bindR (requireNonEmptyString (oget nef ''data'') ''nef.data'') (\<lambda>d.
          Inr (if oget nef ''encoding'' = JStr ''hex'' then ''hex'' else ''base64'', d)))"

text \<open>A text of digits above \<open>MAX_SAFE_INTEGER\<close> is a number that is not a safe integer.\<close>

definition parsePositiveIntegerQuery :: "string option \<Rightarrow> string \<Rightarrow> nat option result" where
  "parsePositiveIntegerQuery v name =
     (case v of
        None \<Rightarrow> Inr None
      | Some t \<Rightarrow>
          if \<not> all_digits t \<or> maxSafeInteger < int (str_dec t) \<or> str_dec t = 0
          then bad_request (name @ '' must be a positive integer'') else Inr (Some (str_dec t)))"

definition parseNonNegativeIntegerQuery :: "string option \<Rightarrow> string \<Rightarrow> nat option result" where
  "parseNonNegativeIntegerQuery v name =
     (case v of
        None \<Rightarrow> Inr None
      | Some t \<Rightarrow>
          if \<not> all_digits t then bad_request (name @ '' must be a non-negative integer'')
          else if maxSafeInteger < int (str_dec t) then bad_request (name @ '' must be a non-negative safe integer'')
          else Inr (Some (str_dec t)))"

definition parseBooleanQuery :: "string option \<Rightarrow> string \<Rightarrow> bool option result" where
  "parseBooleanQuery v name =
     (case v of
        None \<Rightarrow> Inr None
      | Some t \<Rightarrow> if t = ''true'' then Inr (Some True) else if t = ''false'' then Inr (Some False)
                  else bad_request (name @ '' must be true or false''))"

definition resolveExplicitWriteScriptHash :: "http_env \<Rightarrow> string \<Rightarrow> string result" where
  "resolveExplicitWriteScriptHash env reference =
     (case normalizeScriptHash (Some reference) of
        Some h \<Rightarrow> Inr h
      | None \<Rightarrow>
          (case tryGetScriptHashFromAddress (he_isAddress env) (he_scriptHashOf env) (Some reference) of
             Some h \<Rightarrow> Inr h
           | None \<Rightarrow> bad_request ''Signed contract writes require an explicit script hash or Neo address; name-based resolution is read-only.''))"

definition secret_write_fields :: "string list" where
  "secret_write_fields = [''fromWIF'', ''wif'', ''privateKey'', ''privateKeyOrWIF'', ''password'', ''key'']"

definition has_field :: "jsobj \<Rightarrow> string \<Rightarrow> bool" where
  "has_field body k \<longleftrightarrow> k \<in> fst ` set body"

definition hasSecretWriteField :: "jsobj \<Rightarrow> bool" where
  "hasSecretWriteField body = list_ex (has_field body) secret_write_fields"

definition rejectSecretWriteFields :: "jsobj \<Rightarrow> unit result" where
  "rejectSecretWriteFields body =
     (if hasSecretWriteField body \<or> has_field body ''confirm''
      then bad_request ''Write requests must not contain private key, wallet credential, password, or legacy confirm fields''
      else Inr ())"

definition requireWriteNetwork :: "string \<Rightarrow> jsval \<Rightarrow> string result" where
  "requireWriteNetwork configured v =
     bindR (requireNonEmptyString v ''network'') (\<lambda>network.
     if network \<noteq> ''mainnet'' \<and> network \<noteq> ''testnet'' then bad_request ''network must be mainnet or testnet''
     else if network \<noteq> configured then bad_request ''network must match the configured HTTP network ''
     else Inr network)"

definition requireWriteCoordinator :: "http_server \<Rightarrow> unit result" where
  "requireWriteCoordinator srv =
     (if \<not> hs_writesEnabled srv \<or> \<not> hs_writeCoordinator srv
      then Inl (HttpRequestError 403 ''State-changing operations are disabled'') else Inr ())"

definition header_value :: "string option \<Rightarrow> jsval" where
  "header_value h = (case h of None \<Rightarrow> JUndef | Some t \<Rightarrow> JStr t)"

text \<open>\<open>...(record.x ? { x: record.x } : {})\<close>\<close>

definition truthy_member :: "string \<Rightarrow> jsval \<Rightarrow> jsobj" where
  "truthy_member k v = (if truthy v then [(k, v)] else [])"

definition publicWriteRecord :: "write_record \<Rightarrow> jsobj" where
  "publicWriteRecord r =
     [(''intentId'', JStr (w_intentId r)), (''fingerprint'', JStr (w_fingerprint r)),
      (''state'', JStr (state_name (w_state r))), (''operation'', JStr (w_operation r)), (''network'', JStr (w_network r)),
      (''signerAddress'', JStr (w_signerAddress r)), (''payload'', w_payload r),
      (''createdAt'', JStr (w_createdAt r)), (''updatedAt'', JStr (w_updatedAt r))]
     @ truthy_member ''txid'' (header_value (w_txid r))
     @ truthy_member ''validUntilBlock'' (case w_validUntilBlock r of None \<Rightarrow> JUndef | Some n \<Rightarrow> JNum (NInt n))
     @ truthy_member ''result'' (case w_result r of None \<Rightarrow> JUndef | Some kvs \<Rightarrow> JObj kvs)
     @ truthy_member ''error'' (header_value (w_error r))"

end
