(* ===== verification/McpHttp.thy ===== *)
theory McpHttp
  imports McpServer HttpServer
begin

text \<open>
  src/mcp-http-server.ts: the stateless HTTP transport of the MCP server, and the checks of the two entry points src/mcp-http.ts and
  src/http.ts. URL parsing, digests, JSON parsing, \<open>Number(text)\<close> and the SDK's request handler are parameters. Sockets and
  timers are left out, but for the timer of the body, whose expiry is an event of the reading.

  The main result is \<open>mcp_http_admits\<close>, an invariant of the machine of requests.
\<close>

section \<open>Options\<close>

record mcp_http_env =
  mh_origin :: "string \<Rightarrow> (string \<times> string \<times> string \<times> string) option"
  mh_hostname :: "string \<Rightarrow> string option"
  mh_pathname :: "string \<Rightarrow> string option"
  mh_sha :: "string \<Rightarrow> string"
  mh_parseJson :: "nat list \<Rightarrow> jsval option"
  mh_number :: "string \<Rightarrow> jsnum"

record mcp_http_options =
  mo_port :: "jsnum option"
  mo_host :: "string option"
  mo_path :: "string option"
  mo_bearerToken :: "string option"
  mo_allowedOrigins :: "string list option"
  mo_allowedHosts :: "string list option"
  mo_maxConcurrentRequests :: "jsnum option"
  mo_maxSubscriptions :: "jsnum option"
  mo_maxConnections :: "jsnum option"
  mo_maxBodyBytes :: "jsnum option"
  mo_bodyTimeoutMs :: "jsnum option"
  mo_headersTimeoutMs :: "jsnum option"
  mo_requestTimeoutMs :: "jsnum option"
  mo_keepAliveMs :: "jsnum option"

record mcp_http_server =
  mx_port :: int
  mx_host :: string
  mx_path :: string
  mx_bearerToken :: "string option"
  mx_allowedOrigins :: "string list"
  mx_allowedHosts :: "string list"
  mx_maxConcurrentRequests :: int
  mx_maxConnections :: int
  mx_maxBodyBytes :: int
  mx_bodyTimeoutMs :: int
  mx_headersTimeoutMs :: int
  mx_requestTimeoutMs :: int

definition MIN_REMOTE_BEARER_BYTES :: nat where "MIN_REMOTE_BEARER_BYTES = 32"
definition HEALTH_PATH :: string where "HEALTH_PATH = ''/healthz''"

definition isLoopbackHost :: "string \<Rightarrow> bool" where
  "isLoopbackHost host \<longleftrightarrow> to_lower (trim host) \<in> {''localhost'', ''127.0.0.1'', ''::1'', ''[::1]''}"

definition resolveMcpHttpBearer :: "string \<Rightarrow> string option \<Rightarrow> string option result" where
  "resolveMcpHttpBearer host bearerToken =
     (if isLoopbackHost host then Inr bearerToken
      else case bearerToken of
        None \<Rightarrow> Inl (GenericError ''MCP_HTTP_BEARER is required when MCP_HTTP_HOST is not a loopback address'')
      | Some t \<Rightarrow>
          if t = [] then Inl (GenericError ''MCP_HTTP_BEARER is required when MCP_HTTP_HOST is not a loopback address'')
          else if length (utf8_bytes t) < MIN_REMOTE_BEARER_BYTES then Inl (GenericError ''MCP_HTTP_BEARER must contain at least '')
          else Inr (Some t))"

definition normalizeOrigin :: "mcp_http_env \<Rightarrow> string \<Rightarrow> string result" where
  "normalizeOrigin env origin =
     (case mh_origin env origin of
        None \<Rightarrow> Inl (TypeError ''Invalid URL'')
      | Some (protocol, username, password, normalized) \<Rightarrow>
          if protocol \<notin> {''http:'', ''https:''} \<or> username \<noteq> [] \<or> password \<noteq> [] then Inl (GenericError ''Invalid origin: '')
          else Inr normalized)"

definition mcp_positive :: "jsnum \<Rightarrow> string \<Rightarrow> int result" where
  "mcp_positive v name =
     (case v of
        NInt i \<Rightarrow> if isSafeInteger v \<and> 0 < i then Inr i else Inl (GenericError (name @ '' must be a positive integer''))
      | _ \<Rightarrow> Inl (GenericError (name @ '' must be a positive integer'')))"

definition mcp_non_negative :: "jsnum \<Rightarrow> string \<Rightarrow> int result" where
  "mcp_non_negative v name =
     (case v of
        NInt i \<Rightarrow> if isSafeInteger v \<and> 0 \<le> i then Inr i else Inl (GenericError (name @ '' must be a non-negative integer''))
      | _ \<Rightarrow> Inl (GenericError (name @ '' must be a non-negative integer'')))"

text \<open>\<open>options.host?.trim() || fallback\<close>\<close>

definition trimmed_or :: "string \<Rightarrow> string option \<Rightarrow> string" where
  "trimmed_or d v = (case v of None \<Rightarrow> d | Some s \<Rightarrow> if trim s = [] then d else trim s)"

definition mcp_port :: "jsnum option \<Rightarrow> int result" where
  "mcp_port v =
     (case or_default (NInt 3001) v of
        NInt i \<Rightarrow> if 0 \<le> i \<and> i \<le> 65535 then Inr i else Inl (GenericError ''Invalid MCP HTTP port: '')
      | _ \<Rightarrow> Inl (GenericError ''Invalid MCP HTTP port: ''))"

definition mcp_path :: "string option \<Rightarrow> string result" where
  "mcp_path v =
     (let path = trimmed_or ''/mcp'' v in
      if \<not> starts_with path ''/'' \<or> 1 < length path \<and> last path = CHR ''/'' then Inl (GenericError ''Invalid MCP HTTP path: '')
      else if path = HEALTH_PATH then Inl (GenericError ''Invalid MCP HTTP path: '')
      else Inr path)"

definition mcp_origin_entry :: "mcp_http_env \<Rightarrow> string \<Rightarrow> string result" where
  "mcp_origin_entry env origin =
     (case normalizeOrigin env origin of
        Inl e \<Rightarrow> Inl (GenericError (''Invalid MCP_HTTP_ALLOWED_ORIGINS entry '' @ [CHR 0x22])) | Inr t \<Rightarrow> Inr t)"

definition new_mcp_http_server :: "mcp_http_env \<Rightarrow> mcp_http_options \<Rightarrow> mcp_http_server result" where
  "new_mcp_http_server env p =
     (let host = trimmed_or ''127.0.0.1'' (mo_host p) in
      bindR (mcp_port (mo_port p)) (\<lambda>port.
      bindR (mcp_path (mo_path p)) (\<lambda>path.
      bindR (resolveMcpHttpBearer host (mo_bearerToken p)) (\<lambda>bearer.
      bindR (mapR (mcp_origin_entry env) (or_default [] (mo_allowedOrigins p))) (\<lambda>origins.
      let hosts = filter (\<lambda>h. h \<noteq> []) (map (\<lambda>h. to_lower (trim h)) (or_default [] (mo_allowedHosts p))) in
      bindR (mcp_positive (or_default (NInt 128) (mo_maxConcurrentRequests p)) ''maxConcurrentRequests'') (\<lambda>concurrent.
      bindR (mcp_positive (or_default (NInt (max 256 (concurrent * 4))) (mo_maxConnections p)) ''maxConnections'') (\<lambda>connections.
      bindR (mcp_positive (or_default (NInt (4 * 1024 * 1024)) (mo_maxBodyBytes p)) ''maxBodyBytes'') (\<lambda>bodyBytes.
      bindR (mcp_positive (or_default (NInt 30000) (mo_bodyTimeoutMs p)) ''bodyTimeoutMs'') (\<lambda>bodyTimeout.
      bindR (mcp_positive (or_default (NInt 30000) (mo_headersTimeoutMs p)) ''headersTimeoutMs'') (\<lambda>headersTimeout.
      bindR (mcp_positive (or_default (NInt 300000) (mo_requestTimeoutMs p)) ''requestTimeoutMs'') (\<lambda>requestTimeout.
      bindR (mcp_positive (or_default (NInt 128) (mo_maxSubscriptions p)) ''maxSubscriptions'') (\<lambda>_.
      bindR (mcp_non_negative (or_default (NInt 15000) (mo_keepAliveMs p)) ''keepAliveMs'') (\<lambda>_.
      Inr \<lparr>mx_port = port, mx_host = host, mx_path = path, mx_bearerToken = bearer, mx_allowedOrigins = origins, mx_allowedHosts = hosts,
           mx_maxConcurrentRequests = concurrent, mx_maxConnections = connections, mx_maxBodyBytes = bodyBytes,
           mx_bodyTimeoutMs = bodyTimeout, mx_headersTimeoutMs = headersTimeout, mx_requestTimeoutMs = requestTimeout\<rparr>)))))))))))))"

section \<open>Options from the environment\<close>

definition readIntEnv :: "mcp_http_env \<Rightarrow> env \<Rightarrow> string \<Rightarrow> int \<Rightarrow> jsnum result" where
  "readIntEnv menv env key fallback =
     (case env key of
        None \<Rightarrow> Inr (NInt fallback)
      | Some raw \<Rightarrow>
          if trim raw = [] then Inr (NInt fallback)
          else (case mh_number menv (trim raw) of
                  NInt i \<Rightarrow> if isSafeInteger (NInt i) \<and> 0 < i then Inr (NInt i) else Inl (GenericError (''Invalid '' @ key @ '' '' @ [CHR 0x22]))
                | _ \<Rightarrow> Inl (GenericError (''Invalid '' @ key @ '' '' @ [CHR 0x22]))))"

definition readNonNegativeIntEnv :: "mcp_http_env \<Rightarrow> env \<Rightarrow> string \<Rightarrow> int \<Rightarrow> jsnum result" where
  "readNonNegativeIntEnv menv env key fallback =
     (case env key of
        None \<Rightarrow> Inr (NInt fallback)
      | Some raw \<Rightarrow>
          if trim raw = [] then Inr (NInt fallback)
          else (case mh_number menv (trim raw) of
                  NInt i \<Rightarrow> if isSafeInteger (NInt i) \<and> 0 \<le> i then Inr (NInt i) else Inl (GenericError (''Invalid '' @ key @ '' '' @ [CHR 0x22]))
                | _ \<Rightarrow> Inl (GenericError (''Invalid '' @ key @ '' '' @ [CHR 0x22]))))"

definition env_port :: "mcp_http_env \<Rightarrow> env \<Rightarrow> jsnum result" where
  "env_port menv env =
     (case env ''MCP_HTTP_PORT'' of
        None \<Rightarrow> Inr (NInt 3001)
      | Some raw \<Rightarrow>
          if trim raw = [] then Inr (NInt 3001)
          else (case mh_number menv (trim raw) of
                  NInt i \<Rightarrow> if 0 \<le> i \<and> i \<le> 65535 then Inr (NInt i) else Inl (GenericError (''Invalid MCP_HTTP_PORT '' @ [CHR 0x22]))
                | _ \<Rightarrow> Inl (GenericError (''Invalid MCP_HTTP_PORT '' @ [CHR 0x22]))))"

definition env_list :: "env \<Rightarrow> string \<Rightarrow> string list" where
  "env_list env key = filter (\<lambda>e. e \<noteq> []) (map trim (split_on (CHR '','') (or_default [] (env key))))"

definition resolveMcpHttpOptionsFromEnv :: "mcp_http_env \<Rightarrow> env \<Rightarrow> mcp_http_options result" where
  "resolveMcpHttpOptionsFromEnv menv env =
     bindR (env_port menv env) (\<lambda>port.
     bindR (readIntEnv menv env ''MCP_HTTP_MAX_CONCURRENT_REQUESTS'' 128) (\<lambda>concurrent.
     bindR (readIntEnv menv env ''MCP_HTTP_MAX_SUBSCRIPTIONS'' 128) (\<lambda>subscriptions.
     bindR (readIntEnv menv env ''MCP_HTTP_MAX_BODY_BYTES'' (4 * 1024 * 1024)) (\<lambda>bodyBytes.
     bindR (readIntEnv menv env ''MCP_HTTP_BODY_TIMEOUT_MS'' 30000) (\<lambda>bodyTimeout.
     bindR (readIntEnv menv env ''MCP_HTTP_HEADERS_TIMEOUT_MS'' 30000) (\<lambda>headersTimeout.
     bindR (readIntEnv menv env ''MCP_HTTP_REQUEST_TIMEOUT_MS'' 300000) (\<lambda>requestTimeout.
     bindR (readNonNegativeIntEnv menv env ''MCP_HTTP_KEEP_ALIVE_MS'' 15000) (\<lambda>keepAlive.
     Inr \<lparr>mo_port = Some port, mo_host = Some (trimmed_or ''127.0.0.1'' (env ''MCP_HTTP_HOST'')), mo_path = Some (trimmed_or ''/mcp'' (env ''MCP_HTTP_PATH'')),
          mo_bearerToken = (case env ''MCP_HTTP_BEARER'' of None \<Rightarrow> None | Some t \<Rightarrow> if trim t = [] then None else Some (trim t)),
          mo_allowedOrigins = Some (env_list env ''MCP_HTTP_ALLOWED_ORIGINS''), mo_allowedHosts = Some (env_list env ''MCP_HTTP_ALLOWED_HOSTS''),
          mo_maxConcurrentRequests = Some concurrent, mo_maxSubscriptions = Some subscriptions, mo_maxConnections = None,
          mo_maxBodyBytes = Some bodyBytes, mo_bodyTimeoutMs = Some bodyTimeout, mo_headersTimeoutMs = Some headersTimeout,
          mo_requestTimeoutMs = Some requestTimeout, mo_keepAliveMs = Some keepAlive\<rparr>))))))))"

section \<open>Guards\<close>

definition isJsonContentType :: "string option \<Rightarrow> bool" where
  "isJsonContentType v \<longleftrightarrow> (case v of None \<Rightarrow> False | Some t \<Rightarrow> media_type t = ''application/json'')"

text \<open>\<open>/^Bearer[ \t]+(\S+)$/i\<close> on the trimmed header.\<close>

definition mcp_bearer :: "string \<Rightarrow> string option" where
  "mcp_bearer authorization =
     (let t = trim authorization; rest = drop 6 t; token = dropWhile (\<lambda>c. c = CHR '' '' \<or> cc c = 9) rest in
      if to_lower (take 6 t) = ''bearer'' \<and> token \<noteq> rest \<and> token \<noteq> [] \<and> list_all (\<lambda>c. \<not> is_ws c) token then Some token else None)"

definition mcp_authorized :: "mcp_http_server \<Rightarrow> string option \<Rightarrow> bool" where
  "mcp_authorized srv authorization \<longleftrightarrow>
     no_text (mx_bearerToken srv)
     \<or> (case authorization of None \<Rightarrow> False | Some a \<Rightarrow> mcp_bearer a \<noteq> None \<and> mcp_bearer a = mx_bearerToken srv)"

definition isOriginAllowed :: "mcp_http_env \<Rightarrow> mcp_http_server \<Rightarrow> string option \<Rightarrow> bool" where
  "isOriginAllowed env srv origin \<longleftrightarrow>
     no_text origin \<or> (case normalizeOrigin env (the origin) of Inl e \<Rightarrow> False | Inr t \<Rightarrow> t \<in> set (mx_allowedOrigins srv))"

definition isHostAllowed :: "mcp_http_env \<Rightarrow> mcp_http_server \<Rightarrow> string option \<Rightarrow> bool" where
  "isHostAllowed env srv host \<longleftrightarrow>
     mx_allowedHosts srv = []
     \<or> \<not> no_text host
       \<and> (let normalized = to_lower (trim (the host)) in
          normalized \<in> set (mx_allowedHosts srv)
          \<or> (case mh_hostname env (''http://'' @ normalized) of None \<Rightarrow> False | Some h \<Rightarrow> to_lower h \<in> set (mx_allowedHosts srv)))"

text \<open>\<open>Content-Length\<close> is left out.\<close>

definition mcp_reply :: "(string \<times> string) list \<Rightarrow> nat \<Rightarrow> jsobj \<Rightarrow> bool \<Rightarrow> http_reply" where
  "mcp_reply hs st kvs close =
     \<lparr>rp_status = st,
      rp_headers = hs @ [(''Content-Type'', ''application/json''), (''Cache-Control'', ''no-store'')] @ (if close then [(''Connection'', ''close'')] else []),
      rp_body = Json_body (JObj kvs)\<rparr>"

definition sendJsonRpcError :: "(string \<times> string) list \<Rightarrow> nat \<Rightarrow> int \<Rightarrow> string \<Rightarrow> bool \<Rightarrow> http_reply" where
  "sendJsonRpcError hs st code message close =
     mcp_reply hs st [(''jsonrpc'', JStr ''2.0''),
       (''error'', JObj [(''code'', JNum (NInt code)), (''message'', JStr message)]), (''id'', JNull)] close"

definition cors_headers :: "mcp_http_server \<Rightarrow> string option \<Rightarrow> (string \<times> string) list" where
  "cors_headers srv origin =
     (''Vary'', ''Origin'')
     # (if \<not> no_text origin \<and> mx_allowedOrigins srv \<noteq> [] then [(''Access-Control-Allow-Origin'', the origin)] else [])"

definition preflight_headers :: "(string \<times> string) list" where
  "preflight_headers =
     [(''Allow'', ''POST, OPTIONS''), (''Access-Control-Allow-Methods'', ''POST, OPTIONS''),
      (''Access-Control-Allow-Headers'', ''Authorization, Content-Type, Accept, MCP-Protocol-Version, Mcp-Method, Mcp-Name''),
      (''Access-Control-Max-Age'', ''600'')]"

definition mcp_health :: "int \<Rightarrow> string \<Rightarrow> jsobj" where
  "mcp_health active version =
     [(''status'', JStr ''ok''), (''version'', JStr version), (''protocolVersion'', JStr ''2026-07-28''), (''protocolEra'', JStr ''modern''),
      (''stateless'', JBool True), (''activeRequests'', JNum (NInt active))]"

text \<open>\<open>handle\<close> up to the admission of the request: a reply, or \<open>Inr\<close> and the request counts as active.\<close>

definition mcp_admission :: "mcp_http_env \<Rightarrow> string \<Rightarrow> mcp_http_server \<Rightarrow> int \<Rightarrow> http_request \<Rightarrow> http_reply + unit" where
  "mcp_admission env version srv active req =
     (case mh_pathname env (hr_url req) of
        None \<Rightarrow> Inl (sendJsonRpcError [] 500 (- 32603) ''Internal server error'' False)
      | Some path \<Rightarrow>
          let m = to_upper (hr_method req); origin = req_header req ''origin''; hs = cors_headers srv origin in
          if \<not> isHostAllowed env srv (req_header req ''host'') then Inl (sendJsonRpcError [] 403 (- 32603) ''Forbidden: host not allowed'' True)
          else if \<not> isOriginAllowed env srv origin then Inl (sendJsonRpcError [] 403 (- 32603) ''Forbidden: origin not allowed'' True)
          else if m = ''OPTIONS'' then Inl \<lparr>rp_status = 204, rp_headers = hs @ preflight_headers, rp_body = Empty_body\<rparr>
          else if path = HEALTH_PATH then
            (if m \<noteq> ''GET'' then Inl (sendJsonRpcError (hs @ [(''Allow'', ''GET, OPTIONS'')]) 405 (- 32600) ''Method Not Allowed'' True)
             else Inl (mcp_reply hs 200 (mcp_health active version) False))
          else if path \<noteq> mx_path srv then Inl (sendJsonRpcError hs 404 (- 32603) ''Not Found'' True)
          else if \<not> mcp_authorized srv (req_header req ''authorization'')
          then Inl (sendJsonRpcError (hs @ [(''WWW-Authenticate'', ''Bearer realm='' @ [CHR 0x22] @ ''neo-mcp'' @ [CHR 0x22])]) 401 (- 32603) ''Unauthorized'' True)
          else if m \<noteq> ''POST'' then Inl (sendJsonRpcError (hs @ [(''Allow'', ''POST, OPTIONS'')]) 405 (- 32600) ''Method Not Allowed'' True)
          else if \<not> isJsonContentType (req_header req ''content-type'')
          then Inl (sendJsonRpcError hs 415 (- 32600) ''Unsupported Media Type: Content-Type must be application/json'' True)
          else if mx_maxConcurrentRequests srv \<le> active then Inl (sendJsonRpcError hs 503 (- 32603) ''Server request capacity reached'' True)
          else Inr ())"

section \<open>The body\<close>

datatype body_event = Body_data "nat list" | Body_end | Body_failure string | Body_timeout

text \<open>A \<open>BodyReadError\<close> is its status, its JSON-RPC code and its message.\<close>

type_synonym body_error = "nat \<times> int \<times> string"

text \<open>The events up to the first that settles the promise; \<open>None\<close> while it is pending.\<close>

fun read_events :: "mcp_http_env \<Rightarrow> int \<Rightarrow> nat list \<Rightarrow> body_event list \<Rightarrow> (body_error + jsval) option" where
  "read_events env limit received [] = None"
| "read_events env limit received (Body_data chunk # es) =
     (if limit < int (length (received @ chunk)) then Some (Inl (413, - 32600, ''Payload Too Large''))
      else read_events env limit (received @ chunk) es)"
| "read_events env limit received (Body_end # es) =
     Some (case mh_parseJson env received of None \<Rightarrow> Inl (400, - 32700, ''Parse error: Invalid JSON'') | Some v \<Rightarrow> Inr v)"
| "read_events env limit received (Body_failure m # es) = Some (Inl (400, - 32600, ''Bad Request: ''))"
| "read_events env limit received (Body_timeout # es) = Some (Inl (408, - 32603, ''Request Timeout: body was not received in time''))"

definition readJsonBody :: "mcp_http_env \<Rightarrow> mcp_http_server \<Rightarrow> http_request \<Rightarrow> body_event list \<Rightarrow> (body_error + jsval) option" where
  "readJsonBody env srv req es =
     (if (case hr_contentLength req of None \<Rightarrow> False | Some n \<Rightarrow> mx_maxBodyBytes srv < int n)
      then Some (Inl (413, - 32600, ''Payload Too Large''))
      else read_events env (mx_maxBodyBytes srv) [] es)"

definition normalizePeerAddress :: "string option \<Rightarrow> string" where
  "normalizePeerAddress v = (let a = or_default [] v in if starts_with a ''::ffff:'' then drop 7 a else a)"

definition firstForwardedAddress :: "string option \<Rightarrow> string" where
  "firstForwardedAddress v = (case v of None \<Rightarrow> [] | Some t \<Rightarrow> trim (hd (split_on (CHR '','') t)))"

definition first_nonempty :: "string list \<Rightarrow> string" where
  "first_nonempty ts = (case filter (\<lambda>t. t \<noteq> []) ts of [] \<Rightarrow> [] | t # _ \<Rightarrow> t)"

definition rate_source :: "http_request \<Rightarrow> string" where
  "rate_source req =
     (let peer = normalizePeerAddress (hr_remoteAddress req);
          forwarded = (if isLoopbackHost peer
            then first_nonempty [or_default [] (req_header req ''cf-connecting-ip''), or_default [] (req_header req ''x-real-ip''),
                             firstForwardedAddress (req_header req ''x-forwarded-for'')]
            else []) in
      first_nonempty [forwarded, peer, ''unknown-client''])"

definition deriveRateLimitKey :: "mcp_http_env \<Rightarrow> http_request \<Rightarrow> string" where
  "deriveRateLimitKey env req = take 24 (mh_sha env (rate_source req))"

text \<open>What becomes of an admitted request: the SDK's handler gets the body and the derived key, or an error is answered.\<close>

datatype mcp_outcome = Mcp_served string jsval | Mcp_rejected http_reply

definition mcp_served :: "mcp_http_env \<Rightarrow> mcp_http_server \<Rightarrow> http_request \<Rightarrow> body_event list \<Rightarrow> mcp_outcome option" where
  "mcp_served env srv req es =
     (case readJsonBody env srv req es of
        None \<Rightarrow> None
      | Some (Inr body) \<Rightarrow> Some (Mcp_served (deriveRateLimitKey env req) body)
      | Some (Inl (st, code, message)) \<Rightarrow>
          Some (Mcp_rejected (sendJsonRpcError (cors_headers srv (req_header req ''origin'')) st code message True)))"

section \<open>The machine\<close>

record mcp_traffic =
  mt_active :: int
  mt_inflight :: "http_request list"

inductive mcp_http_step :: "mcp_http_env \<Rightarrow> string \<Rightarrow> mcp_http_server \<Rightarrow> mcp_traffic \<Rightarrow> mcp_traffic \<Rightarrow> bool" for env version srv where
  mh_answer: "mcp_admission env version srv (mt_active s) req = Inl reply \<Longrightarrow> mcp_http_step env version srv s s"
| mh_admit: "mcp_admission env version srv (mt_active s) req = Inr () \<Longrightarrow>
     mcp_http_step env version srv s (s\<lparr>mt_active := mt_active s + 1, mt_inflight := req # mt_inflight s\<rparr>)"
| mh_finish: "mt_inflight s = before @ req # after \<Longrightarrow>
     mcp_http_step env version srv s (s\<lparr>mt_active := mt_active s - 1, mt_inflight := before @ after\<rparr>)"

inductive mcp_http_reachable :: "mcp_http_env \<Rightarrow> string \<Rightarrow> mcp_http_server \<Rightarrow> mcp_traffic \<Rightarrow> bool" for env version srv where
  mh_start: "mcp_http_reachable env version srv \<lparr>mt_active = 0, mt_inflight = []\<rparr>"
| mh_next: "mcp_http_reachable env version srv s \<Longrightarrow> mcp_http_step env version srv s s' \<Longrightarrow> mcp_http_reachable env version srv s'"

section \<open>The entry points\<close>

text \<open>\<open>withWritesDisabled\<close>: what is constructed sees the writes switched off, the setting comes back afterwards.\<close>

definition withWritesDisabled :: "(app_config \<Rightarrow> 'a result) \<Rightarrow> app_config \<Rightarrow> 'a result \<times> app_config" where
  "withWritesDisabled construct config =
     (let off = config\<lparr>cf_writesEnabled := False\<rparr> in
      (construct off, off\<lparr>cf_writesEnabled := cf_writesEnabled config\<rparr>))"

definition createReadOnlyNeoServer :: "mcp_env \<Rightarrow> mcp_env result \<times> app_config" where
  "createReadOnlyNeoServer env = withWritesDisabled (\<lambda>config. Inr (env\<lparr>me_config := config\<rparr>)) (me_config env)"

definition resolveHttpNetwork :: "network_mode \<Rightarrow> string result" where
  "resolveHttpNetwork mode =
     (case mode of
        MAINNET_ONLY \<Rightarrow> Inr ''mainnet''
      | TESTNET_ONLY \<Rightarrow> Inr ''testnet''
      | BOTH \<Rightarrow> Inl (GenericError ''HTTP entrypoint requires NEO_NETWORK=mainnet or NEO_NETWORK=testnet''))"

definition resolveHttpSecurity :: "string \<Rightarrow> string option \<Rightarrow> string option result" where
  "resolveHttpSecurity host apiKey =
     (if \<not> isLoopbackHost host \<and> no_text apiKey then Inl (GenericError ''HTTP_API_KEY is required when HTTP_HOST is not a loopback address'')
      else Inr apiKey)"

definition getRpcUrls :: "app_config \<Rightarrow> string \<Rightarrow> string list" where
  "getRpcUrls config network = (if network = ''testnet'' then cf_testnetRpcUrls config else cf_mainnetRpcUrls config)"

definition parsePort :: "string option \<Rightarrow> int result" where
  "parsePort v =
     (let raw = or_default ''3000'' v in
      if raw = [] \<or> \<not> list_all is_digit raw \<or> 65535 < str_dec raw then Inl (GenericError ''Invalid PORT value: '') else Inr (int (str_dec raw)))"

section \<open>Admission\<close>

text \<open>What lets a request in.\<close>

definition request_admissible :: "mcp_http_env \<Rightarrow> mcp_http_server \<Rightarrow> http_request \<Rightarrow> bool" where
  "request_admissible env srv req \<longleftrightarrow>
     mh_pathname env (hr_url req) = Some (mx_path srv) \<and> to_upper (hr_method req) = ''POST''
     \<and> isHostAllowed env srv (req_header req ''host'') \<and> isOriginAllowed env srv (req_header req ''origin'')
     \<and> isJsonContentType (req_header req ''content-type'') \<and> mcp_authorized srv (req_header req ''authorization'')"

lemma admission_Inr:
  "mcp_admission env version srv active req = Inr () \<Longrightarrow> request_admissible env srv req \<and> active < mx_maxConcurrentRequests srv"
  by (auto simp: mcp_admission_def request_admissible_def Let_def split: option.splits if_splits)

lemma server_limits:
  assumes "new_mcp_http_server env p = Inr srv"
  shows "0 < mx_maxConcurrentRequests srv \<and> mx_path srv \<noteq> HEALTH_PATH
    \<and> (isLoopbackHost (mx_host srv) \<or> (\<exists>t. mx_bearerToken srv = Some t \<and> 32 \<le> length (utf8_bytes t)))"
  using assms
  by (auto simp: new_mcp_http_server_def Let_def result_simps mcp_positive_def mcp_path_def resolveMcpHttpBearer_def MIN_REMOTE_BEARER_BYTES_def
      split: jsnum.splits if_splits option.splits)

text \<open>
  C35: in every state the transport reaches, the counter is the number of the requests in flight, which never exceeds the limit, and
  each of them was a JSON \<open>POST\<close> to the endpoint from an allowed host and origin. On any address but a loopback one each
  presented the configured token, which has at least 32 bytes.
\<close>

theorem mcp_http_admits:
  assumes "new_mcp_http_server env p = Inr srv" "mcp_http_reachable env version srv s"
  shows "mt_active s = int (length (mt_inflight s)) \<and> mt_active s \<le> mx_maxConcurrentRequests srv
    \<and> list_all (request_admissible env srv) (mt_inflight s)
    \<and> (isLoopbackHost (mx_host srv) \<or> (\<exists>t. 32 \<le> length (utf8_bytes t)
         \<and> list_all (\<lambda>req. \<exists>a. req_header req ''authorization'' = Some a \<and> mcp_bearer a = Some t) (mt_inflight s)))"
proof -
  note limits = server_limits [OF assms(1)]
  have inv: "mt_active s = int (length (mt_inflight s)) \<and> mt_active s \<le> mx_maxConcurrentRequests srv
      \<and> list_all (request_admissible env srv) (mt_inflight s)" using assms(2)
  proof induction
    case mh_start
    with limits show ?case by simp
  next
    case (mh_next s s')
    from mh_next.hyps(2) mh_next.IH show ?case by cases (auto dest: admission_Inr)
  qed
  have "\<exists>a. req_header req ''authorization'' = Some a \<and> mcp_bearer a = Some t"
    if "mx_bearerToken srv = Some t" "32 \<le> length (utf8_bytes t)" "request_admissible env srv req" for t req
  proof -
    have "t \<noteq> []" using that(2) by (auto simp: utf8_bytes_def)
    with that show ?thesis by (auto simp: request_admissible_def mcp_authorized_def no_text_def split: option.splits)
  qed
  with inv limits show ?thesis unfolding list_all_iff by blast
qed

definition demo_mcp_http :: mcp_http_env where
  "demo_mcp_http =
     \<lparr>mh_origin = (\<lambda>_. None), mh_hostname = (\<lambda>_. None), mh_pathname = (\<lambda>url. Some url), mh_sha = (\<lambda>s. s), mh_parseJson = (\<lambda>_. Some JNull),
      mh_number = (\<lambda>_. NaN)\<rparr>"

definition demo_mcp_options :: mcp_http_options where
  "demo_mcp_options =
     \<lparr>mo_port = None, mo_host = Some ''0.0.0.0'', mo_path = None, mo_bearerToken = Some (replicate 32 (CHR ''k'')), mo_allowedOrigins = None,
      mo_allowedHosts = None, mo_maxConcurrentRequests = Some (NInt 1), mo_maxSubscriptions = None, mo_maxConnections = None,
      mo_maxBodyBytes = None, mo_bodyTimeoutMs = None, mo_headersTimeoutMs = None, mo_requestTimeoutMs = None, mo_keepAliveMs = None\<rparr>"

definition demo_mcp_request :: http_request where
  "demo_mcp_request =
     \<lparr>hr_method = ''post'', hr_url = ''/mcp'', hr_headers = [(''authorization'', ''bearer '' @ replicate 32 (CHR ''k'')),
        (''content-type'', ''application/json; charset=utf-8'')], hr_contentLength = None, hr_remoteAddress = None, hr_chunks = [], hr_streamError = None\<rparr>"

lemma mcp_http_admits_witness:
  "\<exists>srv s. new_mcp_http_server demo_mcp_http demo_mcp_options = Inr srv \<and> mcp_http_reachable demo_mcp_http ''1'' srv s
     \<and> mt_inflight s = [demo_mcp_request] \<and> mcp_bearer (''bearer '' @ replicate 32 (CHR ''k'')) = Some (replicate 32 (CHR ''k''))"
proof -
  obtain srv where srv: "new_mcp_http_server demo_mcp_http demo_mcp_options = Inr srv"
    and admit: "mcp_admission demo_mcp_http ''1'' srv 0 demo_mcp_request = Inr ()"
  proof -
    have "case new_mcp_http_server demo_mcp_http demo_mcp_options of Inl e \<Rightarrow> False
      | Inr srv \<Rightarrow> mcp_admission demo_mcp_http ''1'' srv 0 demo_mcp_request = Inr ()" by code_simp
    then show thesis using that by (auto split: sum.splits)
  qed
  define s where "s = \<lparr>mt_active = 0 + 1, mt_inflight = [demo_mcp_request]\<rparr>"
  have "mcp_http_step demo_mcp_http ''1'' srv \<lparr>mt_active = 0, mt_inflight = []\<rparr> s"
    using mh_admit [of demo_mcp_http "''1''" srv "\<lparr>mt_active = 0, mt_inflight = []\<rparr>" demo_mcp_request] admit by (simp add: s_def)
  then have s: "mcp_http_reachable demo_mcp_http ''1'' srv s" by (rule mh_next [OF mh_start])
  have "\<not> isLoopbackHost (mx_host srv)" using srv
    by (auto simp: new_mcp_http_server_def Let_def result_simps demo_mcp_options_def trimmed_or_def isLoopbackHost_def trim_def is_ws_def cc_def
        to_lower_def lower_char_def)
  moreover have "req_header demo_mcp_request ''authorization'' = Some (''bearer '' @ replicate 32 (CHR ''k''))"
    by (simp add: req_header_def demo_mcp_request_def single_headers_def)
  moreover have "mx_bearerToken srv = Some (replicate 32 (CHR ''k''))" using srv
    by (auto simp: new_mcp_http_server_def Let_def result_simps demo_mcp_options_def resolveMcpHttpBearer_def split: if_splits)
  moreover have "request_admissible demo_mcp_http srv demo_mcp_request"
    using mcp_http_admits [OF srv s] by (simp add: s_def)
  ultimately have "mcp_bearer (''bearer '' @ replicate 32 (CHR ''k'')) = Some (replicate 32 (CHR ''k''))"
    by (simp add: request_admissible_def mcp_authorized_def no_text_def)
  with srv s show ?thesis by (auto simp: s_def)
qed

text \<open>The transport serves a read-only server: no write tool is registered on it, whatever the configuration says.\<close>

lemma transport_server_reads:
  "\<exists>env'. fst (createReadOnlyNeoServer env) = Inr env' \<and> snd (createReadOnlyNeoServer env) = me_config env
     \<and> callWriteTool env' scope now cl name args cx s = (None, cl, s)"
  by (simp add: createReadOnlyNeoServer_def withWritesDisabled_def callWriteTool_def Let_def)

lemma read_events_bounded: "read_events env limit received es = Some (Inr v) \<Longrightarrow> int (length received) \<le> limit \<Longrightarrow>
   \<exists>bytes. int (length bytes) \<le> limit \<and> mh_parseJson env bytes = Some v"
  by (induction env limit received es rule: read_events.induct) (auto split: if_splits option.splits)

end
