(* ===== verification/HttpRoutes.thy ===== *)
theory HttpRoutes
  imports HttpServer WalletService Traces
begin

text \<open>
  src/http-server.ts, second part: the routes and the handler. A handler is a value of type
  \<open>'a handled\<close>: the calls of the services it made, in order, and its result. The answers of the
  services are the functions of the record \<open>backend\<close>.
\<close>

section \<open>Calls of the services\<close>

datatype http_call =
    Get_blockchain_info
  | Get_block_count
  | Get_block_at int
  | Get_block_of string
  | Get_transaction string
  | Get_application_log string
  | Wait_transaction string "nat option" "nat option" bool
  | Get_balance string
  | Get_unclaimed_gas string
  | Get_nep17_transfers string "nat option" "nat option"
  | Get_nep11_balances string
  | Get_nep11_transfers string "nat option" "nat option"
  | Create_wallet string
  | Get_wallet string
  | Import_wallet string "string option"
  | Transfer_fee string string string string
  | Contract_status string
  | Contract_info string
  | Assert_deployed string
  | Resolve_contract string
  | Invoke_fee string string string "jsval list"
  | Read_contract string string "jsval list"
  | Read_script_hash string string "jsval list"
  | Validate_artifacts "string \<times> string" jsval
  | Reserve_intent string write_request
  | Get_intent string
  | Approve_intent string string
  | Execute_intent string

record backend =
  bk_network :: string
  bk_json :: "http_call \<Rightarrow> jsval result"
  bk_wallet :: "http_call \<Rightarrow> jsobj result"
  bk_done :: "http_call \<Rightarrow> unit result"
  bk_count :: "int result"
  bk_hash :: "string \<Rightarrow> string result"
  bk_record :: "http_call \<Rightarrow> write_record result"
  bk_now :: string
  bk_uptime :: string

type_synonym 'a handled = "(http_call, 'a) traced"

text \<open>The status and the JSON value of an answer; \<open>None\<close> when no route of the group matches.\<close>

type_synonym answer = "(nat \<times> jsval) handled"
type_synonym route = "answer option"

definition answer_json :: "jsval handled \<Rightarrow> route" where
  "answer_json m = Some (bindH m (\<lambda>v. giveH (Inr (200, v))))"

definition missing :: "string \<Rightarrow> answer" where
  "missing name = giveH (Inr (400, JObj (error_json (''Missing required parameter: '' @ name))))"

definition json_call :: "backend \<Rightarrow> http_call \<Rightarrow> jsval handled" where
  "json_call bk c = callH c (bk_json bk c)"

text \<open>A route with one free segment: \<open>pre / x / post\<close> with \<open>x\<close> not empty.\<close>

definition segment :: "string list \<Rightarrow> string list \<Rightarrow> string \<Rightarrow> string option" where
  "segment pre post path =
     (let ps = path_segments path; n = length pre + 1; x = ps ! n in
      if length ps = n + 1 + length post \<and> take n ps = [] # pre \<and> drop (n + 1) ps = post \<and> x \<noteq> [] then Some x else None)"

definition on_segment :: "string \<Rightarrow> string \<Rightarrow> string list \<Rightarrow> string list \<Rightarrow> (string \<Rightarrow> bool) \<Rightarrow> string \<Rightarrow> (string \<Rightarrow> route) \<Rightarrow> route" where
  "on_segment verb wanted pre post P path f =
     (if verb \<noteq> wanted then None
      else case segment pre post path of None \<Rightarrow> None | Some x \<Rightarrow> if P x then f x else None)"

fun first_route :: "route list \<Rightarrow> route" where
  "first_route [] = None"
| "first_route (r # rs) = (case r of None \<Rightarrow> first_route rs | Some a \<Rightarrow> Some a)"

section \<open>Reading the chain\<close>

definition block_height :: "int \<Rightarrow> int" where
  "block_height blockCount = max 0 (blockCount - 1)"

text \<open>\<open>(?:0x)?[0-9a-fA-F]+\<close>\<close>

definition hex_text :: "string \<Rightarrow> bool" where
  "hex_text s \<longleftrightarrow> (s \<noteq> [] \<and> list_all is_hex s) \<or> (starts_with s ''0x'' \<and> drop 2 s \<noteq> [] \<and> list_all is_hex (drop 2 s))"

definition alnum_text :: "string \<Rightarrow> bool" where
  "alnum_text s \<longleftrightarrow> s \<noteq> [] \<and> list_all is_alnum s"

definition MAX_TRANSACTION_WAIT_TIMEOUT_MS :: nat where "MAX_TRANSACTION_WAIT_TIMEOUT_MS = 120000"
definition MIN_TRANSACTION_POLL_INTERVAL_MS :: nat where "MIN_TRANSACTION_POLL_INTERVAL_MS = 250"

definition wait_route :: "backend \<Rightarrow> (string \<Rightarrow> string option) \<Rightarrow> string \<Rightarrow> jsval handled" where
  "wait_route bk query raw =
     liftH (validateHash (JStr raw)) (\<lambda>txid.
     liftH (parsePositiveIntegerQuery (query ''timeoutMs'') ''timeoutMs'') (\<lambda>timeout.
     liftH (parsePositiveIntegerQuery (query ''pollIntervalMs'') ''pollIntervalMs'') (\<lambda>poll.
     liftH (parseBooleanQuery (query ''includeApplicationLog'') ''includeApplicationLog'') (\<lambda>include.
     if (case timeout of None \<Rightarrow> False | Some t \<Rightarrow> MAX_TRANSACTION_WAIT_TIMEOUT_MS < t)
     then giveH (bad_request ''timeoutMs must not exceed '')
     else if (case poll of None \<Rightarrow> False | Some t \<Rightarrow> t < MIN_TRANSACTION_POLL_INTERVAL_MS)
     then giveH (bad_request ''pollIntervalMs must be at least '')
     else json_call bk (Wait_transaction txid timeout poll (or_default False include))))))"

definition block_route :: "backend \<Rightarrow> string \<Rightarrow> jsval handled" where
  "block_route bk raw =
     (if all_digits raw then liftH (validateInteger (JStr raw)) (\<lambda>n. json_call bk (Get_block_at n))
      else liftH (validateHash (JStr raw)) (\<lambda>h. json_call bk (Get_block_of h)))"

definition chain_routes :: "backend \<Rightarrow> string \<Rightarrow> string \<Rightarrow> (string \<Rightarrow> string option) \<Rightarrow> route" where
  "chain_routes bk verb path query = first_route
     [if verb = ''GET'' \<and> path = ''/api/blockchain/info'' then answer_json (json_call bk Get_blockchain_info) else None,
      if verb = ''GET'' \<and> path = ''/api/blockchain/height''
      then answer_json (bindH (callH Get_block_count (bk_count bk)) (\<lambda>n.
             giveH (Inr (JObj [(''blockCount'', JNum (NInt n)), (''height'', JNum (NInt (block_height n)))])))) else None,
      on_segment verb ''GET'' [''api'', ''blocks''] [] (\<lambda>x. True) path (\<lambda>x. answer_json (block_route bk x)),
      on_segment verb ''GET'' [''api'', ''transactions''] [] hex_text path (\<lambda>x.
        answer_json (liftH (validateHash (JStr x)) (\<lambda>t. json_call bk (Get_transaction t)))),
      on_segment verb ''GET'' [''api'', ''transactions''] [''application-log''] hex_text path (\<lambda>x.
        answer_json (liftH (validateHash (JStr x)) (\<lambda>t. json_call bk (Get_application_log t)))),
      on_segment verb ''GET'' [''api'', ''transactions''] [''wait''] hex_text path (\<lambda>x. answer_json (wait_route bk query x))]"

section \<open>Accounts\<close>

definition checked_address :: "http_env \<Rightarrow> string \<Rightarrow> string result" where
  "checked_address env raw = validateAddress (he_isAddress env) (he_scriptHashOf env) (JStr raw)"

definition transfers_route ::
    "http_env \<Rightarrow> backend \<Rightarrow> (string \<Rightarrow> string option) \<Rightarrow> (string \<Rightarrow> nat option \<Rightarrow> nat option \<Rightarrow> http_call) \<Rightarrow> string \<Rightarrow> jsval handled" where
  "transfers_route env bk query c raw =
     liftH (checked_address env raw) (\<lambda>address.
     liftH (parseNonNegativeIntegerQuery (query ''fromTimestampMs'') ''fromTimestampMs'') (\<lambda>from_ms.
     liftH (parseNonNegativeIntegerQuery (query ''toTimestampMs'') ''toTimestampMs'') (\<lambda>to_ms.
     json_call bk (c address from_ms to_ms))))"

definition account_routes :: "http_env \<Rightarrow> backend \<Rightarrow> string \<Rightarrow> string \<Rightarrow> (string \<Rightarrow> string option) \<Rightarrow> route" where
  "account_routes env bk verb path query = first_route
     [on_segment verb ''GET'' [''api'', ''accounts''] [''balance''] alnum_text path (\<lambda>x.
        answer_json (liftH (checked_address env x) (\<lambda>a. json_call bk (Get_balance a)))),
      on_segment verb ''GET'' [''api'', ''accounts''] [''unclaimed-gas''] alnum_text path (\<lambda>x.
        answer_json (liftH (checked_address env x) (\<lambda>a. json_call bk (Get_unclaimed_gas a)))),
      on_segment verb ''GET'' [''api'', ''accounts''] [''nep17-transfers''] alnum_text path (\<lambda>x.
        answer_json (transfers_route env bk query Get_nep17_transfers x)),
      on_segment verb ''GET'' [''api'', ''accounts''] [''nep11-balances''] alnum_text path (\<lambda>x.
        answer_json (liftH (checked_address env x) (\<lambda>a. json_call bk (Get_nep11_balances a)))),
      on_segment verb ''GET'' [''api'', ''accounts''] [''nep11-transfers''] alnum_text path (\<lambda>x.
        answer_json (transfers_route env bk query Get_nep11_transfers x))]"

section \<open>Wallets\<close>

definition wallet_call :: "backend \<Rightarrow> http_call \<Rightarrow> jsval handled" where
  "wallet_call bk c = bindH (callH c (bk_wallet bk c)) (\<lambda>wallet. giveH (Inr (JObj (sanitizeWalletMetadata wallet))))"

definition first_truthy :: "jsval \<Rightarrow> jsval \<Rightarrow> jsval" where
  "first_truthy v w = (if truthy v then v else w)"

definition import_route :: "backend \<Rightarrow> jsobj \<Rightarrow> jsval \<Rightarrow> jsval handled" where
  "import_route bk body key =
     liftH (if oget body ''password'' = JUndef then Inr None
            else bindR (requireNonEmptyString (oget body ''password'') ''password'') (\<lambda>p. Inr (Some p))) (\<lambda>password.
     liftH (requireNonEmptyString key ''key'') (\<lambda>k. wallet_call bk (Import_wallet k password)))"

definition wallet_routes :: "backend \<Rightarrow> string \<Rightarrow> string \<Rightarrow> jsobj \<Rightarrow> route" where
  "wallet_routes bk verb path body = first_route
     [if verb = ''POST'' \<and> path = ''/api/wallets''
      then (if \<not> truthy (oget body ''password'') then Some (missing ''password'')
            else answer_json (liftH (requireNonEmptyString (oget body ''password'') ''password'') (\<lambda>p.
                   wallet_call bk (Create_wallet p)))) else None,
      on_segment verb ''GET'' [''api'', ''wallets''] [] alnum_text path (\<lambda>x. answer_json (wallet_call bk (Get_wallet x))),
      if verb = ''POST'' \<and> path = ''/api/wallets/import''
      then (let key = first_truthy (oget body ''key'') (oget body ''privateKeyOrWIF'') in
            if \<not> truthy key then Some (missing ''key (WIF or private key)'') else answer_json (import_route bk body key)) else None]"

section \<open>Write intents\<close>

definition reserveWriteIntent :: "http_server \<Rightarrow> backend \<Rightarrow> http_request \<Rightarrow> string \<Rightarrow> jsobj \<Rightarrow> jsobj \<Rightarrow> answer" where
  "reserveWriteIntent srv bk req operation body payload =
     liftH (requireWriteNetwork (bk_network bk) (oget body ''network'')) (\<lambda>network.
     liftH (requireNonEmptyString (header_value (req_header req ''idempotency-key'')) ''Idempotency-Key'') (\<lambda>key.
     liftH (requireWriteCoordinator srv) (\<lambda>_.
     let c = Reserve_intent key \<lparr>q_operation = operation, q_network = network, q_payload = JObj payload\<rparr> in
     bindH (callH c (bk_record bk c)) (\<lambda>r. giveH (Inr (202, JObj (publicWriteRecord r)))))))"

definition transfer_route :: "http_env \<Rightarrow> http_server \<Rightarrow> backend \<Rightarrow> http_request \<Rightarrow> jsobj \<Rightarrow> answer" where
  "transfer_route env srv bk req body =
     liftH (rejectSecretWriteFields body) (\<lambda>_.
     liftH (bindR (requireNonEmptyString (oget body ''toAddress'') ''toAddress'') (checked_address env)) (\<lambda>toAddress.
     liftH (requireNonEmptyString (oget body ''asset'') ''asset'') (\<lambda>asset.
     liftH (requireAmount (oget body ''amount'')) (\<lambda>amount.
     reserveWriteIntent srv bk req ''transfer_assets'' body
       [(''toAddress'', JStr toAddress), (''asset'', JStr asset), (''amount'', JStr amount)]))))"

definition fee_route :: "backend \<Rightarrow> jsobj \<Rightarrow> route" where
  "fee_route bk body =
     (if \<not> truthy (oget body ''fromAddress'') then Some (missing ''fromAddress'')
      else if \<not> truthy (oget body ''toAddress'') then Some (missing ''toAddress'')
      else if \<not> truthy (oget body ''asset'') then Some (missing ''asset'')
      else if nullish (oget body ''amount'') \<or> oget body ''amount'' = JStr [] then Some (missing ''amount'')
      else answer_json
        (liftH (requireNonEmptyString (oget body ''fromAddress'') ''fromAddress'') (\<lambda>sender.
         liftH (requireNonEmptyString (oget body ''toAddress'') ''toAddress'') (\<lambda>receiver.
         liftH (requireNonEmptyString (oget body ''asset'') ''asset'') (\<lambda>asset.
         liftH (requireAmount (oget body ''amount'')) (\<lambda>amount.
         json_call bk (Transfer_fee sender receiver asset amount)))))))"

definition transfer_routes :: "http_env \<Rightarrow> http_server \<Rightarrow> backend \<Rightarrow> http_request \<Rightarrow> string \<Rightarrow> string \<Rightarrow> jsobj \<Rightarrow> route" where
  "transfer_routes env srv bk req verb path body = first_route
     [if verb = ''POST'' \<and> path = ''/api/transfers'' then Some (transfer_route env srv bk req body) else None,
      if verb = ''POST'' \<and> path = ''/api/transfers/estimate-fees'' then fee_route bk body else None,
      if verb = ''POST'' \<and> path = ''/api/accounts/claim-gas''
      then Some (liftH (rejectSecretWriteFields body) (\<lambda>_. reserveWriteIntent srv bk req ''claim_gas'' body [])) else None,
      if verb = ''GET'' \<and> path = ''/api/network/mode''
      then Some (giveH (Inr (200, JObj [(''mode'', JStr (if bk_network bk = ''mainnet'' then ''mainnet'' else ''testnet''))]))) else None]"

section \<open>Contracts\<close>

definition decode_segment :: "http_env \<Rightarrow> string \<Rightarrow> string result" where
  "decode_segment env raw = (case he_decode env raw of None \<Rightarrow> bad_request ''Invalid encoded path segment'' | Some t \<Rightarrow> Inr t)"

definition trimmed_text :: "jsval \<Rightarrow> string" where
  "trimmed_text v = (case v of JStr s \<Rightarrow> trim s | _ \<Rightarrow> [])"

text \<open>\<open>body.contract\<close> when it is a text that is not blank, or else \<open>body.contractName\<close>.\<close>

definition contract_reference :: "jsobj \<Rightarrow> string" where
  "contract_reference body =
     (if trimmed_text (oget body ''contract'') \<noteq> [] then trimmed_text (oget body ''contract'')
      else trimmed_text (oget body ''contractName''))"

definition args_or_empty :: "jsobj \<Rightarrow> jsval" where
  "args_or_empty body = (if oget body ''args'' = JUndef then JArr [] else oget body ''args'')"

definition or_empty_text :: "jsval \<Rightarrow> jsval" where
  "or_empty_text v = first_truthy v (JStr [])"

definition assert_deployed :: "backend \<Rightarrow> string \<Rightarrow> unit handled" where
  "assert_deployed bk c = callH (Assert_deployed c) (bk_done bk (Assert_deployed c))"

definition estimate_hash :: "backend \<Rightarrow> jsobj \<Rightarrow> jsval handled" where
  "estimate_hash bk body =
     (let contract = contract_reference body; named = contract \<noteq> [] \<and> \<not> truthy (oget body ''scriptHash'') in
      bindH (if named then assert_deployed bk contract else giveH (Inr ())) (\<lambda>_.
      if truthy (oget body ''scriptHash'') then giveH (Inr (oget body ''scriptHash''))
      else if contract = [] then giveH (Inr (JStr []))
      else bindH (callH (Resolve_contract contract) (bk_hash bk contract)) (\<lambda>h. giveH (Inr (JStr h)))))"

definition estimate_route :: "backend \<Rightarrow> jsobj \<Rightarrow> answer" where
  "estimate_route bk body =
     bindH (estimate_hash bk body) (\<lambda>scriptHash.
     let operation = or_empty_text (oget body ''operation'') in
     if \<not> truthy (oget body ''signerAddress'') then missing ''signerAddress''
     else if \<not> truthy scriptHash then missing ''scriptHash or contractName''
     else if \<not> truthy operation then missing ''operation''
     else liftH (requireNonEmptyString (oget body ''signerAddress'') ''signerAddress'') (\<lambda>signer.
          liftH (requireNonEmptyString scriptHash ''scriptHash'') (\<lambda>h.
          liftH (requireNonEmptyString operation ''operation'') (\<lambda>name.
          liftH (requireJsonArray (args_or_empty body) ''args'') (\<lambda>args.
          bindH (json_call bk (Invoke_fee signer h name args)) (\<lambda>v. giveH (Inr (200, v))))))))"

definition read_call :: "backend \<Rightarrow> (string \<Rightarrow> jsval list \<Rightarrow> http_call) \<Rightarrow> jsval \<Rightarrow> jsval \<Rightarrow> jsval handled" where
  "read_call bk c operation args =
     liftH (requireNonEmptyString operation ''operation'') (\<lambda>name.
     liftH (requireJsonArray args ''args'') (\<lambda>vs. json_call bk (c name vs)))"

definition invoke_route :: "backend \<Rightarrow> jsobj \<Rightarrow> answer" where
  "invoke_route bk body =
     (let scriptHash = or_empty_text (oget body ''scriptHash''); contract = contract_reference body;
          operation = or_empty_text (oget body ''operation''); named = \<not> truthy scriptHash \<and> contract \<noteq> [] in
      if \<not> truthy scriptHash \<and> contract = [] then missing ''scriptHash or contract''
      else if \<not> truthy operation then missing ''operation''
      else
        bindH (if named then assert_deployed bk contract else giveH (Inr ())) (\<lambda>_.
        if hasSecretWriteField body \<or> has_field body ''confirm''
        then giveH (bad_request ''State-changing contract calls must use /api/contracts/invoke/write without private key or confirm fields'')
        else bindH (if named then read_call bk (Read_contract contract) operation (args_or_empty body)
                    else liftH (requireNonEmptyString scriptHash ''scriptHash'') (\<lambda>h.
                         read_call bk (Read_script_hash h) operation (args_or_empty body))) (\<lambda>v. giveH (Inr (200, v)))))"

definition invoke_write_route :: "http_env \<Rightarrow> http_server \<Rightarrow> backend \<Rightarrow> http_request \<Rightarrow> jsobj \<Rightarrow> answer" where
  "invoke_write_route env srv bk req body =
     liftH (rejectSecretWriteFields body) (\<lambda>_.
     liftH (bindR (requireNonEmptyString (oget body ''scriptHash'') ''scriptHash'') (resolveExplicitWriteScriptHash env)) (\<lambda>scriptHash.
     bindH (assert_deployed bk scriptHash) (\<lambda>_.
     liftH (requireNonEmptyString (oget body ''operation'') ''operation'') (\<lambda>operation.
     liftH (requireJsonArray (oget body ''args'') ''args'') (\<lambda>args.
     reserveWriteIntent srv bk req ''invoke_contract_write'' body
       [(''scriptHash'', JStr scriptHash), (''operation'', JStr operation), (''args'', JArr args)])))))"

definition deploy_route :: "http_server \<Rightarrow> backend \<Rightarrow> http_request \<Rightarrow> jsobj \<Rightarrow> answer" where
  "deploy_route srv bk req body =
     liftH (rejectSecretWriteFields body) (\<lambda>_.
     liftH (requireNef (oget body ''nef'')) (\<lambda>nef.
     liftH (requireJsonRecord (oget body ''manifest'') ''manifest'') (\<lambda>manifest.
     bindH (callH (Validate_artifacts nef manifest) (bk_done bk (Validate_artifacts nef manifest))) (\<lambda>_.
     reserveWriteIntent srv bk req ''deploy_contract'' body
       [(''nef'', JObj [(''encoding'', JStr (fst nef)), (''data'', JStr (snd nef))]), (''manifest'', manifest)]))))"

definition contract_routes :: "http_env \<Rightarrow> http_server \<Rightarrow> backend \<Rightarrow> http_request \<Rightarrow> string \<Rightarrow> string \<Rightarrow> jsobj \<Rightarrow> route" where
  "contract_routes env srv bk req verb path body = first_route
     [on_segment verb ''GET'' [''api'', ''contracts''] [''status''] (\<lambda>x. True) path (\<lambda>x.
        answer_json (liftH (decode_segment env x) (\<lambda>c. json_call bk (Contract_status c)))),
      on_segment verb ''GET'' [''api'', ''contracts''] [] (\<lambda>x. True) path (\<lambda>x.
        answer_json (liftH (decode_segment env x) (\<lambda>c. json_call bk (Contract_info c)))),
      if verb = ''POST'' \<and> path = ''/api/contracts/invoke/estimate-fees'' then Some (estimate_route bk body) else None,
      if verb = ''POST'' \<and> path = ''/api/contracts/invoke'' then Some (invoke_route bk body) else None,
      if verb = ''POST'' \<and> path = ''/api/contracts/invoke/write'' then Some (invoke_write_route env srv bk req body) else None,
      on_segment verb ''POST'' [''api'', ''contracts''] [''invoke''] (\<lambda>x. True) path (\<lambda>x.
        answer_json (liftH (decode_segment env x) (\<lambda>c.
          bindH (assert_deployed bk c) (\<lambda>_.
          read_call bk (Read_contract c) (or_empty_text (oget body ''operation'')) (args_or_empty body))))),
      if verb = ''POST'' \<and> path = ''/api/contracts/deploy'' then Some (deploy_route srv bk req body) else None]"

section \<open>Intents\<close>

definition approve_route :: "http_server \<Rightarrow> backend \<Rightarrow> jsobj \<Rightarrow> string \<Rightarrow> answer" where
  "approve_route srv bk body iid =
     liftH (requireNonEmptyString (oget body ''fingerprint'') ''fingerprint'') (\<lambda>fingerprint.
     liftH (requireWriteCoordinator srv) (\<lambda>_.
     bindH (callH (Approve_intent iid fingerprint) (bk_done bk (Approve_intent iid fingerprint))) (\<lambda>_.
     bindH (json_call bk (Execute_intent iid)) (\<lambda>v. giveH (Inr (200, v))))))"

definition intent_routes :: "http_server \<Rightarrow> backend \<Rightarrow> string \<Rightarrow> string \<Rightarrow> jsobj \<Rightarrow> route" where
  "intent_routes srv bk verb path body = first_route
     [on_segment verb ''GET'' [''api'', ''write-intents''] [] hex64_id path (\<lambda>iid.
        answer_json (liftH (requireWriteCoordinator srv) (\<lambda>_.
          bindH (callH (Get_intent iid) (bk_record bk (Get_intent iid))) (\<lambda>r. giveH (Inr (JObj (publicWriteRecord r))))))),
      on_segment verb ''POST'' [''api'', ''write-intents''] [''approve''] hex64_id path (\<lambda>iid.
        Some (approve_route srv bk body iid))]"

definition http_route ::
    "http_env \<Rightarrow> http_server \<Rightarrow> backend \<Rightarrow> http_request \<Rightarrow> string \<Rightarrow> (string \<Rightarrow> string option) \<Rightarrow> jsobj \<Rightarrow> answer" where
  "http_route env srv bk req path query body =
     (let verb = hr_method req in
      case first_route
         [chain_routes bk verb path query, account_routes env bk verb path query, wallet_routes bk verb path body,
          transfer_routes env srv bk req verb path body, contract_routes env srv bk req verb path body,
          intent_routes srv bk verb path body] of
        Some a \<Rightarrow> a
      | None \<Rightarrow> giveH (Inr (404, JObj (error_json ''Not found''))))"

section \<open>Errors\<close>

definition gateway_texts :: "string list" where
  "gateway_texts = [''neo rpc returned'', ''rpc network mismatch'', ''neo rpc response exceeds'', ''n3index response exceeds'',
     ''n3index request failed'', ''econnrefused'', ''enotfound'']"

definition missing_texts :: "string list" where
  "missing_texts = [''not found'', ''not deployed'', ''unknown transaction'', ''unknown block'', ''unknown contract'',
     ''unable to resolve contract reference'']"

definition mentions :: "string \<Rightarrow> string list \<Rightarrow> bool" where
  "mentions message texts \<longleftrightarrow> list_ex (includes_str (to_lower message)) texts"

definition message_status :: "string \<Rightarrow> nat \<times> string" where
  "message_status message =
     (if mentions message gateway_texts then (502, ''Bad gateway'')
      else if mentions message missing_texts then (404, ''Resource not found'')
      else if includes_str message ''invalid'' \<or> includes_str message ''Invalid'' then (400, ''Bad request'')
      else if includes_str message ''unauthorized'' \<or> includes_str message ''Unauthorized'' then (401, ''Unauthorized'')
      else if includes_str message ''forbidden'' \<or> includes_str message ''Forbidden'' then (403, ''Forbidden'')
      else if mentions message [''timeout'', ''timed out''] then (504, ''Gateway timeout'')
      else (500, ''Internal server error''))"

fun error_class :: "js_error \<Rightarrow> nat \<times> string" where
  "error_class (ValidationError m) = (400, ''Bad request'')"
| "error_class (RateLimitError m) = (429, ''Too many requests'')"
| "error_class (SubmissionOutcomeUnknownError t) = (504, ''Transaction submission outcome unknown'')"
| "error_class e = message_status (error_message e)"

definition error_reply :: "(string \<times> string) list \<Rightarrow> string \<Rightarrow> string \<Rightarrow> js_error \<Rightarrow> http_reply" where
  "error_reply hs path verb e =
     (case e of
        HttpRequestError code m \<Rightarrow> json_reply code hs (error_json m)
      | _ \<Rightarrow> json_reply (fst (error_class e)) hs
          (error_json (snd (error_class e))
           @ (if (fst (error_class e) < 500 \<or> submission_unknown e) \<and> error_message e \<noteq> [] then [(''details'', JStr (error_message e))] else [])
           @ [(''path'', JStr path), (''method'', JStr verb)]))"

section \<open>Probes\<close>

text \<open>The state of the server: the buckets of the rate limiter and the health answer that is kept.\<close>

record http_state =
  st_limiter :: limiter
  st_health :: "(int \<times> jsval) option"

definition fetchHealthStatus :: "backend \<Rightarrow> jsval" where
  "fetchHealthStatus bk =
     (case bk_count bk of
        Inr blockCount \<Rightarrow> JObj [(''status'', JStr ''healthy''), (''network'', JStr (bk_network bk)), (''blockCount'', JNum (NInt blockCount)),
                              (''height'', JNum (NInt (block_height blockCount))), (''timestamp'', JStr (bk_now bk))]
      | Inl e \<Rightarrow> JObj [(''status'', JStr ''unhealthy''), (''network'', JStr (bk_network bk)), (''error'', JStr ''Neo RPC unavailable''),
                      (''timestamp'', JStr (bk_now bk))])"

text \<open>\<open>now\<close> is the time of the request, \<open>later\<close> the time at which a fetch settles; no other fetch is under way.\<close>

definition getHealthStatus :: "http_server \<Rightarrow> backend \<Rightarrow> int \<Rightarrow> int \<Rightarrow> http_state \<Rightarrow> (http_call list \<times> jsval) \<times> http_state" where
  "getHealthStatus srv bk now later st =
     (case st_health st of
        Some (expiresAt, v) \<Rightarrow>
          if now < expiresAt then (([], v), st)
          else (([Get_block_count], fetchHealthStatus bk),
                st\<lparr>st_health := Some (later + hs_healthCacheTtlMs srv, fetchHealthStatus bk)\<rparr>)
      | None \<Rightarrow> (([Get_block_count], fetchHealthStatus bk),
                 st\<lparr>st_health := Some (later + hs_healthCacheTtlMs srv, fetchHealthStatus bk)\<rparr>))"

definition health_code :: "jsval \<Rightarrow> nat" where
  "health_code v = (case v of JObj kvs \<Rightarrow> if oget kvs ''status'' = JStr ''healthy'' then 200 else 503 | _ \<Rightarrow> 503)"

definition buildMetrics :: "backend \<Rightarrow> string" where
  "buildMetrics bk =
     (let height = (case bk_count bk of Inr n \<Rightarrow> block_height n | Inl e \<Rightarrow> -1);
          labels = ''network='' @ quoted (bk_network bk) in
      join_with [CHR 0x0A]
        [''# HELP neo_mcp_uptime_seconds Process uptime in seconds.'', ''# TYPE neo_mcp_uptime_seconds gauge'',
         ''neo_mcp_uptime_seconds '' @ bk_uptime bk,
         ''# HELP neo_mcp_network_info Current network mode marker.'', ''# TYPE neo_mcp_network_info gauge'',
         ''neo_mcp_network_info{'' @ labels @ ''} 1'',
         ''# HELP neo_mcp_block_height Latest observed block height.'', ''# TYPE neo_mcp_block_height gauge'',
         ''neo_mcp_block_height{'' @ labels @ ''} '' @ int_str height, []])"

section \<open>The handler\<close>

definition serve_route ::
    "http_env \<Rightarrow> http_server \<Rightarrow> backend \<Rightarrow> http_request \<Rightarrow> string \<Rightarrow> (string \<Rightarrow> string option) \<Rightarrow> http_call list \<times> http_reply" where
  "serve_route env srv bk req path query =
     (let hs = response_headers srv req; verb = hr_method req;
          answer = liftH (if verb = ''POST'' \<or> verb = ''PUT'' then parseRequestBody env srv req else Inr [])
                     (http_route env srv bk req path query) in
      (fst answer,
       case snd answer of
         Inl e \<Rightarrow> error_reply hs path verb e
       | Inr (code, v) \<Rightarrow> \<lparr>rp_status = code, rp_headers = hs @ [(''Content-Type'', ''application/json'')], rp_body = Json_body v\<rparr>))"

text \<open>From the authorization on: the request has been charged or is a probe.\<close>

definition serve_admitted ::
    "http_env \<Rightarrow> http_server \<Rightarrow> backend \<Rightarrow> int \<Rightarrow> int \<Rightarrow> http_request \<Rightarrow> string \<Rightarrow> (string \<Rightarrow> string option) \<Rightarrow> http_state
      \<Rightarrow> (http_call list \<times> http_reply) \<times> http_state" where
  "serve_admitted env srv bk now later req path query st =
     (let hs = response_headers srv req; verb = hr_method req in
      if \<not> isAuthorized env srv req path
      then (([], json_reply 401 (hs @ [(''WWW-Authenticate'', ''Bearer'')]) (error_json ''Unauthorized'')), st)
      else if is_wallet_administration_route verb path \<and> \<not> hs_walletAdministrationEnabled srv
      then (([], json_reply 403 hs (error_json ''Wallet administration is disabled'')), st)
      else if is_write_route verb path \<and> \<not> hs_writesEnabled srv
      then (([], json_reply 403 hs (error_json ''State-changing operations are disabled'')), st)
      else if path = ''/live'' \<and> verb = ''GET''
      then (([], json_reply 200 hs [(''status'', JStr ''alive''), (''timestamp'', JStr (bk_now bk))]), st)
      else if path = ''/health'' \<and> verb = ''GET''
      then (case getHealthStatus srv bk now later st of
              ((cs, v), st') \<Rightarrow>
                ((cs, \<lparr>rp_status = health_code v, rp_headers = hs @ [(''Content-Type'', ''application/json'')], rp_body = Json_body v\<rparr>), st'))
      else if path = ''/metrics'' \<and> verb = ''GET''
      then (([Get_block_count],
             \<lparr>rp_status = 200, rp_headers = hs @ [(''Content-Type'', ''text/plain; version=0.0.4; charset=utf-8'')],
              rp_body = Text_body (buildMetrics bk)\<rparr>), st)
      else (serve_route env srv bk req path query, st))"

definition limited_reply :: "(string \<times> string) list \<Rightarrow> rate_limit_error \<Rightarrow> http_reply" where
  "limited_reply hs e = json_reply 429 (hs @ [(''Retry-After'', int_str (if r_retryAfter e = 0 then 60 else r_retryAfter e))])
     (error_json ''Rate limit exceeded. Try again in '')"

definition handleRequest ::
    "http_env \<Rightarrow> http_server \<Rightarrow> backend \<Rightarrow> int \<Rightarrow> int \<Rightarrow> http_request \<Rightarrow> http_state \<Rightarrow> (http_call list \<times> http_reply) \<times> http_state" where
  "handleRequest env srv bk now later req st =
     (case he_parseUrl env (hr_url req) of
        None \<Rightarrow> (([], json_reply 400 [] (error_json ''Invalid request URL'')), st)
      | Some (path, query) \<Rightarrow>
          let hs = response_headers srv req in
          if hr_method req = ''OPTIONS''
          then (([], \<lparr>rp_status = 204, rp_headers = hs, rp_body = Empty_body\<rparr>), st)
          else if is_public_probe (hr_method req) path then serve_admitted env srv bk now later req path query st
          else (case checkLimit (st_limiter st) (getClientAddress env srv req) now of
                  (Inl e, l) \<Rightarrow> (([], limited_reply hs e), st\<lparr>st_limiter := l\<rparr>)
                | (Inr _, l) \<Rightarrow> serve_admitted env srv bk now later req path query (st\<lparr>st_limiter := l\<rparr>)))"

end
