(* ===== verification/HttpSafety.thy ===== *)
theory HttpSafety
  imports HttpRoutes
begin

text \<open>
  What the HTTP server lets through: which calls of the services a request can cause and under which
  guards (\<open>http_calls_permitted\<close>), that every write intent it reserves passes the vetting of the
  coordinator (\<open>http_reservations_vetted\<close>), and what an error reply tells (\<open>http_no_leak\<close>).
\<close>

section \<open>Calls of a handler\<close>

definition route_in :: "(http_call \<Rightarrow> bool) \<Rightarrow> route \<Rightarrow> bool" where
  "route_in P r \<longleftrightarrow> (case r of None \<Rightarrow> True | Some a \<Rightarrow> calls_in P a)"

lemma calls_json [calls_intros]: "P c \<Longrightarrow> calls_in P (json_call bk c)"
  unfolding json_call_def by (rule calls_callH)

lemma calls_missing [calls_intros]: "calls_in P (missing name)"
  unfolding missing_def by (rule calls_giveH)

lemma calls_deployed [calls_intros]: "P (Assert_deployed c) \<Longrightarrow> calls_in P (assert_deployed bk c)"
  unfolding assert_deployed_def by (rule calls_callH)

lemma route_None [calls_intros]: "route_in P None"
  by (simp add: route_in_def)

lemma route_Some [calls_intros]: "calls_in P a \<Longrightarrow> route_in P (Some a)"
  by (simp add: route_in_def)

lemma route_json [calls_intros]: "calls_in P m \<Longrightarrow> route_in P (answer_json m)"
  unfolding answer_json_def by (intro route_Some calls_bindH calls_giveH)

lemma route_when [calls_intros]:
  "(verb = w \<Longrightarrow> path = q \<Longrightarrow> route_in P r) \<Longrightarrow> route_in P (if verb = w \<and> path = q then r else None)"
  by (simp add: route_None)

lemma route_segment [calls_intros]:
  assumes "\<And>x. verb = wanted \<Longrightarrow> segment pre post path = Some x \<Longrightarrow> Q x \<Longrightarrow> route_in P (f x)"
  shows "route_in P (on_segment verb wanted pre post Q path f)"
  using assms by (auto simp: on_segment_def route_None split: option.splits)

lemma route_first [calls_intros]:
  "route_in P (first_route [])"
  "route_in P r \<Longrightarrow> route_in P (first_route rs) \<Longrightarrow> route_in P (first_route (r # rs))"
  by (auto simp: route_in_def split: option.splits)

lemma route_either [calls_intros]:
  "(b \<Longrightarrow> route_in P (Some m)) \<Longrightarrow> (\<not> b \<Longrightarrow> route_in P r) \<Longrightarrow> route_in P (if b then Some m else r)"
  by simp

lemma segment_path: "segment pre post path = Some x \<Longrightarrow> path_segments path = [] # pre @ x # post"
  unfolding segment_def Let_def
  by (auto split: if_splits) (metis Cons_eq_appendI Suc_eq_plus1 append_Cons id_take_nth_drop length_Suc_conv
      less_add_Suc1 add_Suc)

section \<open>The calls a request may cause\<close>

text \<open>The condition a call stands under, over the method, the path and the body of the request.\<close>

definition reservation_ok :: "http_env \<Rightarrow> backend \<Rightarrow> jsobj \<Rightarrow> write_request \<Rightarrow> bool" where
  "reservation_ok env bk body q \<longleftrightarrow> \<not> hasSecretWriteField body \<and> \<not> has_field body ''confirm''
     \<and> q_network q = bk_network bk \<and> validateRequest (he_isAddress env) (he_scriptHashOf env) q = Inr ()"

fun call_guard :: "http_env \<Rightarrow> http_server \<Rightarrow> backend \<Rightarrow> string \<Rightarrow> string \<Rightarrow> jsobj \<Rightarrow> http_call \<Rightarrow> bool" where
  "call_guard env srv bk verb path body (Reserve_intent key q) \<longleftrightarrow>
     verb = ''POST'' \<and> path \<in> set write_paths \<and> reservation_ok env bk body q"
| "call_guard env srv bk verb path body (Approve_intent iid fingerprint) \<longleftrightarrow> is_write_route verb path \<and> is_approval_route verb path"
| "call_guard env srv bk verb path body (Execute_intent iid) \<longleftrightarrow> is_write_route verb path \<and> is_approval_route verb path"
| "call_guard env srv bk verb path body (Get_intent iid) \<longleftrightarrow> is_write_route verb path"
| "call_guard env srv bk verb path body (Create_wallet p) \<longleftrightarrow> is_wallet_administration_route verb path"
| "call_guard env srv bk verb path body (Import_wallet k p) \<longleftrightarrow> is_wallet_administration_route verb path"
| "call_guard env srv bk verb path body c \<longleftrightarrow> True"

section \<open>Reservations pass the coordinator\<close>

lemma requireNonEmptyString_Inr: "requireNonEmptyString v name = Inr s \<longleftrightarrow> v = JStr s \<and> trim s \<noteq> []"
  by (auto simp: requireNonEmptyString_def bad_request_def split: jsval.splits)

lemma requireAmount_Inr: "requireAmount v = Inr a \<Longrightarrow> validateTokenAmount (JStr a) = Inr a"
  by (auto simp: requireAmount_def bad_request_def validateTokenAmount_def split: sum.splits jsval.splits if_splits)

lemma alnum_not_ws: "is_alnum c \<Longrightarrow> \<not> is_ws c"
  by (auto simp: is_alnum_def is_alpha_def is_digit_def is_ws_def)

lemma checked_address_Inr:
  assumes "checked_address env raw = Inr a"
  shows "trim a = a" "a \<noteq> []" "validateAddress (he_isAddress env) (he_scriptHashOf env) (JStr a) = Inr a"
proof -
  have a: "raw = a" "alnum34 a" "validateAddress (he_isAddress env) (he_scriptHashOf env) (JStr a) = Inr a"
    using assms by (auto simp: checked_address_def validateAddress_def split: if_splits)
  then have "\<not> list_ex is_ws a" using alnum_not_ws by (auto simp: alnum34_def list_ex_iff list_all_iff)
  with a show "trim a = a" "a \<noteq> []" "validateAddress (he_isAddress env) (he_scriptHashOf env) (JStr a) = Inr a"
    by (auto simp: trim_id alnum34_def)
qed

lemma script_hash_form_valid:
  assumes "script_hash_form h" shows "trim h = h" "h \<noteq> []" "validateScriptHash (JStr h) = Inr h"
proof -
  obtain t where t: "h = ''0x'' @ t" "lower_hash t" using assms by (auto simp: script_hash_form_def)
  then have "\<not> list_ex is_ws h" using lower_hex_not_ws
    by (auto simp: lower_hash_def list_ex_iff list_all_iff is_ws_def cc_def)
  then show "trim h = h" by (rule trim_id)
  show "h \<noteq> []" using t by simp
  show "validateScriptHash (JStr h) = Inr h"
    using t by (auto simp: validateScriptHash_def strip_0x_def starts_with_def lower_hash_def list_all_iff)
qed

lemma resolved_hash_form: "resolveExplicitWriteScriptHash env reference = Inr h \<Longrightarrow> script_hash_form h"
  by (auto simp: resolveExplicitWriteScriptHash_def bad_request_def split: option.splits
      dest: normalizeScriptHash_form address_hash_form)

definition http_networks_ok :: "backend \<Rightarrow> bool" where
  "http_networks_ok bk \<longleftrightarrow> bk_network bk = ''mainnet'' \<or> bk_network bk = ''testnet''"

lemma transfer_vetted:
  assumes "http_networks_ok bk" and "checked_address env raw = Inr to" and "trim asset \<noteq> []" and "validateTokenAmount (JStr amount) = Inr amount"
  shows "validateRequest (he_isAddress env) (he_scriptHashOf env) \<lparr>q_operation = ''transfer_assets'', q_network = bk_network bk,
    q_payload = JObj [(''toAddress'', JStr to), (''asset'', JStr asset), (''amount'', JStr amount)]\<rparr> = Inr ()"
  using assms checked_address_Inr [OF assms(2)]
  by (auto simp: validateRequest_def coordinator_networks_def coordinator_operations_def http_networks_ok_def
      requireRecord_def validatePayload_def requireString_def)

lemma invoke_vetted:
  assumes "http_networks_ok bk" and "script_hash_form h" and "trim name \<noteq> []"
  shows "validateRequest ia sh \<lparr>q_operation = ''invoke_contract_write'', q_network = bk_network bk,
    q_payload = JObj [(''scriptHash'', JStr h), (''operation'', JStr name), (''args'', JArr args)]\<rparr> = Inr ()"
  using assms script_hash_form_valid [OF assms(2)]
  by (auto simp: validateRequest_def coordinator_networks_def coordinator_operations_def http_networks_ok_def
      requireRecord_def validatePayload_def requireString_def requireArray_def)

lemma claim_vetted:
  assumes "http_networks_ok bk"
  shows "validateRequest ia sh \<lparr>q_operation = ''claim_gas'', q_network = bk_network bk, q_payload = JObj []\<rparr> = Inr ()"
  using assms
  by (auto simp: validateRequest_def coordinator_networks_def coordinator_operations_def http_networks_ok_def
      requireRecord_def validatePayload_def)

lemma requireNef_Inr: "requireNef v = Inr (encoding, d) \<Longrightarrow> encoding \<in> {''hex'', ''base64''} \<and> d \<noteq> []"
  by (auto simp: requireNef_def result_simps requireNonEmptyString_Inr bad_request_def trim_def Let_def split: if_splits)

lemma requireJsonRecord_Inr: "requireJsonRecord v name = Inr w \<Longrightarrow> w = v \<and> (\<exists>kvs. own_props v = Some kvs)"
  by (auto simp: requireJsonRecord_def bad_request_def split: option.splits)

lemma deploy_vetted:
  assumes "http_networks_ok bk" and "requireNef v = Inr nef" and "requireJsonRecord w ''manifest'' = Inr manifest"
  shows "validateRequest ia sh \<lparr>q_operation = ''deploy_contract'', q_network = bk_network bk,
    q_payload = JObj [(''nef'', JObj [(''encoding'', JStr (fst nef)), (''data'', JStr (snd nef))]), (''manifest'', manifest)]\<rparr> = Inr ()"
proof -
  have "fst nef = ''hex'' \<or> fst nef = ''base64''" "snd nef \<noteq> []" using requireNef_Inr assms(2) by (cases nef; auto)+
  moreover obtain kvs where "own_props manifest = Some kvs" using requireJsonRecord_Inr [OF assms(3)] by blast
  ultimately show ?thesis using assms(1)
    by (auto simp: validateRequest_def coordinator_networks_def coordinator_operations_def http_networks_ok_def
        requireRecord_def validatePayload_def requireEncodedNef_def)
qed

lemma requireWriteNetwork_Inr: "requireWriteNetwork configured v = Inr n \<Longrightarrow> n = configured \<and> (n = ''mainnet'' \<or> n = ''testnet'')"
  by (auto simp: requireWriteNetwork_def result_simps bad_request_def split: if_splits)

lemma rejectSecret_Inr: "rejectSecretWriteFields body = Inr u \<longleftrightarrow> \<not> hasSecretWriteField body \<and> \<not> has_field body ''confirm''"
  by (auto simp: rejectSecretWriteFields_def bad_request_def)

lemma calls_reserve:
  assumes "\<And>key. http_networks_ok bk \<Longrightarrow> P (Reserve_intent key \<lparr>q_operation = operation, q_network = bk_network bk, q_payload = JObj payload\<rparr>)"
  shows "calls_in P (reserveWriteIntent srv bk req operation body payload)"
  unfolding reserveWriteIntent_def Let_def
  by (intro calls_intros) (metis assms http_networks_ok_def requireWriteNetwork_Inr)

section \<open>Routes\<close>

lemma chain_calls: "route_in (call_guard env srv bk v path body) (chain_routes bk verb path query)"
  unfolding chain_routes_def wait_route_def block_route_def
  by (intro calls_intros) simp_all

lemma account_calls: "route_in (call_guard env srv bk v path body) (account_routes env bk verb path query)"
  unfolding account_routes_def transfers_route_def
  by (intro calls_intros) simp_all

lemma wallet_calls: "route_in (call_guard env srv bk verb path body) (wallet_routes bk verb path body)"
  unfolding wallet_routes_def import_route_def wallet_call_def Let_def
  by (intro calls_intros) (simp_all add: is_wallet_administration_route_def)

lemma not_approval_path: "path \<in> set write_paths \<Longrightarrow> \<not> is_approval_route verb path"
  by (auto simp: write_paths_def is_approval_route_def path_segments_def)

lemma transfer_calls: "route_in (call_guard env srv bk (hr_method req) path body) (transfer_routes env srv bk req (hr_method req) path body)"
proof -
  have transfer: "calls_in (call_guard env srv bk ''POST'' ''/api/transfers'' body) (transfer_route env srv bk req body)"
    unfolding transfer_route_def
    by (intro calls_liftH calls_reserve)
       (auto simp: reservation_ok_def rejectSecret_Inr result_simps requireNonEmptyString_Inr is_write_route_def write_paths_def
         not_approval_path intro: transfer_vetted requireAmount_Inr)
  have claim: "calls_in (call_guard env srv bk ''POST'' ''/api/accounts/claim-gas'' body)
      (liftH (rejectSecretWriteFields body) (\<lambda>_. reserveWriteIntent srv bk req ''claim_gas'' body []))"
    by (intro calls_liftH calls_reserve)
       (auto simp: reservation_ok_def rejectSecret_Inr is_write_route_def write_paths_def not_approval_path intro: claim_vetted)
  have fee: "route_in (call_guard env srv bk v path body) (fee_route bk body)" for v path
    unfolding fee_route_def by (intro calls_intros) simp_all
  show ?thesis unfolding transfer_routes_def
    by (intro route_first route_when) (simp_all add: route_Some calls_giveH transfer claim fee)
qed

lemma contract_calls: "route_in (call_guard env srv bk (hr_method req) path body) (contract_routes env srv bk req (hr_method req) path body)"
proof -
  have invoke: "calls_in (call_guard env srv bk ''POST'' ''/api/contracts/invoke/write'' body) (invoke_write_route env srv bk req body)"
    unfolding invoke_write_route_def
    by (intro calls_liftH calls_bindH calls_deployed calls_reserve)
       (auto simp: reservation_ok_def rejectSecret_Inr result_simps requireNonEmptyString_Inr is_write_route_def write_paths_def
         not_approval_path intro: invoke_vetted resolved_hash_form)
  have deploy: "calls_in (call_guard env srv bk ''POST'' ''/api/contracts/deploy'' body) (deploy_route srv bk req body)"
    unfolding deploy_route_def
    by (intro calls_liftH calls_bindH calls_callH calls_reserve)
       (auto simp: reservation_ok_def rejectSecret_Inr is_write_route_def write_paths_def not_approval_path intro: deploy_vetted)
  have read: "calls_in (call_guard env srv bk v path body) (read_call bk c operation args)"
    if "\<And>name vs. call_guard env srv bk v path body (c name vs)" for v path c operation args
    unfolding read_call_def using that by (intro calls_intros)
  have estimate: "calls_in (call_guard env srv bk v path body) (estimate_route bk body)" for v path
    unfolding estimate_route_def estimate_hash_def Let_def by (intro calls_intros) simp_all
  have reading: "calls_in (call_guard env srv bk v path body) (invoke_route bk body)" for v path
    unfolding invoke_route_def Let_def by (intro calls_intros read) simp_all
  show ?thesis unfolding contract_routes_def
    by (intro route_first route_when route_segment route_json route_Some calls_liftH calls_bindH calls_json calls_deployed read)
       (simp_all add: invoke deploy estimate reading)
qed

lemma approval_segment: "segment [''api'', ''write-intents''] [''approve''] path = Some iid \<Longrightarrow> hex64_id iid
    \<Longrightarrow> is_approval_route ''POST'' path \<and> is_write_route ''POST'' path"
  by (drule segment_path) (auto simp: is_approval_route_def is_write_route_def intent_path_def hex64_id_def)

lemma intent_segment: "segment [''api'', ''write-intents''] [] path = Some iid \<Longrightarrow> hex64_id iid \<Longrightarrow> is_write_route verb path"
  by (drule segment_path) (auto simp: is_write_route_def intent_path_def hex64_id_def)

lemma intent_calls: "route_in (call_guard env srv bk verb path body) (intent_routes srv bk verb path body)"
  unfolding intent_routes_def approve_route_def
  by (intro calls_intros) (simp_all add: approval_segment intent_segment)

lemma route_calls: "calls_in (call_guard env srv bk (hr_method req) path body) (http_route env srv bk req path query body)"
proof -
  let ?rs = "[chain_routes bk (hr_method req) path query, account_routes env bk (hr_method req) path query,
      wallet_routes bk (hr_method req) path body, transfer_routes env srv bk req (hr_method req) path body,
      contract_routes env srv bk req (hr_method req) path body, intent_routes srv bk (hr_method req) path body]"
  have "route_in (call_guard env srv bk (hr_method req) path body) (first_route ?rs)"
    by (intro route_first) (simp_all add: chain_calls account_calls wallet_calls transfer_calls contract_calls intent_calls)
  then show ?thesis by (auto simp: http_route_def Let_def route_in_def calls_giveH split: option.splits)
qed

section \<open>The guards of the handler\<close>

text \<open>What a call needs beyond a charged request, as a specification.\<close>

definition key_presented :: "http_env \<Rightarrow> http_server \<Rightarrow> http_request \<Rightarrow> bool" where
  "key_presented env srv req \<longleftrightarrow> (case hs_apiKey srv of None \<Rightarrow> True | Some key \<Rightarrow> presents_key env req key)"

definition approval_presented :: "http_env \<Rightarrow> http_server \<Rightarrow> http_request \<Rightarrow> bool" where
  "approval_presented env srv req \<longleftrightarrow>
     (case hs_writeApprovalApiKey srv of None \<Rightarrow> False | Some key \<Rightarrow> presents_key env req key \<and> hs_apiKey srv \<noteq> Some key)"

fun permitted :: "http_env \<Rightarrow> http_server \<Rightarrow> backend \<Rightarrow> http_request \<Rightarrow> http_call \<Rightarrow> bool" where
  "permitted env srv bk req (Reserve_intent key q) \<longleftrightarrow>
     hs_writesEnabled srv \<and> key_presented env srv req \<and> q_network q = bk_network bk
     \<and> (case parseRequestBody env srv req of
          Inl e \<Rightarrow> False | Inr body \<Rightarrow> \<not> hasSecretWriteField body \<and> \<not> has_field body ''confirm'')"
| "permitted env srv bk req (Approve_intent iid fingerprint) \<longleftrightarrow> hs_writesEnabled srv \<and> approval_presented env srv req"
| "permitted env srv bk req (Execute_intent iid) \<longleftrightarrow> hs_writesEnabled srv \<and> approval_presented env srv req"
| "permitted env srv bk req (Get_intent iid) \<longleftrightarrow> hs_writesEnabled srv"
| "permitted env srv bk req (Create_wallet password) \<longleftrightarrow> hs_walletAdministrationEnabled srv \<and> key_presented env srv req"
| "permitted env srv bk req (Import_wallet key password) \<longleftrightarrow> hs_walletAdministrationEnabled srv \<and> key_presented env srv req"
| "permitted env srv bk req c \<longleftrightarrow> True"

lemma keys_of_server:
  assumes "new_http_server env p = Inr srv"
  shows "hs_apiKey srv \<noteq> Some []" and "hs_writeApprovalApiKey srv = Some key \<Longrightarrow> hs_apiKey srv \<noteq> Some key"
  using assms
  by (auto simp: new_http_server_def Let_def result_simps check_keys_def check_that_def long_enough_def no_text_def utf8_bytes_def
      split: if_splits)

lemma authorized_key:
  assumes "new_http_server env p = Inr srv" and "isAuthorized env srv req path" and "\<not> is_public_probe (hr_method req) path"
  shows "is_approval_route (hr_method req) path \<Longrightarrow> approval_presented env srv req"
    and "\<not> is_approval_route (hr_method req) path \<Longrightarrow> key_presented env srv req"
  using assms(2,3) keys_of_server [OF assms(1)]
  by (auto simp: isAuthorized_def approval_presented_def key_presented_def Let_def split: option.splits if_splits)

lemma probe_routes: "is_public_probe verb path \<Longrightarrow> path = ''/live'' \<and> verb = ''GET'' \<or> path = ''/health'' \<and> verb = ''GET''"
  by (auto simp: is_public_probe_def)

lemma serve_route_calls:
  assumes "c \<in> set (fst (serve_route env srv bk req path query))"
  obtains body where "c \<in> set (fst (http_route env srv bk req path query body))"
    and "call_guard env srv bk (hr_method req) path body c"
    and "hr_method req = ''POST'' \<or> hr_method req = ''PUT'' \<Longrightarrow> parseRequestBody env srv req = Inr body"
proof -
  obtain body where "c \<in> set (fst (http_route env srv bk req path query body))"
    and "hr_method req = ''POST'' \<or> hr_method req = ''PUT'' \<Longrightarrow> parseRequestBody env srv req = Inr body"
    using assms by (auto simp: serve_route_def Let_def liftH_def split: sum.splits if_splits)
  moreover from this(1) have "call_guard env srv bk (hr_method req) path body c"
    using route_calls unfolding calls_in_def list_all_iff by blast
  ultimately show ?thesis using that by blast
qed

lemma admitted_calls:
  assumes "serve_admitted env srv bk now later req path query st = ((calls, reply), st')" and "c \<in> set calls"
  shows "c = Get_block_count
    \<or> isAuthorized env srv req path \<and> \<not> is_public_probe (hr_method req) path
      \<and> (is_wallet_administration_route (hr_method req) path \<longrightarrow> hs_walletAdministrationEnabled srv)
      \<and> (is_write_route (hr_method req) path \<longrightarrow> hs_writesEnabled srv)
      \<and> c \<in> set (fst (serve_route env srv bk req path query))"
  using assms
  by (auto simp: serve_admitted_def Let_def getHealthStatus_def is_public_probe_def split: if_splits option.splits prod.splits)

lemma write_paths_route: "path \<in> set write_paths \<Longrightarrow> is_write_route ''POST'' path"
  by (simp add: is_write_route_def)

lemma wallet_path_plain: "is_wallet_administration_route verb path \<Longrightarrow> \<not> is_approval_route verb path"
  by (auto simp: is_wallet_administration_route_def is_approval_route_def path_segments_def)

lemma admitted_permitted:
  assumes srv: "new_http_server env p = Inr srv"
    and run: "serve_admitted env srv bk now later req path query st = ((calls, reply), st')" and c: "c \<in> set calls"
  shows "permitted env srv bk req c"
proof (cases "c = Get_block_count")
  case True
  then show ?thesis by simp
next
  case False
  then have auth: "isAuthorized env srv req path" "\<not> is_public_probe (hr_method req) path"
    and wallet: "is_wallet_administration_route (hr_method req) path \<longrightarrow> hs_walletAdministrationEnabled srv"
    and writes: "is_write_route (hr_method req) path \<longrightarrow> hs_writesEnabled srv"
    and served: "c \<in> set (fst (serve_route env srv bk req path query))"
    using admitted_calls [OF run c] by auto
  obtain body where guard: "call_guard env srv bk (hr_method req) path body c"
    and body: "hr_method req = ''POST'' \<or> hr_method req = ''PUT'' \<Longrightarrow> parseRequestBody env srv req = Inr body"
    using serve_route_calls [OF served] by blast
  note keys = authorized_key [OF srv auth]
  show ?thesis
  proof (cases c)
    case (Reserve_intent key q)
    with guard body writes keys(2) not_approval_path write_paths_route show ?thesis
      by (auto simp: reservation_ok_def)
  qed (use guard wallet writes keys wallet_path_plain in auto)
qed

lemma reserved_guard:
  assumes "handleRequest env srv bk now later req st = ((calls, reply), st')" and "Reserve_intent key q \<in> set calls"
  obtains body where "reservation_ok env bk body q"
proof -
  obtain path query st1 where run: "serve_admitted env srv bk now later req path query st1 = ((calls, reply), st')"
    using assms by (auto simp: handleRequest_def Let_def split: option.splits prod.splits sum.splits if_splits)
  then have "Reserve_intent key q \<in> set (fst (serve_route env srv bk req path query))"
    using admitted_calls [OF run assms(2)] by simp
  then obtain body where "call_guard env srv bk (hr_method req) path body (Reserve_intent key q)"
    by (rule serve_route_calls)
  then have "reservation_ok env bk body q" by simp
  then show ?thesis by (rule that)
qed

section \<open>What replies tell\<close>

text \<open>A failure of the server or of what is behind it is reported by its class alone.\<close>

lemma message_status_server:
  "500 \<le> fst (message_status m) \<Longrightarrow> snd (message_status m) \<in> {''Bad gateway'', ''Gateway timeout'', ''Internal server error''}"
  by (simp add: message_status_def split: if_splits)

lemma error_class_server:
  "500 \<le> fst (error_class e) \<Longrightarrow> \<not> submission_unknown e
     \<Longrightarrow> snd (error_class e) \<in> {''Bad gateway'', ''Gateway timeout'', ''Internal server error''}"
  by (cases e) (simp_all only: error_class.simps message_status_server fst_conv submission_unknown.simps, simp_all)

lemma http_no_leak:
  assumes "rp_status (error_reply hs path verb e) \<ge> 500" and "\<not> submission_unknown e" and "\<And>code m. e \<noteq> HttpRequestError code m"
  shows "\<exists>m \<in> {''Bad gateway'', ''Gateway timeout'', ''Internal server error''}.
    rp_body (error_reply hs path verb e) = Json_body (JObj [(''error'', JStr m), (''path'', JStr path), (''method'', JStr verb)])"
proof -
  have reply: "error_reply hs path verb e = json_reply (fst (error_class e)) hs (error_json (snd (error_class e))
      @ (if (fst (error_class e) < 500 \<or> submission_unknown e) \<and> error_message e \<noteq> [] then [(''details'', JStr (error_message e))] else [])
      @ [(''path'', JStr path), (''method'', JStr verb)])"
    using assms(3) by (cases e) (simp_all only: error_reply_def js_error.case, blast)
  then have "500 \<le> fst (error_class e)" using assms(1) by (simp add: json_reply_def)
  with reply error_class_server [OF this assms(2)] assms(2) show ?thesis
    by (intro bexI [of _ "snd (error_class e)"]) (simp_all add: json_reply_def error_json_def)
qed

text \<open>A reply about a wallet shows no key material, whatever the wallet file holds.\<close>

lemma wallet_reply_public:
  "snd (wallet_call bk c) = Inr v \<Longrightarrow> \<exists>kvs. v = JObj kvs \<and> (\<forall>k. shown_key kvs k \<longrightarrow> \<not> sensitive_wallet_field k)"
  by (cases "bk_wallet bk c") (auto simp: wallet_call_def bindH_def callH_def giveH_def sanitized_public)

section \<open>A request that reserves an intent\<close>

definition demo_env :: http_env where
  "demo_env = \<lparr>he_parseUrl = (\<lambda>u. Some (u, \<lambda>k. None)), he_decode = Some, he_parseJson = (\<lambda>bs. Some (JObj [(''network'', JStr ''mainnet'')])),
     he_sha = (\<lambda>s. s), he_isIP = (\<lambda>s. 0), he_matches = (\<lambda>r a. False), he_isAddress = (\<lambda>s. True),
     he_scriptHashOf = (\<lambda>s. None), he_origin = Some\<rparr>"

definition demo_key :: string where "demo_key = ''0123456789abcdef0123456789abcdef''"

definition demo_options :: http_options where
  "demo_options = \<lparr>ho_host = None, ho_apiKey = Some demo_key, ho_corsOrigins = None, ho_trustedProxies = None,
     ho_maxBodyBytes = None, ho_requestTimeoutMs = None, ho_headersTimeoutMs = None, ho_keepAliveTimeoutMs = None,
     ho_shutdownGraceMs = None, ho_healthCacheTtlMs = None, ho_writesEnabled = Some True, ho_walletAdministrationEnabled = None,
     ho_writeApprovalApiKey = Some (rev demo_key), ho_writeCoordinator = True\<rparr>"

definition demo_server :: http_server where
  "demo_server = \<lparr>hs_host = ''127.0.0.1'', hs_apiKey = Some demo_key, hs_corsOrigins = [], hs_trustedProxies = [],
     hs_maxBodyBytes = 1048576, hs_requestTimeoutMs = 30000, hs_headersTimeoutMs = 10000, hs_keepAliveTimeoutMs = 5000,
     hs_shutdownGraceMs = 10000, hs_healthCacheTtlMs = 5000, hs_writesEnabled = True, hs_walletAdministrationEnabled = False,
     hs_writeApprovalApiKey = Some (rev demo_key), hs_writeCoordinator = True\<rparr>"

definition http_demo_request :: http_request where
  "http_demo_request = \<lparr>hr_method = ''POST'', hr_url = ''/api/accounts/claim-gas'',
     hr_headers = [(''authorization'', ''Bearer '' @ demo_key), (''content-type'', ''application/json''), (''idempotency-key'', ''claim-0001'')],
     hr_contentLength = Some 21, hr_remoteAddress = Some ''local'', hr_chunks = [[123, 125]], hr_streamError = None\<rparr>"

definition demo_backend :: backend where
  "demo_backend = \<lparr>bk_network = ''mainnet'', bk_json = (\<lambda>c. Inr JNull), bk_wallet = (\<lambda>c. Inr []), bk_done = (\<lambda>c. Inr ()),
     bk_count = Inr 7, bk_hash = Inr, bk_record = (\<lambda>c. Inl (GenericError ''full'')), bk_now = ''now'', bk_uptime = ''1.000''\<rparr>"

definition demo_state :: http_state where
  "demo_state = \<lparr>st_limiter = \<lparr>limits = Map.empty, hourlyLimits = Map.empty, maxRequests = 5, maxRequestsPerHour = None,
     windowMs = 60000, enabled = True\<rparr>, st_health = None\<rparr>"

definition http_claim :: write_request where
  "http_claim = \<lparr>q_operation = ''claim_gas'', q_network = ''mainnet'', q_payload = JObj []\<rparr>"

lemma demo_new: "new_http_server demo_env demo_options = Inr demo_server"
  by (simp add: new_http_server_def demo_options_def demo_server_def check_keys_def check_that_def is_loopback_def no_text_def
      long_enough_def utf8_bytes_def demo_key_def requirePositiveInteger_def or_default_def maxSafeInteger_def
      createTrustedProxyBlockList_def to_lower_def lower_char_def cc_def)

lemma demo_headers:
  "req_header http_demo_request ''authorization'' = Some (''Bearer '' @ demo_key)"
  "req_header http_demo_request ''content-type'' = Some ''application/json''"
  "req_header http_demo_request ''idempotency-key'' = Some ''claim-0001''"
  "req_header http_demo_request ''x-forwarded-for'' = None"
  by (simp_all add: req_header_def http_demo_request_def single_headers_def)

lemma bearer_word: "to_lower ''Bearer '' = ''bearer ''"
  by code_simp

lemma demo_authorized: "isAuthorized demo_env demo_server http_demo_request ''/api/accounts/claim-gas''"
proof -
  have "bearer_token (''Bearer '' @ demo_key) = Some demo_key"
    using bearer_word by (simp add: bearer_token_def demo_key_def cc_def Let_def)
  then show ?thesis
    by (simp add: isAuthorized_def is_public_probe_def presents_key_def demo_headers demo_server_def Let_def
        not_approval_path write_paths_def demo_key_def)
qed

lemma demo_body: "parseRequestBody demo_env demo_server http_demo_request = Inr [(''network'', JStr ''mainnet'')]"
proof -
  have "media_type ''application/json'' = ''application/json''"
    by (simp add: media_type_def trim_def is_ws_def to_lower_def lower_char_def cc_def)
  moreover have "parse_body_text demo_env http_demo_request [123, 125] = Inr [(''network'', JStr ''mainnet'')]"
    by (simp add: parse_body_text_def no_content_type_def demo_headers no_text_def) (simp add: demo_env_def)
  moreover have "hr_chunks http_demo_request = [[123, 125]]" "hr_streamError http_demo_request = None"
    "hr_contentLength http_demo_request = Some 21" "hs_maxBodyBytes demo_server = 1048576"
    by (simp_all add: http_demo_request_def demo_server_def)
  ultimately show ?thesis by (simp add: parseRequestBody_def demo_headers)
qed

lemma demo_route:
  "http_route demo_env demo_server demo_backend http_demo_request ''/api/accounts/claim-gas'' query [(''network'', JStr ''mainnet'')]
     = ([Reserve_intent ''claim-0001'' http_claim], Inl (GenericError ''full''))"
proof -
  have "requireNonEmptyString (JStr ''mainnet'') ''network'' = Inr ''mainnet''"
    "requireNonEmptyString (JStr ''claim-0001'') ''Idempotency-Key'' = Inr ''claim-0001''"
    by (simp_all add: requireNonEmptyString_def trim_def is_ws_def cc_def)
  then have "reserveWriteIntent demo_server demo_backend http_demo_request ''claim_gas'' [(''network'', JStr ''mainnet'')] []
      = ([Reserve_intent ''claim-0001'' http_claim], Inl (GenericError ''full''))"
    by (simp add: reserveWriteIntent_def requireWriteNetwork_def requireWriteCoordinator_def demo_headers header_value_def
        liftH_def bindH_def callH_def http_claim_def Let_def) (simp add: demo_backend_def demo_server_def)
  moreover have "rejectSecretWriteFields [(''network'', JStr ''mainnet'')] = Inr ()"
    by (simp add: rejectSecretWriteFields_def hasSecretWriteField_def secret_write_fields_def has_field_def)
  moreover have "hr_method http_demo_request = ''POST''" by (simp add: http_demo_request_def)
  ultimately show ?thesis
    by (simp add: http_route_def Let_def chain_routes_def account_routes_def wallet_routes_def transfer_routes_def on_segment_def
        segment_def path_segments_def liftH_def)
qed

lemma demo_run:
  "fst (fst (handleRequest demo_env demo_server demo_backend 0 0 http_demo_request demo_state)) = [Reserve_intent ''claim-0001'' http_claim]"
proof -
  have "hr_method http_demo_request = ''POST''" "hr_url http_demo_request = ''/api/accounts/claim-gas''" by (simp_all add: http_demo_request_def)
  moreover have "getClientAddress demo_env demo_server http_demo_request = ''local''"
    by (simp add: getClientAddress_def demo_headers)
       (simp add: resolveForwardedClientAddress_def normalizeAddress_def http_demo_request_def demo_env_def Let_def)
  moreover have "checkLimit (st_limiter demo_state) ''local'' 0
      = (Inr (), (st_limiter demo_state)\<lparr>limits := [''local'' \<mapsto> \<lparr>e_count = 1, e_resetTime = 60000\<rparr>]\<rparr>)"
    by (simp add: checkLimit_def consumeWindow_def demo_state_def Let_def)
  moreover have "he_parseUrl demo_env u = Some (u, \<lambda>k. None)" for u by (simp add: demo_env_def)
  moreover have "hs_writesEnabled demo_server" by (simp add: demo_server_def)
  ultimately show ?thesis
    by (simp add: handleRequest_def Let_def is_public_probe_def serve_admitted_def demo_authorized is_wallet_administration_route_def
        serve_route_def demo_body demo_route liftH_def)
qed



text \<open>
  C28: whatever a request asks for, a write request that the server hands to the coordinator passes the
  vetting there, so that reserving it is the reservation of the write service.
\<close>

theorem http_reservations_vetted:
  assumes "handleRequest env srv bk now later req st = ((calls, reply), st')" and "Reserve_intent key q \<in> set calls"
  shows "coordinator_reserve sha (he_isAddress env) (he_scriptHashOf env) signer key q = reserve sha key (request_intent signer q)"
proof -
  obtain body where "reservation_ok env bk body q" using reserved_guard [OF assms] by blast
  then have "validateRequest (he_isAddress env) (he_scriptHashOf env) q = Inr ()" by (simp add: reservation_ok_def)
  then show ?thesis by (simp add: coordinator_reserve_def bindA_def fun_eq_iff)
qed

lemma http_reservations_vetted_witness:
  "coordinator_reserve (\<lambda>s. s) (\<lambda>s. True) (\<lambda>s. None) ''signer'' ''claim-0001'' http_claim
     = reserve (\<lambda>s. s) ''claim-0001'' (request_intent ''signer'' http_claim)"
proof -
  obtain calls reply st' where run: "handleRequest demo_env demo_server demo_backend 0 0 http_demo_request demo_state = ((calls, reply), st')"
    by (metis surj_pair)
  then have "Reserve_intent ''claim-0001'' http_claim \<in> set calls" using demo_run by simp
  from http_reservations_vetted [OF run this, of "\<lambda>s. s" "''signer''"] show ?thesis by (simp add: demo_env_def)
qed

end
