(* ===== verification/IndexerCatalog.thy ===== *)
theory IndexerCatalog
  imports Strings
begin

text \<open>
  src/indexer/indexer-catalog.ts: the registry of read-only neo3fura methods, entry by entry,
  in the groups of the source. The map is the security policy of the generic indexer query:
  a method is callable only if it is listed here, with exactly these parameters.
\<close>

datatype param_type =
  P_address | P_scriptHash | P_hash | P_blockHeight | P_name | P_tokenId | P_enum | P_integer | P_boolean

datatype method_category =
  C_address | C_block | C_transaction | C_transfer | C_asset | C_contract | C_governance | C_state | C_market

record param_spec =
  s_type :: param_type
  s_rpcKey :: string
  s_required :: bool
  s_values :: "string list option"
  s_min :: "int option"
  s_max :: "int option"

record page_bounds =
  g_defaultLimit :: int
  g_maxLimit :: int
  g_maxSkip :: int

record method_descriptor =
  d_rpcMethod :: string
  d_category :: method_category
  d_summary :: string
  d_params :: "(string \<times> param_spec) list"
  d_pagination :: "page_bounds option"

definition DEFAULT_PAGINATION :: page_bounds where
  "DEFAULT_PAGINATION = \<lparr> g_defaultLimit = 20, g_maxLimit = 100, g_maxSkip = 10000 \<rparr>"

definition spec :: "param_type \<Rightarrow> string \<Rightarrow> param_spec" where
  "spec t key = \<lparr> s_type = t, s_rpcKey = key, s_required = False, s_values = None, s_min = None, s_max = None \<rparr>"

text \<open>\<open>...REQ\<close>\<close>

definition req :: "param_spec \<Rightarrow> param_spec" where
  "req s = s\<lparr> s_required := True \<rparr>"

definition PAGE_PARAMS :: "(string \<times> param_spec) list" where
  "PAGE_PARAMS = [(''limit'', (spec P_integer ''Limit'')\<lparr> s_min := Some 1 \<rparr>),
     (''skip'', (spec P_integer ''Skip'')\<lparr> s_min := Some 0 \<rparr>)]"

section \<open>The entries\<close>

definition address_account_methods :: "(string \<times> method_descriptor) list" where
  "address_account_methods = [
     (''get_address_summary'', \<lparr> d_rpcMethod = ''GetAddressByAddress'', d_category = C_address,
        d_summary = ''Account summary (balances, counters, first/last seen) for a Neo N3 address.'',
        d_params = [(''address'', req (spec P_address ''Address''))],
        d_pagination = None \<rparr>),
     (''list_address_transactions'', \<lparr> d_rpcMethod = ''GetRawTransactionByAddress'', d_category = C_address,
        d_summary = ''Transactions involving an address, newest first.'',
        d_params = [(''address'', req (spec P_address ''Address''))] @ PAGE_PARAMS,
        d_pagination = Some DEFAULT_PAGINATION \<rparr>),
     (''list_nep17_transfers_by_address'', \<lparr> d_rpcMethod = ''GetNep17TransferByAddress'', d_category = C_transfer,
        d_summary = ''NEP-17 (fungible token) transfers for an address, optionally time-bounded.'',
        d_params = [(''address'', req (spec P_address ''Address'')), (''start'', (spec P_integer ''Start'')\<lparr> s_min := Some 0 \<rparr>), (''end'', (spec P_integer ''End'')\<lparr> s_min := Some 0 \<rparr>)] @ PAGE_PARAMS,
        d_pagination = Some DEFAULT_PAGINATION \<rparr>),
     (''list_nep11_transfers_by_address'', \<lparr> d_rpcMethod = ''GetNep11TransferByAddress'', d_category = C_transfer,
        d_summary = ''NEP-11 (NFT) transfers for an address, newest first.'',
        d_params = [(''address'', req (spec P_address ''Address''))] @ PAGE_PARAMS,
        d_pagination = Some DEFAULT_PAGINATION \<rparr>),
     (''list_assets_held'', \<lparr> d_rpcMethod = ''GetAssetsHeldByAddress'', d_category = C_address,
        d_summary = ''Assets (token balances) held by an address.'',
        d_params = [(''address'', req (spec P_address ''Address''))] @ PAGE_PARAMS,
        d_pagination = Some DEFAULT_PAGINATION \<rparr>),
     (''address_transaction_count'', \<lparr> d_rpcMethod = ''GetTransactionCountByAddress'', d_category = C_address,
        d_summary = ''Total number of transactions involving an address.'',
        d_params = [(''address'', req (spec P_address ''Address''))],
        d_pagination = None \<rparr>),
     (''list_addresses'', \<lparr> d_rpcMethod = ''GetAddressList'', d_category = C_address,
        d_summary = ''Global list of known addresses.'',
        d_params = PAGE_PARAMS,
        d_pagination = Some DEFAULT_PAGINATION \<rparr>),
     (''address_count'', \<lparr> d_rpcMethod = ''GetAddressCount'', d_category = C_address,
        d_summary = ''Total number of known addresses on the chain.'',
        d_params = [],
        d_pagination = None \<rparr>)]"

definition blocks_methods :: "(string \<times> method_descriptor) list" where
  "blocks_methods = [
     (''get_block_by_hash'', \<lparr> d_rpcMethod = ''GetBlockByBlockHash'', d_category = C_block,
        d_summary = ''Full block by its block hash.'',
        d_params = [(''blockHash'', req (spec P_hash ''BlockHash''))],
        d_pagination = None \<rparr>),
     (''get_block_by_height'', \<lparr> d_rpcMethod = ''GetBlockByBlockHeight'', d_category = C_block,
        d_summary = ''Full block by its height (index).'',
        d_params = [(''blockHeight'', req (spec P_blockHeight ''BlockHeight''))],
        d_pagination = None \<rparr>),
     (''get_block_header_by_hash'', \<lparr> d_rpcMethod = ''GetBlockHeaderByBlockHash'', d_category = C_block,
        d_summary = ''Block header by its block hash.'',
        d_params = [(''blockHash'', req (spec P_hash ''BlockHash''))],
        d_pagination = None \<rparr>),
     (''get_block_header_by_height'', \<lparr> d_rpcMethod = ''GetBlockHeaderByBlockHeight'', d_category = C_block,
        d_summary = ''Block header by its height (index).'',
        d_params = [(''blockHeight'', req (spec P_blockHeight ''BlockHeight''))],
        d_pagination = None \<rparr>),
     (''list_blocks'', \<lparr> d_rpcMethod = ''GetBlockInfoList'', d_category = C_block,
        d_summary = ''Recent blocks (summary info), newest first.'',
        d_params = PAGE_PARAMS,
        d_pagination = Some DEFAULT_PAGINATION \<rparr>),
     (''block_count'', \<lparr> d_rpcMethod = ''GetBlockCount'', d_category = C_block,
        d_summary = ''Current block height / total block count.'',
        d_params = [],
        d_pagination = None \<rparr>),
     (''best_block_hash'', \<lparr> d_rpcMethod = ''GetBestBlockHash'', d_category = C_block,
        d_summary = ''Hash of the current best (tip) block.'',
        d_params = [],
        d_pagination = None \<rparr>)]"

definition transactions_methods :: "(string \<times> method_descriptor) list" where
  "transactions_methods = [
     (''get_transaction'', \<lparr> d_rpcMethod = ''GetRawTransactionByTransactionHash'', d_category = C_transaction,
        d_summary = ''A single transaction by its hash.'',
        d_params = [(''transactionHash'', req (spec P_hash ''TransactionHash''))],
        d_pagination = None \<rparr>),
     (''list_transactions'', \<lparr> d_rpcMethod = ''GetTransactionList'', d_category = C_transaction,
        d_summary = ''Recent transactions, newest first.'',
        d_params = PAGE_PARAMS,
        d_pagination = Some \<lparr> g_defaultLimit = 20, g_maxLimit = 200, g_maxSkip = 10000 \<rparr> \<rparr>),
     (''list_transactions_by_block_hash'', \<lparr> d_rpcMethod = ''GetRawTransactionByBlockHash'', d_category = C_transaction,
        d_summary = ''Transactions contained in a block, by block hash.'',
        d_params = [(''blockHash'', req (spec P_hash ''BlockHash''))] @ PAGE_PARAMS,
        d_pagination = Some DEFAULT_PAGINATION \<rparr>),
     (''list_transactions_by_block_height'', \<lparr> d_rpcMethod = ''GetRawTransactionByBlockHeight'', d_category = C_transaction,
        d_summary = ''Transactions contained in a block, by block height.'',
        d_params = [(''blockHeight'', req (spec P_blockHeight ''BlockHeight''))] @ PAGE_PARAMS,
        d_pagination = Some DEFAULT_PAGINATION \<rparr>),
     (''transaction_count'', \<lparr> d_rpcMethod = ''GetTransactionCount'', d_category = C_transaction,
        d_summary = ''Total number of transactions on the chain.'',
        d_params = [],
        d_pagination = None \<rparr>),
     (''get_application_log'', \<lparr> d_rpcMethod = ''GetApplicationLogByTransactionHash'', d_category = C_transaction,
        d_summary = ''Application execution log (notifications, VM state) for a transaction.'',
        d_params = [(''transactionHash'', req (spec P_hash ''TransactionHash''))],
        d_pagination = None \<rparr>),
     (''get_application_log_by_block'', \<lparr> d_rpcMethod = ''GetApplicationLogByBlockHash'', d_category = C_transaction,
        d_summary = ''Application execution logs for every transaction in a block.'',
        d_params = [(''blockHash'', req (spec P_hash ''BlockHash''))],
        d_pagination = None \<rparr>),
     (''get_execution'', \<lparr> d_rpcMethod = ''GetExecutionByTransactionHash'', d_category = C_transaction,
        d_summary = ''VM execution result and stack for a transaction.'',
        d_params = [(''transactionHash'', req (spec P_hash ''TransactionHash''))],
        d_pagination = None \<rparr>),
     (''get_vmstate'', \<lparr> d_rpcMethod = ''GetVmStateByTransactionHash'', d_category = C_transaction,
        d_summary = ''Final VM state (HALT/FAULT) for a transaction.'',
        d_params = [(''transactionHash'', req (spec P_hash ''TransactionHash''))],
        d_pagination = None \<rparr>),
     (''list_transfers_in_tx'', \<lparr> d_rpcMethod = ''GetNep17TransferByTransactionHash'', d_category = C_transfer,
        d_summary = ''NEP-17 transfers that occurred within a single transaction.'',
        d_params = [(''transactionHash'', req (spec P_hash ''TransactionHash''))],
        d_pagination = None \<rparr>),
     (''get_mempool'', \<lparr> d_rpcMethod = ''GetRawMemPool'', d_category = C_transaction,
        d_summary = ''Current raw mempool (pending, unconfirmed transactions).'',
        d_params = [],
        d_pagination = None \<rparr>)]"

definition transfers_by_contract_methods :: "(string \<times> method_descriptor) list" where
  "transfers_by_contract_methods = [
     (''list_nep17_transfers_by_contract'', \<lparr> d_rpcMethod = ''GetNep17TransferByContractHash'', d_category = C_transfer,
        d_summary = ''NEP-17 transfers for a specific token contract.'',
        d_params = [(''contractHash'', req (spec P_scriptHash ''ContractHash''))] @ PAGE_PARAMS,
        d_pagination = Some DEFAULT_PAGINATION \<rparr>),
     (''list_nep11_transfers_by_contract_token'', \<lparr> d_rpcMethod = ''GetNep11TransferByContractHashTokenId'', d_category = C_transfer,
        d_summary = ''NEP-11 transfers for a specific token id within an NFT contract.'',
        d_params = [(''contractHash'', req (spec P_scriptHash ''ContractHash'')), (''tokenId'', req (spec P_tokenId ''TokenId''))] @ PAGE_PARAMS,
        d_pagination = Some DEFAULT_PAGINATION \<rparr>)]"

definition assets_methods :: "(string \<times> method_descriptor) list" where
  "assets_methods = [
     (''list_assets'', \<lparr> d_rpcMethod = ''GetAssetInfos'', d_category = C_asset,
        d_summary = ''Token/asset registry, optionally filtered by standard (NEP17 or NEP11).'',
        d_params = [(''standard'', (spec P_enum ''Standard'')\<lparr> s_values := Some [''NEP17'', ''NEP11''] \<rparr>)] @ PAGE_PARAMS,
        d_pagination = Some DEFAULT_PAGINATION \<rparr>),
     (''get_asset_by_contract'', \<lparr> d_rpcMethod = ''GetAssetInfoByContractHash'', d_category = C_asset,
        d_summary = ''Asset metadata (symbol, decimals, supply) for a token contract.'',
        d_params = [(''contractHash'', req (spec P_scriptHash ''ContractHash''))],
        d_pagination = None \<rparr>),
     (''search_assets_by_name'', \<lparr> d_rpcMethod = ''GetAssetInfosByName'', d_category = C_asset,
        d_summary = ''Search assets by name (server-built bounded regex).'',
        d_params = [(''name'', req (spec P_name ''Name''))] @ PAGE_PARAMS,
        d_pagination = Some DEFAULT_PAGINATION \<rparr>),
     (''list_asset_holders'', \<lparr> d_rpcMethod = ''GetAssetHoldersListByContractHash'', d_category = C_asset,
        d_summary = ''Holders (and balances) of a given token contract.'',
        d_params = [(''contractHash'', req (spec P_scriptHash ''ContractHash''))] @ PAGE_PARAMS,
        d_pagination = Some DEFAULT_PAGINATION \<rparr>)]"

definition contracts_methods :: "(string \<times> method_descriptor) list" where
  "contracts_methods = [
     (''get_contract'', \<lparr> d_rpcMethod = ''GetContractByContractHash'', d_category = C_contract,
        d_summary = ''Deployed contract state (manifest, NEF, update counter) by contract hash.'',
        d_params = [(''contractHash'', req (spec P_scriptHash ''ContractHash''))],
        d_pagination = None \<rparr>),
     (''list_contracts'', \<lparr> d_rpcMethod = ''GetContractList'', d_category = C_contract,
        d_summary = ''Deployed contracts, newest first.'',
        d_params = PAGE_PARAMS,
        d_pagination = Some DEFAULT_PAGINATION \<rparr>),
     (''search_contracts_by_name'', \<lparr> d_rpcMethod = ''GetContractListByName'', d_category = C_contract,
        d_summary = ''Search deployed contracts by name (server-built bounded regex).'',
        d_params = [(''name'', req (spec P_name ''Name''))] @ PAGE_PARAMS,
        d_pagination = Some DEFAULT_PAGINATION \<rparr>),
     (''contract_count'', \<lparr> d_rpcMethod = ''GetContractCount'', d_category = C_contract,
        d_summary = ''Total number of deployed contracts.'',
        d_params = [],
        d_pagination = None \<rparr>),
     (''list_contract_notifications'', \<lparr> d_rpcMethod = ''GetNotificationByContractHash'', d_category = C_contract,
        d_summary = ''Runtime notifications (events) emitted by a contract.'',
        d_params = [(''contractHash'', req (spec P_scriptHash ''ContractHash''))] @ PAGE_PARAMS,
        d_pagination = Some DEFAULT_PAGINATION \<rparr>),
     (''list_contract_calls'', \<lparr> d_rpcMethod = ''GetScCallByContractHash'', d_category = C_contract,
        d_summary = ''Smart-contract calls made to a contract.'',
        d_params = [(''contractHash'', req (spec P_scriptHash ''ContractHash''))] @ PAGE_PARAMS,
        d_pagination = Some DEFAULT_PAGINATION \<rparr>),
     (''list_verified_contracts'', \<lparr> d_rpcMethod = ''GetVerifiedContracts'', d_category = C_contract,
        d_summary = ''Contracts with verified (published) source code.'',
        d_params = PAGE_PARAMS,
        d_pagination = Some DEFAULT_PAGINATION \<rparr>)]"

definition governance_methods :: "(string \<times> method_descriptor) list" where
  "governance_methods = [
     (''list_candidates'', \<lparr> d_rpcMethod = ''GetCandidate'', d_category = C_governance,
        d_summary = ''Consensus/validator candidates and their vote tallies.'',
        d_params = PAGE_PARAMS,
        d_pagination = Some DEFAULT_PAGINATION \<rparr>),
     (''get_candidate_by_address'', \<lparr> d_rpcMethod = ''GetCandidateByAddress'', d_category = C_governance,
        d_summary = ''Candidate details for a specific address.'',
        d_params = [(''address'', req (spec P_address ''Address''))],
        d_pagination = None \<rparr>),
     (''candidate_count'', \<lparr> d_rpcMethod = ''GetCandidateCount'', d_category = C_governance,
        d_summary = ''Total number of registered candidates.'',
        d_params = [],
        d_pagination = None \<rparr>),
     (''get_committee'', \<lparr> d_rpcMethod = ''GetCommittee'', d_category = C_governance,
        d_summary = ''Current committee members.'',
        d_params = [],
        d_pagination = None \<rparr>),
     (''total_votes'', \<lparr> d_rpcMethod = ''GetTotalVotes'', d_category = C_governance,
        d_summary = ''Total votes cast across all candidates.'',
        d_params = [],
        d_pagination = None \<rparr>),
     (''list_voters_for_candidate'', \<lparr> d_rpcMethod = ''GetVotersByCandidateAddress'', d_category = C_governance,
        d_summary = ''Addresses that voted for a given candidate.'',
        d_params = [(''candidateAddress'', req (spec P_address ''CandidateAddress''))] @ PAGE_PARAMS,
        d_pagination = Some DEFAULT_PAGINATION \<rparr>)]"

definition state_misc_methods :: "(string \<times> method_descriptor) list" where
  "state_misc_methods = [
     (''get_state_root'', \<lparr> d_rpcMethod = ''GetStateRoot'', d_category = C_state,
        d_summary = ''State root at a given block height (omit for genesis).'',
        d_params = [(''blockHeight'', spec P_blockHeight ''BlockHeight'')],
        d_pagination = None \<rparr>),
     (''get_validated_state_root'', \<lparr> d_rpcMethod = ''GetValidatedStateRoot'', d_category = C_state,
        d_summary = ''Latest validated state root.'',
        d_params = [],
        d_pagination = None \<rparr>),
     (''net_fee_range'', \<lparr> d_rpcMethod = ''GetNetFeeRange'', d_category = C_state,
        d_summary = ''Network-fee range statistics across recent transactions.'',
        d_params = [],
        d_pagination = None \<rparr>)]"

definition METHOD_CATALOG :: "(string \<times> method_descriptor) list" where
  "METHOD_CATALOG = address_account_methods @ blocks_methods @ transactions_methods @ transfers_by_contract_methods @ assets_methods @ contracts_methods @ governance_methods @ state_misc_methods"

section \<open>Well-formedness\<close>

definition pascal_case :: "string \<Rightarrow> bool" where
  "pascal_case s \<longleftrightarrow> (case s of [] \<Rightarrow> False | c # cs \<Rightarrow> 65 \<le> cc c \<and> cc c \<le> 90 \<and> list_all is_alnum cs)"

text \<open>
  A descriptor is well formed: a read-only \<open>Get\<close> method, upstream keys in PascalCase and
  distinct, argument names distinct, allowed values exactly for enums, and a page window
  exactly when \<open>limit\<close> and \<open>skip\<close> are parameters, under the keys \<open>Limit\<close> and \<open>Skip\<close>.
\<close>

definition descriptor_ok :: "method_descriptor \<Rightarrow> bool" where
  "descriptor_ok d \<longleftrightarrow>
     starts_with (d_rpcMethod d) ''Get'' \<and> pascal_case (d_rpcMethod d)
     \<and> distinct (map fst (d_params d)) \<and> distinct (map (s_rpcKey \<circ> snd) (d_params d))
     \<and> list_all (\<lambda>(k, s). pascal_case (s_rpcKey s) \<and> (s_type s = P_enum) = (s_values s \<noteq> None)) (d_params d)
     \<and> (d_pagination d \<noteq> None) = (''limit'' \<in> fst ` set (d_params d))
     \<and> (d_pagination d \<noteq> None) = (''skip'' \<in> fst ` set (d_params d))
     \<and> list_all (\<lambda>(k, s). (k = ''limit'') = (s_rpcKey s = ''Limit'') \<and> (k = ''skip'') = (s_rpcKey s = ''Skip'')) (d_params d)
     \<and> (case d_pagination d of None \<Rightarrow> True | Some g \<Rightarrow>
          1 \<le> g_defaultLimit g \<and> g_defaultLimit g \<le> g_maxLimit g \<and> g_maxLimit g \<le> 200 \<and> g_maxSkip g = 10000)"

lemma address_account_methods_ok: "list_all (\<lambda>(k, d). descriptor_ok d) address_account_methods"
  by code_simp

lemma blocks_methods_ok: "list_all (\<lambda>(k, d). descriptor_ok d) blocks_methods"
  by code_simp

lemma transactions_methods_ok: "list_all (\<lambda>(k, d). descriptor_ok d) transactions_methods"
  by code_simp

lemma transfers_by_contract_methods_ok: "list_all (\<lambda>(k, d). descriptor_ok d) transfers_by_contract_methods"
  by code_simp

lemma assets_methods_ok: "list_all (\<lambda>(k, d). descriptor_ok d) assets_methods"
  by code_simp

lemma contracts_methods_ok: "list_all (\<lambda>(k, d). descriptor_ok d) contracts_methods"
  by code_simp

lemma governance_methods_ok: "list_all (\<lambda>(k, d). descriptor_ok d) governance_methods"
  by code_simp

lemma state_misc_methods_ok: "list_all (\<lambda>(k, d). descriptor_ok d) state_misc_methods"
  by code_simp

lemma method_catalog_descriptors: "(k, d) \<in> set METHOD_CATALOG \<Longrightarrow> descriptor_ok d"
  using address_account_methods_ok blocks_methods_ok transactions_methods_ok transfers_by_contract_methods_ok assets_methods_ok contracts_methods_ok governance_methods_ok state_misc_methods_ok
  unfolding METHOD_CATALOG_def by (auto simp only: list_all_iff set_append Un_iff split_paired_all)

lemma method_catalog_keys: "distinct (map fst METHOD_CATALOG)"
  by code_simp

lemma method_catalog_methods: "distinct (map (d_rpcMethod \<circ> snd) METHOD_CATALOG)"
  by code_simp

end
