(* ===== verification/IndexerGuard.thy ===== *)
theory IndexerGuard
  imports IndexerCatalog Allowlist "HOL-Library.AList"
begin

text \<open>
  src/indexer/indexer-query-guard.ts: the guard of the generic indexer query, a pure function
  of the method registry. It rejects every method that is not listed and builds the upstream
  parameters key by key from the descriptor. \<open>ia\<close> and \<open>sh\<close> are the neon-js functions that
  \<open>validateAddress\<close> takes as parameters.
\<close>

section \<open>The guard\<close>

definition assertAllowedMethod :: "jsval \<Rightarrow> method_descriptor result" where
  "assertAllowedMethod v =
     (case v of
        JStr m \<Rightarrow>
          if m = [] then invalid ''Indexer query method must be a non-empty string. Permitted methods: ''
          else (case map_of METHOD_CATALOG m of
                  Some d \<Rightarrow> Inr d | None \<Rightarrow> invalid (''Indexer query method '' @ [CHR 0x22]))
      | _ \<Rightarrow> invalid ''Indexer query method must be a non-empty string. Permitted methods: '')"

definition param_msg :: string where
  "param_msg = ''Parameter '' @ [CHR 0x22]"

definition validateAddressParam :: "(string \<Rightarrow> bool) \<Rightarrow> (string \<Rightarrow> string option) \<Rightarrow> jsval \<Rightarrow> string result" where
  "validateAddressParam ia sh v =
     (case v of
        JStr s \<Rightarrow>
          (case validateAddress ia sh v of
             Inr a \<Rightarrow> Inr a
           | Inl e \<Rightarrow> (case validateScriptHash v of Inr h \<Rightarrow> Inr h | Inl e \<Rightarrow> invalid param_msg))
      | _ \<Rightarrow> invalid param_msg)"

definition validateIntegerParam :: "param_spec \<Rightarrow> jsval \<Rightarrow> int result" where
  "validateIntegerParam s v =
     bindR (validateInteger v) (\<lambda>n.
     if (case s_min s of Some m \<Rightarrow> n < m | None \<Rightarrow> False) then invalid param_msg
     else if (case s_max s of Some m \<Rightarrow> m < n | None \<Rightarrow> False) then invalid param_msg
     else Inr n)"

definition validateNameParam :: "jsval \<Rightarrow> string result" where
  "validateNameParam v =
     (case v of
        JStr s \<Rightarrow> bindR (sanitizeString v) (\<lambda>t.
          if length t < 1 \<or> 64 < length t then invalid param_msg else Inr t)
      | _ \<Rightarrow> invalid param_msg)"

definition token_char :: "char \<Rightarrow> bool" where
  "token_char c \<longleftrightarrow> is_alnum c \<or> c \<in> set ''+/=''"

definition validateTokenIdParam :: "jsval \<Rightarrow> string result" where
  "validateTokenIdParam v =
     (case v of
        JStr s \<Rightarrow> if length s < 1 \<or> 128 < length s \<or> \<not> list_all token_char s then invalid param_msg else Inr s
      | _ \<Rightarrow> invalid param_msg)"

definition validateEnumParam :: "param_spec \<Rightarrow> jsval \<Rightarrow> string result" where
  "validateEnumParam s v =
     (case v of
        JStr t \<Rightarrow> if t \<in> set (case s_values s of Some vs \<Rightarrow> vs | None \<Rightarrow> []) then Inr t else invalid param_msg
      | _ \<Rightarrow> invalid param_msg)"

definition js_str :: "string result \<Rightarrow> jsval result" where
  "js_str r = bindR r (\<lambda>s. Inr (JStr s))"

definition js_int :: "int result \<Rightarrow> jsval result" where
  "js_int r = bindR r (\<lambda>n. Inr (JNum (NInt n)))"

definition validateByType :: "(string \<Rightarrow> bool) \<Rightarrow> (string \<Rightarrow> string option) \<Rightarrow> param_spec \<Rightarrow> jsval \<Rightarrow> jsval result" where
  "validateByType ia sh s v =
     (case s_type s of
        P_address \<Rightarrow> js_str (validateAddressParam ia sh v)
      | P_scriptHash \<Rightarrow> js_str (validateScriptHash v)
      | P_hash \<Rightarrow> js_str (validateHash v)
      | P_blockHeight \<Rightarrow> js_int (validateIntegerParam s v)
      | P_integer \<Rightarrow> js_int (validateIntegerParam s v)
      | P_name \<Rightarrow> js_str (validateNameParam v)
      | P_tokenId \<Rightarrow> js_str (validateTokenIdParam v)
      | P_enum \<Rightarrow> js_str (validateEnumParam s v)
      | P_boolean \<Rightarrow> bindR (validateBoolean v) (\<lambda>b. Inr (JBool b)))"

definition clampPagination :: "page_bounds \<Rightarrow> string \<Rightarrow> jsval \<Rightarrow> int result" where
  "clampPagination g key v =
     (if key = ''limit''
      then if nullish v then Inr (g_defaultLimit g)
           else bindR (validateInteger v) (\<lambda>n. Inr (clamp 1 (g_maxLimit g) n))
      else if nullish v then Inr 0
           else bindR (validateInteger v) (\<lambda>n. Inr (clamp 0 (g_maxSkip g) n)))"

text \<open>One declared parameter: the upstream member it contributes, if any.\<close>

definition upstream_member ::
    "(string \<Rightarrow> bool) \<Rightarrow> (string \<Rightarrow> string option) \<Rightarrow> method_descriptor \<Rightarrow> jsobj \<Rightarrow> string \<times> param_spec \<Rightarrow> (string \<times> jsval) option result" where
  "upstream_member ia sh d params = (\<lambda>(key, s).
     let raw = oget params key in
     (case (if key = ''limit'' \<or> key = ''skip'' then d_pagination d else None) of
        Some g \<Rightarrow> bindR (js_int (clampPagination g key raw)) (\<lambda>v. Inr (Some (s_rpcKey s, v)))
      | None \<Rightarrow>
          if nullish raw
          then if s_required s then invalid (''Missing required parameter '' @ [CHR 0x22]) else Inr None
          else bindR (validateByType ia sh s raw) (\<lambda>v. Inr (Some (s_rpcKey s, v)))))"

fun build_upstream ::
    "(string \<Rightarrow> bool) \<Rightarrow> (string \<Rightarrow> string option) \<Rightarrow> method_descriptor \<Rightarrow> jsobj \<Rightarrow> (string \<times> param_spec) list \<Rightarrow> jsobj \<Rightarrow> jsobj result" where
  "build_upstream ia sh d params [] upstream = Inr upstream"
| "build_upstream ia sh d params (ks # rest) upstream =
     bindR (upstream_member ia sh d params ks) (\<lambda>m.
       build_upstream ia sh d params rest
         (case m of Some (k, v) \<Rightarrow> AList.update k v upstream | None \<Rightarrow> upstream))"

definition buildMethodParams :: "(string \<Rightarrow> bool) \<Rightarrow> (string \<Rightarrow> string option) \<Rightarrow> method_descriptor \<Rightarrow> jsval \<Rightarrow> jsobj result" where
  "buildMethodParams ia sh d input =
     bindR (asPlainObject ''Indexer query params must be an object'' input) (\<lambda>params.
     bindR (reject_unknown (map fst (d_params d)) [''network'', ''method'', ''params''] params) (\<lambda>_.
     build_upstream ia sh d params (d_params d) []))"

section \<open>What reaches the indexer\<close>

text \<open>
  The values a parameter may carry upstream: a plain scalar of the declared shape.
\<close>

definition shape_ok :: "(string \<Rightarrow> bool) \<Rightarrow> param_spec \<Rightarrow> jsval \<Rightarrow> bool" where
  "shape_ok ia s v =
     (case (s_type s, v) of
        (P_address, JStr t) \<Rightarrow> alnum34 t \<and> ia t \<or> hex_0x 40 t
      | (P_scriptHash, JStr t) \<Rightarrow> hex_0x 40 t
      | (P_hash, JStr t) \<Rightarrow> hex_0x 64 t
      | (P_blockHeight, JNum (NInt n)) \<Rightarrow> 0 \<le> n \<and> n \<le> maxSafeInteger
      | (P_integer, JNum (NInt n)) \<Rightarrow> 0 \<le> n \<and> n \<le> maxSafeInteger
      | (P_name, JStr t) \<Rightarrow> 1 \<le> length t \<and> length t \<le> 64 \<and> tag_free t \<and> list_all (\<lambda>c. \<not> control_char c) t
      | (P_tokenId, JStr t) \<Rightarrow> 1 \<le> length t \<and> length t \<le> 128 \<and> list_all token_char t
      | (P_enum, JStr t) \<Rightarrow> t \<in> set (case s_values s of Some vs \<Rightarrow> vs | None \<Rightarrow> [])
      | (P_boolean, JBool b) \<Rightarrow> True
      | _ \<Rightarrow> False)"

lemma validateScriptHash_shape: "validateScriptHash v = Inr h \<Longrightarrow> hex_0x 40 h"
  by (auto simp: validateScriptHash_def hex_0x_def starts_with_def split: jsval.splits if_splits)

lemma validateAddress_shape: "validateAddress ia sh v = Inr a \<Longrightarrow> alnum34 a \<and> ia a"
  by (auto simp: validateAddress_def split: jsval.splits if_splits)

lemma validateHash_shape: "validateHash v = Inr h \<Longrightarrow> hex_0x 64 h"
  by (auto simp: validateHash_def hex_0x_def starts_with_def split: jsval.splits if_splits)

lemma validateInteger_range: "validateInteger v = Inr n \<Longrightarrow> 0 \<le> n \<and> n \<le> maxSafeInteger"
  by (auto simp: validateInteger_def split: jsval.splits jsnum.splits if_splits)

lemma validateByType_shape:
  assumes "validateByType ia sh s v = Inr w"
  shows "shape_ok ia s w"
proof (cases "s_type s")
  case P_address
  with assms show ?thesis
    by (auto simp: validateByType_def shape_ok_def js_str_def result_simps validateAddressParam_def
        dest: validateScriptHash_shape validateAddress_shape split: jsval.splits sum.splits)
next
  case P_name
  with assms show ?thesis
    by (auto simp: validateByType_def shape_ok_def js_str_def result_simps validateNameParam_def
        dest: sanitize_shape split: jsval.splits if_splits) (simp add: Suc_le_eq)
qed (use assms in \<open>auto simp: validateByType_def shape_ok_def js_str_def js_int_def result_simps
      validateIntegerParam_def validateTokenIdParam_def validateEnumParam_def
      dest: validateScriptHash_shape validateHash_shape validateInteger_range
      split: jsval.splits if_splits\<close>, simp_all add: Suc_le_eq)

lemma clampPagination_bounds:
  assumes "clampPagination g key v = Inr n" "1 \<le> g_defaultLimit g" "g_defaultLimit g \<le> g_maxLimit g" "0 \<le> g_maxSkip g"
  shows "(if key = ''limit'' then 1 \<le> n \<and> n \<le> g_maxLimit g else 0 \<le> n \<and> n \<le> g_maxSkip g)"
  using assms clamp_bounds [of 1 "g_maxLimit g"] clamp_bounds [of 0 "g_maxSkip g"]
  by (auto simp: clampPagination_def result_simps split: if_splits)

text \<open>Each upstream member comes from a declared parameter, under its own key.\<close>

lemma in_set_update: "x \<in> set (AList.update k v al) \<Longrightarrow> x = (k, v) \<or> x \<in> set al"
  by (induction al) (auto split: if_splits)

lemma upstream_member_key: "upstream_member ia sh d params (key, s) = Inr (Some (k, v)) \<Longrightarrow> k = s_rpcKey s"
  by (auto simp: upstream_member_def Let_def result_simps split: option.splits if_splits)

lemma build_upstream_in:
  assumes "build_upstream ia sh d params specs upstream = Inr out" "(k, v) \<in> set out"
  shows "(k, v) \<in> set upstream \<or> (\<exists>ks \<in> set specs. upstream_member ia sh d params ks = Inr (Some (k, v)))"
  using assms
proof (induction specs arbitrary: upstream)
  case Nil
  then show ?case by simp
next
  case (Cons ks rest)
  then obtain m where m: "upstream_member ia sh d params ks = Inr m"
    and r: "build_upstream ia sh d params rest (case m of Some (k, v) \<Rightarrow> AList.update k v upstream | None \<Rightarrow> upstream) = Inr out"
    by (auto simp: result_simps)
  from Cons.IH [OF r Cons.prems(2)] m show ?case
    by (auto split: option.splits dest: in_set_update)
qed

lemma build_upstream_distinct:
  "build_upstream ia sh d params specs upstream = Inr out \<Longrightarrow> distinct (map fst upstream) \<Longrightarrow> distinct (map fst out)"
  by (induction specs arbitrary: upstream) (fastforce simp: result_simps distinct_update split: option.splits prod.splits)+

lemma build_upstream_keeps:
  assumes "build_upstream ia sh d params specs upstream = Inr out" "k \<notin> (s_rpcKey \<circ> snd) ` set specs"
  shows "map_of out k = map_of upstream k"
  using assms
proof (induction specs arbitrary: upstream)
  case Nil
  then show ?case by simp
next
  case (Cons ks rest)
  then obtain m where m: "upstream_member ia sh d params ks = Inr m"
    and r: "build_upstream ia sh d params rest (case m of Some (k, v) \<Rightarrow> AList.update k v upstream | None \<Rightarrow> upstream) = Inr out"
    by (auto simp: result_simps)
  obtain key s where ks: "ks = (key, s)" by (cases ks)
  have "k \<notin> (s_rpcKey \<circ> snd) ` set rest" using Cons.prems(2) by simp
  from Cons.IH [OF r this] have "map_of out k = map_of (case m of Some (k, v) \<Rightarrow> AList.update k v upstream | None \<Rightarrow> upstream) k" .
  moreover have "k \<noteq> k'" if "m = Some (k', v')" for k' v'
    using upstream_member_key [of ia sh d params key s k' v'] m that ks Cons.prems(2) by auto
  ultimately show ?case by (auto simp: update_conv' split: option.splits)
qed

lemma build_upstream_value:
  assumes "build_upstream ia sh d params specs upstream = Inr out" "distinct (map (s_rpcKey \<circ> snd) specs)"
    and "ks \<in> set specs"
  shows "\<exists>m. upstream_member ia sh d params ks = Inr m \<and> (\<forall>k v. m = Some (k, v) \<longrightarrow> map_of out k = Some v)"
  using assms
proof (induction specs arbitrary: upstream)
  case Nil
  then show ?case by simp
next
  case (Cons ks' rest)
  then obtain m where m: "upstream_member ia sh d params ks' = Inr m"
    and r: "build_upstream ia sh d params rest (case m of Some (k, v) \<Rightarrow> AList.update k v upstream | None \<Rightarrow> upstream) = Inr out"
    by (auto simp: result_simps)
  show ?case
  proof (cases "ks = ks'")
    case True
    obtain key s where ks: "ks' = (key, s)" by (cases ks')
    have "map_of out k = Some v" if "m = Some (k, v)" for k v
    proof -
      have "k = s_rpcKey s" using upstream_member_key m that ks by blast
      then have "k \<notin> (s_rpcKey \<circ> snd) ` set rest" using Cons.prems(2) ks by simp
      from build_upstream_keeps [OF r this] that show ?thesis by (simp add: update_conv')
    qed
    with True m show ?thesis by blast
  next
    case False
    with Cons.IH [OF r] Cons.prems show ?thesis by simp
  qed
qed

lemma assertAllowedMethod_in: "assertAllowedMethod v = Inr d \<Longrightarrow> \<exists>m. v = JStr m \<and> (m, d) \<in> set METHOD_CATALOG"
  by (auto simp: assertAllowedMethod_def dest: map_of_SomeD split: jsval.splits option.splits if_splits)

lemma page_bounds_sane:
  assumes "descriptor_ok d" "d_pagination d = Some g"
  shows "1 \<le> g_defaultLimit g \<and> g_defaultLimit g \<le> g_maxLimit g \<and> g_maxLimit g \<le> 200 \<and> g_maxSkip g = 10000"
  using assms by (simp add: descriptor_ok_def)

lemma upstream_member_page:
  assumes "descriptor_ok d" "d_pagination d = Some g" "key = ''limit'' \<or> key = ''skip''"
    and "upstream_member ia sh d params (key, s) = Inr m"
  shows "\<exists>n. m = Some (s_rpcKey s, JNum (NInt n)) \<and> (if key = ''limit'' then 1 \<le> n \<and> n \<le> 200 else 0 \<le> n \<and> n \<le> 10000)"
proof -
  from assms(2-4) obtain n where n: "clampPagination g key (oget params key) = Inr n" "m = Some (s_rpcKey s, JNum (NInt n))"
    by (auto simp: upstream_member_def Let_def js_int_def result_simps)
  have "if key = ''limit'' then 1 \<le> n \<and> n \<le> g_maxLimit g else 0 \<le> n \<and> n \<le> g_maxSkip g"
    using page_bounds_sane [OF assms(1,2)] by (intro clampPagination_bounds [OF n(1)]) simp_all
  with n(2) page_bounds_sane [OF assms(1,2)] show ?thesis by (auto split: if_splits)
qed

lemma upstream_member_shape:
  assumes "upstream_member ia sh d params (key, s) = Inr (Some (k, v))" "d_pagination d = None \<or> key \<noteq> ''limit'' \<and> key \<noteq> ''skip''"
  shows "shape_ok ia s v"
  using assms validateByType_shape [of ia sh s "oget params key"]
  by (auto simp: upstream_member_def Let_def result_simps split: option.splits if_splits)

section \<open>Properties\<close>

text \<open>
  Injection-proof by construction. What the guard sends for an allowed method is a
  read-only \<open>Get\<close> method and an object with distinct keys, each the upstream key of a declared
  parameter, with a number, boolean or string of the declared shape as its value: no object,
  array or unvalidated text of the caller gets through.
\<close>

lemma indexer_params_vetted:
  assumes "assertAllowedMethod v = Inr d" "buildMethodParams ia sh d input = Inr out"
  shows "starts_with (d_rpcMethod d) ''Get'' \<and> distinct (map fst out) \<and>
    (\<forall>(k, w) \<in> set out. \<exists>key s. (key, s) \<in> set (d_params d) \<and> k = s_rpcKey s
       \<and> (shape_ok ia s w \<or> (\<exists>n. w = JNum (NInt n) \<and> 0 \<le> n \<and> n \<le> 10000)))"
proof (intro conjI ballI, goal_cases)
  have ok: "descriptor_ok d" using assertAllowedMethod_in [OF assms(1)] method_catalog_descriptors by blast
  from assms(2) obtain params where b: "build_upstream ia sh d params (d_params d) [] = Inr out"
    by (auto simp: buildMethodParams_def result_simps)
  case 1
  from ok show ?case by (simp add: descriptor_ok_def)
  case 2
  from build_upstream_distinct [OF b] show ?case by simp
  case (3 kw)
  obtain k w where kw: "kw = (k, w)" by (cases kw)
  from build_upstream_in [OF b, of k w] 3 kw obtain ks where ks: "ks \<in> set (d_params d)"
    "upstream_member ia sh d params ks = Inr (Some (k, w))" by auto
  obtain key s where "ks = (key, s)" by (cases ks)
  with ks have m: "(key, s) \<in> set (d_params d)" "upstream_member ia sh d params (key, s) = Inr (Some (k, w))" by simp_all
  have k: "k = s_rpcKey s" using upstream_member_key m(2) by blast
  have "shape_ok ia s w \<or> (\<exists>n. w = JNum (NInt n) \<and> 0 \<le> n \<and> n \<le> 10000)"
  proof (cases "\<exists>g. d_pagination d = Some g \<and> (key = ''limit'' \<or> key = ''skip'')")
    case True
    then obtain g where "d_pagination d = Some g" "key = ''limit'' \<or> key = ''skip''" by blast
    from upstream_member_page [OF ok this m(2)] show ?thesis by (auto split: if_splits)
  next
    case False
    then have "d_pagination d = None \<or> key \<noteq> ''limit'' \<and> key \<noteq> ''skip''" by auto
    with upstream_member_shape [OF m(2)] show ?thesis by blast
  qed
  with m(1) k kw show ?case by auto
qed

lemma indexer_params_vetted_witness:
  "\<exists>d out. assertAllowedMethod (JStr ''list_assets'') = Inr d
     \<and> buildMethodParams (\<lambda>_. False) (\<lambda>_. None) d (JObj [(''standard'', JStr ''NEP17''), (''limit'', JNum (NInt 900))]) = Inr out
     \<and> starts_with (d_rpcMethod d) ''Get'' \<and> distinct (map fst out)
     \<and> out = [(''Standard'', JStr ''NEP17''), (''Limit'', JNum (NInt 100)), (''Skip'', JNum (NInt 0))]"
proof -
  let ?d = "the (map_of METHOD_CATALOG ''list_assets'')"
  let ?i = "JObj [(''standard'', JStr ''NEP17''), (''limit'', JNum (NInt 900))]"
  let ?out = "[(''Standard'', JStr ''NEP17''), (''Limit'', JNum (NInt 100)), (''Skip'', JNum (NInt 0))]"
  have d: "assertAllowedMethod (JStr ''list_assets'') = Inr ?d" by code_simp
  have b: "buildMethodParams (\<lambda>_. False) (\<lambda>_. None) ?d ?i = Inr ?out" by code_simp
  from indexer_params_vetted [OF d b] d b show ?thesis by blast
qed

text \<open>
  A paginated method always gets a page window, whatever the caller asks for: a limit
  between 1 and 200 and a skip between 0 and 10000.
\<close>

lemma indexer_page_window:
  assumes "assertAllowedMethod v = Inr d" "d_pagination d = Some g" "buildMethodParams ia sh d input = Inr out"
  shows "\<exists>l k. map_of out ''Limit'' = Some (JNum (NInt l)) \<and> 1 \<le> l \<and> l \<le> 200
    \<and> map_of out ''Skip'' = Some (JNum (NInt k)) \<and> 0 \<le> k \<and> k \<le> 10000"
proof -
  have ok: "descriptor_ok d" using assertAllowedMethod_in [OF assms(1)] method_catalog_descriptors by blast
  from assms(3) obtain params where b: "build_upstream ia sh d params (d_params d) [] = Inr out"
    by (auto simp: buildMethodParams_def result_simps)
  from ok assms(2) obtain s1 s2 where s: "(''limit'', s1) \<in> set (d_params d)" "(''skip'', s2) \<in> set (d_params d)"
    by (auto simp: descriptor_ok_def)
  with ok have keys: "s_rpcKey s1 = ''Limit''" "s_rpcKey s2 = ''Skip''" by (auto simp: descriptor_ok_def list_all_iff)
  have dist: "distinct (map (s_rpcKey \<circ> snd) (d_params d))" using ok by (simp add: descriptor_ok_def)
  from build_upstream_value [OF b dist s(1)] obtain m1 where m1: "upstream_member ia sh d params (''limit'', s1) = Inr m1"
    "\<forall>k v. m1 = Some (k, v) \<longrightarrow> map_of out k = Some v" by blast
  from build_upstream_value [OF b dist s(2)] obtain m2 where m2: "upstream_member ia sh d params (''skip'', s2) = Inr m2"
    "\<forall>k v. m2 = Some (k, v) \<longrightarrow> map_of out k = Some v" by blast
  from upstream_member_page [OF ok assms(2) _ m1(1)] upstream_member_page [OF ok assms(2) _ m2(1)] m1(2) m2(2) keys
  show ?thesis by auto
qed

lemma indexer_page_window_witness:
  "\<exists>out l. buildMethodParams (\<lambda>_. False) (\<lambda>_. None) (the (map_of METHOD_CATALOG ''list_transactions'')) JUndef = Inr out
     \<and> map_of out ''Limit'' = Some (JNum (NInt l)) \<and> 1 \<le> l \<and> l \<le> 200"
proof -
  let ?d = "the (map_of METHOD_CATALOG ''list_transactions'')"
  have d: "assertAllowedMethod (JStr ''list_transactions'') = Inr ?d" by code_simp
  have g: "d_pagination ?d = Some \<lparr> g_defaultLimit = 20, g_maxLimit = 200, g_maxSkip = 10000 \<rparr>" by code_simp
  have b: "buildMethodParams (\<lambda>_. False) (\<lambda>_. None) ?d JUndef = Inr [(''Limit'', JNum (NInt 20)), (''Skip'', JNum (NInt 0))]"
    by code_simp
  from indexer_page_window [OF d g b] b show ?thesis by blast
qed

text \<open>
  Caller keys are never spread: an argument object with a key that the method does not
  declare is refused, as is one without a required parameter.
\<close>

lemma indexer_rejects_undeclared:
  assumes "own_props input = Some kvs" "\<not> nullish input"
    and "(\<exists>k \<in> fst ` set kvs. k \<notin> set (map fst (d_params d)) \<and> k \<notin> {''network'', ''method'', ''params''})
      \<or> (\<exists>(key, s) \<in> set (d_params d). s_required s \<and> nullish (oget kvs key) \<and> key \<notin> {''limit'', ''skip''})"
  shows "\<exists>e. buildMethodParams ia sh d input = Inl e"
proof (cases "buildMethodParams ia sh d input")
  case (Inr out)
  then have keys: "fst ` set kvs \<subseteq> set (map fst (d_params d)) \<union> {''network'', ''method'', ''params''}"
    and b: "build_upstream ia sh d kvs (d_params d) [] = Inr out"
    using assms(1,2) by (auto simp: buildMethodParams_def asPlainObject_def result_simps reject_unknown_Inr)
  have member: "\<exists>m. upstream_member ia sh d kvs ks = Inr m"
    if "build_upstream ia sh d kvs specs up = Inr out'" "ks \<in> set specs" for specs up out' ks
    using that by (induction specs arbitrary: up) (auto simp: result_simps)
  from assms(3) keys obtain key s where "(key, s) \<in> set (d_params d)" "s_required s" "nullish (oget kvs key)"
    "key \<notin> {''limit'', ''skip''}" by auto
  with member [OF b this(1)] show ?thesis by (auto simp: upstream_member_def Let_def)
qed blast

lemma indexer_rejects_undeclared_witness:
  "\<exists>e. buildMethodParams (\<lambda>_. False) (\<lambda>_. None) (the (map_of METHOD_CATALOG ''block_count'')) (JObj [(''$where'', JStr ''1'')]) = Inl e"
proof -
  let ?d = "the (map_of METHOD_CATALOG ''block_count'')"
  have p: "own_props (JObj [(''$where'', JStr ''1'')]) = Some [(''$where'', JStr ''1'')]" "\<not> nullish (JObj [(''$where'', JStr ''1'')])"
    by simp_all
  have "d_params ?d = []" by code_simp
  then have u: "(\<exists>k \<in> fst ` set [(''$where'', JStr ''1'')]. k \<notin> set (map fst (d_params ?d)) \<and> k \<notin> {''network'', ''method'', ''params''})
      \<or> (\<exists>(key, s) \<in> set (d_params ?d). s_required s \<and> nullish (oget [(''$where'', JStr ''1'')] key) \<and> key \<notin> {''limit'', ''skip''})"
    by (simp only: list.map list.set) simp
  show ?thesis by (rule indexer_rejects_undeclared [OF p u])
qed

end
