(* ===== verification/RateLimiterSpec.thy ===== *)
theory RateLimiterSpec
  imports RateLimiter
begin

text \<open>
  What the rate limiter promises, stated without its tables: a verdict is a function of the
  charges a client has made (\<open>history\<close>), and the tables with their cleanup refine it.
\<close>

section \<open>The charge history\<close>

text \<open>
  A charge is its time and the window length in force. The newest charge comes first.
  \<open>window_after h\<close> is the number of charges in the window the newest charge belongs to, and the end of
  that window: a charge at or after the end of the window before it opens a new one.
\<close>

type_synonym charge = "int \<times> int"

fun window_after :: "charge list \<Rightarrow> (int \<times> int) option" where
  "window_after [] = None"
| "window_after ((t, w) # older) =
     (case window_after older of
        None \<Rightarrow> Some (1, t + w)
      | Some (n, until) \<Rightarrow> if until \<le> t then Some (1, t + w) else Some (n + 1, until))"

definition verdict :: "charge list \<Rightarrow> int \<Rightarrow> limit_window \<Rightarrow> rate_limit_error + unit" where
  "verdict h requests name =
     (case (h, window_after h) of
        ((now, _) # _, Some (n, until)) \<Rightarrow>
          if n \<le> requests then Inr ()
          else Inl \<lparr>r_limit = requests, r_current = n, r_retryAfter = retry_after until now, r_window = name\<rparr>
      | _ \<Rightarrow> Inr ())"

record history =
  minute_charges :: "string \<Rightarrow> charge list"
  hour_charges :: "string \<Rightarrow> charge list"
  h_requests :: int
  h_perHour :: "int option"
  h_window :: int
  h_enabled :: bool

definition charged :: "(string \<Rightarrow> charge list) \<Rightarrow> string \<Rightarrow> charge \<Rightarrow> (string \<Rightarrow> charge list)" where
  "charged log client c = log(client := c # log client)"

definition history_check :: "history \<Rightarrow> string \<Rightarrow> int \<Rightarrow> limiter_reply \<times> history" where
  "history_check H client now =
     (if \<not> h_enabled H then (Allowed, H)
      else
        let minute = charged (minute_charges H) client (now, h_window H);
            hour = charged (hour_charges H) client (now, hour_ms);
            H' = H\<lparr>minute_charges := minute\<rparr> in
        (case verdict (minute client) (h_requests H) Minute of
           Inl e \<Rightarrow> (Limited e, H')
         | Inr _ \<Rightarrow>
             (case h_perHour H of
                None \<Rightarrow> (Allowed, H')
              | Some perHour \<Rightarrow> (check_reply (verdict (hour client) perHour Hour), H'\<lparr>hour_charges := hour\<rparr>))))"

text \<open>
  Cleanup does not exist here, and a reset forgets the charges of one client. The settings
  that an update leaves behind are computed by the code on a limiter with empty tables.
\<close>

definition settings :: "history \<Rightarrow> limiter" where
  "settings H = \<lparr>limits = Map.empty, hourlyLimits = Map.empty, maxRequests = h_requests H,
     maxRequestsPerHour = h_perHour H, windowMs = h_window H, enabled = h_enabled H\<rparr>"

fun history_step :: "history \<Rightarrow> limiter_event \<Rightarrow> limiter_reply \<times> history" where
  "history_step H (Check now client) = history_check H client now"
| "history_step H (Reset client) = (Done, H\<lparr>minute_charges := (minute_charges H)(client := []), hour_charges := (hour_charges H)(client := [])\<rparr>)"
| "history_step H (Cleanup now) = (Done, H)"
| "history_step H (SetEnabled on) = (Done, H\<lparr>h_enabled := on\<rparr>)"
| "history_step H (Update a b c) =
     (case updateSettings (settings H) a b c of (r, l) \<Rightarrow>
        (update_reply r, H\<lparr>h_requests := maxRequests l, h_perHour := maxRequestsPerHour l, h_window := windowMs l\<rparr>))"

fun history_run :: "history \<Rightarrow> limiter_event list \<Rightarrow> limiter_reply list" where
  "history_run H [] = []"
| "history_run H (e # es) = (case history_step H e of (r, H') \<Rightarrow> r # history_run H' es)"

definition fresh_history :: "limiter \<Rightarrow> history" where
  "fresh_history l = \<lparr>minute_charges = (\<lambda>_. []), hour_charges = (\<lambda>_. []), h_requests = maxRequests l,
     h_perHour = maxRequestsPerHour l, h_window = windowMs l, h_enabled = enabled l\<rparr>"

section \<open>Simulation\<close>

text \<open>A table agrees with a history up to windows that ended by time \<open>t\<close>.\<close>

definition entry_agrees :: "int \<Rightarrow> limit_entry option \<Rightarrow> charge list \<Rightarrow> bool" where
  "entry_agrees t entry h \<longleftrightarrow>
     (case entry of
        Some e \<Rightarrow> window_after h = Some (e_count e, e_resetTime e)
      | None \<Rightarrow> (case window_after h of None \<Rightarrow> True | Some (n, until) \<Rightarrow> until \<le> t))"

definition agree :: "int \<Rightarrow> (string \<rightharpoonup> limit_entry) \<Rightarrow> (string \<Rightarrow> charge list) \<Rightarrow> bool" where
  "agree t m log \<longleftrightarrow> (\<forall>c. entry_agrees t (m c) (log c))"

lemma entry_agrees_later: "entry_agrees t e h \<Longrightarrow> t \<le> u \<Longrightarrow> entry_agrees u e h"
  by (auto simp: entry_agrees_def split: option.splits)

lemma agree_later: "agree t m log \<Longrightarrow> t \<le> u \<Longrightarrow> agree u m log"
  by (auto simp: agree_def intro: entry_agrees_later)

lemma agree_drop: "agree t m log \<Longrightarrow> t \<le> u \<Longrightarrow> agree u (drop_expired u m) log"
  unfolding agree_def drop_expired_def entry_agrees_def by (force split: option.splits)

lemma agree_update: "agree t m log \<Longrightarrow> entry_agrees t e h \<Longrightarrow> agree t (m(c := e)) (log(c := h))"
  by (simp add: agree_def)

lemma agree_reset: "agree t m log \<Longrightarrow> agree t (m(c := None)) (log(c := []))"
  by (rule agree_update) (simp_all add: entry_agrees_def)

lemma window_after_Cons: "\<exists>n until. window_after (c # h) = Some (n, until)"
  by (cases c; cases "window_after h") auto

lemma agree_consume:
  assumes "agree t m log" and "t \<le> now" and "consumeWindow m client requests w name now = (r, m')"
  shows "r = verdict (charged log client (now, w) client) requests name \<and> agree now m' (charged log client (now, w))"
proof -
  have c: "entry_agrees t (m client) (log client)" using assms(1) by (simp add: agree_def)
  obtain n until where w: "window_after ((now, w) # log client) = Some (n, until)"
    using window_after_Cons by blast
  have m': "m' = m(client \<mapsto> \<lparr>e_count = n, e_resetTime = until\<rparr>)"
    and r: "r = (if n \<le> requests then Inr ()
      else Inl \<lparr>r_limit = requests, r_current = n, r_retryAfter = retry_after until now, r_window = name\<rparr>)"
    using c w assms(2,3) by (auto simp: entry_agrees_def consumeWindow_def Let_def split: option.splits if_splits)
  have "agree now m log" using assms(1,2) by (rule agree_later)
  then have "agree now m' (charged log client (now, w))" using w unfolding m' charged_def
    by (intro agree_update) (simp_all add: entry_agrees_def)
  then show ?thesis using w by (simp add: r verdict_def charged_def)
qed

definition sim :: "int \<Rightarrow> limiter \<Rightarrow> history \<Rightarrow> bool" where
  "sim t l H \<longleftrightarrow> agree t (limits l) (minute_charges H) \<and> agree t (hourlyLimits l) (hour_charges H)
     \<and> maxRequests l = h_requests H \<and> maxRequestsPerHour l = h_perHour H \<and> windowMs l = h_window H \<and> enabled l = h_enabled H"

lemma sim_check:
  assumes s: "sim t l H" and "t \<le> now" and "checkLimit l client now = (r, l')" and "history_check H client now = (r', H')"
  shows "check_reply r = r' \<and> sim now l' H'"
proof (cases "enabled l")
  case False
  with assms show ?thesis by (auto simp: checkLimit_def history_check_def sim_def intro: agree_later)
next
  case True
  obtain rm m where m: "consumeWindow (limits l) client (maxRequests l) (windowMs l) Minute now = (rm, m)" by fastforce
  obtain rh h where h: "consumeWindow (hourlyLimits l) client (the (maxRequestsPerHour l)) hour_ms Hour now = (rh, h)" by fastforce
  from s have am: "agree t (limits l) (minute_charges H)" and ah: "agree t (hourlyLimits l) (hour_charges H)"
    by (simp_all add: sim_def)
  define vm where "vm = verdict (charged (minute_charges H) client (now, h_window H) client) (h_requests H) Minute"
  define vh where "vh perHour = verdict (charged (hour_charges H) client (now, hour_ms) client) perHour Hour" for perHour
  from s have same: "h_requests H = maxRequests l" "h_perHour H = maxRequestsPerHour l" "h_window H = windowMs l" "h_enabled H"
    using True by (simp_all add: sim_def)
  have minute: "rm = vm" "agree now m (charged (minute_charges H) client (now, h_window H))"
    using agree_consume [OF am assms(2) m] same by (simp_all add: vm_def)
  have hour: "rh = vh (the (maxRequestsPerHour l))" "agree now h (charged (hour_charges H) client (now, hour_ms))"
    using agree_consume [OF ah assms(2) h] by (simp_all add: vh_def)
  have ah': "agree now (hourlyLimits l) (hour_charges H)" using ah assms(2) by (rule agree_later)
  have H': "history_check H client now =
      (case vm of Inl e \<Rightarrow> (Limited e, H\<lparr>minute_charges := charged (minute_charges H) client (now, h_window H)\<rparr>)
       | Inr _ \<Rightarrow> (case h_perHour H of
           None \<Rightarrow> (Allowed, H\<lparr>minute_charges := charged (minute_charges H) client (now, h_window H)\<rparr>)
         | Some perHour \<Rightarrow> (check_reply (vh perHour), H\<lparr>minute_charges := charged (minute_charges H) client (now, h_window H),
             hour_charges := charged (hour_charges H) client (now, hour_ms)\<rparr>)))"
    using same(4) unfolding history_check_def Let_def vm_def vh_def by (simp only: simp_thms if_False)
  show ?thesis
    using assms(3,4) True m h minute hour ah' unfolding H'
    by (cases vm; cases "maxRequestsPerHour l") (auto simp: checkLimit_def sim_def same)
qed

lemma updateSettings_tables:
  assumes "updateSettings l a b c = (r, l')"
    and "maxRequests l = maxRequests k" "maxRequestsPerHour l = maxRequestsPerHour k" "windowMs l = windowMs k"
  shows "limits l' = limits l \<and> hourlyLimits l' = hourlyLimits l \<and> enabled l' = enabled l
    \<and> (\<exists>k'. updateSettings k a b c = (r, k') \<and> maxRequests l' = maxRequests k'
      \<and> maxRequestsPerHour l' = maxRequestsPerHour k' \<and> windowMs l' = windowMs k')"
  using assms by (auto simp: updateSettings_def Let_def split: sum.splits option.splits)

lemma sim_step:
  assumes s: "sim t l H" and "case event_time e of None \<Rightarrow> True | Some u \<Rightarrow> t \<le> u"
    and "limiter_step l e = (r, l')" and "history_step H e = (r', H')"
  shows "r = r' \<and> sim (case event_time e of None \<Rightarrow> t | Some u \<Rightarrow> u) l' H'"
proof (cases e)
  case (Check now client)
  with assms sim_check [OF s] show ?thesis by (auto split: prod.splits)
next
  case (Update a b c)
  obtain rl where u: "updateSettings l a b c = (rl, l')" "r = update_reply rl"
    using assms(3) Update by (auto split: prod.splits)
  from updateSettings_tables [OF u(1), of "settings H"] s assms(4) Update u(2) show ?thesis
    by (auto simp: sim_def settings_def)
qed (use assms in \<open>auto simp: sim_def cleanup_def resetLimit_def setEnabled_def intro: agree_drop agree_reset\<close>)

lemma sim_run: "sim t l H \<Longrightarrow> clock_from t es \<Longrightarrow> limiter_run l es = history_run H es"
proof (induction es arbitrary: t l H)
  case (Cons e es)
  obtain r l' r' H' where steps: "limiter_step l e = (r, l')" "history_step H e = (r', H')" by fastforce
  have clock: "case event_time e of None \<Rightarrow> True | Some u \<Rightarrow> t \<le> u"
    "clock_from (case event_time e of None \<Rightarrow> t | Some u \<Rightarrow> u) es"
    using Cons.prems(2) by (auto split: option.splits)
  from sim_step [OF Cons.prems(1) clock(1) steps] Cons.IH clock(2) steps show ?case by auto
qed simp

text \<open>
  C22: from a new limiter on, while the clock does not run backwards, every reply is the one the charge
  history determines: cleanup, however often it runs, changes no verdict, and no other state matters.
\<close>

theorem limiter_refines_history:
  assumes "new_limiter requests window on perHour = Inr l" and "clock_from t es"
  shows "limiter_run l es = history_run (fresh_history l) es"
proof (rule sim_run)
  show "sim t l (fresh_history l)"
    using assms(1) by (auto simp: new_limiter_def result_simps sim_def fresh_history_def agree_def entry_agrees_def)
qed (rule assms(2))

lemma limiter_refines_history_witness:
  "limiter_run \<lparr>limits = Map.empty, hourlyLimits = Map.empty, maxRequests = 1, maxRequestsPerHour = None, windowMs = 5, enabled = True\<rparr>
       [Check 0 ''a'', Check 4 ''a'', Cleanup 5, Check 5 ''a'']
     = history_run \<lparr>minute_charges = (\<lambda>_. []), hour_charges = (\<lambda>_. []), h_requests = 1, h_perHour = None, h_window = 5, h_enabled = True\<rparr>
       [Check 0 ''a'', Check 4 ''a'', Cleanup 5, Check 5 ''a'']"
proof -
  have n: "new_limiter (NInt 1) (NInt 5) True None =
    Inr \<lparr>limits = Map.empty, hourlyLimits = Map.empty, maxRequests = 1, maxRequestsPerHour = None, windowMs = 5, enabled = True\<rparr>"
    by (simp add: new_limiter_def assertPositiveInteger_def maxSafeInteger_def)
  show ?thesis
    using limiter_refines_history [OF n, of 0 "[Check 0 ''a'', Check 4 ''a'', Cleanup 5, Check 5 ''a'']"]
    by (simp add: fresh_history_def)
qed

section \<open>How many requests pass\<close>

text \<open>The requests of a client that were let through at a time from \<open>a\<close> to before \<open>b\<close>.\<close>

fun hit :: "int \<Rightarrow> int \<Rightarrow> string \<Rightarrow> limiter_event \<Rightarrow> limiter_reply \<Rightarrow> int" where
  "hit a b client (Check now c) Allowed = (if c = client \<and> a \<le> now \<and> now < b then 1 else 0)"
| "hit a b client _ _ = 0"

fun passed :: "int \<Rightarrow> int \<Rightarrow> string \<Rightarrow> limiter_event list \<Rightarrow> limiter_reply list \<Rightarrow> int" where
  "passed a b client (e # es) (r # rs) = hit a b client e r + passed a b client es rs"
| "passed a b client _ _ = 0"

fun traffic :: "limiter_event \<Rightarrow> bool" where
  "traffic (Check _ _) = True"
| "traffic (Cleanup _) = True"
| "traffic _ = False"

lemma traffic_time: "traffic e \<Longrightarrow> \<exists>t. event_time e = Some t"
  by (cases e) auto

lemma hit_outside: "event_time e = Some t \<Longrightarrow> t < a \<or> b \<le> t \<Longrightarrow> hit a b client e r = 0"
  by (cases e; cases r) auto

lemma passed_later: "b \<le> t \<Longrightarrow> list_all traffic es \<Longrightarrow> clock_from t es \<Longrightarrow> passed a b client es rs = 0"
proof (induction es arbitrary: t rs)
  case (Cons e es)
  from Cons.prems obtain u where u: "event_time e = Some u" "t \<le> u" "clock_from u es" using traffic_time [of e] by auto
  with Cons.prems have "passed a b client es rs' = 0" for rs' by (intro Cons.IH [of u]) auto
  with u Cons.prems show ?case by (cases rs) (auto simp: hit_outside)
qed simp

text \<open>A potential that every passed request of the interval decreases bounds their number.\<close>

lemma passed_potential:
  fixes \<phi> :: "limiter \<Rightarrow> int"
  assumes I: "\<And>l e r l'. I l \<Longrightarrow> traffic e \<Longrightarrow> limiter_step l e = (r, l') \<Longrightarrow> I l'"
    and dec: "\<And>l e t r l'. I l \<Longrightarrow> traffic e \<Longrightarrow> event_time e = Some t \<Longrightarrow> a \<le> t \<Longrightarrow> t < b \<Longrightarrow> limiter_step l e = (r, l')
      \<Longrightarrow> \<phi> l' + hit a b client e r \<le> \<phi> l"
    and pos: "\<And>l. I l \<Longrightarrow> 0 \<le> \<phi> l \<and> \<phi> l \<le> B"
  shows "I l \<Longrightarrow> list_all traffic es \<Longrightarrow> clock_from t es \<Longrightarrow> passed a b client es (limiter_run l es) \<le> (if a \<le> t then \<phi> l else B)"
proof (induction es arbitrary: l t)
  case Nil
  with pos [of l] show ?case by auto
next
  case (Cons e es)
  obtain r l' where s: "limiter_step l e = (r, l')" by fastforce
  from Cons.prems traffic_time [of e] obtain u where u: "event_time e = Some u" "t \<le> u" "clock_from u es" "traffic e" "list_all traffic es" by auto
  have il: "I l'" using I Cons.prems(1) u(4) s by blast
  from Cons.IH [OF il u(5) u(3)] have ih: "passed a b client es (limiter_run l' es) \<le> (if a \<le> u then \<phi> l' else B)" .
  consider "u < a" | "a \<le> u" "u < b" | "a \<le> u" "b \<le> u" by linarith
  then show ?case
  proof cases
    case 1
    then show ?thesis using u ih s hit_outside [OF u(1)] by simp
  next
    case 2
    then show ?thesis using dec [OF Cons.prems(1) u(4) u(1) 2 s] ih s pos [OF Cons.prems(1)] by auto
  next
    case 3
    then show ?thesis using u s hit_outside [OF u(1)] passed_later [OF 3(2) u(5) u(3)] pos [OF Cons.prems(1)] by auto
  qed
qed

text \<open>
  The room of a client for an interval of one window length: what its window leaves, and a full
  window more when the window ends within the interval.
\<close>

definition room :: "int \<Rightarrow> int \<Rightarrow> limit_entry option \<Rightarrow> int" where
  "room requests b entry =
     (case entry of
        None \<Rightarrow> requests
      | Some e \<Rightarrow> max 0 (requests - e_count e) + (if b \<le> e_resetTime e then 0 else requests))"

definition counted :: "(string \<rightharpoonup> limit_entry) \<Rightarrow> bool" where
  "counted m \<longleftrightarrow> (\<forall>c e. m c = Some e \<longrightarrow> 1 \<le> e_count e)"

lemma room_bounds: "counted m \<Longrightarrow> 0 < requests \<Longrightarrow> 0 \<le> room requests b (m c) \<and> room requests b (m c) \<le> 2 * requests - 1"
proof (cases "m c")
  case (Some e)
  assume "counted m" "0 < requests"
  with Some have "1 \<le> e_count e" by (auto simp: counted_def)
  with Some \<open>0 < requests\<close> show ?thesis by (simp add: room_def)
qed (simp add: room_def)

lemma consume_counted: "counted m \<Longrightarrow> consumeWindow m client requests w name now = (r, m') \<Longrightarrow> counted m'"
proof (cases "m client")
  case (Some e)
  assume m: "counted m" "consumeWindow m client requests w name now = (r, m')"
  with Some have "0 \<le> e_count e" by (force simp: counted_def)
  with m Some show ?thesis by (auto simp: consumeWindow_def counted_def Let_def split: if_splits)
qed (auto simp: consumeWindow_def counted_def Let_def split: if_splits)

lemma consume_room:
  assumes "consumeWindow m client requests w name now = (r, m')" and "a \<le> now" and "now < a + w" and "0 < requests"
  shows "room requests (a + w) (m' c) + (if r = Inr () \<and> client = c then 1 else 0) \<le> room requests (a + w) (m c)"
proof (cases "client = c")
  case True
  with assms show ?thesis
    by (cases "m c") (auto simp: consumeWindow_def room_def Let_def split: if_splits)
next
  case False
  with assms(1) show ?thesis by (auto simp: consumeWindow_def Let_def)
qed

lemma cleanup_room: "now < b \<Longrightarrow> room requests b (drop_expired now m c) \<le> room requests b (m c)"
  by (auto simp: drop_expired_def room_def split: option.splits)

lemma cleanup_counted: "counted m \<Longrightarrow> counted (drop_expired now m)"
  by (auto simp: drop_expired_def counted_def split: option.splits if_splits)

definition running :: "limiter \<Rightarrow> limiter \<Rightarrow> bool" where
  "running l0 l \<longleftrightarrow> enabled l \<and> counted (limits l) \<and> counted (hourlyLimits l) \<and> maxRequests l = maxRequests l0
     \<and> windowMs l = windowMs l0 \<and> maxRequestsPerHour l = maxRequestsPerHour l0"

lemma check_cases:
  assumes "running l0 l" and "limiter_step l (Check now client) = (r, l')"
  obtains rm m where "consumeWindow (limits l) client (maxRequests l0) (windowMs l0) Minute now = (rm, m)" "limits l' = m"
    "running l0 l'" "r = Allowed \<Longrightarrow> rm = Inr ()"
    "\<And>perHour. maxRequestsPerHour l0 = Some perHour \<Longrightarrow>
      (hourlyLimits l' = hourlyLimits l \<and> r \<noteq> Allowed)
      \<or> (\<exists>rh. consumeWindow (hourlyLimits l) client perHour hour_ms Hour now = (rh, hourlyLimits l') \<and> (r = Allowed \<longrightarrow> rh = Inr ()))"
proof -
  have ok: "check_reply x = Allowed \<Longrightarrow> x = Inr ()" for x by (cases x) auto
  obtain rm m where m: "consumeWindow (limits l) client (maxRequests l0) (windowMs l0) Minute now = (rm, m)" by fastforce
  have mc: "counted m" using consume_counted [OF _ m] assms(1) by (simp add: running_def)
  show thesis
  proof (rule that [OF m])
    show "limits l' = m" using assms m by (auto simp: checkLimit_def running_def split: sum.splits option.splits prod.splits)
    show "running l0 l'" using assms m mc
      by (auto simp: checkLimit_def running_def dest: consume_counted split: sum.splits option.splits prod.splits)
    show "r = Allowed \<Longrightarrow> rm = Inr ()" using assms m
      by (auto simp: checkLimit_def running_def split: sum.splits option.splits prod.splits)
    show "(hourlyLimits l' = hourlyLimits l \<and> r \<noteq> Allowed)
      \<or> (\<exists>rh. consumeWindow (hourlyLimits l) client perHour hour_ms Hour now = (rh, hourlyLimits l') \<and> (r = Allowed \<longrightarrow> rh = Inr ()))"
      if "maxRequestsPerHour l0 = Some perHour" for perHour
      using assms m that by (auto simp: checkLimit_def running_def dest: ok split: sum.splits option.splits prod.splits)
  qed
qed

lemma running_step: "running l0 l \<Longrightarrow> traffic e \<Longrightarrow> limiter_step l e = (r, l') \<Longrightarrow> running l0 l'"
proof (cases e)
  case (Check now client)
  assume "running l0 l" "limiter_step l e = (r, l')"
  with Check show ?thesis using check_cases by metis
qed (auto simp: cleanup_def running_def cleanup_counted)

lemma hit_le: "hit a b c (Check now client) r \<le> (if r = Allowed \<and> client = c then 1 else 0)"
  by (cases r) auto

lemma minute_room_step:
  assumes "running l0 l" and "0 < maxRequests l0" and "traffic e" and "event_time e = Some t" and "a \<le> t" and "t < a + windowMs l0"
    and "limiter_step l e = (r, l')"
  shows "room (maxRequests l0) (a + windowMs l0) (limits l' c) + hit a (a + windowMs l0) c e r \<le> room (maxRequests l0) (a + windowMs l0) (limits l c)"
proof (cases e)
  case (Check now client)
  from check_cases [OF assms(1) assms(7) [unfolded Check]] obtain rm m where
    m: "consumeWindow (limits l) client (maxRequests l0) (windowMs l0) Minute now = (rm, m)" "limits l' = m" "r = Allowed \<Longrightarrow> rm = Inr ()" by metis
  from consume_room [OF m(1), of a c] assms Check m hit_le [of a "a + windowMs l0" c now client r] show ?thesis
    by (auto split: if_splits)
qed (use assms cleanup_room in \<open>auto simp: cleanup_def\<close>)

lemma hour_room_step:
  assumes "running l0 l" and "maxRequestsPerHour l0 = Some h" and "0 < h" and "traffic e" and "event_time e = Some t" and "a \<le> t" and "t < a + hour_ms"
    and "limiter_step l e = (r, l')"
  shows "room h (a + hour_ms) (hourlyLimits l' c) + hit a (a + hour_ms) c e r \<le> room h (a + hour_ms) (hourlyLimits l c)"
proof (cases e)
  case (Check now client)
  have hl: "hit a (a + hour_ms) c e r \<le> (if r = Allowed \<and> client = c then 1 else 0)" using hit_le Check by simp
  from check_cases [OF assms(1) assms(8) [unfolded Check]] assms(2) have
    "(hourlyLimits l' = hourlyLimits l \<and> r \<noteq> Allowed)
      \<or> (\<exists>rh. consumeWindow (hourlyLimits l) client h hour_ms Hour now = (rh, hourlyLimits l') \<and> (r = Allowed \<longrightarrow> rh = Inr ()))" by metis
  then show ?thesis
  proof
    assume "hourlyLimits l' = hourlyLimits l \<and> r \<noteq> Allowed"
    with hl show ?thesis by simp
  next
    assume "\<exists>rh. consumeWindow (hourlyLimits l) client h hour_ms Hour now = (rh, hourlyLimits l') \<and> (r = Allowed \<longrightarrow> rh = Inr ())"
    then obtain rh where "consumeWindow (hourlyLimits l) client h hour_ms Hour now = (rh, hourlyLimits l')" "r = Allowed \<longrightarrow> rh = Inr ()" by blast
    with consume_room [of "hourlyLimits l" client h hour_ms Hour now rh "hourlyLimits l'" a c] assms Check hl show ?thesis
      by (auto split: if_splits)
  qed
qed (use assms cleanup_room in \<open>auto simp: cleanup_def\<close>)

text \<open>
  C23: with unchanged settings, an interval as long as the window lets fewer requests of a client through
  than twice the limit, and an hour fewer than twice the hourly limit. The limit itself can be
  exceeded across a window's end, as the witness shows: three requests in five milliseconds at a limit of two.
\<close>

theorem limiter_bounds:
  assumes "new_limiter requests window True perHour = Inr l" and "list_all traffic es" and "clock_from t es"
  shows "passed a (a + windowMs l) client es (limiter_run l es) \<le> 2 * maxRequests l - 1
    \<and> (case maxRequestsPerHour l of None \<Rightarrow> True
       | Some h \<Rightarrow> passed a (a + hour_ms) client es (limiter_run l es) \<le> 2 * h - 1)"
proof -
  from assms(1) have run: "running l l" and m: "0 < maxRequests l" and hp: "\<And>h. maxRequestsPerHour l = Some h \<Longrightarrow> 0 < h"
    by (auto simp: new_limiter_def result_simps running_def counted_def assertPositiveInteger_def
      elim!: assertOptional.elims split: jsnum.splits if_splits)
  have "passed a (a + windowMs l) client es (limiter_run l es)
      \<le> (if a \<le> t then room (maxRequests l) (a + windowMs l) (limits l client) else 2 * maxRequests l - 1)"
  proof (rule passed_potential [where I = "running l" and \<phi> = "\<lambda>k. room (maxRequests l) (a + windowMs l) (limits k client)"])
    show "0 \<le> room (maxRequests l) (a + windowMs l) (limits k client) \<and> room (maxRequests l) (a + windowMs l) (limits k client) \<le> 2 * maxRequests l - 1"
      if "running l k" for k using that m by (intro room_bounds) (simp_all add: running_def)
  qed (use running_step minute_room_step [OF _ m] run assms in \<open>blast+\<close>)
  moreover have "room (maxRequests l) (a + windowMs l) (limits l client) \<le> 2 * maxRequests l - 1"
    using room_bounds run m by (simp add: running_def)
  moreover have "passed a (a + hour_ms) client es (limiter_run l es) \<le> 2 * h - 1" if h: "maxRequestsPerHour l = Some h" for h
  proof -
    have "passed a (a + hour_ms) client es (limiter_run l es)
        \<le> (if a \<le> t then room h (a + hour_ms) (hourlyLimits l client) else 2 * h - 1)"
    proof (rule passed_potential [where I = "running l" and \<phi> = "\<lambda>k. room h (a + hour_ms) (hourlyLimits k client)"])
      show "0 \<le> room h (a + hour_ms) (hourlyLimits k client) \<and> room h (a + hour_ms) (hourlyLimits k client) \<le> 2 * h - 1"
        if "running l k" for k using that hp [OF h] by (intro room_bounds) (simp_all add: running_def)
    qed (use running_step hour_room_step [OF _ h hp [OF h]] run assms in \<open>blast+\<close>)
    moreover have "room h (a + hour_ms) (hourlyLimits l client) \<le> 2 * h - 1"
      using room_bounds run hp [OF h] by (simp add: running_def)
    ultimately show ?thesis by (auto split: if_splits)
  qed
  ultimately show ?thesis by (auto split: if_splits option.splits)
qed

lemma limiter_bounds_witness:
  "passed 4 9 ''a'' [Check 0 ''a'', Check 4 ''a'', Check 5 ''a'', Cleanup 6, Check 8 ''a'', Check 8 ''a'']
     [Allowed, Allowed, Allowed, Done, Allowed, Limited \<lparr>r_limit = 2, r_current = 3, r_retryAfter = 1, r_window = Minute\<rparr>] = 3
   \<and> (3 :: int) \<le> 2 * 2 - 1"
proof -
  define l where "l = \<lparr>limits = Map.empty, hourlyLimits = Map.empty, maxRequests = 2, maxRequestsPerHour = None, windowMs = 5, enabled = True\<rparr>"
  define es where "es = [Check 0 ''a'', Check 4 ''a'', Check 5 ''a'', Cleanup 6, Check 8 ''a'', Check 8 ''a'']"
  have n: "new_limiter (NInt 2) (NInt 5) True None = Inr l"
    by (simp add: new_limiter_def assertPositiveInteger_def maxSafeInteger_def l_def)
  have "limiter_run l es =
    [Allowed, Allowed, Allowed, Done, Allowed, Limited \<lparr>r_limit = 2, r_current = 3, r_retryAfter = 1, r_window = Minute\<rparr>]"
    by (simp add: l_def es_def checkLimit_def consumeWindow_def Let_def cleanup_def drop_expired_def retry_after_def)
  with limiter_bounds [OF n, of es 0 4 "''a''"] show ?thesis by (simp add: l_def es_def)
qed

end
