(* ===== verification/Logger.thy ===== *)
theory Logger
  imports Json EvmAbi
begin

text \<open>
  src/utils/logger.ts: what a log line shows (redaction of secrets in texts and in nested values), which lines are
  written, and the rotation of the log file. The origin of a URL (\<open>new URL(v).origin\<close>) is a parameter, \<open>None\<close> when
  parsing throws. Logged values are trees, so the check for repeated objects never fires. Of the file system only the
  slots of the log exist: slot 0 is the log file, slot \<open>i\<close> the file with suffix \<open>.i\<close>.

  The main results: no WIF and no value of a sensitive key reaches a line (\<open>log_lines_redacted\<close>), and
  rotation loses nothing but the oldest file, even when a rename fails (\<open>rotation_keeps\<close>).
\<close>

section \<open>Texts\<close>

definition REDACTED :: string where "REDACTED = ''[REDACTED]''"

definition sanitizeUrl :: "(string \<Rightarrow> string option) \<Rightarrow> string \<Rightarrow> string" where
  "sanitizeUrl origin v = (case origin v of Some r \<Rightarrow> r | None \<Rightarrow> REDACTED)"

text \<open>\<open>/https?:\/\/[^\s"'<>]+/gi\<close>: the length of the scheme, and the characters that continue a URL.\<close>

definition scheme_length :: "string \<Rightarrow> nat option" where
  "scheme_length s =
     (if starts_with (to_lower (take 8 s)) ''https://'' then Some 8
      else if starts_with (to_lower (take 7 s)) ''http://'' then Some 7 else None)"

definition url_char :: "char \<Rightarrow> bool" where
  "url_char c \<longleftrightarrow> \<not> is_ws c \<and> cc c \<notin> {34, 39, 60, 62}"

definition url_prefix :: "string \<Rightarrow> nat" where
  "url_prefix s =
     (case scheme_length s of
        Some n \<Rightarrow> (let k = length (takeWhile url_char (drop n s)) in if k = 0 then 0 else n + k)
      | None \<Rightarrow> 0)"

function replace_urls :: "(string \<Rightarrow> string) \<Rightarrow> string \<Rightarrow> string" where
  "replace_urls rep [] = []"
| "replace_urls rep (c # cs) =
     (if url_prefix (c # cs) = 0 then c # replace_urls rep cs
      else rep (take (url_prefix (c # cs)) (c # cs)) @ replace_urls rep (drop (url_prefix (c # cs)) (c # cs)))"
  by pat_completeness auto
termination by (relation "measure (\<lambda>(rep, s). length s)") auto

text \<open>
  \<open>WIF_TEXT_PATTERN\<close>: K or L and 51 more Base58 characters, with no Base58 character before (\<open>p\<close> tells whether the
  previous character was one) or after.
\<close>

definition wif_at :: "string \<Rightarrow> bool" where
  "wif_at s \<longleftrightarrow> s \<noteq> [] \<and> hd s \<in> {CHR ''K'', CHR ''L''} \<and> 52 \<le> length s \<and> list_all base58_char (take 52 s)
     \<and> (drop 52 s = [] \<or> \<not> base58_char (hd (drop 52 s)))"

function redact_wif :: "bool \<Rightarrow> string \<Rightarrow> string" where
  "redact_wif p [] = []"
| "redact_wif p (c # cs) =
     (if \<not> p \<and> wif_at (c # cs) then REDACTED @ redact_wif True (drop 51 cs) else c # redact_wif (base58_char c) cs)"
  by pat_completeness auto
termination by (relation "measure (\<lambda>(p, s). length s)") auto

definition sanitizeText :: "(string \<Rightarrow> string option) \<Rightarrow> string \<Rightarrow> string" where
  "sanitizeText origin v = redact_wif False (replace_urls (sanitizeUrl origin) v)"

section \<open>Values\<close>

definition ends_with :: "string \<Rightarrow> string \<Rightarrow> bool" where
  "ends_with s w \<longleftrightarrow> starts_with (rev s) (rev w)"

definition sensitive_words :: "string list" where
  "sensitive_words = [''arg'', ''args'', ''argument'', ''arguments'', ''authorization'', ''apikey'', ''api_key'', ''password'',
     ''privatekey'', ''private_key'', ''secret'', ''token'', ''wif'']"

definition word_at :: "string \<Rightarrow> bool" where
  "word_at s \<longleftrightarrow> list_ex (\<lambda>w. starts_with s w \<and> (length s = length w \<or> s ! length w = CHR ''_'')) sensitive_words"

text \<open>\<open>SENSITIVE_CONTEXT_KEY\<close>: a word between underscores or the ends of the key.\<close>

fun word_in :: "bool \<Rightarrow> string \<Rightarrow> bool" where
  "word_in start [] = False"
| "word_in start (c # cs) = (start \<and> word_at (c # cs) \<or> word_in (c = CHR ''_'') cs)"

definition SENSITIVE_SUFFIXES :: "string list" where
  "SENSITIVE_SUFFIXES = [''authorization'', ''apikey'', ''password'', ''privatekey'', ''secret'', ''accesstoken'', ''bearertoken'', ''wif'']"

definition sensitive_key :: "string \<Rightarrow> bool" where
  "sensitive_key k \<longleftrightarrow> word_in True (to_lower k) \<or> list_ex (ends_with (to_lower k)) SENSITIVE_SUFFIXES"

definition url_key :: "string \<Rightarrow> bool" where
  "url_key k \<longleftrightarrow> list_ex (ends_with (to_lower k)) [''url'', ''uri'', ''endpoint'', ''rpcaddress'']"

fun sanitizeLogValue :: "(string \<Rightarrow> string option) \<Rightarrow> jsval \<Rightarrow> string \<Rightarrow> jsval" where
  "sanitizeLogValue origin (JStr s) key =
     (if sensitive_key key then JStr REDACTED
      else JStr (if url_key key then sanitizeUrl origin s else sanitizeText origin s))"
| "sanitizeLogValue origin (JArr vs) key =
     (if sensitive_key key then JStr REDACTED else JArr (map (\<lambda>v. sanitizeLogValue origin v []) vs))"
| "sanitizeLogValue origin (JObj kvs) key =
     (if sensitive_key key then JStr REDACTED else JObj (map (\<lambda>(k, v). (k, sanitizeLogValue origin v k)) kvs))"
| "sanitizeLogValue origin (JInst kvs) key =
     (if sensitive_key key then JStr REDACTED else JObj (map (\<lambda>(k, v). (k, sanitizeLogValue origin v k)) kvs))"
| "sanitizeLogValue origin (JToJson kvs r) key =
     (if sensitive_key key then JStr REDACTED else JObj (map (\<lambda>(k, v). (k, sanitizeLogValue origin v k)) kvs))"
| "sanitizeLogValue origin (JBytes bs) key =
     (if sensitive_key key then JStr REDACTED else JObj (map (\<lambda>(k, b). (k, JNum (NInt (int b)))) (bytes_obj 0 bs)))"
| "sanitizeLogValue origin JRegExp key = (if sensitive_key key then JStr REDACTED else JObj [])"
| "sanitizeLogValue origin v key = (if sensitive_key key then JStr REDACTED else v)"

definition sanitizeContext :: "(string \<Rightarrow> string option) \<Rightarrow> jsobj \<Rightarrow> jsobj" where
  "sanitizeContext origin context = map (\<lambda>(k, v). (k, sanitizeLogValue origin v k)) context"

section \<open>Levels, lines and the stream\<close>

datatype log_level = DEBUG | INFO | WARN | ERROR

fun level_number :: "log_level \<Rightarrow> nat" where
  "level_number DEBUG = 0" | "level_number INFO = 1" | "level_number WARN = 2" | "level_number ERROR = 3"

fun level_name :: "log_level \<Rightarrow> string" where
  "level_name DEBUG = ''DEBUG''" | "level_name INFO = ''INFO''" | "level_name WARN = ''WARN''" | "level_name ERROR = ''ERROR''"

definition stringToLogLevel :: "string \<Rightarrow> log_level" where
  "stringToLogLevel level =
     (let l = to_lower (if level = [] then ''info'' else level) in
      if l = ''debug'' then DEBUG else if l = ''info'' then INFO else if l = ''warn'' then WARN
      else if l = ''error'' then ERROR else INFO)"

text \<open>\<open>JSON.stringify\<close> of the context\<close>

definition context_text :: "jsval \<Rightarrow> string result" where
  "context_text v = bindR (jsonRoundTrip v) (\<lambda>r. Inr (case r of Some w \<Rightarrow> jprint w | None \<Rightarrow> ''undefined''))"

definition formatMessage ::
    "(string \<Rightarrow> string option) \<Rightarrow> string \<Rightarrow> string \<Rightarrow> string \<Rightarrow> jsobj option \<Rightarrow> string result" where
  "formatMessage origin timestamp level message context =
     bindR (case context of None \<Rightarrow> Inr [] | Some c \<Rightarrow> bindR (context_text (JObj (sanitizeContext origin c))) (\<lambda>t. Inr ('' '' @ t)))
       (\<lambda>contextStr. Inr (''['' @ timestamp @ ''] ['' @ level @ ''] '' @ sanitizeText origin message @ contextStr))"

section \<open>Rotation\<close>

definition MAX_LOG_SIZE :: nat where "MAX_LOG_SIZE = 10 * 1024 * 1024"

definition MAX_LOG_FILES :: nat where "MAX_LOG_FILES = 3"

type_synonym slots = "nat \<Rightarrow> string option"

text \<open>
  The renames from the last slot down to the log itself; \<open>fault i\<close> tells that the rename of slot \<open>i\<close> throws, which ends
  the rotation.
\<close>

fun cascade :: "(nat \<Rightarrow> bool) \<Rightarrow> nat \<Rightarrow> slots \<Rightarrow> slots \<times> bool" where
  "cascade fault 0 fs = (fs, True)"
| "cascade fault (Suc i) fs =
     (case fs i of
        None \<Rightarrow> cascade fault i fs
      | Some x \<Rightarrow> if fault i then (fs, False) else cascade fault i (fs(Suc i := Some x, i := None)))"

definition rotateLogFile :: "(nat \<Rightarrow> bool) \<Rightarrow> nat \<Rightarrow> nat \<Rightarrow> slots \<Rightarrow> slots" where
  "rotateLogFile fault maxSize maxFiles fs =
     (case fs 0 of
        None \<Rightarrow> fs
      | Some x \<Rightarrow>
          if length (utf8_bytes x) < maxSize then fs
          else (case cascade fault maxFiles fs of
                  (fs', True) \<Rightarrow> fs'(Suc maxFiles := None)
                | (fs', False) \<Rightarrow> fs'))"

record logger =
  lg_level :: log_level
  lg_console :: bool
  lg_toFile :: bool
  lg_stream :: bool
  lg_writes :: nat
  lg_slots :: slots
  lg_stderr :: "string list"

text \<open>\<open>log\<close>: a write to the stream appends to slot 0, creating it; after every hundredth write the log is rotated
  and, when it is gone, opened anew.\<close>

definition append_line :: "string \<Rightarrow> slots \<Rightarrow> slots" where
  "append_line line fs = fs(0 := Some ((case fs 0 of Some x \<Rightarrow> x | None \<Rightarrow> []) @ line @ [CHR 0x0A]))"

definition log_line ::
    "(string \<Rightarrow> string option) \<Rightarrow> (nat \<Rightarrow> bool) \<Rightarrow> string \<Rightarrow> log_level \<Rightarrow> string \<Rightarrow> jsobj option \<Rightarrow> logger \<Rightarrow> logger result" where
  "log_line origin fault timestamp level message context lg =
     (if level_number level < level_number (lg_level lg) then Inr lg
      else bindR (formatMessage origin timestamp (level_name level) message context) (\<lambda>line.
        let shown = (if lg_console lg then lg\<lparr>lg_stderr := lg_stderr lg @ [line]\<rparr> else lg) in
        if \<not> (lg_toFile lg \<and> lg_stream lg) then Inr shown
        else
          let written = append_line line (lg_slots lg); n = Suc (lg_writes lg) in
          if n mod 100 = 0
          then (let rotated = rotateLogFile fault MAX_LOG_SIZE MAX_LOG_FILES written in
            Inr (shown\<lparr>lg_writes := n, lg_slots := (if rotated 0 = None then rotated(0 := Some []) else rotated)\<rparr>))
          else Inr (shown\<lparr>lg_writes := n, lg_slots := written\<rparr>)))"

definition close_logger :: "logger \<Rightarrow> logger" where
  "close_logger lg = lg\<lparr>lg_stream := False\<rparr>"

section \<open>No secret in a line\<close>

text \<open>A WIF in a text: a whole run of 52 Base58 characters that begins with K or L.\<close>

definition shows_wif :: "string \<Rightarrow> bool" where
  "shows_wif t \<longleftrightarrow> (\<exists>a w b. t = a @ w @ b \<and> length w = 52 \<and> hd w \<in> {CHR ''K'', CHR ''L''} \<and> list_all base58_char w
     \<and> (a = [] \<or> \<not> base58_char (last a)) \<and> (b = [] \<or> \<not> base58_char (hd b)))"

fun wif_free :: "bool \<Rightarrow> string \<Rightarrow> bool" where
  "wif_free p [] = True"
| "wif_free p (c # cs) = ((p \<or> \<not> wif_at (c # cs)) \<and> wif_free (base58_char c) cs)"

lemma wif_at_run: "wif_at s \<longleftrightarrow> s \<noteq> [] \<and> hd s \<in> {CHR ''K'', CHR ''L''} \<and> length (takeWhile base58_char s) = 52"
proof -
  have "52 \<le> length s \<and> list_all base58_char (take 52 s) \<and> (drop 52 s = [] \<or> \<not> base58_char (hd (drop 52 s)))
      \<longleftrightarrow> length (takeWhile base58_char s) = 52"
  proof
    assume a: "52 \<le> length s \<and> list_all base58_char (take 52 s) \<and> (drop 52 s = [] \<or> \<not> base58_char (hd (drop 52 s)))"
    then have "takeWhile base58_char (take 52 s @ drop 52 s) = take 52 s @ takeWhile base58_char (drop 52 s)"
      by (intro takeWhile_append2) (auto simp: list_all_iff)
    moreover from a have "takeWhile base58_char (drop 52 s) = []" by (cases "drop 52 s") auto
    ultimately have "takeWhile base58_char s = take 52 s" by simp
    with a show "length (takeWhile base58_char s) = 52" by simp
  next
    assume l: "length (takeWhile base58_char s) = 52"
    then have t: "take 52 s = takeWhile base58_char s" "drop 52 s = dropWhile base58_char s"
      by (metis takeWhile_eq_take, metis dropWhile_eq_drop)
    have "52 \<le> length s" using l length_takeWhile_le [of base58_char s] by simp
    then show "52 \<le> length s \<and> list_all base58_char (take 52 s) \<and> (drop 52 s = [] \<or> \<not> base58_char (hd (drop 52 s)))"
      unfolding t using hd_dropWhile [of base58_char s] by (auto simp: list_all_iff dest: set_takeWhileD)
  qed
  then show ?thesis unfolding wif_at_def by blast
qed

lemma redact_run: "takeWhile base58_char (redact_wif True s) = takeWhile base58_char s"
  by (induction "True" s rule: redact_wif.induct) auto

lemma redact_true_false: "(s = [] \<or> \<not> base58_char (hd s)) \<Longrightarrow> redact_wif False s = redact_wif True s"
proof -
  assume a: "s = [] \<or> \<not> base58_char (hd s)"
  have "\<not> wif_at s" using a by (cases s) (auto simp: wif_at_run)
  then show ?thesis by (cases s) auto
qed

lemma redact_at: "\<not> wif_at (c # cs) \<or> p \<Longrightarrow> base58_char c \<Longrightarrow> wif_at (c # redact_wif (base58_char c) cs) \<longleftrightarrow> wif_at (c # cs)"
  by (simp add: wif_at_run redact_run)

lemma wif_free_redacted: "wif_free False s \<Longrightarrow> wif_free p (REDACTED @ s)"
proof -
  have b: "base58_char (CHR ''R'')" "base58_char (CHR ''E'')" "base58_char (CHR ''D'')" "base58_char (CHR ''A'')"
    "base58_char (CHR ''C'')" "base58_char (CHR ''T'')" "\<not> base58_char (CHR ''['')" "\<not> base58_char (CHR '']'')"
    by code_simp+
  assume "wif_free False s"
  with b show ?thesis by (simp add: REDACTED_def wif_at_def)
qed

lemma redact_free: "wif_free p (redact_wif p s)"
proof (induction p s rule: redact_wif.induct)
  case (2 p c cs)
  show ?case
  proof (cases "\<not> p \<and> wif_at (c # cs)")
    case True
    then have "drop 51 cs = [] \<or> \<not> base58_char (hd (drop 51 cs))" by (simp add: wif_at_def)
    then have "redact_wif True (drop 51 cs) = redact_wif False (drop 51 cs)" by (rule redact_true_false [symmetric])
    moreover have "wif_free True (redact_wif True (drop 51 cs))" using 2(1) [OF True] .
    ultimately have "wif_free False (redact_wif True (drop 51 cs))"
      using \<open>drop 51 cs = [] \<or> \<not> base58_char (hd (drop 51 cs))\<close>
      by (cases "drop 51 cs") (auto simp: wif_at_run)
    with True show ?thesis by (simp add: wif_free_redacted)
  next
    case False
    then have "p \<or> \<not> wif_at (c # redact_wif (base58_char c) cs)"
      by (cases "base58_char c") (auto simp: wif_at_run redact_run)
    with 2(2) [OF False] False show ?thesis by auto
  qed
qed simp

lemma wif_free_suffix: "wif_free p (a @ s) \<Longrightarrow> wif_free (if a = [] then p else base58_char (last a)) s"
  by (induction a arbitrary: p) (auto split: if_splits)

lemma wif_free_shows: "wif_free False t \<Longrightarrow> \<not> shows_wif t"
proof
  assume f: "wif_free False t" and "shows_wif t"
  then obtain a w b where t: "t = a @ w @ b" and w: "length w = 52" "hd w \<in> {CHR ''K'', CHR ''L''}" "list_all base58_char w"
    and a: "a = [] \<or> \<not> base58_char (last a)" and b: "b = [] \<or> \<not> base58_char (hd b)" by (auto simp: shows_wif_def)
  from w(1) obtain c cs where c: "w = c # cs" by (cases w) auto
  from wif_free_suffix [of False a "w @ b"] f t a have "wif_free False (w @ b)" by (auto split: if_splits)
  moreover have "wif_at (w @ b)" using w b by (auto simp: wif_at_def c)
  ultimately show False by (simp add: c)
qed

lemma sanitizeText_free: "\<not> shows_wif (sanitizeText origin v)"
  unfolding sanitizeText_def by (intro wif_free_shows redact_free)

text \<open>A value that may be logged: no WIF in a text, and nothing but the mark under a sensitive key, at any depth.\<close>

fun log_safe :: "jsval \<Rightarrow> bool" where
  "log_safe (JStr s) = (\<not> shows_wif s)"
| "log_safe (JArr vs) = list_all log_safe vs"
| "log_safe (JObj kvs) = list_all (\<lambda>(k, v). (sensitive_key k \<longrightarrow> v = JStr REDACTED) \<and> log_safe v) kvs"
| "log_safe (JInst kvs) = False"
| "log_safe (JToJson kvs v) = False"
| "log_safe v = True"

lemma redacted_safe: "\<not> shows_wif REDACTED"
  using wif_free_shows [of REDACTED] wif_free_redacted [of "[]" False] by simp

lemma sensitive_redacted: "sensitive_key key \<Longrightarrow> sanitizeLogValue origin v key = JStr REDACTED"
  by (cases v) auto

lemma digits_insensitive: "list_all is_digit k \<Longrightarrow> \<not> sensitive_key k"
proof -
  assume d: "list_all is_digit k"
  have low: "to_lower k = k" using d by (intro to_lower_id) (auto simp: list_all_iff is_lower_hex_def)
  have nd: "\<not> is_digit (hd w)" "w \<noteq> []" if "w \<in> set sensitive_words" for w
    using that by (auto simp: sensitive_words_def is_digit_def cc_def)
  have first: "\<not> starts_with s w" if "list_all is_digit s" "w \<in> set sensitive_words" for s w
    using nd [OF that(2)] that(1) by (cases w; cases s) (auto simp: starts_with_def)
  have "\<not> word_in b s" if "list_all is_digit s" for b s
    using that
  proof (induction s arbitrary: b)
    case (Cons c cs)
    then show ?case using first [of "c # cs"] by (auto simp: word_at_def list_ex_iff)
  qed simp
  moreover have "\<not> ends_with k w" if "w \<in> set SENSITIVE_SUFFIXES" for w
  proof -
    have "\<not> is_digit (last w)" "w \<noteq> []" using that by (auto simp: SENSITIVE_SUFFIXES_def is_digit_def cc_def)
    then have "\<not> is_digit (hd (rev w))" "rev w \<noteq> []" by (auto simp: hd_rev)
    moreover have "list_all is_digit (rev k)" using d by (simp add: list_all_iff)
    ultimately show ?thesis by (cases "rev w"; cases "rev k") (auto simp: ends_with_def starts_with_def)
  qed
  ultimately show ?thesis using d by (auto simp: sensitive_key_def low list_ex_iff)
qed

lemma bytes_obj_digits: "(k, b) \<in> set (bytes_obj i bs) \<Longrightarrow> list_all is_digit k"
  by (induction i bs rule: bytes_obj.induct) (auto simp: dec_str_digits)

lemma sanitizeLogValue_safe:
  assumes "\<And>u r. origin u = Some r \<Longrightarrow> \<not> shows_wif r"
  shows "log_safe (sanitizeLogValue origin v key)"
  using assms
proof (induction origin v key rule: sanitizeLogValue.induct)
  case (1 origin s key)
  then show ?case by (auto simp: redacted_safe sanitizeText_free sanitizeUrl_def split: option.splits)
next
  case (2 origin vs key)
  then show ?case by (auto simp: redacted_safe list_all_iff)
next
  case (3 origin kvs key)
  then show ?case by (auto simp: redacted_safe list_all_iff sensitive_redacted)
next
  case (4 origin kvs key)
  then show ?case by (auto simp: redacted_safe list_all_iff sensitive_redacted)
next
  case (5 origin kvs r key)
  then show ?case by (auto simp: redacted_safe list_all_iff sensitive_redacted)
next
  case (6 origin bs key)
  have "\<not> sensitive_key k" if "(k, b) \<in> set (bytes_obj 0 bs)" for k b
    using that bytes_obj_digits digits_insensitive by blast
  then show ?case by (auto simp: redacted_safe list_all_iff)
qed (simp_all add: redacted_safe)

text \<open>
  C25: a log line is the sanitized message and the text of the sanitized context: the message shows no WIF, nor does
  any text in the context, and every value under a sensitive key is the mark, at any depth of nesting.
\<close>

theorem log_lines_redacted:
  assumes "\<And>u r. origin u = Some r \<Longrightarrow> \<not> shows_wif r"
    and "formatMessage origin timestamp level message context = Inr line"
  shows "\<exists>shown rest. line = ''['' @ timestamp @ ''] ['' @ level @ ''] '' @ shown @ rest \<and> \<not> shows_wif shown
    \<and> (case context of
         None \<Rightarrow> rest = []
       | Some c \<Rightarrow> \<exists>kvs t. log_safe (JObj kvs) \<and> map fst kvs = map fst c \<and> context_text (JObj kvs) = Inr t \<and> rest = '' '' @ t)"
proof -
  have safe: "log_safe (JObj (sanitizeContext origin c))" for c
    using sanitizeLogValue_safe [OF assms(1)] by (auto simp: sanitizeContext_def list_all_iff sensitive_redacted)
  have keys: "map fst (sanitizeContext origin c) = map fst c" for c
    by (simp add: sanitizeContext_def case_prod_unfold)
  obtain rest where line: "line = ''['' @ timestamp @ ''] ['' @ level @ ''] '' @ sanitizeText origin message @ rest"
    and rest: "case context of None \<Rightarrow> rest = [] | Some c \<Rightarrow> \<exists>t. context_text (JObj (sanitizeContext origin c)) = Inr t \<and> rest = '' '' @ t"
    using assms(2) by (cases "context") (auto simp: formatMessage_def result_simps)
  from rest have "case context of None \<Rightarrow> rest = []
       | Some c \<Rightarrow> \<exists>kvs t. log_safe (JObj kvs) \<and> map fst kvs = map fst c \<and> context_text (JObj kvs) = Inr t \<and> rest = '' '' @ t"
    using safe keys by (cases "context") auto
  with line sanitizeText_free show ?thesis by blast
qed

theorem log_lines_redacted_witness:
  "formatMessage (\<lambda>_. None) ''t'' ''INFO'' ''hi'' (Some [(''apiKey'', JStr ''k'')]) = Inr (''[t] [INFO] hi {'' @ [CHR 0x22] @ ''apiKey'' @ [CHR 0x22, CHR 0x3A, CHR 0x22] @ ''[REDACTED]'' @ [CHR 0x22] @ ''}'')
   \<and> (\<exists>shown rest. ''[t] [INFO] hi {'' @ [CHR 0x22] @ ''apiKey'' @ [CHR 0x22, CHR 0x3A, CHR 0x22] @ ''[REDACTED]'' @ [CHR 0x22] @ ''}'' = ''[t] [INFO] '' @ shown @ rest \<and> \<not> shows_wif shown)"
proof -
  have f: "formatMessage (\<lambda>_. None) ''t'' ''INFO'' ''hi'' (Some [(''apiKey'', JStr ''k'')]) = Inr (''[t] [INFO] hi {'' @ [CHR 0x22] @ ''apiKey'' @ [CHR 0x22, CHR 0x3A, CHR 0x22] @ ''[REDACTED]'' @ [CHR 0x22] @ ''}'')"
    by code_simp
  from log_lines_redacted [OF _ f] have "\<exists>shown rest. ''[t] [INFO] hi {'' @ [CHR 0x22] @ ''apiKey'' @ [CHR 0x22, CHR 0x3A, CHR 0x22] @ ''[REDACTED]'' @ [CHR 0x22] @ ''}'' = ''['' @ ''t'' @ ''] ['' @ ''INFO'' @ ''] '' @ shown @ rest \<and> \<not> shows_wif shown"
    by blast
  with f show ?thesis by simp
qed

section \<open>Rotation keeps the recent files\<close>

lemma cascade_above: "cascade fault n fs = (fs', ok) \<Longrightarrow> n < j \<Longrightarrow> fs' j = fs j"
  by (induction n arbitrary: fs) (auto split: option.splits if_splits)

lemma cascade_keeps: "cascade fault n fs = (fs', ok) \<Longrightarrow> j < n \<Longrightarrow> fs j = Some x \<Longrightarrow> fs' j = Some x \<or> fs' (Suc j) = Some x"
proof (induction n arbitrary: fs)
  case (Suc n)
  show ?case
  proof (cases "fs n")
    case None
    with Suc show ?thesis by (cases "j = n") auto
  next
    case (Some y)
    then show ?thesis using Suc cascade_above [of fault n "fs(Suc n := Some y, n := None)" fs' ok "Suc n"]
      by (cases "j = n") (auto split: if_splits)
  qed
qed simp

lemma cascade_shifts: "cascade fault n fs = (fs', True) \<Longrightarrow> j < n \<Longrightarrow> fs j = Some x \<Longrightarrow> fs' (Suc j) = Some x"
proof (induction n arbitrary: fs)
  case (Suc n)
  show ?case
  proof (cases "fs n")
    case None
    with Suc show ?thesis by (cases "j = n") auto
  next
    case (Some y)
    then show ?thesis using Suc cascade_above [of fault n "fs(Suc n := Some y, n := None)" fs' True "Suc n"]
      by (cases "j = n") (auto split: if_splits)
  qed
qed simp

lemma cascade_frees: "cascade fault n fs = (fs', True) \<Longrightarrow> 0 < n \<Longrightarrow> fs' 0 = None"
proof (induction n arbitrary: fs)
  case (Suc n)
  show ?case
  proof (cases "n = 0")
    case True
    with Suc.prems show ?thesis by (auto split: option.splits if_splits)
  next
    case False
    with Suc show ?thesis by (cases "fs n") (auto split: if_splits)
  qed
qed simp

lemma cascade_quiet: "(\<And>i. \<not> fault i) \<Longrightarrow> snd (cascade fault n fs)"
  by (induction n arbitrary: fs) (auto split: option.splits)

text \<open>
  Rotation loses at most the oldest file: every file below the last slot is still there afterwards, in its own slot
  or the next one, even when a rename fails; when none fails, a log that reached the limit moves on as a whole and its
  slot is free for a new one.
\<close>

lemma rotation_keeps:
  assumes "j < maxFiles" and "fs j = Some x"
  shows "(rotateLogFile fault maxSize maxFiles fs j = Some x \<or> rotateLogFile fault maxSize maxFiles fs (Suc j) = Some x)
    \<and> ((\<forall>i. \<not> fault i) \<and> (\<exists>y. fs 0 = Some y \<and> maxSize \<le> length (utf8_bytes y)) \<longrightarrow>
         rotateLogFile fault maxSize maxFiles fs (Suc j) = Some x \<and> rotateLogFile fault maxSize maxFiles fs 0 = None)"
proof -
  obtain fs' ok where c: "cascade fault maxFiles fs = (fs', ok)" by (cases "cascade fault maxFiles fs") auto
  have ok: "ok" if "\<forall>i. \<not> fault i" using cascade_quiet [of fault maxFiles fs] that c by simp
  have "rotateLogFile fault maxSize maxFiles fs = (case fs 0 of None \<Rightarrow> fs | Some y \<Rightarrow>
      if length (utf8_bytes y) < maxSize then fs else if ok then fs'(Suc maxFiles := None) else fs')"
    by (simp add: rotateLogFile_def c split: option.split bool.split)
  then show ?thesis using assms c ok cascade_keeps [OF c assms] cascade_shifts [of fault maxFiles fs fs' j x] cascade_frees [of fault maxFiles fs fs']
    by (auto split: option.splits if_splits)
qed

lemma rotation_keeps_witness:
  "(1 :: nat) < 3 \<and> rotateLogFile (\<lambda>_. False) 0 3 (\<lambda>i. if i = 0 then Some ''new'' else if i = 1 then Some ''old'' else None) 2 = Some ''old''"
  using rotation_keeps [of 1 3 "\<lambda>i. if i = 0 then Some ''new'' else if i = 1 then Some ''old'' else None" "''old''" "\<lambda>_. False" 0]
  by (simp add: numeral_2_eq_2)

text \<open>A level is compared by its number; a line below the level changes nothing.\<close>

lemma log_line_filtered: "level_number level < level_number (lg_level lg) \<Longrightarrow> log_line origin fault ts level message context lg = Inr lg"
  by (simp add: log_line_def)


end
